(* ===== verification/Hub_Prelude.thy ===== *)
theory Hub_Prelude
  imports Main "HOL-Library.Word" "HOL-Library.Char_ord" "HOL-Library.List_Lexorder"
    "HOL-Library.Product_Lexorder"
begin

text \<open>
  Shared vocabulary of the development: Go's strings, integers, times, errors and maps as the
  hub's packages use them, and the generic lemmas the component theories rest on.

  \<^item> A Go \<open>string\<close> is a byte sequence, so \<^typ>\<open>string\<close> (lists of 8-bit characters) is an exact
    model, and Go's \<open><\<close> on strings is the lexicographic order of \<open>List_Lexorder\<close>.
  \<^item> \<open>time.Time\<close> is the number of nanoseconds since Go's zero time; \<open>time.Duration\<close> is a number
    of nanoseconds. \<open>t.After(u)\<close> is \<open>u < t\<close>, \<open>t.Before(u)\<close> is \<open>t < u\<close>.
  \<^item> \<open>uint64\<close> and \<open>uint32\<close> counters are machine words; \<open>int64\<close> arithmetic is done on \<^typ>\<open>int\<close>
    and wrapped with \<open>wrap64\<close>.
  \<^item> A Go map is a HOL map. Go ranges over a map in an unspecified order, so every operation
    whose code ranges over a map takes that order as an argument, a duplicate-free list of the
    map's keys (\<open>enumerates\<close>).
\<close>

named_theorems hub_safe \<open>rules for "this monadic program takes legal steps only"\<close>

section \<open>Types\<close>

type_synonym time = int
type_synonym duration = int
type_synonym uint64 = "64 word"
type_synonym uint32 = "32 word"

definition zero_time :: time where
  "zero_time = 0"

definition IsZero :: "time \<Rightarrow> bool" where
  "IsZero t \<longleftrightarrow> t = 0"

text \<open>\<open>core.Problem\<close>, what an adapter says about a failure.\<close>

record problem =
  Problem_Category :: string
  Problem_Code :: string
  Problem_Message :: string
  Problem_Retryable :: bool
  Problem_Ambiguous :: bool

text \<open>The package-level error values of the repository and the two ways its code builds others:
  a fresh text and a wrapped error (\<open>fmt.Errorf\<close> with the verb \<open>%w\<close>, \<open>errors.Join\<close>); and
  \<open>federation.Error\<close> with its problem and cause.\<close>

datatype error =
    ErrNotFound
  | ErrConflict
  | ErrRevisionConflict
  | ErrLeaseLost
  | ErrQuotaExceeded
  | ErrWorkerPaused
  | ErrUnauthenticated
  | ErrForbidden
  | ErrInvalidPushCredential
  | ErrPushTaskMismatch
  | ErrPushInboxUnavailable
  | ErrUnavailable
  | ErrPolicy
  | ErrText string
  | ErrWrap string error
  | ErrJoin "error list"
  | ErrFederation problem "error option"

type_synonym 'a result = "error + 'a"

text \<open>\<open>errors.Is\<close>: equality, looking through wrapped and joined errors.\<close>

fun error_is :: "error \<Rightarrow> error \<Rightarrow> bool" where
  "error_is (ErrWrap m e) t = (ErrWrap m e = t \<or> error_is e t)"
| "error_is (ErrJoin es) t = (ErrJoin es = t \<or> (\<exists>e\<in>set es. error_is e t))"
| "error_is (ErrFederation p c) t = (ErrFederation p c = t \<or> (case c of None \<Rightarrow> False | Some e \<Rightarrow> error_is e t))"
| "error_is e t = (e = t)"

text \<open>\<open>errors.As(err, &adapterErr)\<close> with \<open>adapterErr *federation.Error\<close>: the problem of the first one
  found.\<close>

fun error_as_federation :: "error \<Rightarrow> problem option"
  and errors_as_federation :: "error list \<Rightarrow> problem option" where
  "error_as_federation (ErrFederation p c) = Some p"
| "error_as_federation (ErrWrap m e) = error_as_federation e"
| "error_as_federation (ErrJoin es) = errors_as_federation es"
| "error_as_federation e = None"
| "errors_as_federation [] = None"
| "errors_as_federation (e # es) =
     (case error_as_federation e of Some p \<Rightarrow> Some p | None \<Rightarrow> errors_as_federation es)"

section \<open>Machine integers\<close>

definition wrap64 :: "int \<Rightarrow> int" where
  "wrap64 x = (x + 2 ^ 63) mod 2 ^ 64 - 2 ^ 63"

definition int64 :: "int \<Rightarrow> bool" where
  "int64 x \<longleftrightarrow> - (2 ^ 63) \<le> x \<and> x < 2 ^ 63"

lemma wrap64_id [simp]: "int64 x \<Longrightarrow> wrap64 x = x"
  by (simp add: wrap64_def int64_def)

lemma wrap64_range [simp]: "int64 (wrap64 x)"
proof -
  have "0 \<le> (x + 2 ^ 63) mod 2 ^ 64" and "(x + 2 ^ 63) mod 2 ^ 64 < (2 ^ 64 :: int)"
    by simp_all
  then show ?thesis by (simp add: wrap64_def int64_def)
qed

section \<open>Strings\<close>

text \<open>The UTF-8 encodings of the white space that \<open>unicode.IsSpace\<close> accepts.\<close>

definition space_encodings :: "string list" where
  "space_encodings =
     [[CHR 0x09], [CHR 0x0A], [CHR 0x0B], [CHR 0x0C], [CHR 0x0D], [CHR 0x20],
      [CHR 0xC2, CHR 0x85], [CHR 0xC2, CHR 0xA0], [CHR 0xE1, CHR 0x9A, CHR 0x80],
      [CHR 0xE2, CHR 0x80, CHR 0x80], [CHR 0xE2, CHR 0x80, CHR 0x81],
      [CHR 0xE2, CHR 0x80, CHR 0x82], [CHR 0xE2, CHR 0x80, CHR 0x83],
      [CHR 0xE2, CHR 0x80, CHR 0x84], [CHR 0xE2, CHR 0x80, CHR 0x85],
      [CHR 0xE2, CHR 0x80, CHR 0x86], [CHR 0xE2, CHR 0x80, CHR 0x87],
      [CHR 0xE2, CHR 0x80, CHR 0x88], [CHR 0xE2, CHR 0x80, CHR 0x89],
      [CHR 0xE2, CHR 0x80, CHR 0x8A], [CHR 0xE2, CHR 0x80, CHR 0xA8],
      [CHR 0xE2, CHR 0x80, CHR 0xA9], [CHR 0xE2, CHR 0x80, CHR 0xAF],
      [CHR 0xE2, CHR 0x81, CHR 0x9F], [CHR 0xE3, CHR 0x80, CHR 0x80]]"

text \<open>Removing one of a list of non-empty prefixes as long as one matches. The recursion is on
  an upper bound of the number of removals, the length of the string.\<close>

primrec strip_n :: "nat \<Rightarrow> string list \<Rightarrow> string \<Rightarrow> string" where
  "strip_n 0 ps s = s"
| "strip_n (Suc n) ps s =
     (case find (\<lambda>p. take (length p) s = p) ps of
        None \<Rightarrow> s
      | Some p \<Rightarrow> strip_n n ps (drop (length p) s))"

text \<open>\<open>strings.TrimSpace\<close>.\<close>

definition TrimSpace :: "string \<Rightarrow> string" where
  "TrimSpace s =
     (let l = strip_n (length s) space_encodings s
      in rev (strip_n (length l) (map rev space_encodings) (rev l)))"

text \<open>\<open>strings.ToUpper\<close>, exact on ASCII and on the two other letters whose upper case is ASCII
  (U+0131 and U+017F). Other non-ASCII text is kept: it stays non-ASCII in Go as well, which is
  all that the comparisons with ASCII constants made here depend on.\<close>

fun ToUpper :: "string \<Rightarrow> string" where
  "ToUpper [] = []"
| "ToUpper (c # cs) =
     (if c = CHR 0xC4 \<and> cs \<noteq> [] \<and> hd cs = CHR 0xB1 then CHR ''I'' # ToUpper (tl cs)
      else if c = CHR 0xC5 \<and> cs \<noteq> [] \<and> hd cs = CHR 0xBF then CHR ''S'' # ToUpper (tl cs)
      else if (of_char c :: nat) \<ge> 97 \<and> (of_char c :: nat) \<le> 122
        then char_of ((of_char c :: nat) - 32) # ToUpper cs
      else c # ToUpper cs)"

text \<open>\<open>strings.ToLower\<close>, exact on ASCII and on the two other letters whose lower case is ASCII
  (U+0130 and U+212A).\<close>

fun ToLower :: "string \<Rightarrow> string" where
  "ToLower [] = []"
| "ToLower (c # cs) =
     (if c = CHR 0xC4 \<and> cs \<noteq> [] \<and> hd cs = CHR 0xB0 then CHR ''i'' # ToLower (tl cs)
      else if c = CHR 0xE2 \<and> take 2 cs = [CHR 0x84, CHR 0xAA] then CHR ''k'' # ToLower (drop 2 cs)
      else if (of_char c :: nat) \<ge> 65 \<and> (of_char c :: nat) \<le> 90
        then char_of ((of_char c :: nat) + 32) # ToLower cs
      else c # ToLower cs)"

text \<open>\<open>strings.Split\<close> and \<open>strings.Cut\<close> at a one-byte separator, \<open>strings.Join\<close>.\<close>

fun split_at :: "char \<Rightarrow> string \<Rightarrow> string list" where
  "split_at c [] = [[]]"
| "split_at c (x # xs) =
     (if x = c then [] # split_at c xs
      else case split_at c xs of [] \<Rightarrow> [[x]] | p # ps \<Rightarrow> (x # p) # ps)"

fun join_with :: "string \<Rightarrow> string list \<Rightarrow> string" where
  "join_with sep [] = []"
| "join_with sep [s] = s"
| "join_with sep (s # t # ss) = s @ sep @ join_with sep (t # ss)"

definition has_prefix :: "string \<Rightarrow> string \<Rightarrow> bool" where
  "has_prefix s p \<longleftrightarrow> take (length p) s = p"

definition has_suffix :: "string \<Rightarrow> string \<Rightarrow> bool" where
  "has_suffix s p \<longleftrightarrow> length p \<le> length s \<and> drop (length s - length p) s = p"

text \<open>Decimal rendering, \<open>fmt.Sprintf("%d", n)\<close>.\<close>

definition digit_char :: "nat \<Rightarrow> char" where
  "digit_char d = char_of (48 + d)"

fun nat_digits :: "nat \<Rightarrow> string" where
  "nat_digits n = (if n < 10 then [digit_char n] else nat_digits (n div 10) @ [digit_char (n mod 10)])"

declare nat_digits.simps [simp del]

definition int_digits :: "int \<Rightarrow> string" where
  "int_digits i = (if i < 0 then CHR ''-'' # nat_digits (nat (- i)) else nat_digits (nat i))"

definition nul :: char where
  "nul = CHR 0x00"

definition nul_free :: "string \<Rightarrow> bool" where
  "nul_free s \<longleftrightarrow> nul \<notin> set s"

text \<open>The two halves of a string joined by a separator that the first half does not contain.\<close>

lemma sep_append_inj:
  assumes "c \<notin> set a" and "c \<notin> set a'" and "a @ c # b = a' @ c # b'"
  shows "a = a' \<and> b = b'"
  using assms
proof (induction a arbitrary: a')
  case Nil
  then show ?case by (cases a') auto
next
  case (Cons x a)
  then show ?case by (cases a') auto
qed

section \<open>Maps and the order in which Go ranges over them\<close>

definition enumerates :: "'k list \<Rightarrow> ('k \<rightharpoonup> 'v) \<Rightarrow> bool" where
  "enumerates ks m \<longleftrightarrow> distinct ks \<and> set ks = dom m"

text \<open>\<open>v := m[k]\<close>: a missing key gives the zero value.\<close>

definition get_or :: "'v \<Rightarrow> ('k \<rightharpoonup> 'v) \<Rightarrow> 'k \<Rightarrow> 'v" where
  "get_or z m k = (case m k of None \<Rightarrow> z | Some v \<Rightarrow> v)"

lemma get_or_upd [simp]: "get_or z (m(k \<mapsto> v)) k' = (if k' = k then v else get_or z m k')"
  by (simp add: get_or_def)

lemma get_or_Some [simp]: "m k = Some v \<Longrightarrow> get_or z m k = v"
  by (simp add: get_or_def)

lemma get_or_None [simp]: "m k = None \<Longrightarrow> get_or z m k = z"
  by (simp add: get_or_def)

text \<open>Sorting the keys of a map by an injective key makes the order of the range irrelevant.\<close>

lemma sort_key_order_irrelevant:
  assumes "distinct xs" and "distinct ys" and "set xs = set ys" and "inj_on f (set xs)"
  shows "sort_key f xs = sort_key f ys"
proof (rule map_sorted_distinct_set_unique [where f = f])
  show "inj_on f (set (sort_key f xs) \<union> set (sort_key f ys))" using assms by simp
  show "distinct (map f (sort_key f xs))" "distinct (map f (sort_key f ys))"
    using assms by (simp_all add: distinct_map)
qed (use assms in simp_all)

lemma take_sort_key_sub: "k \<in> set (take n (sort_key f xs)) \<Longrightarrow> k \<in> set xs"
  by (metis in_set_takeD set_sort)

lemma distinct_take_sort_key: "distinct xs \<Longrightarrow> distinct (take n (sort_key f xs))"
  by (simp add: distinct_take)

end
