(* ===== verification/Core_Model.thy ===== *)
theory Core_Model
  imports Hub_Prelude
begin

text \<open>
  The data model of \<open>internal/core/model.go\<close> and of the adapter boundary
  \<open>internal/federation/adapter.go\<close>. Every struct is a record whose fields carry the struct's
  name as a prefix (\<open>Task_State\<close> is the field \<open>State\<close> of \<open>Task\<close>), every string-typed enumeration
  is a datatype with one constructor per constant, one for Go's zero value \<open>""\<close> where the code
  can see it, and, where values arrive from outside the hub, one for any other string. A pointer
  field is an option. JSON values held in an \<open>any\<close> are a datatype, so that marshalling them
  cannot fail.
\<close>

section \<open>Enumerations\<close>

datatype TaskState =
    TaskStateUnset
  | TaskStateUnknown
  | TaskStateSubmitted
  | TaskStateWorking
  | TaskStateInputRequired
  | TaskStateAuthRequired
  | TaskStateCompleted
  | TaskStateFailed
  | TaskStateCanceled
  | TaskStateRejected
  | TaskStateOther string

fun task_state_string :: "TaskState \<Rightarrow> string" where
  "task_state_string TaskStateUnset = ''''"
| "task_state_string TaskStateUnknown = ''UNKNOWN''"
| "task_state_string TaskStateSubmitted = ''SUBMITTED''"
| "task_state_string TaskStateWorking = ''WORKING''"
| "task_state_string TaskStateInputRequired = ''INPUT_REQUIRED''"
| "task_state_string TaskStateAuthRequired = ''AUTH_REQUIRED''"
| "task_state_string TaskStateCompleted = ''COMPLETED''"
| "task_state_string TaskStateFailed = ''FAILED''"
| "task_state_string TaskStateCanceled = ''CANCELED''"
| "task_state_string TaskStateRejected = ''REJECTED''"
| "task_state_string (TaskStateOther s) = s"

definition TaskState_Terminal :: "TaskState \<Rightarrow> bool" where
  "TaskState_Terminal s \<longleftrightarrow>
     s = TaskStateCompleted \<or> s = TaskStateFailed \<or> s = TaskStateCanceled \<or> s = TaskStateRejected"

datatype WorkflowState =
    WorkflowStateUnset
  | WorkflowStatePending
  | WorkflowStateRunning
  | WorkflowStateWaitingInput
  | WorkflowStateCompleted
  | WorkflowStateFailed
  | WorkflowStatePartiallyFailed
  | WorkflowStateCompensating
  | WorkflowStateCompensated
  | WorkflowStateCanceled
  | WorkflowStatePaused

fun workflow_state_string :: "WorkflowState \<Rightarrow> string" where
  "workflow_state_string WorkflowStateUnset = ''''"
| "workflow_state_string WorkflowStatePending = ''PENDING''"
| "workflow_state_string WorkflowStateRunning = ''RUNNING''"
| "workflow_state_string WorkflowStateWaitingInput = ''WAITING_INPUT''"
| "workflow_state_string WorkflowStateCompleted = ''COMPLETED''"
| "workflow_state_string WorkflowStateFailed = ''FAILED''"
| "workflow_state_string WorkflowStatePartiallyFailed = ''PARTIALLY_FAILED''"
| "workflow_state_string WorkflowStateCompensating = ''COMPENSATING''"
| "workflow_state_string WorkflowStateCompensated = ''COMPENSATED''"
| "workflow_state_string WorkflowStateCanceled = ''CANCELED''"
| "workflow_state_string WorkflowStatePaused = ''PAUSED''"

definition WorkflowState_Terminal :: "WorkflowState \<Rightarrow> bool" where
  "WorkflowState_Terminal s \<longleftrightarrow>
     s = WorkflowStateCompleted \<or> s = WorkflowStateFailed \<or> s = WorkflowStatePartiallyFailed \<or>
     s = WorkflowStateCompensated \<or> s = WorkflowStateCanceled"

datatype DeliveryState = DeliveryUnset | DeliveryPending | DeliveryAcknowledged | DeliveryAmbiguous

datatype PartKind = PartText | PartFile | PartData | PartOther string

datatype OutboxStatus =
    OutboxStatusUnset | OutboxPending | OutboxAcked | OutboxDeadLettered | OutboxPurged

datatype ArtifactObjectStatus =
    ArtifactObjectUnset | ArtifactObjectPending | ArtifactObjectAvailable | ArtifactObjectQuarantined
  | ArtifactObjectFailed | ArtifactObjectDeleting | ArtifactObjectDeleted

datatype ArtifactScanStatus =
    ArtifactScanUnset | ArtifactScanClean | ArtifactScanInfected | ArtifactScanError
  | ArtifactScanNotScanned

datatype AgentHealth =
    AgentHealthUnset | AgentHealthUnknown | AgentHealthHealthy | AgentHealthUnhealthy | AgentHealthStale

section \<open>JSON values\<close>

datatype json =
    JNull | JBool bool | JNum string | JStr string | JArr "json list" | JObj "(string \<times> json) list"

section \<open>Parts and artifacts\<close>

record part =
  Part_Kind :: PartKind
  Part_MediaType :: string
  Part_Filename :: string
  Part_Text :: string
  Part_BytesBase64 :: string
  Part_URI :: string
  Part_Data :: "json option"
  Part_ObjectID :: string
  Part_SizeBytes :: int
  Part_SHA256 :: string

record artifact =
  Artifact_ID :: string
  Artifact_Name :: string
  Artifact_Description :: string
  Artifact_Parts :: "part list"
  Artifact_Complete :: bool

section \<open>Agents and tasks\<close>

record agent =
  Agent_ID :: string
  Agent_TenantID :: string
  Agent_CardURL :: string
  Agent_Name :: string
  Agent_ProviderVersion :: string
  Agent_ProtocolBinding :: string
  Agent_ProtocolVersion :: string
  Agent_Endpoint :: string
  Agent_Streaming :: bool
  Agent_PushNotifications :: bool
  Agent_SecuritySchemes :: "string list"
  Agent_CardSignatureVerified :: bool
  Agent_CardSignatureKeyID :: string
  Agent_Skills :: "string list"
  Agent_Extensions :: "string list"
  Agent_CredentialEnv :: "string \<rightharpoonup> string"
  Agent_RegistrationSource :: string
  Agent_RegistryEndpoint :: string
  Agent_LastRegistrySyncAt :: "time option"
  Agent_HealthStatus :: AgentHealth
  Agent_HealthMessage :: string
  Agent_LastHealthCheckAt :: "time option"
  Agent_CreatedAt :: time
  Agent_UpdatedAt :: time

record task =
  Task_ID :: string
  Task_TenantID :: string
  Task_AgentID :: string
  Task_MessageID :: string
  Task_InputDigest :: string
  Task_IdempotencyKey :: string
  Task_RequestedExtensions :: "string list"
  Task_ExtensionMetadata :: "(string \<times> json) list"
  Task_Priority :: int
  Task_RemoteTaskID :: string
  Task_RemoteContextID :: string
  Task_State :: TaskState
  Task_Delivery :: DeliveryState
  Task_CancelRequested :: bool
  Task_PushTokenHash :: string
  Task_Artifacts :: "artifact list"
  Task_Problem :: "problem option"
  Task_LastRemoteObservedAt :: "time option"
  Task_CreatedAt :: time
  Task_UpdatedAt :: time
  Task_Revision :: uint64
  Task_LastSequence :: uint64

definition zero_task :: task where
  "zero_task =
     \<lparr>Task_ID = '''', Task_TenantID = '''', Task_AgentID = '''', Task_MessageID = '''',
      Task_InputDigest = '''', Task_IdempotencyKey = '''', Task_RequestedExtensions = [],
      Task_ExtensionMetadata = [], Task_Priority = 0, Task_RemoteTaskID = '''',
      Task_RemoteContextID = '''', Task_State = TaskStateUnset, Task_Delivery = DeliveryUnset,
      Task_CancelRequested = False, Task_PushTokenHash = '''', Task_Artifacts = [],
      Task_Problem = None, Task_LastRemoteObservedAt = None, Task_CreatedAt = zero_time,
      Task_UpdatedAt = zero_time, Task_Revision = 0, Task_LastSequence = 0\<rparr>"

record event =
  Event_ID :: string
  Event_DedupKey :: string
  Event_TaskID :: string
  Event_TenantID :: string
  Event_Sequence :: uint64
  Event_Type :: string
  Event_Source :: string
  Event_State :: TaskState
  Event_Artifact :: "artifact option"
  Event_Problem :: "problem option"
  Event_ObservedAt :: "time option"
  Event_CreatedAt :: time

definition zero_event :: event where
  "zero_event =
     \<lparr>Event_ID = '''', Event_DedupKey = '''', Event_TaskID = '''', Event_TenantID = '''',
      Event_Sequence = 0, Event_Type = '''', Event_Source = '''', Event_State = TaskStateUnset,
      Event_Artifact = None, Event_Problem = None, Event_ObservedAt = None,
      Event_CreatedAt = zero_time\<rparr>"

section \<open>The adapter boundary\<close>

record artifact_update =
  Update_Artifact :: artifact
  Update_Append :: bool

record observation =
  Obs_DedupKey :: string
  Obs_Source :: string
  Obs_RemoteTaskID :: string
  Obs_RemoteContextID :: string
  Obs_State :: TaskState
  Obs_Artifacts :: "artifact_update list"
  Obs_Problem :: "problem option"
  Obs_RemoteObservedAt :: "time option"
  Obs_CancelRequested :: bool
  Obs_Final :: bool

section \<open>Workflows\<close>

record workflow_artifact_input =
  WAI_FromStepID :: string
  WAI_ArtifactID :: string
  WAI_PartIndex :: "int option"

record workflow_step =
  Step_ID :: string
  Step_AgentID :: string
  Step_Skill :: string
  Step_DependsOn :: "string list"
  Step_ArtifactInputs :: "workflow_artifact_input list"
  Step_InputRef :: string
  Step_InputDigest :: string
  Step_TaskID :: string
  Step_State :: TaskState
  Step_Required :: bool
  Step_Attempt :: uint32
  Step_CompensationText :: string
  Step_CompensationTaskID :: string
  Step_CompensationState :: TaskState
  Step_Problem :: "problem option"
  Step_CompensationProblem :: "problem option"

record workflow =
  Workflow_ID :: string
  Workflow_TenantID :: string
  Workflow_Name :: string
  Workflow_DefinitionVersion :: int
  Workflow_IdempotencyKey :: string
  Workflow_MaxConcurrency :: int
  Workflow_State :: WorkflowState
  Workflow_Steps :: "workflow_step list"
  Workflow_CreatedAt :: time
  Workflow_UpdatedAt :: time
  Workflow_PausedFrom :: WorkflowState
  Workflow_Revision :: uint64
  Workflow_LastSequence :: uint64

definition zero_workflow :: workflow where
  "zero_workflow =
     \<lparr>Workflow_ID = '''', Workflow_TenantID = '''', Workflow_Name = '''',
      Workflow_DefinitionVersion = 0, Workflow_IdempotencyKey = '''', Workflow_MaxConcurrency = 0,
      Workflow_State = WorkflowStateUnset, Workflow_Steps = [], Workflow_CreatedAt = zero_time,
      Workflow_UpdatedAt = zero_time, Workflow_PausedFrom = WorkflowStateUnset,
      Workflow_Revision = 0, Workflow_LastSequence = 0\<rparr>"

record workflow_event =
  WEvent_ID :: string
  WEvent_DedupKey :: string
  WEvent_WorkflowID :: string
  WEvent_TenantID :: string
  WEvent_Sequence :: uint64
  WEvent_Type :: string
  WEvent_Source :: string
  WEvent_State :: WorkflowState
  WEvent_StepID :: string
  WEvent_Problem :: "problem option"
  WEvent_CreatedAt :: time

definition zero_workflow_event :: workflow_event where
  "zero_workflow_event =
     \<lparr>WEvent_ID = '''', WEvent_DedupKey = '''', WEvent_WorkflowID = '''', WEvent_TenantID = '''',
      WEvent_Sequence = 0, WEvent_Type = '''', WEvent_Source = '''',
      WEvent_State = WorkflowStateUnset, WEvent_StepID = '''', WEvent_Problem = None,
      WEvent_CreatedAt = zero_time\<rparr>"

record worker_control =
  Control_Scope :: string
  Control_Mode :: string
  Control_Revision :: uint64
  Control_UpdatedAt :: time

section \<open>Leases, inbox and outbox\<close>

text \<open>A payload is the JSON text of an event (written by \<open>outboxFromEvent\<close>), of an observation
  (written by \<open>AcceptPush\<close>), or any other bytes a caller passes.\<close>

datatype payload = PayloadEvent event | PayloadObservation observation | PayloadRaw string

record work_lease =
  WorkLease_Task :: task
  WorkLease_Owner :: string
  WorkLease_ExpiresAt :: time
  WorkLease_Attempt :: uint32

record inbox_item =
  Inbox_ID :: string
  Inbox_TenantID :: string
  Inbox_TaskID :: string
  Inbox_DedupKey :: string
  Inbox_Protocol :: string
  Inbox_Payload :: payload
  Inbox_CreatedAt :: time

record inbox_lease =
  InboxLease_Item :: inbox_item
  InboxLease_Owner :: string
  InboxLease_ExpiresAt :: time
  InboxLease_Attempt :: uint32

record outbox_item =
  Outbox_ID :: string
  Outbox_TenantID :: string
  Outbox_TaskID :: string
  Outbox_DedupKey :: string
  Outbox_Topic :: string
  Outbox_Payload :: payload
  Outbox_CreatedAt :: time

record outbox_lease =
  OutboxLease_Item :: outbox_item
  OutboxLease_Owner :: string
  OutboxLease_ExpiresAt :: time
  OutboxLease_Attempt :: uint32

record outbox_record =
  ORecord_Item :: outbox_item
  ORecord_Status :: OutboxStatus
  ORecord_Attempts :: uint32
  ORecord_AvailableAt :: time
  ORecord_LastError :: string
  ORecord_AckedAt :: "time option"
  ORecord_DeadLetterAt :: "time option"
  ORecord_PurgedAt :: "time option"

section \<open>Revocations and artifact objects\<close>

record token_revocation =
  Revocation_Issuer :: string
  Revocation_TokenID :: string
  Revocation_TenantID :: string
  Revocation_Reason :: string
  Revocation_RevokedAt :: time
  Revocation_ExpiresAt :: time

record artifact_object =
  Object_ID :: string
  Object_TenantID :: string
  Object_TaskID :: string
  Object_ArtifactID :: string
  Object_PartIndex :: int
  Object_StorageKey :: string
  Object_SHA256 :: string
  Object_SizeBytes :: int
  Object_DeclaredMediaType :: string
  Object_DetectedMediaType :: string
  Object_Filename :: string
  Object_SourceURI :: string
  Object_Status :: ArtifactObjectStatus
  Object_ScanStatus :: ArtifactScanStatus
  Object_CreatedAt :: time
  Object_UpdatedAt :: time
  Object_ExpiresAt :: time
  Object_DeletedAt :: "time option"
  Object_FailureCode :: string

record artifact_quota =
  Quota_MaxBytes :: int
  Quota_MaxObjects :: int

record artifact_usage =
  Usage_TenantID :: string
  Usage_Bytes :: int
  Usage_Objects :: int

record artifact_deletion_lease =
  DeletionLease_Object :: artifact_object
  DeletionLease_Owner :: string
  DeletionLease_ExpiresAt :: time
  DeletionLease_Attempt :: uint32

lemma task_terminal_simps [simp]:
  "\<not> TaskState_Terminal TaskStateUnset" "\<not> TaskState_Terminal TaskStateUnknown"
  "\<not> TaskState_Terminal TaskStateSubmitted" "\<not> TaskState_Terminal TaskStateWorking"
  "\<not> TaskState_Terminal TaskStateInputRequired" "\<not> TaskState_Terminal TaskStateAuthRequired"
  "TaskState_Terminal TaskStateCompleted" "TaskState_Terminal TaskStateFailed"
  "TaskState_Terminal TaskStateCanceled" "TaskState_Terminal TaskStateRejected"
  "\<not> TaskState_Terminal (TaskStateOther s)"
  by (simp_all add: TaskState_Terminal_def)

end
