(* ===== verification/Journal_Store.thy ===== *)
theory Journal_Store
  imports Core_Model
begin

text \<open>
  The state of \<open>JournalStore\<close> (\<open>internal/core/store.go\<close>): the in-memory maps, the append-only
  journal file, \<open>applyRecord\<close>, \<open>append\<close> and \<open>replay\<close>. Every store operation runs under the store's
  mutex, so an operation is one atomic step here.

  The journal is the list of its lines. A line is the JSON text of a record, or the torn prefix of
  one that an interrupted write leaves behind and no decoder accepts. Decoding the JSON text of a
  record gives the record back except for fields tagged \<open>json:"-"\<close>, of which
  \<open>ArtifactObject.StorageKey\<close> is the only one: \<open>journal_decode\<close> is that round trip.

  What the disk does to one \<open>append\<close> is an argument of the operation (\<open>append_io\<close>).
\<close>

section \<open>State\<close>

record leaseState =
  Lease_Owner :: string
  Lease_ExpiresAt :: time
  Lease_AvailableAt :: time
  Lease_Attempt :: uint32

record inboxState =
  IState_Owner :: string
  IState_ExpiresAt :: time
  IState_AvailableAt :: time
  IState_Attempt :: uint32
  IState_Acked :: bool

record outboxState =
  OState_Owner :: string
  OState_ExpiresAt :: time
  OState_AvailableAt :: time
  OState_Attempt :: uint32
  OState_Acked :: bool
  OState_DeadLettered :: bool
  OState_Purged :: bool
  OState_LastError :: string
  OState_AckedAt :: time
  OState_DeadLetterAt :: time
  OState_PurgedAt :: time

record artifactLeaseState =
  ALease_Owner :: string
  ALease_ExpiresAt :: time
  ALease_AvailableAt :: time
  ALease_Attempt :: uint32

definition zero_leaseState :: leaseState where
  "zero_leaseState = \<lparr>Lease_Owner = '''', Lease_ExpiresAt = zero_time,
     Lease_AvailableAt = zero_time, Lease_Attempt = 0\<rparr>"

definition zero_inboxState :: inboxState where
  "zero_inboxState = \<lparr>IState_Owner = '''', IState_ExpiresAt = zero_time,
     IState_AvailableAt = zero_time, IState_Attempt = 0, IState_Acked = False\<rparr>"

definition zero_outboxState :: outboxState where
  "zero_outboxState = \<lparr>OState_Owner = '''', OState_ExpiresAt = zero_time,
     OState_AvailableAt = zero_time, OState_Attempt = 0, OState_Acked = False,
     OState_DeadLettered = False, OState_Purged = False, OState_LastError = '''',
     OState_AckedAt = zero_time, OState_DeadLetterAt = zero_time, OState_PurgedAt = zero_time\<rparr>"

definition zero_artifactLeaseState :: artifactLeaseState where
  "zero_artifactLeaseState = \<lparr>ALease_Owner = '''', ALease_ExpiresAt = zero_time,
     ALease_AvailableAt = zero_time, ALease_Attempt = 0\<rparr>"

record journalRecord =
  R_Version :: int
  R_Kind :: string
  R_Agent :: "agent option"
  R_Task :: "task option"
  R_Event :: "event option"
  R_TaskKey :: string
  R_Lease :: "leaseState option"
  R_Inbox :: "inbox_item option"
  R_InboxID :: string
  R_InboxState :: "inboxState option"
  R_Outbox :: "outbox_item option"
  R_OutboxID :: string
  R_OutboxState :: "outboxState option"
  R_Revocation :: "token_revocation option"
  R_ArtifactObject :: "artifact_object option"
  R_ArtifactUsage :: "artifact_usage option"
  R_ArtifactLeaseID :: string
  R_ArtifactLease :: "artifactLeaseState option"
  R_Workflow :: "workflow option"
  R_WorkflowEvent :: "workflow_event option"
  R_WorkflowKey :: string
  R_WorkerControl :: "worker_control option"

text \<open>\<open>journalRecord{Version: 1, Kind: kind}\<close>, the literal every operation starts from.\<close>

definition record1 :: "string \<Rightarrow> journalRecord" where
  "record1 kind =
     \<lparr>R_Version = 1, R_Kind = kind, R_Agent = None, R_Task = None, R_Event = None, R_TaskKey = '''',
      R_Lease = None, R_Inbox = None, R_InboxID = '''', R_InboxState = None, R_Outbox = None,
      R_OutboxID = '''', R_OutboxState = None, R_Revocation = None, R_ArtifactObject = None,
      R_ArtifactUsage = None, R_ArtifactLeaseID = '''', R_ArtifactLease = None,
      R_Workflow = None, R_WorkflowEvent = None, R_WorkflowKey = '''', R_WorkerControl = None\<rparr>"

datatype journal_line = Line journalRecord | Torn

record journal_store =
  jfile :: "journal_line list option"
  agents :: "string \<rightharpoonup> agent"
  tasks :: "string \<rightharpoonup> task"
  events :: "string \<Rightarrow> event list"
  dedupKeys :: "string \<Rightarrow> string set"
  leases :: "string \<rightharpoonup> leaseState"
  inbox :: "string \<rightharpoonup> inbox_item"
  inboxDedup :: "string \<rightharpoonup> string"
  inboxStates :: "string \<rightharpoonup> inboxState"
  outbox :: "string \<rightharpoonup> outbox_item"
  outboxDedup :: "string \<rightharpoonup> string"
  outboxStates :: "string \<rightharpoonup> outboxState"
  revocations :: "string \<rightharpoonup> token_revocation"
  artifactObjects :: "string \<rightharpoonup> artifact_object"
  artifactUsage :: "string \<rightharpoonup> artifact_usage"
  artifactLeases :: "string \<rightharpoonup> artifactLeaseState"
  workflows :: "string \<rightharpoonup> workflow"
  workflowDedup :: "string \<Rightarrow> string set"
  workerControls :: "string \<rightharpoonup> worker_control"

definition empty_store :: "journal_line list option \<Rightarrow> journal_store" where
  "empty_store f =
     \<lparr>jfile = f, agents = Map.empty, tasks = Map.empty, events = (\<lambda>_. []), dedupKeys = (\<lambda>_. {}),
      leases = Map.empty, inbox = Map.empty, inboxDedup = Map.empty, inboxStates = Map.empty,
      outbox = Map.empty, outboxDedup = Map.empty, outboxStates = Map.empty,
      revocations = Map.empty, artifactObjects = Map.empty, artifactUsage = Map.empty,
      artifactLeases = Map.empty, workflows = Map.empty, workflowDedup = (\<lambda>_. {}),
      workerControls = Map.empty\<rparr>"

section \<open>Keys\<close>

definition resourceKey :: "string \<Rightarrow> string \<Rightarrow> string" where
  "resourceKey tenantID rid = tenantID @ nul # rid"

definition inboxDedupKey :: "inbox_item \<Rightarrow> string" where
  "inboxDedupKey item = Inbox_TenantID item @ nul # Inbox_TaskID item @ nul # Inbox_DedupKey item"

definition outboxDedupKey :: "outbox_item \<Rightarrow> string" where
  "outboxDedupKey item = Outbox_TenantID item @ nul # Outbox_TaskID item @ nul # Outbox_DedupKey item"

definition revocationKey :: "string \<Rightarrow> string \<Rightarrow> string \<Rightarrow> string" where
  "revocationKey issuer tokenID tenantID = issuer @ nul # tokenID @ nul # tenantID"

section \<open>Applying a record\<close>

definition put_outbox :: "outbox_item \<Rightarrow> journal_store \<Rightarrow> journal_store" where
  "put_outbox item s =
     s\<lparr>outbox := (outbox s)(Outbox_ID item \<mapsto> item),
       outboxDedup := (outboxDedup s)(outboxDedupKey item \<mapsto> Outbox_ID item)\<rparr>"

definition put_artifact_lease :: "journalRecord \<Rightarrow> journal_store \<Rightarrow> journal_store" where
  "put_artifact_lease r s =
     (case R_ArtifactLease r of
        Some l \<Rightarrow> if R_ArtifactLeaseID r \<noteq> '''' then s\<lparr>artifactLeases := (artifactLeases s)(R_ArtifactLeaseID r \<mapsto> l)\<rparr> else s
      | None \<Rightarrow> s)"

definition apply_agent :: "journalRecord \<Rightarrow> journal_store \<Rightarrow> journal_store" where
  "apply_agent r s =
     (case R_Agent r of
        Some a \<Rightarrow> s\<lparr>agents := (agents s)(resourceKey (Agent_TenantID a) (Agent_ID a) \<mapsto> a)\<rparr>
      | None \<Rightarrow> s)"

definition apply_task :: "journalRecord \<Rightarrow> journal_store \<Rightarrow> journal_store" where
  "apply_task r s =
     (case R_Task r of
        None \<Rightarrow> s
      | Some t \<Rightarrow>
          (let key = resourceKey (Task_TenantID t) (Task_ID t);
               s1 = s\<lparr>tasks := (tasks s)(key \<mapsto> t)\<rparr>;
               s2 = (case R_Event r of
                       None \<Rightarrow> s1
                     | Some e \<Rightarrow> s1\<lparr>events := (events s1)(key := events s1 key @ [e]),
                                    dedupKeys := (dedupKeys s1)(key := insert (Event_DedupKey e) (dedupKeys s1 key))\<rparr>)
           in case R_Outbox r of None \<Rightarrow> s2 | Some i \<Rightarrow> put_outbox i s2))"

definition apply_lease :: "journalRecord \<Rightarrow> journal_store \<Rightarrow> journal_store" where
  "apply_lease r s =
     (case R_Lease r of
        Some l \<Rightarrow> if R_TaskKey r \<noteq> '''' then s\<lparr>leases := (leases s)(R_TaskKey r \<mapsto> l)\<rparr> else s
      | None \<Rightarrow> s)"

definition apply_inbox :: "journalRecord \<Rightarrow> journal_store \<Rightarrow> journal_store" where
  "apply_inbox r s =
     (case R_Inbox r of
        Some i \<Rightarrow> s\<lparr>inbox := (inbox s)(Inbox_ID i \<mapsto> i),
                    inboxDedup := (inboxDedup s)(inboxDedupKey i \<mapsto> Inbox_ID i)\<rparr>
      | None \<Rightarrow> s)"

definition apply_inbox_state :: "journalRecord \<Rightarrow> journal_store \<Rightarrow> journal_store" where
  "apply_inbox_state r s =
     (case R_InboxState r of
        Some st \<Rightarrow> if R_InboxID r \<noteq> '''' then s\<lparr>inboxStates := (inboxStates s)(R_InboxID r \<mapsto> st)\<rparr> else s
      | None \<Rightarrow> s)"

definition apply_outbox_state :: "journalRecord \<Rightarrow> journal_store \<Rightarrow> journal_store" where
  "apply_outbox_state r s =
     (case R_OutboxState r of
        Some st \<Rightarrow> if R_OutboxID r \<noteq> '''' then s\<lparr>outboxStates := (outboxStates s)(R_OutboxID r \<mapsto> st)\<rparr> else s
      | None \<Rightarrow> s)"

definition apply_revocation :: "journalRecord \<Rightarrow> journal_store \<Rightarrow> journal_store" where
  "apply_revocation r s =
     (case R_Revocation r of
        Some v \<Rightarrow> s\<lparr>revocations := (revocations s)
                      (revocationKey (Revocation_Issuer v) (Revocation_TokenID v) (Revocation_TenantID v) \<mapsto> v)\<rparr>
      | None \<Rightarrow> s)"

definition apply_artifact :: "journalRecord \<Rightarrow> journal_store \<Rightarrow> journal_store" where
  "apply_artifact r s =
     (let s1 = (case R_ArtifactObject r of
                  Some ob \<Rightarrow> s\<lparr>artifactObjects := (artifactObjects s)(resourceKey (Object_TenantID ob) (Object_ID ob) \<mapsto> ob)\<rparr>
                | None \<Rightarrow> s);
          s2 = (case R_ArtifactUsage r of
                  Some u \<Rightarrow> s1\<lparr>artifactUsage := (artifactUsage s1)(Usage_TenantID u \<mapsto> u)\<rparr>
                | None \<Rightarrow> s1)
      in put_artifact_lease r s2)"

definition apply_workflow :: "journalRecord \<Rightarrow> journal_store \<Rightarrow> journal_store" where
  "apply_workflow r s =
     (case R_Workflow r of
        None \<Rightarrow> s
      | Some w \<Rightarrow>
          (let key = resourceKey (Workflow_TenantID w) (Workflow_ID w);
               s1 = s\<lparr>workflows := (workflows s)(key \<mapsto> w)\<rparr>
           in case R_WorkflowEvent r of
                None \<Rightarrow> s1
              | Some e \<Rightarrow> s1\<lparr>workflowDedup := (workflowDedup s1)(key := insert (WEvent_DedupKey e) (workflowDedup s1 key))\<rparr>))"

definition apply_worker_control :: "journalRecord \<Rightarrow> journal_store \<Rightarrow> journal_store" where
  "apply_worker_control r s =
     (case R_WorkerControl r of
        Some c \<Rightarrow> s\<lparr>workerControls := (workerControls s)(Control_Scope c \<mapsto> c)\<rparr>
      | None \<Rightarrow> s)"

definition applyRecord :: "journalRecord \<Rightarrow> journal_store \<Rightarrow> journal_store" where
  "applyRecord r s =
     (let k = R_Kind r in
      if k = ''agent'' then apply_agent r s
      else if k = ''task'' then apply_task r s
      else if k = ''lease'' then apply_lease r s
      else if k = ''inbox'' then apply_inbox r s
      else if k = ''inbox_state'' then apply_inbox_state r s
      else if k = ''outbox'' then (case R_Outbox r of Some i \<Rightarrow> put_outbox i s | None \<Rightarrow> s)
      else if k = ''outbox_state'' then apply_outbox_state r s
      else if k = ''revocation'' then apply_revocation r s
      else if k = ''artifact'' then apply_artifact r s
      else if k = ''artifact_lease'' then put_artifact_lease r s
      else if k = ''workflow'' then apply_workflow r s
      else if k = ''worker_control'' then apply_worker_control r s
      else s)"

section \<open>Appending and replaying\<close>

datatype append_io = Io_ok | Io_marshal_error | Io_write_error bool | Io_sync_error

definition append_record :: "append_io \<Rightarrow> journalRecord \<Rightarrow> journal_store \<Rightarrow> error option \<times> journal_store" where
  "append_record io r s =
     (case jfile s of
        None \<Rightarrow> (None, s)
      | Some ls \<Rightarrow>
          (case io of
             Io_marshal_error \<Rightarrow> (Some (ErrText ''encode journal record''), s)
           | Io_write_error torn \<Rightarrow>
               (Some (ErrText ''append journal record''),
                if torn then s\<lparr>jfile := Some (ls @ [Torn])\<rparr> else s)
           | Io_sync_error \<Rightarrow>
               (Some (ErrText ''sync journal record''), s\<lparr>jfile := Some (ls @ [Line r])\<rparr>)
           | Io_ok \<Rightarrow> (None, s\<lparr>jfile := Some (ls @ [Line r])\<rparr>)))"

text \<open>The two statements every mutating operation ends with: append the record, and apply it to
  the maps only when the append succeeded.\<close>

definition commit :: "append_io \<Rightarrow> journalRecord \<Rightarrow> journal_store \<Rightarrow> error option \<times> journal_store" where
  "commit io r s =
     (case append_record io r s of
        (Some e, s') \<Rightarrow> (Some e, s')
      | (None, s') \<Rightarrow> (None, applyRecord r s'))"

definition journal_decode :: "journalRecord \<Rightarrow> journalRecord" where
  "journal_decode r = r\<lparr>R_ArtifactObject := map_option (Object_StorageKey_update (\<lambda>_. '''')) (R_ArtifactObject r)\<rparr>"

primrec replay :: "journal_line list \<Rightarrow> journal_store \<Rightarrow> journal_store result" where
  "replay [] s = Inr s"
| "replay (l # ls) s =
     (case l of
        Torn \<Rightarrow> Inl (ErrText ''decode journal line'')
      | Line r \<Rightarrow> if R_Version r \<noteq> 1 then Inl (ErrText ''unsupported journal version'')
                  else replay ls (applyRecord (journal_decode r) s))"

text \<open>\<open>OpenJournal(path)\<close>: the empty path gives a store without a file; otherwise the file's lines
  are replayed into an empty store.\<close>

definition OpenJournal :: "journal_line list option \<Rightarrow> journal_store result" where
  "OpenJournal f =
     (case f of None \<Rightarrow> Inr (empty_store None) | Some ls \<Rightarrow> replay ls (empty_store (Some ls)))"

section \<open>Records by kind\<close>

lemma applyRecord_kind [simp]:
  "R_Kind r = ''agent'' \<Longrightarrow> applyRecord r s = apply_agent r s"
  "R_Kind r = ''task'' \<Longrightarrow> applyRecord r s = apply_task r s"
  "R_Kind r = ''lease'' \<Longrightarrow> applyRecord r s = apply_lease r s"
  "R_Kind r = ''inbox'' \<Longrightarrow> applyRecord r s = apply_inbox r s"
  "R_Kind r = ''inbox_state'' \<Longrightarrow> applyRecord r s = apply_inbox_state r s"
  "R_Kind r = ''outbox'' \<Longrightarrow> applyRecord r s = (case R_Outbox r of Some i \<Rightarrow> put_outbox i s | None \<Rightarrow> s)"
  "R_Kind r = ''outbox_state'' \<Longrightarrow> applyRecord r s = apply_outbox_state r s"
  "R_Kind r = ''revocation'' \<Longrightarrow> applyRecord r s = apply_revocation r s"
  "R_Kind r = ''artifact'' \<Longrightarrow> applyRecord r s = apply_artifact r s"
  "R_Kind r = ''artifact_lease'' \<Longrightarrow> applyRecord r s = put_artifact_lease r s"
  "R_Kind r = ''workflow'' \<Longrightarrow> applyRecord r s = apply_workflow r s"
  "R_Kind r = ''worker_control'' \<Longrightarrow> applyRecord r s = apply_worker_control r s"
  by (simp_all add: applyRecord_def Let_def)

lemma record1_sel [simp]:
  "R_Version (record1 k) = 1" "R_Kind (record1 k) = k"
  "R_Agent (record1 k) = None" "R_Task (record1 k) = None" "R_Event (record1 k) = None"
  "R_TaskKey (record1 k) = ''''" "R_Lease (record1 k) = None" "R_Inbox (record1 k) = None"
  "R_InboxID (record1 k) = ''''" "R_InboxState (record1 k) = None" "R_Outbox (record1 k) = None"
  "R_OutboxID (record1 k) = ''''" "R_OutboxState (record1 k) = None"
  "R_Revocation (record1 k) = None" "R_ArtifactObject (record1 k) = None"
  "R_ArtifactUsage (record1 k) = None" "R_ArtifactLeaseID (record1 k) = ''''"
  "R_ArtifactLease (record1 k) = None" "R_Workflow (record1 k) = None"
  "R_WorkflowEvent (record1 k) = None" "R_WorkerControl (record1 k) = None"
  by (simp_all add: record1_def)

lemmas apply_defs =
  apply_agent_def apply_task_def apply_lease_def apply_inbox_def apply_inbox_state_def
  apply_outbox_state_def apply_revocation_def apply_artifact_def apply_workflow_def
  apply_worker_control_def put_outbox_def put_artifact_lease_def

text \<open>Case analysis over the kinds of records, for two applications of records of one kind.\<close>

lemma applyRecord_rel:
  assumes "R_Kind r' = R_Kind r"
    and "R_Kind r = ''agent'' \<Longrightarrow> P (apply_agent r s) (apply_agent r' s')"
    and "R_Kind r = ''task'' \<Longrightarrow> P (apply_task r s) (apply_task r' s')"
    and "R_Kind r = ''lease'' \<Longrightarrow> P (apply_lease r s) (apply_lease r' s')"
    and "R_Kind r = ''inbox'' \<Longrightarrow> P (apply_inbox r s) (apply_inbox r' s')"
    and "R_Kind r = ''inbox_state'' \<Longrightarrow> P (apply_inbox_state r s) (apply_inbox_state r' s')"
    and "R_Kind r = ''outbox'' \<Longrightarrow> P (case R_Outbox r of Some i \<Rightarrow> put_outbox i s | None \<Rightarrow> s)
                                     (case R_Outbox r' of Some i \<Rightarrow> put_outbox i s' | None \<Rightarrow> s')"
    and "R_Kind r = ''outbox_state'' \<Longrightarrow> P (apply_outbox_state r s) (apply_outbox_state r' s')"
    and "R_Kind r = ''revocation'' \<Longrightarrow> P (apply_revocation r s) (apply_revocation r' s')"
    and "R_Kind r = ''artifact'' \<Longrightarrow> P (apply_artifact r s) (apply_artifact r' s')"
    and "R_Kind r = ''artifact_lease'' \<Longrightarrow> P (put_artifact_lease r s) (put_artifact_lease r' s')"
    and "R_Kind r = ''workflow'' \<Longrightarrow> P (apply_workflow r s) (apply_workflow r' s')"
    and "R_Kind r = ''worker_control'' \<Longrightarrow> P (apply_worker_control r s) (apply_worker_control r' s')"
    and "R_Kind r \<noteq> ''revocation'' \<Longrightarrow> P s s'"
  shows "P (applyRecord r s) (applyRecord r' s')"
  using assms by (simp add: applyRecord_def Let_def)

text \<open>Applying a record neither reads nor writes the journal file.\<close>

lemma apply_jfile [simp]:
  "jfile (apply_agent r s) = jfile s" "jfile (apply_task r s) = jfile s"
  "jfile (apply_lease r s) = jfile s" "jfile (apply_inbox r s) = jfile s"
  "jfile (apply_inbox_state r s) = jfile s" "jfile (put_outbox i s) = jfile s"
  "jfile (apply_outbox_state r s) = jfile s" "jfile (apply_revocation r s) = jfile s"
  "jfile (apply_artifact r s) = jfile s" "jfile (put_artifact_lease r s) = jfile s"
  "jfile (apply_workflow r s) = jfile s" "jfile (apply_worker_control r s) = jfile s"
  by (simp_all add: apply_defs Let_def split: option.split)

lemma applyRecord_jfile [simp]: "jfile (applyRecord r s) = jfile s"
  by (rule applyRecord_rel [of r r "\<lambda>x y. jfile x = jfile s" s s]) (simp_all split: option.split)

section \<open>What a restart recovers\<close>

text \<open>The part of the state a restart can recover: everything but the storage keys of the artifact
  objects, which the journal's JSON does not hold.\<close>

definition forget_keys :: "journal_store \<Rightarrow> journal_store" where
  "forget_keys s = s\<lparr>artifactObjects :=
     (\<lambda>k. map_option (Object_StorageKey_update (\<lambda>_. '''')) (artifactObjects s k))\<rparr>"

lemma forget_keys_applyRecord:
  "forget_keys (applyRecord r s) = applyRecord (journal_decode r) (forget_keys s)"
  by (rule applyRecord_rel [where P = "\<lambda>x y. forget_keys x = y"])
    (simp_all add: apply_defs Let_def journal_decode_def forget_keys_def fun_eq_iff split: option.split)

text \<open>The revocations a record leaves in a store, given those that were there.\<close>

definition rec_revocations :: "journalRecord \<Rightarrow> (string \<rightharpoonup> token_revocation) \<Rightarrow> (string \<rightharpoonup> token_revocation)" where
  "rec_revocations r m =
     (case R_Revocation r of
        Some v \<Rightarrow> if R_Kind r = ''revocation''
                  then m(revocationKey (Revocation_Issuer v) (Revocation_TokenID v) (Revocation_TenantID v) \<mapsto> v)
                  else m
      | None \<Rightarrow> m)"

lemma applyRecord_revocations [simp]:
  "revocations (applyRecord r s) = rec_revocations r (revocations s)"
  by (rule applyRecord_rel [of r r "\<lambda>x y. revocations x = rec_revocations r (revocations s)" s s])
    (simp_all add: apply_defs Let_def rec_revocations_def split: option.split)

lemma applyRecord_revocations_update:
  "applyRecord r (s\<lparr>revocations := m\<rparr>) = (applyRecord r s)\<lparr>revocations := rec_revocations r m\<rparr>"
  by (rule applyRecord_rel [of r r "\<lambda>x y. x = y\<lparr>revocations := rec_revocations r m\<rparr>"])
    (simp_all add: apply_defs Let_def rec_revocations_def split: option.split)

lemma applyRecord_jfile_update:
  "applyRecord r (s\<lparr>jfile := f\<rparr>) = (applyRecord r s)\<lparr>jfile := f\<rparr>"
  by (rule applyRecord_rel [of r r "\<lambda>x y. x = y\<lparr>jfile := f\<rparr>"])
    (simp_all add: apply_defs Let_def split: option.split)

lemma journal_decode_sel [simp]:
  "R_Kind (journal_decode r) = R_Kind r" "R_Version (journal_decode r) = R_Version r"
  "R_Revocation (journal_decode r) = R_Revocation r"
  by (simp_all add: journal_decode_def)

lemma rec_revocations_decode [simp]: "rec_revocations (journal_decode r) = rec_revocations r"
  by (simp add: rec_revocations_def fun_eq_iff split: option.split)

lemma forget_keys_sel [simp]:
  "jfile (forget_keys s) = jfile s" "revocations (forget_keys s) = revocations s"
  "tasks (forget_keys s) = tasks s" "events (forget_keys s) = events s"
  by (simp_all add: forget_keys_def)

lemma replay_append:
  "replay (ls @ ls') s = (case replay ls s of Inl e \<Rightarrow> Inl e | Inr s' \<Rightarrow> replay ls' s')"
  by (induction ls arbitrary: s) (auto split: journal_line.split)

lemma replay_jfile_update:
  "replay ls (s\<lparr>jfile := f\<rparr>) = (case replay ls s of Inl e \<Rightarrow> Inl e | Inr s' \<Rightarrow> Inr (s'\<lparr>jfile := f\<rparr>))"
  by (induction ls arbitrary: s) (auto simp: applyRecord_jfile_update split: journal_line.split)

text \<open>\<open>durable p s\<close>: reopening the journal of \<open>s\<close> gives back \<open>s\<close>, up to storage keys and up to
  revocations that expired at or before \<open>p\<close> and were pruned from memory.\<close>

definition durable :: "time \<Rightarrow> journal_store \<Rightarrow> bool" where
  "durable p s \<longleftrightarrow>
     (\<forall>ls. jfile s = Some ls \<longrightarrow>
        (\<exists>m. OpenJournal (Some ls) = Inr ((forget_keys s)\<lparr>revocations := m\<rparr>) \<and>
             revocations s \<subseteq>\<^sub>m m \<and>
             (\<forall>k v. m k = Some v \<and> revocations s k = None \<longrightarrow> Revocation_ExpiresAt v \<le> p)))"

lemma OpenJournal_torn: "OpenJournal (Some ls) = Inr s \<Longrightarrow> \<exists>e. OpenJournal (Some (ls @ [Torn])) = Inl e"
  using replay_jfile_update [where ls = ls and s = "empty_store (Some ls)" and f = "Some (ls @ [Torn])"]
  by (auto simp: OpenJournal_def replay_append empty_store_def)

lemma OpenJournal_snoc:
  "OpenJournal (Some (ls @ [Line r])) =
     (case OpenJournal (Some ls) of
        Inl e \<Rightarrow> Inl e
      | Inr s \<Rightarrow> if R_Version r \<noteq> 1 then Inl (ErrText ''unsupported journal version'')
                 else Inr ((applyRecord (journal_decode r) s)\<lparr>jfile := Some (ls @ [Line r])\<rparr>))"
proof -
  have "empty_store (Some (ls @ [Line r])) = (empty_store (Some ls))\<lparr>jfile := Some (ls @ [Line r])\<rparr>"
    by (simp add: empty_store_def)
  then show ?thesis
    by (simp add: OpenJournal_def replay_append replay_jfile_update applyRecord_jfile_update
        split: sum.split)
qed

text \<open>Appending a version-1 record to a durable store and applying it keeps the store durable.\<close>

lemma durable_commit_ok:
  assumes d: "durable p s" and v: "R_Version r = 1"
  shows "durable p (snd (commit Io_ok r s))"
proof (cases "jfile s")
  case None
  then show ?thesis by (simp add: commit_def append_record_def durable_def)
next
  case (Some ls)
  with d obtain m where m: "OpenJournal (Some ls) = Inr ((forget_keys s)\<lparr>revocations := m\<rparr>)"
      "revocations s \<subseteq>\<^sub>m m" "\<forall>k v. m k = Some v \<and> revocations s k = None \<longrightarrow> Revocation_ExpiresAt v \<le> p"
    by (auto simp: durable_def)
  let ?ls = "ls @ [Line r]"
  have s': "snd (commit Io_ok r s) = (applyRecord r s)\<lparr>jfile := Some ?ls\<rparr>"
    using Some by (simp add: commit_def append_record_def applyRecord_jfile_update)
  have "OpenJournal (Some ?ls) =
      Inr ((forget_keys ((applyRecord r s)\<lparr>jfile := Some ?ls\<rparr>))\<lparr>revocations := rec_revocations r m\<rparr>)"
    using m(1) v
    by (simp add: OpenJournal_snoc applyRecord_revocations_update forget_keys_applyRecord [symmetric])
      (simp add: forget_keys_def)
  moreover have "rec_revocations r (revocations s) \<subseteq>\<^sub>m rec_revocations r m"
    using m(2) by (auto simp: rec_revocations_def map_le_def split: option.split)
  moreover have "\<forall>k v. rec_revocations r m k = Some v \<and> rec_revocations r (revocations s) k = None
      \<longrightarrow> Revocation_ExpiresAt v \<le> p"
    using m(3) by (auto simp: rec_revocations_def split: option.splits if_splits)
  ultimately show ?thesis
    by (auto simp: durable_def s')
qed

text \<open>The disk outcomes after which the journal and the memory still agree: everything but a torn
  write (which leaves an undecodable line) and a failed sync (which leaves the record in the file
  although the operation reported an error).\<close>

definition clean_io :: "append_io \<Rightarrow> bool" where
  "clean_io io \<longleftrightarrow> io \<noteq> Io_sync_error \<and> io \<noteq> Io_write_error True"

lemma durable_commit:
  assumes "durable p s" and "R_Version r = 1" and "clean_io io"
  shows "durable p (snd (commit io r s))"
proof (cases io)
  case Io_ok
  with assms durable_commit_ok show ?thesis by simp
next
  case Io_marshal_error
  with assms show ?thesis
    by (cases "jfile s") (auto simp: commit_def append_record_def durable_def)
next
  case (Io_write_error torn)
  with assms show ?thesis
    by (cases "jfile s") (auto simp: commit_def append_record_def durable_def clean_io_def)
next
  case Io_sync_error
  with assms show ?thesis by (simp add: clean_io_def)
qed

lemma durable_empty: "durable p (empty_store (Some []))"
  by (simp add: durable_def OpenJournal_def forget_keys_def empty_store_def)

section \<open>Outcomes of a commit\<close>

text \<open>A commit either reports an error and leaves the maps alone, or applies the record.\<close>

lemma commit_error: "commit io r s = (Some e, s') \<Longrightarrow> \<exists>f. s' = s\<lparr>jfile := f\<rparr>"
  by (cases "jfile s"; cases io)
    (auto simp: commit_def append_record_def intro: exI [of _ "jfile s"] split: if_splits)

lemma commit_success: "commit io r s = (None, s') \<Longrightarrow> \<exists>f. s' = (applyRecord r s)\<lparr>jfile := f\<rparr>"
  by (cases "jfile s"; cases io)
    (auto simp: commit_def append_record_def applyRecord_jfile_update intro: exI [of _ "jfile s"]
      split: if_splits)

lemma commit_Io_ok: "fst (commit Io_ok r s) = None"
  by (cases "jfile s") (simp_all add: commit_def append_record_def)

text \<open>Case analysis on the result of a commit, in terms of the maps only.\<close>

lemma commit_cases [consumes 1, case_names failed applied]:
  assumes "commit io r s = (eo, s')"
  obtains e f where "eo = Some e" and "s' = s\<lparr>jfile := f\<rparr>"
        | f where "eo = None" and "s' = (applyRecord r s)\<lparr>jfile := f\<rparr>"
  using assms commit_error [of io r s _ s'] commit_success [of io r s s'] by (cases eo) auto

end
