(* ===== verification/Task_Store.thy ===== *)
theory Task_Store
  imports Journal_Store
begin

text \<open>
  Agents, tasks and workflows in \<open>JournalStore\<close>: \<open>PutAgent\<close>, \<open>CreateTask\<close>, \<open>ApplyTaskVersion\<close>,
  \<open>EventsAfter\<close> and their workflow counterparts. Tasks and workflows are both aggregates that are
  changed by a callback under an expected revision and a deduplication key; that contract is the
  locale \<open>versioned_aggregate\<close>, interpreted on both.

  An identifier drawn by \<open>NewID\<close> inside an operation is the argument \<open>nid\<close>. A Go callback
  \<open>func(*Task) (Event, error)\<close> is a function from the task to an error or the event and the
  mutated task. The results of Go functions that return a value together with an error are tuples
  with an \<open>error option\<close>; functions whose value is the zero value on error return a sum.
\<close>

section \<open>Agents\<close>

definition PutAgent :: "append_io \<Rightarrow> agent \<Rightarrow> journal_store \<Rightarrow> error option \<times> journal_store" where
  "PutAgent io agent s = commit io ((record1 ''agent'')\<lparr>R_Agent := Some agent\<rparr>) s"

definition GetAgent :: "string \<Rightarrow> string \<Rightarrow> journal_store \<Rightarrow> agent result" where
  "GetAgent tenantID rid s =
     (case agents s (resourceKey tenantID rid) of None \<Rightarrow> Inl ErrNotFound | Some a \<Rightarrow> Inr a)"

definition ListAgents :: "string list \<Rightarrow> string \<Rightarrow> journal_store \<Rightarrow> agent list" where
  "ListAgents ks tenantID s =
     sort_key Agent_ID (filter (\<lambda>a. Agent_TenantID a = tenantID) (List.map_filter (agents s) ks))"

section \<open>Tasks\<close>

definition outboxFromEvent :: "event \<Rightarrow> outbox_item" where
  "outboxFromEvent event =
     \<lparr>Outbox_ID = Event_ID event, Outbox_TenantID = Event_TenantID event,
      Outbox_TaskID = Event_TaskID event, Outbox_DedupKey = Event_DedupKey event,
      Outbox_Topic = Event_Type event, Outbox_Payload = PayloadEvent event,
      Outbox_CreatedAt = Event_CreatedAt event\<rparr>"

definition task_record :: "task \<Rightarrow> event \<Rightarrow> journalRecord" where
  "task_record task event =
     (record1 ''task'')\<lparr>R_Task := Some task, R_Event := Some event, R_Outbox := Some (outboxFromEvent event)\<rparr>"

definition CreateTask ::
  "append_io \<Rightarrow> string \<Rightarrow> task \<Rightarrow> event \<Rightarrow> journal_store \<Rightarrow> task result \<times> journal_store" where
  "CreateTask io nid task event s =
     (let key = resourceKey (Task_TenantID task) (Task_ID task) in
      if tasks s key \<noteq> None then (Inl ErrConflict, s)
      else
        let task' = task\<lparr>Task_Revision := 1, Task_LastSequence := 1\<rparr>;
            event' = event\<lparr>Event_ID := nid, Event_TaskID := Task_ID task,
                           Event_TenantID := Task_TenantID task, Event_Sequence := 1,
                           Event_DedupKey := (if Event_DedupKey event = '''' then ''local:'' @ nid
                                              else Event_DedupKey event)\<rparr>
        in case commit io (task_record task' event') s of
             (Some e, s') \<Rightarrow> (Inl e, s')
           | (None, s') \<Rightarrow> (Inr task', s'))"

definition ApplyTaskVersion ::
  "append_io \<Rightarrow> string \<Rightarrow> string \<Rightarrow> string \<Rightarrow> uint64 \<Rightarrow> string \<Rightarrow>
   (task \<Rightarrow> (event \<times> task) result) \<Rightarrow> journal_store \<Rightarrow> (task \<times> bool \<times> error option) \<times> journal_store" where
  "ApplyTaskVersion io nid tenantID rid expectedRevision dedupKey mutate s =
     (let key = resourceKey tenantID rid in
      case tasks s key of
        None \<Rightarrow> ((zero_task, False, Some ErrNotFound), s)
      | Some current \<Rightarrow>
          if expectedRevision \<noteq> 0 \<and> Task_Revision current \<noteq> expectedRevision
          then ((current, False, Some ErrRevisionConflict), s)
          else if dedupKey \<noteq> '''' \<and> dedupKey \<in> dedupKeys s key
          then ((current, False, None), s)
          else
            case mutate current of
              Inl e \<Rightarrow> ((zero_task, False, Some e), s)
            | Inr (event, t) \<Rightarrow>
                let updated = t\<lparr>Task_Revision := Task_Revision t + 1,
                                Task_LastSequence := Task_LastSequence t + 1\<rparr>;
                    event' = event\<lparr>Event_ID := nid, Event_TaskID := Task_ID updated,
                                   Event_TenantID := Task_TenantID updated,
                                   Event_Sequence := Task_LastSequence updated,
                                   Event_DedupKey := (if dedupKey = '''' then ''local:'' @ nid else dedupKey)\<rparr>
                in case commit io (task_record updated event') s of
                     (Some e, s') \<Rightarrow> ((zero_task, False, Some e), s')
                   | (None, s') \<Rightarrow> ((updated, True, None), s'))"

definition ApplyTask ::
  "append_io \<Rightarrow> string \<Rightarrow> string \<Rightarrow> string \<Rightarrow> string \<Rightarrow>
   (task \<Rightarrow> (event \<times> task) result) \<Rightarrow> journal_store \<Rightarrow> (task \<times> bool \<times> error option) \<times> journal_store" where
  "ApplyTask io nid tenantID rid dedupKey mutate s = ApplyTaskVersion io nid tenantID rid 0 dedupKey mutate s"

definition GetTask :: "string \<Rightarrow> string \<Rightarrow> journal_store \<Rightarrow> task result" where
  "GetTask tenantID rid s =
     (case tasks s (resourceKey tenantID rid) of None \<Rightarrow> Inl ErrNotFound | Some t \<Rightarrow> Inr t)"

text \<open>\<open>sort.Slice\<close> is not stable and the code's order leaves two tasks with equal priority and
  identifier (of different tenants) unordered; \<open>ks\<close>, the order of the range, settles that tie.\<close>

definition ListRecoverable :: "string list \<Rightarrow> journal_store \<Rightarrow> task list" where
  "ListRecoverable ks s =
     sort_key (\<lambda>t. (- Task_Priority t, Task_ID t))
       (filter (\<lambda>t. \<not> TaskState_Terminal (Task_State t) \<and> Task_RemoteTaskID t \<noteq> '''')
          (List.map_filter (tasks s) ks))"

definition EventsAfter :: "string \<Rightarrow> string \<Rightarrow> uint64 \<Rightarrow> journal_store \<Rightarrow> event list result" where
  "EventsAfter tenantID rid after s =
     (let key = resourceKey tenantID rid in
      case tasks s key of
        None \<Rightarrow> Inl ErrNotFound
      | Some _ \<Rightarrow> Inr (filter (\<lambda>e. Event_Sequence e > after) (events s key)))"

section \<open>Workflows\<close>

definition workflow_record :: "workflow \<Rightarrow> workflow_event \<Rightarrow> journalRecord" where
  "workflow_record w e = (record1 ''workflow'')\<lparr>R_Workflow := Some w, R_WorkflowEvent := Some e\<rparr>"

definition CreateWorkflow ::
  "append_io \<Rightarrow> string \<Rightarrow> workflow \<Rightarrow> workflow_event \<Rightarrow> journal_store \<Rightarrow> workflow result \<times> journal_store" where
  "CreateWorkflow io nid workflow event s =
     (if Workflow_TenantID workflow = '''' \<or> Workflow_ID workflow = '''' \<or> Workflow_Steps workflow = []
      then (Inl (ErrText ''workflow tenant, ID, and steps are required''), s)
      else
        let key = resourceKey (Workflow_TenantID workflow) (Workflow_ID workflow) in
        if workflows s key \<noteq> None then (Inl ErrConflict, s)
        else
          let workflow' = workflow\<lparr>Workflow_Revision := 1, Workflow_LastSequence := 1\<rparr>;
              event' = event\<lparr>WEvent_ID := nid, WEvent_WorkflowID := Workflow_ID workflow,
                             WEvent_TenantID := Workflow_TenantID workflow, WEvent_Sequence := 1,
                             WEvent_DedupKey := (if WEvent_DedupKey event = '''' then ''local:'' @ nid
                                                 else WEvent_DedupKey event)\<rparr>
          in case commit io (workflow_record workflow' event') s of
               (Some e, s') \<Rightarrow> (Inl e, s')
             | (None, s') \<Rightarrow> (Inr workflow', s'))"

definition ApplyWorkflowVersion ::
  "append_io \<Rightarrow> string \<Rightarrow> string \<Rightarrow> string \<Rightarrow> uint64 \<Rightarrow> string \<Rightarrow>
   (workflow \<Rightarrow> (workflow_event \<times> workflow) result) \<Rightarrow> journal_store \<Rightarrow>
   (workflow \<times> bool \<times> error option) \<times> journal_store" where
  "ApplyWorkflowVersion io nid tenantID rid expectedRevision dedupKey mutate s =
     (let key = resourceKey tenantID rid in
      case workflows s key of
        None \<Rightarrow> ((zero_workflow, False, Some ErrNotFound), s)
      | Some current \<Rightarrow>
          if expectedRevision \<noteq> 0 \<and> Workflow_Revision current \<noteq> expectedRevision
          then ((current, False, Some ErrRevisionConflict), s)
          else if dedupKey \<noteq> '''' \<and> dedupKey \<in> workflowDedup s key
          then ((current, False, None), s)
          else
            case mutate current of
              Inl e \<Rightarrow> ((zero_workflow, False, Some e), s)
            | Inr (event, w) \<Rightarrow>
                let updated = w\<lparr>Workflow_Revision := Workflow_Revision w + 1,
                                Workflow_LastSequence := Workflow_LastSequence w + 1\<rparr>;
                    event' = event\<lparr>WEvent_ID := nid, WEvent_WorkflowID := Workflow_ID updated,
                                   WEvent_TenantID := Workflow_TenantID updated,
                                   WEvent_Sequence := Workflow_LastSequence updated,
                                   WEvent_DedupKey := (if dedupKey = '''' then ''local:'' @ nid else dedupKey)\<rparr>
                in case commit io (workflow_record updated event') s of
                     (Some e, s') \<Rightarrow> ((zero_workflow, False, Some e), s')
                   | (None, s') \<Rightarrow> ((updated, True, None), s'))"

definition GetWorkflow :: "string \<Rightarrow> string \<Rightarrow> journal_store \<Rightarrow> workflow result" where
  "GetWorkflow tenantID rid s =
     (case workflows s (resourceKey tenantID rid) of None \<Rightarrow> Inl ErrNotFound | Some w \<Rightarrow> Inr w)"

definition ListWorkflows :: "string list \<Rightarrow> string \<Rightarrow> journal_store \<Rightarrow> workflow list" where
  "ListWorkflows ks tenantID s =
     sort_key Workflow_ID (filter (\<lambda>w. Workflow_TenantID w = tenantID) (List.map_filter (workflows s) ks))"

section \<open>Versioned aggregates\<close>

text \<open>The contract tasks and workflows share: an aggregate is read by its key, and changed by a
  callback guarded by an expected revision (0 for any) and a deduplication key (empty for none).\<close>

locale versioned_aggregate =
  fixes lookup :: "'s \<Rightarrow> string \<Rightarrow> 'a option"
    and seen :: "'s \<Rightarrow> string \<Rightarrow> string set"
    and revision :: "'a \<Rightarrow> uint64"
    and key_of :: "'a \<Rightarrow> string"
    and apply_version :: "append_io \<Rightarrow> string \<Rightarrow> string \<Rightarrow> string \<Rightarrow> uint64 \<Rightarrow> string \<Rightarrow>
           ('a \<Rightarrow> ('ev \<times> 'a) result) \<Rightarrow> 's \<Rightarrow> ('a \<times> bool \<times> error option) \<times> 's"
  assumes missing: "lookup s (resourceKey t i) = None \<Longrightarrow>
      \<exists>z. apply_version io n t i r dk m s = ((z, False, Some ErrNotFound), s)"
    and stale: "lookup s (resourceKey t i) = Some a \<Longrightarrow> r \<noteq> 0 \<Longrightarrow> revision a \<noteq> r \<Longrightarrow>
      apply_version io n t i r dk m s = ((a, False, Some ErrRevisionConflict), s)"
    and duplicate: "lookup s (resourceKey t i) = Some a \<Longrightarrow> r = 0 \<or> revision a = r \<Longrightarrow>
      dk \<noteq> '''' \<Longrightarrow> dk \<in> seen s (resourceKey t i) \<Longrightarrow>
      apply_version io n t i r dk m s = ((a, False, None), s)"
    and refused: "lookup s (resourceKey t i) = Some a \<Longrightarrow> r = 0 \<or> revision a = r \<Longrightarrow>
      dk = '''' \<or> dk \<notin> seen s (resourceKey t i) \<Longrightarrow> m a = Inl e \<Longrightarrow>
      \<exists>z. apply_version io n t i r dk m s = ((z, False, Some e), s)"
    and applied: "lookup s (resourceKey t i) = Some a \<Longrightarrow> r = 0 \<or> revision a = r \<Longrightarrow>
      dk = '''' \<or> dk \<notin> seen s (resourceKey t i) \<Longrightarrow> m a = Inr (ev, b) \<Longrightarrow>
      key_of b = resourceKey t i \<Longrightarrow> revision b = revision a \<Longrightarrow>
      apply_version io n t i r dk m s = ((c, ch, None), s') \<Longrightarrow>
      ch \<and> lookup s' (resourceKey t i) = Some c \<and> revision c = revision a + 1 \<and>
      (dk \<noteq> '''' \<longrightarrow> dk \<in> seen s' (resourceKey t i))"
    and failed_or_applied: "apply_version io n t i r dk m s = ((c, ch, Some e), s') \<Longrightarrow>
      lookup s' = lookup s \<and> seen s' = seen s \<and> \<not> ch"
begin

text \<open>Callbacks that keep the identity and the revision: every callback of the hub does.\<close>

definition keeps_identity :: "('a \<Rightarrow> ('ev \<times> 'a) result) \<Rightarrow> bool" where
  "keeps_identity m \<longleftrightarrow> (\<forall>a ev b. m a = Inr (ev, b) \<longrightarrow> key_of b = key_of a \<and> revision b = revision a)"

text \<open>Compare and swap: of two writers holding the same revision, the second one is refused.\<close>

lemma second_writer_refused:
  assumes "lookup s (resourceKey t i) = Some a" and "key_of a = resourceKey t i"
    and "r \<noteq> 0" and "keeps_identity m"
    and "apply_version io n t i r dk m s = ((c, True, None), s')"
  shows "apply_version io2 n2 t i r dk2 m2 s' = ((c, False, Some ErrRevisionConflict), s')"
proof -
  have r: "revision a = r"
    using assms(1,3,5) stale [of s t i a r io n dk m] by (cases "revision a = r") auto
  have fresh: "dk = '''' \<or> dk \<notin> seen s (resourceKey t i)"
    using assms(1,5) r duplicate [of s t i a r dk io n m] by auto
  obtain ev b where m: "m a = Inr (ev, b)"
    using assms(1,5) r fresh refused [of s t i a r dk m _ io n] by (cases "m a") auto
  have "key_of b = resourceKey t i" "revision b = revision a"
    using m assms(2,4) by (auto simp: keeps_identity_def)
  then have "lookup s' (resourceKey t i) = Some c" "revision c = r + 1"
    using applied [OF assms(1) _ fresh m _ _ assms(5)] r by auto
  moreover have "r + 1 \<noteq> r" by simp
  ultimately show ?thesis
    using stale [of s' t i c r io2 n2 dk2 m2] assms(3) by simp
qed

text \<open>A repeated delivery under one deduplication key is a no-op that returns the first result.\<close>

lemma redelivery_is_noop:
  assumes "lookup s (resourceKey t i) = Some a" and "key_of a = resourceKey t i"
    and "dk \<noteq> ''''" and "keeps_identity m"
    and "apply_version io n t i 0 dk m s = ((c, True, None), s')"
  shows "apply_version io2 n2 t i 0 dk m2 s' = ((c, False, None), s')"
proof -
  have fresh: "dk \<notin> seen s (resourceKey t i)"
    using assms(1,3,5) duplicate [of s t i a 0 dk io n m] by auto
  obtain ev b where m: "m a = Inr (ev, b)"
    using assms(1,5) fresh refused [of s t i a 0 dk m _ io n] by (cases "m a") auto
  have "key_of b = resourceKey t i" "revision b = revision a"
    using m assms(2,4) by (auto simp: keeps_identity_def)
  then have "lookup s' (resourceKey t i) = Some c" "dk \<in> seen s' (resourceKey t i)"
    using applied [OF assms(1) _ _ m _ _ assms(5)] fresh assms(3) by auto
  then show ?thesis using duplicate assms(3) by simp
qed

end

lemma task_record_sel [simp]:
  "R_Kind (task_record t e) = ''task''" "R_Version (task_record t e) = 1"
  "R_Task (task_record t e) = Some t" "R_Event (task_record t e) = Some e"
  "R_Outbox (task_record t e) = Some (outboxFromEvent e)"
  by (simp_all add: task_record_def)

lemma workflow_record_sel [simp]:
  "R_Kind (workflow_record w e) = ''workflow''" "R_Version (workflow_record w e) = 1"
  "R_Workflow (workflow_record w e) = Some w" "R_WorkflowEvent (workflow_record w e) = Some e"
  by (simp_all add: workflow_record_def)

text \<open>The maps after a task record was applied.\<close>

lemma apply_task_record [simp]:
  "tasks (apply_task (task_record t e) s) = (tasks s)(resourceKey (Task_TenantID t) (Task_ID t) \<mapsto> t)"
  "events (apply_task (task_record t e) s) =
     (let k = resourceKey (Task_TenantID t) (Task_ID t) in (events s)(k := events s k @ [e]))"
  "dedupKeys (apply_task (task_record t e) s) =
     (let k = resourceKey (Task_TenantID t) (Task_ID t) in
      (dedupKeys s)(k := insert (Event_DedupKey e) (dedupKeys s k)))"
  "outbox (apply_task (task_record t e) s) = (outbox s)(Event_ID e \<mapsto> outboxFromEvent e)"
  "outboxStates (apply_task (task_record t e) s) = outboxStates s"
  by (simp_all add: apply_task_def put_outbox_def Let_def outboxFromEvent_def)

lemma apply_workflow_record [simp]:
  "workflows (apply_workflow (workflow_record w e) s) =
     (workflows s)(resourceKey (Workflow_TenantID w) (Workflow_ID w) \<mapsto> w)"
  "workflowDedup (apply_workflow (workflow_record w e) s) =
     (let k = resourceKey (Workflow_TenantID w) (Workflow_ID w) in
      (workflowDedup s)(k := insert (WEvent_DedupKey e) (workflowDedup s k)))"
  "tasks (apply_workflow (workflow_record w e) s) = tasks s"
  "events (apply_workflow (workflow_record w e) s) = events s"
  "dedupKeys (apply_workflow (workflow_record w e) s) = dedupKeys s"
  by (simp_all add: apply_workflow_def Let_def)

interpretation vtask: versioned_aggregate tasks dedupKeys Task_Revision
  "\<lambda>t. resourceKey (Task_TenantID t) (Task_ID t)" ApplyTaskVersion
proof (unfold_locales, goal_cases)
  case (5 s t i a r dk m ev b io n c ch s')
  then show ?case
    by (auto simp: ApplyTaskVersion_def Let_def split: prod.splits option.splits
        dest!: commit_success)
next
  case (6 io n t i r dk m s c ch e s')
  then show ?case
    by (auto simp: ApplyTaskVersion_def Let_def split: prod.splits option.splits sum.splits if_splits
        dest!: commit_error)
qed (auto simp: ApplyTaskVersion_def Let_def)

interpretation vflow: versioned_aggregate workflows workflowDedup Workflow_Revision
  "\<lambda>w. resourceKey (Workflow_TenantID w) (Workflow_ID w)" ApplyWorkflowVersion
proof (unfold_locales, goal_cases)
  case (5 s t i a r dk m ev b io n c ch s')
  then show ?case
    by (auto simp: ApplyWorkflowVersion_def Let_def split: prod.splits option.splits
        dest!: commit_success)
next
  case (6 io n t i r dk m s c ch e s')
  then show ?case
    by (auto simp: ApplyWorkflowVersion_def Let_def split: prod.splits option.splits sum.splits if_splits
        dest!: commit_error)
qed (auto simp: ApplyWorkflowVersion_def Let_def)

section \<open>The event log of a task\<close>

text \<open>What the code keeps of a task and its events: the key under which a task is stored is its
  own, the events are numbered 1, 2, 3, ... without a gap, the task's revision and last sequence
  number are the number of events (modulo the width of the counter), the recorded deduplication
  keys are those of the events, and every event belongs to the task.\<close>

definition log_ok :: "task \<Rightarrow> event list \<Rightarrow> string set \<Rightarrow> bool" where
  "log_ok t es ds \<longleftrightarrow>
     es \<noteq> [] \<and> map Event_Sequence es = map of_nat [1..<Suc (length es)] \<and>
     Task_LastSequence t = of_nat (length es) \<and> Task_Revision t = Task_LastSequence t \<and>
     ds = Event_DedupKey ` set es \<and>
     (\<forall>e\<in>set es. Event_TaskID e = Task_ID t \<and> Event_TenantID e = Task_TenantID t)"

definition task_inv :: "journal_store \<Rightarrow> bool" where
  "task_inv s \<longleftrightarrow>
     (\<forall>k. tasks s k = None \<longrightarrow> events s k = [] \<and> dedupKeys s k = {}) \<and>
     (\<forall>k t. tasks s k = Some t \<longrightarrow>
        k = resourceKey (Task_TenantID t) (Task_ID t) \<and> log_ok t (events s k) (dedupKeys s k))"

lemma task_invD:
  "task_inv s \<Longrightarrow> tasks s k = Some t \<Longrightarrow> resourceKey (Task_TenantID t) (Task_ID t) = k"
  "task_inv s \<Longrightarrow> tasks s k = Some t \<Longrightarrow> log_ok t (events s k) (dedupKeys s k)"
  "task_inv s \<Longrightarrow> tasks s k = None \<Longrightarrow> events s k = []"
  "task_inv s \<Longrightarrow> tasks s k = None \<Longrightarrow> dedupKeys s k = {}"
  by (auto simp: task_inv_def)

text \<open>The callbacks the hub passes leave identity, revision and sequence number alone.\<close>

definition keeps_log :: "(task \<Rightarrow> (event \<times> task) result) \<Rightarrow> bool" where
  "keeps_log m \<longleftrightarrow> (\<forall>t e t'. m t = Inr (e, t') \<longrightarrow>
     Task_ID t' = Task_ID t \<and> Task_TenantID t' = Task_TenantID t \<and>
     Task_Revision t' = Task_Revision t \<and> Task_LastSequence t' = Task_LastSequence t)"

lemma task_inv_empty [simp]: "task_inv (empty_store f)"
  by (simp add: task_inv_def empty_store_def)

lemma task_inv_jfile [simp]: "task_inv (s\<lparr>jfile := f\<rparr>) = task_inv s"
  by (simp add: task_inv_def)

lemma log_ok_snoc:
  assumes "log_ok t es ds" and "Task_ID t' = Task_ID t" and "Task_TenantID t' = Task_TenantID t"
    and "Task_LastSequence t' = Task_LastSequence t + 1" and "Task_Revision t' = Task_Revision t + 1"
    and "Event_Sequence e = Task_LastSequence t'" and "Event_TaskID e = Task_ID t'"
    and "Event_TenantID e = Task_TenantID t'"
  shows "log_ok t' (es @ [e]) (insert (Event_DedupKey e) ds)"
  using assms by (auto simp: log_ok_def add.commute)

lemma task_inv_apply_record:
  assumes "task_inv s"
    and "\<And>k'. k' = resourceKey (Task_TenantID t) (Task_ID t) \<Longrightarrow>
           log_ok t (events s k' @ [e]) (insert (Event_DedupKey e) (dedupKeys s k'))"
  shows "task_inv (apply_task (task_record t e) s)"
  using assms by (auto simp: task_inv_def Let_def)

text \<open>Reading the log after a sequence number gives exactly the later events, in order.\<close>

lemma filter_numbered:
  assumes "map Event_Sequence es = map of_nat [Suc n..<Suc (n + length es)]"
    and "n + length es < 2 ^ 64"
  shows "filter (\<lambda>e. Event_Sequence e > after) es = drop (unat after - n) es"
  using assms
proof (induction es arbitrary: n)
  case Nil
  then show ?case by simp
next
  case (Cons e es)
  have hd: "Event_Sequence e = of_nat (Suc n)"
    using Cons.prems(1) by (simp add: upt_rec)
  have tl: "map Event_Sequence es = map of_nat [Suc (Suc n)..<Suc (Suc n + length es)]"
    using Cons.prems(1) by (simp add: upt_rec)
  have "unat (of_nat (Suc n) :: 64 word) = Suc n"
    using Cons.prems(2) by (intro of_nat_inverse [OF refl]) simp
  then have cmp: "Event_Sequence e > after \<longleftrightarrow> unat after \<le> n"
    by (auto simp: hd word_less_nat_alt simp del: of_nat_Suc)
  have IH: "filter (\<lambda>e. Event_Sequence e > after) es = drop (unat after - Suc n) es"
    using Cons.IH [OF tl] Cons.prems(2) by simp
  show ?case
  proof (cases "unat after \<le> n")
    case True
    with cmp IH show ?thesis by simp
  next
    case False
    then have "unat after - n = Suc (unat after - Suc n)" by simp
    with False cmp IH show ?thesis by simp
  qed
qed

lemma EventsAfter_drop:
  assumes "task_inv s" and "tasks s (resourceKey tn i) = Some t"
    and "length (events s (resourceKey tn i)) < 2 ^ 64"
  shows "EventsAfter tn i after s = Inr (drop (unat after) (events s (resourceKey tn i)))"
proof -
  let ?es = "events s (resourceKey tn i)"
  have "log_ok t ?es (dedupKeys s (resourceKey tn i))"
    using assms(1,2) by (rule task_invD)
  then have "map Event_Sequence ?es = map of_nat [Suc 0..<Suc (0 + length ?es)]"
    by (simp add: log_ok_def)
  from filter_numbered [OF this, of after] assms(2,3) show ?thesis
    by (simp add: EventsAfter_def)
qed

section \<open>Tenants\<close>

lemma resourceKey_inj:
  assumes "nul_free t" and "nul_free t'" and "resourceKey t i = resourceKey t' i'"
  shows "t = t' \<and> i = i'"
  using sep_append_inj [of nul t t' i i'] assms by (simp add: resourceKey_def nul_free_def)

lemma GetTask_tenant:
  assumes "task_inv s" and "GetTask tn i s = Inr t" and "nul_free tn" and "nul_free (Task_TenantID t)"
  shows "Task_TenantID t = tn \<and> Task_ID t = i"
proof -
  from assms(2) have "tasks s (resourceKey tn i) = Some t"
    by (simp add: GetTask_def split: option.splits)
  from task_invD(1) [OF assms(1) this] have "resourceKey tn i = resourceKey (Task_TenantID t) (Task_ID t)"
    by simp
  with resourceKey_inj assms(3,4) show ?thesis by metis
qed

end
