(* ===== verification/Lease_Store.thy ===== *)
theory Lease_Store
  imports Task_Store
begin

text \<open>
  Leases in \<open>JournalStore\<close>: background work on tasks (\<open>ClaimRecoverable\<close>, \<open>RenewLease\<close>,
  \<open>ReleaseLease\<close>), the durable inbox and the durable outbox. The three tables follow one protocol,
  the locale \<open>lease_table\<close>: a claim takes only keys that nobody holds, a holder keeps its key until
  the lease expires or the holder gives it up.

  A claim appends one record per lease, so its disk outcomes are a sequence \<open>io 0, io 1, \<dots>\<close>; when
  an append fails the code returns the error and keeps the leases it already wrote.
\<close>

text \<open>The loop \<open>for _, key := range keys { \<dots> }\<close> of the claims: \<open>body\<close> handles one key and returns
  its lease, or the error at which the loop returns.\<close>

primrec claim_loop ::
  "(append_io \<Rightarrow> string \<Rightarrow> journal_store \<Rightarrow> 'l result \<times> journal_store) \<Rightarrow> (nat \<Rightarrow> append_io) \<Rightarrow>
   string list \<Rightarrow> journal_store \<Rightarrow> 'l list result \<times> journal_store" where
  "claim_loop body io [] s = (Inr [], s)"
| "claim_loop body io (key # keys) s =
     (case body (io 0) key s of
        (Inl e, s') \<Rightarrow> (Inl e, s')
      | (Inr l, s') \<Rightarrow>
          (case claim_loop body (\<lambda>n. io (Suc n)) keys s' of
             (Inl e, s'') \<Rightarrow> (Inl e, s'')
           | (Inr ls, s'') \<Rightarrow> (Inr (l # ls), s'')))"

section \<open>Task leases\<close>

definition lease_free :: "time \<Rightarrow> leaseState \<Rightarrow> bool" where
  "lease_free now l \<longleftrightarrow>
     \<not> (Lease_AvailableAt l > now \<or> (Lease_Owner l \<noteq> '''' \<and> Lease_ExpiresAt l > now))"

definition claimable_task :: "time \<Rightarrow> journal_store \<Rightarrow> string \<Rightarrow> bool" where
  "claimable_task now s key \<longleftrightarrow>
     (case tasks s key of
        None \<Rightarrow> False
      | Some t \<Rightarrow> \<not> TaskState_Terminal (Task_State t) \<and> Task_RemoteTaskID t \<noteq> '''' \<and>
                  lease_free now (get_or zero_leaseState (leases s) key))"

definition lease_record :: "string \<Rightarrow> leaseState \<Rightarrow> journalRecord" where
  "lease_record key l = (record1 ''lease'')\<lparr>R_TaskKey := key, R_Lease := Some l\<rparr>"

definition claim_one_task ::
  "string \<Rightarrow> time \<Rightarrow> duration \<Rightarrow> append_io \<Rightarrow> string \<Rightarrow> journal_store \<Rightarrow> work_lease result \<times> journal_store" where
  "claim_one_task owner now d io key s =
     (let old = get_or zero_leaseState (leases s) key;
          st = old\<lparr>Lease_Owner := owner, Lease_ExpiresAt := now + d, Lease_Attempt := Lease_Attempt old + 1\<rparr>
      in case commit io (lease_record key st) s of
           (Some e, s') \<Rightarrow> (Inl e, s')
         | (None, s') \<Rightarrow>
             (Inr \<lparr>WorkLease_Task = get_or zero_task (tasks s') key, WorkLease_Owner = owner,
                    WorkLease_ExpiresAt = Lease_ExpiresAt st, WorkLease_Attempt = Lease_Attempt st\<rparr>, s'))"

definition recoverable_keys :: "string list \<Rightarrow> int \<Rightarrow> time \<Rightarrow> journal_store \<Rightarrow> string list" where
  "recoverable_keys ks limit now s =
     take (nat limit)
       (sort_key (\<lambda>k. (- Task_Priority (get_or zero_task (tasks s) k), k)) (filter (claimable_task now s) ks))"

definition ClaimRecoverable ::
  "(nat \<Rightarrow> append_io) \<Rightarrow> string list \<Rightarrow> string \<Rightarrow> int \<Rightarrow> time \<Rightarrow> duration \<Rightarrow> journal_store \<Rightarrow>
   work_lease list result \<times> journal_store" where
  "ClaimRecoverable io ks owner limit now d s =
     (if owner = '''' \<or> limit \<le> 0 \<or> d \<le> 0
      then (Inl (ErrText ''lease owner, positive limit, and duration are required''), s)
      else claim_loop (claim_one_task owner now d) io (recoverable_keys ks limit now s) s)"

definition work_lease_key :: "work_lease \<Rightarrow> string" where
  "work_lease_key l = resourceKey (Task_TenantID (WorkLease_Task l)) (Task_ID (WorkLease_Task l))"

definition RenewLease ::
  "append_io \<Rightarrow> work_lease \<Rightarrow> time \<Rightarrow> duration \<Rightarrow> journal_store \<Rightarrow> work_lease result \<times> journal_store" where
  "RenewLease io lease now d s =
     (let key = work_lease_key lease in
      case leases s key of
        None \<Rightarrow> (Inl ErrLeaseLost, s)
      | Some st \<Rightarrow>
          if Lease_Owner st \<noteq> WorkLease_Owner lease \<or> \<not> Lease_ExpiresAt st > now
          then (Inl ErrLeaseLost, s)
          else
            case commit io (lease_record key (st\<lparr>Lease_ExpiresAt := now + d\<rparr>)) s of
              (Some e, s') \<Rightarrow> (Inl e, s')
            | (None, s') \<Rightarrow> (Inr (lease\<lparr>WorkLease_ExpiresAt := now + d\<rparr>), s'))"

definition ReleaseLease ::
  "append_io \<Rightarrow> work_lease \<Rightarrow> time \<Rightarrow> bool \<Rightarrow> journal_store \<Rightarrow> error option \<times> journal_store" where
  "ReleaseLease io lease availableAt resetAttempts s =
     (let key = work_lease_key lease in
      case leases s key of
        None \<Rightarrow> (Some ErrLeaseLost, s)
      | Some st \<Rightarrow>
          if Lease_Owner st \<noteq> WorkLease_Owner lease then (Some ErrLeaseLost, s)
          else
            let st1 = st\<lparr>Lease_Owner := '''', Lease_ExpiresAt := zero_time, Lease_AvailableAt := availableAt\<rparr>;
                st2 = (if resetAttempts then st1\<lparr>Lease_Attempt := 0\<rparr> else st1)
            in commit io (lease_record key st2) s)"

section \<open>The inbox\<close>

definition EnqueueInbox :: "append_io \<Rightarrow> inbox_item \<Rightarrow> journal_store \<Rightarrow> bool result \<times> journal_store" where
  "EnqueueInbox io item s =
     (if Inbox_ID item = '''' \<or> Inbox_TenantID item = '''' \<or> Inbox_TaskID item = '''' \<or> Inbox_DedupKey item = ''''
      then (Inl (ErrText ''inbox ID, tenant, Task, and dedup key are required''), s)
      else if inboxDedup s (inboxDedupKey item) \<noteq> None then (Inr False, s)
      else
        case commit io ((record1 ''inbox'')\<lparr>R_Inbox := Some item\<rparr>) s of
          (Some e, s') \<Rightarrow> (Inl e, s')
        | (None, s') \<Rightarrow> (Inr True, s'))"

definition inbox_free :: "time \<Rightarrow> inboxState \<Rightarrow> bool" where
  "inbox_free now st \<longleftrightarrow>
     \<not> (IState_Acked st \<or> IState_AvailableAt st > now \<or> (IState_Owner st \<noteq> '''' \<and> IState_ExpiresAt st > now))"

definition inbox_state_record :: "string \<Rightarrow> inboxState \<Rightarrow> journalRecord" where
  "inbox_state_record rid st = (record1 ''inbox_state'')\<lparr>R_InboxID := rid, R_InboxState := Some st\<rparr>"

definition claim_one_inbox ::
  "string \<Rightarrow> time \<Rightarrow> duration \<Rightarrow> append_io \<Rightarrow> string \<Rightarrow> journal_store \<Rightarrow> inbox_lease result \<times> journal_store" where
  "claim_one_inbox owner now d io rid s =
     (let old = get_or zero_inboxState (inboxStates s) rid;
          st = old\<lparr>IState_Owner := owner, IState_ExpiresAt := now + d, IState_Attempt := IState_Attempt old + 1\<rparr>
      in case commit io (inbox_state_record rid st) s of
           (Some e, s') \<Rightarrow> (Inl e, s')
         | (None, s') \<Rightarrow>
             (Inr \<lparr>InboxLease_Item = the (inbox s' rid), InboxLease_Owner = owner,
                    InboxLease_ExpiresAt = IState_ExpiresAt st, InboxLease_Attempt = IState_Attempt st\<rparr>, s'))"

definition inbox_keys :: "string list \<Rightarrow> int \<Rightarrow> time \<Rightarrow> journal_store \<Rightarrow> string list" where
  "inbox_keys ks limit now s =
     take (nat limit) (sort (filter (\<lambda>k. inbox_free now (get_or zero_inboxState (inboxStates s) k)) ks))"

definition ClaimInbox ::
  "(nat \<Rightarrow> append_io) \<Rightarrow> string list \<Rightarrow> string \<Rightarrow> int \<Rightarrow> time \<Rightarrow> duration \<Rightarrow> journal_store \<Rightarrow>
   inbox_lease list result \<times> journal_store" where
  "ClaimInbox io ks owner limit now d s =
     (if owner = '''' \<or> limit \<le> 0 \<or> d \<le> 0
      then (Inl (ErrText ''inbox lease owner, positive limit, and duration are required''), s)
      else claim_loop (claim_one_inbox owner now d) io (inbox_keys ks limit now s) s)"

text \<open>The guard shared by \<open>RenewInboxLease\<close>, \<open>AckInbox\<close> and \<open>RetryInbox\<close>, the state found and the
  record written back.\<close>

definition with_inbox_lease ::
  "append_io \<Rightarrow> inbox_lease \<Rightarrow> (inboxState \<Rightarrow> bool) \<Rightarrow> (inboxState \<Rightarrow> inboxState) \<Rightarrow> journal_store \<Rightarrow>
   error option \<times> journal_store" where
  "with_inbox_lease io lease lost upd s =
     (let rid = Inbox_ID (InboxLease_Item lease) in
      case inboxStates s rid of
        None \<Rightarrow> (Some ErrLeaseLost, s)
      | Some st \<Rightarrow>
          if IState_Owner st \<noteq> InboxLease_Owner lease \<or> lost st then (Some ErrLeaseLost, s)
          else commit io (inbox_state_record rid (upd st)) s)"

definition RenewInboxLease ::
  "append_io \<Rightarrow> inbox_lease \<Rightarrow> time \<Rightarrow> duration \<Rightarrow> journal_store \<Rightarrow> inbox_lease result \<times> journal_store" where
  "RenewInboxLease io lease now d s =
     (case with_inbox_lease io lease (\<lambda>st. \<not> IState_ExpiresAt st > now \<or> IState_Acked st)
             (\<lambda>st. st\<lparr>IState_ExpiresAt := now + d\<rparr>) s of
        (Some e, s') \<Rightarrow> (Inl e, s')
      | (None, s') \<Rightarrow> (Inr (lease\<lparr>InboxLease_ExpiresAt := now + d\<rparr>), s'))"

definition AckInbox :: "append_io \<Rightarrow> inbox_lease \<Rightarrow> journal_store \<Rightarrow> error option \<times> journal_store" where
  "AckInbox io lease s =
     with_inbox_lease io lease IState_Acked
       (\<lambda>st. st\<lparr>IState_Owner := '''', IState_ExpiresAt := zero_time, IState_Acked := True\<rparr>) s"

definition RetryInbox :: "append_io \<Rightarrow> inbox_lease \<Rightarrow> time \<Rightarrow> journal_store \<Rightarrow> error option \<times> journal_store" where
  "RetryInbox io lease availableAt s =
     with_inbox_lease io lease IState_Acked
       (\<lambda>st. st\<lparr>IState_Owner := '''', IState_ExpiresAt := zero_time, IState_AvailableAt := availableAt\<rparr>) s"

section \<open>The outbox\<close>

text \<open>\<open>json_valid\<close> is \<open>json.Valid\<close> on bytes that the hub did not marshal itself; what it marshalled
  is valid and not empty.\<close>

definition payload_valid :: "(string \<Rightarrow> bool) \<Rightarrow> payload \<Rightarrow> bool" where
  "payload_valid json_valid p \<longleftrightarrow> (case p of PayloadRaw b \<Rightarrow> b \<noteq> '''' \<and> json_valid b | _ \<Rightarrow> True)"

definition EnqueueOutbox ::
  "(string \<Rightarrow> bool) \<Rightarrow> append_io \<Rightarrow> outbox_item \<Rightarrow> journal_store \<Rightarrow> bool result \<times> journal_store" where
  "EnqueueOutbox json_valid io item s =
     (if Outbox_ID item = '''' \<or> Outbox_TenantID item = '''' \<or> Outbox_TaskID item = '''' \<or>
         Outbox_DedupKey item = '''' \<or> Outbox_Topic item = ''''
      then (Inl (ErrText ''outbox ID, tenant, Task, dedup key, and topic are required''), s)
      else if \<not> payload_valid json_valid (Outbox_Payload item)
      then (Inl (ErrText ''outbox payload must be valid JSON''), s)
      else if outboxDedup s (outboxDedupKey item) \<noteq> None then (Inr False, s)
      else
        case commit io ((record1 ''outbox'')\<lparr>R_Outbox := Some item\<rparr>) s of
          (Some e, s') \<Rightarrow> (Inl e, s')
        | (None, s') \<Rightarrow> (Inr True, s'))"

definition outbox_free :: "time \<Rightarrow> outboxState \<Rightarrow> bool" where
  "outbox_free now st \<longleftrightarrow>
     \<not> (OState_Acked st \<or> OState_DeadLettered st \<or> OState_Purged st \<or> OState_AvailableAt st > now \<or>
        (OState_Owner st \<noteq> '''' \<and> OState_ExpiresAt st > now))"

definition outbox_state_record :: "string \<Rightarrow> outboxState \<Rightarrow> journalRecord" where
  "outbox_state_record rid st = (record1 ''outbox_state'')\<lparr>R_OutboxID := rid, R_OutboxState := Some st\<rparr>"

definition claim_one_outbox ::
  "string \<Rightarrow> time \<Rightarrow> duration \<Rightarrow> append_io \<Rightarrow> string \<Rightarrow> journal_store \<Rightarrow> outbox_lease result \<times> journal_store" where
  "claim_one_outbox owner now d io rid s =
     (let old = get_or zero_outboxState (outboxStates s) rid;
          st = old\<lparr>OState_Owner := owner, OState_ExpiresAt := now + d, OState_Attempt := OState_Attempt old + 1\<rparr>
      in case commit io (outbox_state_record rid st) s of
           (Some e, s') \<Rightarrow> (Inl e, s')
         | (None, s') \<Rightarrow>
             (Inr \<lparr>OutboxLease_Item = the (outbox s' rid), OutboxLease_Owner = owner,
                    OutboxLease_ExpiresAt = OState_ExpiresAt st, OutboxLease_Attempt = OState_Attempt st\<rparr>, s'))"

definition outbox_created :: "journal_store \<Rightarrow> string \<Rightarrow> time" where
  "outbox_created s rid = (case outbox s rid of None \<Rightarrow> zero_time | Some i \<Rightarrow> Outbox_CreatedAt i)"

definition outbox_keys :: "string list \<Rightarrow> int \<Rightarrow> time \<Rightarrow> journal_store \<Rightarrow> string list" where
  "outbox_keys ks limit now s =
     take (nat limit) (sort_key (\<lambda>k. (outbox_created s k, k))
       (filter (\<lambda>k. outbox_free now (get_or zero_outboxState (outboxStates s) k)) ks))"

definition ClaimOutbox ::
  "(nat \<Rightarrow> append_io) \<Rightarrow> string list \<Rightarrow> string \<Rightarrow> int \<Rightarrow> time \<Rightarrow> duration \<Rightarrow> journal_store \<Rightarrow>
   outbox_lease list result \<times> journal_store" where
  "ClaimOutbox io ks owner limit now d s =
     (if owner = '''' \<or> limit \<le> 0 \<or> d \<le> 0
      then (Inl (ErrText ''outbox lease owner, positive limit, and duration are required''), s)
      else claim_loop (claim_one_outbox owner now d) io (outbox_keys ks limit now s) s)"

definition with_outbox_lease ::
  "append_io \<Rightarrow> outbox_lease \<Rightarrow> (outboxState \<Rightarrow> bool) \<Rightarrow> (outboxState \<Rightarrow> outboxState) \<Rightarrow> journal_store \<Rightarrow>
   error option \<times> journal_store" where
  "with_outbox_lease io lease lost upd s =
     (let rid = Outbox_ID (OutboxLease_Item lease) in
      case outboxStates s rid of
        None \<Rightarrow> (Some ErrLeaseLost, s)
      | Some st \<Rightarrow>
          if OState_Owner st \<noteq> OutboxLease_Owner lease \<or> lost st then (Some ErrLeaseLost, s)
          else commit io (outbox_state_record rid (upd st)) s)"

definition RenewOutboxLease ::
  "append_io \<Rightarrow> outbox_lease \<Rightarrow> time \<Rightarrow> duration \<Rightarrow> journal_store \<Rightarrow> outbox_lease result \<times> journal_store" where
  "RenewOutboxLease io lease now d s =
     (case with_outbox_lease io lease (\<lambda>st. \<not> OState_ExpiresAt st > now \<or> OState_Acked st)
             (\<lambda>st. st\<lparr>OState_ExpiresAt := now + d\<rparr>) s of
        (Some e, s') \<Rightarrow> (Inl e, s')
      | (None, s') \<Rightarrow> (Inr (lease\<lparr>OutboxLease_ExpiresAt := now + d\<rparr>), s'))"

text \<open>\<open>wall\<close> is the value of \<open>time.Now().UTC()\<close> inside the operation.\<close>

definition AckOutbox :: "append_io \<Rightarrow> time \<Rightarrow> outbox_lease \<Rightarrow> journal_store \<Rightarrow> error option \<times> journal_store" where
  "AckOutbox io wall lease s =
     with_outbox_lease io lease OState_Acked
       (\<lambda>st. st\<lparr>OState_Owner := '''', OState_ExpiresAt := zero_time, OState_Acked := True,
                OState_AckedAt := wall\<rparr>) s"

definition RetryOutbox :: "append_io \<Rightarrow> outbox_lease \<Rightarrow> time \<Rightarrow> journal_store \<Rightarrow> error option \<times> journal_store" where
  "RetryOutbox io lease availableAt s =
     with_outbox_lease io lease (\<lambda>st. OState_Acked st \<or> OState_DeadLettered st)
       (\<lambda>st. st\<lparr>OState_Owner := '''', OState_ExpiresAt := zero_time, OState_AvailableAt := availableAt\<rparr>) s"

definition DeadLetterOutbox ::
  "append_io \<Rightarrow> time \<Rightarrow> outbox_lease \<Rightarrow> string \<Rightarrow> journal_store \<Rightarrow> error option \<times> journal_store" where
  "DeadLetterOutbox io wall lease reason s =
     with_outbox_lease io lease (\<lambda>st. OState_Acked st \<or> OState_DeadLettered st)
       (\<lambda>st. st\<lparr>OState_Owner := '''', OState_ExpiresAt := zero_time, OState_DeadLettered := True,
                OState_LastError := reason, OState_DeadLetterAt := wall\<rparr>) s"

definition some_unless_zero :: "time \<Rightarrow> time option" where
  "some_unless_zero t = (if IsZero t then None else Some t)"

definition outboxRecordLocked :: "journal_store \<Rightarrow> string \<Rightarrow> outbox_record" where
  "outboxRecordLocked s rid =
     (let st = get_or zero_outboxState (outboxStates s) rid in
      \<lparr>ORecord_Item = the (outbox s rid),
       ORecord_Status = (if OState_Purged st then OutboxPurged
                         else if OState_DeadLettered st then OutboxDeadLettered
                         else if OState_Acked st then OutboxAcked else OutboxPending),
       ORecord_Attempts = OState_Attempt st, ORecord_AvailableAt = OState_AvailableAt st,
       ORecord_LastError = OState_LastError st,
       ORecord_AckedAt = some_unless_zero (OState_AckedAt st),
       ORecord_DeadLetterAt = some_unless_zero (OState_DeadLetterAt st),
       ORecord_PurgedAt = some_unless_zero (OState_PurgedAt st)\<rparr>)"

definition ListOutbox ::
  "string list \<Rightarrow> string \<Rightarrow> OutboxStatus \<Rightarrow> int \<Rightarrow> journal_store \<Rightarrow> outbox_record list result" where
  "ListOutbox ks tenantID status limit s =
     (if tenantID = '''' \<or> limit \<le> 0
      then Inl (ErrText ''tenant and positive outbox limit are required'')
      else Inr (take (nat limit)
             (filter (\<lambda>r. status = OutboxStatusUnset \<or> ORecord_Status r = status)
                (map (outboxRecordLocked s)
                   (sort_key (\<lambda>k. (outbox_created s k, k))
                      (filter (\<lambda>k. map_option Outbox_TenantID (outbox s k) = Some tenantID) ks))))))"

definition ReplayOutbox ::
  "append_io \<Rightarrow> string \<Rightarrow> string \<Rightarrow> time \<Rightarrow> journal_store \<Rightarrow> error option \<times> journal_store" where
  "ReplayOutbox io tenantID rid now s =
     (case outbox s rid of
        None \<Rightarrow> (Some ErrNotFound, s)
      | Some item \<Rightarrow>
          if Outbox_TenantID item \<noteq> tenantID then (Some ErrNotFound, s)
          else
            let st = get_or zero_outboxState (outboxStates s) rid in
            if \<not> OState_DeadLettered st \<or> OState_Purged st
            then (Some (ErrText ''only a non-purged dead-letter outbox item can be replayed''), s)
            else commit io (outbox_state_record rid
                   (st\<lparr>OState_DeadLettered := False, OState_Owner := '''', OState_ExpiresAt := zero_time,
                       OState_AvailableAt := now, OState_LastError := '''', OState_DeadLetterAt := zero_time\<rparr>)) s)"

text \<open>The loop of \<open>PurgeOutbox\<close> over the outbox in the order \<open>ks\<close>; \<open>count\<close> is the number purged so
  far, which also is the number of appends made.\<close>

primrec purge_loop ::
  "(nat \<Rightarrow> append_io) \<Rightarrow> time \<Rightarrow> string \<Rightarrow> time \<Rightarrow> nat \<Rightarrow> string list \<Rightarrow> nat \<Rightarrow> journal_store \<Rightarrow>
   (nat \<times> error option) \<times> journal_store" where
  "purge_loop io wall tenantID before limit [] count s = ((count, None), s)"
| "purge_loop io wall tenantID before limit (rid # rids) count s =
     (case outbox s rid of
        None \<Rightarrow> purge_loop io wall tenantID before limit rids count s
      | Some item \<Rightarrow>
          if count = limit \<or> Outbox_TenantID item \<noteq> tenantID \<or> \<not> Outbox_CreatedAt item < before
          then purge_loop io wall tenantID before limit rids count s
          else
            let st = get_or zero_outboxState (outboxStates s) rid in
            if (\<not> OState_Acked st \<and> \<not> OState_DeadLettered st) \<or> OState_Purged st
            then purge_loop io wall tenantID before limit rids count s
            else
              case commit (io count) (outbox_state_record rid
                     (st\<lparr>OState_Purged := True, OState_PurgedAt := wall, OState_Owner := '''',
                         OState_ExpiresAt := zero_time\<rparr>)) s of
                (Some e, s') \<Rightarrow> ((count, Some e), s')
              | (None, s') \<Rightarrow> purge_loop io wall tenantID before limit rids (Suc count) s')"

definition PurgeOutbox ::
  "(nat \<Rightarrow> append_io) \<Rightarrow> string list \<Rightarrow> time \<Rightarrow> string \<Rightarrow> time \<Rightarrow> int \<Rightarrow> journal_store \<Rightarrow>
   (nat \<times> error option) \<times> journal_store" where
  "PurgeOutbox io ks wall tenantID before limit s =
     (if tenantID = '''' \<or> limit \<le> 0
      then ((0, Some (ErrText ''tenant and positive outbox purge limit are required'')), s)
      else purge_loop io wall tenantID before (nat limit) ks 0 s)"

section \<open>The lease protocol\<close>

text \<open>What handling one key of the table does: nothing on an error, otherwise the entry of that key
  changes by \<open>f\<close> and the lease returned is related to the key by \<open>Q\<close>.\<close>

definition takes_key :: "('s \<Rightarrow> bool) \<Rightarrow> ('s \<Rightarrow> string set) \<Rightarrow> ('s \<Rightarrow> string \<Rightarrow> 'v) \<Rightarrow> ('l \<Rightarrow> string \<Rightarrow> bool) \<Rightarrow>
    ('v \<Rightarrow> 'v) \<Rightarrow> (append_io \<Rightarrow> string \<Rightarrow> 's \<Rightarrow> 'l result \<times> 's) \<Rightarrow> bool" where
  "takes_key I T V Q f body \<longleftrightarrow>
     (\<forall>io k s r s'. I s \<longrightarrow> k \<in> T s \<longrightarrow> body io k s = (r, s') \<longrightarrow>
        I s' \<and> T s' = T s \<and> (\<forall>k'. k' \<noteq> k \<longrightarrow> V s' k' = V s k') \<and>
        (case r of Inl e \<Rightarrow> V s' k = V s k | Inr l \<Rightarrow> Q l k \<and> V s' k = f (V s k)))"

lemmas takes_keyD = takes_key_def [THEN iffD1, rule_format]

text \<open>The loop changes only the keys it was given, and when it succeeds it has taken all of them.\<close>

lemma claim_loop_run:
  assumes step: "takes_key I T V Q f body"
  shows "I s \<Longrightarrow> distinct ks \<Longrightarrow> set ks \<subseteq> T s \<Longrightarrow> claim_loop body io ks s = (r, s') \<Longrightarrow>
      I s' \<and> T s' = T s \<and> (\<forall>k. k \<notin> set ks \<longrightarrow> V s' k = V s k) \<and>
      (\<forall>ls. r = Inr ls \<longrightarrow> list_all2 Q ls ks \<and> (\<forall>k\<in>set ks. V s' k = f (V s k)))"
proof (induction ks arbitrary: io s r s')
  case Nil
  then show ?case by auto
next
  case (Cons k ks)
  obtain r1 s1 where b: "body (io 0) k s = (r1, s1)" by fastforce
  note st = takes_keyD [OF step Cons.prems(1) _ b]
  show ?case
  proof (cases r1)
    case (Inl e)
    with b st Cons.prems show ?thesis by auto
  next
    case (Inr l)
    obtain r2 s2 where c: "claim_loop body (\<lambda>n. io (Suc n)) ks s1 = (r2, s2)" by fastforce
    from st Inr Cons.prems have s1: "I s1" "T s1 = T s" "\<forall>k'. k' \<noteq> k \<longrightarrow> V s1 k' = V s k'"
        "Q l k" "V s1 k = f (V s k)"
      by auto
    have IH: "I s2 \<and> T s2 = T s1 \<and> (\<forall>k. k \<notin> set ks \<longrightarrow> V s2 k = V s1 k) \<and>
        (\<forall>ls. r2 = Inr ls \<longrightarrow> list_all2 Q ls ks \<and> (\<forall>k\<in>set ks. V s2 k = f (V s1 k)))"
      using Cons.IH [OF s1(1) _ _ c] Cons.prems s1(2) by auto
    have res: "s' = s2" "r = (case r2 of Inl e \<Rightarrow> Inl e | Inr ls \<Rightarrow> Inr (l # ls))"
      using Cons.prems(4) b c Inr by (auto split: sum.splits)
    have nk: "k \<notin> set ks" using Cons.prems(2) by simp
    from IH s1 nk res show ?thesis
      by (auto split: sum.splits)
  qed
qed

locale lease_table =
  fixes table :: "'s \<Rightarrow> string set"
    and inv :: "'s \<Rightarrow> bool"
    and owner_of :: "'s \<Rightarrow> string \<Rightarrow> string"
    and expiry_of :: "'s \<Rightarrow> string \<Rightarrow> time"
    and claim :: "(nat \<Rightarrow> append_io) \<Rightarrow> string list \<Rightarrow> string \<Rightarrow> int \<Rightarrow> time \<Rightarrow> duration \<Rightarrow> 's \<Rightarrow> 'l list result \<times> 's"
    and renew :: "append_io \<Rightarrow> 'l \<Rightarrow> time \<Rightarrow> duration \<Rightarrow> 's \<Rightarrow> 'l result \<times> 's"
    and lkey :: "'l \<Rightarrow> string"
    and lowner :: "'l \<Rightarrow> string"
  assumes claim_run: "inv s \<Longrightarrow> distinct ks \<Longrightarrow> set ks \<subseteq> table s \<Longrightarrow> claim io ks w n now d s = (r, s') \<Longrightarrow>
      inv s' \<and> table s' = table s \<and>
      (\<forall>k. owner_of s k \<noteq> '''' \<and> now < expiry_of s k \<longrightarrow>
           owner_of s' k = owner_of s k \<and> expiry_of s' k = expiry_of s k)"
    and claim_takes: "inv s \<Longrightarrow> distinct ks \<Longrightarrow> set ks \<subseteq> table s \<Longrightarrow> claim io ks w n now d s = (Inr ls, s') \<Longrightarrow>
      w \<noteq> '''' \<and> length ls \<le> nat n \<and> distinct (map lkey ls) \<and>
      (\<forall>l\<in>set ls. lkey l \<in> set ks \<and> (owner_of s (lkey l) = '''' \<or> expiry_of s (lkey l) \<le> now) \<and>
         lowner l = w \<and> owner_of s' (lkey l) = w \<and> expiry_of s' (lkey l) = now + d)"
    and renew_run: "inv s \<Longrightarrow> renew io1 l now d s = (r1, s') \<Longrightarrow>
      inv s' \<and> table s' = table s \<and>
      (\<forall>k. k \<noteq> lkey l \<longrightarrow> owner_of s' k = owner_of s k \<and> expiry_of s' k = expiry_of s k) \<and>
      (case r1 of
         Inl e \<Rightarrow> owner_of s' (lkey l) = owner_of s (lkey l) \<and> expiry_of s' (lkey l) = expiry_of s (lkey l)
       | Inr l' \<Rightarrow> owner_of s (lkey l) = lowner l \<and> now < expiry_of s (lkey l) \<and>
                   owner_of s' (lkey l) = lowner l \<and> expiry_of s' (lkey l) = now + d \<and>
                   lkey l' = lkey l \<and> lowner l' = lowner l)"
begin

text \<open>\<open>w\<close> holds \<open>k\<close> until \<open>t\<close>.\<close>

definition holds :: "'s \<Rightarrow> string \<Rightarrow> string \<Rightarrow> time \<Rightarrow> bool" where
  "holds s k w t \<longleftrightarrow> inv s \<and> w \<noteq> '''' \<and> owner_of s k = w \<and> t \<le> expiry_of s k"

text \<open>What the rest of the world may do before time \<open>t\<close> without the holder giving \<open>k\<close> up: claims by
  anybody, renewals, as long as no clock runs backwards by more than a lease (a renewal by the
  holder itself must not shorten its lease below \<open>t\<close>), and any operation that leaves the entry of \<open>k\<close>
  alone.\<close>

inductive before :: "string \<Rightarrow> time \<Rightarrow> 's \<Rightarrow> 's \<Rightarrow> bool" for k t where
  before_refl: "before k t s s"
| before_claim: "before k t s s' \<Longrightarrow> now < t \<Longrightarrow> distinct ks \<Longrightarrow> set ks \<subseteq> table s' \<Longrightarrow>
     claim io ks w n now d s' = (r, s'') \<Longrightarrow> before k t s s''"
| before_renew: "before k t s s' \<Longrightarrow> t \<le> now + d \<Longrightarrow> renew io l now d s' = (r, s'') \<Longrightarrow> before k t s s''"
| before_other: "before k t s s' \<Longrightarrow> inv s'' \<Longrightarrow> owner_of s'' k = owner_of s' k \<Longrightarrow>
     expiry_of s'' k = expiry_of s' k \<Longrightarrow> before k t s s''"

lemma holder_keeps:
  assumes "before k t s s'" and "holds s k w t"
  shows "holds s' k w t"
  using assms
proof (induction rule: before.induct)
  case (before_claim s s' now ks io w' n d r s'')
  then show ?case
    using claim_run [of s' ks io w' n now d r s''] by (auto simp: holds_def)
next
  case (before_renew s s' now d io l r s'')
  then show ?case
    using renew_run [of s' io l now d r s'']
    by (cases "k = lkey l") (auto simp: holds_def split: sum.splits)
qed (auto simp: holds_def)

lemma claim_gives_hold:
  assumes "inv s" "distinct ks" "set ks \<subseteq> table s" "claim io ks w n now d s = (Inr ls, s')" "l \<in> set ls"
  shows "holds s' (lkey l) w (now + d)"
  using claim_run [OF assms(1-4)] claim_takes [OF assms(1-4)] assms(5) by (auto simp: holds_def)

text \<open>Mutual exclusion: whatever happened in between, a key claimed until \<open>now + d\<close> is in no claim
  made before that time.\<close>

lemma exclusive:
  assumes "inv s" "distinct ks" "set ks \<subseteq> table s" "claim io ks w n now d s = (Inr ls, s1)" "l \<in> set ls"
    and "before (lkey l) (now + d) s1 s2"
    and "distinct ks'" "set ks' \<subseteq> table s2" "claim io' ks' w' n' now' d' s2 = (Inr ls', s3)" "now' < now + d"
  shows "lkey l \<notin> lkey ` set ls'"
proof
  assume "lkey l \<in> lkey ` set ls'"
  then obtain l' where l': "l' \<in> set ls'" "lkey l' = lkey l" by force
  have h: "holds s2 (lkey l) w (now + d)"
    using holder_keeps [OF assms(6)] claim_gives_hold [OF assms(1-5)] by blast
  then show False
    using claim_takes [OF _ assms(7-9)] l' assms(10) by (force simp: holds_def)
qed

text \<open>The holder can renew as long as its lease has not expired, and nobody else can.\<close>

lemma renewed_until:
  assumes "inv s" "renew io l now d s = (Inr l', s')"
  shows "lowner l \<noteq> '''' \<Longrightarrow> holds s' (lkey l) (lowner l) (now + d)"
  using renew_run [OF assms] by (auto simp: holds_def)

lemma stranger_cannot_renew:
  assumes "holds s k w t" "lkey l = k" "lowner l \<noteq> w" "renew io l now d s = (r, s')"
  shows "\<exists>e. r = Inl e"
  using assms renew_run [OF _ assms(4)] by (cases r) (auto simp: holds_def)

end

section \<open>The three tables\<close>

lemma lease_record_sel [simp]:
  "R_Kind (lease_record k l) = ''lease''" "R_Version (lease_record k l) = 1"
  "R_TaskKey (lease_record k l) = k" "R_Lease (lease_record k l) = Some l"
  "R_Kind (inbox_state_record k i) = ''inbox_state''" "R_Version (inbox_state_record k i) = 1"
  "R_InboxID (inbox_state_record k i) = k" "R_InboxState (inbox_state_record k i) = Some i"
  "R_Kind (outbox_state_record k ob) = ''outbox_state''" "R_Version (outbox_state_record k ob) = 1"
  "R_OutboxID (outbox_state_record k ob) = k" "R_OutboxState (outbox_state_record k ob) = Some ob"
  by (simp_all add: lease_record_def inbox_state_record_def outbox_state_record_def)

lemma apply_state_record [simp]:
  "k \<noteq> '''' \<Longrightarrow> apply_lease (lease_record k l) s = s\<lparr>leases := (leases s)(k \<mapsto> l)\<rparr>"
  "k \<noteq> '''' \<Longrightarrow> apply_inbox_state (inbox_state_record k i) s = s\<lparr>inboxStates := (inboxStates s)(k \<mapsto> i)\<rparr>"
  "k \<noteq> '''' \<Longrightarrow> apply_outbox_state (outbox_state_record k ob) s = s\<lparr>outboxStates := (outboxStates s)(k \<mapsto> ob)\<rparr>"
  by (simp_all add: apply_lease_def apply_inbox_state_def apply_outbox_state_def)

lemma resourceKey_nonempty [simp]: "resourceKey t i \<noteq> []"
  by (simp add: resourceKey_def)

definition inbox_inv :: "journal_store \<Rightarrow> bool" where
  "inbox_inv s \<longleftrightarrow> inboxStates s '''' = None \<and> (\<forall>k i. inbox s k = Some i \<longrightarrow> Inbox_ID i = k \<and> k \<noteq> '''')"

definition outbox_inv :: "journal_store \<Rightarrow> bool" where
  "outbox_inv s \<longleftrightarrow> outboxStates s '''' = None \<and> (\<forall>k i. outbox s k = Some i \<longrightarrow> Outbox_ID i = k \<and> k \<noteq> '''')"

lemma inbox_invD:
  "inbox_inv s \<Longrightarrow> inbox s k = Some i \<Longrightarrow> Inbox_ID i = k \<and> k \<noteq> ''''"
  "inbox_inv s \<Longrightarrow> inboxStates s k = Some st \<Longrightarrow> k \<noteq> ''''"
  by (auto simp: inbox_inv_def)

lemma outbox_invD:
  "outbox_inv s \<Longrightarrow> outbox s k = Some i \<Longrightarrow> Outbox_ID i = k \<and> k \<noteq> ''''"
  "outbox_inv s \<Longrightarrow> outboxStates s k = Some st \<Longrightarrow> k \<noteq> ''''"
  by (auto simp: outbox_inv_def)

lemma table_inv_update [simp]:
  "task_inv (s\<lparr>leases := l\<rparr>) = task_inv s"
  "inbox_inv (s\<lparr>jfile := f\<rparr>) = inbox_inv s"
  "outbox_inv (s\<lparr>jfile := f\<rparr>) = outbox_inv s"
  "k \<noteq> '''' \<Longrightarrow> inbox_inv (s\<lparr>inboxStates := (inboxStates s)(k \<mapsto> i)\<rparr>) = inbox_inv s"
  "k \<noteq> '''' \<Longrightarrow> outbox_inv (s\<lparr>outboxStates := (outboxStates s)(k \<mapsto> ob)\<rparr>) = outbox_inv s"
  by (simp_all add: task_inv_def inbox_inv_def outbox_inv_def)

abbreviation task_lease :: "journal_store \<Rightarrow> string \<Rightarrow> leaseState" where
  "task_lease s k \<equiv> get_or zero_leaseState (leases s) k"

abbreviation inbox_state :: "journal_store \<Rightarrow> string \<Rightarrow> inboxState" where
  "inbox_state s k \<equiv> get_or zero_inboxState (inboxStates s) k"

abbreviation outbox_state :: "journal_store \<Rightarrow> string \<Rightarrow> outboxState" where
  "outbox_state s k \<equiv> get_or zero_outboxState (outboxStates s) k"

lemma claim_one_task_step:
  "takes_key task_inv (\<lambda>s. dom (tasks s)) task_lease (\<lambda>l k. work_lease_key l = k \<and> WorkLease_Owner l = w)
     (\<lambda>v. v\<lparr>Lease_Owner := w, Lease_ExpiresAt := now + d, Lease_Attempt := (Lease_Attempt v) + 1\<rparr>) (claim_one_task w now d)"
proof (unfold takes_key_def, intro allI impI)
  fix io k s r s'
  assume assms: "task_inv s" "k \<in> dom (tasks s)" "claim_one_task w now d io k s = (r, s')"
  from assms(2) obtain t where t: "tasks s k = Some t" by blast
  from task_invD(1) [OF assms(1) t] have k: "k = resourceKey (Task_TenantID t) (Task_ID t)" "k \<noteq> ''''"
    by auto
  show "task_inv s' \<and> dom (tasks s') = dom (tasks s) \<and> (\<forall>k'. k' \<noteq> k \<longrightarrow> task_lease s' k' = task_lease s k') \<and>
      (case r of Inl e \<Rightarrow> task_lease s' k = task_lease s k | Inr l \<Rightarrow> (work_lease_key l = k \<and> WorkLease_Owner l = w) \<and> task_lease s' k = (task_lease s k)\<lparr>Lease_Owner := w, Lease_ExpiresAt := now + d, Lease_Attempt := (Lease_Attempt (task_lease s k)) + 1\<rparr>)"
    using assms(1,3) t k(2)
    by (auto simp: claim_one_task_def Let_def work_lease_key_def k(1) [symmetric]
        split: prod.splits option.splits dest!: commit_error commit_success)
qed

lemma claim_one_inbox_step:
  "takes_key inbox_inv (\<lambda>s. dom (inbox s)) inbox_state (\<lambda>l k. Inbox_ID (InboxLease_Item l) = k \<and> InboxLease_Owner l = w)
     (\<lambda>v. v\<lparr>IState_Owner := w, IState_ExpiresAt := now + d, IState_Attempt := (IState_Attempt v) + 1\<rparr>) (claim_one_inbox w now d)"
proof (unfold takes_key_def, intro allI impI)
  fix io k s r s'
  assume assms: "inbox_inv s" "k \<in> dom (inbox s)" "claim_one_inbox w now d io k s = (r, s')"
  from assms(2) obtain i where i: "inbox s k = Some i" by blast
  show "inbox_inv s' \<and> dom (inbox s') = dom (inbox s) \<and> (\<forall>k'. k' \<noteq> k \<longrightarrow> inbox_state s' k' = inbox_state s k') \<and>
      (case r of Inl e \<Rightarrow> inbox_state s' k = inbox_state s k | Inr l \<Rightarrow> (Inbox_ID (InboxLease_Item l) = k \<and> InboxLease_Owner l = w) \<and> inbox_state s' k = (inbox_state s k)\<lparr>IState_Owner := w, IState_ExpiresAt := now + d, IState_Attempt := (IState_Attempt (inbox_state s k)) + 1\<rparr>)"
    using assms(1,3) i inbox_invD(1) [OF assms(1) i]
    by (auto simp: claim_one_inbox_def Let_def
        split: prod.splits option.splits dest!: commit_error commit_success)
qed

lemma claim_one_outbox_step:
  "takes_key outbox_inv (\<lambda>s. dom (outbox s)) outbox_state (\<lambda>l k. Outbox_ID (OutboxLease_Item l) = k \<and> OutboxLease_Owner l = w)
     (\<lambda>v. v\<lparr>OState_Owner := w, OState_ExpiresAt := now + d, OState_Attempt := (OState_Attempt v) + 1\<rparr>) (claim_one_outbox w now d)"
proof (unfold takes_key_def, intro allI impI)
  fix io k s r s'
  assume assms: "outbox_inv s" "k \<in> dom (outbox s)" "claim_one_outbox w now d io k s = (r, s')"
  from assms(2) obtain i where i: "outbox s k = Some i" by blast
  show "outbox_inv s' \<and> dom (outbox s') = dom (outbox s) \<and> (\<forall>k'. k' \<noteq> k \<longrightarrow> outbox_state s' k' = outbox_state s k') \<and>
      (case r of Inl e \<Rightarrow> outbox_state s' k = outbox_state s k | Inr l \<Rightarrow> (Outbox_ID (OutboxLease_Item l) = k \<and> OutboxLease_Owner l = w) \<and> outbox_state s' k = (outbox_state s k)\<lparr>OState_Owner := w, OState_ExpiresAt := now + d, OState_Attempt := (OState_Attempt (outbox_state s k)) + 1\<rparr>)"
    using assms(1,3) i outbox_invD(1) [OF assms(1) i]
    by (auto simp: claim_one_outbox_def Let_def
        split: prod.splits option.splits dest!: commit_error commit_success)
qed

lemma apply_state_inv [simp]:
  "inbox_inv (apply_inbox_state (inbox_state_record k i) s) = inbox_inv s"
  "outbox_inv (apply_outbox_state (outbox_state_record k ob) s) = outbox_inv s"
  by (simp_all add: inbox_inv_def outbox_inv_def apply_inbox_state_def apply_outbox_state_def)

text \<open>From the related lists of leases and keys to the facts about each lease.\<close>

lemma list_all2_keys:
  assumes "list_all2 (\<lambda>l k. key l = k \<and> P l) ls ks"
  shows "map key ls = ks \<and> (\<forall>l\<in>set ls. P l)"
  using assms by (induction ls ks rule: list_all2_induct) auto

text \<open>What a claim promises, from what the handling of one key does: \<open>V\<close> is the entry of a key, \<open>ow\<close>
  and \<open>ex\<close> its owner and expiry, \<open>sel\<close> the free keys selected among \<open>ks\<close>.\<close>

lemma claim_loop_laws:
  assumes step: "takes_key I T V (\<lambda>l k. key l = k \<and> lo l = w) f body"
    and f: "\<And>v. ow (f v) = w" "\<And>v. ex (f v) = now + d"
    and s: "I s" "set ks \<subseteq> T s"
    and sel: "distinct sel" "length sel \<le> n"
      "\<And>k. k \<in> set sel \<Longrightarrow> k \<in> set ks \<and> (ow (V s k) = '''' \<or> ex (V s k) \<le> (now :: time))"
    and run: "claim_loop body io sel s = (r, s')"
  shows "I s' \<and> T s' = T s \<and>
      (\<forall>k. ow (V s k) \<noteq> '''' \<and> now < ex (V s k) \<longrightarrow> ow (V s' k) = ow (V s k) \<and> ex (V s' k) = ex (V s k))"
    and "r = Inr ls \<Longrightarrow> length ls \<le> n \<and> distinct (map key ls) \<and>
      (\<forall>l\<in>set ls. key l \<in> set ks \<and> (ow (V s (key l)) = '''' \<or> ex (V s (key l)) \<le> now) \<and>
         lo l = w \<and> ow (V s' (key l)) = w \<and> ex (V s' (key l)) = now + d)"
proof -
  have "set sel \<subseteq> T s" using sel(3) s(2) by blast
  from claim_loop_run [OF step s(1) sel(1) this run]
  have run': "I s' \<and> T s' = T s \<and> (\<forall>k. k \<notin> set sel \<longrightarrow> V s' k = V s k) \<and>
      (\<forall>ls. r = Inr ls \<longrightarrow> list_all2 (\<lambda>l k. key l = k \<and> lo l = w) ls sel \<and> (\<forall>k\<in>set sel. V s' k = f (V s k)))"
    by blast
  then have frame: "I s' \<and> T s' = T s \<and> (\<forall>k. k \<notin> set sel \<longrightarrow> V s' k = V s k)"
    by blast
  moreover have "k \<notin> set sel" if "ow (V s k) \<noteq> ''''" "now < ex (V s k)" for k
    using that sel(3) by force
  ultimately show "I s' \<and> T s' = T s \<and>
      (\<forall>k. ow (V s k) \<noteq> '''' \<and> now < ex (V s k) \<longrightarrow> ow (V s' k) = ow (V s k) \<and> ex (V s' k) = ex (V s k))"
    by simp
  assume "r = Inr ls"
  with run' have "list_all2 (\<lambda>l k. key l = k \<and> lo l = w) ls sel" and took: "\<forall>k\<in>set sel. V s' k = f (V s k)"
    by blast+
  from list_all2_keys [OF this(1)] have ls: "map key ls = sel" "\<forall>l\<in>set ls. lo l = w" by blast+
  have "length ls \<le> n" "distinct (map key ls)"
    using sel(1,2) by (simp_all flip: ls(1))
  moreover have "\<forall>l\<in>set ls. key l \<in> set sel"
    by (simp flip: ls(1))
  ultimately show "length ls \<le> n \<and> distinct (map key ls) \<and>
      (\<forall>l\<in>set ls. key l \<in> set ks \<and> (ow (V s (key l)) = '''' \<or> ex (V s (key l)) \<le> now) \<and>
         lo l = w \<and> ow (V s' (key l)) = w \<and> ex (V s' (key l)) = now + d)"
    using took ls(2) sel(3) f by simp
qed

lemmas claim_tasks_laws = claim_loop_laws [where I = task_inv and T = "\<lambda>s. dom (tasks s)" and V = task_lease
  and ow = Lease_Owner and ex = Lease_ExpiresAt
  and now = now and d = d, OF claim_one_task_step [where now = now and d = d], simplified] for now d

lemmas claim_inbox_laws = claim_loop_laws [where I = inbox_inv and T = "\<lambda>s. dom (inbox s)" and V = inbox_state
  and ow = IState_Owner and ex = IState_ExpiresAt
  and now = now and d = d, OF claim_one_inbox_step [where now = now and d = d], simplified] for now d

lemmas claim_outbox_laws = claim_loop_laws [where I = outbox_inv and T = "\<lambda>s. dom (outbox s)" and V = outbox_state
  and ow = OState_Owner and ex = OState_ExpiresAt
  and now = now and d = d, OF claim_one_outbox_step [where now = now and d = d], simplified] for now d

text \<open>The keys selected by the three claims: free, among those given, and at most \<open>limit\<close> of them.\<close>

lemma recoverable_keys_props:
  assumes "distinct ks"
  shows "distinct (recoverable_keys ks n now s)" and "length (recoverable_keys ks n now s) \<le> nat n"
    and "k \<in> set (recoverable_keys ks n now s) \<Longrightarrow> k \<in> set ks \<and>
      (Lease_Owner (task_lease s k) = '''' \<or> Lease_ExpiresAt (task_lease s k) \<le> now)"
  using assms by (auto simp: recoverable_keys_def claimable_task_def lease_free_def distinct_take
      dest!: take_sort_key_sub split: option.splits)

lemma inbox_keys_props:
  assumes "distinct ks"
  shows "distinct (inbox_keys ks n now s)" and "length (inbox_keys ks n now s) \<le> nat n"
    and "k \<in> set (inbox_keys ks n now s) \<Longrightarrow> k \<in> set ks \<and>
      (IState_Owner (inbox_state s k) = '''' \<or> IState_ExpiresAt (inbox_state s k) \<le> now)"
  using assms by (auto simp: inbox_keys_def inbox_free_def distinct_take dest!: take_sort_key_sub)

lemma outbox_keys_props:
  assumes "distinct ks"
  shows "distinct (outbox_keys ks n now s)" and "length (outbox_keys ks n now s) \<le> nat n"
    and "k \<in> set (outbox_keys ks n now s) \<Longrightarrow> k \<in> set ks \<and>
      (OState_Owner (outbox_state s k) = '''' \<or> OState_ExpiresAt (outbox_state s k) \<le> now)"
  using assms by (auto simp: outbox_keys_def outbox_free_def distinct_take dest!: take_sort_key_sub)

interpretation task_leases: lease_table "\<lambda>s. dom (tasks s)" task_inv "\<lambda>s k. Lease_Owner (task_lease s k)" "\<lambda>s k. Lease_ExpiresAt (task_lease s k)"
    ClaimRecoverable RenewLease "work_lease_key" WorkLease_Owner
proof
  fix s ks io w n now d r s'
  assume *: "task_inv s" "distinct ks" "set ks \<subseteq> dom (tasks s)" "ClaimRecoverable io ks w n now d s = (r, s')"
  show "task_inv s' \<and> dom (tasks s') = dom (tasks s) \<and>
      (\<forall>k. Lease_Owner (task_lease s k) \<noteq> '''' \<and> now < Lease_ExpiresAt (task_lease s k) \<longrightarrow>
        Lease_Owner (task_lease s' k) = Lease_Owner (task_lease s k) \<and> Lease_ExpiresAt (task_lease s' k) = Lease_ExpiresAt (task_lease s k))"
    using claim_tasks_laws(1) [OF *(1,3) recoverable_keys_props [OF *(2), where n = n and now = now and s = s]] * by (auto simp: ClaimRecoverable_def split: if_splits)
next
  fix s ks io w n now d ls s'
  assume *: "task_inv s" "distinct ks" "set ks \<subseteq> dom (tasks s)" "ClaimRecoverable io ks w n now d s = (Inr ls, s')"
  have "w \<noteq> ''''" using * by (auto simp: ClaimRecoverable_def split: if_splits)
  with claim_tasks_laws(2) [OF *(1,3) recoverable_keys_props [OF *(2), where n = n and now = now and s = s]] *
  show "w \<noteq> '''' \<and> length ls \<le> nat n \<and> distinct (map (work_lease_key) ls) \<and>
      (\<forall>l\<in>set ls. (work_lease_key) l \<in> set ks \<and> (Lease_Owner (task_lease s ((work_lease_key) l)) = '''' \<or> Lease_ExpiresAt (task_lease s ((work_lease_key) l)) \<le> now) \<and>
         WorkLease_Owner l = w \<and> Lease_Owner (task_lease s' ((work_lease_key) l)) = w \<and> Lease_ExpiresAt (task_lease s' ((work_lease_key) l)) = now + d)"
    by (auto simp: ClaimRecoverable_def split: if_splits)
next
  fix s io1 l now d r1 s'
  assume "task_inv s" "RenewLease io1 l now d s = (r1, s')"
  then show "task_inv s' \<and> dom (tasks s') = dom (tasks s) \<and>
      (\<forall>k. k \<noteq> (work_lease_key) l \<longrightarrow> Lease_Owner (task_lease s' k) = Lease_Owner (task_lease s k) \<and> Lease_ExpiresAt (task_lease s' k) = Lease_ExpiresAt (task_lease s k)) \<and>
      (case r1 of
         Inl e \<Rightarrow> Lease_Owner (task_lease s' ((work_lease_key) l)) = Lease_Owner (task_lease s ((work_lease_key) l)) \<and>
           Lease_ExpiresAt (task_lease s' ((work_lease_key) l)) = Lease_ExpiresAt (task_lease s ((work_lease_key) l))
       | Inr l' \<Rightarrow> Lease_Owner (task_lease s ((work_lease_key) l)) = WorkLease_Owner l \<and> now < Lease_ExpiresAt (task_lease s ((work_lease_key) l)) \<and>
           Lease_Owner (task_lease s' ((work_lease_key) l)) = WorkLease_Owner l \<and> Lease_ExpiresAt (task_lease s' ((work_lease_key) l)) = now + d \<and>
           (work_lease_key) l' = (work_lease_key) l \<and> WorkLease_Owner l' = WorkLease_Owner l)"
    by (auto simp: RenewLease_def work_lease_key_def Let_def split: if_splits prod.splits option.splits
        dest!: commit_error commit_success)
qed

interpretation inbox_leases: lease_table "\<lambda>s. dom (inbox s)" inbox_inv "\<lambda>s k. IState_Owner (inbox_state s k)" "\<lambda>s k. IState_ExpiresAt (inbox_state s k)"
    ClaimInbox RenewInboxLease "\<lambda>l. Inbox_ID (InboxLease_Item l)" InboxLease_Owner
proof
  fix s ks io w n now d r s'
  assume *: "inbox_inv s" "distinct ks" "set ks \<subseteq> dom (inbox s)" "ClaimInbox io ks w n now d s = (r, s')"
  show "inbox_inv s' \<and> dom (inbox s') = dom (inbox s) \<and>
      (\<forall>k. IState_Owner (inbox_state s k) \<noteq> '''' \<and> now < IState_ExpiresAt (inbox_state s k) \<longrightarrow>
        IState_Owner (inbox_state s' k) = IState_Owner (inbox_state s k) \<and> IState_ExpiresAt (inbox_state s' k) = IState_ExpiresAt (inbox_state s k))"
    using claim_inbox_laws(1) [OF *(1,3) inbox_keys_props [OF *(2), where n = n and now = now and s = s]] * by (auto simp: ClaimInbox_def split: if_splits)
next
  fix s ks io w n now d ls s'
  assume *: "inbox_inv s" "distinct ks" "set ks \<subseteq> dom (inbox s)" "ClaimInbox io ks w n now d s = (Inr ls, s')"
  have "w \<noteq> ''''" using * by (auto simp: ClaimInbox_def split: if_splits)
  with claim_inbox_laws(2) [OF *(1,3) inbox_keys_props [OF *(2), where n = n and now = now and s = s]] *
  show "w \<noteq> '''' \<and> length ls \<le> nat n \<and> distinct (map (\<lambda>l. Inbox_ID (InboxLease_Item l)) ls) \<and>
      (\<forall>l\<in>set ls. (\<lambda>l. Inbox_ID (InboxLease_Item l)) l \<in> set ks \<and> (IState_Owner (inbox_state s ((\<lambda>l. Inbox_ID (InboxLease_Item l)) l)) = '''' \<or> IState_ExpiresAt (inbox_state s ((\<lambda>l. Inbox_ID (InboxLease_Item l)) l)) \<le> now) \<and>
         InboxLease_Owner l = w \<and> IState_Owner (inbox_state s' ((\<lambda>l. Inbox_ID (InboxLease_Item l)) l)) = w \<and> IState_ExpiresAt (inbox_state s' ((\<lambda>l. Inbox_ID (InboxLease_Item l)) l)) = now + d)"
    by (auto simp: ClaimInbox_def split: if_splits)
next
  fix s io1 l now d r1 s'
  assume "inbox_inv s" "RenewInboxLease io1 l now d s = (r1, s')"
  then show "inbox_inv s' \<and> dom (inbox s') = dom (inbox s) \<and>
      (\<forall>k. k \<noteq> (\<lambda>l. Inbox_ID (InboxLease_Item l)) l \<longrightarrow> IState_Owner (inbox_state s' k) = IState_Owner (inbox_state s k) \<and> IState_ExpiresAt (inbox_state s' k) = IState_ExpiresAt (inbox_state s k)) \<and>
      (case r1 of
         Inl e \<Rightarrow> IState_Owner (inbox_state s' ((\<lambda>l. Inbox_ID (InboxLease_Item l)) l)) = IState_Owner (inbox_state s ((\<lambda>l. Inbox_ID (InboxLease_Item l)) l)) \<and>
           IState_ExpiresAt (inbox_state s' ((\<lambda>l. Inbox_ID (InboxLease_Item l)) l)) = IState_ExpiresAt (inbox_state s ((\<lambda>l. Inbox_ID (InboxLease_Item l)) l))
       | Inr l' \<Rightarrow> IState_Owner (inbox_state s ((\<lambda>l. Inbox_ID (InboxLease_Item l)) l)) = InboxLease_Owner l \<and> now < IState_ExpiresAt (inbox_state s ((\<lambda>l. Inbox_ID (InboxLease_Item l)) l)) \<and>
           IState_Owner (inbox_state s' ((\<lambda>l. Inbox_ID (InboxLease_Item l)) l)) = InboxLease_Owner l \<and> IState_ExpiresAt (inbox_state s' ((\<lambda>l. Inbox_ID (InboxLease_Item l)) l)) = now + d \<and>
           (\<lambda>l. Inbox_ID (InboxLease_Item l)) l' = (\<lambda>l. Inbox_ID (InboxLease_Item l)) l \<and> InboxLease_Owner l' = InboxLease_Owner l)"
    by (auto simp: RenewInboxLease_def with_inbox_lease_def Let_def split: if_splits prod.splits option.splits
        dest!: commit_error commit_success dest: inbox_invD(2))
qed

interpretation outbox_leases: lease_table "\<lambda>s. dom (outbox s)" outbox_inv "\<lambda>s k. OState_Owner (outbox_state s k)" "\<lambda>s k. OState_ExpiresAt (outbox_state s k)"
    ClaimOutbox RenewOutboxLease "\<lambda>l. Outbox_ID (OutboxLease_Item l)" OutboxLease_Owner
proof
  fix s ks io w n now d r s'
  assume *: "outbox_inv s" "distinct ks" "set ks \<subseteq> dom (outbox s)" "ClaimOutbox io ks w n now d s = (r, s')"
  show "outbox_inv s' \<and> dom (outbox s') = dom (outbox s) \<and>
      (\<forall>k. OState_Owner (outbox_state s k) \<noteq> '''' \<and> now < OState_ExpiresAt (outbox_state s k) \<longrightarrow>
        OState_Owner (outbox_state s' k) = OState_Owner (outbox_state s k) \<and> OState_ExpiresAt (outbox_state s' k) = OState_ExpiresAt (outbox_state s k))"
    using claim_outbox_laws(1) [OF *(1,3) outbox_keys_props [OF *(2), where n = n and now = now and s = s]] * by (auto simp: ClaimOutbox_def split: if_splits)
next
  fix s ks io w n now d ls s'
  assume *: "outbox_inv s" "distinct ks" "set ks \<subseteq> dom (outbox s)" "ClaimOutbox io ks w n now d s = (Inr ls, s')"
  have "w \<noteq> ''''" using * by (auto simp: ClaimOutbox_def split: if_splits)
  with claim_outbox_laws(2) [OF *(1,3) outbox_keys_props [OF *(2), where n = n and now = now and s = s]] *
  show "w \<noteq> '''' \<and> length ls \<le> nat n \<and> distinct (map (\<lambda>l. Outbox_ID (OutboxLease_Item l)) ls) \<and>
      (\<forall>l\<in>set ls. (\<lambda>l. Outbox_ID (OutboxLease_Item l)) l \<in> set ks \<and> (OState_Owner (outbox_state s ((\<lambda>l. Outbox_ID (OutboxLease_Item l)) l)) = '''' \<or> OState_ExpiresAt (outbox_state s ((\<lambda>l. Outbox_ID (OutboxLease_Item l)) l)) \<le> now) \<and>
         OutboxLease_Owner l = w \<and> OState_Owner (outbox_state s' ((\<lambda>l. Outbox_ID (OutboxLease_Item l)) l)) = w \<and> OState_ExpiresAt (outbox_state s' ((\<lambda>l. Outbox_ID (OutboxLease_Item l)) l)) = now + d)"
    by (auto simp: ClaimOutbox_def split: if_splits)
next
  fix s io1 l now d r1 s'
  assume "outbox_inv s" "RenewOutboxLease io1 l now d s = (r1, s')"
  then show "outbox_inv s' \<and> dom (outbox s') = dom (outbox s) \<and>
      (\<forall>k. k \<noteq> (\<lambda>l. Outbox_ID (OutboxLease_Item l)) l \<longrightarrow> OState_Owner (outbox_state s' k) = OState_Owner (outbox_state s k) \<and> OState_ExpiresAt (outbox_state s' k) = OState_ExpiresAt (outbox_state s k)) \<and>
      (case r1 of
         Inl e \<Rightarrow> OState_Owner (outbox_state s' ((\<lambda>l. Outbox_ID (OutboxLease_Item l)) l)) = OState_Owner (outbox_state s ((\<lambda>l. Outbox_ID (OutboxLease_Item l)) l)) \<and>
           OState_ExpiresAt (outbox_state s' ((\<lambda>l. Outbox_ID (OutboxLease_Item l)) l)) = OState_ExpiresAt (outbox_state s ((\<lambda>l. Outbox_ID (OutboxLease_Item l)) l))
       | Inr l' \<Rightarrow> OState_Owner (outbox_state s ((\<lambda>l. Outbox_ID (OutboxLease_Item l)) l)) = OutboxLease_Owner l \<and> now < OState_ExpiresAt (outbox_state s ((\<lambda>l. Outbox_ID (OutboxLease_Item l)) l)) \<and>
           OState_Owner (outbox_state s' ((\<lambda>l. Outbox_ID (OutboxLease_Item l)) l)) = OutboxLease_Owner l \<and> OState_ExpiresAt (outbox_state s' ((\<lambda>l. Outbox_ID (OutboxLease_Item l)) l)) = now + d \<and>
           (\<lambda>l. Outbox_ID (OutboxLease_Item l)) l' = (\<lambda>l. Outbox_ID (OutboxLease_Item l)) l \<and> OutboxLease_Owner l' = OutboxLease_Owner l)"
    by (auto simp: RenewOutboxLease_def with_outbox_lease_def Let_def split: if_splits prod.splits option.splits
        dest!: commit_error commit_success dest: outbox_invD(2))
qed

end
