(* ===== verification/Artifact_Store.thy ===== *)
theory Artifact_Store
  imports Lease_Store
begin

text \<open>
  The rest of \<open>JournalStore\<close>: token revocations, the metadata and quota accounting of externalized
  artifacts with their deletion leases, worker controls, and closing the store.

  Byte and object counters are Go \<open>int64\<close> values: additions and subtractions wrap (\<open>wrap64\<close>).
\<close>

section \<open>Token revocations\<close>

definition RevokeToken_store :: "append_io \<Rightarrow> token_revocation \<Rightarrow> journal_store \<Rightarrow> error option \<times> journal_store" where
  "RevokeToken_store io v s =
     (if Revocation_Issuer v = '''' \<or> Revocation_TokenID v = '''' \<or> Revocation_TenantID v = '''' \<or>
         IsZero (Revocation_RevokedAt v) \<or> IsZero (Revocation_ExpiresAt v)
      then (Some (ErrText ''revocation issuer, token ID, tenant, revoked time, and expiry are required''), s)
      else commit io ((record1 ''revocation'')\<lparr>R_Revocation := Some v\<rparr>) s)"

definition TokenRevoked :: "string \<Rightarrow> string \<Rightarrow> string \<Rightarrow> time \<Rightarrow> journal_store \<Rightarrow> bool" where
  "TokenRevoked issuer tokenID tenantID now s =
     (case revocations s (revocationKey issuer tokenID tenantID) of
        None \<Rightarrow> False
      | Some v \<Rightarrow> now < Revocation_ExpiresAt v)"

definition prune_one :: "time \<Rightarrow> string \<Rightarrow> (string \<rightharpoonup> token_revocation) \<times> int \<Rightarrow> (string \<rightharpoonup> token_revocation) \<times> int" where
  "prune_one now key acc =
     (case acc of (m, removed) \<Rightarrow>
        (case m key of
           None \<Rightarrow> (m, removed)
         | Some v \<Rightarrow> if \<not> now < Revocation_ExpiresAt v then (m(key := None), removed + 1) else (m, removed)))"

definition PruneRevocations :: "string list \<Rightarrow> time \<Rightarrow> journal_store \<Rightarrow> int \<times> journal_store" where
  "PruneRevocations ks now s =
     (let (m, removed) = fold (prune_one now) ks (revocations s, 0) in (removed, s\<lparr>revocations := m\<rparr>))"

section \<open>Artifact objects\<close>

definition zero_artifact_object :: artifact_object where
  "zero_artifact_object =
     \<lparr>Object_ID = '''', Object_TenantID = '''', Object_TaskID = '''', Object_ArtifactID = '''',
      Object_PartIndex = 0, Object_StorageKey = '''', Object_SHA256 = '''', Object_SizeBytes = 0,
      Object_DeclaredMediaType = '''', Object_DetectedMediaType = '''', Object_Filename = '''',
      Object_SourceURI = '''', Object_Status = ArtifactObjectUnset, Object_ScanStatus = ArtifactScanUnset,
      Object_CreatedAt = zero_time, Object_UpdatedAt = zero_time, Object_ExpiresAt = zero_time,
      Object_DeletedAt = None, Object_FailureCode = ''''\<rparr>"

definition zero_artifact_usage :: artifact_usage where
  "zero_artifact_usage = \<lparr>Usage_TenantID = '''', Usage_Bytes = 0, Usage_Objects = 0\<rparr>"

definition validateArtifactReservation :: "artifact_object \<Rightarrow> error option" where
  "validateArtifactReservation ob =
     (if Object_ID ob = '''' \<or> Object_TenantID ob = '''' \<or> Object_TaskID ob = '''' \<or> Object_ArtifactID ob = '''' \<or>
         Object_SHA256 ob = '''' \<or> Object_SizeBytes ob < 0 \<or> IsZero (Object_ExpiresAt ob)
      then Some (ErrText ''artifact ID, tenant, Task, Artifact, digest, non-negative size, and expiry are required'')
      else None)"

definition sameArtifactIdentity :: "artifact_object \<Rightarrow> artifact_object \<Rightarrow> bool" where
  "sameArtifactIdentity a b \<longleftrightarrow>
     Object_TenantID a = Object_TenantID b \<and> Object_TaskID a = Object_TaskID b \<and>
     Object_ArtifactID a = Object_ArtifactID b \<and> Object_PartIndex a = Object_PartIndex b \<and>
     Object_SHA256 a = Object_SHA256 b \<and> Object_SizeBytes a = Object_SizeBytes b"

definition artifact_record :: "artifact_object \<Rightarrow> artifact_usage option \<Rightarrow> journalRecord" where
  "artifact_record ob u = (record1 ''artifact'')\<lparr>R_ArtifactObject := Some ob, R_ArtifactUsage := u\<rparr>"

definition ReserveArtifact ::
  "append_io \<Rightarrow> artifact_object \<Rightarrow> artifact_quota \<Rightarrow> journal_store \<Rightarrow> (artifact_object \<times> bool) result \<times> journal_store" where
  "ReserveArtifact io ob quota s =
     (case validateArtifactReservation ob of
        Some e \<Rightarrow> (Inl e, s)
      | None \<Rightarrow>
          (let existing = artifactObjects s (resourceKey (Object_TenantID ob) (Object_ID ob)) in
           if existing \<noteq> None \<and> \<not> sameArtifactIdentity (the existing) ob then (Inl ErrConflict, s)
           else if existing \<noteq> None \<and> Object_Status (the existing) \<noteq> ArtifactObjectFailed
           then (Inr (the existing, False), s)
           else
             let usage = (get_or zero_artifact_usage (artifactUsage s) (Object_TenantID ob))
                           \<lparr>Usage_TenantID := Object_TenantID ob\<rparr> in
             if (Quota_MaxBytes quota > 0 \<and> wrap64 (Usage_Bytes usage + Object_SizeBytes ob) > Quota_MaxBytes quota) \<or>
                (Quota_MaxObjects quota > 0 \<and> wrap64 (Usage_Objects usage + 1) > Quota_MaxObjects quota)
             then (Inl ErrQuotaExceeded, s)
             else
               let ob' = ob\<lparr>Object_Status := ArtifactObjectPending, Object_ScanStatus := ArtifactScanNotScanned,
                             Object_StorageKey := '''', Object_FailureCode := '''', Object_DeletedAt := None\<rparr>;
                   usage' = usage\<lparr>Usage_Bytes := wrap64 (Usage_Bytes usage + Object_SizeBytes ob),
                                  Usage_Objects := wrap64 (Usage_Objects usage + 1)\<rparr>
               in case commit io (artifact_record ob' (Some usage')) s of
                    (Some e, s') \<Rightarrow> (Inl e, s')
                  | (None, s') \<Rightarrow> (Inr (ob', True), s')))"

definition FinalizeArtifact ::
  "append_io \<Rightarrow> string \<Rightarrow> string \<Rightarrow> string \<Rightarrow> string \<Rightarrow> ArtifactScanStatus \<Rightarrow> ArtifactObjectStatus \<Rightarrow> time \<Rightarrow>
   journal_store \<Rightarrow> artifact_object result \<times> journal_store" where
  "FinalizeArtifact io tenantID rid storageKey detected scanStatus status now s =
     (if storageKey = '''' \<or> (status \<noteq> ArtifactObjectAvailable \<and> status \<noteq> ArtifactObjectQuarantined)
      then (Inl (ErrText ''storage key and a final available or quarantined status are required''), s)
      else
        case artifactObjects s (resourceKey tenantID rid) of
          None \<Rightarrow> (Inl ErrNotFound, s)
        | Some ob \<Rightarrow>
            if Object_Status ob \<noteq> ArtifactObjectPending
            then if Object_Status ob = status \<and> Object_StorageKey ob = storageKey then (Inr ob, s)
                 else (Inl ErrConflict, s)
            else
              let ob' = ob\<lparr>Object_StorageKey := storageKey, Object_DetectedMediaType := detected,
                            Object_ScanStatus := scanStatus, Object_Status := status, Object_UpdatedAt := now\<rparr>
              in case commit io (artifact_record ob' None) s of
                   (Some e, s') \<Rightarrow> (Inl e, s')
                 | (None, s') \<Rightarrow> (Inr ob', s'))"

text \<open>\<open>usage.Bytes -= object.SizeBytes; usage.Objects--\<close> and the test that follows it.\<close>

definition release_usage :: "artifact_object \<Rightarrow> artifact_usage \<Rightarrow> artifact_usage" where
  "release_usage ob u =
     u\<lparr>Usage_Bytes := wrap64 (Usage_Bytes u - Object_SizeBytes ob), Usage_Objects := wrap64 (Usage_Objects u - 1)\<rparr>"

definition usage_negative :: "artifact_usage \<Rightarrow> bool" where
  "usage_negative u \<longleftrightarrow> Usage_Bytes u < 0 \<or> Usage_Objects u < 0"

definition FailArtifact ::
  "append_io \<Rightarrow> string \<Rightarrow> string \<Rightarrow> string \<Rightarrow> time \<Rightarrow> journal_store \<Rightarrow> artifact_object result \<times> journal_store" where
  "FailArtifact io tenantID rid failureCode now s =
     (case artifactObjects s (resourceKey tenantID rid) of
        None \<Rightarrow> (Inl ErrNotFound, s)
      | Some ob \<Rightarrow>
          if Object_Status ob = ArtifactObjectFailed then (Inr ob, s)
          else if Object_Status ob \<noteq> ArtifactObjectPending then (Inl ErrConflict, s)
          else
            let usage = release_usage ob (get_or zero_artifact_usage (artifactUsage s) tenantID) in
            if usage_negative usage then (Inl (ErrText ''artifact usage invariant violated''), s)
            else
              let ob' = ob\<lparr>Object_Status := ArtifactObjectFailed, Object_FailureCode := failureCode,
                            Object_UpdatedAt := now\<rparr>
              in case commit io (artifact_record ob' (Some usage)) s of
                   (Some e, s') \<Rightarrow> (Inl e, s')
                 | (None, s') \<Rightarrow> (Inr ob', s'))"

definition GetArtifact :: "string \<Rightarrow> string \<Rightarrow> journal_store \<Rightarrow> artifact_object result" where
  "GetArtifact tenantID rid s =
     (case artifactObjects s (resourceKey tenantID rid) of None \<Rightarrow> Inl ErrNotFound | Some ob \<Rightarrow> Inr ob)"

definition GetArtifactUsage :: "string \<Rightarrow> journal_store \<Rightarrow> artifact_usage" where
  "GetArtifactUsage tenantID s =
     (get_or zero_artifact_usage (artifactUsage s) tenantID)\<lparr>Usage_TenantID := tenantID\<rparr>"

section \<open>Deleting expired artifacts\<close>

definition deletable :: "time \<Rightarrow> journal_store \<Rightarrow> string \<Rightarrow> bool" where
  "deletable now s key \<longleftrightarrow>
     (case artifactObjects s key of
        None \<Rightarrow> False
      | Some ob \<Rightarrow>
          let lease = get_or zero_artifactLeaseState (artifactLeases s) key in
          (Object_Status ob = ArtifactObjectAvailable \<or> Object_Status ob = ArtifactObjectQuarantined \<or>
           Object_Status ob = ArtifactObjectDeleting) \<and>
          \<not> (Object_ExpiresAt ob > now \<or> ALease_AvailableAt lease > now \<or>
             (ALease_Owner lease \<noteq> '''' \<and> ALease_ExpiresAt lease > now)))"

definition artifact_lease_record :: "string \<Rightarrow> artifactLeaseState \<Rightarrow> journalRecord" where
  "artifact_lease_record key l = (record1 ''artifact_lease'')\<lparr>R_ArtifactLeaseID := key, R_ArtifactLease := Some l\<rparr>"

definition claim_one_artifact ::
  "string \<Rightarrow> time \<Rightarrow> duration \<Rightarrow> append_io \<Rightarrow> string \<Rightarrow> journal_store \<Rightarrow>
   artifact_deletion_lease result \<times> journal_store" where
  "claim_one_artifact owner now d io key s =
     (let ob = (get_or zero_artifact_object (artifactObjects s) key)
                 \<lparr>Object_Status := ArtifactObjectDeleting, Object_UpdatedAt := now\<rparr>;
          old = get_or zero_artifactLeaseState (artifactLeases s) key;
          lease = old\<lparr>ALease_Owner := owner, ALease_ExpiresAt := now + d, ALease_Attempt := ALease_Attempt old + 1\<rparr>
      in case commit io ((artifact_record ob None)\<lparr>R_ArtifactLeaseID := key, R_ArtifactLease := Some lease\<rparr>) s of
           (Some e, s') \<Rightarrow> (Inl e, s')
         | (None, s') \<Rightarrow>
             (Inr \<lparr>DeletionLease_Object = ob, DeletionLease_Owner = owner,
                    DeletionLease_ExpiresAt = ALease_ExpiresAt lease, DeletionLease_Attempt = ALease_Attempt lease\<rparr>, s'))"

definition deletable_keys :: "string list \<Rightarrow> int \<Rightarrow> time \<Rightarrow> journal_store \<Rightarrow> string list" where
  "deletable_keys ks limit now s = take (nat limit) (sort (filter (deletable now s) ks))"

definition ClaimExpiredArtifacts ::
  "(nat \<Rightarrow> append_io) \<Rightarrow> string list \<Rightarrow> string \<Rightarrow> int \<Rightarrow> time \<Rightarrow> duration \<Rightarrow> journal_store \<Rightarrow>
   artifact_deletion_lease list result \<times> journal_store" where
  "ClaimExpiredArtifacts io ks owner limit now d s =
     (if owner = '''' \<or> limit \<le> 0 \<or> d \<le> 0
      then (Inl (ErrText ''artifact lease owner, positive limit, and duration are required''), s)
      else claim_loop (claim_one_artifact owner now d) io (deletable_keys ks limit now s) s)"

definition deletion_lease_key :: "artifact_deletion_lease \<Rightarrow> string" where
  "deletion_lease_key l = resourceKey (Object_TenantID (DeletionLease_Object l)) (Object_ID (DeletionLease_Object l))"

definition RenewArtifactLease ::
  "append_io \<Rightarrow> artifact_deletion_lease \<Rightarrow> time \<Rightarrow> duration \<Rightarrow> journal_store \<Rightarrow>
   artifact_deletion_lease result \<times> journal_store" where
  "RenewArtifactLease io lease now d s =
     (let key = deletion_lease_key lease in
      case artifactLeases s key of
        None \<Rightarrow> (Inl ErrLeaseLost, s)
      | Some st \<Rightarrow>
          if ALease_Owner st \<noteq> DeletionLease_Owner lease \<or> \<not> ALease_ExpiresAt st > now
          then (Inl ErrLeaseLost, s)
          else
            case commit io (artifact_lease_record key (st\<lparr>ALease_ExpiresAt := now + d\<rparr>)) s of
              (Some e, s') \<Rightarrow> (Inl e, s')
            | (None, s') \<Rightarrow> (Inr (lease\<lparr>DeletionLease_ExpiresAt := now + d\<rparr>), s'))"

definition CompleteArtifactDeletion ::
  "append_io \<Rightarrow> artifact_deletion_lease \<Rightarrow> time \<Rightarrow> journal_store \<Rightarrow> error option \<times> journal_store" where
  "CompleteArtifactDeletion io lease now s =
     (let key = deletion_lease_key lease in
      case (artifactLeases s key, artifactObjects s key) of
        (Some st, Some ob) \<Rightarrow>
          if ALease_Owner st \<noteq> DeletionLease_Owner lease \<or> Object_Status ob \<noteq> ArtifactObjectDeleting
          then (Some ErrLeaseLost, s)
          else
            let usage = release_usage ob (get_or zero_artifact_usage (artifactUsage s) (Object_TenantID ob)) in
            if usage_negative usage then (Some (ErrText ''artifact usage invariant violated''), s)
            else
              commit io ((artifact_record
                       (ob\<lparr>Object_Status := ArtifactObjectDeleted, Object_UpdatedAt := now, Object_DeletedAt := Some now\<rparr>)
                       (Some usage))\<lparr>R_ArtifactLeaseID := key, R_ArtifactLease := Some zero_artifactLeaseState\<rparr>) s
      | _ \<Rightarrow> (Some ErrLeaseLost, s))"

definition RetryArtifactDeletion ::
  "append_io \<Rightarrow> artifact_deletion_lease \<Rightarrow> time \<Rightarrow> journal_store \<Rightarrow> error option \<times> journal_store" where
  "RetryArtifactDeletion io lease availableAt s =
     (let key = deletion_lease_key lease in
      case artifactLeases s key of
        None \<Rightarrow> (Some ErrLeaseLost, s)
      | Some st \<Rightarrow>
          if ALease_Owner st \<noteq> DeletionLease_Owner lease then (Some ErrLeaseLost, s)
          else commit io (artifact_lease_record key
                 (st\<lparr>ALease_Owner := '''', ALease_ExpiresAt := zero_time, ALease_AvailableAt := availableAt\<rparr>)) s)"

section \<open>Worker controls, health and closing\<close>

definition normalizeWorkerMode :: "string \<Rightarrow> string result" where
  "normalizeWorkerMode mode =
     (let m = ToUpper (TrimSpace mode) in
      if m = ''RUNNING'' \<or> m = ''PAUSED'' \<or> m = ''DRAINING'' then Inr m
      else Inl (ErrText (''unsupported worker mode '' @ m)))"

definition zero_worker_control :: worker_control where
  "zero_worker_control = \<lparr>Control_Scope = '''', Control_Mode = '''', Control_Revision = 0, Control_UpdatedAt = zero_time\<rparr>"

definition GetWorkerControl :: "time \<Rightarrow> string \<Rightarrow> journal_store \<Rightarrow> worker_control result" where
  "GetWorkerControl wall scope s =
     (if TrimSpace scope = '''' then Inl (ErrText ''worker control scope is required'')
      else case workerControls s scope of
             Some c \<Rightarrow> Inr c
           | None \<Rightarrow> Inr (zero_worker_control\<lparr>Control_Scope := scope, Control_Mode := ''RUNNING'', Control_UpdatedAt := wall\<rparr>))"

definition SetWorkerControl ::
  "append_io \<Rightarrow> time \<Rightarrow> worker_control \<Rightarrow> uint64 \<Rightarrow> journal_store \<Rightarrow>
   (worker_control \<times> error option) \<times> journal_store" where
  "SetWorkerControl io wall control expectedRevision s =
     (if TrimSpace (Control_Scope control) = ''''
      then ((zero_worker_control, Some (ErrText ''worker control scope is required'')), s)
      else
        case normalizeWorkerMode (Control_Mode control) of
          Inl e \<Rightarrow> ((zero_worker_control, Some e), s)
        | Inr mode \<Rightarrow>
            let current = get_or zero_worker_control (workerControls s) (Control_Scope control) in
            if expectedRevision \<noteq> 0 \<and> Control_Revision current \<noteq> expectedRevision
            then ((current, Some ErrRevisionConflict), s)
            else
              let c = control\<lparr>Control_Mode := mode, Control_Revision := Control_Revision current + 1,
                              Control_UpdatedAt := wall\<rparr>
              in case commit io ((record1 ''worker_control'')\<lparr>R_WorkerControl := Some c\<rparr>) s of
                   (Some e, s') \<Rightarrow> ((zero_worker_control, Some e), s')
                 | (None, s') \<Rightarrow> ((c, None), s'))"

text \<open>\<open>Close\<close> drops the file whatever \<open>file.Close()\<close> returns (\<open>err\<close>).\<close>

definition Close_store :: "error option \<Rightarrow> journal_store \<Rightarrow> error option \<times> journal_store" where
  "Close_store err s = (case jfile s of None \<Rightarrow> (None, s) | Some _ \<Rightarrow> (err, s\<lparr>jfile := None\<rparr>))"

end
