(* ===== verification/Store_Protocol.thy ===== *)
theory Store_Protocol
  imports Artifact_Store
begin

text \<open>
  The store as a protocol. \<open>legal M s r\<close> says which records the operations of the store append in a
  state \<open>s\<close>; every operation is a run of commits of legal records (\<open>run\<close>), so an invariant is proved
  once per kind of record and then holds after every operation. \<open>store_step\<close> lists the operations,
  \<open>store_steps\<close> their interleavings.

  \<open>M\<close> is what the caller guarantees of its task callbacks: \<open>M old new\<close> for every change they make.
\<close>

section \<open>Legal records\<close>

definition artifact_live :: "artifact_object \<Rightarrow> bool" where
  "artifact_live ob \<longleftrightarrow>
     Object_Status ob = ArtifactObjectPending \<or> Object_Status ob = ArtifactObjectAvailable \<or>
     Object_Status ob = ArtifactObjectQuarantined \<or> Object_Status ob = ArtifactObjectDeleting"

definition object_key :: "artifact_object \<Rightarrow> string" where
  "object_key ob = resourceKey (Object_TenantID ob) (Object_ID ob)"

definition same_object :: "artifact_object \<Rightarrow> artifact_object \<Rightarrow> bool" where
  "same_object a b \<longleftrightarrow>
     Object_ID a = Object_ID b \<and> Object_TenantID a = Object_TenantID b \<and> Object_SizeBytes a = Object_SizeBytes b"

definition acquire_usage :: "artifact_object \<Rightarrow> artifact_usage \<Rightarrow> artifact_usage" where
  "acquire_usage ob u =
     u\<lparr>Usage_TenantID := Object_TenantID ob, Usage_Bytes := wrap64 (Usage_Bytes u + Object_SizeBytes ob),
       Usage_Objects := wrap64 (Usage_Objects u + 1)\<rparr>"

abbreviation tenant_usage :: "journal_store \<Rightarrow> string \<Rightarrow> artifact_usage" where
  "tenant_usage s t \<equiv> get_or zero_artifact_usage (artifactUsage s) t"

text \<open>A record about an artifact object: the object enters the accounting, stays in it, or leaves it.\<close>

definition legal_artifact :: "journal_store \<Rightarrow> artifact_object \<Rightarrow> artifact_usage option \<Rightarrow> bool" where
  "legal_artifact s ob u \<longleftrightarrow>
     (artifact_live ob \<and> nul_free (Object_TenantID ob) \<and> 0 \<le> Object_SizeBytes ob \<and>
      (\<forall>old. artifactObjects s (object_key ob) = Some old \<longrightarrow> \<not> artifact_live old) \<and>
      u = Some (acquire_usage ob (tenant_usage s (Object_TenantID ob)))) \<or>
     (\<exists>old. artifactObjects s (object_key ob) = Some old \<and> artifact_live old \<and> artifact_live ob \<and>
        same_object old ob \<and> u = None) \<or>
     (\<exists>old. artifactObjects s (object_key ob) = Some old \<and> artifact_live old \<and> \<not> artifact_live ob \<and>
        same_object old ob \<and> u = Some (release_usage ob (tenant_usage s (Object_TenantID ob))))"

definition keeps_task :: "task \<Rightarrow> task \<Rightarrow> bool" where
  "keeps_task c t \<longleftrightarrow>
     Task_ID t = Task_ID c \<and> Task_TenantID t = Task_TenantID c \<and>
     Task_Revision t = Task_Revision c + 1 \<and> Task_LastSequence t = Task_LastSequence c + 1"

definition event_of_task :: "journal_store \<Rightarrow> task \<Rightarrow> event \<Rightarrow> bool" where
  "event_of_task s t e \<longleftrightarrow>
     Event_ID e \<noteq> '''' \<and> outbox s (Event_ID e) = None \<and> Event_TaskID e = Task_ID t \<and>
     Event_TenantID e = Task_TenantID t \<and> Event_Sequence e = Task_LastSequence t"

text \<open>A step of a workflow is started once it has a task or a state of its own. The workflow callbacks of the
  hub never change the plan of a workflow and never unstart a step; under the deduplication key
  \<open>start:<step>\<close> they start the step.\<close>

definition step_started :: "workflow_step \<Rightarrow> bool" where
  "step_started a \<longleftrightarrow> Step_TaskID a \<noteq> '''' \<or> Step_State a \<noteq> TaskStateUnknown"

definition step_change :: "workflow_step \<Rightarrow> workflow_step \<Rightarrow> bool" where
  "step_change a b \<longleftrightarrow>
     Step_ID b = Step_ID a \<and> Step_Skill b = Step_Skill a \<and> Step_DependsOn b = Step_DependsOn a \<and>
     Step_ArtifactInputs b = Step_ArtifactInputs a \<and> Step_Required b = Step_Required a \<and>
     Step_CompensationText b = Step_CompensationText a \<and> (step_started a \<longrightarrow> step_started b)"

definition flow_change :: "workflow \<Rightarrow> workflow \<Rightarrow> bool" where
  "flow_change c w \<longleftrightarrow>
     Workflow_ID w = Workflow_ID c \<and> Workflow_TenantID w = Workflow_TenantID c \<and> Workflow_Name w = Workflow_Name c \<and>
     Workflow_DefinitionVersion w = Workflow_DefinitionVersion c \<and>
     Workflow_IdempotencyKey w = Workflow_IdempotencyKey c \<and> Workflow_MaxConcurrency w = Workflow_MaxConcurrency c \<and>
     Workflow_CreatedAt w = Workflow_CreatedAt c \<and> list_all2 step_change (Workflow_Steps c) (Workflow_Steps w)"

text \<open>What every stored workflow satisfies: a tenant without NUL bytes and one step per name.\<close>

definition flow_ok :: "workflow \<Rightarrow> bool" where
  "flow_ok w \<longleftrightarrow> nul_free (Workflow_TenantID w) \<and> distinct (map Step_ID (Workflow_Steps w))"

definition start_key :: "string \<Rightarrow> string" where
  "start_key stepID = ''start:'' @ stepID"

definition starts_under :: "string \<Rightarrow> workflow \<Rightarrow> bool" where
  "starts_under dk w \<longleftrightarrow> (\<forall>a\<in>set (Workflow_Steps w). dk = start_key (Step_ID a) \<longrightarrow> step_started a)"

inductive legal :: "(task \<Rightarrow> task \<Rightarrow> bool) \<Rightarrow> journal_store \<Rightarrow> journalRecord \<Rightarrow> bool" for M s where
  legal_agent: "legal M s ((record1 ''agent'')\<lparr>R_Agent := Some a\<rparr>)"
| legal_create: "tasks s (resourceKey (Task_TenantID t) (Task_ID t)) = None \<Longrightarrow>
    Task_Revision t = 1 \<Longrightarrow> Task_LastSequence t = 1 \<Longrightarrow> nul_free (Task_TenantID t) \<Longrightarrow> Task_ID t \<noteq> '''' \<Longrightarrow> event_of_task s t e \<Longrightarrow>
    legal M s (task_record t e)"
| legal_update: "tasks s (resourceKey (Task_TenantID t) (Task_ID t)) = Some c \<Longrightarrow>
    keeps_task c t \<Longrightarrow> M c t \<Longrightarrow> event_of_task s t e \<Longrightarrow> legal M s (task_record t e)"
| legal_lease: "k \<noteq> '''' \<Longrightarrow> legal M s (lease_record k l)"
| legal_inbox: "Inbox_ID i \<noteq> '''' \<Longrightarrow> inbox s (Inbox_ID i) = None \<Longrightarrow> inboxDedup s (inboxDedupKey i) = None \<Longrightarrow>
    legal M s ((record1 ''inbox'')\<lparr>R_Inbox := Some i\<rparr>)"
| legal_inbox_state: "k \<noteq> '''' \<Longrightarrow> \<not> IState_Acked (inbox_state s k) \<Longrightarrow> legal M s (inbox_state_record k ist)"
| legal_outbox: "Outbox_ID ob \<noteq> '''' \<Longrightarrow> outbox s (Outbox_ID ob) = None \<Longrightarrow>
    legal M s ((record1 ''outbox'')\<lparr>R_Outbox := Some ob\<rparr>)"
| legal_outbox_state: "k \<noteq> '''' \<Longrightarrow>
    (OState_Acked (outbox_state s k) \<Longrightarrow> OState_Acked ost) \<Longrightarrow>
    (OState_Purged (outbox_state s k) \<Longrightarrow> OState_Purged ost) \<Longrightarrow> legal M s (outbox_state_record k ost)"
| legal_revocation: "legal M s ((record1 ''revocation'')\<lparr>R_Revocation := Some v\<rparr>)"
| legal_artifact_object: "legal_artifact s aob u \<Longrightarrow> legal M s (artifact_record aob u)"
| legal_artifact_leased: "legal_artifact s aob u \<Longrightarrow>
    legal M s ((artifact_record aob u)\<lparr>R_ArtifactLeaseID := object_key aob, R_ArtifactLease := Some al\<rparr>)"
| legal_artifact_lease: "legal M s (artifact_lease_record (resourceKey a b) al)"
| legal_workflow_create: "workflows s (resourceKey (Workflow_TenantID w) (Workflow_ID w)) = None \<Longrightarrow>
    Workflow_Revision w = 1 \<Longrightarrow> flow_ok w \<Longrightarrow> starts_under (WEvent_DedupKey we) w \<Longrightarrow> legal M s (workflow_record w we)"
| legal_workflow_update: "workflows s (resourceKey (Workflow_TenantID w) (Workflow_ID w)) = Some wc \<Longrightarrow>
    Workflow_Revision w = Workflow_Revision wc + 1 \<Longrightarrow> flow_change wc w \<Longrightarrow> starts_under (WEvent_DedupKey we) w \<Longrightarrow>
    legal M s (workflow_record w we)"
| legal_worker_control: "legal M s ((record1 ''worker_control'')\<lparr>R_WorkerControl := Some c'\<rparr>)"

lemma artifact_record_sel [simp]:
  "R_Kind (artifact_record ob u) = ''artifact''" "R_Version (artifact_record ob u) = 1"
  "R_ArtifactObject (artifact_record ob u) = Some ob" "R_ArtifactUsage (artifact_record ob u) = u"
  "R_ArtifactLease (artifact_record ob u) = None"
  "R_Kind (artifact_lease_record k l) = ''artifact_lease''" "R_Version (artifact_lease_record k l) = 1"
  "R_ArtifactLeaseID (artifact_lease_record k l) = k" "R_ArtifactLease (artifact_lease_record k l) = Some l"
  by (simp_all add: artifact_record_def artifact_lease_record_def)

lemma legal_version: "legal M s r \<Longrightarrow> R_Version r = 1"
  by (induction rule: legal.induct) simp_all

lemma legal_mono: "legal M s r \<Longrightarrow> (\<And>c t. M c t \<Longrightarrow> M' c t) \<Longrightarrow> legal M' s r"
  by (induction rule: legal.induct) (auto intro: legal.intros)

section \<open>Runs\<close>

inductive run :: "(append_io \<Rightarrow> bool) \<Rightarrow> (task \<Rightarrow> task \<Rightarrow> bool) \<Rightarrow> journal_store \<Rightarrow> journal_store \<Rightarrow> bool" for C M where
  run_refl: "run C M s s"
| run_step: "run C M s s' \<Longrightarrow> legal M s' r \<Longrightarrow> C io \<Longrightarrow> commit io r s' = (eo, s'') \<Longrightarrow> run C M s s''"

lemma run_trans: "run C M s' s'' \<Longrightarrow> run C M s s' \<Longrightarrow> run C M s s''"
  by (induction rule: run.induct) (auto intro: run.intros)

lemma runI: "commit io r s = (eo, s') \<Longrightarrow> legal M s r \<Longrightarrow> C io \<Longrightarrow> run C M s s'"
  by (rule run_step [OF run_refl])

lemma run_commit: "legal M s r \<Longrightarrow> C io \<Longrightarrow> run C M s (snd (commit io r s))"
  by (metis runI surjective_pairing)

lemma run_mono: "run C M s s' \<Longrightarrow> (\<And>c t. M c t \<Longrightarrow> M' c t) \<Longrightarrow> (\<And>io. C io \<Longrightarrow> C' io) \<Longrightarrow> run C' M' s s'"
  by (induction rule: run.induct) (auto intro: run.intros legal_mono)

text \<open>An invariant of the maps that every legal record keeps holds after a run.\<close>

lemma run_invariant:
  assumes "run C M s s'" and "I s"
    and step: "\<And>s r. legal M s r \<Longrightarrow> I s \<Longrightarrow> I (applyRecord r s)"
    and jfile: "\<And>s f. I s \<Longrightarrow> I (s\<lparr>jfile := f\<rparr>)"
  shows "I s'"
  using assms(1,2)
proof (induction rule: run.induct)
  case (run_step s s' r io eo s'')
  from run_step.hyps(4) show ?case
    using run_step step jfile by (cases rule: commit_cases) auto
qed

lemma run_durable: "run clean_io M s s' \<Longrightarrow> durable p s \<Longrightarrow> durable p s'"
proof (induction rule: run.induct)
  case (run_step s s' r io eo s'')
  then show ?case
    using durable_commit [of p s' r io] by (auto dest: legal_version)
qed

section \<open>What every legal record keeps\<close>

text \<open>One lemma per field of the store: the kinds of records that change it.\<close>

inductive_cases legalE: "legal M s r"

lemma frame_applies [simp]:
  "tasks (apply_agent r s) = tasks s" "events (apply_agent r s) = events s" "dedupKeys (apply_agent r s) = dedupKeys s"
  "inbox (apply_agent r s) = inbox s" "inboxStates (apply_agent r s) = inboxStates s" "inboxDedup (apply_agent r s) = inboxDedup s"
  "outbox (apply_agent r s) = outbox s" "outboxStates (apply_agent r s) = outboxStates s"
  "artifactObjects (apply_agent r s) = artifactObjects s" "artifactUsage (apply_agent r s) = artifactUsage s"
  by (simp_all add: apply_agent_def split: option.split)

lemma frame_task [simp]:
  "inbox (apply_task r s) = inbox s" "inboxStates (apply_task r s) = inboxStates s" "inboxDedup (apply_task r s) = inboxDedup s"
  "artifactObjects (apply_task r s) = artifactObjects s" "artifactUsage (apply_task r s) = artifactUsage s"
  by (simp_all add: apply_task_def put_outbox_def Let_def split: option.split)

lemma frame_lease [simp]:
  "tasks (apply_lease r s) = tasks s" "events (apply_lease r s) = events s" "dedupKeys (apply_lease r s) = dedupKeys s"
  "inbox (apply_lease r s) = inbox s" "inboxStates (apply_lease r s) = inboxStates s" "inboxDedup (apply_lease r s) = inboxDedup s"
  "outbox (apply_lease r s) = outbox s" "outboxStates (apply_lease r s) = outboxStates s"
  "artifactObjects (apply_lease r s) = artifactObjects s" "artifactUsage (apply_lease r s) = artifactUsage s"
  by (simp_all add: apply_lease_def split: option.split)

lemma frame_inbox [simp]:
  "tasks (apply_inbox r s) = tasks s" "events (apply_inbox r s) = events s" "dedupKeys (apply_inbox r s) = dedupKeys s"
  "inboxStates (apply_inbox r s) = inboxStates s"
  "outbox (apply_inbox r s) = outbox s" "outboxStates (apply_inbox r s) = outboxStates s"
  "artifactObjects (apply_inbox r s) = artifactObjects s" "artifactUsage (apply_inbox r s) = artifactUsage s"
  by (simp_all add: apply_inbox_def split: option.split)

lemma frame_inbox_state [simp]:
  "tasks (apply_inbox_state r s) = tasks s" "events (apply_inbox_state r s) = events s"
  "dedupKeys (apply_inbox_state r s) = dedupKeys s"
  "inbox (apply_inbox_state r s) = inbox s" "inboxDedup (apply_inbox_state r s) = inboxDedup s"
  "outbox (apply_inbox_state r s) = outbox s" "outboxStates (apply_inbox_state r s) = outboxStates s"
  "artifactObjects (apply_inbox_state r s) = artifactObjects s" "artifactUsage (apply_inbox_state r s) = artifactUsage s"
  by (simp_all add: apply_inbox_state_def split: option.split)

lemma frame_put_outbox [simp]:
  "tasks (put_outbox i s) = tasks s" "events (put_outbox i s) = events s" "dedupKeys (put_outbox i s) = dedupKeys s"
  "inbox (put_outbox i s) = inbox s" "inboxStates (put_outbox i s) = inboxStates s" "inboxDedup (put_outbox i s) = inboxDedup s"
  "outbox (put_outbox i s) = (outbox s)(Outbox_ID i \<mapsto> i)" "outboxStates (put_outbox i s) = outboxStates s"
  "artifactObjects (put_outbox i s) = artifactObjects s" "artifactUsage (put_outbox i s) = artifactUsage s"
  by (simp_all add: put_outbox_def)

lemma frame_outbox_state [simp]:
  "tasks (apply_outbox_state r s) = tasks s" "events (apply_outbox_state r s) = events s"
  "dedupKeys (apply_outbox_state r s) = dedupKeys s"
  "inbox (apply_outbox_state r s) = inbox s" "inboxStates (apply_outbox_state r s) = inboxStates s"
  "inboxDedup (apply_outbox_state r s) = inboxDedup s" "outbox (apply_outbox_state r s) = outbox s"
  "artifactObjects (apply_outbox_state r s) = artifactObjects s" "artifactUsage (apply_outbox_state r s) = artifactUsage s"
  by (simp_all add: apply_outbox_state_def split: option.split)

lemma frame_revocation [simp]:
  "tasks (apply_revocation r s) = tasks s" "events (apply_revocation r s) = events s" "dedupKeys (apply_revocation r s) = dedupKeys s"
  "inbox (apply_revocation r s) = inbox s" "inboxStates (apply_revocation r s) = inboxStates s"
  "inboxDedup (apply_revocation r s) = inboxDedup s"
  "outbox (apply_revocation r s) = outbox s" "outboxStates (apply_revocation r s) = outboxStates s"
  "artifactObjects (apply_revocation r s) = artifactObjects s" "artifactUsage (apply_revocation r s) = artifactUsage s"
  by (simp_all add: apply_revocation_def split: option.split)

lemma frame_put_artifact_lease [simp]:
  "tasks (put_artifact_lease r s) = tasks s" "events (put_artifact_lease r s) = events s"
  "dedupKeys (put_artifact_lease r s) = dedupKeys s"
  "inbox (put_artifact_lease r s) = inbox s" "inboxStates (put_artifact_lease r s) = inboxStates s"
  "inboxDedup (put_artifact_lease r s) = inboxDedup s"
  "outbox (put_artifact_lease r s) = outbox s" "outboxStates (put_artifact_lease r s) = outboxStates s"
  "artifactObjects (put_artifact_lease r s) = artifactObjects s" "artifactUsage (put_artifact_lease r s) = artifactUsage s"
  by (simp_all add: put_artifact_lease_def split: option.split)

lemma frame_artifact [simp]:
  "tasks (apply_artifact r s) = tasks s" "events (apply_artifact r s) = events s" "dedupKeys (apply_artifact r s) = dedupKeys s"
  "inbox (apply_artifact r s) = inbox s" "inboxStates (apply_artifact r s) = inboxStates s"
  "inboxDedup (apply_artifact r s) = inboxDedup s"
  "outbox (apply_artifact r s) = outbox s" "outboxStates (apply_artifact r s) = outboxStates s"
  by (simp_all add: apply_artifact_def Let_def split: option.split)

lemma frame_workflow [simp]:
  "inbox (apply_workflow r s) = inbox s" "inboxStates (apply_workflow r s) = inboxStates s"
  "inboxDedup (apply_workflow r s) = inboxDedup s"
  "outbox (apply_workflow r s) = outbox s" "outboxStates (apply_workflow r s) = outboxStates s"
  "artifactObjects (apply_workflow r s) = artifactObjects s" "artifactUsage (apply_workflow r s) = artifactUsage s"
  by (simp_all add: apply_workflow_def Let_def split: option.split)

lemma frame_worker_control [simp]:
  "tasks (apply_worker_control r s) = tasks s" "events (apply_worker_control r s) = events s"
  "dedupKeys (apply_worker_control r s) = dedupKeys s"
  "inbox (apply_worker_control r s) = inbox s" "inboxStates (apply_worker_control r s) = inboxStates s"
  "inboxDedup (apply_worker_control r s) = inboxDedup s"
  "outbox (apply_worker_control r s) = outbox s" "outboxStates (apply_worker_control r s) = outboxStates s"
  "artifactObjects (apply_worker_control r s) = artifactObjects s" "artifactUsage (apply_worker_control r s) = artifactUsage s"
  by (simp_all add: apply_worker_control_def split: option.split)

subsection \<open>The task log\<close>

lemma task_inv_cong: "tasks s' = tasks s \<Longrightarrow> events s' = events s \<Longrightarrow> dedupKeys s' = dedupKeys s \<Longrightarrow>
    task_inv s \<Longrightarrow> task_inv s'"
  by (simp add: task_inv_def)

lemma legal_task_inv: "legal M s r \<Longrightarrow> task_inv s \<Longrightarrow> task_inv (applyRecord r s)"
proof (cases rule: legalE, assumption)
  fix t e assume *: "task_inv s" "r = task_record t e" "tasks s (resourceKey (Task_TenantID t) (Task_ID t)) = None"
    "Task_Revision t = 1" "Task_LastSequence t = 1" "event_of_task s t e"
  then show ?thesis
    by (auto simp: event_of_task_def log_ok_def task_invD(3,4) intro!: task_inv_apply_record)
next
  fix t c e assume *: "task_inv s" "r = task_record t e" "tasks s (resourceKey (Task_TenantID t) (Task_ID t)) = Some c"
    "keeps_task c t" "event_of_task s t e"
  from task_invD(2) [OF *(1,3)] * show ?thesis
    by (auto simp: event_of_task_def keeps_task_def intro!: task_inv_apply_record log_ok_snoc)
qed (auto elim!: task_inv_cong [rotated 3])

subsection \<open>The transactional outbox\<close>

text \<open>Every event of every log has its outbox item.\<close>

definition outbox_complete :: "journal_store \<Rightarrow> bool" where
  "outbox_complete s \<longleftrightarrow> (\<forall>k. \<forall>e\<in>set (events s k). outbox s (Event_ID e) = Some (outboxFromEvent e))"

lemma outbox_complete_cong: "events s' = events s \<Longrightarrow> outbox s' = outbox s \<Longrightarrow> outbox_complete s \<Longrightarrow> outbox_complete s'"
  by (simp add: outbox_complete_def)

lemma outbox_complete_task_record:
  "outbox_complete s \<Longrightarrow> event_of_task s t e \<Longrightarrow> outbox_complete (apply_task (task_record t e) s)"
  by (force simp: outbox_complete_def event_of_task_def Let_def)

lemma legal_outbox_complete: "legal M s r \<Longrightarrow> outbox_complete s \<Longrightarrow> outbox_complete (applyRecord r s)"
proof (cases rule: legalE, assumption)
  fix i assume *: "outbox_complete s" "r = (record1 ''outbox'')\<lparr>R_Outbox := Some i\<rparr>" "outbox s (Outbox_ID i) = None"
  then show ?thesis by (force simp: outbox_complete_def)
qed (auto simp: outbox_complete_task_record elim!: outbox_complete_cong [rotated 2])

lemma legal_inbox_inv: "legal M s r \<Longrightarrow> inbox_inv s \<Longrightarrow> inbox_inv (applyRecord r s)"
  by (cases rule: legalE, assumption) (auto simp: inbox_inv_def apply_inbox_def)

lemma legal_outbox_inv: "legal M s r \<Longrightarrow> outbox_inv s \<Longrightarrow> outbox_inv (applyRecord r s)"
  by (cases rule: legalE, assumption) (auto simp: outbox_inv_def event_of_task_def outboxFromEvent_def)

text \<open>One inbox item per deduplication key.\<close>

definition inbox_dedup_inv :: "journal_store \<Rightarrow> bool" where
  "inbox_dedup_inv s \<longleftrightarrow> (\<forall>k i. inbox s k = Some i \<longrightarrow> inboxDedup s (inboxDedupKey i) = Some k)"

lemma legal_inbox_dedup_inv: "legal M s r \<Longrightarrow> inbox_dedup_inv s \<Longrightarrow> inbox_dedup_inv (applyRecord r s)"
  by (cases rule: legalE, assumption) (auto simp: inbox_dedup_inv_def apply_inbox_def, force)
subsection \<open>Quota accounting\<close>

text \<open>The objects that count against a tenant's quota.\<close>

definition counted :: "journal_store \<Rightarrow> string \<Rightarrow> string set" where
  "counted s t = {k. \<exists>ob. artifactObjects s k = Some ob \<and> artifact_live ob \<and> Object_TenantID ob = t}"

definition object_size :: "journal_store \<Rightarrow> string \<Rightarrow> int" where
  "object_size s k = Object_SizeBytes (get_or zero_artifact_object (artifactObjects s) k)"

definition usage_inv :: "journal_store \<Rightarrow> bool" where
  "usage_inv s \<longleftrightarrow>
     finite (dom (artifactObjects s)) \<and>
     (\<forall>k ob. artifactObjects s k = Some ob \<longrightarrow> k = object_key ob \<and> nul_free (Object_TenantID ob) \<and> 0 \<le> Object_SizeBytes ob) \<and>
     (\<forall>t u. artifactUsage s t = Some u \<longrightarrow> Usage_TenantID u = t) \<and>
     (\<forall>t. counted s t \<noteq> {} \<longrightarrow> artifactUsage s t \<noteq> None) \<and>
     (\<forall>t. Usage_Bytes (tenant_usage s t) = wrap64 (\<Sum>k\<in>counted s t. object_size s k) \<and>
          Usage_Objects (tenant_usage s t) = wrap64 (int (card (counted s t))))"

lemma wrap64_add [simp]: "wrap64 (wrap64 x + y) = wrap64 (x + y)" "wrap64 (wrap64 x - y) = wrap64 (x - y)"
  by (simp_all add: wrap64_def mod_simps algebra_simps)

lemma wrap64_zero [simp]: "wrap64 0 = 0"
  by (simp add: wrap64_def)

lemma usage_inv_empty: "usage_inv (empty_store f)"
  by (simp add: usage_inv_def counted_def empty_store_def zero_artifact_usage_def)

lemma usage_inv_cong: "artifactObjects s' = artifactObjects s \<Longrightarrow> artifactUsage s' = artifactUsage s \<Longrightarrow>
    usage_inv s \<Longrightarrow> usage_inv s'"
  by (simp add: usage_inv_def counted_def object_size_def)

lemma counted_finite: "usage_inv s \<Longrightarrow> finite (counted s t)"
  by (rule finite_subset [of _ "dom (artifactObjects s)"]) (auto simp: usage_inv_def counted_def)

text \<open>What storing one object does to the objects counted for a tenant.\<close>

lemma counted_update:
  assumes "artifactObjects s' = (artifactObjects s)(object_key ob \<mapsto> ob)"
  shows "counted s' t = (if artifact_live ob \<and> Object_TenantID ob = t then insert (object_key ob) (counted s t)
                         else counted s t - {object_key ob})"
  using assms by (auto simp: counted_def)

lemma sum_sizes_update:
  assumes "artifactObjects s' = (artifactObjects s)(object_key ob \<mapsto> ob)" and "object_key ob \<notin> A"
  shows "(\<Sum>k\<in>A. object_size s' k) = (\<Sum>k\<in>A. object_size s k)"
  using assms by (intro sum.cong) (auto simp: object_size_def)

lemma counted_iff: "artifactObjects s k = Some old \<Longrightarrow> k \<in> counted s t \<longleftrightarrow> artifact_live old \<and> Object_TenantID old = t"
  by (auto simp: counted_def)

text \<open>The three ways an object's record affects the accounting.\<close>

lemma usage_inv_acquire:
  assumes inv: "usage_inv s" and ob: "artifact_live ob" "nul_free (Object_TenantID ob)" "0 \<le> Object_SizeBytes ob"
    and old: "\<forall>old. artifactObjects s (object_key ob) = Some old \<longrightarrow> \<not> artifact_live old"
    and s': "artifactObjects s' = (artifactObjects s)(object_key ob \<mapsto> ob)"
      "artifactUsage s' = (artifactUsage s)(Object_TenantID ob \<mapsto> acquire_usage ob (tenant_usage s (Object_TenantID ob)))"
  shows "usage_inv s'"
proof -
  have notin: "object_key ob \<notin> counted s t" for t using old by (auto simp: counted_def)
  have c: "counted s' t = (if Object_TenantID ob = t then insert (object_key ob) (counted s t) else counted s t)" for t
    using counted_update [OF s'(1)] ob(1) notin by simp
  have "finite (counted s t)" for t using counted_finite [OF inv] .
  then have "(\<Sum>k\<in>counted s' t. object_size s' k) =
      (\<Sum>k\<in>counted s t. object_size s k) + (if Object_TenantID ob = t then Object_SizeBytes ob else 0)"
    and "int (card (counted s' t)) = int (card (counted s t)) + (if Object_TenantID ob = t then 1 else 0)" for t
    using c notin sum_sizes_update [OF s'(1) notin] by (auto simp: object_size_def s'(1))
  moreover have "t \<noteq> Object_TenantID ob \<Longrightarrow> counted s' t \<noteq> {} \<Longrightarrow> \<exists>y. artifactUsage s t = Some y" for t
    using inv c by (auto simp: usage_inv_def)
  ultimately show ?thesis
    using inv ob s' by (simp add: usage_inv_def acquire_usage_def)
qed

lemma usage_inv_keep:
  assumes inv: "usage_inv s" and old: "artifactObjects s (object_key ob) = Some old" "artifact_live old" "same_object old ob"
    and live: "artifact_live ob"
    and s': "artifactObjects s' = (artifactObjects s)(object_key ob \<mapsto> ob)" "artifactUsage s' = artifactUsage s"
  shows "usage_inv s'"
proof -
  have c: "counted s' t = counted s t" for t
    using counted_update [OF s'(1), of t] counted_iff [OF old(1), of t] old live by (auto simp: same_object_def)
  have "object_size s' k = object_size s k" for k
    using old by (simp add: object_size_def s'(1) same_object_def)
  with inv old s' c show ?thesis
    by (simp add: usage_inv_def same_object_def) (metis)
qed

lemma usage_inv_release:
  assumes inv: "usage_inv s" and old: "artifactObjects s (object_key ob) = Some old" "artifact_live old" "same_object old ob"
    and dead: "\<not> artifact_live ob"
    and s': "artifactObjects s' = (artifactObjects s)(object_key ob \<mapsto> ob)"
      "artifactUsage s' = (artifactUsage s)(Usage_TenantID u \<mapsto> u)"
    and u: "u = release_usage ob (tenant_usage s (Object_TenantID ob))"
  shows "usage_inv s'"
proof -
  have mem: "object_key ob \<in> counted s t \<longleftrightarrow> Object_TenantID ob = t" for t
    using counted_iff [OF old(1), of t] old by (auto simp: same_object_def)
  have c: "counted s' t = counted s t - {object_key ob}" for t
    using counted_update [OF s'(1), of t] dead by auto
  have fin: "finite (counted s t)" for t using counted_finite [OF inv] .
  have size: "object_size s (object_key ob) = Object_SizeBytes ob"
    using old by (simp add: object_size_def same_object_def)
  have "(\<Sum>k\<in>counted s' t. object_size s' k) = (\<Sum>k\<in>counted s t - {object_key ob}. object_size s k)" for t
    unfolding c by (rule sum_sizes_update [OF s'(1)]) simp
  then have sums: "(\<Sum>k\<in>counted s' t. object_size s' k) =
      (\<Sum>k\<in>counted s t. object_size s k) - (if Object_TenantID ob = t then Object_SizeBytes ob else 0)" for t
    using fin [of t] mem [of t] size by (auto simp: sum_diff1)
  have cards: "int (card (counted s' t)) = int (card (counted s t)) - (if Object_TenantID ob = t then 1 else 0)" for t
  proof (cases "Object_TenantID ob = t")
    case True
    with mem have "object_key ob \<in> counted s t" by simp
    with fin [of t] have "0 < card (counted s t)" by (auto simp: card_gt_0_iff)
    with True mem fin [of t] show ?thesis unfolding c by (simp add: of_nat_diff)
  next
    case False
    with mem show ?thesis unfolding c by simp
  qed
  have tenant: "Usage_TenantID u = Object_TenantID ob" "artifactUsage s (Object_TenantID ob) \<noteq> None"
  proof -
    from mem have "counted s (Object_TenantID ob) \<noteq> {}" by auto
    with inv show "artifactUsage s (Object_TenantID ob) \<noteq> None" by (auto simp: usage_inv_def)
    with inv u show "Usage_TenantID u = Object_TenantID ob" by (auto simp: usage_inv_def release_usage_def)
  qed
  have "Object_TenantID ob = Object_TenantID old" "Object_SizeBytes ob = Object_SizeBytes old"
    using old(3) by (simp_all add: same_object_def)
  then show ?thesis
    using inv old s' c tenant sums cards u
    by (auto simp: usage_inv_def release_usage_def)
qed

lemma legal_usage_inv: "legal M s r \<Longrightarrow> usage_inv s \<Longrightarrow> usage_inv (applyRecord r s)"
proof (cases rule: legalE, assumption)
  have art: "usage_inv (apply_artifact r s)"
    if *: "usage_inv s" "R_ArtifactObject r = Some ob" "R_ArtifactUsage r = u" "legal_artifact s ob u" for ob u
  proof -
    have objs: "artifactObjects (apply_artifact r s) = (artifactObjects s)(object_key ob \<mapsto> ob)"
      "u = None \<Longrightarrow> artifactUsage (apply_artifact r s) = artifactUsage s"
      "\<And>v. u = Some v \<Longrightarrow> artifactUsage (apply_artifact r s) = (artifactUsage s)(Usage_TenantID v \<mapsto> v)"
      using * by (simp_all add: apply_artifact_def object_key_def Let_def split: option.split)
    from *(4) show ?thesis
      unfolding legal_artifact_def
    proof (elim disjE exE conjE)
      assume a: "artifact_live ob" "nul_free (Object_TenantID ob)" "0 \<le> Object_SizeBytes ob"
        "\<forall>old. artifactObjects s (object_key ob) = Some old \<longrightarrow> \<not> artifact_live old"
        "u = Some (acquire_usage ob (tenant_usage s (Object_TenantID ob)))"
      have "artifactUsage (apply_artifact r s) =
          (artifactUsage s)(Object_TenantID ob \<mapsto> acquire_usage ob (tenant_usage s (Object_TenantID ob)))"
        using objs(3) [OF a(5)] by (simp add: acquire_usage_def)
      then show ?thesis by (rule usage_inv_acquire [OF *(1) a(1-4) objs(1)])
    next
      fix old assume a: "artifactObjects s (object_key ob) = Some old" "artifact_live old" "artifact_live ob"
        "same_object old ob" "u = None"
      then show ?thesis using usage_inv_keep [OF *(1) a(1,2,4,3) objs(1)] objs(2) by blast
    next
      fix old assume a: "artifactObjects s (object_key ob) = Some old" "artifact_live old" "\<not> artifact_live ob"
        "same_object old ob" "u = Some (release_usage ob (tenant_usage s (Object_TenantID ob)))"
      then show ?thesis using usage_inv_release [OF *(1) a(1,2,4,3) objs(1) objs(3) refl] by blast
    qed
  qed
  {
    fix aob u
    assume "usage_inv s" "r = artifact_record aob u" "legal_artifact s aob u"
    then show ?thesis using art [of aob u] by simp
  next
    fix aob u al
    assume "usage_inv s" "r = (artifact_record aob u)\<lparr>R_ArtifactLeaseID := object_key aob, R_ArtifactLease := Some al\<rparr>"
      "legal_artifact s aob u"
    then show ?thesis using art [of aob u] by simp
  }
qed (auto elim!: usage_inv_cong [rotated 2])

lemma legal_jfile_invs [simp]:
  "usage_inv (s\<lparr>jfile := f\<rparr>) = usage_inv s" "outbox_complete (s\<lparr>jfile := f\<rparr>) = outbox_complete s"
  "inbox_dedup_inv (s\<lparr>jfile := f\<rparr>) = inbox_dedup_inv s"
  by (simp_all add: usage_inv_def counted_def object_size_def outbox_complete_def inbox_dedup_inv_def)

subsection \<open>What never goes back\<close>

text \<open>Only workflow records touch the workflows.\<close>

lemma frame_flows:
  "workflows (apply_agent r s) = workflows s" "workflowDedup (apply_agent r s) = workflowDedup s"
  "workflows (apply_task r s) = workflows s" "workflowDedup (apply_task r s) = workflowDedup s"
  "workflows (apply_lease r s) = workflows s" "workflowDedup (apply_lease r s) = workflowDedup s"
  "workflows (apply_inbox r s) = workflows s" "workflowDedup (apply_inbox r s) = workflowDedup s"
  "workflows (apply_inbox_state r s) = workflows s" "workflowDedup (apply_inbox_state r s) = workflowDedup s"
  "workflows (put_outbox i s) = workflows s" "workflowDedup (put_outbox i s) = workflowDedup s"
  "workflows (apply_outbox_state r s) = workflows s" "workflowDedup (apply_outbox_state r s) = workflowDedup s"
  "workflows (apply_revocation r s) = workflows s" "workflowDedup (apply_revocation r s) = workflowDedup s"
  "workflows (put_artifact_lease r s) = workflows s" "workflowDedup (put_artifact_lease r s) = workflowDedup s"
  "workflows (apply_artifact r s) = workflows s" "workflowDedup (apply_artifact r s) = workflowDedup s"
  "workflows (apply_worker_control r s) = workflows s" "workflowDedup (apply_worker_control r s) = workflowDedup s"
  by (simp_all add: apply_defs put_outbox_def put_artifact_lease_def Let_def split: option.split)

text \<open>The event log only grows, what was acknowledged stays acknowledged, what was purged stays
  purged, tasks are never removed, an item that was queued is never changed or
  removed, and the deduplication keys a workflow has seen are kept.\<close>

definition advanced :: "journal_store \<Rightarrow> journal_store \<Rightarrow> bool" where
  "advanced s s' \<longleftrightarrow>
     (\<forall>k. \<exists>es. events s' k = events s k @ es) \<and> dom (tasks s) \<subseteq> dom (tasks s') \<and>
     inbox s \<subseteq>\<^sub>m inbox s' \<and> outbox s \<subseteq>\<^sub>m outbox s' \<and>
     (\<forall>k. IState_Acked (inbox_state s k) \<longrightarrow> IState_Acked (inbox_state s' k)) \<and>
     (\<forall>k. OState_Acked (outbox_state s k) \<longrightarrow> OState_Acked (outbox_state s' k)) \<and>
     (\<forall>k. OState_Purged (outbox_state s k) \<longrightarrow> OState_Purged (outbox_state s' k)) \<and>
     (\<forall>k. workflowDedup s k \<subseteq> workflowDedup s' k)"

lemma advanced_refl: "advanced s s"
  by (simp add: advanced_def)

lemma advanced_trans: "advanced s s' \<Longrightarrow> advanced s' s'' \<Longrightarrow> advanced s s''"
  unfolding advanced_def by (intro conjI allI; metis append.assoc subset_trans map_le_trans)

lemma legal_advanced: "legal M s r \<Longrightarrow> advanced s (applyRecord r s)"
  by (cases rule: legalE, assumption)
    (auto simp: advanced_def Let_def frame_flows apply_inbox_def event_of_task_def map_le_def)

subsection \<open>All of it\<close>

lemma step_change_refl: "step_change a a" and step_change_trans: "step_change a b \<Longrightarrow> step_change b c \<Longrightarrow> step_change a c"
  by (simp_all add: step_change_def)

lemma flow_change_refl: "flow_change w w"
  by (simp add: flow_change_def list_all2_refl step_change_refl)

lemma flow_change_trans:
  assumes "flow_change a b" "flow_change b c"
  shows "flow_change a c"
proof -
  have "list_all2 step_change (Workflow_Steps a) (Workflow_Steps c)"
    by (rule list_all2_trans [of step_change step_change step_change _ "Workflow_Steps b"])
      (use assms step_change_trans in \<open>auto simp: flow_change_def\<close>)
  with assms show ?thesis by (simp add: flow_change_def)
qed

lemma starts_under_change: "flow_change c w \<Longrightarrow> starts_under dk c \<Longrightarrow> starts_under dk w"
  unfolding starts_under_def flow_change_def
  by (metis (no_types, lifting) in_set_conv_nth list_all2_conv_all_nth step_change_def)

lemma flow_ok_change: "flow_change c w \<Longrightarrow> flow_ok w = flow_ok c"
proof -
  assume c: "flow_change c w"
  then have "map Step_ID (Workflow_Steps c) = map Step_ID (Workflow_Steps w)"
    by (intro nth_equalityI) (auto simp: flow_change_def step_change_def list_all2_conv_all_nth)
  with c show ?thesis unfolding flow_ok_def flow_change_def by metis
qed

definition workflow_inv :: "journal_store \<Rightarrow> bool" where
  "workflow_inv s \<longleftrightarrow>
     (\<forall>k. workflows s k = None \<longrightarrow> workflowDedup s k = {}) \<and>
     (\<forall>k w. workflows s k = Some w \<longrightarrow>
        k = resourceKey (Workflow_TenantID w) (Workflow_ID w) \<and> flow_ok w \<and> (\<forall>dk\<in>workflowDedup s k. starts_under dk w))"

lemma workflow_invD:
  assumes "workflow_inv s"
  shows "workflows s k = None \<Longrightarrow> workflowDedup s k = {}"
    and "workflows s k = Some w \<Longrightarrow> k = resourceKey (Workflow_TenantID w) (Workflow_ID w)"
    and "workflows s k = Some w \<Longrightarrow> dk \<in> workflowDedup s k \<Longrightarrow> starts_under dk w"
    and "workflows s k = Some w \<Longrightarrow> flow_ok w"
  using assms by (auto simp: workflow_inv_def)

lemma workflow_inv_cong: "workflows s' = workflows s \<Longrightarrow> workflowDedup s' = workflowDedup s \<Longrightarrow>
    workflow_inv s \<Longrightarrow> workflow_inv s'"
  by (simp add: workflow_inv_def)

lemma workflow_inv_record:
  assumes "workflow_inv s" "starts_under (WEvent_DedupKey e) w" "flow_ok w"
    and "\<And>c dk. workflows s (resourceKey (Workflow_TenantID w) (Workflow_ID w)) = Some c \<Longrightarrow>
           starts_under dk c \<Longrightarrow> starts_under dk w"
  shows "workflow_inv (apply_workflow (workflow_record w e) s)"
proof -
  let ?k = "resourceKey (Workflow_TenantID w) (Workflow_ID w)"
  have "starts_under dk w" if "dk \<in> insert (WEvent_DedupKey e) (workflowDedup s ?k)" for dk
  proof (cases "workflows s ?k")
    case None
    with that workflow_invD(1) [OF assms(1) None] assms(2) show ?thesis by simp
  next
    case (Some c)
    with that workflow_invD(3) [OF assms(1) Some, of dk] assms(2,4) show ?thesis by blast
  qed
  note new = this
  have maps: "workflows (apply_workflow (workflow_record w e) s) = (workflows s)(?k \<mapsto> w)"
    "workflowDedup (apply_workflow (workflow_record w e) s) = (workflowDedup s)(?k := insert (WEvent_DedupKey e) (workflowDedup s ?k))"
    by (simp_all add: Let_def)
  show ?thesis
    unfolding workflow_inv_def maps
  proof (intro conjI allI impI ballI)
    fix k assume "((workflows s)(?k \<mapsto> w)) k = None"
    then have "k \<noteq> ?k" "workflows s k = None" by (simp_all split: if_splits)
    then show "((workflowDedup s)(?k := insert (WEvent_DedupKey e) (workflowDedup s ?k))) k = {}"
      using workflow_invD(1) [OF assms(1)] by simp
  next
    fix k v assume v: "((workflows s)(?k \<mapsto> w)) k = Some v"
    show "k = resourceKey (Workflow_TenantID v) (Workflow_ID v)"
    proof (cases "k = ?k")
      case False
      with v show ?thesis by (intro workflow_invD(2) [OF assms(1)]) simp
    qed (use v in simp)
    show "flow_ok v" using v assms(3) workflow_invD(4) [OF assms(1), of k v] by (cases "k = ?k") simp_all
    fix dk assume "dk \<in> ((workflowDedup s)(?k := insert (WEvent_DedupKey e) (workflowDedup s ?k))) k"
    with v show "starts_under dk v"
      using new workflow_invD(3) [OF assms(1), of k v dk] by (cases "k = ?k") simp_all
  qed
qed

lemma legal_workflow_inv: "legal M s r \<Longrightarrow> workflow_inv s \<Longrightarrow> workflow_inv (applyRecord r s)"
proof (cases rule: legalE, assumption)
  fix w we assume "workflow_inv s" "r = workflow_record w we"
    "workflows s (resourceKey (Workflow_TenantID w) (Workflow_ID w)) = None" "starts_under (WEvent_DedupKey we) w"
    "flow_ok w"
  then show ?thesis using workflow_inv_record [of s we w] by simp
next
  fix w wc we assume "workflow_inv s" "r = workflow_record w we"
    "workflows s (resourceKey (Workflow_TenantID w) (Workflow_ID w)) = Some wc" "flow_change wc w"
    "starts_under (WEvent_DedupKey we) w"
  then show ?thesis
    using workflow_inv_record [of s we w] starts_under_change flow_ok_change workflow_invD(4) by simp
qed (auto simp: frame_flows elim!: workflow_inv_cong [rotated 2])

text \<open>A workflow changes only in the ways the callbacks of the hub change it.\<close>

lemma legal_flows:
  assumes "legal M s r" "workflows s k = Some w"
  shows "\<exists>w'. workflows (applyRecord r s) k = Some w' \<and> flow_change w w'"
  using assms(1)
proof (cases rule: legalE, assumption)
  fix w' we assume *: "r = workflow_record w' we" "workflows s (resourceKey (Workflow_TenantID w') (Workflow_ID w')) = None"
  then show ?thesis using assms(2) flow_change_refl by (cases "k = resourceKey (Workflow_TenantID w') (Workflow_ID w')") auto
next
  fix w' wc we assume *: "r = workflow_record w' we"
    "workflows s (resourceKey (Workflow_TenantID w') (Workflow_ID w')) = Some wc" "flow_change wc w'"
  then show ?thesis using assms(2) flow_change_refl by (cases "k = resourceKey (Workflow_TenantID w') (Workflow_ID w')") auto
qed (use assms(2) flow_change_refl in \<open>auto simp: frame_flows\<close>)

definition tenants_inv :: "journal_store \<Rightarrow> bool" where
  "tenants_inv s \<longleftrightarrow> (\<forall>k t. tasks s k = Some t \<longrightarrow> nul_free (Task_TenantID t) \<and> Task_ID t \<noteq> '''')"

lemma legal_tenants_inv: "legal M s r \<Longrightarrow> tenants_inv s \<Longrightarrow> tenants_inv (applyRecord r s)"
  by (cases rule: legalE, assumption) (auto simp: tenants_inv_def keeps_task_def)

text \<open>The maps a claim ranges over are finite, so there is an order in which it can do so.\<close>

definition finite_inv :: "journal_store \<Rightarrow> bool" where
  "finite_inv s \<longleftrightarrow> finite (dom (tasks s)) \<and> finite (dom (inbox s)) \<and> finite (dom (outbox s))"

lemma legal_finite_inv: "legal M s r \<Longrightarrow> finite_inv s \<Longrightarrow> finite_inv (applyRecord r s)"
  by (cases rule: legalE, assumption) (auto simp: finite_inv_def apply_inbox_def Let_def)

definition store_inv :: "journal_store \<Rightarrow> bool" where
  "store_inv s \<longleftrightarrow> task_inv s \<and> inbox_inv s \<and> inbox_dedup_inv s \<and> outbox_inv s \<and> outbox_complete s \<and>
     usage_inv s \<and> workflow_inv s \<and> tenants_inv s \<and> finite_inv s"

lemma store_invD:
  assumes "store_inv s"
  shows "task_inv s" "inbox_inv s" "inbox_dedup_inv s" "outbox_inv s" "outbox_complete s" "usage_inv s" "workflow_inv s"
    "tenants_inv s" "finite_inv s"
  using assms by (simp_all add: store_inv_def)

lemma store_inv_empty: "store_inv (empty_store f)"
  by (simp add: store_inv_def usage_inv_empty)
    (simp add: empty_store_def inbox_inv_def inbox_dedup_inv_def outbox_inv_def outbox_complete_def workflow_inv_def
      tenants_inv_def finite_inv_def)

lemma store_inv_jfile [simp]: "store_inv (s\<lparr>jfile := f\<rparr>) = store_inv s"
  by (simp add: store_inv_def workflow_inv_def tenants_inv_def finite_inv_def)

lemma legal_store_inv: "legal M s r \<Longrightarrow> store_inv s \<Longrightarrow> store_inv (applyRecord r s)"
  by (simp add: store_inv_def legal_task_inv legal_inbox_inv legal_inbox_dedup_inv legal_outbox_inv
      legal_outbox_complete legal_usage_inv legal_workflow_inv legal_tenants_inv legal_finite_inv)

lemma run_store_inv: "run C M s s' \<Longrightarrow> store_inv s \<Longrightarrow> store_inv s'"
  by (erule run_invariant [where I = store_inv]) (simp_all add: legal_store_inv)

lemma run_advanced: "run C M s s' \<Longrightarrow> advanced s s'"
proof (induction rule: run.induct)
  case (run_step s s' r io eo s'')
  have "advanced s' s''"
    using run_step.hyps(4)
  proof (cases rule: commit_cases)
    case failed
    then show ?thesis by (simp add: advanced_def)
  next
    case applied
    with legal_advanced [OF run_step.hyps(2)] show ?thesis by (simp add: advanced_def)
  qed
  with run_step.IH show ?case by (rule advanced_trans)
qed (rule advanced_refl)

section \<open>The operations are runs\<close>

text \<open>A callback that keeps what the store relies on, and makes only changes in \<open>M\<close>.\<close>

definition callback_ok :: "(task \<Rightarrow> task \<Rightarrow> bool) \<Rightarrow> (task \<Rightarrow> (event \<times> task) result) \<Rightarrow> bool" where
  "callback_ok M m \<longleftrightarrow> (\<forall>c e t. m c = Inr (e, t) \<longrightarrow>
     Task_ID t = Task_ID c \<and> Task_TenantID t = Task_TenantID c \<and>
     Task_Revision t = Task_Revision c \<and> Task_LastSequence t = Task_LastSequence c \<and>
     M c (t\<lparr>Task_Revision := Task_Revision c + 1, Task_LastSequence := Task_LastSequence c + 1\<rparr>))"

definition fresh_id :: "journal_store \<Rightarrow> string \<Rightarrow> bool" where
  "fresh_id s nid \<longleftrightarrow> nid \<noteq> '''' \<and> outbox s nid = None"

lemma PutAgent_run: "C io \<Longrightarrow> run C M s (snd (PutAgent io a s))"
  by (simp add: PutAgent_def run_commit legal_agent)

lemma CreateTask_run: "C io \<Longrightarrow> fresh_id s nid \<Longrightarrow> nul_free (Task_TenantID t) \<Longrightarrow> Task_ID t \<noteq> '''' \<Longrightarrow> run C M s (snd (CreateTask io nid t e s))"
  by (auto simp: CreateTask_def Let_def run_refl fresh_id_def event_of_task_def split: prod.split option.split
      intro!: runI legal_create)

lemma ApplyTaskVersion_run:
  assumes "C io" "fresh_id s nid" "callback_ok M m" "store_inv s"
  shows "run C M s (snd (ApplyTaskVersion io nid tn i r dk m s))"
proof -
  have leg: "legal M s (task_record (t\<lparr>Task_Revision := Task_Revision t + 1, Task_LastSequence := Task_LastSequence t + 1\<rparr>) e)"
    if "tasks s (resourceKey tn i) = Some c" "m c = Inr (ev, t)" "Event_ID e = nid" "Event_TaskID e = Task_ID t"
      "Event_TenantID e = Task_TenantID t" "Event_Sequence e = Task_LastSequence t + 1" for c ev t e
    using that assms task_invD(1) [OF store_invD(1) [OF assms(4)] that(1)]
    by (intro legal_update [of _ _ c])
      (auto simp: callback_ok_def keeps_task_def event_of_task_def fresh_id_def)
  show ?thesis
    using assms(1)
    by (auto simp: ApplyTaskVersion_def Let_def run_refl split: prod.split option.split sum.split
        intro!: runI [where C = C] leg)
qed

lemma local_key: "''local:'' @ x \<noteq> start_key i" and start_key_nonempty [simp]: "start_key i \<noteq> ''''"
  by (simp_all add: start_key_def)

lemma CreateWorkflow_run: "C io \<Longrightarrow> WEvent_DedupKey e = '''' \<Longrightarrow> flow_ok w \<Longrightarrow> run C M s (snd (CreateWorkflow io nid w e s))"
  by (auto simp: CreateWorkflow_def Let_def run_refl starts_under_def start_key_def flow_ok_def
      split: prod.split option.split intro!: runI legal_workflow_create)

definition workflow_callback_ok ::
  "string \<Rightarrow> (workflow \<Rightarrow> (workflow_event \<times> workflow) result) \<Rightarrow> workflow \<Rightarrow> bool" where
  "workflow_callback_ok dk m c \<longleftrightarrow> (\<forall>e w. m c = Inr (e, w) \<longrightarrow>
     flow_change c w \<and> Workflow_Revision w = Workflow_Revision c \<and> starts_under dk w)"

lemma flow_change_revised:
  "flow_change c (w\<lparr>Workflow_Revision := r, Workflow_LastSequence := l\<rparr>) = flow_change c w"
  "starts_under dk (w\<lparr>Workflow_Revision := r, Workflow_LastSequence := l\<rparr>) = starts_under dk w"
  by (simp_all add: flow_change_def starts_under_def)

lemma ApplyWorkflowVersion_run:
  assumes "C io" "\<forall>c. workflows s (resourceKey tn i) = Some c \<longrightarrow> workflow_callback_ok dk m c" "store_inv s"
  shows "run C M s (snd (ApplyWorkflowVersion io nid tn i r dk m s))"
proof -
  have leg: "legal M s (workflow_record (w\<lparr>Workflow_Revision := Workflow_Revision w + 1,
      Workflow_LastSequence := Workflow_LastSequence w + 1\<rparr>) e)"
    if "workflows s (resourceKey tn i) = Some c" "m c = Inr (ev, w)" "WEvent_DedupKey e = (if dk = '''' then ''local:'' @ nid else dk)"
    for c ev w e
  proof (rule legal_workflow_update [of _ _ c])
    have w: "flow_change c w" "Workflow_Revision w = Workflow_Revision c" "starts_under dk w"
      using that(1,2) assms(2) unfolding workflow_callback_ok_def by blast+
    then show "Workflow_Revision (w\<lparr>Workflow_Revision := Workflow_Revision w + 1,
        Workflow_LastSequence := Workflow_LastSequence w + 1\<rparr>) = Workflow_Revision c + 1"
      "flow_change c (w\<lparr>Workflow_Revision := Workflow_Revision w + 1, Workflow_LastSequence := Workflow_LastSequence w + 1\<rparr>)"
      by (simp_all add: flow_change_revised)
    show "starts_under (WEvent_DedupKey e) (w\<lparr>Workflow_Revision := Workflow_Revision w + 1,
        Workflow_LastSequence := Workflow_LastSequence w + 1\<rparr>)"
      using w(3) that(3) local_key by (auto simp: flow_change_revised starts_under_def)
    have "resourceKey tn i = resourceKey (Workflow_TenantID c) (Workflow_ID c)"
      using workflow_invD(2) [OF store_invD(7) [OF assms(3)] that(1)] .
    then show "workflows s (resourceKey (Workflow_TenantID (w\<lparr>Workflow_Revision := Workflow_Revision w + 1,
        Workflow_LastSequence := Workflow_LastSequence w + 1\<rparr>)) (Workflow_ID (w\<lparr>Workflow_Revision := Workflow_Revision w + 1,
        Workflow_LastSequence := Workflow_LastSequence w + 1\<rparr>))) = Some c"
      using that(1) w(1) by (auto simp: flow_change_def)
  qed
  show ?thesis
    using assms(1)
    by (auto simp: ApplyWorkflowVersion_def Let_def run_refl split: prod.split option.split sum.split
        intro!: runI [where C = C] leg)
qed

lemma claim_loop_legal:
  assumes body: "\<And>io k s. P s k \<Longrightarrow> C io \<Longrightarrow> run C M s (snd (body io k s))"
    and keep: "\<And>io k k' s. P s k' \<Longrightarrow> k' \<noteq> k \<Longrightarrow> P s k \<Longrightarrow> P (snd (body io k s)) k'"
  shows "(\<And>n. C (io n)) \<Longrightarrow> distinct ks \<Longrightarrow> (\<And>k. k \<in> set ks \<Longrightarrow> P s k) \<Longrightarrow> run C M s (snd (claim_loop body io ks s))"
proof (induction ks arbitrary: io s)
  case Nil
  then show ?case by (simp add: run_refl)
next
  case (Cons k ks)
  obtain r1 s1 where b: "body (io 0) k s = (r1, s1)" by fastforce
  have s1: "run C M s s1" using body [of s k "io 0"] Cons.prems b by simp
  have "run C M s1 (snd (claim_loop body (\<lambda>n. io (Suc n)) ks s1))"
  proof (rule Cons.IH)
    fix k' assume "k' \<in> set ks"
    then show "P s1 k'" using keep [of s k' k "io 0"] Cons.prems(2,3) b by auto
  qed (use Cons.prems in auto)
  with s1 b show ?case
    by (auto split: prod.split sum.split) (metis run_trans snd_conv)+
qed

lemma claim_one_run:
  assumes "C io" "k \<noteq> ''''"
  shows "run C M s (snd (claim_one_task w now d io k s))"
    and "\<not> IState_Acked (inbox_state s k) \<Longrightarrow> run C M s (snd (claim_one_inbox w now d io k s))"
    and "run C M s (snd (claim_one_outbox w now d io k s))"
  using assms
  by (auto simp: claim_one_task_def claim_one_inbox_def claim_one_outbox_def Let_def
      split: prod.split option.split intro!: runI [where C = C] legal_lease legal_inbox_state legal_outbox_state)

lemma ClaimRecoverable_run:
  assumes "store_inv s" "\<forall>n. C (io n)" "distinct ks" "set ks \<subseteq> dom (tasks s)"
  shows "run C M s (snd (ClaimRecoverable io ks w n now d s))"
proof -
  have "k \<noteq> ''''" if "k \<in> set ks" for k
    using that assms(4) task_invD(1) [OF store_invD(1) [OF assms(1)], of k] by auto
  then have "k \<in> set (recoverable_keys ks n now s) \<Longrightarrow> k \<noteq> ''''" for k
    using recoverable_keys_props(3) [OF assms(3)] by blast
  then show ?thesis
    using assms(2,3) recoverable_keys_props(1) [OF assms(3)]
    by (auto simp: ClaimRecoverable_def run_refl claim_one_run
        intro!: claim_loop_legal [where P = "\<lambda>s k. k \<noteq> ''''"])
qed

lemma claim_one_inbox_others:
  "k' \<noteq> k \<Longrightarrow> k \<noteq> '''' \<Longrightarrow> inbox_state (snd (claim_one_inbox w now d io k s)) k' = inbox_state s k'"
  by (auto simp: claim_one_inbox_def Let_def split: prod.splits option.splits
      dest!: commit_error commit_success)

lemma ClaimInbox_run:
  assumes "store_inv s" "\<forall>n. C (io n)" "distinct ks" "set ks \<subseteq> dom (inbox s)"
  shows "run C M s (snd (ClaimInbox io ks w n now d s))"
proof -
  have "k \<noteq> ''''" if "k \<in> set ks" for k
    using that assms(4) inbox_invD(1) [OF store_invD(2) [OF assms(1)], of k] by auto
  then have "k \<in> set (inbox_keys ks n now s) \<Longrightarrow> k \<noteq> '''' \<and> \<not> IState_Acked (inbox_state s k)" for k
    using take_sort_key_sub [of k "nat n" "\<lambda>k. k" "filter (\<lambda>k. inbox_free now (inbox_state s k)) ks"]
    by (auto simp: inbox_keys_def inbox_free_def)
  then show ?thesis
    using assms(2,3) inbox_keys_props(1) [OF assms(3)]
    by (auto simp: ClaimInbox_def run_refl claim_one_run claim_one_inbox_others
        intro!: claim_loop_legal [where P = "\<lambda>s k. k \<noteq> '''' \<and> \<not> IState_Acked (inbox_state s k)"])
qed

lemma ClaimOutbox_run:
  assumes "store_inv s" "\<forall>n. C (io n)" "distinct ks" "set ks \<subseteq> dom (outbox s)"
  shows "run C M s (snd (ClaimOutbox io ks w n now d s))"
proof -
  have "k \<noteq> ''''" if "k \<in> set ks" for k
    using that assms(4) outbox_invD(1) [OF store_invD(4) [OF assms(1)], of k] by auto
  then have "k \<in> set (outbox_keys ks n now s) \<Longrightarrow> k \<noteq> ''''" for k
    using outbox_keys_props(3) [OF assms(3)] by blast
  then show ?thesis
    using assms(2,3) outbox_keys_props(1) [OF assms(3)]
    by (auto simp: ClaimOutbox_def run_refl claim_one_run
        intro!: claim_loop_legal [where P = "\<lambda>s k. k \<noteq> ''''"])
qed

lemma work_lease_key_nonempty [simp]: "work_lease_key l \<noteq> []" "deletion_lease_key dl \<noteq> []"
  by (simp_all add: work_lease_key_def deletion_lease_key_def)

lemma lease_ops_run:
  assumes "C io"
  shows "run C M s (snd (RenewLease io l now d s))" and "run C M s (snd (ReleaseLease io l now b s))"
  using assms
  by (auto simp: RenewLease_def ReleaseLease_def Let_def run_refl split: option.split prod.split
      intro!: runI [where C = C] run_commit legal_lease)

lemma with_inbox_lease_run:
  assumes "C io" "store_inv s" "\<And>st. \<not> lost st \<Longrightarrow> \<not> IState_Acked st"
  shows "run C M s (snd (with_inbox_lease io l lost upd s))"
  using assms inbox_invD(2) [OF store_invD(2) [OF assms(2)]]
  by (auto simp: with_inbox_lease_def Let_def run_refl split: option.split intro!: run_commit legal_inbox_state)

lemma with_outbox_lease_run:
  assumes "C io" "store_inv s" "\<And>st. \<not> lost st \<Longrightarrow> OState_Acked st \<Longrightarrow> OState_Acked (upd st)"
    "\<And>st. \<not> lost st \<Longrightarrow> OState_Purged st \<Longrightarrow> OState_Purged (upd st)"
  shows "run C M s (snd (with_outbox_lease io l lost upd s))"
  using assms outbox_invD(2) [OF store_invD(4) [OF assms(2)]]
  by (auto simp: with_outbox_lease_def Let_def run_refl split: option.split intro!: run_commit legal_outbox_state)

lemma inbox_ops_run:
  assumes "C io" "store_inv s"
  shows "inbox s (Inbox_ID i) = None \<Longrightarrow> run C M s (snd (EnqueueInbox io i s))"
    and "run C M s (snd (RenewInboxLease io l now d s))"
    and "run C M s (snd (AckInbox io l s))" and "run C M s (snd (RetryInbox io l now s))"
proof -
  show "inbox s (Inbox_ID i) = None \<Longrightarrow> run C M s (snd (EnqueueInbox io i s))"
    using assms by (auto simp: EnqueueInbox_def run_refl split: option.split prod.split intro!: runI [where C = C] legal_inbox)
  show "run C M s (snd (RenewInboxLease io l now d s))"
    using with_inbox_lease_run [where C = C, OF assms, of "\<lambda>st. \<not> now < IState_ExpiresAt st \<or> IState_Acked st"]
    by (auto simp: RenewInboxLease_def split: option.split prod.split) (metis snd_conv)+
qed (auto simp: AckInbox_def RetryInbox_def intro!: with_inbox_lease_run assms)

lemma outbox_ops_run:
  assumes "C io" "store_inv s"
  shows "outbox s (Outbox_ID i) = None \<Longrightarrow> run C M s (snd (EnqueueOutbox jv io i s))"
    and "run C M s (snd (RenewOutboxLease io l now d s))"
    and "run C M s (snd (AckOutbox io now l s))" and "run C M s (snd (RetryOutbox io l now s))"
    and "run C M s (snd (DeadLetterOutbox io now l reason s))" and "run C M s (snd (ReplayOutbox io tn rid now s))"
proof -
  show "outbox s (Outbox_ID i) = None \<Longrightarrow> run C M s (snd (EnqueueOutbox jv io i s))"
    using assms by (auto simp: EnqueueOutbox_def run_refl split: option.split prod.split intro!: runI [where C = C] legal_outbox)
  show "run C M s (snd (RenewOutboxLease io l now d s))"
    using with_outbox_lease_run [where C = C, OF assms, of "\<lambda>st. \<not> now < OState_ExpiresAt st \<or> OState_Acked st" "\<lambda>st. st\<lparr>OState_ExpiresAt := now + d\<rparr>"]
    by (auto simp: RenewOutboxLease_def split: option.split prod.split) (metis snd_conv)+
  show "run C M s (snd (ReplayOutbox io tn rid now s))"
    using assms outbox_invD(1) [OF store_invD(4) [OF assms(2)]]
    by (auto simp: ReplayOutbox_def Let_def run_refl split: option.split intro!: run_commit legal_outbox_state)
qed (auto simp: AckOutbox_def RetryOutbox_def DeadLetterOutbox_def intro!: with_outbox_lease_run assms)

lemma purge_loop_run:
  assumes "\<And>n. C (io n)"
  shows "store_inv s \<Longrightarrow> run C M s (snd (purge_loop io wall tn b limit ks c s))"
proof (induction ks arbitrary: c s)
  case Nil
  then show ?case by (simp add: run_refl)
next
  case (Cons k ks)
  note keys = outbox_invD(1) [OF store_invD(4) [OF Cons.prems]]
  let ?st = "(outbox_state s k)\<lparr>OState_Purged := True, OState_PurgedAt := wall, OState_Owner := '''', OState_ExpiresAt := zero_time\<rparr>"
  have one: "run C M s s1" if "outbox s k = Some i" "commit (io c) (outbox_state_record k ?st) s = (eo, s1)" for i eo s1
    using that(2) keys [OF that(1)] assms by (auto intro!: runI [where C = C] legal_outbox_state)
  have two: "run C M s (snd (purge_loop io wall tn b limit ks (Suc c) s1))"
    if "outbox s k = Some i" "commit (io c) (outbox_state_record k ?st) s = (eo, s1)" for i eo s1
    using one [OF that] Cons run_store_inv run_trans by blast
  from Cons one two show ?case
    by (auto simp: Let_def split: option.split prod.split)
qed

lemma PurgeOutbox_run:
  "(\<forall>n. C (io n)) \<Longrightarrow> store_inv s \<Longrightarrow> run C M s (snd (PurgeOutbox io ks wall tn b limit s))"
  by (simp add: PurgeOutbox_def run_refl purge_loop_run)

lemma usage_invD:
  assumes "usage_inv s" "artifactObjects s k = Some ob"
  shows "k = object_key ob" "nul_free (Object_TenantID ob)" "0 \<le> Object_SizeBytes ob"
  using assms by (auto simp: usage_inv_def)

lemma stored_tenant:
  assumes "store_inv s" "artifactObjects s (resourceKey tn i) = Some ob" "nul_free tn"
  shows "Object_TenantID ob = tn" "object_key ob = resourceKey tn i"
  using usage_invD [OF store_invD(6) [OF assms(1)] assms(2)] assms(3)
    resourceKey_inj [of tn "Object_TenantID ob" i "Object_ID ob"] by (simp_all add: object_key_def)

lemma ReserveArtifact_run:
  assumes "C io" "store_inv s" "nul_free (Object_TenantID ob)"
  shows "run C M s (snd (ReserveArtifact io ob quota s))"
  using assms
  by (auto simp: ReserveArtifact_def Let_def run_refl validateArtifactReservation_def legal_artifact_def
      artifact_live_def object_key_def acquire_usage_def split: option.split prod.split if_splits
      intro!: runI [where C = C] legal_artifact_object)

lemma FinalizeArtifact_run:
  assumes "C io" "store_inv s"
  shows "run C M s (snd (FinalizeArtifact io tn i sk dm sc st now s))"
proof -
  have "legal M s (artifact_record (ob\<lparr>Object_StorageKey := sk, Object_DetectedMediaType := dm,
      Object_ScanStatus := sc, Object_Status := st, Object_UpdatedAt := now\<rparr>) None)"
    if "artifactObjects s (resourceKey tn i) = Some ob" "Object_Status ob = ArtifactObjectPending"
      "st = ArtifactObjectAvailable \<or> st = ArtifactObjectQuarantined" for ob
    using that usage_invD(1) [OF store_invD(6) [OF assms(2)] that(1)]
    by (intro legal_artifact_object)
      (auto simp: legal_artifact_def artifact_live_def same_object_def object_key_def)
  with assms show ?thesis
    by (auto simp: FinalizeArtifact_def Let_def run_refl split: option.split prod.split intro!: runI [where C = C])
qed

lemma legal_release:
  assumes "store_inv s" "artifactObjects s k = Some ob" "artifact_live ob" "\<not> artifact_live ob'" "same_object ob ob'"
    "Object_SizeBytes ob' = Object_SizeBytes ob"
  shows "legal_artifact s ob' (Some (release_usage ob (tenant_usage s (Object_TenantID ob))))"
  using assms usage_invD(1) [OF store_invD(6) [OF assms(1)] assms(2)]
  by (auto simp: legal_artifact_def same_object_def object_key_def release_usage_def)

lemma FailArtifact_run:
  assumes "C io" "store_inv s" "nul_free tn"
  shows "run C M s (snd (FailArtifact io tn i code now s))"
proof -
  have "legal M s (artifact_record (ob\<lparr>Object_Status := ArtifactObjectFailed, Object_FailureCode := code, Object_UpdatedAt := now\<rparr>)
      (Some (release_usage ob (tenant_usage s tn))))"
    if "artifactObjects s (resourceKey tn i) = Some ob" "Object_Status ob = ArtifactObjectPending" for ob
    using that stored_tenant(1) [OF assms(2) that(1) assms(3), symmetric]
    by (auto simp: artifact_live_def same_object_def intro!: legal_artifact_object legal_release [OF assms(2) that(1)])
  with assms show ?thesis
    by (auto simp: FailArtifact_def Let_def run_refl split: option.split prod.split intro!: runI [where C = C])
qed

lemma CompleteArtifactDeletion_run:
  assumes "C io" "store_inv s"
  shows "run C M s (snd (CompleteArtifactDeletion io l now s))"
proof -
  have "legal M s ((artifact_record (ob\<lparr>Object_Status := ArtifactObjectDeleted, Object_UpdatedAt := now, Object_DeletedAt := Some now\<rparr>)
      (Some (release_usage ob (tenant_usage s (Object_TenantID ob)))))\<lparr>R_ArtifactLeaseID := k, R_ArtifactLease := Some al\<rparr>)"
    if "artifactObjects s k = Some ob" "Object_Status ob = ArtifactObjectDeleting" for ob k al
  proof -
    let ?ob = "ob\<lparr>Object_Status := ArtifactObjectDeleted, Object_UpdatedAt := now, Object_DeletedAt := Some now\<rparr>"
    have "k = object_key ?ob" using usage_invD(1) [OF store_invD(6) [OF assms(2)] that(1)] by (simp add: object_key_def)
    moreover have "legal_artifact s ?ob (Some (release_usage ob (tenant_usage s (Object_TenantID ob))))"
      using that by (auto simp: artifact_live_def same_object_def intro!: legal_release [OF assms(2) that(1)])
    ultimately show ?thesis by (auto intro: legal_artifact_leased)
  qed
  with assms show ?thesis
    by (auto simp: CompleteArtifactDeletion_def Let_def run_refl split: option.split prod.split intro!: run_commit)
qed

lemma artifact_lease_ops_run:
  assumes "C io"
  shows "run C M s (snd (RenewArtifactLease io l now d s))" and "run C M s (snd (RetryArtifactDeletion io l now s))"
  using assms
  by (auto simp: RenewArtifactLease_def RetryArtifactDeletion_def deletion_lease_key_def Let_def run_refl
      split: option.split prod.split intro!: runI [where C = C] run_commit legal_artifact_lease)

lemma claim_one_artifact_run:
  assumes "C io" "artifactObjects s k = Some ob" "k = object_key ob" "artifact_live ob"
  shows "run C M s (snd (claim_one_artifact w now d io k s))"
proof -
  have "legal M s ((artifact_record (ob\<lparr>Object_Status := ArtifactObjectDeleting, Object_UpdatedAt := now\<rparr>) None)
      \<lparr>R_ArtifactLeaseID := k, R_ArtifactLease := Some al\<rparr>)" for al
  proof -
    let ?ob = "ob\<lparr>Object_Status := ArtifactObjectDeleting, Object_UpdatedAt := now\<rparr>"
    have k: "k = object_key ?ob" using assms(3) by (simp add: object_key_def)
    have "legal_artifact s ?ob None"
      using assms by (auto simp: legal_artifact_def artifact_live_def same_object_def object_key_def)
    then show ?thesis unfolding k by (rule legal_artifact_leased)
  qed
  with assms show ?thesis
    by (auto simp: claim_one_artifact_def Let_def split: prod.split option.split intro!: runI [where C = C])
qed

lemma claim_one_artifact_others:
  assumes "k' \<noteq> k" "artifactObjects s k = Some ob" "k = object_key ob"
  shows "artifactObjects (snd (claim_one_artifact w now d io k s)) k' = artifactObjects s k'"
  using assms
  by (auto simp: claim_one_artifact_def Let_def object_key_def apply_artifact_def split: prod.splits option.splits
      dest!: commit_error commit_success)

lemma ClaimExpiredArtifacts_run:
  assumes "store_inv s" "\<forall>n. C (io n)" "distinct ks"
  shows "run C M s (snd (ClaimExpiredArtifacts io ks w n now d s))"
proof -
  have "\<exists>ob. artifactObjects s k = Some ob \<and> k = object_key ob \<and> artifact_live ob"
    if "k \<in> set (deletable_keys ks n now s)" for k
  proof -
    have "k \<in> set (filter (deletable now s) ks)"
      using that take_sort_key_sub unfolding deletable_keys_def by metis
    then show ?thesis
      using usage_invD(1) [OF store_invD(6) [OF assms(1)]]
      by (auto simp: deletable_def artifact_live_def Let_def split: option.splits)
  qed
  moreover have "distinct (deletable_keys ks n now s)"
    using assms(3) by (simp add: deletable_keys_def distinct_take)
  ultimately show ?thesis
    using assms(2)
    by (auto simp: ClaimExpiredArtifacts_def run_refl claim_one_artifact_others intro: claim_one_artifact_run
        intro!: claim_loop_legal [where P = "\<lambda>s k. \<exists>ob. artifactObjects s k = Some ob \<and> k = object_key ob \<and> artifact_live ob"])
qed

lemma RevokeToken_store_run: "C io \<Longrightarrow> run C M s (snd (RevokeToken_store io v s))"
  by (auto simp: RevokeToken_store_def run_refl intro!: run_commit legal_revocation)

lemma SetWorkerControl_run: "C io \<Longrightarrow> run C M s (snd (SetWorkerControl io wall c rv s))"
  by (auto simp: SetWorkerControl_def Let_def run_refl split: sum.split prod.split option.split
      intro!: runI legal_worker_control)
section \<open>The operations, interleaved\<close>

text \<open>One call of an operation of the store. \<open>C\<close> is what the disk may do, \<open>M\<close> what callbacks may change,
  \<open>p\<close> bounds the clock readings passed to \<open>PruneRevocations\<close>. Identifiers from \<open>NewID\<close> (128 random
  bits) are assumed not to repeat an outbox item's; an inbox item's identifier comes from the same
  source. Tenant identifiers contain no NUL byte.\<close>

inductive store_step ::
  "(append_io \<Rightarrow> bool) \<Rightarrow> (task \<Rightarrow> task \<Rightarrow> bool) \<Rightarrow> time \<Rightarrow> journal_store \<Rightarrow> journal_store \<Rightarrow> bool"
  for C M p s where
  do_PutAgent: "C io \<Longrightarrow> store_step C M p s (snd (PutAgent io a s))"
| do_CreateTask: "C io \<Longrightarrow> fresh_id s nid \<Longrightarrow> nul_free (Task_TenantID t) \<Longrightarrow> Task_ID t \<noteq> '''' \<Longrightarrow>
    store_step C M p s (snd (CreateTask io nid t e s))"
| do_ApplyTask: "C io \<Longrightarrow> fresh_id s nid \<Longrightarrow> callback_ok M m \<Longrightarrow>
    store_step C M p s (snd (ApplyTaskVersion io nid tn i r dk m s))"
| do_CreateWorkflow: "C io \<Longrightarrow> WEvent_DedupKey we = '''' \<Longrightarrow> flow_ok w \<Longrightarrow> store_step C M p s (snd (CreateWorkflow io nid w we s))"
| do_ApplyWorkflow: "C io \<Longrightarrow> (\<forall>c. workflows s (resourceKey tn i) = Some c \<longrightarrow> workflow_callback_ok dk wm c) \<Longrightarrow>
    store_step C M p s (snd (ApplyWorkflowVersion io nid tn i r dk wm s))"
| do_ClaimRecoverable: "(\<forall>n. C (ios n)) \<Longrightarrow> enumerates ks (tasks s) \<Longrightarrow>
    store_step C M p s (snd (ClaimRecoverable ios ks ow n now d s))"
| do_RenewLease: "C io \<Longrightarrow> store_step C M p s (snd (RenewLease io wl now d s))"
| do_ReleaseLease: "C io \<Longrightarrow> store_step C M p s (snd (ReleaseLease io wl now b s))"
| do_EnqueueInbox: "C io \<Longrightarrow> inbox s (Inbox_ID ii) = None \<Longrightarrow> store_step C M p s (snd (EnqueueInbox io ii s))"
| do_ClaimInbox: "(\<forall>n. C (ios n)) \<Longrightarrow> enumerates ks (inbox s) \<Longrightarrow>
    store_step C M p s (snd (ClaimInbox ios ks ow n now d s))"
| do_RenewInboxLease: "C io \<Longrightarrow> store_step C M p s (snd (RenewInboxLease io il now d s))"
| do_AckInbox: "C io \<Longrightarrow> store_step C M p s (snd (AckInbox io il s))"
| do_RetryInbox: "C io \<Longrightarrow> store_step C M p s (snd (RetryInbox io il now s))"
| do_EnqueueOutbox: "C io \<Longrightarrow> outbox s (Outbox_ID oi) = None \<Longrightarrow> store_step C M p s (snd (EnqueueOutbox jv io oi s))"
| do_ClaimOutbox: "(\<forall>n. C (ios n)) \<Longrightarrow> enumerates ks (outbox s) \<Longrightarrow>
    store_step C M p s (snd (ClaimOutbox ios ks ow n now d s))"
| do_RenewOutboxLease: "C io \<Longrightarrow> store_step C M p s (snd (RenewOutboxLease io ol now d s))"
| do_AckOutbox: "C io \<Longrightarrow> store_step C M p s (snd (AckOutbox io now ol s))"
| do_RetryOutbox: "C io \<Longrightarrow> store_step C M p s (snd (RetryOutbox io ol now s))"
| do_DeadLetterOutbox: "C io \<Longrightarrow> store_step C M p s (snd (DeadLetterOutbox io now ol reason s))"
| do_ReplayOutbox: "C io \<Longrightarrow> store_step C M p s (snd (ReplayOutbox io tn i now s))"
| do_PurgeOutbox: "(\<forall>n. C (ios n)) \<Longrightarrow> store_step C M p s (snd (PurgeOutbox ios ks wall tn before limit s))"
| do_RevokeToken: "C io \<Longrightarrow> store_step C M p s (snd (RevokeToken_store io v s))"
| do_PruneRevocations: "enumerates ks (revocations s) \<Longrightarrow> now \<le> p \<Longrightarrow>
    store_step C M p s (snd (PruneRevocations ks now s))"
| do_ReserveArtifact: "C io \<Longrightarrow> nul_free (Object_TenantID aob) \<Longrightarrow>
    store_step C M p s (snd (ReserveArtifact io aob quota s))"
| do_FinalizeArtifact: "C io \<Longrightarrow> store_step C M p s (snd (FinalizeArtifact io tn i sk dm sc st now s))"
| do_FailArtifact: "C io \<Longrightarrow> nul_free tn \<Longrightarrow> store_step C M p s (snd (FailArtifact io tn i code now s))"
| do_ClaimExpiredArtifacts: "(\<forall>n. C (ios n)) \<Longrightarrow> enumerates ks (artifactObjects s) \<Longrightarrow>
    store_step C M p s (snd (ClaimExpiredArtifacts ios ks ow n now d s))"
| do_RenewArtifactLease: "C io \<Longrightarrow> store_step C M p s (snd (RenewArtifactLease io dl now d s))"
| do_CompleteArtifactDeletion: "C io \<Longrightarrow> store_step C M p s (snd (CompleteArtifactDeletion io dl now s))"
| do_RetryArtifactDeletion: "C io \<Longrightarrow> store_step C M p s (snd (RetryArtifactDeletion io dl now s))"
| do_SetWorkerControl: "C io \<Longrightarrow> store_step C M p s (snd (SetWorkerControl io wall wc rv s))"

lemma claims_run:
  assumes "store_inv s" "\<forall>n. C (io n)"
  shows "enumerates ks (tasks s) \<Longrightarrow> run C M s (snd (ClaimRecoverable io ks w n now d s))"
    and "enumerates ks (inbox s) \<Longrightarrow> run C M s (snd (ClaimInbox io ks w n now d s))"
    and "enumerates ks (outbox s) \<Longrightarrow> run C M s (snd (ClaimOutbox io ks w n now d s))"
    and "enumerates ks (artifactObjects s) \<Longrightarrow> run C M s (snd (ClaimExpiredArtifacts io ks w n now d s))"
  using assms
  by (simp_all add: enumerates_def ClaimRecoverable_run ClaimInbox_run ClaimOutbox_run ClaimExpiredArtifacts_run)

lemmas operation_runs =
  PutAgent_run CreateTask_run ApplyTaskVersion_run CreateWorkflow_run ApplyWorkflowVersion_run
  claims_run lease_ops_run inbox_ops_run outbox_ops_run PurgeOutbox_run
  RevokeToken_store_run ReserveArtifact_run FinalizeArtifact_run FailArtifact_run
  artifact_lease_ops_run CompleteArtifactDeletion_run SetWorkerControl_run

text \<open>Every operation is a run of legal commits, or prunes revocations.\<close>

lemma store_step_cases:
  assumes "store_step C M p s s'" and "store_inv s"
  obtains (run) "run C M s s'"
        | (prune) ks now where "enumerates ks (revocations s)" "now \<le> p" "s' = snd (PruneRevocations ks now s)"
  using assms by (cases rule: store_step.cases) (blast intro: operation_runs)+

text \<open>Pruning removes exactly the revocations that have expired, whatever the order of the range.\<close>

lemma fold_prune:
  "distinct ks \<Longrightarrow> fst (fold (prune_one now) ks (m, c)) =
     (\<lambda>k. if k \<in> set ks \<and> (\<exists>v. m k = Some v \<and> Revocation_ExpiresAt v \<le> now) then None else m k)"
proof (induction ks arbitrary: m c)
  case (Cons k ks)
  then show ?case
    by (cases "m k") (auto simp: prune_one_def fun_eq_iff)
qed simp

lemma PruneRevocations_state:
  assumes "enumerates ks (revocations s)"
  shows "snd (PruneRevocations ks now s) = s\<lparr>revocations :=
    (\<lambda>k. case revocations s k of None \<Rightarrow> None | Some v \<Rightarrow> if Revocation_ExpiresAt v \<le> now then None else Some v)\<rparr>"
proof -
  obtain m c where f: "fold (prune_one now) ks (revocations s, 0) = (m, c)" by fastforce
  then have "m = fst (fold (prune_one now) ks (revocations s, 0))" by simp
  also have "\<dots> = (\<lambda>k. case revocations s k of None \<Rightarrow> None | Some v \<Rightarrow> if Revocation_ExpiresAt v \<le> now then None else Some v)"
    using assms fold_prune [of ks now "revocations s" 0]
    by (auto simp: enumerates_def fun_eq_iff split: option.split)
  finally show ?thesis by (simp add: PruneRevocations_def f)
qed

lemma store_inv_revocations [simp]: "store_inv (s\<lparr>revocations := m\<rparr>) = store_inv s"
  by (simp add: store_inv_def task_inv_def inbox_inv_def inbox_dedup_inv_def outbox_inv_def outbox_complete_def
      usage_inv_def counted_def object_size_def workflow_inv_def tenants_inv_def finite_inv_def)

lemma durable_prune:
  assumes d: "durable p s" and "enumerates ks (revocations s)" "now \<le> p"
  shows "durable p (snd (PruneRevocations ks now s))"
  unfolding durable_def PruneRevocations_state [OF assms(2)]
proof (intro allI impI)
  fix ls
  let ?m = "\<lambda>k. case revocations s k of None \<Rightarrow> None | Some v \<Rightarrow> if Revocation_ExpiresAt v \<le> now then None else Some v"
  assume "jfile (s\<lparr>revocations := ?m\<rparr>) = Some ls"
  with d obtain m where m: "OpenJournal (Some ls) = Inr ((forget_keys s)\<lparr>revocations := m\<rparr>)" "revocations s \<subseteq>\<^sub>m m"
      "\<forall>k v. m k = Some v \<and> revocations s k = None \<longrightarrow> Revocation_ExpiresAt v \<le> p"
    by (auto simp: durable_def)
  have "?m \<subseteq>\<^sub>m m"
    using m(2) by (auto simp: map_le_def dom_def split: option.splits if_splits) 
  moreover have "Revocation_ExpiresAt v \<le> p" if "m k = Some v" "?m k = None" for k v
  proof (cases "revocations s k")
    case None
    with m(3) that show ?thesis by blast
  next
    case (Some v')
    with m(2) that(1) have "v' = v" by (force simp: map_le_def)
    with Some that(2) assms(3) show ?thesis by (auto split: if_splits)
  qed
  ultimately show "\<exists>m. OpenJournal (Some ls) = Inr (forget_keys (s\<lparr>revocations := ?m\<rparr>)\<lparr>revocations := m\<rparr>) \<and>
      revocations (s\<lparr>revocations := ?m\<rparr>) \<subseteq>\<^sub>m m \<and>
      (\<forall>k v. m k = Some v \<and> revocations (s\<lparr>revocations := ?m\<rparr>) k = None \<longrightarrow> Revocation_ExpiresAt v \<le> p)"
    using m(1) by (auto simp: forget_keys_def)
qed

lemma store_step_keeps:
  assumes "store_step C M p s s'" "store_inv s"
  shows "store_inv s'" and "advanced s s'"
  using assms(1,2)
  by (cases rule: store_step_cases [OF assms];
      auto simp: PruneRevocations_state advanced_def [of _ "_\<lparr>revocations := _\<rparr>"]
        dest: run_store_inv run_advanced)+

lemma store_step_durable:
  assumes "store_step clean_io M p s s'" "store_inv s" "durable p s"
  shows "durable p s'"
  using assms by (cases rule: store_step_cases [OF assms(1,2)]) (auto intro: run_durable durable_prune)

abbreviation store_steps ::
  "(append_io \<Rightarrow> bool) \<Rightarrow> (task \<Rightarrow> task \<Rightarrow> bool) \<Rightarrow> time \<Rightarrow> journal_store \<Rightarrow> journal_store \<Rightarrow> bool" where
  "store_steps C M p \<equiv> (store_step C M p)\<^sup>*\<^sup>*"

lemma store_steps_keep:
  assumes "store_steps C M p s s'" "store_inv s"
  shows "store_inv s' \<and> advanced s s'"
  using assms
  by (induction rule: rtranclp_induct) (auto simp: advanced_refl dest: store_step_keeps intro: advanced_trans)

lemma store_steps_durable:
  assumes "store_steps clean_io M p s s'" "store_inv s" "durable p s"
  shows "durable p s'"
  using assms
proof (induction rule: rtranclp_induct)
  case (step y z)
  then show ?case using store_steps_keep [OF step.hyps(1)] store_step_durable by blast
qed

end
