(* ===== verification/Hub_World.thy ===== *)
theory Hub_World
  imports Store_Protocol "HOL-Library.State_Monad"
begin

text \<open>
  The world the hub's services run in. A service call is a program of the state monad over
  \<open>world\<close>: the journal store and a clock tick that advances with every effect. Everything the code
  takes from outside (disk outcomes, identifiers, the wall clock, random tokens, remote agents, the
  object storage, the malware scanner) is a function of the tick in the record \<open>hub_env\<close>.

  Other goroutines share the store. Before each store operation of a call the environment's
  \<open>e_other\<close> acts on the store; the only thing assumed of it (\<open>env_ok\<close>) is that it consists of store
  operations itself. So what is proved of a call holds under every interleaving of transactions.
\<close>

section \<open>Environment\<close>

text \<open>What the sources use of \<open>net/url\<close>: the fields of a parsed URL.\<close>

record url =
  U_Scheme :: string
  U_Host :: string
  U_Hostname :: string
  U_HasUser :: bool
  U_Fragment :: string
  U_String :: string
  U_Clean :: string

text \<open>The predicates of \<open>net.IP\<close> that \<open>isPublicIP\<close> asks.\<close>

record ip =
  IP_Loopback :: bool
  IP_Private :: bool
  IP_LinkLocalUnicast :: bool
  IP_LinkLocalMulticast :: bool
  IP_Unspecified :: bool
  IP_Multicast :: bool

text \<open>Pure functions of Go's standard library that the services call: hex SHA-256, URL and media type
  parsing, base64, JSON encodings, and the content sniffing of \<open>net/http\<close>.\<close>

record golib =
  G_sha256 :: "string \<Rightarrow> string"
  G_url_parse :: "string \<Rightarrow> url result"
  G_path_escape :: "string \<Rightarrow> string"
  G_query_escape :: "string \<Rightarrow> string"
  G_mime_parse :: "string \<Rightarrow> string result"
  G_base64_decode :: "string \<Rightarrow> string result"
  G_base64_stream :: "string \<Rightarrow> string \<times> error option"
  G_base64_encode :: "string \<Rightarrow> string"
  G_json_observation :: "observation \<Rightarrow> string"
  G_json_event :: "event \<Rightarrow> string"
  G_decode_observation :: "string \<Rightarrow> observation result"
  G_json_input :: "part list \<Rightarrow> string list \<Rightarrow> (string \<times> json) list \<Rightarrow> string"
  G_json_metadata :: "(string \<times> json) list \<Rightarrow> string"
  G_json_valid :: "string \<Rightarrow> bool"
  G_json_single :: "string \<Rightarrow> bool"
  G_detect :: "string \<Rightarrow> string"
  G_parse_ip :: "string \<Rightarrow> ip option"
  G_split_host_port :: "string \<Rightarrow> bool"

text \<open>The federation boundary (\<open>federation.Adapter\<close>). The streams of \<open>Send\<close> and \<open>Subscribe\<close> are the
  finite lists of what the remote agent yields before the iterator stops.\<close>

record extension =
  Ext_URI :: string
  Ext_Required :: bool

record descriptor =
  Desc_Name :: string
  Desc_ProviderVersion :: string
  Desc_ProtocolBinding :: string
  Desc_ProtocolVersion :: string
  Desc_Endpoint :: string
  Desc_Streaming :: bool
  Desc_PushNotifications :: bool
  Desc_SecuritySchemes :: "string list"
  Desc_Skills :: "string list"
  Desc_Extensions :: "extension list"
  Desc_CardSignatureVerified :: bool
  Desc_CardSignatureKeyID :: string

record binding_profile =
  Prof_ProtocolVersion :: string
  Prof_Binding :: string
  Prof_StreamTransport :: string

record push_config =
  Push_URL :: string
  Push_Token :: string

record message =
  Msg_ID :: string
  Msg_Text :: string
  Msg_Parts :: "part list"
  Msg_RemoteTaskID :: string
  Msg_RemoteContextID :: string
  Msg_ReturnImmediately :: bool
  Msg_Push :: "push_config option"
  Msg_Extensions :: "string list"
  Msg_Metadata :: "(string \<times> json) list"

record hub_env =
  e_other :: "nat \<Rightarrow> journal_store \<Rightarrow> journal_store"
  e_io :: "nat \<Rightarrow> nat \<Rightarrow> append_io"
  e_id :: "nat \<Rightarrow> string"
  e_clock :: "nat \<Rightarrow> time"
  e_token :: "nat \<Rightarrow> string result"
  e_agents :: "nat \<Rightarrow> journal_store \<Rightarrow> string list"
  e_tasks :: "nat \<Rightarrow> journal_store \<Rightarrow> string list"
  e_Discover :: "nat \<Rightarrow> string \<Rightarrow> descriptor result"
  e_DiscoverWithProfiles :: "nat \<Rightarrow> string \<Rightarrow> binding_profile list \<Rightarrow> descriptor result"
  e_Send :: "nat \<Rightarrow> agent \<Rightarrow> message \<Rightarrow> observation result list"
  e_Get :: "nat \<Rightarrow> agent \<Rightarrow> string \<Rightarrow> observation result"
  e_Cancel :: "nat \<Rightarrow> agent \<Rightarrow> string \<Rightarrow> observation result"
  e_Subscribe :: "nat \<Rightarrow> agent \<Rightarrow> string \<Rightarrow> observation result list"
  e_fetch :: "nat \<Rightarrow> string \<Rightarrow> (int \<times> int \<times> string \<times> string \<times> error option) result"
  e_temp :: "nat \<Rightarrow> error option"
  e_scan :: "nat \<Rightarrow> string \<Rightarrow> ArtifactScanStatus \<times> error option"
  e_put :: "nat \<Rightarrow> string \<Rightarrow> string \<Rightarrow> string \<Rightarrow> error option"
  e_open :: "nat \<Rightarrow> string \<Rightarrow> string \<Rightarrow> (int \<times> string result \<times> error option) result"
  e_delete :: "nat \<Rightarrow> string \<Rightarrow> string \<Rightarrow> error option"

record world =
  w_store :: journal_store
  w_tick :: nat

type_synonym 'a hub = "(world, 'a) state"

section \<open>Primitive effects\<close>

text \<open>One atomic store operation, after whatever the other goroutines did. It is given its disk
  outcomes and the identifier it may draw.\<close>

definition store_op ::
  "hub_env \<Rightarrow> ((nat \<Rightarrow> append_io) \<Rightarrow> string \<Rightarrow> journal_store \<Rightarrow> 'a \<times> journal_store) \<Rightarrow> 'a hub" where
  "store_op E f = State (\<lambda>w.
     case f (e_io E (w_tick w)) (e_id E (w_tick w)) (e_other E (w_tick w) (w_store w)) of
       (x, s') \<Rightarrow> (x, \<lparr>w_store = s', w_tick = Suc (w_tick w)\<rparr>))"

text \<open>A read of the store, and a reading of the outside world.\<close>

definition store_get :: "hub_env \<Rightarrow> (nat \<Rightarrow> journal_store \<Rightarrow> 'a) \<Rightarrow> 'a hub" where
  "store_get E f = State (\<lambda>w.
     let s = e_other E (w_tick w) (w_store w)
     in (f (w_tick w) s, \<lparr>w_store = s, w_tick = Suc (w_tick w)\<rparr>))"

definition ask :: "(nat \<Rightarrow> 'a) \<Rightarrow> 'a hub" where
  "ask f = State (\<lambda>w. (f (w_tick w), w\<lparr>w_tick := Suc (w_tick w)\<rparr>))"

section \<open>Programs that take legal steps only\<close>

definition unused :: "journal_store \<Rightarrow> string \<Rightarrow> bool" where
  "unused s i \<longleftrightarrow> i \<noteq> '''' \<and> outbox s i = None \<and> inbox s i = None"

text \<open>The changes every callback of the hub makes to a task: the request is fixed, a remote task
  identifier is never replaced, a terminal state is never left, remote time does not go backwards, a
  cancellation request is never withdrawn.\<close>

definition hub_change :: "task \<Rightarrow> task \<Rightarrow> bool" where
  "hub_change c t \<longleftrightarrow>
     Task_ID t = Task_ID c \<and> Task_TenantID t = Task_TenantID c \<and> Task_AgentID t = Task_AgentID c \<and>
     Task_MessageID t = Task_MessageID c \<and> Task_InputDigest t = Task_InputDigest c \<and>
     Task_IdempotencyKey t = Task_IdempotencyKey c \<and> Task_Priority t = Task_Priority c \<and>
     Task_PushTokenHash t = Task_PushTokenHash c \<and> Task_CreatedAt t = Task_CreatedAt c \<and>
     Task_RequestedExtensions t = Task_RequestedExtensions c \<and>
     (Task_RemoteTaskID c \<noteq> '''' \<longrightarrow> Task_RemoteTaskID t = Task_RemoteTaskID c) \<and>
     (TaskState_Terminal (Task_State c) \<longrightarrow> Task_State t = Task_State c) \<and>
     (Task_CancelRequested c \<longrightarrow> Task_CancelRequested t) \<and>
     (\<forall>u. Task_LastRemoteObservedAt c = Some u \<longrightarrow> (\<exists>v. Task_LastRemoteObservedAt t = Some v \<and> u \<le> v))"

lemma hub_change_refl: "hub_change c c"
  by (simp add: hub_change_def)

lemma hub_change_trans: "hub_change a b \<Longrightarrow> hub_change b c \<Longrightarrow> hub_change a c"
  unfolding hub_change_def
proof (elim conjE, intro conjI)
  assume "\<forall>u. Task_LastRemoteObservedAt a = Some u \<longrightarrow> (\<exists>v. Task_LastRemoteObservedAt b = Some v \<and> u \<le> v)"
    "\<forall>u. Task_LastRemoteObservedAt b = Some u \<longrightarrow> (\<exists>v. Task_LastRemoteObservedAt c = Some v \<and> u \<le> v)"
  then show "\<forall>u. Task_LastRemoteObservedAt a = Some u \<longrightarrow> (\<exists>v. Task_LastRemoteObservedAt c = Some v \<and> u \<le> v)"
    by (meson order_trans)
qed simp_all

abbreviation hub_steps :: "journal_store \<Rightarrow> journal_store \<Rightarrow> bool" where
  "hub_steps s s' \<equiv> store_steps (\<lambda>_. True) hub_change 0 s s'"

definition env_ok :: "hub_env \<Rightarrow> bool" where
  "env_ok E \<longleftrightarrow>
     (\<forall>t s. store_inv s \<longrightarrow> hub_steps s (e_other E t s)) \<and>
     (\<forall>t n s. unused s (e_id E n) \<longrightarrow> unused (e_other E t s) (e_id E n)) \<and>
     inj (e_id E)"

definition world_ok :: "hub_env \<Rightarrow> world \<Rightarrow> bool" where
  "world_ok E w \<longleftrightarrow> store_inv (w_store w) \<and> (\<forall>n\<ge>w_tick w. unused (w_store w) (e_id E n))"

text \<open>\<open>safe_post E m Q\<close>: from a good world \<open>m\<close> takes legal steps to a good world, and its result
  satisfies \<open>Q\<close>.\<close>

definition safe_post :: "hub_env \<Rightarrow> 'a hub \<Rightarrow> ('a \<Rightarrow> bool) \<Rightarrow> bool" where
  "safe_post E m Q \<longleftrightarrow> (\<forall>w x w'. world_ok E w \<longrightarrow> run_state m w = (x, w') \<longrightarrow>
     world_ok E w' \<and> hub_steps (w_store w) (w_store w') \<and> Q x)"

declare TrueI [hub_safe]

abbreviation safe :: "hub_env \<Rightarrow> 'a hub \<Rightarrow> bool" where
  "safe E m \<equiv> safe_post E m (\<lambda>_. True)"

lemma safe_return [hub_safe]: "Q x \<Longrightarrow> safe_post E (State_Monad.return x) Q"
  by (simp add: safe_post_def)

lemma safe_post_bind:
  assumes "safe_post E m Q" and "\<And>x. Q x \<Longrightarrow> safe_post E (f x) R"
  shows "safe_post E (State_Monad.bind m f) R"
  unfolding safe_post_def
proof (intro allI impI)
  fix w y w'
  assume w: "world_ok E w" and r: "run_state (State_Monad.bind m f) w = (y, w')"
  obtain x w1 where 1: "run_state m w = (x, w1)" by fastforce
  with r have 2: "run_state (f x) w1 = (y, w')" by simp
  have w1: "world_ok E w1" "hub_steps (w_store w) (w_store w1)" "Q x"
    using assms(1) w 1 unfolding safe_post_def by blast+
  have "world_ok E w'" "hub_steps (w_store w1) (w_store w')" "R y"
    using assms(2) [OF w1(3)] w1(1) 2 unfolding safe_post_def by blast+
  with w1(2) show "world_ok E w' \<and> hub_steps (w_store w) (w_store w') \<and> R y" by (blast intro: rtranclp_trans)
qed

lemma safe_bind [hub_safe]:
  "safe E m \<Longrightarrow> (\<And>x. safe_post E (f x) R) \<Longrightarrow> safe_post E (State_Monad.bind m f) R"
  by (rule safe_post_bind) auto

lemma safe_weaken: "safe_post E m Q \<Longrightarrow> (\<And>x. Q x \<Longrightarrow> R x) \<Longrightarrow> safe_post E m R"
  unfolding safe_post_def by blast

lemma safe_ask [hub_safe]: "safe E (ask f)"
  by (auto simp: safe_post_def ask_def world_ok_def)

lemma safe_store_get_post:
  assumes "env_ok E" and Q: "\<And>t s. store_inv s \<Longrightarrow> Q (f t s)"
  shows "safe_post E (store_get E f) Q"
  unfolding safe_post_def
proof (intro allI impI)
  fix w x w'
  assume w: "world_ok E w" and r: "run_state (store_get E f) w = (x, w')"
  let ?s = "e_other E (w_tick w) (w_store w)"
  have "hub_steps (w_store w) ?s" using assms w by (simp add: env_ok_def world_ok_def)
  moreover have "store_inv ?s" using store_steps_keep [OF calculation] w by (simp add: world_ok_def)
  moreover have "unused ?s (e_id E n)" if "w_tick w \<le> n" for n
    using assms w that by (simp add: env_ok_def world_ok_def)
  ultimately show "world_ok E w' \<and> hub_steps (w_store w) (w_store w') \<and> Q x"
    using r Q by (auto simp: store_get_def world_ok_def Let_def)
qed

lemma safe_store_get [hub_safe]: "env_ok E \<Longrightarrow> safe E (store_get E f)"
  by (rule safe_store_get_post) simp_all

text \<open>A store operation is safe when it is a step of the store that uses no identifier but its own.\<close>

lemma safe_store_op_post:
  assumes "env_ok E"
    and step: "\<And>io nid s. store_inv s \<Longrightarrow> unused s nid \<Longrightarrow>
      hub_steps s (snd (f io nid s)) \<and>
      dom (outbox (snd (f io nid s))) \<subseteq> insert nid (dom (outbox s)) \<and>
      dom (inbox (snd (f io nid s))) \<subseteq> insert nid (dom (inbox s)) \<and> Q (fst (f io nid s))"
  shows "safe_post E (store_op E f) Q"
  unfolding safe_post_def
proof (intro allI impI)
  fix w x w'
  assume w: "world_ok E w" and r: "run_state (store_op E f) w = (x, w')"
  let ?t = "w_tick w"
  let ?s = "e_other E ?t (w_store w)" and ?nid = "e_id E ?t"
  let ?s' = "snd (f (e_io E ?t) ?nid ?s)"
  have other: "hub_steps (w_store w) ?s" using assms(1) w by (simp add: env_ok_def world_ok_def)
  have inv: "store_inv ?s" using store_steps_keep [OF other] w by (simp add: world_ok_def)
  have un: "unused ?s (e_id E n)" if "?t \<le> n" for n
    using assms(1) w that by (simp add: env_ok_def world_ok_def)
  note st = step [OF inv un [OF order_refl], of "e_io E ?t"]
  have w': "w' = \<lparr>w_store = ?s', w_tick = Suc ?t\<rparr>" "x = fst (f (e_io E ?t) ?nid ?s)"
    using r by (auto simp: store_op_def split: prod.splits)
  have "unused ?s' (e_id E n)" if "Suc ?t \<le> n" for n
  proof -
    have "e_id E n \<noteq> ?nid" using assms(1) that by (auto simp: env_ok_def dest: injD)
    with st un [of n] that show ?thesis by (auto simp: unused_def)
  qed
  moreover have "store_inv ?s'" using store_steps_keep [of _ _ _ ?s ?s'] st inv by blast
  ultimately show "world_ok E w' \<and> hub_steps (w_store w) (w_store w') \<and> Q x"
    using w' other st by (auto simp: world_ok_def)
qed

lemma safe_store_op:
  assumes "env_ok E"
    and "\<And>io nid s. store_inv s \<Longrightarrow> unused s nid \<Longrightarrow>
      hub_steps s (snd (f io nid s)) \<and>
      dom (outbox (snd (f io nid s))) \<subseteq> insert nid (dom (outbox s)) \<and>
      dom (inbox (snd (f io nid s))) \<subseteq> insert nid (dom (inbox s))"
  shows "safe E (store_op E f)"
  by (rule safe_store_op_post [OF assms(1)]) (use assms(2) in simp)

section \<open>Programs that can fail\<close>

text \<open>The statement pattern \<open>x, err := m; if err != nil { return err }; \<dots>\<close>.\<close>

definition bindE :: "'a result hub \<Rightarrow> ('a \<Rightarrow> 'b result hub) \<Rightarrow> 'b result hub" where
  "bindE m f = do { r \<leftarrow> m; case r of Inl e \<Rightarrow> State_Monad.return (Inl e) | Inr x \<Rightarrow> f x }"

definition ok :: "'a \<Rightarrow> 'a result hub" where
  "ok x = State_Monad.return (Inr x)"

definition fail :: "error \<Rightarrow> 'a result hub" where
  "fail e = State_Monad.return (Inl e)"

definition guardE :: "bool \<Rightarrow> error \<Rightarrow> 'a result hub \<Rightarrow> 'a result hub" where
  "guardE c e m = (if c then fail e else m)"

lemma safe_post_bindE:
  assumes "safe_post E m (\<lambda>r. \<forall>x. r = Inr x \<longrightarrow> Q x)" and "\<And>x. Q x \<Longrightarrow> safe_post E (f x) R" and "\<And>e. R (Inl e)"
  shows "safe_post E (bindE m f) R"
  unfolding bindE_def
  by (rule safe_post_bind [OF assms(1)]) (auto split: sum.split intro: safe_return assms(2,3))

lemma safe_bindE [hub_safe]: "safe E m \<Longrightarrow> (\<And>x. safe E (f x)) \<Longrightarrow> safe E (bindE m f)"
  by (rule safe_post_bindE [where Q = "\<lambda>_. True"]) simp_all

lemma safe_results [hub_safe]:
  "Q (Inr x) \<Longrightarrow> safe_post E (ok x) Q" "Q (Inl e) \<Longrightarrow> safe_post E (fail e) Q"
  "Q (Inl e) \<Longrightarrow> safe_post E m Q \<Longrightarrow> safe_post E (guardE c e m) Q"
  by (simp_all add: ok_def fail_def guardE_def safe_return)

lemma safe_split [hub_safe]:
  "(c \<Longrightarrow> safe_post E m Q) \<Longrightarrow> (\<not> c \<Longrightarrow> safe_post E m' Q) \<Longrightarrow> safe_post E (if c then m else m') Q"
  "(o1 = None \<Longrightarrow> safe_post E m Q) \<Longrightarrow> (\<And>x. o1 = Some x \<Longrightarrow> safe_post E (f x) Q) \<Longrightarrow>
     safe_post E (case o1 of None \<Rightarrow> m | Some x \<Rightarrow> f x) Q"
  "(\<And>e. r = Inl e \<Longrightarrow> safe_post E (g1 e) Q) \<Longrightarrow> (\<And>x. r = Inr x \<Longrightarrow> safe_post E (g2 x) Q) \<Longrightarrow>
     safe_post E (case r of Inl e \<Rightarrow> g1 e | Inr x \<Rightarrow> g2 x) Q"
  "(\<And>a b. p = (a, b) \<Longrightarrow> safe_post E (h a b) Q) \<Longrightarrow> safe_post E (case p of (a, b) \<Rightarrow> h a b) Q"
  by (auto split: option.split sum.split prod.split)

section \<open>The store's operations as effects\<close>

lemma hub_step: "store_step (\<lambda>_. True) hub_change 0 s s' \<Longrightarrow> hub_steps s s'"
  by (rule r_into_rtranclp)

text \<open>Most operations draw no identifier and leave the inbox and the outbox items alone.\<close>

lemma safe_store_op_plain:
  assumes "env_ok E"
    and "\<And>io nid s. store_inv s \<Longrightarrow> store_step (\<lambda>_. True) hub_change 0 s (snd (f io nid s))"
    and "\<And>io nid s. outbox (snd (f io nid s)) = outbox s \<and> inbox (snd (f io nid s)) = inbox s"
  shows "safe E (store_op E f)"
  using assms(2,3) by (intro safe_store_op [OF assms(1)]) (auto intro: hub_step)

lemma commit_plain:
  assumes "\<And>s. outbox (applyRecord r s) = outbox s \<and> inbox (applyRecord r s) = inbox s"
  shows "outbox (snd (commit io r s)) = outbox s \<and> inbox (snd (commit io r s)) = inbox s"
proof -
  obtain eo s' where run: "commit io r s = (eo, s')" by fastforce
  then show ?thesis by (cases rule: commit_cases) (auto simp: run assms)
qed

lemma plain_PutAgent: "outbox (snd (PutAgent io a s)) = outbox s \<and> inbox (snd (PutAgent io a s)) = inbox s"
  by (auto simp: PutAgent_def Let_def commit_plain split: option.split prod.split sum.split if_split
      dest!: commit_error commit_success)

lemma plain_RevokeToken_store: "outbox (snd (RevokeToken_store io v s)) = outbox s \<and> inbox (snd (RevokeToken_store io v s)) = inbox s"
  by (auto simp: RevokeToken_store_def Let_def commit_plain split: option.split prod.split sum.split if_split
      dest!: commit_error commit_success)

lemma plain_ReserveArtifact: "outbox (snd (ReserveArtifact io ob q s)) = outbox s \<and> inbox (snd (ReserveArtifact io ob q s)) = inbox s"
  by (auto simp: ReserveArtifact_def Let_def commit_plain split: option.split prod.split sum.split if_split
      dest!: commit_error commit_success)

lemma plain_FinalizeArtifact: "outbox (snd (FinalizeArtifact io tn i sk dm sc st now s)) = outbox s \<and> inbox (snd (FinalizeArtifact io tn i sk dm sc st now s)) = inbox s"
  by (auto simp: FinalizeArtifact_def Let_def commit_plain split: option.split prod.split sum.split if_split
      dest!: commit_error commit_success)

lemma plain_FailArtifact: "outbox (snd (FailArtifact io tn i code now s)) = outbox s \<and> inbox (snd (FailArtifact io tn i code now s)) = inbox s"
  by (auto simp: FailArtifact_def Let_def commit_plain split: option.split prod.split sum.split if_split
      dest!: commit_error commit_success)

lemma plain_CreateWorkflow: "outbox (snd (CreateWorkflow io nid wfl we s)) = outbox s \<and> inbox (snd (CreateWorkflow io nid wfl we s)) = inbox s"
  by (auto simp: CreateWorkflow_def Let_def commit_plain split: option.split prod.split sum.split if_split
      dest!: commit_error commit_success)

lemma plain_ApplyWorkflowVersion: "outbox (snd (ApplyWorkflowVersion io nid tn i r dk wm s)) = outbox s \<and> inbox (snd (ApplyWorkflowVersion io nid tn i r dk wm s)) = inbox s"
  by (auto simp: ApplyWorkflowVersion_def Let_def commit_plain split: option.split prod.split sum.split if_split
      dest!: commit_error commit_success)

lemmas outbox_inbox_plain = plain_PutAgent plain_RevokeToken_store plain_ReserveArtifact plain_FinalizeArtifact plain_FailArtifact plain_CreateWorkflow plain_ApplyWorkflowVersion

text \<open>The operations that do create items touch one identifier only.\<close>

definition only_id :: "string \<Rightarrow> journal_store \<Rightarrow> journal_store \<Rightarrow> bool" where
  "only_id nid s s' \<longleftrightarrow> (\<forall>k. k \<noteq> nid \<longrightarrow> outbox s' k = outbox s k \<and> inbox s' k = inbox s k)"

lemma only_id_refl [simp]: "only_id nid s s" "only_id nid s (s\<lparr>jfile := f\<rparr>)"
  by (simp_all add: only_id_def)

lemma only_id_commit:
  assumes "commit io r s = (eo, s')" and "only_id nid s (applyRecord r s)"
  shows "only_id nid s s'"
  using assms(1) by (cases rule: commit_cases) (use assms(2) in \<open>simp_all add: only_id_def\<close>)

lemma only_id_dom: "only_id nid s s' \<Longrightarrow>
    dom (outbox s') \<subseteq> insert nid (dom (outbox s)) \<and> dom (inbox s') \<subseteq> insert nid (dom (inbox s))"
  unfolding only_id_def by (intro conjI subsetI; metis domIff insertCI)

lemma only_id_task_record: "Event_ID e = nid \<Longrightarrow> only_id nid s (apply_task (task_record t e) s)"
  by (simp add: only_id_def)

lemma CreateTask_only_id: "only_id nid s (snd (CreateTask io nid t e s))"
  by (auto simp: CreateTask_def Let_def split: prod.split option.split
      elim!: only_id_commit intro!: only_id_task_record)

lemma ApplyTaskVersion_only_id: "only_id nid s (snd (ApplyTaskVersion io nid tn i r dk m s))"
  by (auto simp: ApplyTaskVersion_def Let_def split: prod.split option.split sum.split
      elim!: only_id_commit intro!: only_id_task_record)

lemma EnqueueInbox_only_id: "only_id (Inbox_ID ii) s (snd (EnqueueInbox io ii s))"
  by (auto simp: EnqueueInbox_def split: prod.split option.split elim!: only_id_commit)
    (simp_all add: only_id_def apply_inbox_def)

lemmas task_ops_ids = CreateTask_only_id [THEN only_id_dom] ApplyTaskVersion_only_id [THEN only_id_dom]
  EnqueueInbox_only_id [THEN only_id_dom]

end
