(* ===== verification/Artifact_Service.thy ===== *)
theory Artifact_Service
  imports Hub_World
begin

text \<open>
  The artifact service (\<open>internal/artifact/service.go\<close>, \<open>policy.go\<close>, \<open>lifecycle.go\<close>): ingesting file
  parts into the object storage under a quota and a content policy, opening them, and deleting what
  has expired. The object storage, the malware scanner, the temporary file and the HTTP client are
  the environment's.
\<close>

section \<open>Policy\<close>

record artifact_policy =
  Pol_MaxBytes :: int
  Pol_AllowedMIME :: "string list"
  Pol_QuotaBytes :: int
  Pol_QuotaObjects :: int
  Pol_Retention :: duration
  Pol_RequireClean :: bool

definition policy_error :: "string \<Rightarrow> error" where
  "policy_error m = ErrWrap m ErrPolicy"

definition baseMediaType :: "golib \<Rightarrow> string \<Rightarrow> string" where
  "baseMediaType L v =
     (if v = '''' then '''' else case G_mime_parse L v of Inl e \<Rightarrow> '''' | Inr t \<Rightarrow> ToLower t)"

definition mimeAllowed :: "string list \<Rightarrow> string \<Rightarrow> bool" where
  "mimeAllowed allowed t \<longleftrightarrow>
     t \<in> set allowed \<or>
     (CHR ''/'' \<in> set t \<and> takeWhile (\<lambda>c. c \<noteq> CHR ''/'') t @ ''/*'' \<in> set allowed)"

definition Policy_Validate :: "golib \<Rightarrow> artifact_policy \<Rightarrow> int \<Rightarrow> string \<Rightarrow> string \<Rightarrow> error option" where
  "Policy_Validate L p sz declared detected =
     (if sz < 0 \<or> (Pol_MaxBytes p > 0 \<and> sz > Pol_MaxBytes p)
      then Some (policy_error ''object exceeds the configured size limit'')
      else
        let declared' = baseMediaType L declared; detected' = baseMediaType L detected in
        if detected' = '''' then Some (policy_error ''content type could not be detected'')
        else if Pol_AllowedMIME p \<noteq> [] \<and> \<not> mimeAllowed (Pol_AllowedMIME p) detected'
        then Some (policy_error (''detected media type '' @ detected' @ '' is not allowed''))
        else if declared' \<noteq> '''' \<and> declared' \<noteq> ''application/octet-stream'' \<and> declared' \<noteq> detected'
        then Some (policy_error (''declared media type '' @ declared' @ '' does not match detected type '' @ detected'))
        else None)"

definition DetectMediaType :: "golib \<Rightarrow> string \<Rightarrow> string" where
  "DetectMediaType L header = baseMediaType L (G_detect L header)"

text \<open>\<open>detectFileMediaType\<close> without its error of rewinding the temporary file, which \<open>Ingest\<close> below
  reads from the environment.\<close>

definition detectFileMediaType :: "golib \<Rightarrow> string \<Rightarrow> string \<Rightarrow> string" where
  "detectFileMediaType L contents declared =
     (if baseMediaType L declared \<noteq> ''application/json'' then DetectMediaType L (take 512 contents)
      else if G_json_single L contents then ''application/json''
      else DetectMediaType L (take 512 contents))"

section \<open>Ingesting\<close>

record ingest_input =
  In_TenantID :: string
  In_TaskID :: string
  In_ArtifactID :: string
  In_DedupKey :: string
  In_PartIndex :: int
  In_MediaType :: string
  In_Filename :: string
  In_SourceURI :: string

text \<open>The service's configuration: its policy, whether a scanner and an HTTP client are set.\<close>

record artifact_service =
  AS_Policy :: artifact_policy
  AS_Scanner :: bool
  AS_HTTPClient :: bool

definition temp_step :: "hub_env \<Rightarrow> unit result hub" where
  "temp_step E = do { e \<leftarrow> ask (e_temp E); case e of None \<Rightarrow> ok () | Some err \<Rightarrow> fail err }"

definition ingest_maximum :: "artifact_policy \<Rightarrow> int" where
  "ingest_maximum p = (if Pol_MaxBytes p \<le> 0 then 33554432 else Pol_MaxBytes p)"

definition ingest_identity :: "ingest_input \<Rightarrow> string \<Rightarrow> string" where
  "ingest_identity i digest =
     join_with [nul] [In_TenantID i, In_TaskID i, In_ArtifactID i, In_DedupKey i, int_digits (In_PartIndex i), digest]"

definition ingest_object ::
  "golib \<Rightarrow> artifact_policy \<Rightarrow> ingest_input \<Rightarrow> string \<Rightarrow> string \<Rightarrow> time \<Rightarrow> artifact_object" where
  "ingest_object L p i contents detected now =
     (let digest = G_sha256 L contents in
      zero_artifact_object
        \<lparr>Object_ID := G_sha256 L (ingest_identity i digest), Object_TenantID := In_TenantID i,
         Object_TaskID := In_TaskID i, Object_ArtifactID := In_ArtifactID i, Object_PartIndex := In_PartIndex i,
         Object_SHA256 := digest, Object_SizeBytes := int (length contents),
         Object_DeclaredMediaType := baseMediaType L (In_MediaType i), Object_DetectedMediaType := detected,
         Object_Filename := In_Filename i, Object_SourceURI := In_SourceURI i,
         Object_CreatedAt := now, Object_UpdatedAt := now,
         Object_ExpiresAt := now + (if Pol_Retention p \<le> 0 then 2592000000000000 else Pol_Retention p)\<rparr>)"

text \<open>The closure \<open>fail\<close> of \<open>Ingest\<close>: give the reservation back, report the cause.\<close>

definition ingest_fail :: "hub_env \<Rightarrow> string \<Rightarrow> string \<Rightarrow> string \<Rightarrow> error \<Rightarrow> artifact_object result hub" where
  "ingest_fail E tenantID rid code cause = do {
     now \<leftarrow> ask (e_clock E);
     r \<leftarrow> store_op E (\<lambda>io nid. FailArtifact (io 0) tenantID rid code now);
     fail (case r of Inl failErr \<Rightarrow> ErrJoin [cause, failErr] | Inr _ \<Rightarrow> cause)
   }"

text \<open>From a fresh or resumed reservation to the finalized object: scan, store, finalize.\<close>

definition ingest_store ::
  "hub_env \<Rightarrow> artifact_service \<Rightarrow> ingest_input \<Rightarrow> string \<Rightarrow> string \<Rightarrow> string \<Rightarrow> artifact_object result hub" where
  "ingest_store E A i rid contents detected = do {
     e1 \<leftarrow> ask (e_temp E);
     case e1 of Some err \<Rightarrow> ingest_fail E (In_TenantID i) rid ''TEMPFILE_SEEK_FAILED'' err | None \<Rightarrow> do {
     (scanStatus, scanErr) \<leftarrow> (if AS_Scanner A then ask (\<lambda>t. e_scan E t contents)
                               else State_Monad.return (ArtifactScanNotScanned, None));
     if scanErr \<noteq> None \<or> scanStatus = ArtifactScanError
     then ingest_fail E (In_TenantID i) rid ''SCAN_FAILED''
            (case scanErr of Some err \<Rightarrow> err | None \<Rightarrow> ErrText ''artifact scanner returned an error status'')
     else if Pol_RequireClean (AS_Policy A) \<and> scanStatus \<noteq> ArtifactScanClean
     then ingest_fail E (In_TenantID i) rid ''CLEAN_SCAN_REQUIRED'' (policy_error ''a clean malware scan is required'')
     else do {
     e2 \<leftarrow> ask (e_temp E);
     case e2 of Some err \<Rightarrow> ingest_fail E (In_TenantID i) rid ''TEMPFILE_SEEK_FAILED'' err | None \<Rightarrow> do {
     let storageKey = take 2 rid @ ''/'' @ rid;
     e3 \<leftarrow> ask (\<lambda>t. e_put E t (In_TenantID i) storageKey contents);
     case e3 of Some err \<Rightarrow> ingest_fail E (In_TenantID i) rid ''OBJECT_WRITE_FAILED'' err | None \<Rightarrow> do {
     let status = (if scanStatus = ArtifactScanInfected then ArtifactObjectQuarantined else ArtifactObjectAvailable);
     now \<leftarrow> ask (e_clock E);
     r \<leftarrow> store_op E (\<lambda>io nid. FinalizeArtifact (io 0) (In_TenantID i) rid storageKey detected scanStatus status now);
     case r of
       Inr finalized \<Rightarrow> ok finalized
     | Inl err \<Rightarrow> do {
         _ \<leftarrow> ask (\<lambda>t. e_delete E t (In_TenantID i) storageKey);
         ingest_fail E (In_TenantID i) rid ''METADATA_FINALIZE_FAILED'' err
       } } } } } }"

text \<open>\<open>Ingest\<close>. The source is what its reader delivers: bytes, then end of file or an error. Reading
  stops one byte past the maximum.\<close>

definition Ingest ::
  "hub_env \<Rightarrow> golib \<Rightarrow> artifact_service \<Rightarrow> ingest_input \<Rightarrow> string \<times> error option \<Rightarrow> artifact_object result hub" where
  "Ingest E L A i source =
     (if In_TenantID i = '''' \<or> In_TaskID i = '''' \<or> In_ArtifactID i = '''' \<or> In_PartIndex i < 0
      then fail (ErrText ''artifact tenant, Task, Artifact, and non-negative Part index are required'')
      else bindE (temp_step E) (\<lambda>_.
        let maximum = ingest_maximum (AS_Policy A);
            contents = take (nat maximum + 1) (fst source)
        in bindE (temp_step E) (\<lambda>_.
           if length (fst source) \<le> nat maximum \<and> snd source \<noteq> None then fail (the (snd source))
           else if int (length contents) > maximum
           then fail (policy_error ''object exceeds the configured size limit'')
           else bindE (temp_step E) (\<lambda>_.
             let detected = detectFileMediaType L contents (In_MediaType i) in
             case Policy_Validate L (AS_Policy A) (int (length contents)) (In_MediaType i) detected of
               Some err \<Rightarrow> fail err
             | None \<Rightarrow> do {
                 now \<leftarrow> ask (e_clock E);
                 let ob = ingest_object L (AS_Policy A) i contents detected now;
                 bindE (store_op E (\<lambda>io nid. ReserveArtifact (io 0) ob
                          \<lparr>Quota_MaxBytes = Pol_QuotaBytes (AS_Policy A), Quota_MaxObjects = Pol_QuotaObjects (AS_Policy A)\<rparr>))
                   (\<lambda>(reserved, created).
                      if \<not> created \<and> (Object_Status reserved = ArtifactObjectAvailable \<or>
                                      Object_Status reserved = ArtifactObjectQuarantined)
                      then ok reserved
                      else ingest_store E A i (Object_ID ob) contents detected)
               }))))"

definition IngestBase64 ::
  "hub_env \<Rightarrow> golib \<Rightarrow> artifact_service \<Rightarrow> ingest_input \<Rightarrow> string \<Rightarrow> artifact_object result hub" where
  "IngestBase64 E L A i encoded = Ingest E L A i (G_base64_stream L encoded)"

definition IngestURI ::
  "hub_env \<Rightarrow> golib \<Rightarrow> artifact_service \<Rightarrow> ingest_input \<Rightarrow> string \<Rightarrow> artifact_object result hub" where
  "IngestURI E L A i rawURI =
     (if \<not> AS_HTTPClient A then fail (ErrText ''artifact URI retrieval is not configured'')
      else
        case G_url_parse L rawURI of
          Inl _ \<Rightarrow> fail (policy_error ''artifact URI must be an HTTPS URL without user information'')
        | Inr u \<Rightarrow>
            if U_Scheme u \<noteq> ''https'' \<or> U_Host u = '''' \<or> U_HasUser u
            then fail (policy_error ''artifact URI must be an HTTPS URL without user information'')
            else bindE (ask (\<lambda>t. e_fetch E t (U_String u)))
              (\<lambda>(status, contentLength, contentType, body).
                 if status < 200 \<or> status \<ge> 300 then fail (ErrText ''retrieve artifact URI: remote status'')
                 else if contentLength > 0 \<and> Pol_MaxBytes (AS_Policy A) > 0 \<and> contentLength > Pol_MaxBytes (AS_Policy A)
                 then fail (policy_error ''remote object exceeds the configured size limit'')
                 else Ingest E L A
                   (i\<lparr>In_MediaType := (if In_MediaType i = '''' then contentType else In_MediaType i),
                      In_SourceURI := U_Clean u\<rparr>) body))"

section \<open>Reading\<close>

definition Artifacts_Get :: "hub_env \<Rightarrow> string \<Rightarrow> string \<Rightarrow> artifact_object result hub" where
  "Artifacts_Get E tenantID rid = store_get E (\<lambda>_. GetArtifact tenantID rid)"

text \<open>The reader that \<open>Open\<close> returns is its content (or its read error) and the error of closing it.\<close>

definition Artifacts_Open ::
  "hub_env \<Rightarrow> artifact_service \<Rightarrow> string \<Rightarrow> string \<Rightarrow> ((string result \<times> error option) \<times> artifact_object) result hub" where
  "Artifacts_Open E A tenantID rid =
     bindE (Artifacts_Get E tenantID rid) (\<lambda>ob.
       if Object_Status ob \<noteq> ArtifactObjectAvailable \<or>
          (Pol_RequireClean (AS_Policy A) \<and> Object_ScanStatus ob \<noteq> ArtifactScanClean)
       then fail ErrUnavailable
       else bindE (ask (\<lambda>t. e_open E t tenantID (Object_StorageKey ob))) (\<lambda>(sz, body, closeErr).
         if sz \<noteq> Object_SizeBytes ob
         then fail (ErrText ''artifact object size does not match metadata'')
         else ok ((body, closeErr), ob)))"

section \<open>Deleting what has expired\<close>

record lifecycle =
  Life_WorkerID :: string
  Life_BatchSize :: int
  Life_LeaseDuration :: duration

definition minute :: duration where
  "minute = 60000000000"

primrec lifecycle_loop :: "hub_env \<Rightarrow> time \<Rightarrow> artifact_deletion_lease list \<Rightarrow> error list hub" where
  "lifecycle_loop E now [] = State_Monad.return []"
| "lifecycle_loop E now (lease # ls) = do {
     d \<leftarrow> ask (\<lambda>t. e_delete E t (Object_TenantID (DeletionLease_Object lease))
                               (Object_StorageKey (DeletionLease_Object lease)));
     failures \<leftarrow>
       (case d of
          Some err \<Rightarrow> do {
            r \<leftarrow> store_op E (\<lambda>io nid. RetryArtifactDeletion (io 0) lease
                                   (now + int (min (unat (DeletionLease_Attempt lease)) 10) * minute));
            State_Monad.return [case r of Some retryErr \<Rightarrow> ErrJoin [err, retryErr] | None \<Rightarrow> err]
          }
        | None \<Rightarrow> do {
            t \<leftarrow> ask (e_clock E);
            r \<leftarrow> store_op E (\<lambda>io nid. CompleteArtifactDeletion (io 0) lease t);
            State_Monad.return (case r of Some err \<Rightarrow> [err] | None \<Rightarrow> [])
          });
     rest \<leftarrow> lifecycle_loop E now ls;
     State_Monad.return (failures @ rest)
   }"

definition errors_join :: "error list \<Rightarrow> error option" where
  "errors_join es = (if es = [] then None else Some (ErrJoin es))"

text \<open>\<open>gate\<close> is the answer of the worker gate; \<open>ks\<close> the order in which the claim ranges over the
  objects.\<close>

definition Lifecycle_RunOnce ::
  "hub_env \<Rightarrow> (journal_store \<Rightarrow> string list) \<Rightarrow> lifecycle \<Rightarrow> bool \<Rightarrow> error option hub" where
  "Lifecycle_RunOnce E ks W gate =
     (if \<not> gate then State_Monad.return (Some ErrWorkerPaused)
      else do {
        now \<leftarrow> ask (e_clock E);
        r \<leftarrow> store_op E (\<lambda>io nid s. ClaimExpiredArtifacts io (ks s) (Life_WorkerID W)
               (if Life_BatchSize W \<le> 0 then 32 else Life_BatchSize W) now
               (if Life_LeaseDuration W \<le> 0 then minute else Life_LeaseDuration W) s);
        case r of
          Inl err \<Rightarrow> State_Monad.return (Some err)
        | Inr ls \<Rightarrow> do {
            failures \<leftarrow> lifecycle_loop E now ls;
            State_Monad.return (errors_join failures)
          }
      })"

section \<open>The service takes legal steps only\<close>

lemma safe_artifact_ops:
  assumes "env_ok E"
  shows "nul_free (Object_TenantID ob) \<Longrightarrow> safe E (store_op E (\<lambda>io nid. ReserveArtifact (io 0) ob q))"
    and "safe E (store_op E (\<lambda>io nid. FinalizeArtifact (io 0) tn i sk dm sc st now))"
    and "nul_free tn \<Longrightarrow> safe E (store_op E (\<lambda>io nid. FailArtifact (io 0) tn i code now))"
  using assms
  by (auto intro!: safe_store_op_plain store_step.intros simp: outbox_inbox_plain)

lemma safe_temp_step [hub_safe]: "safe E (temp_step E)"
  by (auto simp: temp_step_def intro!: hub_safe)

lemma safe_ingest_fail [hub_safe]: "env_ok E \<Longrightarrow> nul_free tn \<Longrightarrow> safe E (ingest_fail E tn i code cause)"
  by (auto simp: ingest_fail_def intro!: hub_safe safe_artifact_ops)

lemma safe_ingest_store [hub_safe]:
  "env_ok E \<Longrightarrow> nul_free (In_TenantID i) \<Longrightarrow> safe E (ingest_store E A i rid contents detected)"
  unfolding ingest_store_def Let_def by (intro hub_safe safe_artifact_ops; assumption?)

lemma safe_Ingest [hub_safe]:
  assumes "env_ok E" "nul_free (In_TenantID i)"
  shows "safe E (Ingest E L A i src)"
  using assms unfolding Ingest_def Let_def
  by (intro hub_safe safe_artifact_ops; (assumption | simp add: ingest_object_def Let_def)?)

lemma safe_IngestBase64 [hub_safe]:
  "env_ok E \<Longrightarrow> nul_free (In_TenantID i) \<Longrightarrow> safe E (IngestBase64 E L A i enc)"
  by (simp add: IngestBase64_def safe_Ingest)

lemma safe_IngestURI [hub_safe]:
  assumes "env_ok E" "nul_free (In_TenantID i)"
  shows "safe E (IngestURI E L A i uri)"
  using assms unfolding IngestURI_def
  by (intro hub_safe; (assumption | simp)?)

lemma safe_Artifacts_Open [hub_safe]: "env_ok E \<Longrightarrow> safe E (Artifacts_Open E A tn i)"
  unfolding Artifacts_Open_def Artifacts_Get_def by (intro hub_safe; assumption?)

lemma safe_Artifacts_Get [hub_safe]: "env_ok E \<Longrightarrow> safe E (Artifacts_Get E tn i)"
  unfolding Artifacts_Get_def by (intro hub_safe; assumption?)

lemma outbox_inbox_artifact_deletion:
  "outbox (snd (RetryArtifactDeletion io l now s)) = outbox s \<and> inbox (snd (RetryArtifactDeletion io l now s)) = inbox s"
  "outbox (snd (CompleteArtifactDeletion io l now s)) = outbox s \<and> inbox (snd (CompleteArtifactDeletion io l now s)) = inbox s"
  by (auto simp: RetryArtifactDeletion_def CompleteArtifactDeletion_def Let_def commit_plain split: option.split)

lemma outbox_inbox_claim_artifacts:
  "outbox (snd (ClaimExpiredArtifacts io ks w n now d s)) = outbox s \<and>
   inbox (snd (ClaimExpiredArtifacts io ks w n now d s)) = inbox s"
proof -
  have one: "outbox s' = outbox s \<and> inbox s' = inbox s" if "claim_one_artifact w now d io k s = (r, s')" for io k s r s'
    using that
    by (auto simp: claim_one_artifact_def Let_def split: prod.splits option.splits dest!: commit_error commit_success)
  have "outbox (snd (claim_loop (claim_one_artifact w now d) io ks' s)) = outbox s \<and>
      inbox (snd (claim_loop (claim_one_artifact w now d) io ks' s)) = inbox s" for ks'
    by (induction ks' arbitrary: io s) (auto split: prod.split sum.split dest!: one, (metis snd_conv)+)
  then show ?thesis by (simp add: ClaimExpiredArtifacts_def)
qed

lemma safe_lifecycle_loop [hub_safe]: "env_ok E \<Longrightarrow> safe E (lifecycle_loop E now ls)"
proof (induction ls)
  case (Cons l ls)
  have "safe E (store_op E (\<lambda>io nid. RetryArtifactDeletion (io 0) l at))"
    "safe E (store_op E (\<lambda>io nid. CompleteArtifactDeletion (io 0) l at))" for at
    using Cons.prems by (auto intro!: safe_store_op_plain store_step.intros simp: outbox_inbox_artifact_deletion)
  with Cons show ?case
    by (simp only: lifecycle_loop.simps) (intro hub_safe; simp)
qed (simp add: safe_return)

text \<open>The range of the claim enumerates the objects whenever there are finitely many of them, which the
  store's invariant guarantees.\<close>

lemma safe_Lifecycle_RunOnce [hub_safe]:
  assumes "env_ok E" and ks: "\<And>s. finite (dom (artifactObjects s)) \<Longrightarrow> enumerates (ks s) (artifactObjects s)"
  shows "safe E (Lifecycle_RunOnce E ks W gate)"
proof -
  have "safe E (store_op E (\<lambda>io nid s. ClaimExpiredArtifacts io (ks s) w n now d s))" for w n now d
  proof (rule safe_store_op_plain [OF assms(1)])
    fix io nid s assume "store_inv s"
    then have "finite (dom (artifactObjects s))" by (simp add: store_inv_def usage_inv_def)
    then show "store_step (\<lambda>_. True) hub_change 0 s (snd (ClaimExpiredArtifacts io (ks s) w n now d s))"
      by (auto intro: do_ClaimExpiredArtifacts ks)
  qed (simp add: outbox_inbox_claim_artifacts)
  then show ?thesis
    using assms(1) unfolding Lifecycle_RunOnce_def by (intro hub_safe; assumption?)
qed

end
