(* ===== verification/Federation_Policy.thy ===== *)
theory Federation_Policy
  imports Artifact_Service
begin

text \<open>
  The rules of the federation boundary, all of them pure functions: protocol versions and binding
  profiles (\<open>internal/federation/a2a/profile.go\<close>), URL policy (\<open>internal/hub/security.go\<close>), message
  parts (\<open>internal/hub/parts.go\<close>), and what a discovered agent card must satisfy
  (\<open>ValidateAgentRegistration\<close> and its helpers in \<open>internal/hub/service.go\<close>).

  The protocol version and the three binding names are constants of the A2A SDK, a parameter here.
\<close>

record a2a_sdk =
  SDK_Version :: string
  SDK_JSONRPC :: string
  SDK_HTTPJSON :: string
  SDK_GRPC :: string

section \<open>Protocol versions\<close>

definition is_digit :: "char \<Rightarrow> bool" where
  "is_digit c \<longleftrightarrow> 48 \<le> (of_char c :: nat) \<and> (of_char c :: nat) \<le> 57"

definition digits_value :: "string \<Rightarrow> int" where
  "digits_value s = foldl (\<lambda>n c. n * 10 + (int (of_char c) - 48)) 0 s"

text \<open>\<open>strconv.Atoi\<close>: an optional sign, then digits, within 64 bits.\<close>

definition Atoi :: "string \<Rightarrow> int option" where
  "Atoi s =
     (let neg = (s \<noteq> [] \<and> hd s = CHR ''-'');
          ds = (if s \<noteq> [] \<and> (hd s = CHR ''-'' \<or> hd s = CHR ''+'') then tl s else s)
      in if ds = [] \<or> \<not> list_all is_digit ds then None
         else let n = (if neg then - digits_value ds else digits_value ds)
              in if int64 n then Some n else None)"

definition version_part :: "string \<Rightarrow> int option" where
  "version_part part =
     (if part = '''' \<or> (length part > 1 \<and> (hd part = CHR ''+'' \<or> hd part = CHR ''0'')) then None
      else case Atoi part of None \<Rightarrow> None | Some n \<Rightarrow> if n < 0 then None else Some n)"

fun parse_parts :: "string list \<Rightarrow> int list option" where
  "parse_parts [] = Some []"
| "parse_parts (p # ps) =
     (case version_part p of
        None \<Rightarrow> None
      | Some n \<Rightarrow> (case parse_parts ps of None \<Rightarrow> None | Some ns \<Rightarrow> Some (n # ns)))"

definition parseProtocolVersion :: "string \<Rightarrow> (int \<times> int) option" where
  "parseProtocolVersion v =
     (let parts = split_at (CHR ''.'') (TrimSpace v) in
      if length parts \<noteq> 2 \<and> length parts \<noteq> 3 then None
      else case parse_parts parts of None \<Rightarrow> None | Some ns \<Rightarrow> Some (ns ! 0, ns ! 1))"

definition ProtocolVersionsCompatible :: "string \<Rightarrow> string \<Rightarrow> bool" where
  "ProtocolVersionsCompatible advertised required =
     (case parseProtocolVersion advertised of
        None \<Rightarrow> False
      | Some a \<Rightarrow> (case parseProtocolVersion required of None \<Rightarrow> False | Some r \<Rightarrow> a = r))"

definition ValidateProtocolVersion :: "string \<Rightarrow> error option" where
  "ValidateProtocolVersion v =
     (if parseProtocolVersion v = None then Some (ErrText (''invalid A2A protocol version '' @ v)) else None)"

definition CanonicalProtocolVersion :: "string \<Rightarrow> string result" where
  "CanonicalProtocolVersion v =
     (case parseProtocolVersion v of
        None \<Rightarrow> Inl (ErrText (''invalid A2A protocol version '' @ v))
      | Some (major, minor) \<Rightarrow> Inr (int_digits major @ ''.'' @ int_digits minor))"

section \<open>Binding profiles\<close>

definition drop_chars :: "string \<Rightarrow> string \<Rightarrow> string" where
  "drop_chars cs s = filter (\<lambda>c. c \<notin> set cs) s"

definition normalizeBinding :: "a2a_sdk \<Rightarrow> string \<Rightarrow> string" where
  "normalizeBinding K value =
     (let compact = ToUpper (drop_chars ''_-+'' (TrimSpace value)) in
      if compact = ''JSONRPC'' then SDK_JSONRPC K
      else if compact = ''HTTPJSON'' then SDK_HTTPJSON K
      else value)"

definition BindingProfile_Validate :: "a2a_sdk \<Rightarrow> binding_profile \<Rightarrow> error option" where
  "BindingProfile_Validate K p =
     (case ValidateProtocolVersion (Prof_ProtocolVersion p) of
        Some e \<Rightarrow> Some e
      | None \<Rightarrow>
          if Prof_Binding p \<noteq> SDK_JSONRPC K \<and> Prof_Binding p \<noteq> SDK_HTTPJSON K \<and> Prof_Binding p \<noteq> SDK_GRPC K
          then Some (ErrText (''unsupported A2A binding '' @ Prof_Binding p))
          else
            let stream = ToUpper (TrimSpace (Prof_StreamTransport p)) in
            if Prof_Binding p = SDK_GRPC K
            then if stream \<noteq> ''SERVER_STREAMING'' \<and> stream \<noteq> ''GRPC''
                 then Some (ErrText ''gRPC stream transport must be SERVER_STREAMING'') else None
            else if stream \<noteq> ''SSE'' then Some (ErrText (''unsupported stream transport '' @ Prof_StreamTransport p))
            else None)"

definition replace_char :: "char \<Rightarrow> string \<Rightarrow> string \<Rightarrow> string" where
  "replace_char c r s = concat (map (\<lambda>x. if x = c then r else [x]) s)"

definition ProfileName :: "a2a_sdk \<Rightarrow> binding_profile \<Rightarrow> string" where
  "ProfileName K p =
     (case CanonicalProtocolVersion (Prof_ProtocolVersion p) of
        Inl _ \<Rightarrow> ''''
      | Inr version \<Rightarrow>
          let parts = split_at (CHR ''.'') version;
              versionName = (if length parts = 2 then parts ! 0 else version);
              binding = ToLower (replace_char (CHR ''+'') ''-'' (normalizeBinding K (Prof_Binding p)));
              stream = ToLower (TrimSpace (Prof_StreamTransport p));
              base = ''a2a-v'' @ versionName @ ''-'' @ binding
          in if stream = ''server_streaming'' \<or> stream = ''grpc'' then base else base @ ''-sse'')"

definition profile_of_name :: "a2a_sdk \<Rightarrow> string \<Rightarrow> binding_profile option" where
  "profile_of_name K normalized =
     (let jsonrpc = \<lparr>Prof_ProtocolVersion = SDK_Version K, Prof_Binding = SDK_JSONRPC K, Prof_StreamTransport = ''SSE''\<rparr>;
          httpjson = jsonrpc\<lparr>Prof_Binding := SDK_HTTPJSON K\<rparr>;
          grpc = jsonrpc\<lparr>Prof_Binding := SDK_GRPC K, Prof_StreamTransport := ''SERVER_STREAMING''\<rparr>
      in if normalized \<in> {''JSONRPC'', ''JSON_RPC'', ''A2A_V1_JSONRPC_SSE'', ''V1_JSONRPC_SSE''} then Some jsonrpc
         else if normalized \<in> {''HTTP_JSON'', ''HTTPJSON'', ''A2A_V1_HTTP_JSON_SSE'', ''A2A_V1_HTTPJSON_SSE'',
                               ''V1_HTTP_JSON_SSE'', ''V1_HTTPJSON_SSE''} then Some httpjson
         else if normalized \<in> {''GRPC'', ''A2A_V1_GRPC'', ''V1_GRPC''} then Some grpc
         else None)"

fun parse_profiles ::
  "a2a_sdk \<Rightarrow> string list \<Rightarrow> string list \<Rightarrow> binding_profile list \<Rightarrow> binding_profile list result" where
  "parse_profiles K [] seen profiles =
     (if profiles = [] then Inl (ErrText ''at least one A2A binding profile is required'') else Inr profiles)"
| "parse_profiles K (raw # raws) seen profiles =
     (let name = ToUpper (TrimSpace raw) in
      if name = '''' then parse_profiles K raws seen profiles
      else
        case profile_of_name K (map (\<lambda>c. if c \<in> set ''-+/'' then CHR ''_'' else c) name) of
          None \<Rightarrow> Inl (ErrText (''unsupported A2A binding profile '' @ raw))
        | Some p \<Rightarrow>
            (case BindingProfile_Validate K p of
               Some e \<Rightarrow> Inl e
             | None \<Rightarrow>
                 if ProfileName K p \<in> set seen then Inl (ErrText (''duplicate A2A binding profile '' @ raw))
                 else parse_profiles K raws (ProfileName K p # seen) (profiles @ [p])))"

definition ParseBindingProfiles :: "a2a_sdk \<Rightarrow> string \<Rightarrow> binding_profile list result" where
  "ParseBindingProfiles K value = parse_profiles K (split_at (CHR '','') value) [] []"

text \<open>An interface of an agent card: its binding and its protocol version. The first profile with a
  matching interface wins; an invalid profile reached before that is an error.\<close>

fun selectEndpointForProfiles ::
  "a2a_sdk \<Rightarrow> (string \<times> string) list \<Rightarrow> binding_profile list \<Rightarrow> ((string \<times> string) \<times> binding_profile) result" where
  "selectEndpointForProfiles K interfaces [] =
     Inl (ErrText ''Agent Card has no supported configured A2A binding profile'')"
| "selectEndpointForProfiles K interfaces (p # ps) =
     (case BindingProfile_Validate K p of
        Some e \<Rightarrow> Inl e
      | None \<Rightarrow>
          (case find (\<lambda>(binding, version). ProtocolVersionsCompatible version (Prof_ProtocolVersion p) \<and>
                        normalizeBinding K binding = normalizeBinding K (Prof_Binding p)) interfaces of
             Some i \<Rightarrow> Inr (i, p)
           | None \<Rightarrow> selectEndpointForProfiles K interfaces ps))"

section \<open>URLs\<close>

definition isPublicIP :: "ip \<Rightarrow> bool" where
  "isPublicIP a \<longleftrightarrow>
     \<not> (IP_Loopback a \<or> IP_Private a \<or> IP_LinkLocalUnicast a \<or> IP_LinkLocalMulticast a \<or> IP_Unspecified a \<or> IP_Multicast a)"

definition trim_suffix :: "string \<Rightarrow> string \<Rightarrow> string" where
  "trim_suffix s suf = (if has_suffix s suf then take (length s - length suf) s else s)"

definition validateHTTPURL :: "golib \<Rightarrow> string \<Rightarrow> bool \<Rightarrow> error option" where
  "validateHTTPURL L raw publicOnly =
     (case G_url_parse L raw of
        Inl e \<Rightarrow> Some e
      | Inr u \<Rightarrow>
          let hostname = ToLower (trim_suffix (U_Hostname u) ''.'') in
          if U_HasUser u \<or> U_Hostname u = '''' then Some (ErrText ''URL must have a host and no user information'')
          else if publicOnly \<and> (hostname = ''localhost'' \<or> has_suffix hostname ''.localhost'' \<or>
                                has_suffix hostname ''.local'' \<or> has_suffix hostname ''.internal'')
          then Some (ErrText (''public URL host '' @ hostname @ '' is reserved for private use''))
          else if publicOnly \<and> U_Scheme u \<noteq> ''https'' then Some (ErrText ''public URL must use HTTPS'')
          else if \<not> publicOnly \<and> U_Scheme u \<noteq> ''http'' \<and> U_Scheme u \<noteq> ''https''
          then Some (ErrText ''URL must use HTTP or HTTPS'')
          else
            case G_parse_ip L (U_Hostname u) of
              Some a \<Rightarrow> if publicOnly \<and> \<not> isPublicIP a then Some (ErrText ''URL IP is not public'') else None
            | None \<Rightarrow> None)"

definition validateAgentEndpoint :: "golib \<Rightarrow> string \<Rightarrow> string \<Rightarrow> bool \<Rightarrow> error option" where
  "validateAgentEndpoint L binding raw publicOnly =
     (if ToUpper (drop_chars ''_'' binding) = ''GRPC'' then
        let value = TrimSpace raw in
        if value = '''' \<or> CHR ''@'' \<in> set value
        then Some (ErrText ''gRPC endpoint must be non-empty and cannot contain user information'')
        else
          case G_url_parse L value of
            Inl e \<Rightarrow> Some e
          | Inr u \<Rightarrow>
              if U_Scheme u = ''http'' \<or> U_Scheme u = ''https'' then validateHTTPURL L value publicOnly
              else if publicOnly then Some (ErrText ''public gRPC endpoint must use an HTTPS authority'')
              else if has_prefix value ''passthrough:///'' \<or> has_prefix value ''dns:///'' then None
              else if G_split_host_port L value then None
              else Some (ErrText ''gRPC endpoint must be an HTTPS URL or host:port target'')
      else validateHTTPURL L raw publicOnly)"

section \<open>Message parts\<close>

definition text_part :: "string \<Rightarrow> part" where
  "text_part t =
     \<lparr>Part_Kind = PartText, Part_MediaType = '''', Part_Filename = '''', Part_Text = t, Part_BytesBase64 = '''',
      Part_URI = '''', Part_Data = None, Part_ObjectID = '''', Part_SizeBytes = 0, Part_SHA256 = ''''\<rparr>"

definition validate_text_part :: "part \<Rightarrow> error option" where
  "validate_text_part p =
     (if TrimSpace (Part_Text p) = '''' then Some (ErrText ''text part must not be blank'')
      else if Part_BytesBase64 p \<noteq> '''' \<or> Part_URI p \<noteq> '''' \<or> Part_ObjectID p \<noteq> '''' \<or> Part_Data p \<noteq> None
      then Some (ErrText ''text part must contain only text'')
      else None)"

definition validate_data_part :: "part \<Rightarrow> error option" where
  "validate_data_part p =
     (if Part_Data p = None then Some (ErrText ''data part requires a JSON value'')
      else if Part_Text p \<noteq> '''' \<or> Part_BytesBase64 p \<noteq> '''' \<or> Part_URI p \<noteq> '''' \<or> Part_ObjectID p \<noteq> ''''
      then Some (ErrText ''data part must contain only data'')
      else None)"

definition part_uri_ok :: "golib \<Rightarrow> string \<Rightarrow> bool" where
  "part_uri_ok L uri =
     (case G_url_parse L uri of
        Inl _ \<Rightarrow> False
      | Inr u \<Rightarrow> U_Scheme u = ''https'' \<and> U_Host u \<noteq> '''' \<and> \<not> U_HasUser u \<and> U_Fragment u = '''')"

definition validate_file_part :: "golib \<Rightarrow> part \<Rightarrow> error option" where
  "validate_file_part L p =
     (let b = Part_BytesBase64 p \<noteq> ''''; u = Part_URI p \<noteq> ''''; i = Part_ObjectID p \<noteq> '''' in
      if b \<and> isl (G_base64_decode L (Part_BytesBase64 p))
      then Some (ErrText ''file bytesBase64 is not valid standard base64'')
      else if u \<and> \<not> part_uri_ok L (Part_URI p)
      then Some (ErrText ''file URI must be an HTTPS URL without user information or fragment'')
      else if i \<and> (TrimSpace (Part_ObjectID p) \<noteq> Part_ObjectID p \<or> CHR 0x0D \<in> set (Part_ObjectID p) \<or>
                    CHR 0x0A \<in> set (Part_ObjectID p))
      then Some (ErrText ''file objectId is invalid'')
      else if length (filter (\<lambda>x. x) [b, u, i]) \<noteq> 1
      then Some (ErrText ''file part requires exactly one of bytesBase64, uri, or objectId'')
      else if Part_Text p \<noteq> '''' \<or> Part_Data p \<noteq> None
      then Some (ErrText ''file part must not include text or data'')
      else None)"

definition validateMessagePart :: "golib \<Rightarrow> part \<Rightarrow> error option" where
  "validateMessagePart L p =
     (if length (Part_Filename p) > 512 \<or> length (Part_MediaType p) > 256 \<or> length (Part_ObjectID p) > 512 \<or>
         length (Part_URI p) > 4096
      then Some (ErrText ''message part field exceeds its maximum size'')
      else if Part_MediaType p \<noteq> '''' \<and> (case G_mime_parse L (Part_MediaType p) of Inl _ \<Rightarrow> True | Inr _ \<Rightarrow> False)
      then Some (ErrText (''invalid media type '' @ Part_MediaType p))
      else
        case Part_Kind p of
          PartText \<Rightarrow> validate_text_part p
        | PartData \<Rightarrow> validate_data_part p
        | PartFile \<Rightarrow> validate_file_part L p
        | PartOther k \<Rightarrow> Some (ErrText (''unsupported part kind '' @ k)))"

fun validate_parts :: "golib \<Rightarrow> nat \<Rightarrow> part list \<Rightarrow> error option" where
  "validate_parts L index [] = None"
| "validate_parts L index (p # ps) =
     (case validateMessagePart L p of
        Some e \<Rightarrow> Some (ErrWrap (''message part '' @ nat_digits index) e)
      | None \<Rightarrow> validate_parts L (Suc index) ps)"

definition NormalizeMessageParts :: "golib \<Rightarrow> string \<Rightarrow> part list \<Rightarrow> part list result" where
  "NormalizeMessageParts L t values =
     (case validate_parts L 0 values of
        Some e \<Rightarrow> Inl e
      | None \<Rightarrow>
          let parts = (if TrimSpace t \<noteq> '''' then [text_part t] else []) @ values in
          if parts = [] then Inl (ErrText ''task text or at least one message part is required'') else Inr parts)"

definition firstTextPart :: "part list \<Rightarrow> string" where
  "firstTextPart parts = (case find (\<lambda>p. Part_Kind p = PartText) parts of Some p \<Rightarrow> Part_Text p | None \<Rightarrow> '''')"

text \<open>\<open>MaterializeMessageParts\<close>: references to the hub's own artifact objects are replaced by the bytes.\<close>

definition materialize_part ::
  "hub_env \<Rightarrow> golib \<Rightarrow> artifact_service option \<Rightarrow> string \<Rightarrow> part \<Rightarrow> part result hub" where
  "materialize_part E L artifacts tenantID p =
     (if Part_Kind p \<noteq> PartFile \<or> Part_ObjectID p = '''' then ok p
      else
        case artifacts of
          None \<Rightarrow> fail (ErrText ''artifact object storage is required for file object references'')
        | Some A \<Rightarrow> do {
            r \<leftarrow> Artifacts_Open E A tenantID (Part_ObjectID p);
            case r of
              Inl e \<Rightarrow> fail (ErrWrap ''open file object reference'' e)
            | Inr ((body, closeErr), ob) \<Rightarrow>
                let maximum = (if Pol_MaxBytes (AS_Policy A) > 0 then Pol_MaxBytes (AS_Policy A) else 33554432) in
                if Object_SizeBytes ob > maximum then fail (ErrText ''file object reference exceeds outbound limit'')
                else
                  case body of
                    Inl e \<Rightarrow> fail (ErrWrap ''read file object reference'' e)
                  | Inr whole \<Rightarrow>
                      let contents = take (nat (maximum + 1)) whole in
                      case closeErr of
                        Some e \<Rightarrow> fail (ErrWrap ''close file object reference'' e)
                      | None \<Rightarrow>
                          if int (length contents) \<noteq> Object_SizeBytes ob \<or> int (length contents) > maximum
                          then fail (ErrText ''file object reference changed while being read'')
                          else ok (p\<lparr>Part_ObjectID := '''', Part_BytesBase64 := G_base64_encode L contents,
                                      Part_SizeBytes := Object_SizeBytes ob, Part_SHA256 := Object_SHA256 ob,
                                      Part_MediaType := (if Part_MediaType p = '''' then Object_DetectedMediaType ob
                                                         else Part_MediaType p),
                                      Part_Filename := (if Part_Filename p = '''' then Object_Filename ob
                                                        else Part_Filename p)\<rparr>)
          })"

fun MaterializeMessageParts ::
  "hub_env \<Rightarrow> golib \<Rightarrow> artifact_service option \<Rightarrow> string \<Rightarrow> part list \<Rightarrow> part list result hub" where
  "MaterializeMessageParts E L artifacts tenantID [] = ok []"
| "MaterializeMessageParts E L artifacts tenantID (p # ps) =
     bindE (materialize_part E L artifacts tenantID p) (\<lambda>q.
       bindE (MaterializeMessageParts E L artifacts tenantID ps) (\<lambda>qs. ok (q # qs)))"

section \<open>Registration policy\<close>

record registration_policy =
  RP_Profiles :: "binding_profile list"
  RP_ProtocolVersion :: string
  RP_ProtocolBinding :: string
  RP_StreamTransport :: string
  RP_Streaming :: bool
  RP_PushNotifications :: bool
  RP_RequiredSkills :: "string list"
  RP_AllowedSkills :: "string list"
  RP_RequiredExtensions :: "string list"
  RP_AllowedExtensions :: "string list"

definition no_registration_policy :: registration_policy where
  "no_registration_policy =
     \<lparr>RP_Profiles = [], RP_ProtocolVersion = '''', RP_ProtocolBinding = '''', RP_StreamTransport = '''',
      RP_Streaming = False, RP_PushNotifications = False, RP_RequiredSkills = [], RP_AllowedSkills = [],
      RP_RequiredExtensions = [], RP_AllowedExtensions = []\<rparr>"

text \<open>\<open>RegisterAgentInput\<close>; the credentials are the pairs of the map in the order of its range.\<close>

record register_input =
  Reg_ID :: string
  Reg_CardURL :: string
  Reg_CredentialEnv :: "(string \<times> string) list"
  Reg_Source :: string
  Reg_Endpoint :: string

definition hasSkill :: "agent \<Rightarrow> string \<Rightarrow> bool" where
  "hasSkill a skill \<longleftrightarrow> skill \<in> set (Agent_Skills a)"

definition missingSkills :: "string list \<Rightarrow> string list \<Rightarrow> string list" where
  "missingSkills required declared = filter (\<lambda>s. s \<notin> set declared) required"

definition disallowedSkills :: "string list \<Rightarrow> string list \<Rightarrow> string list" where
  "disallowedSkills allowed declared = (if allowed = [] then [] else filter (\<lambda>s. s \<notin> set allowed) declared)"

definition extensionURIs :: "extension list \<Rightarrow> string list" where
  "extensionURIs declared = sort (filter (\<lambda>u. u \<noteq> '''') (map (\<lambda>x. TrimSpace (Ext_URI x)) declared))"

fun request_extensions :: "golib \<Rightarrow> string list \<Rightarrow> string list \<Rightarrow> string list result" where
  "request_extensions L [] acc = Inr (sort acc)"
| "request_extensions L (raw # raws) acc =
     (let value = TrimSpace raw in
      if value = '''' then Inl (ErrText ''A2A extension URI must not be empty'')
      else
        case G_url_parse L value of
          Inl _ \<Rightarrow> Inl (ErrText (''invalid A2A extension URI '' @ raw))
        | Inr u \<Rightarrow>
            if U_Scheme u = '''' \<or> U_Host u = '''' \<or> U_HasUser u \<or> U_Fragment u \<noteq> ''''
            then Inl (ErrText (''invalid A2A extension URI '' @ raw))
            else if value \<in> set acc then request_extensions L raws acc
            else request_extensions L raws (acc @ [value]))"

definition normalizeRequestExtensions :: "golib \<Rightarrow> string list \<Rightarrow> string list result" where
  "normalizeRequestExtensions L values = request_extensions L values []"

text \<open>A JSON object of extension metadata is the list of its members; its copy through JSON is itself.\<close>

definition validateExtensionMetadata :: "golib \<Rightarrow> (string \<times> json) list \<Rightarrow> (string \<times> json) list result" where
  "validateExtensionMetadata L value =
     (if value = [] then Inr []
      else if length value > 64 then Inl (ErrText ''extension metadata has too many keys'')
      else if length (G_json_metadata L value) > 65536 then Inl (ErrText ''extension metadata exceeds 64 KiB'')
      else Inr value)"

definition normalizeBindingName :: "string \<Rightarrow> string" where
  "normalizeBindingName v = ToUpper (drop_chars ''_-+'' (TrimSpace v))"

definition descriptorMatchesAnyProfile :: "a2a_sdk \<Rightarrow> descriptor \<Rightarrow> binding_profile list \<Rightarrow> bool" where
  "descriptorMatchesAnyProfile K d profiles \<longleftrightarrow>
     (\<exists>p\<in>set profiles. BindingProfile_Validate K p = None \<and>
        ProtocolVersionsCompatible (Desc_ProtocolVersion d) (Prof_ProtocolVersion p) \<and>
        normalizeBindingName (Desc_ProtocolBinding d) = normalizeBindingName (Prof_Binding p))"

text \<open>The part of \<open>ValidateAgentRegistration\<close> after discovery, up to the endpoint.\<close>

definition check_card :: "a2a_sdk \<Rightarrow> registration_policy \<Rightarrow> descriptor \<Rightarrow> error option" where
  "check_card K P d =
     (let stream = ToUpper (TrimSpace (RP_StreamTransport P));
          binding = ToUpper (drop_chars ''_'' (Desc_ProtocolBinding d));
          declaredExtensions = extensionURIs (Desc_Extensions d)
      in
      if RP_Profiles P \<noteq> [] \<and> \<not> descriptorMatchesAnyProfile K d (RP_Profiles P)
      then Some (ErrText ''remote Agent does not advertise any configured A2A profile'')
      else if RP_ProtocolVersion P \<noteq> '''' \<and> \<not> ProtocolVersionsCompatible (Desc_ProtocolVersion d) (RP_ProtocolVersion P)
      then Some (ErrText ''remote Agent protocol version does not match required'')
      else if RP_ProtocolBinding P \<noteq> '''' \<and> Desc_ProtocolBinding d \<noteq> RP_ProtocolBinding P
      then Some (ErrText ''remote Agent protocol binding does not match required'')
      else if RP_StreamTransport P \<noteq> '''' \<and>
              ((binding = ''GRPC'' \<and> stream \<noteq> ''SERVER_STREAMING'' \<and> stream \<noteq> ''GRPC'') \<or>
               (binding \<noteq> ''GRPC'' \<and> stream \<noteq> ''SSE''))
      then Some (ErrText ''unsupported required stream transport'')
      else if RP_Streaming P \<and> \<not> Desc_Streaming d
      then Some (ErrText ''remote Agent does not declare streaming support'')
      else if RP_PushNotifications P \<and> \<not> Desc_PushNotifications d
      then Some (ErrText ''remote Agent does not declare Push support'')
      else if missingSkills (RP_RequiredSkills P) (Desc_Skills d) \<noteq> []
      then Some (ErrText ''remote Agent does not declare required skills'')
      else if disallowedSkills (RP_AllowedSkills P) (Desc_Skills d) \<noteq> []
      then Some (ErrText ''remote Agent declares skills outside the allowed policy'')
      else if missingSkills (RP_RequiredExtensions P) declaredExtensions \<noteq> []
      then Some (ErrText ''remote Agent does not declare required extensions'')
      else if disallowedSkills (RP_AllowedExtensions P) declaredExtensions \<noteq> []
      then Some (ErrText ''remote Agent declares extensions outside the allowed policy'')
      else None)"

text \<open>The credential references: declared by the card, and known to the secret provider (\<open>secrets\<close>,
  its \<open>ValidateReference\<close>).\<close>

fun check_credentials ::
  "(string \<Rightarrow> error option) option \<Rightarrow> string list \<Rightarrow> (string \<times> string) list \<Rightarrow> error option" where
  "check_credentials secrets declared [] = None"
| "check_credentials secrets declared ((scheme, envName) # cs) =
     (if scheme \<notin> set declared then Some (ErrText (''credential scheme '' @ scheme @ '' is not declared by the Agent Card''))
      else
        case secrets of
          None \<Rightarrow> Some (ErrText ''secret provider is required when credentials are configured'')
        | Some validate \<Rightarrow>
            (case validate envName of
               Some e \<Rightarrow> Some (ErrWrap (''credential reference '' @ envName) e)
             | None \<Rightarrow> check_credentials secrets declared cs))"

section \<open>Safety of the effects\<close>

lemma safe_materialize_part [hub_safe]: "env_ok E \<Longrightarrow> safe E (materialize_part E L A tn p)"
  unfolding materialize_part_def Let_def by (intro hub_safe; assumption?)

lemma safe_MaterializeMessageParts [hub_safe]: "env_ok E \<Longrightarrow> safe E (MaterializeMessageParts E L A tn ps)"
  by (induction ps) (auto intro!: hub_safe)

section \<open>Rendering and parsing versions\<close>

lemma digit_char_of: "n < 10 \<Longrightarrow> of_char (digit_char n) = 48 + n"
  by (simp add: digit_char_def)

lemma is_digit_char [simp]: "n < 10 \<Longrightarrow> is_digit (digit_char n)"
  by (simp add: is_digit_def digit_char_of)

lemma nat_digits_are_digits: "list_all is_digit (nat_digits n)" and nat_digits_nonempty: "nat_digits n \<noteq> []"
proof (induction n rule: nat_digits.induct)
  case (1 n)
  { case 1 with "1.IH" show ?case by (subst nat_digits.simps) simp }
  { case 2 with "1.IH" show ?case by (subst nat_digits.simps) simp }
qed

lemma digits_value_snoc: "digits_value (s @ [c]) = digits_value s * 10 + (int (of_char c) - 48)"
  by (simp add: digits_value_def)

lemma digits_value_nat: "digits_value (nat_digits n) = int n"
proof (induction n rule: nat_digits.induct)
  case (1 n)
  show ?case
  proof (cases "n < 10")
    case True
    then show ?thesis by (subst nat_digits.simps) (simp add: digits_value_def digit_char_of)
  next
    case False
    then show ?thesis using 1 by (subst nat_digits.simps) (simp add: digits_value_snoc digit_char_of zdiv_int zmod_int)
  qed
qed

text \<open>No leading zero.\<close>

lemma nat_digits_head: "n \<noteq> 0 \<Longrightarrow> hd (nat_digits n) \<noteq> CHR ''0''"
proof (induction n rule: nat_digits.induct)
  case (1 n)
  show ?case
  proof (cases "n < 10")
    case True
    have "of_char (CHR ''0'') = (48 :: nat)" by simp
    with True 1(2) digit_char_of [OF True] have "digit_char n \<noteq> CHR ''0''" by auto
    with True show ?thesis by (subst nat_digits.simps) simp
  next
    case False
    then have "n div 10 \<noteq> 0" by simp
    with False 1 show ?thesis by (subst nat_digits.simps) (simp add: nat_digits_nonempty)
  qed
qed

lemma digit_not:
  "is_digit c \<Longrightarrow> c \<noteq> CHR ''.'' \<and> c \<noteq> CHR ''-'' \<and> c \<noteq> CHR ''+''"
  by (auto simp: is_digit_def)

lemma version_part_digits:
  assumes "int n < 2 ^ 63"
  shows "version_part (nat_digits n) = Some (int n)"
proof -
  have d: "list_all is_digit (nat_digits n)" "nat_digits n \<noteq> []"
    by (rule nat_digits_are_digits nat_digits_nonempty)+
  then have hd: "is_digit (hd (nat_digits n))" by (cases "nat_digits n") auto
  have atoi: "Atoi (nat_digits n) = Some (int n)"
    using d digit_not [OF hd] assms by (simp add: Atoi_def Let_def digits_value_nat int64_def)
  have "length (nat_digits n) > 1 \<longrightarrow> hd (nat_digits n) \<noteq> CHR ''0''"
  proof (cases "n = 0")
    case True
    then show ?thesis by (subst nat_digits.simps) simp
  qed (simp add: nat_digits_head)
  then show ?thesis using d atoi digit_not [OF hd] by (simp add: version_part_def)
qed

lemma split_at_none: "c \<notin> set s \<Longrightarrow> split_at c s = [s]"
  by (induction s) auto

lemma split_at_append: "c \<notin> set s \<Longrightarrow> split_at c (s @ c # t) = s # split_at c t"
  by (induction s) auto

text \<open>Text that begins and ends with a printable ASCII byte is not trimmed.\<close>

definition solid :: "char \<Rightarrow> bool" where
  "solid c \<longleftrightarrow> 32 < (of_char c :: nat) \<and> (of_char c :: nat) < 127"

lemma strip_n_solid:
  assumes "\<forall>p\<in>set ps. p \<noteq> [] \<and> \<not> solid (hd p)" "s = [] \<or> solid (hd s)"
  shows "strip_n n ps s = s"
proof (cases n)
  case (Suc m)
  have "take (length p) s \<noteq> p" if "p \<in> set ps" for p
    using assms that by (cases p; cases s) auto
  then have "find (\<lambda>p. take (length p) s = p) ps = None" by (auto simp: find_None_iff)
  with Suc show ?thesis by simp
qed simp

lemma space_encodings_solid:
  "\<forall>p\<in>set space_encodings. p \<noteq> [] \<and> \<not> solid (hd p)"
  "\<forall>p\<in>set (map rev space_encodings). p \<noteq> [] \<and> \<not> solid (hd p)"
  by (simp_all add: space_encodings_def solid_def)

lemma TrimSpace_solid:
  assumes "s \<noteq> []" "solid (hd s)" "solid (last s)"
  shows "TrimSpace s = s"
  using assms by (simp add: TrimSpace_def Let_def strip_n_solid space_encodings_solid hd_rev)

lemma is_digit_solid: "is_digit c \<Longrightarrow> solid c"
  by (simp add: is_digit_def solid_def)

lemma parse_rendered:
  assumes "0 \<le> a" "a < 2 ^ 63" "0 \<le> b" "b < 2 ^ 63"
  shows "parseProtocolVersion (int_digits a @ ''.'' @ int_digits b) = Some (a, b)"
proof -
  let ?s = "int_digits a @ ''.'' @ int_digits b"
  have d: "int_digits a = nat_digits (nat a)" "int_digits b = nat_digits (nat b)"
    using assms by (simp_all add: int_digits_def)
  have dot: "CHR ''.'' \<notin> set (nat_digits n)" for n
    using nat_digits_are_digits [of n] digit_not by (auto simp: list_all_iff)
  have "is_digit (hd (nat_digits n))" "is_digit (last (nat_digits n))" for n
    using nat_digits_are_digits [of n] nat_digits_nonempty [of n] by (auto simp: list_all_iff)
  then have "TrimSpace ?s = ?s"
    by (intro TrimSpace_solid) (simp_all add: d nat_digits_nonempty is_digit_solid)
  moreover have "split_at (CHR ''.'') ?s = [nat_digits (nat a), nat_digits (nat b)]"
    by (simp add: d split_at_append split_at_none dot)
  ultimately show ?thesis
    using assms version_part_digits [of "nat a"] version_part_digits [of "nat b"]
    by (simp add: parseProtocolVersion_def)
qed

lemma version_part_range: "version_part p = Some n \<Longrightarrow> 0 \<le> n \<and> n < 2 ^ 63"
  by (auto simp: version_part_def Atoi_def Let_def int64_def split: if_splits option.splits)

lemma parse_parts_range: "parse_parts ps = Some ns \<Longrightarrow> length ns = length ps \<and> (\<forall>n\<in>set ns. 0 \<le> n \<and> n < 2 ^ 63)"
  using version_part_range by (induction ps arbitrary: ns) (fastforce split: option.splits)+

lemma parseProtocolVersion_range:
  assumes "parseProtocolVersion v = Some (a, b)"
  shows "0 \<le> a \<and> a < 2 ^ 63 \<and> 0 \<le> b \<and> b < 2 ^ 63"
proof -
  obtain ns where ns: "parse_parts (split_at (CHR ''.'') (TrimSpace v)) = Some ns" "a = ns ! 0" "b = ns ! 1"
      "length (split_at (CHR ''.'') (TrimSpace v)) \<in> {2, 3}"
    using assms by (auto simp: parseProtocolVersion_def Let_def split: if_splits option.splits)
  with parse_parts_range [OF ns(1)] have "a \<in> set ns" "b \<in> set ns" by auto
  with parse_parts_range [OF ns(1)] show ?thesis by blast
qed

text \<open>The profiles a configuration string names: valid, and no two with the same name.\<close>

lemma parse_profiles_ok:
  "parse_profiles K raws seen ps = Inr qs \<Longrightarrow> set (map (ProfileName K) ps) \<subseteq> set seen \<Longrightarrow>
     distinct (map (ProfileName K) ps) \<Longrightarrow> \<forall>p\<in>set ps. BindingProfile_Validate K p = None \<Longrightarrow>
     qs \<noteq> [] \<and> distinct (map (ProfileName K) qs) \<and> (\<forall>p\<in>set qs. BindingProfile_Validate K p = None)"
proof (induction K raws seen ps rule: parse_profiles.induct)
  case (2 K raw raws seen profiles)
  let ?name = "ToUpper (TrimSpace raw)"
  show ?case
  proof (cases "?name = ''''")
    case True
    with 2 show ?thesis by (simp add: Let_def)
  next
    case False
    with "2.prems"(1) obtain p where p: "profile_of_name K (map (\<lambda>c. if c \<in> set ''-+/'' then CHR ''_'' else c) ?name) = Some p"
        "BindingProfile_Validate K p = None" "ProfileName K p \<notin> set seen"
        "parse_profiles K raws (ProfileName K p # seen) (profiles @ [p]) = Inr qs"
      by (auto simp: Let_def split: option.splits if_splits)
    show ?thesis
      by (rule "2.IH"(2) [OF refl False p(1,2,3,4)]) (use "2.prems"(2-4) p(2,3) in auto)
  qed
qed (auto split: if_splits)

end
