(* ===== verification/Federation_Service.thy ===== *)
theory Federation_Service
  imports Federation_Policy
begin

text \<open>
  The federation service (\<open>internal/hub/service.go\<close>): registering and resolving agents, submitting,
  continuing, cancelling and reconciling tasks, and applying what remote agents report
  (\<open>applyObservation\<close>). Every call is a program over the world of \<open>Hub_World\<close>.

  Go functions that return a task together with an error give a pair here (\<open>task_outcome\<close>). Metrics
  and tracing have no effect on the state and are left out.
\<close>

record hub_config =
  H_Lib :: golib
  H_SDK :: a2a_sdk
  H_PublicBaseURL :: string
  H_AllowPrivate :: bool
  H_Secrets :: "(string \<Rightarrow> error option) option"
  H_Artifacts :: "artifact_service option"

type_synonym task_outcome = "task \<times> error option"

section \<open>Agents\<close>

definition agent_unhealthy :: "agent \<Rightarrow> bool" where
  "agent_unhealthy a \<longleftrightarrow> Agent_HealthStatus a = AgentHealthUnhealthy \<or> Agent_HealthStatus a = AgentHealthStale"

definition hub_GetAgent :: "hub_env \<Rightarrow> string \<Rightarrow> string \<Rightarrow> agent result hub" where
  "hub_GetAgent E tenantID rid = store_get E (\<lambda>_. GetAgent tenantID rid)"

definition hub_PutAgent :: "hub_env \<Rightarrow> agent \<Rightarrow> error option hub" where
  "hub_PutAgent E a = store_op E (\<lambda>io nid. PutAgent (io 0) a)"

definition ResolveAgent :: "hub_env \<Rightarrow> string \<Rightarrow> string \<Rightarrow> string \<Rightarrow> agent result hub" where
  "ResolveAgent E tenantID agentID skill =
     (if TrimSpace agentID \<noteq> '''' then
        bindE (hub_GetAgent E tenantID agentID) (\<lambda>a.
          if TrimSpace skill \<noteq> '''' \<and> \<not> hasSkill a skill
          then fail (ErrText (''Agent '' @ agentID @ '' does not declare skill '' @ skill))
          else if agent_unhealthy a then fail (ErrText (''Agent '' @ agentID @ '' is unhealthy: '' @ Agent_HealthMessage a))
          else ok a)
      else if TrimSpace skill = '''' then fail (ErrText ''agent ID or skill is required'')
      else do {
        as \<leftarrow> store_get E (\<lambda>t s. ListAgents (e_agents E t s) tenantID s);
        case find (\<lambda>a. \<not> agent_unhealthy a \<and> hasSkill a skill) as of
          Some a \<Rightarrow> ok a
        | None \<Rightarrow> fail (ErrText (''no healthy Agent declares skill '' @ skill))
      })"

definition card_onto_agent :: "descriptor \<Rightarrow> agent \<Rightarrow> agent" where
  "card_onto_agent d a =
     a\<lparr>Agent_Name := Desc_Name d, Agent_ProviderVersion := Desc_ProviderVersion d,
       Agent_ProtocolBinding := Desc_ProtocolBinding d, Agent_ProtocolVersion := Desc_ProtocolVersion d,
       Agent_Endpoint := Desc_Endpoint d, Agent_Streaming := Desc_Streaming d,
       Agent_PushNotifications := Desc_PushNotifications d, Agent_SecuritySchemes := Desc_SecuritySchemes d,
       Agent_CardSignatureVerified := Desc_CardSignatureVerified d,
       Agent_CardSignatureKeyID := Desc_CardSignatureKeyID d, Agent_Skills := Desc_Skills d\<rparr>"

text \<open>\<open>error_text\<close> is \<open>err.Error()\<close>.\<close>

definition RefreshAgent ::
  "hub_env \<Rightarrow> hub_config \<Rightarrow> (error \<Rightarrow> string) \<Rightarrow> string \<Rightarrow> string \<Rightarrow> (agent option \<times> error option) hub" where
  "RefreshAgent E H error_text tenantID agentID = do {
     r \<leftarrow> hub_GetAgent E tenantID agentID;
     case r of
       Inl e \<Rightarrow> State_Monad.return (None, Some e)
     | Inr a \<Rightarrow> do {
         now \<leftarrow> ask (e_clock E);
         disc \<leftarrow> ask (\<lambda>t. e_Discover E t (Agent_CardURL a));
         case disc of
           Inl e \<Rightarrow> do {
             let a' = a\<lparr>Agent_HealthStatus := AgentHealthUnhealthy, Agent_HealthMessage := error_text e,
                        Agent_LastHealthCheckAt := Some now, Agent_UpdatedAt := now\<rparr>;
             _ \<leftarrow> hub_PutAgent E a';
             State_Monad.return (Some a', Some e)
           }
         | Inr d \<Rightarrow>
             (case validateAgentEndpoint (H_Lib H) (Desc_ProtocolBinding d) (Desc_Endpoint d) (\<not> H_AllowPrivate H) of
                Some e \<Rightarrow> State_Monad.return (Some a, Some (ErrWrap ''Agent endpoint URL'' e))
              | None \<Rightarrow> do {
                  let a' = (card_onto_agent d a)
                    \<lparr>Agent_HealthStatus := AgentHealthHealthy, Agent_HealthMessage := '''',
                     Agent_LastHealthCheckAt := Some now, Agent_UpdatedAt := now\<rparr>;
                  e \<leftarrow> hub_PutAgent E a';
                  State_Monad.return (case e of Some err \<Rightarrow> (None, Some err) | None \<Rightarrow> (Some a', None))
                })
       }
   }"

definition discoverWithRegistrationProfiles ::
  "hub_env \<Rightarrow> string \<Rightarrow> binding_profile list \<Rightarrow> descriptor result hub" where
  "discoverWithRegistrationProfiles E cardURL profiles =
     (if profiles \<noteq> [] then ask (\<lambda>t. e_DiscoverWithProfiles E t cardURL profiles)
      else ask (\<lambda>t. e_Discover E t cardURL))"

definition ValidateAgentRegistration ::
  "hub_env \<Rightarrow> hub_config \<Rightarrow> string \<Rightarrow> register_input \<Rightarrow> registration_policy \<Rightarrow> descriptor result hub" where
  "ValidateAgentRegistration E H tenantID input P =
     (if tenantID = '''' then fail (ErrText ''tenant ID is required'')
      else
        case validateHTTPURL (H_Lib H) (Reg_CardURL input) (\<not> H_AllowPrivate H) of
          Some e \<Rightarrow> fail (ErrWrap ''card URL'' e)
        | None \<Rightarrow>
            bindE (discoverWithRegistrationProfiles E (Reg_CardURL input) (RP_Profiles P)) (\<lambda>d.
              case check_card (H_SDK H) P d of
                Some e \<Rightarrow> fail e
              | None \<Rightarrow>
                  (case validateAgentEndpoint (H_Lib H) (Desc_ProtocolBinding d) (Desc_Endpoint d) (\<not> H_AllowPrivate H) of
                     Some e \<Rightarrow> fail (ErrWrap ''Agent endpoint URL'' e)
                   | None \<Rightarrow>
                       (case check_credentials (H_Secrets H) (Desc_SecuritySchemes d) (Reg_CredentialEnv input) of
                          Some e \<Rightarrow> fail e
                        | None \<Rightarrow> ok d))))"

definition zero_agent :: agent where
  "zero_agent =
     \<lparr>Agent_ID = '''', Agent_TenantID = '''', Agent_CardURL = '''', Agent_Name = '''', Agent_ProviderVersion = '''',
      Agent_ProtocolBinding = '''', Agent_ProtocolVersion = '''', Agent_Endpoint = '''', Agent_Streaming = False,
      Agent_PushNotifications = False, Agent_SecuritySchemes = [], Agent_CardSignatureVerified = False,
      Agent_CardSignatureKeyID = '''', Agent_Skills = [], Agent_Extensions = [], Agent_CredentialEnv = Map.empty,
      Agent_RegistrationSource = '''', Agent_RegistryEndpoint = '''', Agent_LastRegistrySyncAt = None,
      Agent_HealthStatus = AgentHealthUnset, Agent_HealthMessage = '''', Agent_LastHealthCheckAt = None,
      Agent_CreatedAt = zero_time, Agent_UpdatedAt = zero_time\<rparr>"

definition RegisterAgentWithPolicy ::
  "hub_env \<Rightarrow> hub_config \<Rightarrow> string \<Rightarrow> register_input \<Rightarrow> registration_policy \<Rightarrow> agent result hub" where
  "RegisterAgentWithPolicy E H tenantID input P =
     bindE (ValidateAgentRegistration E H tenantID input P) (\<lambda>d. do {
       now \<leftarrow> ask (e_clock E);
       nid \<leftarrow> ask (e_id E);
       let a = (card_onto_agent d zero_agent)
         \<lparr>Agent_ID := (if Reg_ID input = '''' then nid else Reg_ID input), Agent_TenantID := tenantID,
          Agent_CardURL := Reg_CardURL input, Agent_Extensions := extensionURIs (Desc_Extensions d),
          Agent_CredentialEnv := map_of (Reg_CredentialEnv input), Agent_RegistrationSource := Reg_Source input,
          Agent_RegistryEndpoint := Reg_Endpoint input, Agent_HealthStatus := AgentHealthHealthy,
          Agent_LastHealthCheckAt := Some now, Agent_CreatedAt := now, Agent_UpdatedAt := now\<rparr>;
       e \<leftarrow> hub_PutAgent E a;
       case e of Some err \<Rightarrow> fail err | None \<Rightarrow> ok a
     })"

definition RegisterAgent :: "hub_env \<Rightarrow> hub_config \<Rightarrow> string \<Rightarrow> register_input \<Rightarrow> agent result hub" where
  "RegisterAgent E H tenantID input = RegisterAgentWithPolicy E H tenantID input no_registration_policy"

section \<open>Revoking tokens\<close>

record revoke_input =
  Revoke_Issuer :: string
  Revoke_TokenID :: string
  Revoke_ExpiresAt :: time
  Revoke_Reason :: string

definition Service_RevokeToken :: "hub_env \<Rightarrow> string \<Rightarrow> revoke_input \<Rightarrow> token_revocation result hub" where
  "Service_RevokeToken E tenantID input =
     (if tenantID = '''' \<or> TrimSpace (Revoke_Issuer input) = '''' \<or> TrimSpace (Revoke_TokenID input) = ''''
      then fail (ErrText ''tenant, issuer, and token ID are required'')
      else if length (Revoke_TokenID input) > 512 \<or> length (Revoke_Issuer input) > 2048 \<or> length (Revoke_Reason input) > 512
      then fail (ErrText ''revocation input exceeds field limits'')
      else do {
        now \<leftarrow> ask (e_clock E);
        if \<not> Revoke_ExpiresAt input > now then fail (ErrText ''revocation expiry must be in the future'')
        else do {
          let v = \<lparr>Revocation_Issuer = TrimSpace (Revoke_Issuer input), Revocation_TokenID = TrimSpace (Revoke_TokenID input),
                   Revocation_TenantID = tenantID, Revocation_Reason = TrimSpace (Revoke_Reason input),
                   Revocation_RevokedAt = now, Revocation_ExpiresAt = Revoke_ExpiresAt input\<rparr>;
          e \<leftarrow> store_op E (\<lambda>io nid. RevokeToken_store (io 0) v);
          case e of Some err \<Rightarrow> fail err | None \<Rightarrow> ok v
        }
      })"

section \<open>Applying what a remote agent reports\<close>

definition hub_ApplyTask ::
  "hub_env \<Rightarrow> string \<Rightarrow> string \<Rightarrow> string \<Rightarrow> (task \<Rightarrow> (event \<times> task) result) \<Rightarrow> (task \<times> bool \<times> error option) hub" where
  "hub_ApplyTask E tenantID rid dedupKey m = store_op E (\<lambda>io nid. ApplyTask (io 0) nid tenantID rid dedupKey m)"

definition shouldApplyState :: "task \<Rightarrow> observation \<Rightarrow> bool" where
  "shouldApplyState t ob \<longleftrightarrow>
     \<not> (TaskState_Terminal (Task_State t) \<and> Task_State t \<noteq> Obs_State ob) \<and>
     \<not> (case (Task_LastRemoteObservedAt t, Obs_RemoteObservedAt ob) of
          (Some prev, Some seen) \<Rightarrow> seen < prev
        | _ \<Rightarrow> False)"

definition merge_into :: "artifact_update \<Rightarrow> artifact \<Rightarrow> artifact" where
  "merge_into u a =
     (if Update_Append u then
        a\<lparr>Artifact_Parts := Artifact_Parts a @ Artifact_Parts (Update_Artifact u),
          Artifact_Complete := Artifact_Complete (Update_Artifact u),
          Artifact_Name := (if Artifact_Name (Update_Artifact u) \<noteq> '''' then Artifact_Name (Update_Artifact u) else Artifact_Name a),
          Artifact_Description := (if Artifact_Description (Update_Artifact u) \<noteq> '''' then Artifact_Description (Update_Artifact u)
                                   else Artifact_Description a)\<rparr>
      else Update_Artifact u)"

fun merge_artifacts :: "artifact_update \<Rightarrow> artifact list \<Rightarrow> artifact list" where
  "merge_artifacts u [] = [Update_Artifact u]"
| "merge_artifacts u (a # as) =
     (if Artifact_ID a = Artifact_ID (Update_Artifact u) then merge_into u a # as else a # merge_artifacts u as)"

definition mergeArtifact :: "artifact_update \<Rightarrow> task \<Rightarrow> task" where
  "mergeArtifact u t = t\<lparr>Task_Artifacts := merge_artifacts u (Task_Artifacts t)\<rparr>"

text \<open>The callback of the status update in \<open>applyObservation\<close>.\<close>

definition apply_status :: "observation \<Rightarrow> time \<Rightarrow> task \<Rightarrow> (event \<times> task) result" where
  "apply_status ob now current =
     (if Obs_RemoteTaskID ob \<noteq> '''' \<and> Task_RemoteTaskID current \<noteq> '''' \<and>
         Task_RemoteTaskID current \<noteq> Obs_RemoteTaskID ob
      then Inl (ErrText ''remote task ID changed'')
      else
        let c1 = (if Obs_RemoteTaskID ob \<noteq> '''' then current\<lparr>Task_RemoteTaskID := Obs_RemoteTaskID ob\<rparr> else current);
            c2 = (if Obs_RemoteContextID ob \<noteq> '''' then c1\<lparr>Task_RemoteContextID := Obs_RemoteContextID ob\<rparr> else c1);
            c3 = c2\<lparr>Task_Delivery := DeliveryAcknowledged\<rparr>;
            c4 = (if Obs_CancelRequested ob then c3\<lparr>Task_CancelRequested := True\<rparr> else c3);
            c5 = (if Obs_State ob \<noteq> TaskStateUnknown \<and> shouldApplyState c4 ob then c4\<lparr>Task_State := Obs_State ob\<rparr> else c4);
            c6 = (case Obs_RemoteObservedAt ob of
                    None \<Rightarrow> c5
                  | Some seen \<Rightarrow>
                      if (case Task_LastRemoteObservedAt c5 of None \<Rightarrow> True | Some prev \<Rightarrow> \<not> seen < prev)
                      then c5\<lparr>Task_LastRemoteObservedAt := Some seen\<rparr> else c5);
            c7 = c6\<lparr>Task_Problem := Obs_Problem ob, Task_UpdatedAt := now\<rparr>
        in Inr (zero_event\<lparr>Event_Type := ''task.status'', Event_Source := Obs_Source ob, Event_State := Task_State c7,
                           Event_Problem := Obs_Problem ob, Event_ObservedAt := Obs_RemoteObservedAt ob,
                           Event_CreatedAt := now\<rparr>, c7))"

definition apply_artifact_update :: "string \<Rightarrow> artifact_update \<Rightarrow> time \<Rightarrow> task \<Rightarrow> (event \<times> task) result" where
  "apply_artifact_update source u now current =
     Inr (zero_event\<lparr>Event_Type := ''task.artifact'', Event_Source := source,
                     Event_Artifact := Some (Update_Artifact u), Event_CreatedAt := now\<rparr>,
          (mergeArtifact u current)\<lparr>Task_UpdatedAt := now\<rparr>)"

definition externalize_part ::
  "hub_env \<Rightarrow> hub_config \<Rightarrow> task \<Rightarrow> string \<Rightarrow> string \<Rightarrow> nat \<Rightarrow> nat \<Rightarrow> part \<Rightarrow> part result hub" where
  "externalize_part E H t artifactID dedupKey updateIndex partIndex p =
     (if Part_Kind p \<noteq> PartFile \<or> Part_ObjectID p \<noteq> '''' \<or> (Part_BytesBase64 p = '''' \<and> Part_URI p = '''') then ok p
      else
        case H_Artifacts H of
          None \<Rightarrow> fail (ErrText ''artifact object storage is not configured'')
        | Some A \<Rightarrow> do {
            let input = \<lparr>In_TenantID = Task_TenantID t, In_TaskID = Task_ID t, In_ArtifactID = artifactID,
                         In_DedupKey = dedupKey @ '':'' @ nat_digits updateIndex, In_PartIndex = int partIndex,
                         In_MediaType = Part_MediaType p, In_Filename = Part_Filename p, In_SourceURI = ''''\<rparr>;
            r \<leftarrow> (if Part_BytesBase64 p \<noteq> '''' then IngestBase64 E (H_Lib H) A input (Part_BytesBase64 p)
                 else IngestURI E (H_Lib H) A input (Part_URI p));
            case r of
              Inl e \<Rightarrow> fail (ErrWrap (''externalize Artifact '' @ artifactID @ '' Part '' @ nat_digits partIndex) e)
            | Inr ob \<Rightarrow> ok (p\<lparr>Part_BytesBase64 := '''', Part_URI := '''', Part_ObjectID := Object_ID ob,
                              Part_SizeBytes := Object_SizeBytes ob, Part_SHA256 := Object_SHA256 ob,
                              Part_MediaType := Object_DetectedMediaType ob\<rparr>)
          })"

fun externalize_parts ::
  "hub_env \<Rightarrow> hub_config \<Rightarrow> task \<Rightarrow> string \<Rightarrow> string \<Rightarrow> nat \<Rightarrow> nat \<Rightarrow> part list \<Rightarrow> part list result hub" where
  "externalize_parts E H t artifactID dedupKey updateIndex partIndex [] = ok []"
| "externalize_parts E H t artifactID dedupKey updateIndex partIndex (p # ps) =
     bindE (externalize_part E H t artifactID dedupKey updateIndex partIndex p) (\<lambda>q.
       bindE (externalize_parts E H t artifactID dedupKey updateIndex (Suc partIndex) ps) (\<lambda>qs. ok (q # qs)))"

definition externalizeArtifact ::
  "hub_env \<Rightarrow> hub_config \<Rightarrow> task \<Rightarrow> artifact \<Rightarrow> string \<Rightarrow> nat \<Rightarrow> artifact result hub" where
  "externalizeArtifact E H t value dedupKey updateIndex =
     bindE (externalize_parts E H t (Artifact_ID value) dedupKey updateIndex 0 (Artifact_Parts value))
       (\<lambda>ps. ok (value\<lparr>Artifact_Parts := ps\<rparr>))"

fun externalize_updates ::
  "hub_env \<Rightarrow> hub_config \<Rightarrow> task \<Rightarrow> string \<Rightarrow> nat \<Rightarrow> artifact_update list \<Rightarrow> artifact_update list result hub" where
  "externalize_updates E H t baseKey index [] = ok []"
| "externalize_updates E H t baseKey index (u # us) =
     bindE (externalizeArtifact E H t (Update_Artifact u) baseKey index) (\<lambda>a.
       bindE (externalize_updates E H t baseKey (Suc index) us) (\<lambda>vs. ok (u\<lparr>Update_Artifact := a\<rparr> # vs)))"

fun apply_updates ::
  "hub_env \<Rightarrow> string \<Rightarrow> string \<Rightarrow> nat \<Rightarrow> artifact_update list \<Rightarrow> task \<Rightarrow> task_outcome hub" where
  "apply_updates E source baseKey index [] t = State_Monad.return (t, None)"
| "apply_updates E source baseKey index (u # us) t = do {
     now \<leftarrow> ask (e_clock E);
     (t', _, e) \<leftarrow> hub_ApplyTask E (Task_TenantID t) (Task_ID t)
        (baseKey @ '':artifact:'' @ Artifact_ID (Update_Artifact u) @ '':'' @ nat_digits index)
        (apply_artifact_update source u now);
     case e of Some err \<Rightarrow> State_Monad.return (t', Some err)
     | None \<Rightarrow> apply_updates E source baseKey (Suc index) us t'
   }"

definition applyObservation :: "hub_env \<Rightarrow> hub_config \<Rightarrow> task \<Rightarrow> observation \<Rightarrow> task_outcome hub" where
  "applyObservation E H t observation0 = do {
     let ob1 = (if Obs_State observation0 = TaskStateUnset then observation0\<lparr>Obs_State := TaskStateUnknown\<rparr> else observation0);
     let baseKey = (if Obs_DedupKey ob1 = ''''
                    then ''observation:'' @ G_sha256 (H_Lib H) (G_json_observation (H_Lib H) ob1) else Obs_DedupKey ob1);
     r \<leftarrow> externalize_updates E H t baseKey 0 (Obs_Artifacts ob1);
     case r of
       Inl err \<Rightarrow> State_Monad.return (t, Some err)
     | Inr updates \<Rightarrow> do {
         let ob = ob1\<lparr>Obs_Artifacts := updates\<rparr>;
         (t', e) \<leftarrow>
           (if Obs_State ob \<noteq> TaskStateUnknown \<or> Obs_RemoteTaskID ob \<noteq> '''' \<or> Obs_Problem ob \<noteq> None \<or> Obs_CancelRequested ob
            then do {
              now \<leftarrow> ask (e_clock E);
              (t', _, e) \<leftarrow> hub_ApplyTask E (Task_TenantID t) (Task_ID t) (baseKey @ '':status'') (apply_status ob now);
              State_Monad.return (t', e)
            }
            else State_Monad.return (t, None));
         case e of Some err \<Rightarrow> State_Monad.return (t', Some err)
         | None \<Rightarrow> apply_updates E (Obs_Source ob) baseKey 0 updates t'
       }
   }"

definition problemFromError :: "error \<Rightarrow> problem" where
  "problemFromError e =
     (case error_as_federation e of
        Some p \<Rightarrow> p
      | None \<Rightarrow> \<lparr>Problem_Category = ''internal'', Problem_Code = ''FEDERATION_ERROR'',
                 Problem_Message = ''federation operation failed'', Problem_Retryable = False, Problem_Ambiguous = False\<rparr>)"

definition hub_event :: "string \<Rightarrow> problem option \<Rightarrow> time \<Rightarrow> event" where
  "hub_event kind p now =
     zero_event\<lparr>Event_Type := kind, Event_Source := ''hub'', Event_Problem := p, Event_CreatedAt := now\<rparr>"

definition set_problem :: "string \<Rightarrow> problem \<Rightarrow> bool \<Rightarrow> time \<Rightarrow> task \<Rightarrow> (event \<times> task) result" where
  "set_problem kind p reset now c =
     Inr (hub_event kind (Some p) now,
          (if reset then c\<lparr>Task_Delivery := DeliveryPending\<rparr> else c)\<lparr>Task_Problem := Some p, Task_UpdatedAt := now\<rparr>)"

definition recordProblem :: "hub_env \<Rightarrow> task \<Rightarrow> string \<Rightarrow> problem \<Rightarrow> task_outcome hub" where
  "recordProblem E t kind p = do {
     now \<leftarrow> ask (e_clock E);
     (t', _, e) \<leftarrow> hub_ApplyTask E (Task_TenantID t) (Task_ID t) '''' (set_problem kind p False now);
     State_Monad.return (t', e)
   }"

section \<open>Reconciling\<close>

text \<open>The subscription loop of \<open>ReconcileTask\<close>: it ends at the first error and when the task is terminal.\<close>

fun subscribe_loop :: "hub_env \<Rightarrow> hub_config \<Rightarrow> observation result list \<Rightarrow> task \<Rightarrow> task_outcome hub" where
  "subscribe_loop E H [] t = State_Monad.return (t, None)"
| "subscribe_loop E H (item # items) t =
     (case item of
        Inl e \<Rightarrow> State_Monad.return (t, Some e)
      | Inr ob \<Rightarrow> do {
          (t', e) \<leftarrow> applyObservation E H t ob;
          if e \<noteq> None \<or> TaskState_Terminal (Task_State t') then State_Monad.return (t', e)
          else subscribe_loop E H items t'
        })"

definition ReconcileTask :: "hub_env \<Rightarrow> hub_config \<Rightarrow> string \<Rightarrow> string \<Rightarrow> bool \<Rightarrow> task_outcome hub" where
  "ReconcileTask E H tenantID taskID subscribe = do {
     r \<leftarrow> store_get E (\<lambda>_. GetTask tenantID taskID);
     case r of
       Inl e \<Rightarrow> State_Monad.return (zero_task, Some e)
     | Inr t \<Rightarrow>
         if Task_RemoteTaskID t = ''''
         then State_Monad.return (t, Some (ErrText ''ambiguous task has no remote task ID and cannot be automatically reconciled''))
         else do {
           ra \<leftarrow> hub_GetAgent E tenantID (Task_AgentID t);
           case ra of
             Inl e \<Rightarrow> State_Monad.return (t, Some e)
           | Inr a \<Rightarrow> do {
               ro \<leftarrow> ask (\<lambda>n. e_Get E n a (Task_RemoteTaskID t));
               case ro of
                 Inl e \<Rightarrow> State_Monad.return (t, Some e)
               | Inr ob \<Rightarrow> do {
                   (t', e) \<leftarrow> applyObservation E H t ob;
                   if e \<noteq> None \<or> TaskState_Terminal (Task_State t') \<or> \<not> subscribe \<or> \<not> Agent_Streaming a
                   then State_Monad.return (t', e)
                   else do {
                     items \<leftarrow> ask (\<lambda>n. e_Subscribe E n a (Task_RemoteTaskID t'));
                     subscribe_loop E H items t'
                   }
                 }
             }
         }
   }"

fun recover_loop :: "hub_env \<Rightarrow> hub_config \<Rightarrow> bool \<Rightarrow> task list \<Rightarrow> error list hub" where
  "recover_loop E H subscribe [] = State_Monad.return []"
| "recover_loop E H subscribe (t # ts) = do {
     (_, e) \<leftarrow> ReconcileTask E H (Task_TenantID t) (Task_ID t) subscribe;
     rest \<leftarrow> recover_loop E H subscribe ts;
     State_Monad.return (case e of Some err \<Rightarrow> ErrWrap (''reconcile task '' @ Task_ID t) err # rest | None \<Rightarrow> rest)
   }"

definition Recover :: "hub_env \<Rightarrow> hub_config \<Rightarrow> bool \<Rightarrow> error option hub" where
  "Recover E H subscribe = do {
     ts \<leftarrow> store_get E (\<lambda>n s. ListRecoverable (e_tasks E n s) s);
     failures \<leftarrow> recover_loop E H subscribe ts;
     State_Monad.return (errors_join failures)
   }"

section \<open>Push notifications\<close>

definition AcceptPush ::
  "hub_env \<Rightarrow> hub_config \<Rightarrow> string \<Rightarrow> string \<Rightarrow> string \<Rightarrow> observation \<Rightarrow> task_outcome hub" where
  "AcceptPush E H tenantID taskID token observation = do {
     r \<leftarrow> store_get E (\<lambda>_. GetTask tenantID taskID);
     case r of
       Inl e \<Rightarrow> State_Monad.return (zero_task, Some e)
     | Inr t \<Rightarrow>
         if Task_PushTokenHash t = '''' \<or> Task_PushTokenHash t \<noteq> G_sha256 (H_Lib H) token
         then State_Monad.return (zero_task, Some ErrInvalidPushCredential)
         else if Obs_RemoteTaskID observation = '''' \<or>
                 (Task_RemoteTaskID t \<noteq> '''' \<and> Obs_RemoteTaskID observation \<noteq> Task_RemoteTaskID t)
         then State_Monad.return (zero_task, Some ErrPushTaskMismatch)
         else do {
           let ob = observation\<lparr>Obs_Source := ''a2a-push''\<rparr>;
           let dedupKey = (if Obs_DedupKey ob = '''' then ''push:'' @ G_sha256 (H_Lib H) (G_json_observation (H_Lib H) ob)
                           else Obs_DedupKey ob);
           now \<leftarrow> ask (e_clock E);
           q \<leftarrow> store_op E (\<lambda>io nid. EnqueueInbox (io 0)
                  \<lparr>Inbox_ID = nid, Inbox_TenantID = tenantID, Inbox_TaskID = taskID, Inbox_DedupKey = dedupKey,
                   Inbox_Protocol = ''a2a'', Inbox_Payload = PayloadObservation ob, Inbox_CreatedAt = now\<rparr>);
           State_Monad.return (t, case q of Inl e \<Rightarrow> Some e | Inr _ \<Rightarrow> None)
         }
   }"

definition decode_payload :: "golib \<Rightarrow> payload \<Rightarrow> observation result" where
  "decode_payload L p =
     (case p of
        PayloadObservation ob \<Rightarrow> Inr ob
      | PayloadEvent e \<Rightarrow> G_decode_observation L (G_json_event L e)
      | PayloadRaw b \<Rightarrow> G_decode_observation L b)"

definition ApplyInboxItem :: "hub_env \<Rightarrow> hub_config \<Rightarrow> inbox_item \<Rightarrow> task_outcome hub" where
  "ApplyInboxItem E H item =
     (if Inbox_Protocol item \<noteq> ''a2a''
      then State_Monad.return (zero_task, Some (ErrText (''unsupported inbox protocol '' @ Inbox_Protocol item)))
      else
        case decode_payload (H_Lib H) (Inbox_Payload item) of
          Inl e \<Rightarrow> State_Monad.return (zero_task, Some (ErrWrap ''decode queued Push observation'' e))
        | Inr ob \<Rightarrow> do {
            r \<leftarrow> store_get E (\<lambda>_. GetTask (Inbox_TenantID item) (Inbox_TaskID item));
            case r of
              Inl e \<Rightarrow> State_Monad.return (zero_task, Some e)
            | Inr t \<Rightarrow>
                if Obs_RemoteTaskID ob = '''' \<or> (Task_RemoteTaskID t \<noteq> '''' \<and> Obs_RemoteTaskID ob \<noteq> Task_RemoteTaskID t)
                then State_Monad.return (zero_task, Some ErrPushTaskMismatch)
                else applyObservation E H t (ob\<lparr>Obs_Source := ''a2a-push''\<rparr>)
          })"

section \<open>Submitting\<close>

record submit_input =
  Sub_AgentID :: string
  Sub_Skill :: string
  Sub_Text :: string
  Sub_Parts :: "part list"
  Sub_EnablePush :: bool
  Sub_Priority :: int
  Sub_Extensions :: "string list"
  Sub_Metadata :: "(string \<times> json) list"
  Sub_IdempotencyKey :: string

text \<open>The task and message identifiers: drawn, or derived from the idempotency key. (The code draws both
  identifiers first and overwrites them.)\<close>

definition stable_ids :: "golib \<Rightarrow> string \<Rightarrow> string \<Rightarrow> string \<Rightarrow> string \<Rightarrow> string \<Rightarrow> string \<times> string" where
  "stable_ids L tenantID agentID idempotencyKey id1 id2 =
     (if idempotencyKey \<noteq> '''' then
        let stable = G_sha256 L (tenantID @ nul # agentID @ nul # idempotencyKey)
        in (''task-'' @ take 32 stable, ''message-'' @ drop 32 stable)
      else (id1, id2))"

text \<open>Validation of the request, up to the agent: parts, extensions and metadata.\<close>

definition check_submit ::
  "golib \<Rightarrow> submit_input \<Rightarrow> (part list \<times> string list \<times> (string \<times> json) list) result" where
  "check_submit L input =
     (case NormalizeMessageParts L (Sub_Text input) (Sub_Parts input) of
        Inl e \<Rightarrow> Inl e
      | Inr parts \<Rightarrow>
          if Sub_Priority input < - 1000 \<or> Sub_Priority input > 1000
          then Inl (ErrText ''task priority must be between -1000 and 1000'')
          else
            case normalizeRequestExtensions L (Sub_Extensions input) of
              Inl e \<Rightarrow> Inl e
            | Inr extensions \<Rightarrow>
                (case validateExtensionMetadata L (Sub_Metadata input) of
                   Inl e \<Rightarrow> Inl e
                 | Inr metadata \<Rightarrow> Inr (parts, extensions, metadata)))"

definition trim_right :: "char \<Rightarrow> string \<Rightarrow> string" where
  "trim_right c s = rev (dropWhile (\<lambda>x. x = c) (rev s))"

text \<open>The push configuration of a task: its callback and a fresh token, of which the task keeps the hash.\<close>

definition push_for ::
  "hub_env \<Rightarrow> hub_config \<Rightarrow> bool \<Rightarrow> agent \<Rightarrow> string \<Rightarrow> task \<Rightarrow> (task \<times> push_config option) result hub" where
  "push_for E H enable a tenantID t =
     (if \<not> enable then ok (t, None)
      else if \<not> Agent_PushNotifications a then fail (ErrText ''remote Agent does not declare Push support'')
      else
        case validateHTTPURL (H_Lib H) (H_PublicBaseURL H) (\<not> H_AllowPrivate H) of
          Some e \<Rightarrow> fail (ErrWrap ''public callback base URL'' e)
        | None \<Rightarrow>
            bindE (ask (e_token E)) (\<lambda>token.
              ok (t\<lparr>Task_PushTokenHash := G_sha256 (H_Lib H) token\<rparr>,
                  Some \<lparr>Push_URL = trim_right (CHR ''/'') (H_PublicBaseURL H) @ ''/v1/tasks/'' @
                                   G_path_escape (H_Lib H) (Task_ID t) @ ''/push?tenant='' @
                                   G_query_escape (H_Lib H) tenantID,
                        Push_Token = token\<rparr>)))"

text \<open>The loop over the stream of \<open>Send\<close>. \<open>Inl\<close> is the early return when an observation cannot be
  applied; \<open>Inr\<close> the task after the stream, with the stream's error if it broke.\<close>

fun send_loop :: "hub_env \<Rightarrow> hub_config \<Rightarrow> observation result list \<Rightarrow> task \<Rightarrow> (task_outcome + task_outcome) hub" where
  "send_loop E H [] t = State_Monad.return (Inr (t, None))"
| "send_loop E H (item # items) t =
     (case item of
        Inl e \<Rightarrow> State_Monad.return (Inr (t, Some e))
      | Inr ob \<Rightarrow> do {
          (t', e) \<leftarrow> applyObservation E H t ob;
          if e \<noteq> None then State_Monad.return (Inl (t', e)) else send_loop E H items t'
        })"

text \<open>What \<open>SubmitTask\<close> does after a broken stream.\<close>

definition after_broken_stream :: "hub_env \<Rightarrow> hub_config \<Rightarrow> string \<Rightarrow> task \<Rightarrow> error \<Rightarrow> task_outcome hub" where
  "after_broken_stream E H tenantID t streamErr = do {
     let p = problemFromError streamErr;
     if Task_RemoteTaskID t = '''' then do {
       now \<leftarrow> ask (e_clock E);
       (t', _, e) \<leftarrow> hub_ApplyTask E tenantID (Task_ID t) ''''
          (set_problem (if Problem_Ambiguous p then ''delivery.ambiguous'' else ''delivery.rejected'') p
                       (\<not> Problem_Ambiguous p) now);
       State_Monad.return (t', if e \<noteq> None then e else if \<not> Problem_Ambiguous p then Some streamErr else None)
     }
     else do {
       (rt, re) \<leftarrow> ReconcileTask E H tenantID (Task_ID t) True;
       if re = None then State_Monad.return (rt, None)
       else do {
         now \<leftarrow> ask (e_clock E);
         (t', _, e) \<leftarrow> hub_ApplyTask E tenantID (Task_ID t) '''' (set_problem ''delivery.disconnected'' p False now);
         State_Monad.return (t', e)
       }
     }
   }"

definition start_delivery :: "time \<Rightarrow> task \<Rightarrow> (event \<times> task) result" where
  "start_delivery now c =
     Inr (hub_event ''delivery.started'' None now, c\<lparr>Task_Delivery := DeliveryAmbiguous, Task_UpdatedAt := now\<rparr>)"

definition new_task ::
  "golib \<Rightarrow> string \<Rightarrow> agent \<Rightarrow> submit_input \<Rightarrow> part list \<Rightarrow> string list \<Rightarrow> (string \<times> json) list \<Rightarrow> string \<times> string \<Rightarrow>
   string \<Rightarrow> time \<Rightarrow> task" where
  "new_task L tenantID a input parts extensions metadata ids idempotencyKey now =
     zero_task\<lparr>Task_ID := fst ids, Task_TenantID := tenantID, Task_AgentID := Agent_ID a, Task_MessageID := snd ids,
               Task_IdempotencyKey := idempotencyKey,
               Task_InputDigest := G_sha256 L (G_json_input L parts extensions metadata),
               Task_RequestedExtensions := extensions, Task_ExtensionMetadata := metadata,
               Task_Priority := Sub_Priority input, Task_State := TaskStateSubmitted, Task_Delivery := DeliveryPending,
               Task_CreatedAt := now, Task_UpdatedAt := now\<rparr>"

text \<open>Sending a created task: record that delivery has started, send, apply what comes back.\<close>

definition deliver_task ::
  "hub_env \<Rightarrow> hub_config \<Rightarrow> string \<Rightarrow> agent \<Rightarrow> part list \<Rightarrow> part list \<Rightarrow> push_config option \<Rightarrow> task \<Rightarrow> task_outcome hub" where
  "deliver_task E H tenantID a parts materialized push t0 = do {
     now \<leftarrow> ask (e_clock E);
     (t, _, e) \<leftarrow> hub_ApplyTask E tenantID (Task_ID t0) '''' (start_delivery now);
     case e of Some err \<Rightarrow> State_Monad.return (t, Some err)
     | None \<Rightarrow> do {
         let msg = \<lparr>Msg_ID = Task_MessageID t, Msg_Text = firstTextPart parts, Msg_Parts = materialized,
                    Msg_RemoteTaskID = '''', Msg_RemoteContextID = '''', Msg_ReturnImmediately = True, Msg_Push = push,
                    Msg_Extensions = Task_RequestedExtensions t, Msg_Metadata = Task_ExtensionMetadata t\<rparr>;
         items \<leftarrow> ask (\<lambda>n. e_Send E n a msg);
         r \<leftarrow> send_loop E H items t;
         case r of
           Inl (t', err) \<Rightarrow> State_Monad.return (t', err)
         | Inr (t', None) \<Rightarrow> State_Monad.return (t', None)
         | Inr (t', Some streamErr) \<Rightarrow> after_broken_stream E H tenantID t' streamErr
       }
   }"

text \<open>A conflict under an idempotency key: the stored task answers when it is the same request.\<close>

definition idempotent_answer ::
  "hub_env \<Rightarrow> string \<Rightarrow> string \<Rightarrow> task \<Rightarrow> error \<Rightarrow> task_outcome hub" where
  "idempotent_answer E tenantID idempotencyKey proposed err =
     (if error_is err ErrConflict \<and> idempotencyKey \<noteq> '''' then do {
        r \<leftarrow> store_get E (\<lambda>_. GetTask tenantID (Task_ID proposed));
        case r of
          Inr existing \<Rightarrow>
            if Task_IdempotencyKey existing = idempotencyKey \<and> Task_InputDigest existing = Task_InputDigest proposed \<and>
               Task_AgentID existing = Task_AgentID proposed
            then State_Monad.return (existing, None) else State_Monad.return (zero_task, Some err)
        | Inl _ \<Rightarrow> State_Monad.return (zero_task, Some err)
      }
      else State_Monad.return (zero_task, Some err))"

definition hub_CreateTask :: "hub_env \<Rightarrow> task \<Rightarrow> event \<Rightarrow> task result hub" where
  "hub_CreateTask E t e = store_op E (\<lambda>io nid. CreateTask (io 0) nid t e)"

definition SubmitTask :: "hub_env \<Rightarrow> hub_config \<Rightarrow> string \<Rightarrow> submit_input \<Rightarrow> task_outcome hub" where
  "SubmitTask E H tenantID input =
     (case check_submit (H_Lib H) input of
        Inl e \<Rightarrow> State_Monad.return (zero_task, Some e)
      | Inr (parts, extensions, metadata) \<Rightarrow> do {
          prep \<leftarrow> bindE (ResolveAgent E tenantID (Sub_AgentID input) (Sub_Skill input)) (\<lambda>a.
                  bindE (MaterializeMessageParts E (H_Lib H) (H_Artifacts H) tenantID parts) (\<lambda>materialized.
                  guardE (length (TrimSpace (Sub_IdempotencyKey input)) > 256)
                    (ErrText ''task idempotency key exceeds 256 characters'')
                    (do {
                       id1 \<leftarrow> ask (e_id E);
                       id2 \<leftarrow> ask (e_id E);
                       now \<leftarrow> ask (e_clock E);
                       let key = TrimSpace (Sub_IdempotencyKey input);
                       let t = new_task (H_Lib H) tenantID a input parts extensions metadata
                                 (stable_ids (H_Lib H) tenantID (Agent_ID a) key id1 id2) key now;
                       bindE (push_for E H (Sub_EnablePush input) a tenantID t) (\<lambda>(t', push).
                         ok (a, materialized, t', push))
                     })));
          case prep of
            Inl e \<Rightarrow> State_Monad.return (zero_task, Some e)
          | Inr (a, materialized, proposed, push) \<Rightarrow> do {
              r \<leftarrow> hub_CreateTask E proposed
                     (zero_event\<lparr>Event_Type := ''task.submitted'', Event_Source := ''hub'',
                                 Event_State := Task_State proposed, Event_CreatedAt := Task_CreatedAt proposed\<rparr>);
              case r of
                Inl err \<Rightarrow> idempotent_answer E tenantID (Task_IdempotencyKey proposed) proposed err
              | Inr t \<Rightarrow> deliver_task E H tenantID a parts materialized push t
            }
        })"

section \<open>Continuing and cancelling\<close>

text \<open>The loop of \<open>ContinueTask\<close>: any error ends the call; a stream without a result is an error.\<close>

fun continue_loop :: "hub_env \<Rightarrow> hub_config \<Rightarrow> observation result list \<Rightarrow> bool \<Rightarrow> task \<Rightarrow> task_outcome hub" where
  "continue_loop E H [] seen t =
     State_Monad.return (t, if seen then None else Some (ErrText ''remote Agent returned no continuation result''))"
| "continue_loop E H (item # items) seen t =
     (case item of
        Inl e \<Rightarrow> State_Monad.return (t, Some e)
      | Inr ob \<Rightarrow> do {
          (t', e) \<leftarrow> applyObservation E H t ob;
          if e \<noteq> None then State_Monad.return (t', e) else continue_loop E H items True t'
        })"

definition ContinueTask ::
  "hub_env \<Rightarrow> hub_config \<Rightarrow> string \<Rightarrow> string \<Rightarrow> string \<Rightarrow> part list \<Rightarrow> task_outcome hub" where
  "ContinueTask E H tenantID taskID txt values =
     (case NormalizeMessageParts (H_Lib H) txt values of
        Inl e \<Rightarrow> State_Monad.return (zero_task, Some (ErrWrap ''continuation'' e))
      | Inr parts \<Rightarrow> do {
          r \<leftarrow> store_get E (\<lambda>_. GetTask tenantID taskID);
          case r of
            Inl e \<Rightarrow> State_Monad.return (zero_task, Some e)
          | Inr t \<Rightarrow>
              if Task_RemoteTaskID t = '''' \<or> Task_RemoteContextID t = ''''
              then State_Monad.return (t, Some (ErrText ''task has no remote Task and Context IDs''))
              else if Task_State t \<noteq> TaskStateInputRequired \<and> Task_State t \<noteq> TaskStateAuthRequired
              then State_Monad.return (t, Some (ErrText ''task continuation requires INPUT_REQUIRED or AUTH_REQUIRED state''))
              else do {
                prep \<leftarrow> bindE (hub_GetAgent E tenantID (Task_AgentID t)) (\<lambda>a.
                        bindE (MaterializeMessageParts E (H_Lib H) (H_Artifacts H) tenantID parts)
                          (\<lambda>materialized. ok (a, materialized)));
                case prep of
                  Inl e \<Rightarrow> State_Monad.return (t, Some e)
                | Inr (a, materialized) \<Rightarrow> do {
                    mid \<leftarrow> ask (e_id E);
                    let msg = \<lparr>Msg_ID = mid, Msg_Text = firstTextPart parts, Msg_Parts = materialized,
                               Msg_RemoteTaskID = Task_RemoteTaskID t, Msg_RemoteContextID = Task_RemoteContextID t,
                               Msg_ReturnImmediately = True, Msg_Push = None,
                               Msg_Extensions = Task_RequestedExtensions t, Msg_Metadata = Task_ExtensionMetadata t\<rparr>;
                    items \<leftarrow> ask (\<lambda>n. e_Send E n a msg);
                    continue_loop E H items False t
                  }
              }
        })"

definition request_cancel :: "time \<Rightarrow> task \<Rightarrow> (event \<times> task) result" where
  "request_cancel now c =
     Inr (hub_event ''task.cancel_requested'' None now, c\<lparr>Task_CancelRequested := True, Task_UpdatedAt := now\<rparr>)"

definition CancelTask :: "hub_env \<Rightarrow> hub_config \<Rightarrow> string \<Rightarrow> string \<Rightarrow> task_outcome hub" where
  "CancelTask E H tenantID taskID = do {
     now \<leftarrow> ask (e_clock E);
     (t, _, e) \<leftarrow> hub_ApplyTask E tenantID taskID '''' (request_cancel now);
     if e \<noteq> None then State_Monad.return (zero_task, e)
     else if Task_RemoteTaskID t = '''' then State_Monad.return (t, Some (ErrText ''task has no acknowledged remote task ID''))
     else do {
       ra \<leftarrow> hub_GetAgent E tenantID (Task_AgentID t);
       case ra of
         Inl err \<Rightarrow> State_Monad.return (t, Some err)
       | Inr a \<Rightarrow> do {
           ro \<leftarrow> ask (\<lambda>n. e_Cancel E n a (Task_RemoteTaskID t));
           case ro of
             Inl err \<Rightarrow> do {
               (t', re) \<leftarrow> recordProblem E t ''task.cancel_unconfirmed'' (problemFromError err);
               State_Monad.return (t', if re \<noteq> None then re else Some err)
             }
           | Inr ob \<Rightarrow> applyObservation E H t ob
         }
     }
   }"

section \<open>Every callback is a legal change\<close>

lemma hub_callbacks_ok:
  "callback_ok hub_change (apply_status ob now)" "callback_ok hub_change (apply_artifact_update src u now)"
  "callback_ok hub_change (set_problem kind p reset now)" "callback_ok hub_change (start_delivery now)"
  "callback_ok hub_change (request_cancel now)"
proof -
  show "callback_ok hub_change (apply_status ob now)"
    by (auto simp: callback_ok_def hub_change_def apply_status_def Let_def shouldApplyState_def split: option.splits if_splits)
qed (auto simp: callback_ok_def hub_change_def apply_artifact_update_def mergeArtifact_def set_problem_def
    start_delivery_def request_cancel_def)

section \<open>Every call takes legal steps only\<close>

lemma safe_hub_GetAgent [hub_safe]: "env_ok E \<Longrightarrow> safe E (hub_GetAgent E tn i)"
  by (simp add: hub_GetAgent_def safe_store_get)

lemma safe_hub_PutAgent [hub_safe]: "env_ok E \<Longrightarrow> safe E (hub_PutAgent E a)"
  by (auto simp: hub_PutAgent_def outbox_inbox_plain intro!: safe_store_op_plain do_PutAgent)

text \<open>Tenant identifiers without NUL bytes keep the keys of different tenants apart; tasks read from the
  store have such tenants, and so have the tasks the operations return.\<close>

abbreviation tenant_ok :: "task \<Rightarrow> bool" where
  "tenant_ok t \<equiv> nul_free (Task_TenantID t)"

abbreviation task_ok :: "task \<Rightarrow> bool" where
  "task_ok t \<equiv> tenant_ok t \<and> Task_ID t \<noteq> ''''"

text \<open>What a call returns next to a nil error is a task of the store, so it has an identifier.\<close>

abbreviation outcome_ok :: "task_outcome \<Rightarrow> bool" where
  "outcome_ok r \<equiv> tenant_ok (fst r) \<and> (snd r = None \<longrightarrow> Task_ID (fst r) \<noteq> '''')"

lemma tenant_ok_zero [simp]: "tenant_ok zero_task"
  by (simp add: zero_task_def nul_free_def)

lemma ApplyTaskVersion_tenant:
  assumes "store_inv s" "callback_ok M m"
  shows "case fst (ApplyTaskVersion io nid tn i r dk m s) of (t, ch, e) \<Rightarrow> outcome_ok (t, e)"
proof (cases "tasks s (resourceKey tn i)")
  case None
  then show ?thesis by (simp add: ApplyTaskVersion_def Let_def)
next
  case (Some c)
  then have c: "task_ok c" using store_invD(8) [OF assms(1)] by (simp add: tenants_inv_def)
  show ?thesis
  proof (cases "m c")
    case (Inl e)
    with Some c show ?thesis by (simp add: ApplyTaskVersion_def Let_def)
  next
    case (Inr p)
    obtain ev t where p: "p = (ev, t)" by fastforce
    with Inr assms(2) have "Task_TenantID t = Task_TenantID c" "Task_ID t = Task_ID c" unfolding callback_ok_def by metis+
    with c have "task_ok t" by simp
    with Some Inr p c show ?thesis
      by (simp add: ApplyTaskVersion_def Let_def split: prod.split option.split)
  qed
qed

lemma post_ApplyTask:
  assumes "env_ok E" "callback_ok hub_change m"
  shows "safe_post E (hub_ApplyTask E tn i dk m) (\<lambda>(t, ch, e). outcome_ok (t, e))"
  unfolding hub_ApplyTask_def ApplyTask_def
proof (rule safe_store_op_post [OF assms(1)])
  fix io nid s assume s: "store_inv s" "unused s nid"
  then have "store_step (\<lambda>_. True) hub_change 0 s (snd (ApplyTaskVersion (io 0) nid tn i 0 dk m s))"
    using assms(2) by (auto simp: unused_def fresh_id_def intro: do_ApplyTask)
  then show "hub_steps s (snd (ApplyTaskVersion (io 0) nid tn i 0 dk m s)) \<and>
      dom (outbox (snd (ApplyTaskVersion (io 0) nid tn i 0 dk m s))) \<subseteq> insert nid (dom (outbox s)) \<and>
      dom (inbox (snd (ApplyTaskVersion (io 0) nid tn i 0 dk m s))) \<subseteq> insert nid (dom (inbox s)) \<and>
      (case fst (ApplyTaskVersion (io 0) nid tn i 0 dk m s) of (t, ch, e) \<Rightarrow> outcome_ok (t, e))"
    using task_ops_ids(2) ApplyTaskVersion_tenant [OF s(1) assms(2), of "io 0" nid tn i 0 dk]
    by (auto intro: hub_step simp: split_beta)
qed

lemma post_CreateTask:
  assumes "env_ok E" "task_ok t"
  shows "safe_post E (hub_CreateTask E t e) (\<lambda>r. \<forall>t'. r = Inr t' \<longrightarrow> task_ok t')"
  unfolding hub_CreateTask_def
proof (rule safe_store_op_post [OF assms(1)])
  fix io nid s assume "unused s nid"
  then have "store_step (\<lambda>_. True) hub_change 0 s (snd (CreateTask (io 0) nid t e s))"
    using assms(2) by (auto simp: unused_def fresh_id_def intro: do_CreateTask)
  moreover have "\<forall>t'. fst (CreateTask (io 0) nid t e s) = Inr t' \<longrightarrow> task_ok t'"
    using assms(2) by (auto simp: CreateTask_def Let_def split: prod.split option.split)
  ultimately show "hub_steps s (snd (CreateTask (io 0) nid t e s)) \<and>
      dom (outbox (snd (CreateTask (io 0) nid t e s))) \<subseteq> insert nid (dom (outbox s)) \<and>
      dom (inbox (snd (CreateTask (io 0) nid t e s))) \<subseteq> insert nid (dom (inbox s)) \<and>
      (\<forall>t'. fst (CreateTask (io 0) nid t e s) = Inr t' \<longrightarrow> task_ok t')"
    using task_ops_ids(1) by (blast intro: hub_step)
qed

lemma post_GetTask: "env_ok E \<Longrightarrow> safe_post E (store_get E (\<lambda>_. GetTask tn i)) (\<lambda>r. \<forall>t. r = Inr t \<longrightarrow> task_ok t)"
  by (rule safe_store_get_post)
    (auto simp: GetTask_def store_inv_def tenants_inv_def split: option.splits)

text \<open>The rule of sequencing after an operation on tasks: the rest may assume a good tenant.\<close>

lemma task_bind:
  "env_ok E \<Longrightarrow> callback_ok hub_change m \<Longrightarrow>
     (\<And>t ch e. outcome_ok (t, e) \<Longrightarrow> safe_post E (f (t, ch, e)) R) \<Longrightarrow>
     safe_post E (State_Monad.bind (hub_ApplyTask E tn i dk m) f) R"
  by (rule safe_post_bind [OF post_ApplyTask]) auto

lemma get_bind:
  "env_ok E \<Longrightarrow> (\<And>e. safe_post E (f (Inl e)) R) \<Longrightarrow> (\<And>t. task_ok t \<Longrightarrow> safe_post E (f (Inr t)) R) \<Longrightarrow>
     safe_post E (State_Monad.bind (store_get E (\<lambda>_. GetTask tn i)) f) R"
  by (rule safe_post_bind [OF post_GetTask]) (auto split: sum.splits, metis old.sum.exhaust)

lemma create_bind:
  "env_ok E \<Longrightarrow> task_ok t0 \<Longrightarrow> (\<And>e. safe_post E (f (Inl e)) R) \<Longrightarrow>
     (\<And>t. task_ok t \<Longrightarrow> safe_post E (f (Inr t)) R) \<Longrightarrow>
     safe_post E (State_Monad.bind (hub_CreateTask E t0 ev) f) R"
  by (rule safe_post_bind [OF post_CreateTask]) (auto, metis old.sum.exhaust)

lemmas task_binds = task_bind [OF _ hub_callbacks_ok(1)] task_bind [OF _ hub_callbacks_ok(2)]
  task_bind [OF _ hub_callbacks_ok(3)] task_bind [OF _ hub_callbacks_ok(4)] task_bind [OF _ hub_callbacks_ok(5)]
  get_bind create_bind


lemma safe_externalize_part [hub_safe]:
  "env_ok E \<Longrightarrow> tenant_ok t \<Longrightarrow> safe E (externalize_part E H t a dk ui pi p)"
  unfolding externalize_part_def Let_def by (intro hub_safe; simp)

lemma safe_externalize_parts [hub_safe]:
  "env_ok E \<Longrightarrow> tenant_ok t \<Longrightarrow> safe E (externalize_parts E H t a dk ui pi ps)"
  by (induction ps arbitrary: pi) (auto intro!: hub_safe)

lemma safe_externalize_updates [hub_safe]:
  "env_ok E \<Longrightarrow> tenant_ok t \<Longrightarrow> safe E (externalize_updates E H t bk i us)"
  by (induction us arbitrary: i) (auto simp: externalizeArtifact_def intro!: hub_safe)

lemma post_apply_updates: "env_ok E \<Longrightarrow> task_ok t \<Longrightarrow> safe_post E (apply_updates E src bk i us t) outcome_ok"
proof (induction us arbitrary: i t)
  case (Cons u us)
  then show ?case
    by (simp only: apply_updates.simps) ((rule task_binds | rule hub_safe | simp)+)
qed (simp add: safe_return)

lemma post_applyObservation:
  assumes "env_ok E" "task_ok t"
  shows "safe_post E (applyObservation E H t ob) outcome_ok"
proof -
  have tn: "tenant_ok t" using assms(2) by simp
  have status: "safe_post E
      (if c then do { now \<leftarrow> ask (e_clock E); (t', _, e) \<leftarrow> hub_ApplyTask E tn i dk (apply_status ob now); State_Monad.return (t', e) }
       else State_Monad.return (t, None)) outcome_ok" for c tn i dk ob
    by (rule task_binds | rule hub_safe | (use assms in simp))+
  have rest: "safe_post E (case r of (t', e) \<Rightarrow> (case e of Some err \<Rightarrow> State_Monad.return (t', Some err)
       | None \<Rightarrow> apply_updates E src bk 0 us t')) outcome_ok" if "outcome_ok r" for r src bk us
    using that assms(1) by (cases r) (auto split: option.split intro!: safe_return post_apply_updates)
  show ?thesis
    unfolding applyObservation_def Let_def
    by (rule safe_bind [OF safe_externalize_updates [OF assms(1) tn]], rule safe_split(3))
      (rule safe_return safe_post_bind [OF status] rest | simp add: assms)+
qed

lemma obs_bind:
  assumes "env_ok E" "task_ok t" "\<And>t' e. outcome_ok (t', e) \<Longrightarrow> safe_post E (f (t', e)) R"
  shows "safe_post E (State_Monad.bind (applyObservation E H t ob) f) R"
  by (rule safe_post_bind [OF post_applyObservation [OF assms(1,2)]]) (use assms(3) in auto)

lemma post_subscribe_loop: "env_ok E \<Longrightarrow> task_ok t \<Longrightarrow> safe_post E (subscribe_loop E H items t) outcome_ok"
proof (induction items arbitrary: t)
  case (Cons item items)
  then show ?case
    by (simp only: subscribe_loop.simps) ((rule obs_bind | rule hub_safe | simp)+)
qed (simp add: safe_return)

lemma post_ReconcileTask:
  assumes "env_ok E"
  shows "safe_post E (ReconcileTask E H tn i sub) outcome_ok"
  unfolding ReconcileTask_def
  by (rule get_bind obs_bind post_subscribe_loop safe_hub_GetAgent | rule hub_safe | (use assms in simp))+

lemma safe_recover_loop: "env_ok E \<Longrightarrow> safe E (recover_loop E H sub ts)"
proof (induction ts)
  case (Cons t ts)
  then show ?case
    by (simp only: recover_loop.simps)
      ((rule safe_weaken [OF post_ReconcileTask] | rule hub_safe | simp)+)
qed (simp add: safe_return)

lemma safe_Recover [hub_safe]: "env_ok E \<Longrightarrow> safe E (Recover E H sub)"
  unfolding Recover_def by (intro hub_safe safe_recover_loop; assumption?)

lemma safe_EnqueueInbox:
  assumes "env_ok E"
  shows "safe E (store_op E (\<lambda>io nid. EnqueueInbox (io 0)
      \<lparr>Inbox_ID = nid, Inbox_TenantID = tn, Inbox_TaskID = i, Inbox_DedupKey = dk,
       Inbox_Protocol = pr, Inbox_Payload = pl, Inbox_CreatedAt = now\<rparr>))"
    (is "safe E (store_op E (\<lambda>io nid. EnqueueInbox (io 0) (?item nid)))")
proof (rule safe_store_op [OF assms])
  fix io nid s assume "unused s nid"
  then have "store_step (\<lambda>_. True) hub_change 0 s (snd (EnqueueInbox (io 0) (?item nid) s))"
    by (auto simp: unused_def intro!: do_EnqueueInbox)
  then show "hub_steps s (snd (EnqueueInbox (io 0) (?item nid) s)) \<and>
      dom (outbox (snd (EnqueueInbox (io 0) (?item nid) s))) \<subseteq> insert nid (dom (outbox s)) \<and>
      dom (inbox (snd (EnqueueInbox (io 0) (?item nid) s))) \<subseteq> insert nid (dom (inbox s))"
    using task_ops_ids(3) [of "io 0" "?item nid" s] by (auto intro: hub_step)
qed

lemma safe_AcceptPush [hub_safe]: "env_ok E \<Longrightarrow> safe E (AcceptPush E H tn i token ob)"
  unfolding AcceptPush_def Let_def
  by (intro hub_safe safe_EnqueueInbox; assumption?)

lemma post_ApplyInboxItem:
  assumes "env_ok E"
  shows "safe_post E (ApplyInboxItem E H item) outcome_ok"
  unfolding ApplyInboxItem_def
  by (rule get_bind post_applyObservation | rule hub_safe | (use assms in simp))+

lemma post_send_loop:
  "env_ok E \<Longrightarrow> task_ok t \<Longrightarrow>
     safe_post E (send_loop E H items t) (\<lambda>r. case r of Inl x \<Rightarrow> outcome_ok x | Inr x \<Rightarrow> task_ok (fst x))"
proof (induction items arbitrary: t)
  case (Cons item items)
  then show ?case
    by (simp only: send_loop.simps) ((rule obs_bind | rule hub_safe | (auto; fail) | simp)+)
qed (simp add: safe_return)

lemma post_after_broken_stream:
  assumes "env_ok E" "task_ok t"
  shows "safe_post E (after_broken_stream E H tn t err) outcome_ok"
proof -
  have rec: "safe_post E (State_Monad.bind (ReconcileTask E H tn i b) f) outcome_ok"
    if "\<And>t' e. outcome_ok (t', e) \<Longrightarrow> safe_post E (f (t', e)) outcome_ok" for i b f
    by (rule safe_post_bind [OF post_ReconcileTask [OF assms(1)]]) (use that in auto)
  show ?thesis
    unfolding after_broken_stream_def Let_def
    by (rule rec task_binds | rule hub_safe | (use assms in simp))+
qed

lemma post_deliver_task:
  assumes "env_ok E" "task_ok t"
  shows "safe_post E (deliver_task E H tn a ps ms push t) outcome_ok"
proof -
  have rest: "safe_post E (State_Monad.bind (send_loop E H items t0) (\<lambda>r. case r of
         Inl (t', err) \<Rightarrow> State_Monad.return (t', err)
       | Inr (t', None) \<Rightarrow> State_Monad.return (t', None)
       | Inr (t', Some streamErr) \<Rightarrow> after_broken_stream E H tn t' streamErr)) outcome_ok"
    if "task_ok t0" for items t0
    by (rule safe_post_bind [OF post_send_loop [OF assms(1) that]])
      (auto split: sum.splits option.splits intro!: safe_return post_after_broken_stream assms(1))
  show ?thesis
    unfolding deliver_task_def Let_def
    by (rule rest task_binds | rule hub_safe | (use assms in simp))+
qed

lemma post_idempotent_answer:
  assumes "env_ok E"
  shows "safe_post E (idempotent_answer E tn key t err) outcome_ok"
  unfolding idempotent_answer_def
  by (rule get_bind | rule hub_safe | (use assms in simp))+

lemma safe_ResolveAgent [hub_safe]: "env_ok E \<Longrightarrow> safe E (ResolveAgent E tn a sk)"
  unfolding ResolveAgent_def by (intro hub_safe; assumption?)

lemma post_push_for:
  assumes "task_ok t"
  shows "safe_post E (push_for E H en a tn t) (\<lambda>r. \<forall>x. r = Inr x \<longrightarrow> task_ok (fst x))"
  unfolding push_for_def using assms
  by (auto intro!: safe_results safe_post_bindE [where Q = "\<lambda>_. True"] safe_ask safe_weaken [OF safe_ask] split: option.split)

lemma safe_discover [hub_safe]: "safe E (discoverWithRegistrationProfiles E u ps)"
  by (simp add: discoverWithRegistrationProfiles_def safe_ask)

lemma safe_ValidateAgentRegistration [hub_safe]: "safe E (ValidateAgentRegistration E H tn input P)"
  unfolding ValidateAgentRegistration_def by (intro hub_safe)

lemma safe_RegisterAgentWithPolicy [hub_safe]: "env_ok E \<Longrightarrow> safe E (RegisterAgentWithPolicy E H tn input P)"
  unfolding RegisterAgentWithPolicy_def Let_def by (intro hub_safe; assumption?)

lemma safe_RefreshAgent [hub_safe]: "env_ok E \<Longrightarrow> safe E (RefreshAgent E H txt tn i)"
  unfolding RefreshAgent_def Let_def by (intro hub_safe; assumption?)

lemma post_continue_loop:
  "env_ok E \<Longrightarrow> task_ok t \<Longrightarrow> safe_post E (continue_loop E H items seen t) outcome_ok"
proof (induction items arbitrary: seen t)
  case (Cons item items)
  then show ?case
    by (simp only: continue_loop.simps) ((rule obs_bind | rule hub_safe | (auto; fail) | simp)+)
qed (simp add: safe_return)

lemma post_ContinueTask:
  assumes "env_ok E"
  shows "safe_post E (ContinueTask E H tn i txt ps) outcome_ok"
proof -
  have prep: "safe E (bindE (hub_GetAgent E tn a) (\<lambda>x. bindE (MaterializeMessageParts E (H_Lib H) (H_Artifacts H) tn ps) (\<lambda>y. ok (x, y))))"
    for a ps by (intro hub_safe assms)
  show ?thesis
    unfolding ContinueTask_def Let_def
    by (rule get_bind post_continue_loop safe_bind [OF prep] | rule hub_safe | (use assms in simp))+
qed

lemma post_recordProblem:
  assumes "env_ok E" "tenant_ok t"
  shows "safe_post E (recordProblem E t k p) outcome_ok"
  unfolding recordProblem_def
  by (rule task_binds | rule hub_safe | (use assms in simp))+

lemma post_CancelTask:
  assumes "env_ok E"
  shows "safe_post E (CancelTask E H tn i) outcome_ok"
proof -
  have rp: "safe_post E (State_Monad.bind (recordProblem E t k p) f) outcome_ok"
    if "tenant_ok t" "\<And>t' e. outcome_ok (t', e) \<Longrightarrow> safe_post E (f (t', e)) outcome_ok" for t k p f
    by (rule safe_post_bind [OF post_recordProblem [OF assms that(1)]]) (use that(2) in auto)
  show ?thesis
    unfolding CancelTask_def
    by (rule rp task_binds post_applyObservation | rule hub_safe | (use assms in \<open>auto; fail\<close>) | (use assms in simp))+
qed

lemma new_task_tenant [simp]: "Task_TenantID (new_task L tn a input ps ex md ids key now) = tn"
  "Task_ID (new_task L tn a input ps ex md ids key now) = fst ids"
  by (simp_all add: new_task_def Let_def split_beta)

lemma stable_ids_nonempty [simp]: "id1 \<noteq> '''' \<Longrightarrow> fst (stable_ids L tn a key id1 id2) \<noteq> ''''"
  by (simp add: stable_ids_def Let_def)

text \<open>A drawn identifier is not empty.\<close>

lemma id_bind:
  assumes "\<And>i. i \<noteq> '''' \<Longrightarrow> safe_post E (f i) R"
  shows "safe_post E (State_Monad.bind (ask (e_id E)) f) R"
proof (rule safe_post_bind [where Q = "\<lambda>i. i \<noteq> ''''"])
  show "safe_post E (ask (e_id E)) (\<lambda>i. i \<noteq> '''')"
    by (auto simp: safe_post_def ask_def world_ok_def unused_def)
qed (rule assms)

lemma safe_bindE_post:
  "safe E m \<Longrightarrow> (\<And>x. safe_post E (f x) R) \<Longrightarrow> (\<And>e. R (Inl e)) \<Longrightarrow> safe_post E (bindE m f) R"
  by (rule safe_post_bindE [where Q = "\<lambda>_. True"]) (auto elim: safe_weaken)

abbreviation proposal_ok :: "(agent \<times> part list \<times> task \<times> push_config option) result \<Rightarrow> bool" where
  "proposal_ok r \<equiv> \<forall>x. r = Inr x \<longrightarrow> task_ok (fst (snd (snd x)))"

lemma post_proposal:
  assumes "task_ok t"
  shows "safe_post E (bindE (push_for E H en a tn t) (\<lambda>(t', push). ok (a, ps, t', push))) proposal_ok"
  by (rule safe_post_bindE [OF post_push_for [OF assms]]) (auto intro: safe_results)

lemma proposal_bind:
  assumes "env_ok E" "safe_post E m proposal_ok" "\<And>e. safe_post E (f (Inl e)) outcome_ok"
    "\<And>a ps t push. task_ok t \<Longrightarrow> safe_post E (f (Inr (a, ps, t, push))) outcome_ok"
  shows "safe_post E (State_Monad.bind m f) outcome_ok"
proof (rule safe_post_bind [OF assms(2)])
  fix r assume "proposal_ok r"
  then show "safe_post E (f r) outcome_ok" by (cases r) (auto intro: assms(3,4))
qed

lemma post_SubmitTask:
  assumes "env_ok E" "nul_free tn"
  shows "safe_post E (SubmitTask E H tn input) outcome_ok"
  unfolding SubmitTask_def Let_def
  by (rule proposal_bind post_proposal safe_bindE_post create_bind post_deliver_task post_idempotent_answer
        safe_ResolveAgent safe_MaterializeMessageParts id_bind safe_bind [OF safe_ask]
      | rule safe_return safe_results safe_split | (use assms in simp))+

lemma safe_Service_RevokeToken [hub_safe]: "env_ok E \<Longrightarrow> safe E (Service_RevokeToken E tn input)"
proof -
  assume E: "env_ok E"
  have "safe E (store_op E (\<lambda>io nid. RevokeToken_store (io 0) v))" for v
    by (rule safe_store_op_plain [OF E]) (auto simp: outbox_inbox_plain intro: do_RevokeToken)
  then show ?thesis
    unfolding Service_RevokeToken_def Let_def by (intro hub_safe; assumption?)
qed

end
