(* ===== verification/Hub_Guarantees.thy ===== *)
theory Hub_Guarantees
  imports Federation_Service
begin

text \<open>
  Consequences of the store protocol that the properties use: what happens to one task, one inbox item
  and one outbox item over any interleaving of operations, what a service call promises
  (\<open>promise\<close>), and small concrete states and environments for the examples.
\<close>

section \<open>One task over many operations\<close>

lemma legal_tasks:
  assumes "legal M s r" "tasks s k = Some t" and M: "reflp M"
  shows "\<exists>t'. tasks (applyRecord r s) k = Some t' \<and> M t t'"
  using assms(1)
proof (cases rule: legalE, assumption)
  fix t' e assume *: "r = task_record t' e" "tasks s (resourceKey (Task_TenantID t') (Task_ID t')) = None"
  then show ?thesis using assms(2) reflpD [OF M] by (cases "k = resourceKey (Task_TenantID t') (Task_ID t')") auto
next
  fix t' c e assume *: "r = task_record t' e" "tasks s (resourceKey (Task_TenantID t') (Task_ID t')) = Some c" "M c t'"
  then show ?thesis using assms(2) reflpD [OF M] by (cases "k = resourceKey (Task_TenantID t') (Task_ID t')") auto
qed (use assms(2) reflpD [OF M] in auto)

lemma run_tasks:
  assumes "run C M s s'" "tasks s k = Some t"
    and M: "reflp M" "transp M"
  shows "\<exists>t'. tasks s' k = Some t' \<and> M t t'"
  using assms(1)
proof (rule run_invariant [where I = "\<lambda>s. \<exists>t'. tasks s k = Some t' \<and> M t t'"])
  show "\<exists>t'. tasks s k = Some t' \<and> M t t'" using assms(2) reflpD [OF M(1)] by blast
next
  fix s r assume "legal M s r" "\<exists>t'. tasks s k = Some t' \<and> M t t'"
  then obtain t' where "tasks s k = Some t'" "M t t'" by blast
  with legal_tasks [OF \<open>legal M s r\<close> this(1) M(1)]
  show "\<exists>t'. tasks (applyRecord r s) k = Some t' \<and> M t t'" by (blast intro: transpD [OF M(2)])
qed auto

lemma store_steps_tasks:
  assumes "store_steps C M p s s'" "store_inv s" "tasks s k = Some t"
    and M: "reflp M" "transp M"
  shows "\<exists>t'. tasks s' k = Some t' \<and> M t t'"
  using assms(1-3)
proof (induction rule: rtranclp_induct)
  case base
  then show ?case using reflpD [OF M(1)] by blast
next
  case (step y z)
  then obtain u where u: "tasks y k = Some u" "M t u" by blast
  have "store_inv y" using store_steps_keep [OF step.hyps(1)] step.prems by blast
  with step.hyps(2) show ?case
  proof (cases rule: store_step_cases)
    case run
    obtain v where "tasks z k = Some v" "M u v" using run_tasks [OF run u(1) M] by blast
    with transpD [OF M(2) u(2)] show ?thesis by blast
  next
    case (prune ks now)
    with u show ?thesis by (auto simp: PruneRevocations_state)
  qed
qed

lemma hub_steps_tasks:
  assumes "hub_steps s s'" "store_inv s" "tasks s k = Some t"
  shows "\<exists>t'. tasks s' k = Some t' \<and> hub_change t t'"
  by (rule store_steps_tasks [OF assms]) (auto intro!: reflpI transpI intro: hub_change_refl hub_change_trans)

text \<open>The deduplication keys of a task and of the inbox are never forgotten.\<close>

lemma store_steps_dedup:
  assumes "store_steps C M p s s'" "store_inv s"
  shows "dedupKeys s k \<subseteq> dedupKeys s' k"
proof (cases "tasks s k")
  case None
  with store_invD(1) [OF assms(2)] show ?thesis by (simp add: task_invD(4))
next
  case (Some t)
  have s': "store_inv s'" "advanced s s'" using store_steps_keep [OF assms] by auto
  then obtain t' where t': "tasks s' k = Some t'" using Some by (auto simp: advanced_def dest!: domD subsetD)
  obtain es where "events s' k = events s k @ es" using s'(2) unfolding advanced_def by blast
  then show ?thesis
    using task_invD(2) [OF store_invD(1) [OF assms(2)] Some] task_invD(2) [OF store_invD(1) [OF s'(1)] t']
    by (auto simp: log_ok_def)
qed

lemma store_steps_inbox:
  assumes "store_steps C M p s s'" "store_inv s" "inbox s i = Some item"
  shows "inbox s' i = Some item" and "inboxDedup s' (inboxDedupKey item) = Some i"
proof -
  have s': "store_inv s'" "advanced s s'" using store_steps_keep [OF assms(1,2)] by auto
  then show *: "inbox s' i = Some item"
    using assms(3) by (force simp: advanced_def map_le_def dom_def)
  show "inboxDedup s' (inboxDedupKey item) = Some i"
    using * store_invD(3) [OF s'(1)] by (simp add: inbox_dedup_inv_def)
qed

text \<open>A workflow over many operations: its plan is fixed and its started steps stay started.\<close>

lemma run_flows:
  assumes "run C M s s'" "workflows s k = Some w"
  shows "\<exists>w'. workflows s' k = Some w' \<and> flow_change w w'"
  using assms(1)
proof (rule run_invariant [where I = "\<lambda>s. \<exists>w'. workflows s k = Some w' \<and> flow_change w w'"])
  show "\<exists>w'. workflows s k = Some w' \<and> flow_change w w'" using assms(2) flow_change_refl by blast
next
  fix s r assume "legal M s r" "\<exists>w'. workflows s k = Some w' \<and> flow_change w w'"
  then obtain w' where "workflows s k = Some w'" "flow_change w w'" by blast
  with legal_flows [OF \<open>legal M s r\<close> this(1)]
  show "\<exists>w'. workflows (applyRecord r s) k = Some w' \<and> flow_change w w'" by (blast intro: flow_change_trans)
qed auto

lemma store_steps_flows:
  assumes "store_steps C M p s s'" "store_inv s" "workflows s k = Some w"
  shows "\<exists>w'. workflows s' k = Some w' \<and> flow_change w w'"
  using assms
proof (induction rule: rtranclp_induct)
  case base
  then show ?case using flow_change_refl by blast
next
  case (step y z)
  then obtain u where u: "workflows y k = Some u" "flow_change w u" by blast
  have "store_inv y" using store_steps_keep [OF step.hyps(1)] step.prems by blast
  with step.hyps(2) show ?case
  proof (cases rule: store_step_cases)
    case run
    obtain v where "workflows z k = Some v" "flow_change u v" using run_flows [OF run u(1)] by blast
    with flow_change_trans [OF u(2)] show ?thesis by blast
  next
    case (prune ks now)
    with u show ?thesis by (auto simp: PruneRevocations_state)
  qed
qed

section \<open>What a service call promises\<close>

text \<open>From a good world, under any interleaving with other operations of the store: the invariants of
  the store hold afterwards, its logs have only grown, every task it had has at most made changes
  that \<open>hub_change\<close> allows, and every workflow at most changes that \<open>flow_change\<close> allows.\<close>

definition promise :: "hub_env \<Rightarrow> 'a hub \<Rightarrow> bool" where
  "promise E m \<longleftrightarrow> (\<forall>w x w'. world_ok E w \<longrightarrow> run_state m w = (x, w') \<longrightarrow>
     world_ok E w' \<and> advanced (w_store w) (w_store w') \<and>
     (\<forall>k t. tasks (w_store w) k = Some t \<longrightarrow> (\<exists>t'. tasks (w_store w') k = Some t' \<and> hub_change t t')) \<and>
     (\<forall>k f. workflows (w_store w) k = Some f \<longrightarrow> (\<exists>f'. workflows (w_store w') k = Some f' \<and> flow_change f f')))"

lemma safe_promise:
  assumes "safe_post E m Q"
  shows "promise E m"
  unfolding promise_def
proof (intro allI impI conjI)
  fix w x w' assume w: "world_ok E w" "run_state m w = (x, w')"
  then have *: "world_ok E w'" "hub_steps (w_store w) (w_store w')" "store_inv (w_store w)"
    using assms unfolding safe_post_def world_ok_def by blast+
  then show "world_ok E w'" "advanced (w_store w) (w_store w')"
    using store_steps_keep [OF *(2,3)] by simp_all
  fix k t assume "tasks (w_store w) k = Some t"
  with * show "\<exists>t'. tasks (w_store w') k = Some t' \<and> hub_change t t'" by (intro hub_steps_tasks)
next
  fix w x w' k f assume "world_ok E w" "run_state m w = (x, w')" "workflows (w_store w) k = Some f"
  then show "\<exists>f'. workflows (w_store w') k = Some f' \<and> flow_change f f'"
    using assms unfolding safe_post_def world_ok_def by (blast intro: store_steps_flows)
qed

section \<open>Concrete states for the examples\<close>

definition example_task :: "string \<Rightarrow> task" where
  "example_task i = zero_task\<lparr>Task_ID := i, Task_TenantID := ''t'', Task_RemoteTaskID := ''r'', Task_State := TaskStateWorking\<rparr>"

definition example_store :: journal_store where
  "example_store = snd (CreateTask Io_ok ''e1'' (example_task ''a'') zero_event (empty_store (Some [])))"

lemma example_step:
  assumes "C Io_ok"
  shows "store_step C M p (empty_store (Some [])) example_store"
  unfolding example_store_def
  by (rule do_CreateTask) (simp_all add: assms fresh_id_def empty_store_def example_task_def zero_task_def nul_free_def nul_def)

lemma example_steps: "C Io_ok \<Longrightarrow> store_steps C M p (empty_store (Some [])) example_store"
  by (rule r_into_rtranclp) (rule example_step)

lemma example_inv: "store_inv example_store"
  using store_steps_keep [OF example_steps [of "\<lambda>_. True" "\<lambda>_ _. True" 0] store_inv_empty] by simp

lemma example_jfile: "jfile example_store \<noteq> None"
  by (simp add: example_store_def CreateTask_def Let_def empty_store_def commit_def append_record_def)

lemma example_tasks:
  "tasks example_store = [resourceKey ''t'' ''a'' \<mapsto> (example_task ''a'')\<lparr>Task_Revision := 1, Task_LastSequence := 1\<rparr>]"
  by (simp add: example_store_def CreateTask_def Let_def empty_store_def commit_def append_record_def
      example_task_def zero_task_def)

lemma example_enumerates: "enumerates [resourceKey ''t'' ''a''] (tasks example_store)"
  by (simp add: enumerates_def example_tasks)

lemma example_events:
  "events example_store = (\<lambda>_. [])(resourceKey ''t'' ''a'' := [zero_event\<lparr>Event_ID := ''e1'', Event_TaskID := ''a'',
     Event_TenantID := ''t'', Event_Sequence := 1, Event_DedupKey := ''local:e1''\<rparr>])"
  by (simp add: example_store_def CreateTask_def Let_def empty_store_def commit_def append_record_def
      example_task_def zero_task_def zero_event_def)

lemma example_leases: "leases example_store = Map.empty"
  by (simp add: example_store_def CreateTask_def Let_def empty_store_def commit_def append_record_def
      apply_task_def put_outbox_def split: option.split)

definition example_env :: hub_env where
  "example_env =
     \<lparr>e_other = (\<lambda>_ s. s), e_io = (\<lambda>_ _. Io_ok), e_id = (\<lambda>n. replicate (Suc n) (CHR ''x'')), e_clock = int,
      e_token = (\<lambda>_. Inr ''token''), e_agents = (\<lambda>_ _. []), e_tasks = (\<lambda>_ _. []),
      e_Discover = (\<lambda>_ _. Inl (ErrText ''down'')), e_DiscoverWithProfiles = (\<lambda>_ _ _. Inl (ErrText ''down'')),
      e_Send = (\<lambda>_ _ _. []), e_Get = (\<lambda>_ _ _. Inl (ErrText ''down'')), e_Cancel = (\<lambda>_ _ _. Inl (ErrText ''down'')),
      e_Subscribe = (\<lambda>_ _ _. []), e_fetch = (\<lambda>_ _. Inl (ErrText ''down'')), e_temp = (\<lambda>_. None),
      e_scan = (\<lambda>_ _. (ArtifactScanClean, None)), e_put = (\<lambda>_ _ _ _. None),
      e_open = (\<lambda>_ _ _. Inl (ErrText ''down'')), e_delete = (\<lambda>_ _ _. None)\<rparr>"

lemma example_env_ok: "env_ok example_env"
  by (auto simp: env_ok_def example_env_def inj_def)

lemma example_world_ok: "world_ok example_env \<lparr>w_store = empty_store None, w_tick = 0\<rparr>"
  by (simp add: world_ok_def store_inv_empty example_env_def unused_def) (simp add: empty_store_def)

lemma callback_keeps_identity: "callback_ok M m \<Longrightarrow> vtask.keeps_identity m"
  unfolding vtask.keeps_identity_def callback_ok_def by metis

lemma applied_dedup:
  assumes "store_inv s" "tasks s (resourceKey tn i) = Some t" "dk \<noteq> ''''" "callback_ok M m"
    and "ApplyTaskVersion io nid tn i 0 dk m s = ((c, True, None), s1)"
  shows "dk \<in> dedupKeys s1 (resourceKey tn i) \<and> tasks s1 (resourceKey tn i) = Some c"
proof -
  have "ApplyTaskVersion io nid tn i 0 dk m s1 = ((c, False, None), s1)"
    by (rule vtask.redelivery_is_noop [OF assms(2) _ assms(3) callback_keeps_identity [OF assms(4)] assms(5)])
      (simp add: task_invD(1) [OF store_invD(1) [OF assms(1)] assms(2)])
  then show ?thesis
    by (auto simp: ApplyTaskVersion_def Let_def split: option.splits if_splits sum.splits prod.splits)
qed

lemma apply_task_inv:
  assumes "store_inv s" "callback_ok M m" "fresh_id s nid"
  shows "store_inv (snd (ApplyTaskVersion io nid tn i r dk m s))"
proof -
  have "store_step (\<lambda>_. True) M 0 s (snd (ApplyTaskVersion io nid tn i r dk m s))"
    by (rule do_ApplyTask) (use assms in simp_all)
  then show ?thesis using store_step_keeps(1) assms(1) by blast
qed

lemma example_fresh: "fresh_id example_store ''e2''"
  by (simp add: fresh_id_def example_store_def CreateTask_def Let_def empty_store_def commit_def append_record_def)

lemma commit_Io_ok_succeeds: "commit Io_ok r s \<noteq> (Some e, s')"
  using commit_Io_ok [of r s] by auto

lemma example_not_seen: "''k'' \<notin> dedupKeys example_store (resourceKey ''t'' ''a'')"
  by (simp add: example_store_def CreateTask_def Let_def empty_store_def commit_def append_record_def
      example_task_def zero_task_def zero_event_def)

lemma example_apply:
  "\<exists>c s'. ApplyTaskVersion Io_ok ''e2'' ''t'' ''a'' 1 '''' (request_cancel 5) example_store = ((c, True, None), s')"
  "\<exists>c s'. ApplyTaskVersion Io_ok ''e2'' ''t'' ''a'' 0 ''k'' (request_cancel 5) example_store = ((c, True, None), s')"
  by (simp_all add: ApplyTaskVersion_def Let_def example_tasks request_cancel_def example_not_seen commit_Io_ok_succeeds
      split: prod.split option.split)

text \<open>The same store without a journal file, one claim of its task and one of its outbox item.\<close>

definition example_mem :: journal_store where
  "example_mem = snd (CreateTask Io_ok ''e1'' (example_task ''a'') zero_event (empty_store None))"

lemma commit_in_memory: "jfile s = None \<Longrightarrow> commit io r s = (None, applyRecord r s)"
  by (simp add: commit_def append_record_def)

lemma example_mem_step: "C Io_ok \<Longrightarrow> store_step C M p (empty_store None) example_mem"
  unfolding example_mem_def
  by (rule do_CreateTask) (simp_all add: fresh_id_def empty_store_def example_task_def zero_task_def nul_free_def nul_def)

lemma example_mem_inv: "store_inv example_mem"
  using store_step_keeps(1) [OF example_mem_step [of "\<lambda>_. True" "\<lambda>_ _. True" 0] store_inv_empty] by simp

lemma example_mem_sel:
  "jfile example_mem = None" "leases example_mem = Map.empty" "inbox example_mem = Map.empty"
  "inboxStates example_mem = Map.empty" "outboxStates example_mem = Map.empty"
  "tasks example_mem = [resourceKey ''t'' ''a'' \<mapsto> (example_task ''a'')\<lparr>Task_Revision := 1, Task_LastSequence := 1\<rparr>]"
  "outbox example_mem = [''e1'' \<mapsto> outboxFromEvent (zero_event\<lparr>Event_ID := ''e1'', Event_TaskID := ''a'',
     Event_TenantID := ''t'', Event_Sequence := 1, Event_DedupKey := ''local:e1''\<rparr>)]"
  "artifactUsage example_mem = Map.empty" "artifactObjects example_mem = Map.empty" "revocations example_mem = Map.empty"
  by (simp_all add: example_mem_def CreateTask_def Let_def empty_store_def commit_def append_record_def
      example_task_def zero_task_def zero_event_def apply_task_def put_outbox_def outboxFromEvent_def)

lemma example_claim:
  "\<exists>l s1. ClaimRecoverable (\<lambda>_. Io_ok) [resourceKey ''t'' ''a''] ''w1'' 1 0 10 example_mem = (Inr [l], s1) \<and>
     work_lease_key l = resourceKey ''t'' ''a'' \<and> tasks s1 = tasks example_mem \<and>
     ClaimRecoverable (\<lambda>_. Io_ok) [resourceKey ''t'' ''a''] ''w2'' 1 5 10 s1 = (Inr [], s1)"
  by (simp add: ClaimRecoverable_def recoverable_keys_def claimable_task_def lease_free_def example_mem_sel get_or_def
      zero_leaseState_def claim_one_task_def Let_def commit_in_memory work_lease_key_def example_task_def zero_task_def
      zero_time_def apply_lease_def)

lemma example_claim_outbox:
  "\<exists>l s1. ClaimOutbox (\<lambda>_. Io_ok) [''e1''] ''w1'' 1 0 10 example_mem = (Inr [l], s1) \<and>
     Outbox_ID (OutboxLease_Item l) = ''e1'' \<and> outbox s1 = outbox example_mem \<and> jfile s1 = None \<and>
     outboxStates s1 = [''e1'' \<mapsto> zero_outboxState\<lparr>OState_Owner := ''w1'', OState_ExpiresAt := 10, OState_Attempt := 1\<rparr>] \<and>
     OutboxLease_Owner l = ''w1'' \<and>
     ClaimOutbox (\<lambda>_. Io_ok) [''e1''] ''w2'' 1 5 10 s1 = (Inr [], s1)"
  by (simp add: ClaimOutbox_def outbox_keys_def outbox_free_def example_mem_sel get_or_def
      zero_outboxState_def claim_one_outbox_def Let_def commit_in_memory zero_time_def apply_outbox_state_def
      outboxFromEvent_def)

text \<open>A pushed observation in the inbox.\<close>

definition example_item :: inbox_item where
  "example_item = \<lparr>Inbox_ID = ''i1'', Inbox_TenantID = ''t'', Inbox_TaskID = ''a'', Inbox_DedupKey = ''k'',
     Inbox_Protocol = ''a2a'', Inbox_Payload = PayloadRaw '''', Inbox_CreatedAt = 0\<rparr>"

definition example_inbox :: journal_store where
  "example_inbox = snd (EnqueueInbox Io_ok example_item example_mem)"

lemma example_inbox_step: "C Io_ok \<Longrightarrow> store_step C M p example_mem example_inbox"
  unfolding example_inbox_def by (rule do_EnqueueInbox) (simp_all add: example_mem_sel)

lemma example_inbox_inv: "store_inv example_inbox"
  using store_step_keeps(1) [OF example_inbox_step [of "\<lambda>_. True" "\<lambda>_ _. True" 0] example_mem_inv] by simp

lemma example_dedup: "inboxDedup example_mem = Map.empty"
  by (simp add: example_mem_def CreateTask_def Let_def empty_store_def commit_def append_record_def
      apply_task_def put_outbox_def)

lemma example_enqueue: "EnqueueInbox Io_ok example_item example_mem = (Inr True, example_inbox)"
  by (simp add: example_inbox_def EnqueueInbox_def example_dedup commit_in_memory example_mem_sel)
    (simp add: example_item_def)

lemma example_inbox_sel:
  "jfile example_inbox = None" "inbox example_inbox = [''i1'' \<mapsto> example_item]" "inboxStates example_inbox = Map.empty"
  by (simp_all add: example_inbox_def EnqueueInbox_def example_dedup commit_in_memory example_mem_sel apply_inbox_def)
    (simp_all add: example_item_def example_mem_sel)

lemma example_claim_inbox:
  "\<exists>l s1. ClaimInbox (\<lambda>_. Io_ok) [''i1''] ''w1'' 1 0 10 example_inbox = (Inr [l], s1) \<and>
     Inbox_ID (InboxLease_Item l) = ''i1'' \<and> inbox s1 = inbox example_inbox \<and>
     ClaimInbox (\<lambda>_. Io_ok) [''i1''] ''w2'' 1 5 10 s1 = (Inr [], s1)"
  by (simp add: ClaimInbox_def inbox_keys_def inbox_free_def example_inbox_sel get_or_def
      zero_inboxState_def claim_one_inbox_def Let_def commit_in_memory zero_time_def apply_inbox_state_def
      example_item_def)

section \<open>What a claim takes\<close>

lemma claim_loop_keys:
  assumes step: "takes_key I T V (\<lambda>l k. key l = k \<and> P l) f body"
    and "I s" "distinct sel" "set sel \<subseteq> T s" "claim_loop body io sel s = (Inr ls, s')"
  shows "map key ls = sel"
  using claim_loop_run [OF assms] list_all2_keys [where key = key and P = P and ls = ls and ks = sel] by simp

lemma claims_take:
  assumes "store_inv s"
  shows "enumerates ks (tasks s) \<Longrightarrow> ClaimRecoverable io ks w n now d s = (Inr ls, s') \<Longrightarrow>
      map work_lease_key ls = recoverable_keys ks n now s"
    and "enumerates ks (inbox s) \<Longrightarrow> ClaimInbox io ks w n now d s = (Inr ls', s') \<Longrightarrow>
      map (\<lambda>l. Inbox_ID (InboxLease_Item l)) ls' = inbox_keys ks n now s"
    and "enumerates ks (outbox s) \<Longrightarrow> ClaimOutbox io ks w n now d s = (Inr ls'', s') \<Longrightarrow>
      map (\<lambda>l. Outbox_ID (OutboxLease_Item l)) ls'' = outbox_keys ks n now s"
proof -
  assume *: "enumerates ks (tasks s)" "ClaimRecoverable io ks w n now d s = (Inr ls, s')"
  show "map work_lease_key ls = recoverable_keys ks n now s"
    by (rule claim_loop_keys [OF claim_one_task_step [where w = w and now = now and d = d] store_invD(1) [OF assms]])
      (use * recoverable_keys_props [where ks = ks and n = n and now = now and s = s] in
        \<open>auto simp: enumerates_def ClaimRecoverable_def split: if_splits\<close>)
next
  assume *: "enumerates ks (inbox s)" "ClaimInbox io ks w n now d s = (Inr ls', s')"
  show "map (\<lambda>l. Inbox_ID (InboxLease_Item l)) ls' = inbox_keys ks n now s"
    by (rule claim_loop_keys [OF claim_one_inbox_step [where w = w and now = now and d = d] store_invD(2) [OF assms]])
      (use * inbox_keys_props [where ks = ks and n = n and now = now and s = s] in
        \<open>auto simp: enumerates_def ClaimInbox_def split: if_splits\<close>)
next
  assume *: "enumerates ks (outbox s)" "ClaimOutbox io ks w n now d s = (Inr ls'', s')"
  show "map (\<lambda>l. Outbox_ID (OutboxLease_Item l)) ls'' = outbox_keys ks n now s"
    by (rule claim_loop_keys [OF claim_one_outbox_step [where w = w and now = now and d = d] store_invD(4) [OF assms]])
      (use * outbox_keys_props [where ks = ks and n = n and now = now and s = s] in
        \<open>auto simp: enumerates_def ClaimOutbox_def split: if_splits\<close>)
qed

lemma take_sort_best:
  fixes f :: "'a \<Rightarrow> 'b::linorder"
  assumes "x \<in> set (take n (sort_key f xs))" "y \<in> set xs" "y \<notin> set (take n (sort_key f xs))"
  shows "f x \<le> f y"
proof -
  have "y \<in> set (take n (sort_key f xs) @ drop n (sort_key f xs))" using assms(2) by simp
  then have "y \<in> set (drop n (sort_key f xs))" using assms(3) by (simp only: set_append Un_iff) simp
  moreover have "sorted (map f (take n (sort_key f xs)) @ map f (drop n (sort_key f xs)))"
    by (simp flip: map_append)
  ultimately show ?thesis using assms(1) by (fastforce simp: sorted_append)
qed
lemma acked_after:
  assumes "store_inv s" "AckOutbox io wall l s = (None, s1)"
  shows "OState_Acked (outbox_state s1 (Outbox_ID (OutboxLease_Item l)))"
  using assms(2) outbox_invD(2) [OF store_invD(4) [OF assms(1)], of "Outbox_ID (OutboxLease_Item l)"]
  by (auto simp: AckOutbox_def with_outbox_lease_def Let_def split: option.splits if_splits dest!: commit_success)

lemma claim_in_memory:
  assumes "jfile s = None"
  shows "\<exists>ls s3. ClaimOutbox (\<lambda>_. Io_ok) [''e1''] ''w1'' 1 50 10 s = (Inr ls, s3)"
  using assms
  by (simp add: ClaimOutbox_def outbox_keys_def claim_one_outbox_def Let_def commit_in_memory split: if_split)

lemma example_ack:
  "\<exists>l s1 s2. ClaimOutbox (\<lambda>_. Io_ok) [''e1''] ''w1'' 1 0 10 example_mem = (Inr [l], s1) \<and>
     AckOutbox Io_ok 5 l s1 = (None, s2) \<and> store_inv s1 \<and> outbox s2 = outbox example_mem \<and> jfile s2 = None"
proof -
  obtain l s1 where *: "ClaimOutbox (\<lambda>_. Io_ok) [''e1''] ''w1'' 1 0 10 example_mem = (Inr [l], s1)"
    "Outbox_ID (OutboxLease_Item l) = ''e1''" "outbox s1 = outbox example_mem" "jfile s1 = None"
    "outboxStates s1 = [''e1'' \<mapsto> zero_outboxState\<lparr>OState_Owner := ''w1'', OState_ExpiresAt := 10, OState_Attempt := 1\<rparr>]"
    "OutboxLease_Owner l = ''w1''"
    using example_claim_outbox by blast
  have "store_step (\<lambda>_. True) (\<lambda>_ _. True) 0 example_mem (snd (ClaimOutbox (\<lambda>_. Io_ok) [''e1''] ''w1'' 1 0 10 example_mem))"
    by (rule do_ClaimOutbox) (simp_all add: enumerates_def example_mem_sel)
  then have "store_inv s1" using store_step_keeps(1) [OF _ example_mem_inv] * by simp
  with * show ?thesis
    by (auto simp: AckOutbox_def with_outbox_lease_def Let_def commit_in_memory zero_outboxState_def)
qed

lemma usage_exact:
  assumes "usage_inv s" "(\<Sum>k\<in>counted s t. object_size s k) < 2 ^ 63" "card (counted s t) < 2 ^ 63"
  shows "Usage_Bytes (tenant_usage s t) = (\<Sum>k\<in>counted s t. object_size s k) \<and>
    Usage_Objects (tenant_usage s t) = int (card (counted s t))"
proof -
  have "0 \<le> (\<Sum>k\<in>counted s t. object_size s k)"
    by (rule sum_nonneg) (use assms(1) in \<open>auto simp: counted_def object_size_def get_or_def dest: usage_invD(3)\<close>)
  then have "int64 (\<Sum>k\<in>counted s t. object_size s k)" "int64 (int (card (counted s t)))"
    using assms(2,3) by (simp_all add: int64_def)
  then show ?thesis using assms(1) by (simp add: usage_inv_def)
qed

lemma reserve_created:
  assumes "ReserveArtifact io ob q s = (Inr (ob', True), s')"
  shows "commit io (artifact_record ob' (Some (acquire_usage ob (tenant_usage s (Object_TenantID ob))))) s = (None, s') \<and>
    Object_TenantID ob' = Object_TenantID ob \<and>
    \<not> (Quota_MaxBytes q > 0 \<and> wrap64 (Usage_Bytes (tenant_usage s (Object_TenantID ob)) + Object_SizeBytes ob) > Quota_MaxBytes q)"
  using assms by (simp add: ReserveArtifact_def Let_def acquire_usage_def split: option.splits if_splits prod.splits) fastforce+

lemma reserved_usage:
  assumes "ReserveArtifact io ob q s = (Inr (ob', True), s')" "Quota_MaxBytes q > 0"
  shows "Usage_Bytes (tenant_usage s' (Object_TenantID ob)) \<le> Quota_MaxBytes q"
  using reserve_created [OF assms(1)] assms(2)
  by (auto simp: acquire_usage_def apply_artifact_def artifact_record_def record1_def put_artifact_lease_def dest!: commit_success)
lemma example_mem_steps: "C Io_ok \<Longrightarrow> store_steps C M p (empty_store None) example_mem"
  by (rule r_into_rtranclp) (rule example_mem_step)

definition example_object :: artifact_object where
  "example_object = zero_artifact_object\<lparr>Object_ID := ''o'', Object_TenantID := ''t'', Object_TaskID := ''a'',
     Object_ArtifactID := ''x'', Object_SHA256 := ''h'', Object_SizeBytes := 5, Object_ExpiresAt := 100\<rparr>"

lemma example_reserve:
  "\<exists>ob' s'. ReserveArtifact Io_ok example_object \<lparr>Quota_MaxBytes = 10, Quota_MaxObjects = 0\<rparr> example_mem = (Inr (ob', True), s') \<and>
     artifactObjects s' = [object_key example_object \<mapsto> ob'] \<and> Object_SizeBytes ob' = 5 \<and> Object_TenantID ob' = ''t'' \<and>
     artifact_live ob' \<and> jfile s' = None \<and> Usage_Bytes (tenant_usage s' ''t'') = 5 \<and> store_step C M p example_mem s'"
  if "C Io_ok"
proof -
  let ?r = "ReserveArtifact Io_ok example_object \<lparr>Quota_MaxBytes = 10, Quota_MaxObjects = 0\<rparr> example_mem"
  have step: "store_step C M p example_mem (snd ?r)"
    by (rule do_ReserveArtifact) (simp_all add: that example_object_def nul_free_def nul_def zero_artifact_object_def)
  have "wrap64 5 = 5" "wrap64 1 = 1" by (simp_all add: wrap64_def)
  then have "\<exists>ob' s'. ?r = (Inr (ob', True), s') \<and>
     artifactObjects s' = [object_key example_object \<mapsto> ob'] \<and> Object_SizeBytes ob' = 5 \<and> Object_TenantID ob' = ''t'' \<and>
     artifact_live ob' \<and> jfile s' = None \<and> Usage_Bytes (tenant_usage s' ''t'') = 5"
    by (simp add: ReserveArtifact_def validateArtifactReservation_def example_mem_sel commit_in_memory get_or_def
        artifact_record_def record1_def apply_artifact_def put_artifact_lease_def zero_artifact_usage_def object_key_def Let_def
        artifact_live_def example_object_def zero_artifact_object_def IsZero_def zero_time_def)
  with step show ?thesis by (metis snd_conv)
qed

lemma example_counted:
  assumes "artifactObjects s = [k \<mapsto> ob]" "artifact_live ob" "Object_TenantID ob = t"
  shows "counted s t = {k}" "object_size s k = Object_SizeBytes ob"
  using assms by (auto simp: counted_def object_size_def split: if_splits)

definition example_revocation :: token_revocation where
  "example_revocation = \<lparr>Revocation_Issuer = ''iss'', Revocation_TokenID = ''tok'', Revocation_TenantID = ''t'',
     Revocation_Reason = '''', Revocation_RevokedAt = 1, Revocation_ExpiresAt = 100\<rparr>"

lemma example_revoke:
  "\<exists>s'. RevokeToken_store Io_ok example_revocation (empty_store None) = (None, s') \<and>
     enumerates [revocationKey ''iss'' ''tok'' ''t''] (revocations s')"
  by (simp add: RevokeToken_store_def commit_def append_record_def empty_store_def example_revocation_def
      apply_revocation_def enumerates_def IsZero_def zero_time_def record1_def)

definition example_lib :: golib where
  "example_lib = \<lparr>G_sha256 = (\<lambda>s. CHR ''h'' # s), G_url_parse = (\<lambda>_. Inl (ErrText ''url'')), G_path_escape = (\<lambda>s. s),
     G_query_escape = (\<lambda>s. s), G_mime_parse = (\<lambda>s. Inr s), G_base64_decode = (\<lambda>s. Inr s), G_base64_stream = (\<lambda>s. (s, None)),
     G_base64_encode = (\<lambda>s. s), G_json_observation = (\<lambda>_. ''{}''), G_json_event = (\<lambda>_. ''{}''),
     G_decode_observation = (\<lambda>_. Inl (ErrText ''json'')), G_json_input = (\<lambda>_ _ _. ''{}''), G_json_metadata = (\<lambda>_. ''{}''),
     G_json_valid = (\<lambda>_. True), G_json_single = (\<lambda>_. False), G_detect = (\<lambda>_. ''text/plain''), G_parse_ip = (\<lambda>_. None),
     G_split_host_port = (\<lambda>_. False)\<rparr>"

definition example_sdk :: a2a_sdk where
  "example_sdk = \<lparr>SDK_Version = ''1.0'', SDK_JSONRPC = ''JSONRPC'', SDK_HTTPJSON = ''HTTP+JSON'', SDK_GRPC = ''GRPC''\<rparr>"

definition example_config :: hub_config where
  "example_config = \<lparr>H_Lib = example_lib, H_SDK = example_sdk, H_PublicBaseURL = ''https://hub'', H_AllowPrivate = False,
     H_Secrets = None, H_Artifacts = None\<rparr>"

definition example_submit :: submit_input where
  "example_submit = \<lparr>Sub_AgentID = ''g'', Sub_Skill = '''', Sub_Text = ''hi'', Sub_Parts = [], Sub_EnablePush = False,
     Sub_Priority = 0, Sub_Extensions = [], Sub_Metadata = [], Sub_IdempotencyKey = ''key''\<rparr>"

definition example_push :: observation where
  "example_push = \<lparr>Obs_DedupKey = ''k'', Obs_Source = '''', Obs_RemoteTaskID = ''r'', Obs_RemoteContextID = '''',
     Obs_State = TaskStateCompleted, Obs_Artifacts = [], Obs_Problem = None, Obs_RemoteObservedAt = None,
     Obs_CancelRequested = False, Obs_Final = True\<rparr>"

definition example_push_world :: world where
  "example_push_world = \<lparr>w_store = (empty_store None)\<lparr>tasks := [resourceKey ''t'' ''a'' \<mapsto>
     (example_task ''a'')\<lparr>Task_PushTokenHash := ''hs''\<rparr>]\<rparr>, w_tick = 0\<rparr>"

lemma example_push_accepted:
  "\<exists>t w'. run_state (AcceptPush example_env example_config ''t'' ''a'' ''s'' example_push) example_push_world = ((t, None), w')"
  by (simp add: AcceptPush_def store_get_def store_op_def ask_def Let_def example_env_def example_config_def example_lib_def
      example_push_def example_push_world_def GetTask_def EnqueueInbox_def commit_in_memory empty_store_def
      example_task_def zero_task_def)

definition example_card :: descriptor where
  "example_card = \<lparr>Desc_Name = ''n'', Desc_ProviderVersion = ''1'', Desc_ProtocolBinding = ''JSONRPC'', Desc_ProtocolVersion = ''1.0'',
     Desc_Endpoint = ''https://a'', Desc_Streaming = True, Desc_PushNotifications = False, Desc_SecuritySchemes = [],
     Desc_Skills = [''a'', ''b''], Desc_Extensions = [], Desc_CardSignatureVerified = False, Desc_CardSignatureKeyID = ''''\<rparr>"

lemma example_profiles: "\<exists>ps. ParseBindingProfiles example_sdk ''grpc'' = Inr ps \<and> length ps = 1"
proof -
  let ?p = "\<lparr>Prof_ProtocolVersion = ''1.0'', Prof_Binding = ''GRPC'', Prof_StreamTransport = ''SERVER_STREAMING''\<rparr>"
  have "TrimSpace ''grpc'' = ''grpc''" "ToUpper ''grpc'' = ''GRPC''" "BindingProfile_Validate example_sdk ?p = None"
    by code_simp+
  moreover have "profile_of_name example_sdk ''GRPC'' = Some ?p"
    by (simp add: profile_of_name_def example_sdk_def Let_def)
  ultimately show ?thesis by (simp add: ParseBindingProfiles_def Let_def)
qed

lemma check_passed: "((if c then Some e else r) = None) = (\<not> c \<and> r = None)"
  by simp

definition example_open_env :: hub_env where
  "example_open_env = example_env\<lparr>e_open := (\<lambda>_ _ _. Inr (5, Inr ''hello'', None))\<rparr>"

definition example_artifacts :: artifact_service where
  "example_artifacts = \<lparr>AS_Policy = \<lparr>Pol_MaxBytes = 0, Pol_AllowedMIME = [], Pol_QuotaBytes = 0, Pol_QuotaObjects = 0,
     Pol_Retention = 0, Pol_RequireClean = True\<rparr>, AS_Scanner = True, AS_HTTPClient = False\<rparr>"

definition example_open_world :: world where
  "example_open_world = \<lparr>w_store = (empty_store None)\<lparr>artifactObjects := [resourceKey ''t'' ''o'' \<mapsto>
     example_object\<lparr>Object_Status := ArtifactObjectAvailable, Object_ScanStatus := ArtifactScanClean\<rparr>]\<rparr>, w_tick = 0\<rparr>"

lemma example_open:
  "\<exists>body ob w'. run_state (Artifacts_Open example_open_env example_artifacts ''t'' ''o'') example_open_world = (Inr (body, ob), w')"
  by (simp add: Artifacts_Open_def Artifacts_Get_def bindE_def ok_def fail_def store_get_def ask_def Let_def example_open_env_def
      example_env_def example_artifacts_def example_open_world_def GetArtifact_def example_object_def zero_artifact_object_def)

lemma missing_none: "missingSkills r d \<noteq> [] \<longleftrightarrow> \<not> set r \<subseteq> set d"
  by (auto simp: missingSkills_def filter_empty_conv)

lemma disallowed_none: "disallowedSkills a d \<noteq> [] \<longleftrightarrow> \<not> (a \<noteq> [] \<longrightarrow> set d \<subseteq> set a)"
  by (auto simp: disallowedSkills_def filter_empty_conv)

lemma extensionURIs_declared: "set (extensionURIs x) \<subseteq> TrimSpace ` Ext_URI ` set x"
  by (auto simp: extensionURIs_def)

end
