(* ===== verification/Workflow_Plan.thy ===== *)
theory Workflow_Plan
  imports Federation_Policy Store_Protocol
begin

text \<open>
  The pure part of the orchestration package: normalising a workflow definition and validating its
  dependency graph (\<open>workflow.go\<close>), the aggregate state of a workflow as a function of its steps, the
  catalogue of templates and its compiler (\<open>templates.go\<close>), and the in-memory vault of provider inputs
  (\<open>input_store.go\<close>). A Go map used as a set of names is a list searched by name.

  Recursions that Go leaves unbounded (the depth-first search of the graph) carry a fuel argument and
  return \<^term>\<open>None\<close> when it runs out; \<open>validateWorkflowGraph_total\<close> shows that the fuel given is enough.
\<close>

section \<open>Definitions of workflows\<close>

record workflow_step_input =
  SI_ID :: string
  SI_AgentID :: string
  SI_Skill :: string
  SI_DependsOn :: "string list"
  SI_Text :: string
  SI_Parts :: "part list"
  SI_ArtifactInputs :: "workflow_artifact_input list"
  SI_Required :: bool
  SI_CompensationText :: string

record workflow_definition =
  WD_ID :: string
  WD_Name :: string
  WD_DefinitionVersion :: int
  WD_IdempotencyKey :: string
  WD_MaxConcurrency :: int
  WD_Steps :: "workflow_step_input list"

record workflow_result =
  WR_Workflow :: workflow
  WR_Errors :: "string list"

definition zero_result :: workflow_result where
  "zero_result = \<lparr>WR_Workflow = zero_workflow, WR_Errors = []\<rparr>"

section \<open>Normalisation\<close>

fun dedup_dependencies :: "string \<Rightarrow> string list \<Rightarrow> string list \<Rightarrow> string list result" where
  "dedup_dependencies stepID seen [] = Inr seen"
| "dedup_dependencies stepID seen (raw # values) =
     (let dependency = TrimSpace raw in
      if dependency = '''' then Inl (ErrText (''workflow step '' @ stepID @ '' has an empty dependency''))
      else if dependency = stepID then Inl (ErrText (''workflow step '' @ stepID @ '' cannot depend on itself''))
      else if dependency \<in> set seen then dedup_dependencies stepID seen values
      else dedup_dependencies stepID (seen @ [dependency]) values)"

definition normalizeDependencies :: "string \<Rightarrow> string list \<Rightarrow> string list result" where
  "normalizeDependencies stepID values =
     (case dedup_dependencies stepID [] values of Inl e \<Rightarrow> Inl e | Inr ds \<Rightarrow> Inr (sort ds))"

text \<open>The key under which an artifact input may occur once.\<close>

definition artifact_input_key :: "workflow_artifact_input \<Rightarrow> string" where
  "artifact_input_key v =
     WAI_FromStepID v @ nul # WAI_ArtifactID v @ nul # (case WAI_PartIndex v of None \<Rightarrow> '''' | Some i \<Rightarrow> int_digits i)"

fun check_artifact_inputs ::
  "string \<Rightarrow> string list \<Rightarrow> string list \<Rightarrow> workflow_artifact_input list \<Rightarrow> workflow_artifact_input list result" where
  "check_artifact_inputs stepID dependencies seen [] = Inr []"
| "check_artifact_inputs stepID dependencies seen (raw # values) =
     (let v = raw\<lparr>WAI_FromStepID := TrimSpace (WAI_FromStepID raw), WAI_ArtifactID := TrimSpace (WAI_ArtifactID raw)\<rparr>;
          key = artifact_input_key v in
      if WAI_FromStepID v = '''' then Inl (ErrText (''workflow step '' @ stepID @ '' Artifact input requires fromStepId''))
      else if WAI_FromStepID v \<notin> set dependencies
      then Inl (ErrText (''workflow step '' @ stepID @ '' Artifact input '' @ WAI_FromStepID v @ '' must name a direct dependency''))
      else if (case WAI_PartIndex v of Some i \<Rightarrow> i < 0 | None \<Rightarrow> False)
      then Inl (ErrText (''workflow step '' @ stepID @ '' Artifact input partIndex must not be negative''))
      else if key \<in> set seen then Inl (ErrText (''workflow step '' @ stepID @ '' repeats an Artifact input''))
      else case check_artifact_inputs stepID dependencies (key # seen) values of Inl e \<Rightarrow> Inl e | Inr vs \<Rightarrow> Inr (v # vs))"

definition normalizeArtifactInputs ::
  "string \<Rightarrow> string list \<Rightarrow> workflow_artifact_input list \<Rightarrow> workflow_artifact_input list result" where
  "normalizeArtifactInputs stepID dependencies values = check_artifact_inputs stepID dependencies [] values"

section \<open>The dependency graph\<close>

definition step_ids :: "workflow_step list \<Rightarrow> string list" where
  "step_ids steps = map Step_ID steps"

text \<open>The first dependency on a step that does not exist, as the step and the dependency.\<close>

definition unknown_dependency :: "workflow_step list \<Rightarrow> (string \<times> string) option" where
  "unknown_dependency steps =
     find (\<lambda>(i, d). d \<notin> set (step_ids steps)) (concat (map (\<lambda>a. map (\<lambda>d. (Step_ID a, d)) (Step_DependsOn a)) steps))"

definition graph_of :: "workflow_step list \<Rightarrow> string \<Rightarrow> string list" where
  "graph_of steps i = concat (map Step_DependsOn (filter (\<lambda>a. Step_ID a = i) steps))"

text \<open>The map \<open>visit\<close>: 0 is a step not seen, 1 one on the current path, 2 one that is finished.\<close>

type_synonym visits = "string \<Rightarrow> nat"

fun walk :: "nat \<Rightarrow> (string \<Rightarrow> string list) \<Rightarrow> string \<Rightarrow> visits \<Rightarrow> visits result option"
  and walk_all :: "nat \<Rightarrow> (string \<Rightarrow> string list) \<Rightarrow> string list \<Rightarrow> visits \<Rightarrow> visits result option" where
  "walk 0 g i v = None"
| "walk (Suc n) g i v =
     (if v i = 1 then Some (Inl (ErrText (''workflow dependency cycle detected at step '' @ i)))
      else if v i = 2 then Some (Inr v)
      else case walk_all n g (g i) (v(i := 1)) of
             None \<Rightarrow> None
           | Some (Inl e) \<Rightarrow> Some (Inl e)
           | Some (Inr v') \<Rightarrow> Some (Inr (v'(i := 2))))"
| "walk_all n g [] v = Some (Inr v)"
| "walk_all n g (i # is) v =
     (case walk n g i v of
        None \<Rightarrow> None
      | Some (Inl e) \<Rightarrow> Some (Inl e)
      | Some (Inr v') \<Rightarrow> walk_all n g is v')"

definition validateWorkflowGraph :: "workflow_step list \<Rightarrow> error option option" where
  "validateWorkflowGraph steps =
     (case unknown_dependency steps of
        Some (i, d) \<Rightarrow> Some (Some (ErrText (''workflow step '' @ i @ '' depends on unknown step '' @ d)))
      | None \<Rightarrow>
          (case walk_all (Suc (length steps)) (graph_of steps) (step_ids steps) (\<lambda>_. 0) of
             None \<Rightarrow> None
           | Some (Inl e) \<Rightarrow> Some (Some e)
           | Some (Inr _) \<Rightarrow> Some None))"

text \<open>The specification: the relation between a step and what it depends on.\<close>

definition depends :: "(string \<Rightarrow> string list) \<Rightarrow> (string \<times> string) set" where
  "depends g = {(a, b). b \<in> set (g a)}"

text \<open>Every nested call paints one more step, so the depth is bounded by the number of steps not yet seen.\<close>

definition white :: "string set \<Rightarrow> visits \<Rightarrow> string set" where
  "white K v = {i \<in> K. v i \<noteq> 1 \<and> v i \<noteq> 2}"

lemma walk_total:
  assumes "finite K" and closed: "\<forall>i\<in>K. set (g i) \<subseteq> K"
  shows "i \<in> K \<Longrightarrow> card (white K v) < n \<Longrightarrow> \<exists>r. walk n g i v = Some r \<and> (\<forall>v'. r = Inr v' \<longrightarrow> white K v' \<subseteq> white K v)"
proof (induction n arbitrary: i v)
  case (Suc n)
  have all: "\<exists>r. walk_all n g is v = Some r \<and> (\<forall>v'. r = Inr v' \<longrightarrow> white K v' \<subseteq> white K v)"
    if "set is \<subseteq> K" "card (white K v) < n" for "is" v
    using that
  proof (induction "is" arbitrary: v)
    case (Cons i "is")
    then obtain r where r: "walk n g i v = Some r" "\<forall>v'. r = Inr v' \<longrightarrow> white K v' \<subseteq> white K v"
      using Suc.IH [of i v] by auto
    show ?case
    proof (cases r)
      case (Inr v')
      with r have sub: "white K v' \<subseteq> white K v" by simp
      have "finite (white K v)" using \<open>finite K\<close> by (simp add: white_def)
      with sub Cons.prems have "card (white K v') < n" by (meson card_mono le_less_trans)
      with Cons.IH [of v'] Cons.prems sub r Inr show ?thesis by fastforce
    qed (use r in simp)
  qed simp
  show ?case
  proof (cases "v i = 1 \<or> v i = 2")
    case False
    let ?v = "v(i := 1)"
    have w: "white K ?v = white K v - {i}" "i \<in> white K v" using Suc.prems(1) False by (auto simp: white_def)
    moreover have "finite (white K v)" using \<open>finite K\<close> by (simp add: white_def)
    ultimately have "card (white K ?v) < card (white K v)" by (simp only: card_Diff1_less)
    with Suc.prems(2) have "card (white K ?v) < n" by simp
    then obtain r where r: "walk_all n g (g i) ?v = Some r" "\<forall>v'. r = Inr v' \<longrightarrow> white K v' \<subseteq> white K ?v"
      using all [of "g i" ?v] closed Suc.prems(1) by auto
    show ?thesis
    proof (cases r)
      case (Inl e)
      with False r show ?thesis by simp
    next
      case (Inr v')
      have "white K (v'(i := 2)) \<subseteq> white K v'" by (auto simp: white_def)
      moreover have "white K v' \<subseteq> white K v" using r(2) Inr w by auto
      ultimately show ?thesis using False r(1) Inr by simp
    qed
  qed auto
qed simp

lemma walk_all_total:
  assumes "finite K" and closed: "\<forall>i\<in>K. set (g i) \<subseteq> K"
  shows "set is \<subseteq> K \<Longrightarrow> card (white K v) < n \<Longrightarrow> walk_all n g is v \<noteq> None"
proof (induction "is" arbitrary: v)
  case (Cons i "is")
  then obtain r where r: "walk n g i v = Some r" "\<forall>v'. r = Inr v' \<longrightarrow> white K v' \<subseteq> white K v"
    using walk_total [OF assms, where i = i and v = v and n = n] by auto
  have "finite (white K v)" using \<open>finite K\<close> by (simp add: white_def)
  with r Cons show ?case
    by (cases r) (auto, meson card_mono le_less_trans)
qed simp

text \<open>What a successful search establishes: finished steps depend on finished steps only, and a rank
  decreases along their dependencies.\<close>

definition ranked :: "(string \<Rightarrow> string list) \<Rightarrow> visits \<Rightarrow> bool" where
  "ranked g v \<longleftrightarrow> (\<exists>rank::string \<Rightarrow> nat. \<forall>a. v a = 2 \<longrightarrow> (\<forall>b\<in>set (g a). v b = 2 \<and> rank b < rank a))"

definition searched :: "(string \<Rightarrow> string list) \<Rightarrow> visits \<Rightarrow> visits \<Rightarrow> bool" where
  "searched g v v' \<longleftrightarrow> (\<forall>x. v' x = 1 \<longleftrightarrow> v x = 1) \<and> (\<forall>x. v x = 2 \<longrightarrow> v' x = 2) \<and> ranked g v'"

lemma ranked_finish:
  assumes "ranked g v" "v i = 1" "\<forall>d\<in>set (g i). v d = 2"
  shows "ranked g (v(i := 2))"
proof -
  obtain rank :: "string \<Rightarrow> nat" where rank: "v a = 2 \<Longrightarrow> b \<in> set (g a) \<Longrightarrow> v b = 2 \<and> rank b < rank a" for a b
    using assms(1) unfolding ranked_def by blast
  let ?rank = "rank(i := Suc (sum_list (map rank (g i))))"
  have i: "d \<in> set (g i) \<Longrightarrow> d \<noteq> i" for d using assms(2,3) by auto
  have "(v(i := 2)) b = 2 \<and> ?rank b < ?rank a" if "(v(i := 2)) a = 2" "b \<in> set (g a)" for a b
  proof (cases "a = i")
    case True
    with that(2) have "rank b \<le> sum_list (map rank (g i))" by (simp add: member_le_sum_list)
    with True that(2) assms(3) i show ?thesis by auto
  next
    case False
    with that rank [of a b] assms(2) show ?thesis by auto
  qed
  then show ?thesis unfolding ranked_def by blast
qed

lemma walk_spec:
  "ranked g v \<Longrightarrow> walk n g i v = Some r \<Longrightarrow>
     (\<forall>v'. r = Inr v' \<longrightarrow> searched g v v' \<and> v' i = 2) \<and>
     ((\<exists>e. r = Inl e) \<longrightarrow> (\<forall>x. v x = 1 \<longrightarrow> (x, i) \<in> (depends g)\<^sup>+) \<longrightarrow> \<not> acyclic (depends g))"
  and walk_all_spec:
  "ranked g v \<Longrightarrow> walk_all n g is v = Some r \<Longrightarrow>
     (\<forall>v'. r = Inr v' \<longrightarrow> searched g v v' \<and> (\<forall>i\<in>set is. v' i = 2)) \<and>
     ((\<exists>e. r = Inl e) \<longrightarrow> (\<forall>x i. v x = 1 \<and> i \<in> set is \<longrightarrow> (x, i) \<in> (depends g)\<^sup>+) \<longrightarrow> \<not> acyclic (depends g))"
proof (induction n g i v and n g "is" v arbitrary: r and r rule: walk_walk_all.induct)
  case (2 n g i v)
  consider "v i = 1" | "v i = 2" | "v i \<noteq> 1" "v i \<noteq> 2" by blast
  then show ?case
  proof cases
    case 1
    with 2 show ?thesis by (auto simp: acyclic_def)
  next
    case 2
    with "2.prems" show ?thesis by (auto simp: searched_def)
  next
    case 3
    let ?v = "v(i := 1)"
    have "\<And>a. ?v a = 2 \<longleftrightarrow> v a = 2" using 3 by simp
    with "2.prems"(1) have rk: "ranked g ?v" unfolding ranked_def by (simp only:)
    obtain q where q: "walk_all n g (g i) ?v = Some q" using "2.prems"(2) 3 by (auto split: option.splits)
    note IH = "2.IH" [OF 3 rk q]
    show ?thesis
    proof (cases q)
      case (Inl e)
      with "2.prems"(2) 3 q have r: "r = Inl e" by simp
      have "(x, d) \<in> (depends g)\<^sup>+" if "\<forall>x. v x = 1 \<longrightarrow> (x, i) \<in> (depends g)\<^sup>+" "?v x = 1" "d \<in> set (g i)" for x d
      proof (cases "x = i")
        case True
        with that(3) show ?thesis by (auto simp: depends_def)
      next
        case False
        with that have "(x, i) \<in> (depends g)\<^sup>+" "(i, d) \<in> depends g" by (auto simp: depends_def)
        then show ?thesis by (rule trancl_into_trancl)
      qed
      with IH Inl r show ?thesis by blast
    next
      case (Inr v')
      with "2.prems"(2) 3 q have r: "r = Inr (v'(i := 2))" by simp
      from IH Inr have v': "searched g ?v v'" "\<forall>d\<in>set (g i). v' d = 2" by blast+
      then have "ranked g (v'(i := 2))" by (intro ranked_finish) (auto simp: searched_def)
      with v'(1) 3 r show ?thesis by (auto simp: searched_def)
    qed
  qed
next
  case (4 n g i "is" v)
  obtain q where q: "walk n g i v = Some q" using "4.prems"(2) by (auto split: option.splits)
  note IH = "4.IH"(1) [OF "4.prems"(1) q]
  show ?case
  proof (cases q)
    case (Inl e)
    with "4.prems" q IH show ?thesis by auto
  next
    case (Inr v')
    with IH have v': "searched g v v'" "v' i = 2" by auto
    have "walk_all n g is v' = Some r" using "4.prems"(2) q Inr by simp
    moreover have "ranked g v'" using v'(1) unfolding searched_def by blast
    ultimately have rest: "(\<forall>u. r = Inr u \<longrightarrow> searched g v' u \<and> (\<forall>i\<in>set is. u i = 2)) \<and>
        ((\<exists>e. r = Inl e) \<longrightarrow> (\<forall>x i. v' x = 1 \<and> i \<in> set is \<longrightarrow> (x, i) \<in> (depends g)\<^sup>+) \<longrightarrow> \<not> acyclic (depends g))"
      by (intro "4.IH"(2) [OF q Inr])
    have trans: "searched g v u" if "searched g v' u" for u using v'(1) that by (simp add: searched_def)
    have grey: "\<And>x. v' x = 1 \<longleftrightarrow> v x = 1" using v'(1) unfolding searched_def by blast
    have black: "searched g v' u \<Longrightarrow> u i = 2" for u using v'(2) unfolding searched_def by blast
    show ?thesis
    proof (intro conjI impI allI)
      fix u assume "r = Inr u"
      with rest have u: "searched g v' u" "\<forall>i\<in>set is. u i = 2" by blast+
      show "searched g v u" by (rule trans [OF u(1)])
      show "\<forall>i\<in>set (i # is). u i = 2" using black [OF u(1)] u(2) by simp
    next
      assume "\<exists>e. r = Inl e" "\<forall>x j. v x = 1 \<and> j \<in> set (i # is) \<longrightarrow> (x, j) \<in> (depends g)\<^sup>+"
      then show "\<not> acyclic (depends g)" using rest grey by simp
    qed
  qed
qed (auto simp: searched_def)

text \<open>The fuel of the validator is always enough.\<close>

lemma graph_of_step: "d \<in> set (graph_of steps i) \<longleftrightarrow> (\<exists>a\<in>set steps. Step_ID a = i \<and> d \<in> set (Step_DependsOn a))"
  by (auto simp: graph_of_def)

lemma unknown_dependency_None:
  "unknown_dependency steps = None \<longleftrightarrow> (\<forall>a\<in>set steps. set (Step_DependsOn a) \<subseteq> set (step_ids steps))"
  by (auto simp: unknown_dependency_def find_None_iff)

lemma search_total:
  assumes "unknown_dependency steps = None"
  shows "walk_all (Suc (length steps)) (graph_of steps) (step_ids steps) (\<lambda>_. 0) \<noteq> None"
proof (rule walk_all_total)
  show "\<forall>i\<in>set (step_ids steps). set (graph_of steps i) \<subseteq> set (step_ids steps)"
    using assms unfolding unknown_dependency_None by (auto simp: graph_of_step) blast
  have "card (white (set (step_ids steps)) (\<lambda>_. 0)) \<le> card (set (step_ids steps))"
    by (rule card_mono) (auto simp: white_def)
  also have "\<dots> \<le> length steps" unfolding step_ids_def by (metis card_length length_map)
  finally show "card (white (set (step_ids steps)) (\<lambda>_. 0)) < Suc (length steps)" by simp
qed simp_all

lemma validateWorkflowGraph_total: "validateWorkflowGraph steps \<noteq> None"
proof (cases "unknown_dependency steps")
  case None
  with search_total show ?thesis by (auto simp: validateWorkflowGraph_def split: option.split sum.split)
qed (auto simp: validateWorkflowGraph_def)

text \<open>The validator accepts exactly the definitions whose dependencies exist and have no cycle.\<close>

lemma acyclic_rank:
  assumes "\<And>a b. (a, b) \<in> r \<Longrightarrow> (f b :: nat) < f a"
  shows "acyclic r"
proof (rule acyclicI, intro allI notI)
  fix x assume "(x, x) \<in> r\<^sup>+"
  moreover have "(x, y) \<in> r\<^sup>+ \<Longrightarrow> f y < f x" for y
    by (induction rule: trancl_induct) (use assms in \<open>auto intro: less_trans\<close>)
  ultimately show False by fast
qed

lemma validateWorkflowGraph_correct:
  "validateWorkflowGraph steps = Some None \<longleftrightarrow>
     (\<forall>a\<in>set steps. set (Step_DependsOn a) \<subseteq> set (step_ids steps)) \<and> acyclic (depends (graph_of steps))"
proof (cases "unknown_dependency steps")
  case (Some p)
  then have "\<not> (\<forall>a\<in>set steps. set (Step_DependsOn a) \<subseteq> set (step_ids steps))"
    using unknown_dependency_None [of steps] by simp
  with Some show ?thesis by (cases p) (simp add: validateWorkflowGraph_def)
next
  case None
  let ?g = "graph_of steps" and ?is = "step_ids steps"
  have r0: "ranked ?g (\<lambda>_. 0)" by (simp add: ranked_def)
  obtain r where r: "walk_all (Suc (length steps)) ?g ?is (\<lambda>_. 0) = Some r" using search_total [OF None] by blast
  note spec = walk_all_spec [OF r0 r]
  have known: "\<forall>a\<in>set steps. set (Step_DependsOn a) \<subseteq> set ?is" using None unknown_dependency_None by blast
  show ?thesis
  proof (cases r)
    case (Inl e)
    with spec have "\<not> acyclic (depends ?g)" by simp
    with Inl None r show ?thesis by (simp add: validateWorkflowGraph_def)
  next
    case (Inr v)
    with spec have "searched ?g (\<lambda>_. 0) v" by blast
    then have "ranked ?g v" unfolding searched_def by (elim conjE)
    then obtain rank :: "string \<Rightarrow> nat" where "\<forall>a. v a = 2 \<longrightarrow> (\<forall>b\<in>set (?g a). v b = 2 \<and> rank b < rank a)"
      unfolding ranked_def by (elim exE)
    then have rank: "\<And>a b. v a = 2 \<Longrightarrow> b \<in> set (?g a) \<Longrightarrow> rank b < rank a" by blast
    have "rank b < rank a" if "(a, b) \<in> depends ?g" for a b
    proof -
      from that have "b \<in> set (?g a)" "a \<in> set ?is" by (auto simp: depends_def graph_of_step step_ids_def)
      then have "v a = 2" using spec Inr by blast
      then show ?thesis using \<open>b \<in> set (?g a)\<close> by (rule rank)
    qed
    then have "acyclic (depends ?g)" by (rule acyclic_rank)
    with Inr None r known show ?thesis by (simp add: validateWorkflowGraph_def)
  qed
qed

section \<open>From a definition to the steps of a workflow\<close>

text \<open>The loop of \<open>StartWorkflow\<close> over the step definitions, one iteration and the whole.\<close>

definition step_name :: "nat \<Rightarrow> workflow_step_input \<Rightarrow> string" where
  "step_name index d = (if SI_ID d = '''' then ''step-'' @ nat_digits (index + 1) else SI_ID d)"

definition plan_step :: "golib \<Rightarrow> string \<Rightarrow> workflow_step_input \<Rightarrow> workflow_step result" where
  "plan_step L stepID d =
     (if SI_AgentID d = '''' \<and> SI_Skill d = ''''
      then Inl (ErrText (''workflow step '' @ stepID @ '' requires agentId or skill''))
      else
        case NormalizeMessageParts L (SI_Text d) (SI_Parts d) of
          Inl e \<Rightarrow> Inl (ErrWrap (''workflow step '' @ stepID @ '' input'') e)
        | Inr _ \<Rightarrow>
            (case normalizeDependencies stepID (SI_DependsOn d) of
               Inl e \<Rightarrow> Inl e
             | Inr dependencies \<Rightarrow>
                 (case normalizeArtifactInputs stepID dependencies (SI_ArtifactInputs d) of
                    Inl e \<Rightarrow> Inl e
                  | Inr artifactInputs \<Rightarrow> Inr
                      \<lparr>Step_ID = stepID, Step_AgentID = SI_AgentID d, Step_Skill = SI_Skill d,
                       Step_DependsOn = dependencies, Step_ArtifactInputs = artifactInputs, Step_InputRef = '''',
                       Step_InputDigest = '''', Step_TaskID = '''', Step_State = TaskStateUnknown,
                       Step_Required = SI_Required d, Step_Attempt = 0,
                       Step_CompensationText = SI_CompensationText d, Step_CompensationTaskID = '''',
                       Step_CompensationState = TaskStateUnset, Step_Problem = None,
                       Step_CompensationProblem = None\<rparr>)))"

fun build_steps :: "golib \<Rightarrow> nat \<Rightarrow> string list \<Rightarrow> workflow_step_input list \<Rightarrow> workflow_step list result" where
  "build_steps L index seen [] = Inr []"
| "build_steps L index seen (d # ds) =
     (let stepID = step_name index d in
      if stepID \<in> set seen then Inl (ErrText (''duplicate workflow step '' @ stepID))
      else
        case plan_step L stepID d of
          Inl e \<Rightarrow> Inl e
        | Inr a \<Rightarrow>
            (case build_steps L (index + 1) (stepID # seen) ds of Inl e \<Rightarrow> Inl e | Inr steps \<Rightarrow> Inr (a # steps)))"

text \<open>The checks of \<open>StartWorkflow\<close> before anything is stored: the effective definition version and
  concurrency, and the steps. \<^term>\<open>None\<close> would be a validator that does not return.\<close>

definition prepare_workflow ::
  "golib \<Rightarrow> string \<Rightarrow> workflow_definition \<Rightarrow> (int \<times> int \<times> workflow_step list) result option" where
  "prepare_workflow L tenantID d =
     (if tenantID = '''' \<or> WD_Steps d = [] then Some (Inl (ErrText ''workflow tenant and at least one step are required''))
      else
        let definitionVersion = (if WD_DefinitionVersion d \<le> 0 then 1 else WD_DefinitionVersion d);
            maxConcurrency = (if WD_MaxConcurrency d \<le> 0 then int (length (WD_Steps d)) else WD_MaxConcurrency d) in
        if definitionVersion > 1000 then Some (Inl (ErrText ''workflow definition version must be between 1 and 1000''))
        else if maxConcurrency < 1 \<or> maxConcurrency > 1024
        then Some (Inl (ErrText ''workflow maxConcurrency must be between 1 and 1024''))
        else
          case build_steps L 0 [] (WD_Steps d) of
            Inl e \<Rightarrow> Some (Inl e)
          | Inr steps \<Rightarrow>
              (case validateWorkflowGraph steps of
                 None \<Rightarrow> None
               | Some (Some e) \<Rightarrow> Some (Inl e)
               | Some None \<Rightarrow> Some (Inr (definitionVersion, maxConcurrency, steps))))"

section \<open>The state of a workflow and the steps that are ready\<close>

definition waitingTaskState :: "TaskState \<Rightarrow> bool" where
  "waitingTaskState s \<longleftrightarrow> s = TaskStateInputRequired \<or> s = TaskStateAuthRequired"

definition failed_state :: "TaskState \<Rightarrow> bool" where
  "failed_state s \<longleftrightarrow> s = TaskStateFailed \<or> s = TaskStateRejected \<or> s = TaskStateCanceled"

text \<open>One iteration of the loop over the steps, on the flags \<open>allTerminal\<close>, \<open>allCompleted\<close>, \<open>anyFailure\<close>
  and \<open>anyInput\<close>.\<close>

definition scan_state :: "workflow_step \<Rightarrow> bool \<times> bool \<times> bool \<times> bool \<Rightarrow> bool \<times> bool \<times> bool \<times> bool" where
  "scan_state a = (\<lambda>(allTerminal, allCompleted, anyFailure, anyInput).
     (if \<not> TaskState_Terminal (Step_State a) then False else allTerminal,
      if Step_State a \<noteq> TaskStateCompleted then False else allCompleted,
      if failed_state (Step_State a) then True else anyFailure,
      if waitingTaskState (Step_State a) then True else anyInput))"

definition workflowStateForSteps :: "workflow_step list \<Rightarrow> WorkflowState" where
  "workflowStateForSteps steps =
     (case fold scan_state steps (True, True, False, False) of (allTerminal, allCompleted, anyFailure, anyInput) \<Rightarrow>
        if anyInput then WorkflowStateWaitingInput
        else if allTerminal \<and> allCompleted then WorkflowStateCompleted
        else if allTerminal \<and> anyFailure then
          (if \<exists>a\<in>set steps. Step_State a = TaskStateCompleted then WorkflowStatePartiallyFailed else WorkflowStateFailed)
        else WorkflowStateRunning)"

definition findWorkflowStep :: "workflow_step list \<Rightarrow> string \<Rightarrow> workflow_step option" where
  "findWorkflowStep steps i = find (\<lambda>a. Step_ID a = i) steps"

text \<open>The loop over the dependencies of a step: \<open>allTerminal\<close> and \<open>dependencyFailed\<close>.\<close>

fun scan_dependencies :: "workflow_step list \<Rightarrow> string list \<Rightarrow> bool \<Rightarrow> bool \<times> bool" where
  "scan_dependencies steps [] failed = (True, failed)"
| "scan_dependencies steps (d # ds) failed =
     (case findWorkflowStep steps d of
        None \<Rightarrow> (False, failed)
      | Some a \<Rightarrow>
          if \<not> TaskState_Terminal (Step_State a) then (False, failed)
          else scan_dependencies steps ds (if Step_State a \<noteq> TaskStateCompleted then True else failed))"

definition step_is_ready :: "workflow_step list \<Rightarrow> workflow_step \<Rightarrow> bool" where
  "step_is_ready steps a \<longleftrightarrow> \<not> step_started a \<and>
     (case scan_dependencies steps (Step_DependsOn a) False of (allTerminal, dependencyFailed) \<Rightarrow>
        allTerminal \<and> \<not> (dependencyFailed \<and> Step_Required a))"

definition step_is_blocked :: "workflow_step list \<Rightarrow> workflow_step \<Rightarrow> bool" where
  "step_is_blocked steps a \<longleftrightarrow> \<not> step_started a \<and>
     (case scan_dependencies steps (Step_DependsOn a) False of (allTerminal, dependencyFailed) \<Rightarrow>
        allTerminal \<and> dependencyFailed \<and> Step_Required a)"

definition select_steps :: "(workflow_step list \<Rightarrow> workflow_step \<Rightarrow> bool) \<Rightarrow> workflow_step list \<Rightarrow> nat list" where
  "select_steps P steps = filter (\<lambda>i. P steps (steps ! i)) [0..<length steps]"

section \<open>Templates\<close>

record workflow_template =
  Tpl_ID :: string
  Tpl_Name :: string
  Tpl_Description :: string
  Tpl_Version :: int
  Tpl_MinAgents :: nat
  Tpl_MaxAgents :: nat

record template_agent =
  TA_AgentID :: string
  TA_Skill :: string

record template_run =
  TR_ID :: string
  TR_Name :: string
  TR_IdempotencyKey :: string
  TR_MaxConcurrency :: int
  TR_Text :: string
  TR_Parts :: "part list"
  TR_Agents :: "template_agent list"

definition workflowTemplates :: "workflow_template list" where
  "workflowTemplates =
     [\<lparr>Tpl_ID = ''single-agent'', Tpl_Name = ''Single Agent'',
       Tpl_Description = ''Run one opaque A2A Provider Task.'', Tpl_Version = 1, Tpl_MinAgents = 1, Tpl_MaxAgents = 1\<rparr>,
      \<lparr>Tpl_ID = ''sequential-pipeline'', Tpl_Name = ''Sequential Pipeline'',
       Tpl_Description = ''Run stages in order and project observed A2A Artifacts to the next stage.'',
       Tpl_Version = 1, Tpl_MinAgents = 2, Tpl_MaxAgents = 64\<rparr>,
      \<lparr>Tpl_ID = ''parallel-fanout'', Tpl_Name = ''Parallel Fan-out'',
       Tpl_Description = ''Run independent Provider Tasks concurrently with the same input.'',
       Tpl_Version = 1, Tpl_MinAgents = 2, Tpl_MaxAgents = 64\<rparr>,
      \<lparr>Tpl_ID = ''review-revision'', Tpl_Name = ''Review Revision'',
       Tpl_Description = ''Send draft output to a reviewer, then return observed review Artifacts to the original Provider.'',
       Tpl_Version = 1, Tpl_MinAgents = 2, Tpl_MaxAgents = 2\<rparr>,
      \<lparr>Tpl_ID = ''human-approval'', Tpl_Name = ''Human Approval'',
       Tpl_Description = ''Run one Provider Task and wait only when that Provider reports INPUT_REQUIRED.'',
       Tpl_Version = 1, Tpl_MinAgents = 1, Tpl_MaxAgents = 1\<rparr>]"

definition ListWorkflowTemplates :: "workflow_template list" where
  "ListWorkflowTemplates = workflowTemplates"

definition findWorkflowTemplate :: "string \<Rightarrow> workflow_template option" where
  "findWorkflowTemplate i = find (\<lambda>t. Tpl_ID t = i) workflowTemplates"

definition template_step ::
  "template_run \<Rightarrow> string \<Rightarrow> template_agent \<Rightarrow> string list \<Rightarrow> workflow_artifact_input list \<Rightarrow> workflow_step_input" where
  "template_step input i agent dependsOn artifacts =
     \<lparr>SI_ID = i, SI_AgentID = TrimSpace (TA_AgentID agent), SI_Skill = TrimSpace (TA_Skill agent),
      SI_DependsOn = dependsOn, SI_Text = TR_Text input, SI_Parts = TR_Parts input, SI_ArtifactInputs = artifacts,
      SI_Required = True, SI_CompensationText = ''''\<rparr>"

text \<open>An edge to the step before: a dependency and all the artifacts it published.\<close>

definition from_step :: "string \<Rightarrow> workflow_artifact_input" where
  "from_step i = \<lparr>WAI_FromStepID = i, WAI_ArtifactID = '''', WAI_PartIndex = None\<rparr>"

definition stage_name :: "nat \<Rightarrow> string" where
  "stage_name n = ''stage-'' @ nat_digits n"

definition branch_name :: "nat \<Rightarrow> string" where
  "branch_name n = ''branch-'' @ nat_digits n"

fun pipeline_steps :: "template_run \<Rightarrow> nat \<Rightarrow> template_agent list \<Rightarrow> workflow_step_input list" where
  "pipeline_steps input index [] = []"
| "pipeline_steps input index (agent # ags) =
     (if index = 0 then template_step input (stage_name (index + 1)) agent [] []
      else template_step input (stage_name (index + 1)) agent [stage_name index] [from_step (stage_name index)])
     # pipeline_steps input (index + 1) ags"

fun fanout_steps :: "template_run \<Rightarrow> nat \<Rightarrow> template_agent list \<Rightarrow> workflow_step_input list" where
  "fanout_steps input index [] = []"
| "fanout_steps input index (agent # ags) =
     template_step input (branch_name (index + 1)) agent [] [] # fanout_steps input (index + 1) ags"

definition template_steps :: "string \<Rightarrow> template_run \<Rightarrow> workflow_step_input list result" where
  "template_steps templateID input =
     (let ags = TR_Agents input in
      if templateID = ''single-agent'' then Inr [template_step input ''agent'' (ags ! 0) [] []]
      else if templateID = ''human-approval'' then Inr [template_step input ''approval'' (ags ! 0) [] []]
      else if templateID = ''parallel-fanout'' then Inr (fanout_steps input 0 ags)
      else if templateID = ''sequential-pipeline'' then Inr (pipeline_steps input 0 ags)
      else if templateID = ''review-revision'' then Inr
        [template_step input ''draft'' (ags ! 0) [] [],
         template_step input ''review'' (ags ! 1) [''draft''] [from_step ''draft''],
         template_step input ''revision'' (ags ! 0) [''review''] [from_step ''review'']]
      else Inl (ErrText ''workflow template compiler is incomplete''))"

definition one_selector :: "template_agent \<Rightarrow> bool" where
  "one_selector agent \<longleftrightarrow> (TrimSpace (TA_AgentID agent) = '''') \<noteq> (TrimSpace (TA_Skill agent) = '''')"

definition CompileWorkflowTemplate :: "golib \<Rightarrow> string \<Rightarrow> template_run \<Rightarrow> workflow_definition result" where
  "CompileWorkflowTemplate L rawTemplateID input =
     (let templateID = TrimSpace rawTemplateID in
      case NormalizeMessageParts L (TR_Text input) (TR_Parts input) of
        Inl e \<Rightarrow> Inl (ErrWrap ''template input'' e)
      | Inr _ \<Rightarrow>
          (case findWorkflowTemplate templateID of
             None \<Rightarrow> Inl (ErrText (''unknown workflow template '' @ templateID))
           | Some template \<Rightarrow>
               if length (TR_Agents input) < Tpl_MinAgents template \<or> length (TR_Agents input) > Tpl_MaxAgents template
               then Inl (ErrText (''workflow template '' @ templateID @ '' requires between '' @
                      nat_digits (Tpl_MinAgents template) @ '' and '' @ nat_digits (Tpl_MaxAgents template) @ '' agents''))
               else
                 case find (\<lambda>i. \<not> one_selector (TR_Agents input ! i)) [0..<length (TR_Agents input)] of
                   Some i \<Rightarrow> Inl (ErrText (''workflow template '' @ templateID @ '' agent '' @ nat_digits (i + 1) @
                               '' requires exactly one of agentId or skill''))
                 | None \<Rightarrow>
                     (case template_steps templateID input of
                        Inl e \<Rightarrow> Inl e
                      | Inr steps \<Rightarrow> Inr
                          \<lparr>WD_ID = TR_ID input,
                           WD_Name = (if TrimSpace (TR_Name input) = '''' then templateID else TrimSpace (TR_Name input)),
                           WD_DefinitionVersion = Tpl_Version template, WD_IdempotencyKey = TR_IdempotencyKey input,
                           WD_MaxConcurrency = TR_MaxConcurrency input, WD_Steps = steps\<rparr>)))"

section \<open>The vault of provider inputs\<close>

record workflow_input =
  WI_Text :: string
  WI_Parts :: "part list"

text \<open>\<open>J\<close> is \<open>json.Marshal\<close>; the clone through JSON is the identity on these values.\<close>

definition WorkflowInput_validate :: "(workflow_input \<Rightarrow> string) \<Rightarrow> workflow_input \<Rightarrow> error option" where
  "WorkflowInput_validate J input =
     (if WI_Text input = '''' \<and> WI_Parts input = []
      then Some (ErrText ''workflow provider input requires text or at least one part'')
      else if length (J input) > 1048576 then Some (ErrText ''workflow provider input exceeds 1 MiB'')
      else None)"

type_synonym input_values = "string \<rightharpoonup> workflow_input"

definition input_ref :: "string \<Rightarrow> string \<Rightarrow> string \<Rightarrow> string" where
  "input_ref tenantID workflowID stepID = tenantID @ ''/'' @ workflowID @ ''/'' @ stepID"

definition MemoryInputStore_Put ::
  "(workflow_input \<Rightarrow> string) \<Rightarrow> string \<Rightarrow> string \<Rightarrow> string \<Rightarrow> workflow_input \<Rightarrow> input_values \<Rightarrow> string result \<times> input_values" where
  "MemoryInputStore_Put J tenantID workflowID stepID input m =
     (if tenantID = '''' \<or> workflowID = '''' \<or> stepID = ''''
      then (Inl (ErrText ''workflow input store requires tenant, workflow, step, and input''), m)
      else
        case WorkflowInput_validate J input of
          Some e \<Rightarrow> (Inl e, m)
        | None \<Rightarrow>
            let ref = input_ref tenantID workflowID stepID in
            if (case m ref of Some existing \<Rightarrow> J existing \<noteq> J input | None \<Rightarrow> False)
            then (Inl (ErrText (''workflow input reference '' @ ref @ '' already contains different input'')), m)
            else (Inr ref, m(ref \<mapsto> input)))"

definition MemoryInputStore_Get :: "string \<Rightarrow> string \<Rightarrow> input_values \<Rightarrow> workflow_input result" where
  "MemoryInputStore_Get tenantID ref m =
     (if tenantID = '''' \<or> ref = '''' then Inl (ErrText ''workflow input lookup requires tenant and reference'')
      else if length ref \<le> length tenantID \<or> take (length tenantID) ref \<noteq> tenantID \<or> ref ! length tenantID \<noteq> CHR ''/''
      then Inl ErrNotFound
      else case m ref of None \<Rightarrow> Inl ErrNotFound | Some value \<Rightarrow> Inr value)"

section \<open>The aggregate state\<close>

lemma fold_scan_state:
  "fold scan_state steps (t, c, f, i) =
     (t \<and> (\<forall>a\<in>set steps. TaskState_Terminal (Step_State a)), c \<and> (\<forall>a\<in>set steps. Step_State a = TaskStateCompleted),
      f \<or> (\<exists>a\<in>set steps. failed_state (Step_State a)), i \<or> (\<exists>a\<in>set steps. waitingTaskState (Step_State a)))"
  by (induction steps arbitrary: t c f i) (auto simp: scan_state_def)

lemma terminal_cases: "TaskState_Terminal s \<longleftrightarrow> s = TaskStateCompleted \<or> failed_state s"
  by (auto simp: TaskState_Terminal_def failed_state_def)

lemma waiting_not_terminal: "waitingTaskState s \<Longrightarrow> \<not> TaskState_Terminal s"
  by (auto simp: waitingTaskState_def)

lemma completed_not_failed [simp]: "\<not> failed_state TaskStateCompleted"
  by (simp add: failed_state_def)

lemma workflowStateForSteps_eq:
  "workflowStateForSteps steps =
     (if \<exists>a\<in>set steps. waitingTaskState (Step_State a) then WorkflowStateWaitingInput
      else if \<forall>a\<in>set steps. Step_State a = TaskStateCompleted then WorkflowStateCompleted
      else if \<forall>a\<in>set steps. TaskState_Terminal (Step_State a) then
        (if \<exists>a\<in>set steps. Step_State a = TaskStateCompleted then WorkflowStatePartiallyFailed else WorkflowStateFailed)
      else WorkflowStateRunning)"
  unfolding workflowStateForSteps_def fold_scan_state terminal_cases by auto

section \<open>Readiness\<close>

lemma findWorkflowStep_some: "findWorkflowStep steps i = Some a \<Longrightarrow> a \<in> set steps \<and> Step_ID a = i"
  by (auto simp: findWorkflowStep_def find_Some_iff)

lemma scan_dependencies_fst:
  "fst (scan_dependencies steps ds f) \<longleftrightarrow>
     (\<forall>d\<in>set ds. \<exists>a. findWorkflowStep steps d = Some a \<and> TaskState_Terminal (Step_State a))"
  by (induction ds arbitrary: f) (auto split: option.splits)

lemma scan_dependencies_snd:
  "fst (scan_dependencies steps ds f) \<Longrightarrow>
     snd (scan_dependencies steps ds f) \<longleftrightarrow>
       f \<or> (\<exists>d\<in>set ds. \<exists>a. findWorkflowStep steps d = Some a \<and> Step_State a \<noteq> TaskStateCompleted)"
  by (induction ds arbitrary: f) (auto split: option.splits if_splits)

lemma select_steps_iff: "i \<in> set (select_steps P steps) \<longleftrightarrow> i < length steps \<and> P steps (steps ! i)"
  by (auto simp: select_steps_def)

section \<open>What an accepted definition guarantees\<close>

lemma dedup_dependencies_ok:
  "dedup_dependencies i seen vs = Inr ds \<Longrightarrow> distinct seen \<Longrightarrow> i \<notin> set seen \<Longrightarrow> '''' \<notin> set seen \<Longrightarrow>
     distinct ds \<and> i \<notin> set ds \<and> '''' \<notin> set ds \<and> set ds = set seen \<union> TrimSpace ` set vs"
  by (induction i seen vs rule: dedup_dependencies.induct) (auto simp: Let_def split: if_splits)

lemma normalizeDependencies_ok:
  assumes "normalizeDependencies i vs = Inr ds"
  shows "sorted ds \<and> distinct ds \<and> i \<notin> set ds \<and> '''' \<notin> set ds \<and> set ds = TrimSpace ` set vs"
  using assms dedup_dependencies_ok [of i "[]" vs] by (auto simp: normalizeDependencies_def split: sum.splits)

lemma check_artifact_inputs_ok:
  "check_artifact_inputs i ds seen vs = Inr ws \<Longrightarrow>
     (\<forall>v\<in>set ws. WAI_FromStepID v \<in> set ds \<and> (\<forall>n. WAI_PartIndex v = Some n \<longrightarrow> 0 \<le> n)) \<and>
     distinct (map artifact_input_key ws) \<and> set seen \<inter> artifact_input_key ` set ws = {}"
  by (induction i ds seen vs arbitrary: ws rule: check_artifact_inputs.induct)
    (auto simp: Let_def split: if_splits sum.splits option.splits, blast+)

definition step_plan_ok :: "workflow_step \<Rightarrow> bool" where
  "step_plan_ok a \<longleftrightarrow>
     Step_ID a \<noteq> '''' \<and> (Step_AgentID a \<noteq> '''' \<or> Step_Skill a \<noteq> '''') \<and> \<not> step_started a \<and>
     sorted (Step_DependsOn a) \<and> distinct (Step_DependsOn a) \<and> Step_ID a \<notin> set (Step_DependsOn a) \<and>
     (\<forall>v\<in>set (Step_ArtifactInputs a). WAI_FromStepID v \<in> set (Step_DependsOn a) \<and>
        (\<forall>n. WAI_PartIndex v = Some n \<longrightarrow> 0 \<le> n))"

lemma plan_step_ok:
  assumes "plan_step L i d = Inr a" "i \<noteq> ''''"
  shows "Step_ID a = i \<and> step_plan_ok a"
proof -
  obtain deps arts where c: "normalizeDependencies i (SI_DependsOn d) = Inr deps"
    "normalizeArtifactInputs i deps (SI_ArtifactInputs d) = Inr arts"
    "Step_ID a = i" "Step_AgentID a \<noteq> '''' \<or> Step_Skill a \<noteq> ''''" "\<not> step_started a"
    "Step_DependsOn a = deps" "Step_ArtifactInputs a = arts"
    using assms(1) by (auto simp: plan_step_def step_started_def split: if_splits sum.splits)
  have "sorted deps \<and> distinct deps \<and> i \<notin> set deps" using normalizeDependencies_ok [OF c(1)] by blast
  moreover have "\<forall>v\<in>set arts. WAI_FromStepID v \<in> set deps \<and> (\<forall>n. WAI_PartIndex v = Some n \<longrightarrow> 0 \<le> n)"
    using check_artifact_inputs_ok [OF c(2) [unfolded normalizeArtifactInputs_def]] by blast
  ultimately show ?thesis using c assms(2) by (simp add: step_plan_ok_def)
qed

lemma step_name_nonempty: "step_name n d \<noteq> ''''"
  by (simp add: step_name_def)

lemma build_steps_ok:
  "build_steps L n seen ds = Inr steps \<Longrightarrow>
     length steps = length ds \<and> distinct (step_ids steps) \<and> set seen \<inter> set (step_ids steps) = {} \<and>
     (\<forall>a\<in>set steps. step_plan_ok a)"
proof (induction L n seen ds arbitrary: steps rule: build_steps.induct)
  case (2 L index seen d ds)
  then obtain a rest where c: "step_name index d \<notin> set seen" "plan_step L (step_name index d) d = Inr a"
    "build_steps L (index + 1) (step_name index d # seen) ds = Inr rest" "steps = a # rest"
    by (auto simp: Let_def split: if_splits sum.splits)
  from "2.IH" [OF refl c(1,2) c(3)] c(1,4) plan_step_ok [OF c(2) step_name_nonempty]
  show ?case by (auto simp: step_ids_def)
qed (simp add: step_ids_def)

lemma prepare_workflow_ok:
  assumes "prepare_workflow L tn d = Some (Inr (ver, conc, steps))"
  shows "1 \<le> ver \<and> ver \<le> 1000 \<and> 1 \<le> conc \<and> conc \<le> 1024 \<and> steps \<noteq> [] \<and> tn \<noteq> ''''"
    and "length steps = length (WD_Steps d) \<and> distinct (step_ids steps) \<and> (\<forall>a\<in>set steps. step_plan_ok a)"
    and "(\<forall>a\<in>set steps. set (Step_DependsOn a) \<subseteq> set (step_ids steps)) \<and> acyclic (depends (graph_of steps))"
proof -
  have b: "build_steps L 0 [] (WD_Steps d) = Inr steps" "validateWorkflowGraph steps = Some None"
    "tn \<noteq> ''''" "WD_Steps d \<noteq> []" "1 \<le> ver \<and> ver \<le> 1000 \<and> 1 \<le> conc \<and> conc \<le> 1024"
    using assms by (auto simp: prepare_workflow_def Let_def Suc_le_eq split: if_splits sum.splits option.splits)
  from build_steps_ok [OF b(1)] b(3-5)
  show "1 \<le> ver \<and> ver \<le> 1000 \<and> 1 \<le> conc \<and> conc \<le> 1024 \<and> steps \<noteq> [] \<and> tn \<noteq> ''''"
    "length steps = length (WD_Steps d) \<and> distinct (step_ids steps) \<and> (\<forall>a\<in>set steps. step_plan_ok a)"
    by auto
  show "(\<forall>a\<in>set steps. set (Step_DependsOn a) \<subseteq> set (step_ids steps)) \<and> acyclic (depends (graph_of steps))"
    using b(2) by (simp add: validateWorkflowGraph_correct)
qed

lemma prepare_workflow_total: "prepare_workflow L tn d \<noteq> None"
  by (simp add: prepare_workflow_def Let_def validateWorkflowGraph_total split: sum.split option.split)

section \<open>Compiled templates\<close>

text \<open>A definition in which every step depends on at most one step, named before it, and takes its
  artifacts. All templates compile to such plans, and \<open>StartWorkflow\<close> accepts every such plan.\<close>

fun forward_plan :: "golib \<Rightarrow> string list \<Rightarrow> workflow_step_input list \<Rightarrow> bool" where
  "forward_plan L seen [] = True"
| "forward_plan L seen (d # ds) \<longleftrightarrow>
     SI_ID d \<noteq> '''' \<and> SI_ID d \<notin> set seen \<and> (SI_AgentID d \<noteq> '''' \<or> SI_Skill d \<noteq> '''') \<and>
     (\<exists>ps. NormalizeMessageParts L (SI_Text d) (SI_Parts d) = Inr ps) \<and>
     (SI_DependsOn d = [] \<and> SI_ArtifactInputs d = [] \<or>
      (\<exists>p\<in>set seen. p \<noteq> '''' \<and> TrimSpace p = p \<and> SI_DependsOn d = [p] \<and> SI_ArtifactInputs d = [from_step p])) \<and>
     forward_plan L (SI_ID d # seen) ds"

lemma plan_step_forward:
  assumes "forward_plan L seen (d # ds)"
  shows "\<exists>a. plan_step L (SI_ID d) d = Inr a \<and> Step_ID a = SI_ID d \<and> set (Step_DependsOn a) \<subseteq> set seen"
proof -
  have "TrimSpace '''' = ''''" by (simp add: TrimSpace_def)
  with assms show ?thesis
    by (auto simp: plan_step_def normalizeDependencies_def normalizeArtifactInputs_def from_step_def Let_def)
qed

lemma build_forward:
  "forward_plan L seen ds \<Longrightarrow> \<exists>steps. build_steps L n seen ds = Inr steps \<and> step_ids steps = map SI_ID ds \<and>
     (\<forall>i<length steps. set (Step_DependsOn (steps ! i)) \<subseteq> set seen \<union> set (take i (step_ids steps)))"
proof (induction ds arbitrary: n seen)
  case (Cons d ds)
  from Cons.prems obtain a where a: "plan_step L (SI_ID d) d = Inr a" "Step_ID a = SI_ID d" "set (Step_DependsOn a) \<subseteq> set seen"
    using plan_step_forward by blast
  from Cons obtain steps where s: "build_steps L (n + 1) (SI_ID d # seen) ds = Inr steps" "step_ids steps = map SI_ID ds"
    "\<forall>i<length steps. set (Step_DependsOn (steps ! i)) \<subseteq> set (SI_ID d # seen) \<union> set (take i (step_ids steps))"
    by fastforce
  have "set (Step_DependsOn ((a # steps) ! i)) \<subseteq> set seen \<union> set (take i (step_ids (a # steps)))" if "i < length (a # steps)" for i
    using that a s(3) by (cases i) (auto simp: step_ids_def)
  moreover have "build_steps L n seen (d # ds) = Inr (a # steps)"
    using Cons.prems a s by (simp add: step_name_def Let_def)
  ultimately show ?case using a s(2) by (auto simp: step_ids_def)
qed (simp add: step_ids_def)

text \<open>Dependencies that point backwards in the list have no cycle.\<close>

lemma backwards_acyclic:
  assumes "distinct (step_ids steps)" "\<forall>i<length steps. set (Step_DependsOn (steps ! i)) \<subseteq> set (take i (step_ids steps))"
  shows "acyclic (depends (graph_of steps))"
proof (rule acyclic_rank)
  let ?rank = "\<lambda>a. length (takeWhile (\<lambda>x. x \<noteq> a) (step_ids steps))"
  have rank: "?rank (step_ids steps ! i) = i" if "i < length steps" for i
  proof -
    have "takeWhile (\<lambda>x. x \<noteq> step_ids steps ! i) (step_ids steps) = take i (step_ids steps)"
      using assms(1) that by (intro takeWhile_eq_take_P_nth) (auto simp: step_ids_def distinct_conv_nth)
    with that show ?thesis by (simp add: step_ids_def)
  qed
  fix a b assume "(a, b) \<in> depends (graph_of steps)"
  then obtain i where i: "i < length steps" "step_ids steps ! i = a" "b \<in> set (Step_DependsOn (steps ! i))"
  proof -
    obtain x where "x \<in> set steps" "Step_ID x = a" "b \<in> set (Step_DependsOn x)"
      using \<open>(a, b) \<in> depends (graph_of steps)\<close> by (auto simp: depends_def graph_of_step)
    then show ?thesis using that by (auto simp: in_set_conv_nth step_ids_def)
  qed
  with assms(2) have "b \<in> set (take i (step_ids steps))" by blast
  then obtain j where "j < i" "j < length steps" "step_ids steps ! j = b" by (auto simp: in_set_conv_nth step_ids_def)
  with rank [of j] rank [OF i(1)] i(2) show "?rank b < ?rank a" by simp
qed

lemma forward_plan_distinct: "forward_plan L seen ds \<Longrightarrow> distinct (map SI_ID ds) \<and> set seen \<inter> SI_ID ` set ds = {}"
  by (induction L seen ds rule: forward_plan.induct) auto

lemma forward_plan_accepted:
  assumes "forward_plan L [] (WD_Steps d)" "WD_Steps d \<noteq> []" "tn \<noteq> ''''" "WD_DefinitionVersion d \<le> 1000"
    "WD_MaxConcurrency d \<le> 1024" "length (WD_Steps d) \<le> 1024"
  shows "\<exists>ver conc steps. prepare_workflow L tn d = Some (Inr (ver, conc, steps)) \<and> step_ids steps = map SI_ID (WD_Steps d)"
proof -
  obtain steps where s: "build_steps L 0 [] (WD_Steps d) = Inr steps" "step_ids steps = map SI_ID (WD_Steps d)"
    "\<forall>i<length steps. set (Step_DependsOn (steps ! i)) \<subseteq> set (take i (step_ids steps))"
    using build_forward [OF assms(1), of 0] by auto
  then have "acyclic (depends (graph_of steps))" using forward_plan_distinct [OF assms(1)] by (intro backwards_acyclic) simp_all
  moreover have "set (Step_DependsOn a) \<subseteq> set (step_ids steps)" if "a \<in> set steps" for a
    using that s(3) by (auto simp: in_set_conv_nth) (metis in_set_conv_nth in_set_takeD subsetD)
  ultimately have "validateWorkflowGraph steps = Some None" unfolding validateWorkflowGraph_correct by blast
  with s assms show ?thesis by (simp add: prepare_workflow_def Let_def)
qed

lemma number_solid: "s \<noteq> '''' \<Longrightarrow> solid (hd s) \<Longrightarrow> TrimSpace (s @ nat_digits n) = s @ nat_digits n"
  using nat_digits_are_digits [of n] nat_digits_nonempty [of n]
  by (intro TrimSpace_solid) (auto simp: list_all_iff is_digit_solid)

lemma nat_digits_inj: "nat_digits m = nat_digits n \<longleftrightarrow> m = n"
  by (metis digits_value_nat of_nat_eq_iff)

lemma stage_names: "stage_name m = stage_name n \<longleftrightarrow> m = n" "branch_name m = branch_name n \<longleftrightarrow> m = n"
  "stage_name n \<noteq> ''''" "branch_name n \<noteq> ''''" "TrimSpace (stage_name n) = stage_name n"
proof -
  show "stage_name m = stage_name n \<longleftrightarrow> m = n" "branch_name m = branch_name n \<longleftrightarrow> m = n"
    "stage_name n \<noteq> ''''" "branch_name n \<noteq> ''''"
    by (simp_all add: stage_name_def branch_name_def nat_digits_inj)
  show "TrimSpace (stage_name n) = stage_name n"
    unfolding stage_name_def by (rule number_solid) (simp_all add: solid_def)
qed

lemma pipeline_forward:
  assumes "\<exists>ps. NormalizeMessageParts L (TR_Text input) (TR_Parts input) = Inr ps"
  shows "\<forall>a\<in>set ags. one_selector a \<Longrightarrow> (\<forall>m. stage_name m \<in> set seen \<longrightarrow> m \<le> n) \<Longrightarrow>
      (n = 0 \<or> stage_name n \<in> set seen) \<Longrightarrow> forward_plan L seen (pipeline_steps input n ags)"
proof (induction ags arbitrary: n seen)
  case (Cons a ags)
  have "forward_plan L (stage_name (n + 1) # seen) (pipeline_steps input (n + 1) ags)"
    using Cons.prems by (intro Cons.IH) (auto simp: stage_names intro: le_SucI)
  moreover have "stage_name (n + 1) \<notin> set seen" using Cons.prems(2) by force
  ultimately show ?case
    using Cons.prems assms by (auto simp: template_step_def stage_names one_selector_def)
qed simp

lemma fanout_forward:
  assumes "\<exists>ps. NormalizeMessageParts L (TR_Text input) (TR_Parts input) = Inr ps"
  shows "\<forall>a\<in>set ags. one_selector a \<Longrightarrow> (\<forall>m. branch_name m \<in> set seen \<longrightarrow> m \<le> n) \<Longrightarrow>
      forward_plan L seen (fanout_steps input n ags)"
proof (induction ags arbitrary: n seen)
  case (Cons a ags)
  have "forward_plan L (branch_name (n + 1) # seen) (fanout_steps input (n + 1) ags)"
    using Cons.prems by (intro Cons.IH) (auto simp: stage_names intro: le_SucI)
  moreover have "branch_name (n + 1) \<notin> set seen" using Cons.prems(2) by force
  ultimately show ?case
    using Cons.prems assms by (auto simp: template_step_def stage_names one_selector_def)
qed simp

lemma length_template_steps: "length (pipeline_steps input n ags) = length ags" "length (fanout_steps input n ags) = length ags"
  by (induction ags arbitrary: n) auto

lemma template_cases:
  assumes "findWorkflowTemplate i = Some t"
  shows "Tpl_Version t = 1 \<and> Tpl_ID t = i \<and>
    (i = ''single-agent'' \<and> Tpl_MinAgents t = 1 \<and> Tpl_MaxAgents t = 1 \<or>
     i = ''human-approval'' \<and> Tpl_MinAgents t = 1 \<and> Tpl_MaxAgents t = 1 \<or>
     i = ''sequential-pipeline'' \<and> Tpl_MinAgents t = 2 \<and> Tpl_MaxAgents t = 64 \<or>
     i = ''parallel-fanout'' \<and> Tpl_MinAgents t = 2 \<and> Tpl_MaxAgents t = 64 \<or>
     i = ''review-revision'' \<and> Tpl_MinAgents t = 2 \<and> Tpl_MaxAgents t = 2)"
proof -
  have "t \<in> set workflowTemplates" "Tpl_ID t = i"
    using assms by (auto simp: findWorkflowTemplate_def find_Some_iff)
  then show ?thesis
    unfolding workflowTemplates_def list.set insert_iff empty_iff by (elim disjE) simp_all
qed

lemma fixed_names_trim: "TrimSpace ''draft'' = ''draft''" "TrimSpace ''review'' = ''review''"
  by (rule TrimSpace_solid; simp add: solid_def)+

lemma template_steps_forward:
  assumes "findWorkflowTemplate i = Some t" "template_steps i input = Inr steps"
    "Tpl_MinAgents t \<le> length (TR_Agents input)" "length (TR_Agents input) \<le> Tpl_MaxAgents t"
    "\<forall>a\<in>set (TR_Agents input). one_selector a"
    "\<exists>ps. NormalizeMessageParts L (TR_Text input) (TR_Parts input) = Inr ps"
  shows "forward_plan L [] steps \<and> steps \<noteq> [] \<and> length steps \<le> 64"
proof -
  have sel: "TrimSpace (TA_AgentID (TR_Agents input ! k)) \<noteq> '''' \<or> TrimSpace (TA_Skill (TR_Agents input ! k)) \<noteq> ''''"
    if "k < length (TR_Agents input)" for k
    using assms(5) that by (auto simp: one_selector_def)
  from template_cases [OF assms(1)] consider
      "i = ''single-agent''" "length (TR_Agents input) = 1" | "i = ''human-approval''" "length (TR_Agents input) = 1"
    | "i = ''sequential-pipeline''" "2 \<le> length (TR_Agents input)" "length (TR_Agents input) \<le> 64"
    | "i = ''parallel-fanout''" "2 \<le> length (TR_Agents input)" "length (TR_Agents input) \<le> 64"
    | "i = ''review-revision''" "length (TR_Agents input) = 2"
    using assms(3,4) by fastforce
  then show ?thesis
  proof cases
    case 1
    with assms(2,6) sel [of 0] show ?thesis by (auto simp: template_steps_def template_step_def Let_def)
  next
    case 2
    with assms(2,6) sel [of 0] show ?thesis by (auto simp: template_steps_def template_step_def Let_def)
  next
    case 3
    then have s: "steps = pipeline_steps input 0 (TR_Agents input)" using assms(2) by (simp add: template_steps_def Let_def)
    have "forward_plan L [] steps" unfolding s by (rule pipeline_forward [OF assms(6,5)]) simp_all
    then show ?thesis using 3 s length_template_steps(1) [of input 0 "TR_Agents input"] by auto
  next
    case 4
    then have s: "steps = fanout_steps input 0 (TR_Agents input)" using assms(2) by (simp add: template_steps_def Let_def)
    have "forward_plan L [] steps" unfolding s by (rule fanout_forward [OF assms(6,5)]) simp_all
    then show ?thesis using 4 s length_template_steps(2) [of input 0 "TR_Agents input"] by auto
  next
    case 5
    with assms(2,6) sel [of 0] sel [of 1] show ?thesis
      by (auto simp: template_steps_def template_step_def fixed_names_trim Let_def)
  qed
qed

lemma compiled_forward:
  assumes "CompileWorkflowTemplate L i input = Inr d"
  shows "forward_plan L [] (WD_Steps d) \<and> WD_Steps d \<noteq> [] \<and> length (WD_Steps d) \<le> 64 \<and>
    WD_DefinitionVersion d = 1 \<and> WD_MaxConcurrency d = TR_MaxConcurrency input"
proof -
  obtain ps t steps where c: "NormalizeMessageParts L (TR_Text input) (TR_Parts input) = Inr ps"
    "findWorkflowTemplate (TrimSpace i) = Some t" "Tpl_MinAgents t \<le> length (TR_Agents input)"
    "length (TR_Agents input) \<le> Tpl_MaxAgents t"
    "find (\<lambda>k. \<not> one_selector (TR_Agents input ! k)) [0..<length (TR_Agents input)] = None"
    "template_steps (TrimSpace i) input = Inr steps"
    "WD_Steps d = steps" "WD_DefinitionVersion d = Tpl_Version t" "WD_MaxConcurrency d = TR_MaxConcurrency input"
    using assms by (auto simp: CompileWorkflowTemplate_def Let_def split: sum.splits option.splits if_splits)
  have "\<forall>a\<in>set (TR_Agents input). one_selector a" using c(5) by (auto simp: find_None_iff in_set_conv_nth)
  then show ?thesis
    using template_steps_forward [OF c(2,6,3,4)] c(1,7-9) template_cases [OF c(2)] by auto
qed

section \<open>The contract of an input vault\<close>

text \<open>What the coordinator relies on: a stored input can be read back by its tenant under the reference
  returned, storing it again changes nothing, and storing anything else keeps it. \<open>same\<close> is equality of
  the stored forms.\<close>

locale input_vault =
  fixes put :: "string \<Rightarrow> string \<Rightarrow> string \<Rightarrow> 'i \<Rightarrow> 'm \<Rightarrow> string result \<times> 'm"
    and get :: "string \<Rightarrow> string \<Rightarrow> 'm \<Rightarrow> 'i result"
    and same :: "'i \<Rightarrow> 'i \<Rightarrow> bool"
  assumes put_get: "put t wid sid i m = (Inr ref, m') \<Longrightarrow> get t ref m' = Inr i"
    and put_again: "put t wid sid i m = (Inr ref, m') \<Longrightarrow> put t wid sid i m' = (Inr ref, m')"
    and put_failed: "put t wid sid i m = (Inl e, m') \<Longrightarrow> m' = m"
    and put_keeps: "put t wid sid i m = (r, m') \<Longrightarrow> get t' ref m = Inr j \<Longrightarrow> \<exists>j'. get t' ref m' = Inr j' \<and> same j j'"
    and same_equiv: "same i i" "same i j \<Longrightarrow> same j k \<Longrightarrow> same i k"
begin

fun put_many :: "(string \<times> string \<times> string \<times> 'i) list \<Rightarrow> 'm \<Rightarrow> 'm" where
  "put_many [] m = m"
| "put_many ((t, wid, sid, i) # ps) m = put_many ps (snd (put t wid sid i m))"

lemma many_keep: "get t ref m = Inr i \<Longrightarrow> \<exists>j. get t ref (put_many ps m) = Inr j \<and> same i j"
proof (induction ps arbitrary: m i)
  case Nil
  then show ?case using same_equiv by auto
next
  case (Cons p ps)
  obtain t' wid sid k where p: "p = (t', wid, sid, k)" by (metis prod_cases4)
  obtain r m1 where m1: "put t' wid sid k m = (r, m1)" by fastforce
  with put_keeps Cons.prems obtain j where "get t ref m1 = Inr j" "same i j" by blast
  with Cons.IH [of m1 j] m1 p same_equiv(2) show ?case by auto
qed

lemma stored_for_good: "put t wid sid i m = (Inr ref, m') \<Longrightarrow> \<exists>j. get t ref (put_many ps m') = Inr j \<and> same i j"
  using put_get many_keep by blast

end

interpretation memory_vault: input_vault "MemoryInputStore_Put J" MemoryInputStore_Get "\<lambda>i j. J i = J j"
proof (unfold_locales, goal_cases)
  case (1 t wid sid i m ref m')
  then show ?case
    by (auto simp: MemoryInputStore_Put_def MemoryInputStore_Get_def input_ref_def Let_def nth_append
        split: if_splits option.splits)
next
  case (4 t wid sid i m r m' t' ref j)
  then show ?case
    by (auto simp: MemoryInputStore_Put_def MemoryInputStore_Get_def Let_def split: if_splits option.splits)
qed (auto simp: MemoryInputStore_Put_def Let_def split: if_splits option.splits)

end
