(* ===== verification/Workflow_Coord.thy ===== *)
theory Workflow_Coord
  imports Hub_Guarantees Workflow_Plan
begin

text \<open>
  The workflow coordinator (\<open>internal/orchestration/workflow.go\<close>, \<open>coordinator.go\<close>): every call is a
  program over the world of \<open>Hub_World\<close> that drives tasks through \<open>Federation_Service\<close> and keeps the
  workflow aggregate in the store.

  The branches of a batch run in goroutines. They are run here one after the other, in the order in
  which they finish (\<open>C_Finish\<close> ranks them), and their results are applied in that order; what the
  goroutines of a batch do to each other's store is among what \<open>e_other\<close> may do between two operations.
  The loop of \<open>submitWorkflowReady\<close> has no bound in the code. It is given a number of rounds here and
  returns \<^term>\<open>None\<close> when they run out; \<open>submit_ready_total\<close> shows that one round more than the
  workflow has steps is enough, whatever other goroutines do.

  \<open>C_InputPut\<close> and \<open>C_InputGet\<close> are the configured \<open>WorkflowInputStore\<close> as seen at a tick,
  \<open>C_ErrorText\<close> is \<open>err.Error()\<close>, \<open>C_InputJSON\<close> is \<open>json.Marshal\<close> of an input. The checks for an
  unconfigured coordinator (\<open>workflowStore\<close>) are left out: the store of the model is the workflow store.
\<close>

record coordinator =
  C_Hub :: hub_config
  C_ErrorText :: "error \<Rightarrow> string"
  C_InputJSON :: "workflow_input \<Rightarrow> string"
  C_InputPut :: "nat \<Rightarrow> string \<Rightarrow> string \<Rightarrow> string \<Rightarrow> workflow_input \<Rightarrow> string result"
  C_InputGet :: "nat \<Rightarrow> string \<Rightarrow> string \<Rightarrow> workflow_input result"
  C_Finish :: "nat \<Rightarrow> nat \<Rightarrow> nat"

type_synonym flow_outcome = "workflow_result \<times> error option"

section \<open>Callbacks on the workflow aggregate\<close>

definition flow_event ::
  "string \<Rightarrow> string \<Rightarrow> string \<Rightarrow> WorkflowState \<Rightarrow> problem option \<Rightarrow> time \<Rightarrow> workflow_event" where
  "flow_event kind source stepID state p now =
     zero_workflow_event\<lparr>WEvent_Type := kind, WEvent_Source := source, WEvent_StepID := stepID,
                         WEvent_State := state, WEvent_Problem := p, WEvent_CreatedAt := now\<rparr>"

text \<open>\<open>current.Steps[index]\<close> with an index taken from an earlier read of the same workflow, whose number of
  steps never changes (\<open>flow_change\<close>), so the index is in range.\<close>

definition update_step :: "nat \<Rightarrow> (workflow_step \<Rightarrow> workflow_step) \<Rightarrow> workflow \<Rightarrow> workflow" where
  "update_step i f w = w\<lparr>Workflow_Steps := (Workflow_Steps w)[i := f (Workflow_Steps w ! i)]\<rparr>"

definition settle :: "time \<Rightarrow> workflow \<Rightarrow> workflow" where
  "settle now w = w\<lparr>Workflow_State := workflowStateForSteps (Workflow_Steps w), Workflow_UpdatedAt := now\<rparr>"

definition block_step :: "nat \<Rightarrow> string \<Rightarrow> time \<Rightarrow> workflow \<Rightarrow> (workflow_event \<times> workflow) result" where
  "block_step i stepID now current =
     (let p = \<lparr>Problem_Category = ''state'', Problem_Code = ''DEPENDENCY_FAILED'',
               Problem_Message = ''a required workflow dependency failed'', Problem_Retryable = False,
               Problem_Ambiguous = False\<rparr>;
          w = settle now (update_step i (\<lambda>a. a\<lparr>Step_State := TaskStateRejected, Step_Problem := Some p\<rparr>) current)
      in Inr (flow_event ''workflow.step.blocked'' ''hub'' stepID (Workflow_State w) (Some p) now, w))"

definition provider_problem :: "string \<Rightarrow> string \<Rightarrow> problem" where
  "provider_problem code m =
     \<lparr>Problem_Category = ''provider'', Problem_Code = code, Problem_Message = m, Problem_Retryable = True,
      Problem_Ambiguous = False\<rparr>"

definition branch_step :: "(error \<Rightarrow> string) \<Rightarrow> task_outcome \<Rightarrow> workflow_step \<Rightarrow> workflow_step" where
  "branch_step text r a =
     (let a' = a\<lparr>Step_Attempt := Step_Attempt a + 1\<rparr> in
      case snd r of
        Some e \<Rightarrow> a'\<lparr>Step_State := TaskStateFailed, Step_Problem := Some (provider_problem ''STEP_SUBMIT_FAILED'' (text e))\<rparr>
      | None \<Rightarrow> a'\<lparr>Step_TaskID := Task_ID (fst r), Step_AgentID := Task_AgentID (fst r), Step_State := Task_State (fst r)\<rparr>)"

definition submitted_step ::
  "(error \<Rightarrow> string) \<Rightarrow> nat \<Rightarrow> string \<Rightarrow> task_outcome \<Rightarrow> time \<Rightarrow> workflow \<Rightarrow> (workflow_event \<times> workflow) result" where
  "submitted_step text i stepID r now current =
     (let w = settle now (update_step i (branch_step text r) current)
      in Inr (flow_event ''workflow.step.submitted'' ''hub'' stepID (Workflow_State w) None now, w))"

definition stored_input ::
  "nat \<Rightarrow> string \<Rightarrow> string \<Rightarrow> string \<Rightarrow> time \<Rightarrow> workflow \<Rightarrow> (workflow_event \<times> workflow) result" where
  "stored_input i stepID ref digest now current =
     Inr (flow_event ''workflow.input.stored'' ''hub'' stepID WorkflowStateUnset None now,
          (update_step i (\<lambda>a. a\<lparr>Step_InputRef := ref, Step_InputDigest := digest\<rparr>) current)\<lparr>Workflow_UpdatedAt := now\<rparr>)"

definition step_status :: "nat \<Rightarrow> task \<Rightarrow> bool \<Rightarrow> time \<Rightarrow> workflow \<Rightarrow> (workflow_event \<times> workflow) result" where
  "step_status i t compensation now current =
     (let w = (if compensation
               then (update_step i (\<lambda>a. a\<lparr>Step_CompensationState := Task_State t\<rparr>) current)\<lparr>Workflow_UpdatedAt := now\<rparr>
               else settle now (update_step i (\<lambda>a. a\<lparr>Step_TaskID := Task_ID t, Step_State := Task_State t,
                                                     Step_Problem := Task_Problem t\<rparr>) current))
      in Inr (flow_event ''workflow.step.status'' ''hub'' (Step_ID (Workflow_Steps w ! i)) (Workflow_State w) None now, w))"

definition set_flow_state ::
  "string \<Rightarrow> string \<Rightarrow> WorkflowState \<Rightarrow> time \<Rightarrow> workflow \<Rightarrow> (workflow_event \<times> workflow) result" where
  "set_flow_state kind source state now current =
     Inr (flow_event kind source '''' state None now, current\<lparr>Workflow_State := state, Workflow_UpdatedAt := now\<rparr>)"

definition pause_flow :: "time \<Rightarrow> workflow \<Rightarrow> (workflow_event \<times> workflow) result" where
  "pause_flow now current =
     (if WorkflowState_Terminal (Workflow_State current) \<or> Workflow_State current = WorkflowStatePaused
      then Inl (ErrText (''workflow cannot be paused from state '' @ workflow_state_string (Workflow_State current)))
      else set_flow_state ''workflow.paused'' ''operator'' WorkflowStatePaused now
             (current\<lparr>Workflow_PausedFrom := Workflow_State current\<rparr>))"

definition resume_flow :: "time \<Rightarrow> workflow \<Rightarrow> (workflow_event \<times> workflow) result" where
  "resume_flow now current =
     (if Workflow_State current \<noteq> WorkflowStatePaused
      then Inl (ErrText (''workflow cannot be resumed from state '' @ workflow_state_string (Workflow_State current)))
      else set_flow_state ''workflow.resumed'' ''operator'' (workflowStateForSteps (Workflow_Steps current)) now
             (current\<lparr>Workflow_PausedFrom := WorkflowStateUnset\<rparr>))"

definition compensation_failed ::
  "nat \<Rightarrow> string \<Rightarrow> string \<Rightarrow> time \<Rightarrow> workflow \<Rightarrow> (workflow_event \<times> workflow) result" where
  "compensation_failed i stepID m now current =
     (let p = provider_problem ''COMPENSATION_SUBMIT_FAILED'' m
      in Inr (flow_event ''workflow.compensation.failed'' ''hub'' stepID WorkflowStateFailed (Some p) now,
              (update_step i (\<lambda>a. a\<lparr>Step_CompensationState := TaskStateFailed, Step_CompensationProblem := Some p\<rparr>) current)
                \<lparr>Workflow_State := WorkflowStateFailed, Workflow_UpdatedAt := now\<rparr>))"

definition compensation_submitted ::
  "nat \<Rightarrow> string \<Rightarrow> task \<Rightarrow> time \<Rightarrow> workflow \<Rightarrow> (workflow_event \<times> workflow) result" where
  "compensation_submitted i stepID t now current =
     Inr (flow_event ''workflow.compensation.submitted'' ''hub'' stepID (Workflow_State current) None now,
          (update_step i (\<lambda>a. a\<lparr>Step_CompensationTaskID := Task_ID t, Step_CompensationState := Task_State t\<rparr>) current)
            \<lparr>Workflow_UpdatedAt := now\<rparr>)"

definition compensation_status ::
  "nat \<Rightarrow> string \<Rightarrow> task \<Rightarrow> time \<Rightarrow> workflow \<Rightarrow> (workflow_event \<times> workflow) result" where
  "compensation_status i stepID t now current =
     Inr (flow_event ''workflow.compensation.status'' ''hub'' stepID WorkflowStateUnset None now,
          (update_step i (\<lambda>a. let a' = a\<lparr>Step_CompensationState := Task_State t\<rparr> in
                             if Task_Problem t \<noteq> None then a'\<lparr>Step_CompensationProblem := Task_Problem t\<rparr> else a') current)
            \<lparr>Workflow_UpdatedAt := now\<rparr>)"

section \<open>Store access\<close>

definition get_flow :: "hub_env \<Rightarrow> string \<Rightarrow> string \<Rightarrow> workflow result hub" where
  "get_flow E tenantID workflowID = store_get E (\<lambda>_. GetWorkflow tenantID workflowID)"

definition apply_flow ::
  "hub_env \<Rightarrow> string \<Rightarrow> string \<Rightarrow> string \<Rightarrow> (workflow \<Rightarrow> (workflow_event \<times> workflow) result) \<Rightarrow>
   (workflow \<times> bool \<times> error option) hub" where
  "apply_flow E tenantID workflowID dedupKey m =
     store_op E (\<lambda>io nid. ApplyWorkflowVersion (io 0) nid tenantID workflowID 0 dedupKey m)"

definition Coordinator_GetWorkflow :: "hub_env \<Rightarrow> string \<Rightarrow> string \<Rightarrow> workflow result hub" where
  "Coordinator_GetWorkflow E tenantID workflowID = get_flow E tenantID workflowID"

definition Coordinator_ListWorkflows ::
  "hub_env \<Rightarrow> (nat \<Rightarrow> journal_store \<Rightarrow> string list) \<Rightarrow> string \<Rightarrow> workflow list hub" where
  "Coordinator_ListWorkflows E order tenantID = store_get E (\<lambda>n s. ListWorkflows (order n s) tenantID s)"

definition updateStep :: "hub_env \<Rightarrow> workflow \<Rightarrow> nat \<Rightarrow> task \<Rightarrow> bool \<Rightarrow> (workflow \<times> error option) hub" where
  "updateStep E w i t compensation = do {
     now \<leftarrow> ask (e_clock E);
     (updated, _, e) \<leftarrow> apply_flow E (Workflow_TenantID w) (Workflow_ID w)
        (''task:'' @ Step_ID (Workflow_Steps w ! i) @ '':'' @ nat_digits (unat (Task_Revision t)) @ '':'' @
         task_state_string (Task_State t))
        (step_status i t compensation now);
     State_Monad.return (updated, e)
   }"

section \<open>Starting the steps that are ready\<close>

text \<open>The parts an artifact input selects among the artifacts of its source, and whether any matched. The
  index is not negative: \<open>normalizeArtifactInputs\<close> refuses negative ones.\<close>

fun select_parts :: "workflow_artifact_input \<Rightarrow> artifact list \<Rightarrow> part list \<times> bool" where
  "select_parts input [] = ([], False)"
| "select_parts input (a # as) =
     (let (parts, matched) = select_parts input as in
      if WAI_ArtifactID input \<noteq> '''' \<and> Artifact_ID a \<noteq> WAI_ArtifactID input then (parts, matched)
      else case WAI_PartIndex input of
             Some i \<Rightarrow> if nat i \<ge> length (Artifact_Parts a) then (parts, matched)
                       else (Artifact_Parts a ! nat i # parts, True)
           | None \<Rightarrow> (Artifact_Parts a @ parts, Artifact_Parts a \<noteq> [] \<or> matched))"

fun project_inputs ::
  "hub_env \<Rightarrow> string \<Rightarrow> workflow \<Rightarrow> workflow_artifact_input list \<Rightarrow> part list result hub" where
  "project_inputs E tenantID w [] = ok []"
| "project_inputs E tenantID w (input # inputs) =
     (case findWorkflowStep (Workflow_Steps w) (WAI_FromStepID input) of
        None \<Rightarrow> fail (ErrText (''Artifact input source step '' @ WAI_FromStepID input @ '' has not completed''))
      | Some source \<Rightarrow>
          if Step_TaskID source = '''' \<or> Step_State source \<noteq> TaskStateCompleted
          then fail (ErrText (''Artifact input source step '' @ WAI_FromStepID input @ '' has not completed''))
          else do {
            r \<leftarrow> store_get E (\<lambda>_. GetTask tenantID (Step_TaskID source));
            case r of
              Inl e \<Rightarrow> fail (ErrWrap (''read Artifact input source step '' @ WAI_FromStepID input) e)
            | Inr t \<Rightarrow>
                let (parts, matched) = select_parts input (Task_Artifacts t) in
                if \<not> matched
                then fail (ErrText (''Artifact input from step '' @ WAI_FromStepID input @ '' did not match an observed Artifact''))
                else bindE (project_inputs E tenantID w inputs) (\<lambda>rest. ok (parts @ rest))
          })"

definition projectArtifactInputs :: "hub_env \<Rightarrow> string \<Rightarrow> workflow \<Rightarrow> workflow_step \<Rightarrow> part list result hub" where
  "projectArtifactInputs E tenantID w a = project_inputs E tenantID w (Step_ArtifactInputs a)"

definition plain_submit :: "string \<Rightarrow> string \<Rightarrow> string \<Rightarrow> part list \<Rightarrow> submit_input" where
  "plain_submit agentID skill text parts =
     \<lparr>Sub_AgentID = agentID, Sub_Skill = skill, Sub_Text = text, Sub_Parts = parts, Sub_EnablePush = False,
      Sub_Priority = 0, Sub_Extensions = [], Sub_Metadata = [], Sub_IdempotencyKey = ''''\<rparr>"

text \<open>The goroutine of one branch.\<close>

definition run_branch :: "hub_env \<Rightarrow> coordinator \<Rightarrow> string \<Rightarrow> workflow \<Rightarrow> nat \<Rightarrow> task_outcome hub" where
  "run_branch E C tenantID w i =
     (let a = Workflow_Steps w ! i in do {
        ri \<leftarrow> ask (\<lambda>n. C_InputGet C n tenantID (Step_InputRef a));
        case ri of
          Inl e \<Rightarrow> State_Monad.return (zero_task, Some e)
        | Inr input \<Rightarrow> do {
            rp \<leftarrow> projectArtifactInputs E tenantID w a;
            case rp of
              Inl e \<Rightarrow> State_Monad.return (zero_task, Some e)
            | Inr parts \<Rightarrow> SubmitTask E (C_Hub C) tenantID
                (plain_submit (Step_AgentID a) (Step_Skill a) (WI_Text input) (WI_Parts input @ parts))
          }
      })"

fun run_branches ::
  "hub_env \<Rightarrow> coordinator \<Rightarrow> string \<Rightarrow> workflow \<Rightarrow> nat list \<Rightarrow> (nat \<times> task_outcome) list hub" where
  "run_branches E C tenantID w [] = State_Monad.return []"
| "run_branches E C tenantID w (i # is) = do {
     r \<leftarrow> run_branch E C tenantID w i;
     rs \<leftarrow> run_branches E C tenantID w is;
     State_Monad.return ((i, r) # rs)
   }"

definition failure_line :: "(error \<Rightarrow> string) \<Rightarrow> string \<Rightarrow> error \<Rightarrow> string" where
  "failure_line text stepID e = stepID @ '': '' @ text e"

fun block_steps ::
  "hub_env \<Rightarrow> string \<Rightarrow> workflow \<Rightarrow> nat list \<Rightarrow> string list \<Rightarrow> (string list \<times> error option) hub" where
  "block_steps E tenantID w [] failures = State_Monad.return (failures, None)"
| "block_steps E tenantID w (i # is) failures = do {
     let stepID = Step_ID (Workflow_Steps w ! i);
     now \<leftarrow> ask (e_clock E);
     (_, _, e) \<leftarrow> apply_flow E tenantID (Workflow_ID w) (''blocked:'' @ stepID) (block_step i stepID now);
     if e \<noteq> None then State_Monad.return (failures, e)
     else block_steps E tenantID w is (failures @ [stepID @ '': required dependency failed''])
   }"

text \<open>The callback of a submitted step appends to the failures, when it is called at all: not for a missing
  workflow and not under a deduplication key that was already used.\<close>

definition flow_callback_runs :: "string \<Rightarrow> string \<Rightarrow> string \<Rightarrow> journal_store \<Rightarrow> bool" where
  "flow_callback_runs tenantID workflowID dedupKey s \<longleftrightarrow>
     workflows s (resourceKey tenantID workflowID) \<noteq> None \<and> dedupKey \<notin> workflowDedup s (resourceKey tenantID workflowID)"

definition record_branch ::
  "hub_env \<Rightarrow> coordinator \<Rightarrow> string \<Rightarrow> workflow \<Rightarrow> nat \<Rightarrow> task_outcome \<Rightarrow> time \<Rightarrow> (bool \<times> error option) hub" where
  "record_branch E C tenantID w i r now =
     (let stepID = Step_ID (Workflow_Steps w ! i) in
      store_op E (\<lambda>io nid s.
        let called = flow_callback_runs tenantID (Workflow_ID w) (start_key stepID) s in
        case ApplyWorkflowVersion (io 0) nid tenantID (Workflow_ID w) 0 (start_key stepID)
               (submitted_step (C_ErrorText C) i stepID r now) s of
          ((_, _, e), s') \<Rightarrow> ((called, e), s')))"

fun record_branches ::
  "hub_env \<Rightarrow> coordinator \<Rightarrow> string \<Rightarrow> workflow \<Rightarrow> (nat \<times> task_outcome) list \<Rightarrow> string list \<Rightarrow>
   (string list \<times> error option) hub" where
  "record_branches E C tenantID w [] failures = State_Monad.return (failures, None)"
| "record_branches E C tenantID w ((i, r) # rs) failures = do {
     now \<leftarrow> ask (e_clock E);
     (called, e) \<leftarrow> record_branch E C tenantID w i r now;
     let failures' = (case snd r of
                        Some err \<Rightarrow> if called then failures @ [failure_line (C_ErrorText C) (Step_ID (Workflow_Steps w ! i)) err]
                                    else failures
                      | None \<Rightarrow> failures);
     if e \<noteq> None then State_Monad.return (failures', e) else record_branches E C tenantID w rs failures'
   }"

fun submitWorkflowReady ::
  "hub_env \<Rightarrow> coordinator \<Rightarrow> nat \<Rightarrow> string \<Rightarrow> string \<Rightarrow> int \<Rightarrow> string list \<Rightarrow> (string list \<times> error option) option hub" where
  "submitWorkflowReady E C 0 tenantID workflowID maxConcurrency failures = State_Monad.return None"
| "submitWorkflowReady E C (Suc rounds) tenantID workflowID maxConcurrency failures = do {
     r \<leftarrow> get_flow E tenantID workflowID;
     case r of
       Inl e \<Rightarrow> State_Monad.return (Some (failures, Some e))
     | Inr w \<Rightarrow> do {
         (failures1, e1) \<leftarrow> block_steps E tenantID w (select_steps step_is_blocked (Workflow_Steps w)) failures;
         if e1 \<noteq> None then State_Monad.return (Some (failures1, e1))
         else
           let ready = select_steps step_is_ready (Workflow_Steps w) in
           if ready = [] then State_Monad.return (Some (failures1, None))
           else do {
             rank \<leftarrow> ask (C_Finish C);
             results \<leftarrow> run_branches E C tenantID w (sort_key rank (take (nat maxConcurrency) ready));
             (failures2, e2) \<leftarrow> record_branches E C tenantID w results failures1;
             if e2 \<noteq> None then State_Monad.return (Some (failures2, e2))
             else submitWorkflowReady E C rounds tenantID workflowID maxConcurrency failures2
           }
       }
   }"

text \<open>The concurrency of a stored workflow: its bound, or all steps at once.\<close>

definition flow_concurrency :: "workflow \<Rightarrow> int" where
  "flow_concurrency w = (if Workflow_MaxConcurrency w \<le> 0 then int (length (Workflow_Steps w)) else Workflow_MaxConcurrency w)"

text \<open>The common end of \<open>StartWorkflow\<close>, \<open>ReconcileWorkflow\<close> and \<open>ContinueWorkflow\<close>.\<close>

definition advance_flow ::
  "hub_env \<Rightarrow> coordinator \<Rightarrow> nat \<Rightarrow> string \<Rightarrow> workflow \<Rightarrow> string \<Rightarrow> int \<Rightarrow> string list \<Rightarrow> flow_outcome option hub" where
  "advance_flow E C rounds tenantID w workflowID maxConcurrency failures = do {
     r \<leftarrow> submitWorkflowReady E C rounds tenantID workflowID maxConcurrency failures;
     case r of
       None \<Rightarrow> State_Monad.return None
     | Some (failures', Some e) \<Rightarrow> State_Monad.return (Some (\<lparr>WR_Workflow = w, WR_Errors = failures'\<rparr>, Some e))
     | Some (failures', None) \<Rightarrow> do {
         g \<leftarrow> get_flow E tenantID workflowID;
         State_Monad.return (Some (case g of
             Inl e \<Rightarrow> (\<lparr>WR_Workflow = zero_workflow, WR_Errors = failures'\<rparr>, Some e)
           | Inr w' \<Rightarrow> (\<lparr>WR_Workflow = w', WR_Errors = failures'\<rparr>, None)))
       }
   }"

section \<open>The calls of the coordinator\<close>

fun store_inputs ::
  "hub_env \<Rightarrow> coordinator \<Rightarrow> string \<Rightarrow> string \<Rightarrow> workflow_step list \<Rightarrow> nat \<Rightarrow> workflow_step_input list \<Rightarrow> error option hub" where
  "store_inputs E C tenantID workflowID steps index [] = State_Monad.return None"
| "store_inputs E C tenantID workflowID steps index (d # ds) = do {
     let input = \<lparr>WI_Text = SI_Text d, WI_Parts = SI_Parts d\<rparr>;
     let stepID = Step_ID (steps ! index);
     rr \<leftarrow> ask (\<lambda>n. C_InputPut C n tenantID workflowID stepID input);
     case rr of
       Inl e \<Rightarrow> State_Monad.return (Some e)
     | Inr ref \<Rightarrow> do {
         now \<leftarrow> ask (e_clock E);
         (_, _, e) \<leftarrow> apply_flow E tenantID workflowID (''input:'' @ stepID)
            (stored_input index stepID ref (G_sha256 (H_Lib (C_Hub C)) (C_InputJSON C input)) now);
         if e \<noteq> None then State_Monad.return e
         else store_inputs E C tenantID workflowID steps (Suc index) ds
       }
   }"

definition workflow_id :: "golib \<Rightarrow> string \<Rightarrow> workflow_definition \<Rightarrow> string \<Rightarrow> string" where
  "workflow_id L tenantID d nid =
     (if WD_ID d \<noteq> '''' then WD_ID d
      else if TrimSpace (WD_IdempotencyKey d) \<noteq> ''''
      then ''wf-'' @ take 32 (G_sha256 L (tenantID @ nul # TrimSpace (WD_IdempotencyKey d)))
      else nid)"

definition new_workflow ::
  "string \<Rightarrow> string \<Rightarrow> workflow_definition \<Rightarrow> int \<Rightarrow> int \<Rightarrow> workflow_step list \<Rightarrow> time \<Rightarrow> workflow" where
  "new_workflow workflowID tenantID d definitionVersion maxConcurrency steps now =
     zero_workflow\<lparr>Workflow_ID := workflowID, Workflow_TenantID := tenantID, Workflow_Name := WD_Name d,
                   Workflow_DefinitionVersion := definitionVersion, Workflow_IdempotencyKey := WD_IdempotencyKey d,
                   Workflow_MaxConcurrency := maxConcurrency, Workflow_State := WorkflowStatePending,
                   Workflow_Steps := steps, Workflow_CreatedAt := now, Workflow_UpdatedAt := now\<rparr>"

text \<open>A conflict under an idempotency key: the stored workflow answers when it was started under that key.\<close>

definition existing_workflow ::
  "hub_env \<Rightarrow> string \<Rightarrow> string \<Rightarrow> workflow_definition \<Rightarrow> int \<Rightarrow> error \<Rightarrow> flow_outcome hub" where
  "existing_workflow E tenantID workflowID d definitionVersion err =
     (if error_is err ErrConflict \<and> TrimSpace (WD_IdempotencyKey d) \<noteq> '''' then do {
        g \<leftarrow> get_flow E tenantID workflowID;
        State_Monad.return (case g of
          Inr existing \<Rightarrow>
            if Workflow_IdempotencyKey existing = TrimSpace (WD_IdempotencyKey d) \<and>
               Workflow_DefinitionVersion existing = definitionVersion
            then (\<lparr>WR_Workflow = existing, WR_Errors = []\<rparr>, None) else (zero_result, Some err)
        | Inl _ \<Rightarrow> (zero_result, Some err))
      }
      else State_Monad.return (zero_result, Some err))"

definition StartWorkflow ::
  "hub_env \<Rightarrow> coordinator \<Rightarrow> nat \<Rightarrow> string \<Rightarrow> workflow_definition \<Rightarrow> flow_outcome option hub" where
  "StartWorkflow E C rounds tenantID d =
     (case prepare_workflow (H_Lib (C_Hub C)) tenantID d of
        None \<Rightarrow> State_Monad.return None
      | Some (Inl e) \<Rightarrow> State_Monad.return (Some (zero_result, Some e))
      | Some (Inr (definitionVersion, maxConcurrency, steps)) \<Rightarrow> do {
          nid \<leftarrow> ask (e_id E);
          let workflowID = workflow_id (H_Lib (C_Hub C)) tenantID d nid;
          now \<leftarrow> ask (e_clock E);
          rc \<leftarrow> store_op E (\<lambda>io nid. CreateWorkflow (io 0) nid
                  (new_workflow workflowID tenantID d definitionVersion maxConcurrency steps now)
                  (flow_event ''workflow.created'' ''hub'' '''' WorkflowStatePending None now));
          case rc of
            Inl err \<Rightarrow> do {
              r \<leftarrow> existing_workflow E tenantID workflowID d definitionVersion err;
              State_Monad.return (Some r)
            }
          | Inr w \<Rightarrow> do {
              e \<leftarrow> store_inputs E C tenantID (Workflow_ID w) steps 0 (WD_Steps d);
              if e \<noteq> None then State_Monad.return (Some (\<lparr>WR_Workflow = w, WR_Errors = []\<rparr>, e))
              else advance_flow E C rounds tenantID w (Workflow_ID w) maxConcurrency []
            }
        })"

definition StartWorkflowTemplate ::
  "hub_env \<Rightarrow> coordinator \<Rightarrow> nat \<Rightarrow> string \<Rightarrow> string \<Rightarrow> template_run \<Rightarrow> flow_outcome option hub" where
  "StartWorkflowTemplate E C rounds tenantID templateID input =
     (case CompileWorkflowTemplate (H_Lib (C_Hub C)) templateID input of
        Inl e \<Rightarrow> State_Monad.return (Some (zero_result, Some e))
      | Inr d \<Rightarrow> StartWorkflow E C rounds tenantID d)"

text \<open>Refreshing the tasks of a workflow: \<open>indices\<close> are those of the loop, \<open>w\<close> its variable.\<close>

fun reconcile_steps ::
  "hub_env \<Rightarrow> coordinator \<Rightarrow> string \<Rightarrow> bool \<Rightarrow> nat list \<Rightarrow> workflow \<Rightarrow> string list \<Rightarrow>
   (workflow \<times> string list \<times> error option) hub" where
  "reconcile_steps E C tenantID subscribe [] w failures = State_Monad.return (w, failures, None)"
| "reconcile_steps E C tenantID subscribe (i # is) w failures =
     (let a = Workflow_Steps w ! i in
      if Step_TaskID a = '''' then reconcile_steps E C tenantID subscribe is w failures
      else do {
        (t, e) \<leftarrow> ReconcileTask E (C_Hub C) tenantID (Step_TaskID a) subscribe;
        case e of
          Some err \<Rightarrow> reconcile_steps E C tenantID subscribe is w (failures @ [failure_line (C_ErrorText C) (Step_ID a) err])
        | None \<Rightarrow> do {
            (w', e') \<leftarrow> updateStep E w i t False;
            if e' \<noteq> None then State_Monad.return (w', failures, e')
            else reconcile_steps E C tenantID subscribe is w' failures
          }
      })"

section \<open>Compensation\<close>

text \<open>The loop of \<open>reconcileCompensation\<close> over the steps first read, with its variables \<open>workflow\<close>,
  \<open>allDone\<close> and \<open>anyFailed\<close>.\<close>

fun compensation_loop ::
  "hub_env \<Rightarrow> string \<Rightarrow> string \<Rightarrow> (nat \<times> workflow_step) list \<Rightarrow> workflow \<Rightarrow> bool \<Rightarrow> bool \<Rightarrow>
   (workflow \<times> bool \<times> bool \<times> error option) hub" where
  "compensation_loop E tenantID workflowID [] w allDone anyFailed = State_Monad.return (w, allDone, anyFailed, None)"
| "compensation_loop E tenantID workflowID ((i, a) # rest) w allDone anyFailed =
     (if Step_CompensationTaskID a = '''' then
        (if failed_state (Step_CompensationState a)
         then compensation_loop E tenantID workflowID rest w allDone True
         else compensation_loop E tenantID workflowID rest w
                (if Step_State a = TaskStateCompleted \<and> Step_CompensationText a \<noteq> '''' then False else allDone) anyFailed)
      else do {
        r \<leftarrow> store_get E (\<lambda>_. GetTask tenantID (Step_CompensationTaskID a));
        case r of
          Inl e \<Rightarrow> State_Monad.return (w, allDone, anyFailed, Some e)
        | Inr t \<Rightarrow> do {
            now \<leftarrow> ask (e_clock E);
            (w', _, e) \<leftarrow> apply_flow E tenantID workflowID
               (''compensation:state:'' @ Step_ID a @ '':'' @ task_state_string (Task_State t))
               (compensation_status i (Step_ID a) t now);
            let allDone' = (if \<not> TaskState_Terminal (Task_State t) then False else allDone);
            let anyFailed' = (if failed_state (Task_State t) then True else anyFailed);
            if e \<noteq> None then State_Monad.return (w', allDone', anyFailed', e)
            else compensation_loop E tenantID workflowID rest w' allDone' anyFailed'
          }
      })"

definition reconcileCompensation :: "hub_env \<Rightarrow> string \<Rightarrow> string \<Rightarrow> (workflow \<times> error option) hub" where
  "reconcileCompensation E tenantID workflowID = do {
     g \<leftarrow> get_flow E tenantID workflowID;
     case g of
       Inl e \<Rightarrow> State_Monad.return (zero_workflow, Some e)
     | Inr w0 \<Rightarrow> do {
         (w, allDone, anyFailed, e) \<leftarrow>
            compensation_loop E tenantID workflowID (zip [0..<length (Workflow_Steps w0)] (Workflow_Steps w0)) w0 True False;
         if e \<noteq> None then State_Monad.return (w, e)
         else if allDone then do {
           let state = (if anyFailed then WorkflowStateFailed else WorkflowStateCompensated);
           now \<leftarrow> ask (e_clock E);
           (w', _, e') \<leftarrow> apply_flow E tenantID workflowID
              (''compensation:terminal:'' @ workflow_state_string state @ '':'' @ nat_digits (unat (Workflow_Revision w)))
              (set_flow_state ''workflow.compensation.terminal'' ''hub'' state now);
           State_Monad.return (w', e')
         }
         else State_Monad.return (w, None)
       }
   }"

text \<open>The loop of \<open>CompensateWorkflow\<close>. The first component of its failure is the result returned.\<close>

definition compensation_key :: "string \<Rightarrow> string" where
  "compensation_key stepID = ''compensation:'' @ stepID"

fun compensate_steps ::
  "hub_env \<Rightarrow> coordinator \<Rightarrow> string \<Rightarrow> string \<Rightarrow> nat list \<Rightarrow> workflow \<Rightarrow> string list \<Rightarrow> (flow_outcome + string list) hub" where
  "compensate_steps E C tenantID workflowID [] w failures = State_Monad.return (Inr failures)"
| "compensate_steps E C tenantID workflowID (i # is) w failures =
     (let a = Workflow_Steps w ! i in
      if Step_State a \<noteq> TaskStateCompleted \<or> Step_CompensationText a = '''' \<or> Step_CompensationTaskID a \<noteq> ''''
      then compensate_steps E C tenantID workflowID is w failures
      else do {
        (t, e) \<leftarrow> SubmitTask E (C_Hub C) tenantID (plain_submit (Step_AgentID a) '''' (Step_CompensationText a) []);
        case e of
          Some err \<Rightarrow> do {
            now \<leftarrow> ask (e_clock E);
            _ \<leftarrow> apply_flow E tenantID workflowID (compensation_key (Step_ID a))
                  (compensation_failed i (Step_ID a) (C_ErrorText C err) now);
            compensate_steps E C tenantID workflowID is w (failures @ [failure_line (C_ErrorText C) (Step_ID a) err])
          }
        | None \<Rightarrow> do {
            g \<leftarrow> get_flow E tenantID workflowID;
            case g of
              Inl err \<Rightarrow> State_Monad.return (Inl (zero_result, Some err))
            | Inr _ \<Rightarrow> do {
                now \<leftarrow> ask (e_clock E);
                (w', _, e') \<leftarrow> apply_flow E tenantID workflowID (compensation_key (Step_ID a))
                   (compensation_submitted i (Step_ID a) t now);
                if e' \<noteq> None then State_Monad.return (Inl (\<lparr>WR_Workflow = w', WR_Errors = failures\<rparr>, e'))
                else compensate_steps E C tenantID workflowID is w' failures
              }
          }
      })"

definition CompensateWorkflow :: "hub_env \<Rightarrow> coordinator \<Rightarrow> string \<Rightarrow> string \<Rightarrow> flow_outcome hub" where
  "CompensateWorkflow E C tenantID workflowID = do {
     g \<leftarrow> get_flow E tenantID workflowID;
     case g of
       Inl e \<Rightarrow> State_Monad.return (zero_result, Some e)
     | Inr w0 \<Rightarrow>
         if Workflow_State w0 \<noteq> WorkflowStateFailed \<and> Workflow_State w0 \<noteq> WorkflowStatePartiallyFailed
         then State_Monad.return (\<lparr>WR_Workflow = w0, WR_Errors = []\<rparr>,
           Some (ErrText (''workflow compensation requires failed state, got '' @ workflow_state_string (Workflow_State w0))))
         else do {
           now \<leftarrow> ask (e_clock E);
           (w, _, e) \<leftarrow> apply_flow E tenantID workflowID ''compensation:started''
              (set_flow_state ''workflow.compensation.started'' ''hub'' WorkflowStateCompensating now);
           if e \<noteq> None then State_Monad.return (zero_result, e)
           else do {
             r \<leftarrow> compensate_steps E C tenantID workflowID [0..<length (Workflow_Steps w)] w [];
             case r of
               Inl stop \<Rightarrow> State_Monad.return stop
             | Inr failures \<Rightarrow> do {
                 (w', e') \<leftarrow> reconcileCompensation E tenantID workflowID;
                 State_Monad.return (\<lparr>WR_Workflow = w', WR_Errors = failures\<rparr>, e')
               }
           }
         }
   }"

section \<open>Reconciling, pausing, resuming, cancelling, continuing\<close>

definition ReconcileWorkflow ::
  "hub_env \<Rightarrow> coordinator \<Rightarrow> nat \<Rightarrow> string \<Rightarrow> string \<Rightarrow> bool \<Rightarrow> flow_outcome option hub" where
  "ReconcileWorkflow E C rounds tenantID workflowID subscribe = do {
     g \<leftarrow> get_flow E tenantID workflowID;
     case g of
       Inl e \<Rightarrow> State_Monad.return (Some (zero_result, Some e))
     | Inr w0 \<Rightarrow>
         if Workflow_State w0 = WorkflowStateCompensating then do {
           (w, e) \<leftarrow> reconcileCompensation E tenantID workflowID;
           State_Monad.return (Some (\<lparr>WR_Workflow = w, WR_Errors = []\<rparr>, e))
         }
         else if Workflow_State w0 = WorkflowStatePaused
         then State_Monad.return (Some (\<lparr>WR_Workflow = w0, WR_Errors = []\<rparr>, None))
         else do {
           (w, failures, e) \<leftarrow> reconcile_steps E C tenantID subscribe [0..<length (Workflow_Steps w0)] w0 [];
           if e \<noteq> None then State_Monad.return (Some (\<lparr>WR_Workflow = w, WR_Errors = failures\<rparr>, e))
           else advance_flow E C rounds tenantID w workflowID (flow_concurrency w) failures
         }
   }"

text \<open>An operator call that changes the state of the aggregate once, under a key that carries the revision
  read: \<open>refuse\<close> is the guard on what was read, \<open>m\<close> the callback.\<close>

definition operator_call ::
  "hub_env \<Rightarrow> string \<Rightarrow> string \<Rightarrow> string \<Rightarrow> (workflow \<Rightarrow> error option) \<Rightarrow>
   (time \<Rightarrow> workflow \<Rightarrow> (workflow_event \<times> workflow) result) \<Rightarrow> flow_outcome hub" where
  "operator_call E tenantID workflowID kind refuse m = do {
     g \<leftarrow> get_flow E tenantID workflowID;
     case g of
       Inl e \<Rightarrow> State_Monad.return (zero_result, Some e)
     | Inr w0 \<Rightarrow>
         (case refuse w0 of
            Some e \<Rightarrow> State_Monad.return (\<lparr>WR_Workflow = w0, WR_Errors = []\<rparr>, Some e)
          | None \<Rightarrow> do {
              now \<leftarrow> ask (e_clock E);
              (w, _, e) \<leftarrow> apply_flow E tenantID workflowID
                 (''workflow:'' @ kind @ '':'' @ nat_digits (unat (Workflow_Revision w0))) (m now);
              State_Monad.return (\<lparr>WR_Workflow = w, WR_Errors = []\<rparr>, e)
            })
   }"

definition PauseWorkflow :: "hub_env \<Rightarrow> string \<Rightarrow> string \<Rightarrow> flow_outcome hub" where
  "PauseWorkflow E tenantID workflowID =
     operator_call E tenantID workflowID ''pause''
       (\<lambda>w. if WorkflowState_Terminal (Workflow_State w) \<or> Workflow_State w = WorkflowStatePaused
            then Some (ErrText (''workflow cannot be paused from state '' @ workflow_state_string (Workflow_State w)))
            else None)
       pause_flow"

definition ResumeWorkflow :: "hub_env \<Rightarrow> string \<Rightarrow> string \<Rightarrow> flow_outcome hub" where
  "ResumeWorkflow E tenantID workflowID =
     operator_call E tenantID workflowID ''resume''
       (\<lambda>w. if Workflow_State w \<noteq> WorkflowStatePaused
            then Some (ErrText (''workflow cannot be resumed from state '' @ workflow_state_string (Workflow_State w)))
            else None)
       resume_flow"

fun cancel_steps ::
  "hub_env \<Rightarrow> coordinator \<Rightarrow> string \<Rightarrow> workflow_step list \<Rightarrow> string list \<Rightarrow> string list hub" where
  "cancel_steps E C tenantID [] failures = State_Monad.return failures"
| "cancel_steps E C tenantID (a # as) failures =
     (if Step_TaskID a = '''' \<or> TaskState_Terminal (Step_State a) then cancel_steps E C tenantID as failures
      else do {
        (_, e) \<leftarrow> CancelTask E (C_Hub C) tenantID (Step_TaskID a);
        cancel_steps E C tenantID as
          (case e of Some err \<Rightarrow> failures @ [failure_line (C_ErrorText C) (Step_ID a) err] | None \<Rightarrow> failures)
      })"

definition CancelWorkflow :: "hub_env \<Rightarrow> coordinator \<Rightarrow> string \<Rightarrow> string \<Rightarrow> flow_outcome hub" where
  "CancelWorkflow E C tenantID workflowID = do {
     g \<leftarrow> get_flow E tenantID workflowID;
     case g of
       Inl e \<Rightarrow> State_Monad.return (zero_result, Some e)
     | Inr w0 \<Rightarrow>
         if WorkflowState_Terminal (Workflow_State w0)
         then State_Monad.return (\<lparr>WR_Workflow = w0, WR_Errors = []\<rparr>,
                Some (ErrText (''workflow is already terminal: '' @ workflow_state_string (Workflow_State w0))))
         else do {
           failures \<leftarrow> cancel_steps E C tenantID (Workflow_Steps w0) [];
           now \<leftarrow> ask (e_clock E);
           (w, _, e) \<leftarrow> apply_flow E tenantID workflowID
              (''workflow:cancel:'' @ nat_digits (unat (Workflow_Revision w0)))
              (set_flow_state ''workflow.canceled'' ''operator'' WorkflowStateCanceled now);
           State_Monad.return (\<lparr>WR_Workflow = w, WR_Errors = failures\<rparr>, e)
         }
   }"

fun continue_steps ::
  "hub_env \<Rightarrow> coordinator \<Rightarrow> string \<Rightarrow> string \<Rightarrow> part list \<Rightarrow> (nat \<times> workflow_step) list \<Rightarrow> workflow \<Rightarrow> string list \<Rightarrow>
   (workflow \<times> string list \<times> error option) hub" where
  "continue_steps E C tenantID text parts [] w failures = State_Monad.return (w, failures, None)"
| "continue_steps E C tenantID text parts ((i, a) # rest) w failures =
     (if \<not> waitingTaskState (Step_State a) \<or> Step_TaskID a = '''' then continue_steps E C tenantID text parts rest w failures
      else do {
        (t, e) \<leftarrow> ContinueTask E (C_Hub C) tenantID (Step_TaskID a) text parts;
        case e of
          Some err \<Rightarrow> continue_steps E C tenantID text parts rest w (failures @ [failure_line (C_ErrorText C) (Step_ID a) err])
        | None \<Rightarrow> do {
            (w', e') \<leftarrow> updateStep E w i t False;
            if e' \<noteq> None then State_Monad.return (w', failures, e')
            else continue_steps E C tenantID text parts rest w' failures
          }
      })"

definition ContinueWorkflow ::
  "hub_env \<Rightarrow> coordinator \<Rightarrow> nat \<Rightarrow> string \<Rightarrow> string \<Rightarrow> string \<Rightarrow> part list \<Rightarrow> flow_outcome option hub" where
  "ContinueWorkflow E C rounds tenantID workflowID text parts = do {
     g \<leftarrow> get_flow E tenantID workflowID;
     case g of
       Inl e \<Rightarrow> State_Monad.return (Some (zero_result, Some e))
     | Inr w0 \<Rightarrow>
         if Workflow_State w0 \<noteq> WorkflowStateWaitingInput
         then State_Monad.return (Some (\<lparr>WR_Workflow = w0, WR_Errors = []\<rparr>,
           Some (ErrText (''workflow continuation requires WAITING_INPUT state, got '' @ workflow_state_string (Workflow_State w0)))))
         else do {
           (w, failures, e) \<leftarrow>
              continue_steps E C tenantID text parts (zip [0..<length (Workflow_Steps w0)] (Workflow_Steps w0)) w0 [];
           if e \<noteq> None then State_Monad.return (Some (\<lparr>WR_Workflow = w, WR_Errors = failures\<rparr>, e))
           else advance_flow E C rounds tenantID w workflowID (flow_concurrency w) failures
         }
   }"

section \<open>Fan-out and fan-in\<close>

record fanout_input =
  Fan_AgentID :: string
  Fan_Skill :: string
  Fan_Text :: string

record fanout_result =
  Fan_Tasks :: "task list"
  Fan_Failures :: "string list"

fun fanout_branches ::
  "hub_env \<Rightarrow> coordinator \<Rightarrow> string \<Rightarrow> fanout_input list \<Rightarrow> nat list \<Rightarrow> (nat \<times> task_outcome) list hub" where
  "fanout_branches E C tenantID inputs [] = State_Monad.return []"
| "fanout_branches E C tenantID inputs (i # is) = do {
     let input = inputs ! i;
     r \<leftarrow> SubmitTask E (C_Hub C) tenantID (plain_submit (Fan_AgentID input) (Fan_Skill input) (Fan_Text input) []);
     rs \<leftarrow> fanout_branches E C tenantID inputs is;
     State_Monad.return ((i, r) # rs)
   }"

text \<open>\<open>ordered[item.index] = item\<close>: the results by branch, whatever order they arrived in.\<close>

definition in_order :: "nat \<Rightarrow> (nat \<times> task_outcome) list \<Rightarrow> task_outcome list" where
  "in_order n results = map (\<lambda>i. get_or (zero_task, None) (map_of results) i) [0..<n]"

fun collect_branches :: "(nat \<Rightarrow> error \<Rightarrow> string) \<Rightarrow> nat \<Rightarrow> task_outcome list \<Rightarrow> fanout_result" where
  "collect_branches line i [] = \<lparr>Fan_Tasks = [], Fan_Failures = []\<rparr>"
| "collect_branches line i ((t, e) # rs) =
     (let rest = collect_branches line (Suc i) rs in
      case e of
        Some err \<Rightarrow> rest\<lparr>Fan_Failures := line i err # Fan_Failures rest\<rparr>
      | None \<Rightarrow> rest\<lparr>Fan_Tasks := t # Fan_Tasks rest\<rparr>)"

definition FanOut ::
  "hub_env \<Rightarrow> coordinator \<Rightarrow> string \<Rightarrow> fanout_input list \<Rightarrow> (fanout_result \<times> error option) hub" where
  "FanOut E C tenantID inputs =
     (if inputs = [] then State_Monad.return (\<lparr>Fan_Tasks = [], Fan_Failures = []\<rparr>, Some (ErrText ''at least one fan-out input is required''))
      else do {
        rank \<leftarrow> ask (C_Finish C);
        results \<leftarrow> fanout_branches E C tenantID inputs (sort_key rank [0..<length inputs]);
        let response = collect_branches (\<lambda>i e. ''branch['' @ nat_digits i @ '']: '' @ C_ErrorText C e) 0
                         (in_order (length inputs) results);
        State_Monad.return (response, if Fan_Tasks response = [] then Some (ErrText ''all fan-out branches failed'') else None)
      })"

fun fanin_branches :: "hub_env \<Rightarrow> string \<Rightarrow> string list \<Rightarrow> task_outcome list hub" where
  "fanin_branches E tenantID [] = State_Monad.return []"
| "fanin_branches E tenantID (i # is) = do {
     r \<leftarrow> store_get E (\<lambda>_. GetTask tenantID i);
     rs \<leftarrow> fanin_branches E tenantID is;
     State_Monad.return ((case r of Inl e \<Rightarrow> (zero_task, Some e) | Inr t \<Rightarrow> (t, None)) # rs)
   }"

definition FanIn :: "hub_env \<Rightarrow> coordinator \<Rightarrow> string \<Rightarrow> string list \<Rightarrow> (fanout_result \<times> error option) hub" where
  "FanIn E C tenantID taskIDs =
     (if taskIDs = [] then State_Monad.return (\<lparr>Fan_Tasks = [], Fan_Failures = []\<rparr>, Some (ErrText ''at least one task ID is required''))
      else do {
        results \<leftarrow> fanin_branches E tenantID taskIDs;
        let response = collect_branches (\<lambda>i e. ''branch['' @ nat_digits i @ ''] '' @ (taskIDs ! i) @ '': '' @ C_ErrorText C e) 0 results;
        State_Monad.return (response, if Fan_Tasks response = [] then Some (ErrText ''no fan-in branch could be read'') else None)
      })"

definition ContinueAfterApproval :: "hub_env \<Rightarrow> coordinator \<Rightarrow> string \<Rightarrow> string \<Rightarrow> string \<Rightarrow> task_outcome hub" where
  "ContinueAfterApproval E C tenantID taskID text = ContinueTask E (C_Hub C) tenantID taskID text []"

end
