(* ===== verification/Workflow_Guarantees.thy ===== *)
theory Workflow_Guarantees
  imports Workflow_Coord
begin

text \<open>
  What the workflow coordinator guarantees: all its calls take legal steps of the store only, and the
  rounds of \<open>submitWorkflowReady\<close> are bounded by the number of steps that have not been started,
  under any interference of other goroutines.
\<close>

section \<open>Programs with a precondition on the store\<close>

text \<open>\<open>run_from E P m Q\<close>: from a good world whose store satisfies \<open>P\<close>, \<open>m\<close> takes legal steps to a good
  world, and its result and the store it leaves satisfy \<open>Q\<close>. A predicate is stable when steps of other
  goroutines keep it.\<close>

definition run_from ::
  "hub_env \<Rightarrow> (journal_store \<Rightarrow> bool) \<Rightarrow> 'a hub \<Rightarrow> ('a \<Rightarrow> journal_store \<Rightarrow> bool) \<Rightarrow> bool" where
  "run_from E P m Q \<longleftrightarrow> (\<forall>w x w'. world_ok E w \<longrightarrow> P (w_store w) \<longrightarrow> run_state m w = (x, w') \<longrightarrow>
     world_ok E w' \<and> hub_steps (w_store w) (w_store w') \<and> Q x (w_store w'))"

definition stable :: "(journal_store \<Rightarrow> bool) \<Rightarrow> bool" where
  "stable P \<longleftrightarrow> (\<forall>s s'. store_inv s \<longrightarrow> hub_steps s s' \<longrightarrow> P s \<longrightarrow> P s')"

lemma run_from_safe: "run_from E (\<lambda>_. True) m (\<lambda>x _. Q x) \<longleftrightarrow> safe_post E m Q"
  by (simp add: run_from_def safe_post_def)

lemma run_from_weaken:
  "run_from E P m Q \<Longrightarrow> (\<And>s. P' s \<Longrightarrow> P s) \<Longrightarrow> (\<And>x s. Q x s \<Longrightarrow> Q' x s) \<Longrightarrow> run_from E P' m Q'"
  unfolding run_from_def by blast

lemma run_from_frame: "safe_post E m Q \<Longrightarrow> stable P \<Longrightarrow> run_from E P m (\<lambda>x s. P s \<and> Q x)"
  unfolding run_from_def safe_post_def stable_def world_ok_def by blast

lemma run_from_return: "(\<And>s. P s \<Longrightarrow> Q x s) \<Longrightarrow> run_from E P (State_Monad.return x) Q"
  by (simp add: run_from_def)

lemma run_from_bind:
  assumes "run_from E P m Q" and "\<And>x. run_from E (Q x) (f x) R"
  shows "run_from E P (State_Monad.bind m f) R"
  unfolding run_from_def
proof (intro allI impI)
  fix w y w'
  assume w: "world_ok E w" "P (w_store w)" and r: "run_state (State_Monad.bind m f) w = (y, w')"
  obtain x w1 where 1: "run_state m w = (x, w1)" by fastforce
  with r have 2: "run_state (f x) w1 = (y, w')" by simp
  have w1: "world_ok E w1" "hub_steps (w_store w) (w_store w1)" "Q x (w_store w1)"
    using assms(1) w 1 unfolding run_from_def by blast+
  have "world_ok E w'" "hub_steps (w_store w1) (w_store w')" "R y (w_store w')"
    using assms(2) [of x] w1(1,3) 2 unfolding run_from_def by blast+
  with w1(2) show "world_ok E w' \<and> hub_steps (w_store w) (w_store w') \<and> R y (w_store w')"
    by (blast intro: rtranclp_trans)
qed

text \<open>Sequencing after a program that keeps the precondition.\<close>

lemma run_from_step:
  assumes "safe_post E m Q" "stable P" and "\<And>x. Q x \<Longrightarrow> run_from E P (f x) R"
  shows "run_from E P (State_Monad.bind m f) R"
proof (rule run_from_bind [OF run_from_frame [OF assms(1,2)]])
  fix x
  show "run_from E (\<lambda>s. P s \<and> Q x) (f x) R"
    using assms(3) [of x] unfolding run_from_def by blast
qed

lemma run_from_get:
  assumes "env_ok E" "stable P" and "\<And>t s. store_inv s \<Longrightarrow> P s \<Longrightarrow> Q (f t s) s"
  shows "run_from E P (store_get E f) Q"
  unfolding run_from_def
proof (intro allI impI)
  fix w x w' assume w: "world_ok E w" "P (w_store w)" "run_state (store_get E f) w = (x, w')"
  let ?s = "e_other E (w_tick w) (w_store w)"
  have "safe E (store_get E f)" using assms(1) by (rule safe_store_get)
  then have "world_ok E w'" "hub_steps (w_store w) (w_store w')" using w unfolding safe_post_def by blast+
  moreover have "hub_steps (w_store w) ?s" using assms(1) w(1) by (simp add: env_ok_def world_ok_def)
  then have "store_inv ?s" "P ?s"
    using assms(2) w(1,2) store_steps_keep unfolding stable_def world_ok_def by blast+
  ultimately show "world_ok E w' \<and> hub_steps (w_store w) (w_store w') \<and> Q x (w_store w')"
    using w(3) assms(3) by (auto simp: store_get_def Let_def)
qed

lemma run_from_op:
  assumes "env_ok E" "stable P"
    and step: "\<And>io nid s. store_inv s \<Longrightarrow> P s \<Longrightarrow> unused s nid \<Longrightarrow>
      hub_steps s (snd (f io nid s)) \<and>
      outbox (snd (f io nid s)) = outbox s \<and> inbox (snd (f io nid s)) = inbox s \<and> Q (fst (f io nid s)) (snd (f io nid s))"
  shows "run_from E P (store_op E f) Q"
  unfolding run_from_def
proof (intro allI impI)
  fix w x w' assume w: "world_ok E w" "P (w_store w)" "run_state (store_op E f) w = (x, w')"
  let ?t = "w_tick w"
  let ?s = "e_other E ?t (w_store w)"
  have s: "hub_steps (w_store w) ?s" using assms(1) w(1) by (simp add: env_ok_def world_ok_def)
  then have inv: "store_inv ?s" "P ?s"
    using assms(2) w(1,2) store_steps_keep unfolding stable_def world_ok_def by blast+
  have un: "unused ?s (e_id E n)" if "?t \<le> n" for n
    using assms(1) w(1) that by (simp add: env_ok_def world_ok_def)
  note st = step [OF inv un [OF order_refl], of "e_io E ?t"]
  have w': "w' = \<lparr>w_store = snd (f (e_io E ?t) (e_id E ?t) ?s), w_tick = Suc ?t\<rparr>" "x = fst (f (e_io E ?t) (e_id E ?t) ?s)"
    using w(3) by (auto simp: store_op_def split: prod.splits)
  have "store_inv (w_store w')" using store_steps_keep [of _ _ _ ?s "w_store w'"] st inv(1) w' by auto
  moreover have "unused (w_store w') (e_id E n)" if "Suc ?t \<le> n" for n
    using un [of n] that st w' by (simp add: unused_def)
  ultimately show "world_ok E w' \<and> hub_steps (w_store w) (w_store w') \<and> Q x (w_store w')"
    using w' s st by (auto simp: world_ok_def)
qed

section \<open>Callbacks\<close>

lemma flow_change_update:
  assumes "\<And>a. step_change a (f a)"
  shows "flow_change w (update_step i f w)"
proof -
  have "list_all2 step_change xs (xs[i := f (xs ! i)])" for xs
    using assms by (cases "i < length xs") (auto simp: list_all2_conv_all_nth nth_list_update step_change_refl list_all2_refl)
  then show ?thesis by (simp add: flow_change_def update_step_def)
qed

lemma flow_change_fields:
  "flow_change c (w\<lparr>Workflow_State := x\<rparr>) = flow_change c w" "flow_change c (w\<lparr>Workflow_UpdatedAt := t\<rparr>) = flow_change c w"
  "flow_change c (w\<lparr>Workflow_PausedFrom := x\<rparr>) = flow_change c w" "flow_change c (settle t w) = flow_change c w"
  by (simp_all add: flow_change_def settle_def)

lemma update_step_revision [simp]: "Workflow_Revision (update_step i f w) = Workflow_Revision w"
  "Workflow_Revision (settle t w) = Workflow_Revision w" "Workflow_Steps (settle t w) = Workflow_Steps w"
  by (simp_all add: update_step_def settle_def)

definition other_key :: "string \<Rightarrow> bool" where
  "other_key dk \<longleftrightarrow> (\<forall>i. dk \<noteq> start_key i)"

lemma other_key_starts: "other_key dk \<Longrightarrow> starts_under dk w"
  by (simp add: other_key_def starts_under_def)

text \<open>All other keys of the coordinator begin with another letter.\<close>

lemma other_keys [simp]: "a \<noteq> CHR ''s'' \<Longrightarrow> other_key (a # s)" "other_key (compensation_key x)"
  by (auto simp: other_key_def start_key_def compensation_key_def)

lemma flow_callbacks_ok:
  assumes "other_key dk"
  shows "workflow_callback_ok dk (block_step i stepID now) c"
    and "workflow_callback_ok dk (stored_input i stepID ref digest now) c"
    and "Task_ID t \<noteq> '''' \<Longrightarrow> workflow_callback_ok dk (step_status i t b now) c"
    and "workflow_callback_ok dk (set_flow_state kind src st now) c"
    and "workflow_callback_ok dk (pause_flow now) c" "workflow_callback_ok dk (resume_flow now) c"
    and "workflow_callback_ok dk (compensation_failed i stepID m now) c"
    and "workflow_callback_ok dk (compensation_submitted i stepID t now) c"
    and "workflow_callback_ok dk (compensation_status i stepID t now) c"
  using other_key_starts [OF assms]
  by (auto simp: workflow_callback_ok_def block_step_def stored_input_def step_status_def set_flow_state_def pause_flow_def
      resume_flow_def compensation_failed_def compensation_submitted_def compensation_status_def Let_def flow_change_fields
      flow_change_refl step_change_def step_started_def split: if_splits intro!: flow_change_update)

lemma safe_apply_flow:
  assumes "env_ok E" "\<And>c. workflow_callback_ok dk m c"
  shows "safe E (apply_flow E tn wid dk m)"
  unfolding apply_flow_def
  by (rule safe_store_op_plain [OF assms(1)]) (auto simp: outbox_inbox_plain assms(2) intro: do_ApplyWorkflow)

lemmas safe_flow_ops [hub_safe] =
  safe_apply_flow [OF _ flow_callbacks_ok(1)] safe_apply_flow [OF _ flow_callbacks_ok(2)]
  safe_apply_flow [OF _ flow_callbacks_ok(4)] safe_apply_flow [OF _ flow_callbacks_ok(5)]
  safe_apply_flow [OF _ flow_callbacks_ok(6)] safe_apply_flow [OF _ flow_callbacks_ok(7)]
  safe_apply_flow [OF _ flow_callbacks_ok(8)] safe_apply_flow [OF _ flow_callbacks_ok(9)]

lemma safe_get_flow [hub_safe]: "env_ok E \<Longrightarrow> safe E (get_flow E tn wid)"
  by (simp add: get_flow_def safe_store_get)

lemma safe_updateStep [hub_safe]: "env_ok E \<Longrightarrow> Task_ID t \<noteq> '''' \<Longrightarrow> safe E (updateStep E w i t b)"
  unfolding updateStep_def
  by (intro hub_safe safe_apply_flow flow_callbacks_ok; simp)

section \<open>Preparing the branches\<close>

lemma safe_project_inputs [hub_safe]: "env_ok E \<Longrightarrow> safe E (project_inputs E tn w is)"
proof (induction "is")
  case (Cons i "is")
  then show ?case
    by (simp only: project_inputs.simps Let_def) (intro hub_safe; simp)
qed (simp add: safe_results)

lemma safe_return_always: "safe E (State_Monad.return x)"
  by (simp add: safe_return)

lemma post_run_branch:
  assumes "env_ok E" "nul_free tn"
  shows "safe_post E (run_branch E C tn w i) outcome_ok"
  unfolding run_branch_def Let_def projectArtifactInputs_def
  by (rule post_SubmitTask safe_project_inputs safe_bind | rule hub_safe | (use assms in simp))+

lemma post_run_branches:
  assumes "env_ok E" "nul_free tn"
  shows "safe_post E (run_branches E C tn w is) (\<lambda>rs. map fst rs = is \<and> (\<forall>p\<in>set rs. outcome_ok (snd p)))"
proof (induction "is")
  case (Cons i "is")
  show ?case
    unfolding run_branches.simps
    by (rule safe_post_bind [OF post_run_branch [OF assms]], rule safe_post_bind [OF Cons.IH], rule safe_return)
      (simp del: split_paired_All)
qed (simp add: safe_return)

lemma safe_block_steps [hub_safe]: "env_ok E \<Longrightarrow> safe E (block_steps E tn w is fs)"
proof (induction "is" arbitrary: fs)
  case (Cons i "is")
  then show ?case
    by (simp only: block_steps.simps Let_def) ((rule hub_safe | simp)+)
qed (simp add: safe_return)

section \<open>Recording the branches\<close>

text \<open>The workflow that was read, as it has become; the step of a branch, started.\<close>

definition flow_at :: "string \<Rightarrow> workflow \<Rightarrow> journal_store \<Rightarrow> bool" where
  "flow_at tn w s \<longleftrightarrow> (\<exists>c. workflows s (resourceKey tn (Workflow_ID w)) = Some c \<and> flow_change w c)"

definition started_at :: "string \<Rightarrow> workflow \<Rightarrow> nat \<Rightarrow> journal_store \<Rightarrow> bool" where
  "started_at tn w i s \<longleftrightarrow> (\<exists>c. workflows s (resourceKey tn (Workflow_ID w)) = Some c \<and> flow_change w c \<and>
     step_started (Workflow_Steps c ! i))"

lemma hub_steps_flow:
  "hub_steps s s' \<Longrightarrow> store_inv s \<Longrightarrow> workflows s k = Some c \<Longrightarrow> \<exists>c'. workflows s' k = Some c' \<and> flow_change c c'"
  by (rule store_steps_flows)

lemma flow_change_nth:
  assumes "flow_change c w" "i < length (Workflow_Steps c)"
  shows "length (Workflow_Steps w) = length (Workflow_Steps c) \<and> step_change (Workflow_Steps c ! i) (Workflow_Steps w ! i)"
  using assms by (auto simp: flow_change_def list_all2_conv_all_nth)

lemma flow_change_length: "flow_change c w \<Longrightarrow> length (Workflow_Steps w) = length (Workflow_Steps c)"
  by (auto simp: flow_change_def dest: list_all2_lengthD)

lemma stable_flow_at: "stable (flow_at tn w)"
  unfolding stable_def flow_at_def by (blast dest: hub_steps_flow intro: flow_change_trans)

lemma stable_started_at:
  assumes "i < length (Workflow_Steps w)"
  shows "stable (started_at tn w i)"
  unfolding stable_def
proof (intro allI impI)
  fix s s' assume *: "store_inv s" "hub_steps s s'" "started_at tn w i s"
  then obtain c where c: "workflows s (resourceKey tn (Workflow_ID w)) = Some c" "flow_change w c" "step_started (Workflow_Steps c ! i)"
    by (auto simp: started_at_def)
  obtain c' where c': "workflows s' (resourceKey tn (Workflow_ID w)) = Some c'" "flow_change c c'"
    using hub_steps_flow [OF *(2,1) c(1)] by blast
  have "step_started (Workflow_Steps c' ! i)"
    using flow_change_nth [OF c'(2), of i] flow_change_length [OF c(2)] c(3) assms by (simp add: step_change_def)
  with c' c(2) show "started_at tn w i s'" unfolding started_at_def by (blast intro: flow_change_trans)
qed

lemma branch_step_change: "outcome_ok r \<Longrightarrow> step_change a (branch_step tx r a) \<and> step_started (branch_step tx r a)"
  by (auto simp: branch_step_def step_change_def step_started_def Let_def split: option.split)

text \<open>The callback of a branch starts the step its key names.\<close>

lemma submitted_step_ok:
  assumes "flow_change w c" "flow_ok w" "i < length (Workflow_Steps w)" "outcome_ok r"
  shows "workflow_callback_ok (start_key (Step_ID (Workflow_Steps w ! i))) (submitted_step tx i stepID r now) c"
proof -
  let ?c' = "settle now (update_step i (branch_step tx r) c)"
  have ch: "flow_change c ?c'" using branch_step_change [OF assms(4)] by (simp add: flow_change_fields flow_change_update)
  have i: "i < length (Workflow_Steps c)" "Step_ID (Workflow_Steps c ! i) = Step_ID (Workflow_Steps w ! i)"
    using flow_change_nth [OF assms(1,3)] assms(3) by (simp_all add: step_change_def)
  have "flow_ok ?c'" using flow_ok_change [OF ch] flow_ok_change [OF assms(1)] assms(2) by simp
  then have dist: "distinct (map Step_ID (Workflow_Steps ?c'))" by (simp add: flow_ok_def)
  have pos: "i < length (Workflow_Steps ?c')" "Workflow_Steps ?c' ! i = branch_step tx r (Workflow_Steps c ! i)"
    using i by (simp_all add: update_step_def)
  have nm: "Step_ID (Workflow_Steps ?c' ! i) = Step_ID (Workflow_Steps w ! i)"
    using i(2) pos(2) branch_step_change [OF assms(4), of "Workflow_Steps c ! i" tx] by (simp add: step_change_def)
  have "step_started a" if "a \<in> set (Workflow_Steps ?c')" "Step_ID a = Step_ID (Workflow_Steps w ! i)" for a
  proof -
    from that(1) obtain j where j: "j < length (Workflow_Steps ?c')" "Workflow_Steps ?c' ! j = a"
      unfolding in_set_conv_nth by blast
    have "map Step_ID (Workflow_Steps ?c') ! j = map Step_ID (Workflow_Steps ?c') ! i"
      using j pos(1) nm that(2) by simp
    then have "j = i" using nth_eq_iff_index_eq [OF dist] j(1) pos(1) by simp
    with j pos(2) branch_step_change [OF assms(4)] show ?thesis by metis
  qed
  then have "starts_under (start_key (Step_ID (Workflow_Steps w ! i))) ?c'"
    by (auto simp: starts_under_def start_key_def)
  with ch show ?thesis by (auto simp: workflow_callback_ok_def submitted_step_def Let_def)
qed

lemma apply_flow_dedup:
  assumes "store_inv s" "\<And>c. workflows s (resourceKey tn wid) = Some c \<Longrightarrow> workflow_callback_ok dk m c" "dk \<noteq> ''''"
    and "ApplyWorkflowVersion io nid tn wid 0 dk m s = ((c, ch, None), s')"
  shows "dk \<in> workflowDedup s' (resourceKey tn wid)" and "workflows s' (resourceKey tn wid) = Some c"
proof -
  obtain c0 where c0: "workflows s (resourceKey tn wid) = Some c0"
    using assms(4) by (cases "workflows s (resourceKey tn wid)") (auto simp: ApplyWorkflowVersion_def Let_def)
  have key: "resourceKey tn wid = resourceKey (Workflow_TenantID c0) (Workflow_ID c0)"
    using workflow_invD(2) [OF store_invD(7) [OF assms(1)] c0] .
  have "dk \<in> workflowDedup s' (resourceKey tn wid) \<and> workflows s' (resourceKey tn wid) = Some c"
  proof (cases "dk \<in> workflowDedup s (resourceKey tn wid)")
    case True
    with c0 assms(3,4) show ?thesis by (auto simp: ApplyWorkflowVersion_def Let_def split: if_splits)
  next
    case False
    obtain ev b where b: "m c0 = Inr (ev, b)"
      using assms(4) c0 False by (cases "m c0") (auto simp: ApplyWorkflowVersion_def Let_def split: if_splits)
    then have "flow_change c0 b" "Workflow_Revision b = Workflow_Revision c0"
      using assms(2) [OF c0] unfolding workflow_callback_ok_def by blast+
    then show ?thesis
      using vflow.applied [OF c0 _ _ b _ _ assms(4)] False key assms(3) by (auto simp: flow_change_def)
  qed
  then show "dk \<in> workflowDedup s' (resourceKey tn wid)" "workflows s' (resourceKey tn wid) = Some c" by blast+
qed

lemma post_record_branch:
  assumes "env_ok E" "flow_ok w" "i < length (Workflow_Steps w)" "outcome_ok r"
  shows "run_from E (flow_at tn w) (record_branch E C tn w i r now)
           (\<lambda>(called, e) s. flow_at tn w s \<and> (e = None \<longrightarrow> started_at tn w i s))"
  unfolding record_branch_def Let_def
proof (rule run_from_op [OF assms(1) stable_flow_at], goal_cases)
  case (1 io nid s)
  note s = 1(1,2)
  let ?k = "resourceKey tn (Workflow_ID w)" and ?dk = "start_key (Step_ID (Workflow_Steps w ! i))"
  let ?m = "submitted_step (C_ErrorText C) i (Step_ID (Workflow_Steps w ! i)) r now"
  let ?op = "ApplyWorkflowVersion (io 0) nid tn (Workflow_ID w) 0 ?dk ?m s"
  have cb: "workflow_callback_ok ?dk ?m c" if "workflows s ?k = Some c" for c
  proof -
    have "flow_change w c" using s(2) that by (auto simp: flow_at_def)
    then show ?thesis by (rule submitted_step_ok [OF _ assms(2-4)])
  qed
  have st: "hub_steps s (snd ?op)"
    using cb by (intro hub_step do_ApplyWorkflow) auto
  have pos: "flow_at tn w (snd ?op)" using stable_flow_at [of tn w] s st unfolding stable_def by blast
  have "started_at tn w i (snd ?op)" if "snd (snd (fst ?op)) = None"
  proof -
    obtain c ch e s' where "?op = ((c, ch, e), s')" by (metis prod_cases3 surj_pair)
    with that have op: "?op = ((c, ch, None), s')" by simp
    have dk: "?dk \<in> workflowDedup s' ?k" by (rule apply_flow_dedup(1) [OF s(1) cb _ op]) simp_all
    have inv: "workflow_inv s'" using store_steps_keep [OF st s(1)] op store_invD(7) by auto
    obtain c' where c': "workflows s' ?k = Some c'" "flow_change w c'" using pos op by (auto simp: flow_at_def)
    have "starts_under ?dk c'" by (rule workflow_invD(3) [OF inv c'(1) dk])
    moreover have "i < length (Workflow_Steps c')" "Step_ID (Workflow_Steps c' ! i) = Step_ID (Workflow_Steps w ! i)"
      using flow_change_nth [OF c'(2) assms(3)] assms(3) by (simp_all add: step_change_def)
    ultimately have "step_started (Workflow_Steps c' ! i)" unfolding starts_under_def by (metis nth_mem)
    with c' op show ?thesis by (auto simp: started_at_def)
  qed
  with st pos show ?case
    using outbox_inbox_plain(7) [of "io 0" nid tn "Workflow_ID w" 0 ?dk ?m s] by (simp add: split_beta)
qed

text \<open>A step that was started is started for good.\<close>

lemma run_from_frames:
  assumes "run_from E P m (\<lambda>x s. P s \<and> R x s)" "stable S"
  shows "run_from E (\<lambda>s. P s \<and> S s) m (\<lambda>x s. P s \<and> S s \<and> R x s)"
  using assms unfolding run_from_def stable_def world_ok_def by blast

lemma record_branches_keep:
  assumes "env_ok E" "flow_ok w" "stable S"
  shows "\<forall>(i, r)\<in>set rs. i < length (Workflow_Steps w) \<and> outcome_ok r \<Longrightarrow>
    run_from E (\<lambda>s. flow_at tn w s \<and> S s) (record_branches E C tn w rs fs)
      (\<lambda>(fs', e) s. S s \<and> (e = None \<longrightarrow> (\<forall>(i, r)\<in>set rs. started_at tn w i s)))"
  using assms(3)
proof (induction rs arbitrary: fs S)
  case Nil
  then show ?case by (auto intro!: run_from_return)
next
  case (Cons p rs)
  obtain i r where p: "p = (i, r)" by (cases p)
  with Cons.prems have i: "i < length (Workflow_Steps w)" "outcome_ok r" by auto
  let ?P = "\<lambda>s. flow_at tn w s \<and> S s"
  have P: "stable ?P" using Cons.prems(2) stable_flow_at [of tn w] unfolding stable_def by blast
  have rec: "run_from E ?P (record_branch E C tn w i r now) (\<lambda>(called, e) s. ?P s \<and> (e = None \<longrightarrow> started_at tn w i s))" for now
  proof -
    have "run_from E (flow_at tn w) (record_branch E C tn w i r now)
        (\<lambda>x s. flow_at tn w s \<and> (snd x = None \<longrightarrow> started_at tn w i s))"
      by (rule run_from_weaken [OF post_record_branch [OF assms(1,2) i]]) auto
    from run_from_frames [OF this Cons.prems(2)] show ?thesis
      by (rule run_from_weaken) auto
  qed
  have rest: "run_from E (\<lambda>s. flow_at tn w s \<and> S s \<and> started_at tn w i s) (record_branches E C tn w rs fs')
      (\<lambda>(fs', e) s. S s \<and> (e = None \<longrightarrow> (\<forall>(j, r)\<in>set ((i, r) # rs). started_at tn w j s)))" for fs'
  proof -
    have "stable (\<lambda>s. S s \<and> started_at tn w i s)"
      using Cons.prems(2) stable_started_at [OF i(1), of tn] unfolding stable_def by blast
    moreover have "\<forall>(i, r)\<in>set rs. i < length (Workflow_Steps w) \<and> outcome_ok r" using Cons.prems(1) by simp
    ultimately show ?thesis
      by (intro run_from_weaken [OF Cons.IH [where S = "\<lambda>s. S s \<and> started_at tn w i s"]]) auto
  qed
  show ?case
    unfolding p record_branches.simps Let_def
  proof (rule run_from_step [OF safe_ask P], rule run_from_bind [OF rec])
    fix now and x :: "bool \<times> error option"
    obtain called e where x: "x = (called, e)" by (cases x)
    show "run_from E ((\<lambda>(called, e) s. ?P s \<and> (e = None \<longrightarrow> started_at tn w i s)) x)
       (case x of (called, e) \<Rightarrow>
          if e \<noteq> None then State_Monad.return
             (case snd r of None \<Rightarrow> fs | Some err \<Rightarrow> if called then fs @ [failure_line (C_ErrorText C) (Step_ID (Workflow_Steps w ! i)) err] else fs, e)
          else record_branches E C tn w rs
             (case snd r of None \<Rightarrow> fs | Some err \<Rightarrow> if called then fs @ [failure_line (C_ErrorText C) (Step_ID (Workflow_Steps w ! i)) err] else fs))
       (\<lambda>(fs', e) s. S s \<and> (e = None \<longrightarrow> (\<forall>(j, r)\<in>set ((i, r) # rs). started_at tn w j s)))"
    proof (cases e)
      case None
      show ?thesis unfolding x None using rest by simp
    next
      case (Some err)
      then show ?thesis unfolding x by (auto intro!: run_from_return)
    qed
  qed
qed

section \<open>The rounds of \<open>submitWorkflowReady\<close>\<close>

definition unstarted :: "workflow \<Rightarrow> nat" where
  "unstarted w = card {i. i < length (Workflow_Steps w) \<and> \<not> step_started (Workflow_Steps w ! i)}"

lemma unstarted_sub:
  assumes "flow_change w c"
  shows "{i. i < length (Workflow_Steps c) \<and> \<not> step_started (Workflow_Steps c ! i)} \<subseteq>
    {i. i < length (Workflow_Steps w) \<and> \<not> step_started (Workflow_Steps w ! i)}"
  using flow_change_nth [OF assms] flow_change_length [OF assms] by (auto simp: step_change_def)

lemma unstarted_mono: "flow_change w c \<Longrightarrow> unstarted c \<le> unstarted w"
  unfolding unstarted_def by (rule card_mono) (simp, rule unstarted_sub)

lemma unstarted_less:
  assumes "flow_change w c" "i < length (Workflow_Steps w)" "\<not> step_started (Workflow_Steps w ! i)" "step_started (Workflow_Steps c ! i)"
  shows "unstarted c < unstarted w"
  unfolding unstarted_def
  by (rule psubset_card_mono) (use unstarted_sub [OF assms(1)] assms(2-4) in auto)

definition rounds_left :: "string \<Rightarrow> string \<Rightarrow> nat \<Rightarrow> journal_store \<Rightarrow> bool" where
  "rounds_left tn wid n s \<longleftrightarrow> (\<exists>c. workflows s (resourceKey tn wid) = Some c \<and> unstarted c < n)"

lemma stable_rounds_left: "stable (rounds_left tn wid n)"
  unfolding stable_def rounds_left_def
proof (intro allI impI, elim exE conjE)
  fix s s' c assume "store_inv s" "hub_steps s s'" "workflows s (resourceKey tn wid) = Some c" "unstarted c < n"
  moreover from this obtain c' where "workflows s' (resourceKey tn wid) = Some c'" "flow_change c c'"
    using hub_steps_flow by blast
  ultimately show "\<exists>c. workflows s' (resourceKey tn wid) = Some c \<and> unstarted c < n"
    using unstarted_mono le_less_trans by blast
qed

text \<open>Reading a workflow: from then on the store holds it in some later form.\<close>

lemma get_flow_bind:
  assumes "env_ok E" "nul_free tn" "stable P"
    and "\<And>e. run_from E P (f (Inl e)) R"
    and "\<And>w. flow_ok w \<Longrightarrow> Workflow_ID w = wid \<Longrightarrow> \<exists>s. P s \<and> workflows s (resourceKey tn wid) = Some w \<Longrightarrow>
           Workflow_TenantID w = tn \<Longrightarrow> run_from E (\<lambda>s. P s \<and> flow_at tn w s) (f (Inr w)) R"
  shows "run_from E P (State_Monad.bind (get_flow E tn wid) f) R"
  unfolding get_flow_def
proof (rule run_from_bind)
  let ?read = "\<lambda>w. flow_ok w \<and> Workflow_ID w = wid \<and> (\<exists>s. P s \<and> workflows s (resourceKey tn wid) = Some w) \<and>
    Workflow_TenantID w = tn"
  show "run_from E P (store_get E (\<lambda>_. GetWorkflow tn wid))
     (\<lambda>r s. P s \<and> (\<forall>w. r = Inr w \<longrightarrow> flow_at tn w s \<and> ?read w))"
  proof (rule run_from_get [OF assms(1,3)], intro conjI allI impI)
    fix s w assume s: "store_inv s" "GetWorkflow tn wid s = Inr w" "P s"
    then have w: "workflows s (resourceKey tn wid) = Some w" by (auto simp: GetWorkflow_def split: option.splits)
    note inv = store_invD(7) [OF s(1)]
    show ok: "flow_ok w" by (rule workflow_invD(4) [OF inv w])
    from ok show i: "Workflow_ID w = wid" and "Workflow_TenantID w = tn"
      using workflow_invD(2) [OF inv w] resourceKey_inj assms(2) unfolding flow_ok_def by metis+
    show "flow_at tn w s" using w flow_change_refl unfolding flow_at_def i by blast
    show "\<exists>s. P s \<and> workflows s (resourceKey tn wid) = Some w" using w s(3) by blast
  qed
  fix r
  show "run_from E (\<lambda>s. P s \<and> (\<forall>w. r = Inr w \<longrightarrow> flow_at tn w s \<and> ?read w)) (f r) R"
  proof (cases r)
    case (Inl e)
    with assms(4) show ?thesis by (auto intro: run_from_weaken)
  next
    case (Inr w)
    show ?thesis
    proof (cases "?read w")
      case True
      with assms(5) Inr show ?thesis by (auto intro: run_from_weaken)
    next
      case False
      with Inr show ?thesis by (auto simp: run_from_def)
    qed
  qed
qed

lemma step_is_ready_unstarted: "i \<in> set (select_steps step_is_ready steps) \<Longrightarrow> i < length steps \<and> \<not> step_started (steps ! i)"
  by (simp add: select_steps_iff step_is_ready_def)

text \<open>One round from the workflow that was read: the batch runs, and when all of it could be recorded, all
  its steps are started.\<close>

lemma run_batch:
  assumes "env_ok E" "nul_free tn" "flow_ok w" "set is \<subseteq> {i. i < length (Workflow_Steps w)}" "stable S"
    and "\<And>fs'. run_from E (\<lambda>s. S s \<and> (\<forall>i\<in>set is. started_at tn w i s)) (f (fs', None)) R"
    and "\<And>fs' e. run_from E S (f (fs', Some e)) R"
  shows "run_from E (\<lambda>s. flow_at tn w s \<and> S s)
    (do { results \<leftarrow> run_branches E C tn w is; r \<leftarrow> record_branches E C tn w results fs; f r }) R"
proof -
  have P: "stable (\<lambda>s. flow_at tn w s \<and> S s)" using assms(5) stable_flow_at [of tn w] unfolding stable_def by blast
  show ?thesis
  proof (rule run_from_step [OF post_run_branches [OF assms(1,2)] P])
    fix rs assume rs: "map fst rs = is \<and> (\<forall>p\<in>set rs. outcome_ok (snd p))"
    have ok: "\<forall>(i, r)\<in>set rs. i < length (Workflow_Steps w) \<and> outcome_ok r"
    proof (intro ballI, clarify)
      fix i t e assume p: "(i, t, e) \<in> set rs"
      with rs have "i \<in> set is" by force
      with assms(4) rs p show "i < length (Workflow_Steps w) \<and> outcome_ok (t, e)" by auto
    qed
    show "run_from E (\<lambda>s. flow_at tn w s \<and> S s) (State_Monad.bind (record_branches E C tn w rs fs) f) R"
    proof (rule run_from_bind [OF record_branches_keep [OF assms(1,3,5) ok]])
      fix r :: "string list \<times> error option"
      obtain fs' e where r: "r = (fs', e)" by (cases r)
      have "set is = fst ` set rs" using rs by (metis set_map)
      then have all: "(\<forall>(i, r)\<in>set rs. started_at tn w i s) \<longleftrightarrow> (\<forall>i\<in>set is. started_at tn w i s)" for s
        by (simp add: case_prod_beta)
      show "run_from E ((\<lambda>(fs', e) s. S s \<and> (e = None \<longrightarrow> (\<forall>(i, r)\<in>set rs. started_at tn w i s))) r) (f r) R"
        unfolding r using assms(6,7) by (cases e) (auto simp: all intro: run_from_weaken)
    qed
  qed
qed

lemma run_from_split:
  "(c \<Longrightarrow> run_from E P m R) \<Longrightarrow> (\<not> c \<Longrightarrow> run_from E P m' R) \<Longrightarrow> run_from E P (if c then m else m') R"
  "(\<And>a b. p = (a, b) \<Longrightarrow> run_from E P (h a b) R) \<Longrightarrow> run_from E P (case p of (a, b) \<Rightarrow> h a b) R"
  by (auto split: prod.split)

text \<open>One round of the loop: it ends, or a non-empty batch of steps is started and the next round runs.\<close>

lemma submit_round:
  assumes "env_ok E" "nul_free tn" "stable P"
    and ends: "\<And>r. run_from E P (State_Monad.return (Some r)) R"
    and next_round: "\<And>w is fs'. flow_ok w \<Longrightarrow> Workflow_ID w = wid \<Longrightarrow> \<exists>s. P s \<and> workflows s (resourceKey tn wid) = Some w \<Longrightarrow>
      \<forall>i\<in>set is. i < length (Workflow_Steps w) \<and> \<not> step_started (Workflow_Steps w ! i) \<Longrightarrow> (1 \<le> mc \<Longrightarrow> is \<noteq> []) \<Longrightarrow>
      run_from E (\<lambda>s. (P s \<and> flow_at tn w s) \<and> (\<forall>i\<in>set is. started_at tn w i s)) (submitWorkflowReady E C n tn wid mc fs') R"
  shows "run_from E P (submitWorkflowReady E C (Suc n) tn wid mc fs) R"
  unfolding submitWorkflowReady.simps Let_def
proof (rule get_flow_bind [OF assms(1-3)], goal_cases)
  case (1 e)
  show ?case unfolding sum.case by (rule ends)
next
  case (2 w)
  let ?P = "\<lambda>s. P s \<and> flow_at tn w s"
  let ?ready = "select_steps step_is_ready (Workflow_Steps w)"
  have P: "stable ?P" using assms(3) stable_flow_at [of tn w] unfolding stable_def by blast
  have ends': "run_from E ?P (State_Monad.return (Some r)) R" for r
    by (rule run_from_weaken [OF ends]) auto
  show ?case
    unfolding sum.case
  proof (rule run_from_step [OF safe_block_steps [OF assms(1)] P], rule run_from_split(2),
      rule run_from_split(1) [OF ends'], rule run_from_split(1) [OF ends'], rule run_from_step [OF safe_ask P], goal_cases)
    case (1 _ fs1 _ rank)
    let ?is = "sort_key rank (take (nat mc) ?ready)"
    have sub: "set ?is \<subseteq> set ?ready" by (auto dest: in_set_takeD)
    have new: "\<forall>i\<in>set ?is. i < length (Workflow_Steps w) \<and> \<not> step_started (Workflow_Steps w ! i)"
      using sub step_is_ready_unstarted by blast
    have some: "?is \<noteq> []" if "1 \<le> mc" using that 1 by (simp flip: length_greater_0_conv)
    have "run_from E (\<lambda>s. flow_at tn w s \<and> ?P s)
      (do { results \<leftarrow> run_branches E C tn w ?is; r \<leftarrow> record_branches E C tn w results fs1;
            case r of (failures2, e2) \<Rightarrow> if e2 \<noteq> None then State_Monad.return (Some (failures2, e2))
              else submitWorkflowReady E C n tn wid mc failures2 }) R"
    proof (rule run_batch [OF assms(1,2) 2(1) _ P])
      show "set ?is \<subseteq> {i. i < length (Workflow_Steps w)}" using new by blast
      show "run_from E (\<lambda>s. ?P s \<and> (\<forall>i\<in>set ?is. started_at tn w i s))
          (case (fs', None) of (failures2, e2) \<Rightarrow> if e2 \<noteq> None then State_Monad.return (Some (failures2, e2))
              else submitWorkflowReady E C n tn wid mc failures2) R" for fs'
        using next_round [OF 2(1-3) new some] by simp
      show "run_from E ?P
          (case (fs', Some e) of (failures2, e2) \<Rightarrow> if e2 \<noteq> None then State_Monad.return (Some (failures2, e2))
              else submitWorkflowReady E C n tn wid mc failures2) R" for fs' e
        using ends' by simp
    qed
    then show ?case by (rule run_from_weaken) auto
  qed
qed

text \<open>The loop takes legal steps only, however many rounds it is given.\<close>

lemma safe_submit_ready [hub_safe]:
  assumes "env_ok E" "nul_free tn"
  shows "safe E (submitWorkflowReady E C n tn wid mc fs)"
  unfolding run_from_safe [symmetric]
proof (induction n arbitrary: fs)
  case (Suc n)
  show ?case
  proof (rule submit_round [OF assms])
    show "run_from E (\<lambda>s. (True \<and> flow_at tn w s) \<and> (\<forall>i\<in>set is. started_at tn w i s)) (submitWorkflowReady E C n tn wid mc fs') (\<lambda>_ _. True)"
      for w "is" fs'
      by (rule run_from_weaken [OF Suc.IH]) simp_all
  qed (simp_all add: stable_def run_from_return)
qed (simp add: run_from_return)

text \<open>And one round more than there are unstarted steps is enough, whatever other goroutines do.\<close>

lemma submit_ready_total:
  assumes "env_ok E" "nul_free tn" "1 \<le> mc"
  shows "run_from E (rounds_left tn wid n) (submitWorkflowReady E C n tn wid mc fs) (\<lambda>r _. r \<noteq> None)"
proof (induction n arbitrary: fs)
  case 0
  then show ?case by (simp add: run_from_def rounds_left_def)
next
  case (Suc n)
  show ?case
  proof (rule submit_round [OF assms(1,2) stable_rounds_left])
    fix w "is" fs'
    assume w: "flow_ok w" "Workflow_ID w = wid" "\<exists>s. rounds_left tn wid (Suc n) s \<and> workflows s (resourceKey tn wid) = Some w"
      "\<forall>i\<in>set is. i < length (Workflow_Steps w) \<and> \<not> step_started (Workflow_Steps w ! i)"
      "1 \<le> mc \<Longrightarrow> is \<noteq> []"
    then obtain i where i: "i \<in> set is" "i < length (Workflow_Steps w)" "\<not> step_started (Workflow_Steps w ! i)"
      using assms(3) by (meson last_in_set)
    show "run_from E (\<lambda>s. (rounds_left tn wid (Suc n) s \<and> flow_at tn w s) \<and> (\<forall>i\<in>set is. started_at tn w i s))
        (submitWorkflowReady E C n tn wid mc fs') (\<lambda>r _. r \<noteq> None)"
    proof (rule run_from_weaken [OF Suc.IH])
      fix s assume s: "(rounds_left tn wid (Suc n) s \<and> flow_at tn w s) \<and> (\<forall>i\<in>set is. started_at tn w i s)"
      then obtain c where c: "workflows s (resourceKey tn wid) = Some c" "flow_change w c" "step_started (Workflow_Steps c ! i)"
        using i(1) w(2) by (auto simp: started_at_def)
      have "unstarted c < unstarted w" by (rule unstarted_less [OF c(2) i(2,3) c(3)])
      moreover have "unstarted w < Suc n" using w(3) by (auto simp: rounds_left_def)
      ultimately show "rounds_left tn wid n s" using c(1) by (auto simp: rounds_left_def)
    qed simp
  qed (simp add: run_from_return)
qed

section \<open>All calls take legal steps only\<close>

lemma safe_advance_flow [hub_safe]: "env_ok E \<Longrightarrow> nul_free tn \<Longrightarrow> safe E (advance_flow E C n tn w wid mc fs)"
  unfolding advance_flow_def
  by (rule safe_bind [OF safe_submit_ready], assumption+)
    (auto split: option.split intro!: safe_bind safe_get_flow safe_return)

lemma safe_store_inputs [hub_safe]: "env_ok E \<Longrightarrow> safe E (store_inputs E C tn wid steps n ds)"
proof (induction ds arbitrary: n)
  case (Cons d ds)
  then show ?case
    by (simp only: store_inputs.simps Let_def) ((rule hub_safe | simp)+)
qed (simp add: safe_return)

lemma safe_existing_workflow [hub_safe]: "env_ok E \<Longrightarrow> safe E (existing_workflow E tn wid d v err)"
  unfolding existing_workflow_def by (intro hub_safe; assumption?)

lemma flow_event_key [simp]: "WEvent_DedupKey (flow_event k src sid st p now) = ''''"
  by (simp add: flow_event_def zero_workflow_event_def)

lemma new_workflow_sel [simp]:
  "Workflow_TenantID (new_workflow wid tn d v mc steps now) = tn" "Workflow_Steps (new_workflow wid tn d v mc steps now) = steps"
  "Workflow_ID (new_workflow wid tn d v mc steps now) = wid"
  by (simp_all add: new_workflow_def)

lemma safe_create_flow:
  assumes "env_ok E" "flow_ok w"
  shows "safe E (store_op E (\<lambda>io nid. CreateWorkflow (io 0) nid w (flow_event k src sid st p now)))"
  by (rule safe_store_op_plain [OF assms(1)]) (auto simp: outbox_inbox_plain assms(2) intro: do_CreateWorkflow)

lemma new_workflow_ok:
  "prepare_workflow L tn d = Some (Inr (v, mc, steps)) \<Longrightarrow> nul_free tn \<Longrightarrow> flow_ok (new_workflow wid tn d v mc steps now)"
  using prepare_workflow_ok(2) [of L tn d v mc steps] by (simp add: flow_ok_def step_ids_def)

lemma safe_StartWorkflow [hub_safe]:
  assumes "env_ok E" "nul_free tn"
  shows "safe E (StartWorkflow E C n tn d)"
proof (cases "prepare_workflow (H_Lib (C_Hub C)) tn d")
  case None
  then show ?thesis by (simp add: StartWorkflow_def safe_return)
next
  case (Some r)
  show ?thesis
  proof (cases r)
    case (Inl e)
    with Some show ?thesis by (simp add: StartWorkflow_def safe_return)
  next
    case (Inr q)
    obtain v mc steps where q: "q = (v, mc, steps)" by (cases q)
    note prep = Some [unfolded Inr q]
    show ?thesis
      unfolding StartWorkflow_def prep option.case sum.case prod.case Let_def
      by (intro hub_safe safe_create_flow new_workflow_ok [OF prep] assms)
  qed
qed

lemma safe_StartWorkflowTemplate [hub_safe]:
  "env_ok E \<Longrightarrow> nul_free tn \<Longrightarrow> safe E (StartWorkflowTemplate E C n tn i input)"
  unfolding StartWorkflowTemplate_def by (intro hub_safe; assumption?)

text \<open>After a call on a task: on success it returns a task with an identifier.\<close>

lemma reconcile_bind:
  assumes "env_ok E" "\<And>t e. outcome_ok (t, e) \<Longrightarrow> safe E (f (t, e))"
  shows "safe E (State_Monad.bind (ReconcileTask E H tn i b) f)"
  by (rule safe_post_bind [OF post_ReconcileTask [OF assms(1)]]) (use assms(2) in auto)

lemma continue_bind:
  assumes "env_ok E" "\<And>t e. outcome_ok (t, e) \<Longrightarrow> safe E (f (t, e))"
  shows "safe E (State_Monad.bind (ContinueTask E H tn i tx ps) f)"
  by (rule safe_post_bind [OF post_ContinueTask [OF assms(1)]]) (use assms(2) in auto)

lemma submit_bind:
  assumes "env_ok E" "nul_free tn" "\<And>t e. outcome_ok (t, e) \<Longrightarrow> safe E (f (t, e))"
  shows "safe E (State_Monad.bind (SubmitTask E H tn input) f)"
  by (rule safe_post_bind [OF post_SubmitTask [OF assms(1,2)]]) (use assms(3) in auto)

lemma safe_reconcile_steps [hub_safe]: "env_ok E \<Longrightarrow> safe E (reconcile_steps E C tn sub is w fs)"
proof (induction "is" arbitrary: w fs)
  case (Cons i "is")
  then show ?case
    by (simp only: reconcile_steps.simps Let_def) ((rule reconcile_bind | rule hub_safe | simp)+)
qed (simp add: safe_return)

lemma safe_GetTask [hub_safe]: "env_ok E \<Longrightarrow> safe E (store_get E (\<lambda>_. GetTask tn i))"
  by (rule safe_store_get)

lemma safe_compensation_loop [hub_safe]: "env_ok E \<Longrightarrow> safe E (compensation_loop E tn wid is w a b)"
proof (induction "is" arbitrary: w a b)
  case (Cons p "is")
  then show ?case
    by (cases p) (simp only: compensation_loop.simps Let_def, (rule hub_safe | simp)+)
qed (simp add: safe_return)

lemma safe_reconcileCompensation [hub_safe]: "env_ok E \<Longrightarrow> safe E (reconcileCompensation E tn wid)"
  unfolding reconcileCompensation_def Let_def by (rule hub_safe | simp)+

lemma safe_compensate_steps [hub_safe]: "env_ok E \<Longrightarrow> nul_free tn \<Longrightarrow> safe E (compensate_steps E C tn wid is w fs)"
proof (induction "is" arbitrary: w fs)
  case (Cons i "is")
  then show ?case
    by (simp only: compensate_steps.simps Let_def) ((rule submit_bind | rule hub_safe | simp)+)
qed (simp add: safe_return)

lemma safe_CompensateWorkflow [hub_safe]: "env_ok E \<Longrightarrow> nul_free tn \<Longrightarrow> safe E (CompensateWorkflow E C tn wid)"
  unfolding CompensateWorkflow_def Let_def by (rule hub_safe | simp)+

lemma safe_ReconcileWorkflow [hub_safe]: "env_ok E \<Longrightarrow> nul_free tn \<Longrightarrow> safe E (ReconcileWorkflow E C n tn wid sub)"
  unfolding ReconcileWorkflow_def Let_def by (rule hub_safe | simp)+

lemma safe_operator_calls [hub_safe]:
  "env_ok E \<Longrightarrow> safe E (PauseWorkflow E tn wid)" "env_ok E \<Longrightarrow> safe E (ResumeWorkflow E tn wid)"
  unfolding PauseWorkflow_def ResumeWorkflow_def operator_call_def by (rule hub_safe | simp)+

lemma safe_cancel_steps [hub_safe]: "env_ok E \<Longrightarrow> safe E (cancel_steps E C tn as fs)"
proof (induction as arbitrary: fs)
  case (Cons a as)
  then show ?case
    by (simp only: cancel_steps.simps) ((rule safe_bind [OF safe_weaken [OF post_CancelTask]] | rule hub_safe | simp)+)
qed (simp add: safe_return)

lemma safe_CancelWorkflow [hub_safe]: "env_ok E \<Longrightarrow> safe E (CancelWorkflow E C tn wid)"
  unfolding CancelWorkflow_def by (rule hub_safe | simp)+

lemma safe_continue_steps [hub_safe]: "env_ok E \<Longrightarrow> safe E (continue_steps E C tn tx ps is w fs)"
proof (induction "is" arbitrary: w fs)
  case (Cons p "is")
  then show ?case
    by (cases p) (simp only: continue_steps.simps, (rule continue_bind | rule hub_safe | simp)+)
qed (simp add: safe_return)

lemma safe_ContinueWorkflow [hub_safe]: "env_ok E \<Longrightarrow> nul_free tn \<Longrightarrow> safe E (ContinueWorkflow E C n tn wid tx ps)"
  unfolding ContinueWorkflow_def by (rule hub_safe | simp)+

lemma post_fanout_branches:
  assumes "env_ok E" "nul_free tn"
  shows "safe_post E (fanout_branches E C tn inputs is) (\<lambda>rs. map fst rs = is \<and> (\<forall>p\<in>set rs. outcome_ok (snd p)))"
proof (induction "is")
  case (Cons i "is")
  show ?case
    unfolding fanout_branches.simps Let_def
    by (rule safe_post_bind [OF post_SubmitTask [OF assms]], rule safe_post_bind [OF Cons.IH], rule safe_return)
      (simp del: split_paired_All)
qed (simp add: safe_return)

lemma safe_FanOut [hub_safe]: "env_ok E \<Longrightarrow> nul_free tn \<Longrightarrow> safe E (FanOut E C tn inputs)"
  unfolding FanOut_def Let_def
  by (rule safe_bind [OF safe_weaken [OF post_fanout_branches]] | rule hub_safe | simp)+

lemma safe_fanin_branches [hub_safe]: "env_ok E \<Longrightarrow> safe E (fanin_branches E tn is)"
proof (induction "is")
  case (Cons i "is")
  then show ?case by (simp only: fanin_branches.simps) ((rule hub_safe | simp)+)
qed (simp add: safe_return)

lemma safe_FanIn [hub_safe]: "env_ok E \<Longrightarrow> safe E (FanIn E C tn ids)"
  unfolding FanIn_def Let_def by (rule hub_safe | simp)+

end
