(* ===== verification/Workflow_Progress.thy ===== *)
theory Workflow_Progress
  imports Workflow_Guarantees
begin

text \<open>
  Progress of workflows: an accepted plan always has a step to start or to block once everything started
  has ended, and the calls that advance a workflow return when they are given one round more than the
  workflow has steps. Also small concrete workflows and environments for the examples.
\<close>

section \<open>No accepted workflow is stuck\<close>

text \<open>Along acyclic dependencies there is an unstarted step all of whose dependencies have been started.\<close>

lemma minimal_unstarted:
  assumes "\<forall>a\<in>set steps. set (Step_DependsOn a) \<subseteq> set (step_ids steps)"
    and "acyclic (depends (graph_of steps))" "a \<in> set steps" "\<not> step_started a"
  shows "\<exists>b\<in>set steps. \<not> step_started b \<and> (\<forall>c\<in>set steps. Step_ID c \<in> set (Step_DependsOn b) \<longrightarrow> step_started c)"
proof -
  let ?R = "depends (graph_of steps)"
  let ?Q = "Step_ID ` {a \<in> set steps. \<not> step_started a}"
  have "?R \<subseteq> set (step_ids steps) \<times> set (step_ids steps)"
    using assms(1) by (auto simp: depends_def graph_of_step step_ids_def)
  then have "finite ?R" by (rule finite_subset) simp
  then have "wf (?R\<inverse>)" using assms(2) by (rule finite_acyclic_wf_converse)
  moreover have "Step_ID a \<in> ?Q" using assms(3,4) by simp
  ultimately obtain z where z: "z \<in> ?Q" "\<And>y. (y, z) \<in> ?R\<inverse> \<Longrightarrow> y \<notin> ?Q" by (rule wfE_min) blast
  from z(1) obtain b where b: "b \<in> set steps" "\<not> step_started b" "z = Step_ID b" by blast
  have "step_started c" if c: "c \<in> set steps" "Step_ID c \<in> set (Step_DependsOn b)" for c
  proof -
    have "(Step_ID c, z) \<in> ?R\<inverse>" using c(2) b by (auto simp: depends_def graph_of_step)
    with z(2) c(1) show ?thesis by blast
  qed
  with b show ?thesis by blast
qed

lemma never_stuck:
  assumes "\<forall>a\<in>set steps. set (Step_DependsOn a) \<subseteq> set (step_ids steps)" "acyclic (depends (graph_of steps))"
    and "\<forall>a\<in>set steps. step_started a \<longrightarrow> TaskState_Terminal (Step_State a)" "a \<in> set steps" "\<not> step_started a"
  shows "select_steps step_is_ready steps \<noteq> [] \<or> select_steps step_is_blocked steps \<noteq> []"
proof -
  from minimal_unstarted [OF assms(1,2,4,5)] obtain b where b: "b \<in> set steps" "\<not> step_started b"
    "\<And>c. c \<in> set steps \<Longrightarrow> Step_ID c \<in> set (Step_DependsOn b) \<Longrightarrow> step_started c" by blast
  have ended: "\<exists>c. findWorkflowStep steps d = Some c \<and> TaskState_Terminal (Step_State c)" if d: "d \<in> set (Step_DependsOn b)" for d
  proof -
    have "d \<in> set (step_ids steps)" using assms(1) b(1) d by blast
    then have "findWorkflowStep steps d \<noteq> None" by (auto simp: findWorkflowStep_def find_None_iff step_ids_def)
    then obtain c where c: "findWorkflowStep steps d = Some c" by blast
    moreover have "step_started c" using findWorkflowStep_some [OF c] b(3) [of c] d by blast
    ultimately show ?thesis using findWorkflowStep_some [OF c] assms(3) by blast
  qed
  then have all: "fst (scan_dependencies steps (Step_DependsOn b) False)" unfolding scan_dependencies_fst by blast
  obtain i where i: "i < length steps" "steps ! i = b" using b(1) by (auto simp: in_set_conv_nth)
  have "step_is_ready steps b \<or> step_is_blocked steps b"
    using b(2) all by (cases "scan_dependencies steps (Step_DependsOn b) False") (auto simp: step_is_ready_def step_is_blocked_def)
  then have "i \<in> set (select_steps step_is_ready steps) \<or> i \<in> set (select_steps step_is_blocked steps)"
    using i by (simp add: select_steps_iff)
  then show ?thesis by fastforce
qed

text \<open>A step change keeps the plan, and a ready step has its dependencies behind it.\<close>

lemma plan_kept:
  assumes "list_all2 step_change plan steps"
  shows "length steps = length plan" "step_ids steps = step_ids plan" "graph_of steps = graph_of plan"
    "i < length steps \<Longrightarrow> Step_DependsOn (steps ! i) = Step_DependsOn (plan ! i)"
proof -
  show len: "length steps = length plan" using assms by (simp add: list_all2_lengthD)
  have nth: "i < length steps \<Longrightarrow> step_change (plan ! i) (steps ! i)" for i using assms len by (simp add: list_all2_conv_all_nth)
  show "i < length steps \<Longrightarrow> Step_DependsOn (steps ! i) = Step_DependsOn (plan ! i)" using nth by (simp add: step_change_def)
  show "step_ids steps = step_ids plan"
    unfolding step_ids_def by (rule nth_equalityI) (use len nth in \<open>auto simp: step_change_def\<close>)
  have "concat (map Step_DependsOn (filter (\<lambda>a. Step_ID a = i) plan)) = concat (map Step_DependsOn (filter (\<lambda>a. Step_ID a = i) steps))" for i
    using assms by (induction rule: list_all2_induct) (auto simp: step_change_def)
  then show "graph_of steps = graph_of plan" by (simp add: graph_of_def fun_eq_iff)
qed

lemma ready_dependency:
  assumes "i \<in> set (select_steps step_is_ready steps)" "x \<in> set (Step_DependsOn (steps ! i))"
  shows "\<exists>b\<in>set steps. Step_ID b = x \<and> TaskState_Terminal (Step_State b) \<and>
    (Step_Required (steps ! i) \<longrightarrow> Step_State b = TaskStateCompleted)"
proof -
  let ?scan = "scan_dependencies steps (Step_DependsOn (steps ! i)) False"
  have r: "fst ?scan" "\<not> (snd ?scan \<and> Step_Required (steps ! i))"
    using assms(1) by (auto simp: select_steps_iff step_is_ready_def split: prod.splits)
  from r(1) assms(2) obtain b where b: "findWorkflowStep steps x = Some b" "TaskState_Terminal (Step_State b)"
    unfolding scan_dependencies_fst by blast
  with r(2) assms(2) show ?thesis
    using findWorkflowStep_some [OF b(1)] scan_dependencies_snd [OF r(1)] by blast
qed

section \<open>The calls return\<close>

lemma run_from_returns: "run_from E P m (\<lambda>r _. r \<noteq> None) \<Longrightarrow> world_ok E w \<Longrightarrow> P (w_store w) \<Longrightarrow> fst (run_state m w) \<noteq> None"
  unfolding run_from_def by (metis prod.collapse)

text \<open>A stored workflow with steps, of which fewer than \<open>n\<close> have not been started.\<close>

definition flow_left :: "string \<Rightarrow> string \<Rightarrow> nat \<Rightarrow> journal_store \<Rightarrow> bool" where
  "flow_left tn wid n s \<longleftrightarrow> (\<exists>c. workflows s (resourceKey tn wid) = Some c \<and> unstarted c < n \<and> Workflow_Steps c \<noteq> [])"

lemma stable_flow_left: "stable (flow_left tn wid n)"
  unfolding stable_def flow_left_def
proof (intro allI impI, elim exE conjE)
  fix s s' c assume c: "store_inv s" "hub_steps s s'" "workflows s (resourceKey tn wid) = Some c" "unstarted c < n" "Workflow_Steps c \<noteq> []"
  then obtain c' where "workflows s' (resourceKey tn wid) = Some c'" "flow_change c c'" using hub_steps_flow by blast
  moreover from this have "length (Workflow_Steps c') = length (Workflow_Steps c)" by (simp add: flow_change_length)
  ultimately show "\<exists>c. workflows s' (resourceKey tn wid) = Some c \<and> unstarted c < n \<and> Workflow_Steps c \<noteq> []"
    using unstarted_mono le_less_trans c(4,5) by (metis length_0_conv)
qed

lemma advance_returns:
  assumes "env_ok E" "nul_free tn" "1 \<le> mc"
  shows "run_from E (flow_left tn wid n) (advance_flow E C n tn w wid mc fs) (\<lambda>r _. r \<noteq> None)"
  unfolding advance_flow_def
proof (rule run_from_bind)
  show "run_from E (flow_left tn wid n) (submitWorkflowReady E C n tn wid mc fs) (\<lambda>r _. r \<noteq> None)"
    by (rule run_from_weaken [OF submit_ready_total [OF assms]]) (auto simp: flow_left_def rounds_left_def)
  fix r :: "(string list \<times> error option) option"
  show "run_from E (\<lambda>_. r \<noteq> None)
      (case r of None \<Rightarrow> State_Monad.return None
        | Some (failures', Some e) \<Rightarrow> State_Monad.return (Some (\<lparr>WR_Workflow = w, WR_Errors = failures'\<rparr>, Some e))
        | Some (failures', None) \<Rightarrow> do {
            g \<leftarrow> get_flow E tn wid;
            State_Monad.return (Some (case g of
                Inl e \<Rightarrow> (\<lparr>WR_Workflow = zero_workflow, WR_Errors = failures'\<rparr>, Some e)
              | Inr w' \<Rightarrow> (\<lparr>WR_Workflow = w', WR_Errors = failures'\<rparr>, None)))
          }) (\<lambda>r _. r \<noteq> None)"
  proof (cases r)
    case None
    then show ?thesis by (simp add: run_from_def)
  next
    case (Some p)
    have "safe_post E (case r of None \<Rightarrow> State_Monad.return (Some (zero_result, None))
        | Some (failures', Some e) \<Rightarrow> State_Monad.return (Some (\<lparr>WR_Workflow = w, WR_Errors = failures'\<rparr>, Some e))
        | Some (failures', None) \<Rightarrow> do {
            g \<leftarrow> get_flow E tn wid;
            State_Monad.return (Some (case g of
                Inl e \<Rightarrow> (\<lparr>WR_Workflow = zero_workflow, WR_Errors = failures'\<rparr>, Some e)
              | Inr w' \<Rightarrow> (\<lparr>WR_Workflow = w', WR_Errors = failures'\<rparr>, None)))
          }) (\<lambda>r. r \<noteq> None)"
      by (auto split: option.split intro!: safe_return safe_bind safe_get_flow assms(1))
    then show ?thesis
      unfolding Some option.case run_from_safe [symmetric] by (rule run_from_weaken) simp_all
  qed
qed

text \<open>Refreshing a step returns the workflow that is now stored, a later form of the one first read.\<close>

definition later_form :: "string \<Rightarrow> workflow \<Rightarrow> (journal_store \<Rightarrow> bool) \<Rightarrow> journal_store \<Rightarrow> bool" where
  "later_form tn w0 P s \<longleftrightarrow> P s \<and> flow_at tn w0 s"

lemma stable_later_form: "stable P \<Longrightarrow> stable (later_form tn w0 P)"
  using stable_flow_at [of tn w0] unfolding stable_def later_form_def by blast

lemma run_updateStep:
  assumes "env_ok E" "stable P" "flow_change w0 w" "Workflow_TenantID w0 = tn" "Task_ID t \<noteq> ''''"
  shows "run_from E (later_form tn w0 P) (updateStep E w i t False)
     (\<lambda>r s. later_form tn w0 P s \<and> (snd r = None \<longrightarrow> flow_change w0 (fst r)))"
proof -
  let ?key = "''task:'' @ Step_ID (Workflow_Steps w ! i) @ '':'' @ nat_digits (unat (Task_Revision t)) @ '':'' @ task_state_string (Task_State t)"
  have id: "Workflow_TenantID w = tn" "Workflow_ID w = Workflow_ID w0" using assms(3,4) by (auto simp: flow_change_def)
  note st = stable_later_form [OF assms(2), of tn w0]
  have cb: "workflow_callback_ok ?key (step_status i t False now) c" for now c
    by (rule flow_callbacks_ok(3)) (simp_all add: assms(5))
  have legal: "hub_steps s (snd (ApplyWorkflowVersion io nid tn (Workflow_ID w0) 0 ?key (step_status i t False now) s))" for io nid s now
    by (rule hub_step, rule do_ApplyWorkflow) (blast intro: cb | simp)+
  have "run_from E (later_form tn w0 P) (apply_flow E tn (Workflow_ID w0) ?key (step_status i t False now))
     (\<lambda>(w', _, e) s. later_form tn w0 P s \<and> (e = None \<longrightarrow> flow_change w0 w'))" for now
    unfolding apply_flow_def
  proof (rule run_from_op [OF assms(1) st], intro conjI, goal_cases)
    case (1 io nid s)
    show ?case by (rule legal)
  next
    case (4 io nid s)
    obtain c ch e s' where op: "ApplyWorkflowVersion (io 0) nid tn (Workflow_ID w0) 0 ?key (step_status i t False now) s = ((c, ch, e), s')"
      by (metis prod.collapse)
    have "hub_steps s s'" using legal [of s "io 0" nid now] unfolding op by simp
    then have lf: "later_form tn w0 P s'" using st 4(1,2) unfolding stable_def by blast
    have "flow_change w0 c" if "e = None"
    proof -
      have "workflows s' (resourceKey tn (Workflow_ID w0)) = Some c"
        by (rule apply_flow_dedup(2) [OF 4(1) cb _ op [unfolded that]]) simp
      then show ?thesis using lf by (auto simp: later_form_def flow_at_def)
    qed
    with lf op show ?case by simp
  qed (simp_all add: outbox_inbox_plain)
  then show ?thesis
    unfolding updateStep_def id
    by (intro run_from_step [OF safe_ask st] run_from_bind)
      (auto split: prod.split intro!: run_from_return)
qed

text \<open>The body both loops share: the step is refreshed, and the loop goes on with the workflow returned.\<close>

lemma run_updated:
  assumes "env_ok E" "stable P" "flow_change w0 w" "Workflow_TenantID w0 = tn" "Task_ID t \<noteq> ''''"
    and rest: "\<And>w'. flow_change w0 w' \<Longrightarrow> run_from E (later_form tn w0 P) (f w')
      (\<lambda>r s. later_form tn w0 P s \<and> (snd (snd r) = None \<longrightarrow> flow_change w0 (fst r)))"
  shows "run_from E (later_form tn w0 P)
    (do { (w', e') \<leftarrow> updateStep E w i t False;
          if e' \<noteq> None then State_Monad.return (w', fs, e') else f w' })
    (\<lambda>r s. later_form tn w0 P s \<and> (snd (snd r) = None \<longrightarrow> flow_change w0 (fst r)))"
proof (rule run_from_bind [OF run_updateStep [OF assms(1-5)]], rule run_from_split(2), goal_cases)
  case (1 r w' e')
  then show ?case
    by (cases "e' = None \<and> \<not> flow_change w0 w'")
      (auto intro: run_from_return run_from_weaken [OF rest [of w']] simp: run_from_def [of _ "\<lambda>_. False"])
qed

lemma run_reconcile_steps:
  assumes "env_ok E" "stable P" "Workflow_TenantID w0 = tn"
  shows "flow_change w0 w \<Longrightarrow> run_from E (later_form tn w0 P) (reconcile_steps E C tn sub is w fs)
     (\<lambda>r s. later_form tn w0 P s \<and> (snd (snd r) = None \<longrightarrow> flow_change w0 (fst r)))"
proof (induction "is" arbitrary: w fs)
  case (Cons i "is")
  note st = stable_later_form [OF assms(2), of tn w0]
  show ?case
    unfolding reconcile_steps.simps Let_def
  proof (rule run_from_split(1) [OF Cons.IH [OF Cons.prems]], rule run_from_step [OF post_ReconcileTask [OF assms(1)] st],
      rule run_from_split(2), goal_cases)
    case (1 x t e)
    show ?case
    proof (cases e)
      case None
      with 1 have t: "Task_ID t \<noteq> ''''" by simp
      show ?thesis
        unfolding None option.case by (rule run_updated [OF assms(1,2) Cons.prems assms(3) t Cons.IH])
    next
      case (Some err)
      then show ?thesis by (simp add: Cons.IH [OF Cons.prems])
    qed
  qed
qed (simp add: run_from_return)

lemma run_continue_steps:
  assumes "env_ok E" "stable P" "Workflow_TenantID w0 = tn"
  shows "flow_change w0 w \<Longrightarrow> run_from E (later_form tn w0 P) (continue_steps E C tn tx ps is w fs)
     (\<lambda>r s. later_form tn w0 P s \<and> (snd (snd r) = None \<longrightarrow> flow_change w0 (fst r)))"
proof (induction "is" arbitrary: w fs)
  case (Cons p "is")
  obtain i a where p: "p = (i, a)" by (cases p)
  note st = stable_later_form [OF assms(2), of tn w0]
  show ?case
    unfolding p continue_steps.simps
  proof (rule run_from_split(1) [OF Cons.IH [OF Cons.prems]], rule run_from_step [OF post_ContinueTask [OF assms(1)] st],
      rule run_from_split(2), goal_cases)
    case (1 x t e)
    show ?case
    proof (cases e)
      case None
      with 1 have t: "Task_ID t \<noteq> ''''" by simp
      show ?thesis
        unfolding None option.case by (rule run_updated [OF assms(1,2) Cons.prems assms(3) t Cons.IH])
    next
      case (Some err)
      then show ?thesis by (simp add: Cons.IH [OF Cons.prems])
    qed
  qed
qed (simp add: run_from_return)

text \<open>The end of both calls: the concurrency of the stored workflow is positive.\<close>

lemma advance_after:
  assumes "env_ok E" "nul_free tn" "Workflow_Steps w0 \<noteq> []" "Workflow_ID w0 = wid"
    and "run_from E (later_form tn w0 (flow_left tn wid n)) m
      (\<lambda>r s. later_form tn w0 (flow_left tn wid n) s \<and> (snd (snd r) = None \<longrightarrow> flow_change w0 (fst r)))"
  shows "run_from E (later_form tn w0 (flow_left tn wid n))
    (do { (w, failures, e) \<leftarrow> m;
          if e \<noteq> None then State_Monad.return (Some (\<lparr>WR_Workflow = w, WR_Errors = failures\<rparr>, e))
          else advance_flow E C n tn w wid (flow_concurrency w) failures }) (\<lambda>r _. r \<noteq> None)"
proof (rule run_from_bind [OF assms(5)], (rule run_from_split(2))+, goal_cases)
  case (1 r w q failures e)
  have adv: "run_from E (later_form tn w0 (flow_left tn wid n)) (advance_flow E C n tn w wid (flow_concurrency w) failures)
      (\<lambda>r _. r \<noteq> None)" if "flow_change w0 w"
  proof -
    have "length (Workflow_Steps w) = length (Workflow_Steps w0)" using that by (rule flow_change_length)
    then have "1 \<le> flow_concurrency w" using assms(3) by (cases "Workflow_Steps w") (simp_all add: flow_concurrency_def)
    from advance_returns [OF assms(1,2) this] show ?thesis by (rule run_from_weaken) (simp_all add: later_form_def)
  qed
  from 1 show ?case
    by (cases "e = None \<and> \<not> flow_change w0 w")
      (auto intro: run_from_return run_from_weaken [OF adv] simp: run_from_def [of _ "\<lambda>_. False"])
qed

lemma reconcile_returns:
  assumes "env_ok E" "nul_free tn"
  shows "run_from E (flow_left tn wid n) (ReconcileWorkflow E C n tn wid sub) (\<lambda>r _. r \<noteq> None)"
  unfolding ReconcileWorkflow_def
proof (rule get_flow_bind [OF assms stable_flow_left], goal_cases)
  case (1 e)
  show ?case by (simp add: run_from_return)
next
  case (2 w0)
  have ne: "Workflow_Steps w0 \<noteq> []" using 2(3) by (auto simp: flow_left_def)
  have comp: "run_from E (\<lambda>_. True) (do { (w, e) \<leftarrow> reconcileCompensation E tn wid;
      State_Monad.return (Some (\<lparr>WR_Workflow = w, WR_Errors = []\<rparr>, e)) }) (\<lambda>r _. r \<noteq> None)"
    unfolding run_from_safe
    by (rule safe_bind [OF safe_reconcileCompensation [OF assms(1)]]) (auto split: prod.split intro!: safe_return)
  show ?case
    unfolding sum.case
  proof (rule run_from_split(1) [OF run_from_weaken [OF comp]], simp, simp, rule run_from_split(1) [OF run_from_return], simp)
    have "run_from E (later_form tn w0 (flow_left tn wid n)) (reconcile_steps E C tn sub [0..<length (Workflow_Steps w0)] w0 [])
       (\<lambda>r s. later_form tn w0 (flow_left tn wid n) s \<and> (snd (snd r) = None \<longrightarrow> flow_change w0 (fst r)))"
      by (rule run_reconcile_steps [OF assms(1) stable_flow_left 2(4)]) (simp add: flow_change_refl)
    from advance_after [OF assms ne 2(2) this]
    show "run_from E (\<lambda>s. flow_left tn wid n s \<and> flow_at tn w0 s) (do {
        (w, failures, e) \<leftarrow> reconcile_steps E C tn sub [0..<length (Workflow_Steps w0)] w0 [];
        if e \<noteq> None then State_Monad.return (Some (\<lparr>WR_Workflow = w, WR_Errors = failures\<rparr>, e))
        else advance_flow E C n tn w wid (flow_concurrency w) failures }) (\<lambda>r _. r \<noteq> None)"
      by (rule run_from_weaken) (simp_all add: later_form_def)
  qed
qed

lemma continue_returns:
  assumes "env_ok E" "nul_free tn"
  shows "run_from E (flow_left tn wid n) (ContinueWorkflow E C n tn wid tx ps) (\<lambda>r _. r \<noteq> None)"
  unfolding ContinueWorkflow_def
proof (rule get_flow_bind [OF assms stable_flow_left], goal_cases)
  case (1 e)
  show ?case by (simp add: run_from_return)
next
  case (2 w0)
  have ne: "Workflow_Steps w0 \<noteq> []" using 2(3) by (auto simp: flow_left_def)
  show ?case
    unfolding sum.case
  proof (rule run_from_split(1) [OF run_from_return], simp)
    let ?is = "zip [0..<length (Workflow_Steps w0)] (Workflow_Steps w0)"
    have "run_from E (later_form tn w0 (flow_left tn wid n)) (continue_steps E C tn tx ps ?is w0 [])
       (\<lambda>r s. later_form tn w0 (flow_left tn wid n) s \<and> (snd (snd r) = None \<longrightarrow> flow_change w0 (fst r)))"
      by (rule run_continue_steps [OF assms(1) stable_flow_left 2(4)]) (simp add: flow_change_refl)
    from advance_after [OF assms ne 2(2) this]
    show "run_from E (\<lambda>s. flow_left tn wid n s \<and> flow_at tn w0 s) (do {
        (w, failures, e) \<leftarrow> continue_steps E C tn tx ps ?is w0 [];
        if e \<noteq> None then State_Monad.return (Some (\<lparr>WR_Workflow = w, WR_Errors = failures\<rparr>, e))
        else advance_flow E C n tn w wid (flow_concurrency w) failures }) (\<lambda>r _. r \<noteq> None)"
      by (rule run_from_weaken) (simp_all add: later_form_def)
  qed
qed

lemma unstarted_le: "unstarted c \<le> length (Workflow_Steps c)"
  unfolding unstarted_def
  using card_mono [of "{..<length (Workflow_Steps c)}" "{i. i < length (Workflow_Steps c) \<and> \<not> step_started (Workflow_Steps c ! i)}"]
  by auto

text \<open>A workflow that was just created has all its steps to start.\<close>

lemma create_leaves:
  assumes "env_ok E" "flow_ok w"
  shows "run_from E (\<lambda>_. True) (store_op E (\<lambda>io nid. CreateWorkflow (io 0) nid w (flow_event k src sid st p now)))
    (\<lambda>rc s. \<forall>w'. rc = Inr w' \<longrightarrow> Workflow_ID w' = Workflow_ID w \<and>
       flow_left (Workflow_TenantID w) (Workflow_ID w) (Suc (length (Workflow_Steps w))) s)"
proof (rule run_from_op [OF assms(1)], simp add: stable_def, intro conjI, goal_cases)
  case (1 io nid s)
  show ?case by (rule hub_step, rule do_CreateWorkflow) (simp_all add: assms(2))
next
  case (4 io nid s)
  have un: "unstarted c < Suc (length (Workflow_Steps c))" for c using unstarted_le by (simp add: le_imp_less_Suc)
  have un_rev: "unstarted (w\<lparr>Workflow_Revision := 1, Workflow_LastSequence := 1\<rparr>) = unstarted w" by (simp add: unstarted_def)
  show ?case
    using un [of w] un_rev
    by (auto simp: CreateWorkflow_def Let_def flow_left_def split: if_splits prod.splits option.splits dest!: commit_success)
qed (simp_all add: outbox_inbox_plain)

lemma start_returns:
  assumes "env_ok E" "nul_free tn" "length (WD_Steps d) < n"
  shows "run_from E (\<lambda>_. True) (StartWorkflow E C n tn d) (\<lambda>r _. r \<noteq> None)"
proof (cases "prepare_workflow (H_Lib (C_Hub C)) tn d")
  case None
  then show ?thesis using prepare_workflow_total by blast
next
  case (Some r)
  show ?thesis
  proof (cases r)
    case (Inl e)
    with Some show ?thesis by (simp add: StartWorkflow_def run_from_return)
  next
    case (Inr q)
    obtain v mc steps where q: "q = (v, mc, steps)" by (cases q)
    note prep = Some [unfolded Inr q]
    have len: "length steps < n" "1 \<le> mc" using prepare_workflow_ok [OF prep] assms(3) by simp_all
    have ex: "run_from E (\<lambda>_. True) (do { r \<leftarrow> existing_workflow E tn wid d v err; State_Monad.return (Some r) }) (\<lambda>r _. r \<noteq> None)" for wid err
      unfolding run_from_safe
      by (rule safe_bind [OF safe_existing_workflow [OF assms(1)]]) (simp add: safe_return)
    have go: "run_from E (flow_left tn wid (Suc (length steps)))
        (do { e \<leftarrow> store_inputs E C tn wid steps 0 (WD_Steps d);
              if e \<noteq> None then State_Monad.return (Some (\<lparr>WR_Workflow = w, WR_Errors = []\<rparr>, e))
              else advance_flow E C n tn w wid mc [] }) (\<lambda>r _. r \<noteq> None)" for wid w
    proof (rule run_from_step [OF safe_store_inputs [OF assms(1)] stable_flow_left], rule run_from_split(1) [OF run_from_return], simp)
      show "run_from E (flow_left tn wid (Suc (length steps))) (advance_flow E C n tn w wid mc []) (\<lambda>r _. r \<noteq> None)"
        using len(1) by (intro run_from_weaken [OF advance_returns [OF assms(1,2) len(2)]]) (auto simp: flow_left_def)
    qed
    show ?thesis
      unfolding StartWorkflow_def prep option.case sum.case prod.case Let_def
    proof (intro run_from_step [OF safe_ask], simp add: stable_def, simp add: stable_def,
        rule run_from_bind [OF create_leaves [OF assms(1) new_workflow_ok [OF prep assms(2)]]], goal_cases)
      case (1 nid now rc)
      show ?case
      proof (cases rc)
        case (Inl err)
        then show ?thesis using run_from_weaken [OF ex] by simp
      next
        case (Inr w)
        show ?thesis
        proof (cases "Workflow_ID w = workflow_id (H_Lib (C_Hub C)) tn d nid")
          case True
          from run_from_weaken [OF go [of "Workflow_ID w" w]] Inr True show ?thesis by auto
        next
          case False
          with Inr show ?thesis by (simp add: run_from_def)
        qed
      qed
    qed
  qed
qed

lemma start_template_returns:
  assumes "env_ok E" "nul_free tn" "64 < n"
  shows "run_from E (\<lambda>_. True) (StartWorkflowTemplate E C n tn i input) (\<lambda>r _. r \<noteq> None)"
proof (cases "CompileWorkflowTemplate (H_Lib (C_Hub C)) i input")
  case (Inr d)
  with compiled_forward [OF Inr] start_returns [OF assms(1,2), of d n C] assms(3)
  show ?thesis by (simp add: StartWorkflowTemplate_def)
qed (simp add: StartWorkflowTemplate_def run_from_return)

section \<open>Concrete workflows for the examples\<close>

definition example_coordinator :: coordinator where
  "example_coordinator =
     \<lparr>C_Hub = example_config, C_ErrorText = (\<lambda>_. ''down''), C_InputJSON = (\<lambda>i. WI_Text i),
      C_InputPut = (\<lambda>_ t wid sid _. Inr (input_ref t wid sid)), C_InputGet = (\<lambda>_ _ _. Inl ErrNotFound), C_Finish = (\<lambda>_ i. i)\<rparr>"

definition example_step_input :: "string \<Rightarrow> string list \<Rightarrow> workflow_step_input" where
  "example_step_input i deps =
     \<lparr>SI_ID = i, SI_AgentID = ''g'', SI_Skill = '''', SI_DependsOn = deps, SI_Text = ''hi'', SI_Parts = [],
      SI_ArtifactInputs = [], SI_Required = True, SI_CompensationText = ''''\<rparr>"

definition example_definition :: workflow_definition where
  "example_definition =
     \<lparr>WD_ID = ''w'', WD_Name = ''n'', WD_DefinitionVersion = 0, WD_IdempotencyKey = '''', WD_MaxConcurrency = 0,
      WD_Steps = [example_step_input ''b'' [''a''], example_step_input ''a'' []]\<rparr>"

definition example_plan :: "string \<Rightarrow> string list \<Rightarrow> workflow_step" where
  "example_plan i deps =
     \<lparr>Step_ID = i, Step_AgentID = ''g'', Step_Skill = '''', Step_DependsOn = deps, Step_ArtifactInputs = [],
      Step_InputRef = '''', Step_InputDigest = '''', Step_TaskID = '''', Step_State = TaskStateUnknown, Step_Required = True,
      Step_Attempt = 0, Step_CompensationText = '''', Step_CompensationTaskID = '''', Step_CompensationState = TaskStateUnset,
      Step_Problem = None, Step_CompensationProblem = None\<rparr>"

lemma example_prepared:
  "prepare_workflow example_lib ''t'' example_definition = Some (Inr (1, 2, [example_plan ''b'' [''a''], example_plan ''a'' []]))"
  by code_simp

definition example_run :: template_run where
  "example_run =
     \<lparr>TR_ID = '''', TR_Name = '''', TR_IdempotencyKey = '''', TR_MaxConcurrency = 0, TR_Text = ''hi'', TR_Parts = [],
      TR_Agents = [\<lparr>TA_AgentID = ''g'', TA_Skill = ''''\<rparr>, \<lparr>TA_AgentID = '''', TA_Skill = ''s''\<rparr>]\<rparr>"

lemma example_compiled:
  "\<exists>d. CompileWorkflowTemplate example_lib '' sequential-pipeline'' example_run = Inr d \<and>
     map SI_ID (WD_Steps d) = [''stage-1'', ''stage-2'']"
proof -
  have "(case CompileWorkflowTemplate example_lib '' sequential-pipeline'' example_run of
      Inl e \<Rightarrow> False | Inr d \<Rightarrow> map SI_ID (WD_Steps d) = [''stage-1'', ''stage-2''])" by code_simp
  then show ?thesis by (simp split: sum.splits)
qed

text \<open>A stored workflow of one step, in memory.\<close>

definition example_flow :: "workflow_step \<Rightarrow> WorkflowState \<Rightarrow> workflow" where
  "example_flow a st =
     zero_workflow\<lparr>Workflow_ID := ''w'', Workflow_TenantID := ''t'', Workflow_State := st, Workflow_Steps := [a]\<rparr>"

definition example_flow_store :: "workflow_step \<Rightarrow> WorkflowState \<Rightarrow> journal_store" where
  "example_flow_store a st =
     snd (CreateWorkflow Io_ok ''e1'' (example_flow a st) (flow_event ''workflow.created'' ''hub'' '''' st None 0) (empty_store None))"

lemma example_flow_ok: "flow_ok (example_flow a st)"
  by (simp add: flow_ok_def example_flow_def zero_workflow_def nul_free_def nul_def)

lemma example_flow_step: "hub_steps (empty_store None) (example_flow_store a st)"
  unfolding example_flow_store_def by (rule hub_step, rule do_CreateWorkflow) (simp_all add: example_flow_ok)

lemma example_flow_inv: "store_inv (example_flow_store a st)"
  using store_steps_keep [OF example_flow_step store_inv_empty] by simp

lemma example_flow_sel:
  "jfile (example_flow_store a st) = None"
  "workflows (example_flow_store a st) =
     [resourceKey ''t'' ''w'' \<mapsto> (example_flow a st)\<lparr>Workflow_Revision := 1, Workflow_LastSequence := 1\<rparr>]"
  "workflowDedup (example_flow_store a st) (resourceKey ''t'' ''w'') = {''local:e1''}"
  "outbox (example_flow_store a st) = Map.empty" "inbox (example_flow_store a st) = Map.empty"
  by (simp_all add: example_flow_store_def CreateWorkflow_def Let_def empty_store_def commit_in_memory example_flow_def
      zero_workflow_def flow_event_def zero_workflow_event_def frame_flows apply_workflow_def)

definition example_flow_world :: "workflow_step \<Rightarrow> WorkflowState \<Rightarrow> world" where
  "example_flow_world a st = \<lparr>w_store = example_flow_store a st, w_tick = 0\<rparr>"

lemma example_flow_world_ok: "world_ok example_env (example_flow_world a st)"
  by (simp add: example_flow_world_def world_ok_def example_flow_inv example_env_def unused_def example_flow_sel)

definition example_done :: workflow_step where
  "example_done = (example_plan ''a'' [])\<lparr>Step_TaskID := ''x'', Step_State := TaskStateCompleted, Step_CompensationText := ''undo''\<rparr>"

lemma example_compensation:
  "\<exists>f s1. ApplyWorkflowVersion Io_ok ''e2'' ''t'' ''w'' 0 (compensation_key ''a'')
       (compensation_failed 0 ''a'' ''down'' 1) (example_flow_store example_done WorkflowStateCompensating) = ((f, True, None), s1) \<and>
     workflows s1 (resourceKey ''t'' ''w'') = Some f \<and> map Step_CompensationTaskID (Workflow_Steps f) = ['''']"
  by (simp add: ApplyWorkflowVersion_def Let_def example_flow_sel compensation_failed_def compensation_key_def
      commit_in_memory update_step_def example_flow_def zero_workflow_def example_done_def example_plan_def)

end
