(* ===== verification/Worker_Loops.thy ===== *)
theory Worker_Loops
  imports Federation_Service Artifact_Service
begin

text \<open>
  The background workers (\<open>internal/worker\<close>): the outbox and inbox processors, the task reconciler with
  its heartbeat, the gates that stop new claims, and the file publisher. Each pass of a worker is a
  program over the world of \<open>Hub_World\<close>: it claims leases, works on the claimed items one after the
  other, and settles every lease.

  A nil gate allows claims. The publisher, the answer of the gate, the context and the arrival of a
  heartbeat error are read from the outside at a tick. \<open>ks\<close> is the order in which a claim ranges over its
  map. The checks for an unconfigured worker (\<open>validate\<close>) keep the test for the worker's name only.
\<close>

section \<open>Configuration\<close>

record worker =
  W_WorkerID :: string
  W_BatchSize :: int
  W_LeaseDuration :: duration
  W_PollInterval :: duration
  W_BaseBackoff :: duration
  W_MaxBackoff :: duration

definition second :: duration where
  "second = 1000000000"

definition positive_or :: "int \<Rightarrow> int \<Rightarrow> int" where
  "positive_or standard x = (if x > 0 then x else standard)"

definition processor_batch :: "worker \<Rightarrow> int" where
  "processor_batch W = positive_or 32 (W_BatchSize W)"

definition lease_duration :: "worker \<Rightarrow> duration" where
  "lease_duration W = positive_or (30 * second) (W_LeaseDuration W)"

definition base_backoff :: "worker \<Rightarrow> duration" where
  "base_backoff W = positive_or second (W_BaseBackoff W)"

definition max_backoff :: "worker \<Rightarrow> duration" where
  "max_backoff W = positive_or (60 * second) (W_MaxBackoff W)"

definition processor_poll :: "worker \<Rightarrow> duration" where
  "processor_poll W = positive_or second (W_PollInterval W)"

definition validate_worker :: "worker \<Rightarrow> error option" where
  "validate_worker W = (if W_WorkerID W = '''' then Some (ErrText ''worker Store and WorkerID are required'') else None)"

section \<open>Backoff\<close>

text \<open>The loop from index 1 below \<open>attempt\<close>. Both callers pass a positive maximum. Doubling happens below half of
  it only, so it does not overflow.\<close>

fun backoff_loop :: "nat \<Rightarrow> duration \<Rightarrow> duration \<Rightarrow> duration" where
  "backoff_loop 0 delay maximum = delay"
| "backoff_loop (Suc n) delay maximum =
     (if delay < maximum div 2 then backoff_loop n (delay * 2) maximum else delay)"

definition boundedBackoff :: "uint32 \<Rightarrow> duration \<Rightarrow> duration \<Rightarrow> duration" where
  "boundedBackoff attempt base maximum =
     (let delay = backoff_loop (unat attempt - 1) base maximum in if delay > maximum then maximum else delay)"

text \<open>The reconciler computes its delay in \<open>float64\<close>; on durations below 2 to the 53 nanoseconds (104 days),
  the products with powers of two are exact.\<close>

definition reconciler_backoff :: "worker \<Rightarrow> (duration \<Rightarrow> duration) option \<Rightarrow> uint32 \<Rightarrow> duration" where
  "reconciler_backoff W jitter attempt =
     (let maximum = max_backoff W;
          exponent = max 0 (min (int (unat attempt) - 1) 30);
          delay = min maximum (base_backoff W * 2 ^ nat exponent)
      in case jitter of
           None \<Rightarrow> delay
         | Some j \<Rightarrow> (if j delay < 0 then 0 else if j delay > maximum then maximum else j delay))"

section \<open>The outbox processor\<close>

record outbox_metrics =
  M_Claimed :: uint64
  M_Published :: uint64
  M_PublishFailed :: uint64
  M_Retried :: uint64
  M_DeadLettered :: uint64
  M_AckFailed :: uint64

type_synonym publisher = "nat \<Rightarrow> outbox_item \<Rightarrow> error option"

text \<open>One lease: publish the item, then acknowledge it, schedule a retry or move it to the dead letters.
  \<open>text\<close> is \<open>err.Error()\<close>.\<close>

definition deliver_lease ::
  "hub_env \<Rightarrow> worker \<Rightarrow> publisher \<Rightarrow> (error \<Rightarrow> string) \<Rightarrow> uint32 \<Rightarrow> outbox_lease \<Rightarrow> outbox_metrics \<Rightarrow>
   (error list \<times> outbox_metrics) hub" where
  "deliver_lease E W P text maxAttempts lease m = do {
     r \<leftarrow> ask (\<lambda>t. P t (OutboxLease_Item lease));
     case r of
       Some err \<Rightarrow>
         let m1 = m\<lparr>M_PublishFailed := M_PublishFailed m + 1\<rparr>; i = Outbox_ID (OutboxLease_Item lease) in
         if maxAttempts > 0 \<and> OutboxLease_Attempt lease \<ge> maxAttempts then do {
           wall \<leftarrow> ask (e_clock E);
           d \<leftarrow> store_op E (\<lambda>io nid. DeadLetterOutbox (io 0) wall lease (text err));
           State_Monad.return (case d of
               Some e \<Rightarrow> ([ErrWrap (''dead-letter outbox item '' @ i) (ErrJoin [err, e])], m1)
             | None \<Rightarrow> ([ErrWrap (''dead-lettered outbox item '' @ i) err], m1\<lparr>M_DeadLettered := M_DeadLettered m1 + 1\<rparr>))
         }
         else do {
           now \<leftarrow> ask (e_clock E);
           d \<leftarrow> store_op E (\<lambda>io nid. RetryOutbox (io 0) lease
                   (now + boundedBackoff (OutboxLease_Attempt lease) (base_backoff W) (max_backoff W)));
           State_Monad.return (case d of
               Some e \<Rightarrow> ([ErrWrap (''publish outbox item '' @ i) (ErrJoin [err, e])], m1)
             | None \<Rightarrow> ([ErrWrap (''publish outbox item '' @ i) err], m1\<lparr>M_Retried := M_Retried m1 + 1\<rparr>))
         }
     | None \<Rightarrow> do {
         wall \<leftarrow> ask (e_clock E);
         a \<leftarrow> store_op E (\<lambda>io nid. AckOutbox (io 0) wall lease);
         let m1 = m\<lparr>M_Published := M_Published m + 1\<rparr>;
         State_Monad.return (case a of
             Some e \<Rightarrow> ([ErrWrap (''ack outbox item '' @ Outbox_ID (OutboxLease_Item lease)) e],
                        m1\<lparr>M_AckFailed := M_AckFailed m1 + 1\<rparr>)
           | None \<Rightarrow> ([], m1))
       }
   }"

fun deliver_leases ::
  "hub_env \<Rightarrow> worker \<Rightarrow> publisher \<Rightarrow> (error \<Rightarrow> string) \<Rightarrow> uint32 \<Rightarrow> outbox_lease list \<Rightarrow> outbox_metrics \<Rightarrow>
   (error list \<times> outbox_metrics) hub" where
  "deliver_leases E W P text maxAttempts [] m = State_Monad.return ([], m)"
| "deliver_leases E W P text maxAttempts (l # ls) m = do {
     (fs, m1) \<leftarrow> deliver_lease E W P text maxAttempts l m;
     (rest, m2) \<leftarrow> deliver_leases E W P text maxAttempts ls m1;
     State_Monad.return (fs @ rest, m2)
   }"

type_synonym pass_result = "int \<times> error option"

definition Outbox_RunOnce ::
  "hub_env \<Rightarrow> worker \<Rightarrow> (journal_store \<Rightarrow> string list) \<Rightarrow> (nat \<Rightarrow> bool) \<Rightarrow> publisher \<Rightarrow> (error \<Rightarrow> string) \<Rightarrow> uint32 \<Rightarrow>
   outbox_metrics \<Rightarrow> (pass_result \<times> outbox_metrics) hub" where
  "Outbox_RunOnce E W ks gate P text maxAttempts m =
     (case validate_worker W of
        Some e \<Rightarrow> State_Monad.return ((0, Some e), m)
      | None \<Rightarrow> do {
          allow \<leftarrow> ask gate;
          if \<not> allow then State_Monad.return ((0, Some ErrWorkerPaused), m)
          else do {
            now \<leftarrow> ask (e_clock E);
            r \<leftarrow> store_op E (\<lambda>io nid s. ClaimOutbox io (ks s) (W_WorkerID W) (processor_batch W) now (lease_duration W) s);
            case r of
              Inl e \<Rightarrow> State_Monad.return ((0, Some e), m)
            | Inr ls \<Rightarrow> do {
                (failures, m') \<leftarrow> deliver_leases E W P text maxAttempts ls (m\<lparr>M_Claimed := M_Claimed m + of_nat (length ls)\<rparr>);
                State_Monad.return ((int (length ls), errors_join failures), m')
              }
          }
        })"

section \<open>The inbox processor\<close>

fun apply_leases :: "hub_env \<Rightarrow> hub_config \<Rightarrow> worker \<Rightarrow> inbox_lease list \<Rightarrow> error list hub" where
  "apply_leases E H W [] = State_Monad.return []"
| "apply_leases E H W (l # ls) = do {
     (_, e) \<leftarrow> ApplyInboxItem E H (InboxLease_Item l);
     failures \<leftarrow>
       (case e of
          Some err \<Rightarrow> do {
            now \<leftarrow> ask (e_clock E);
            r \<leftarrow> store_op E (\<lambda>io nid. RetryInbox (io 0) l
                    (now + boundedBackoff (InboxLease_Attempt l) (base_backoff W) (max_backoff W)));
            State_Monad.return [ErrWrap (''apply inbox item '' @ Inbox_ID (InboxLease_Item l))
              (case r of Some re \<Rightarrow> ErrJoin [err, re] | None \<Rightarrow> err)]
          }
        | None \<Rightarrow> do {
            a \<leftarrow> store_op E (\<lambda>io nid. AckInbox (io 0) l);
            State_Monad.return (case a of
                Some err \<Rightarrow> [ErrWrap (''ack inbox item '' @ Inbox_ID (InboxLease_Item l)) err] | None \<Rightarrow> [])
          });
     rest \<leftarrow> apply_leases E H W ls;
     State_Monad.return (failures @ rest)
   }"

definition Inbox_RunOnce ::
  "hub_env \<Rightarrow> hub_config \<Rightarrow> worker \<Rightarrow> (journal_store \<Rightarrow> string list) \<Rightarrow> (nat \<Rightarrow> bool) \<Rightarrow> pass_result hub" where
  "Inbox_RunOnce E H W ks gate =
     (case validate_worker W of
        Some e \<Rightarrow> State_Monad.return (0, Some e)
      | None \<Rightarrow> do {
          allow \<leftarrow> ask gate;
          if \<not> allow then State_Monad.return (0, Some ErrWorkerPaused)
          else do {
            now \<leftarrow> ask (e_clock E);
            r \<leftarrow> store_op E (\<lambda>io nid s. ClaimInbox io (ks s) (W_WorkerID W) (processor_batch W) now (lease_duration W) s);
            case r of
              Inl e \<Rightarrow> State_Monad.return (0, Some e)
            | Inr ls \<Rightarrow> do {
                failures \<leftarrow> apply_leases E H W ls;
                State_Monad.return (int (length ls), errors_join failures)
              }
          }
        })"

section \<open>The reconciler\<close>

definition reconciler_poll :: "worker \<Rightarrow> duration" where
  "reconciler_poll W = positive_or (5 * second) (W_PollInterval W)"

definition reconciler_batch :: "worker \<Rightarrow> int" where
  "reconciler_batch W = positive_or 16 (W_BatchSize W)"

text \<open>The heartbeat goroutine renews the lease until the work is finished (\<open>finished\<close> at a tick) and reports
  the first error. \<open>beats\<close> bounds the number of ticks of its clock that are looked at.\<close>

fun heartbeat :: "hub_env \<Rightarrow> worker \<Rightarrow> (nat \<Rightarrow> bool) \<Rightarrow> nat \<Rightarrow> work_lease \<Rightarrow> error option hub" where
  "heartbeat E W finished 0 lease = State_Monad.return None"
| "heartbeat E W finished (Suc beats) lease = do {
     f \<leftarrow> ask finished;
     if f then State_Monad.return None
     else do {
       now \<leftarrow> ask (e_clock E);
       r \<leftarrow> store_op E (\<lambda>io nid. RenewLease (io 0) lease now (lease_duration W));
       case r of Inl e \<Rightarrow> State_Monad.return (Some e) | Inr renewed \<Rightarrow> heartbeat E W finished beats renewed
     }
   }"

definition join_two :: "error option \<Rightarrow> error \<Rightarrow> error" where
  "join_two a e = (case a of None \<Rightarrow> ErrJoin [e] | Some x \<Rightarrow> ErrJoin [x, e])"

text \<open>The heartbeat of a lease runs besides \<open>process\<close>; its renewals are steps of another goroutine, and \<open>beat\<close>
  is its error when that arrives before the result of the reconciliation.\<close>

definition process_lease ::
  "hub_env \<Rightarrow> hub_config \<Rightarrow> worker \<Rightarrow> (duration \<Rightarrow> duration) option \<Rightarrow> (nat \<Rightarrow> error option) \<Rightarrow> work_lease \<Rightarrow>
   error option hub" where
  "process_lease E H W jitter beat lease = do {
     (_, reconcileErr) \<leftarrow> ReconcileTask E H (Task_TenantID (WorkLease_Task lease)) (Task_ID (WorkLease_Task lease)) False;
     h \<leftarrow> ask beat;
     case h of
       Some heartbeatErr \<Rightarrow> State_Monad.return (Some (join_two reconcileErr heartbeatErr))
     | None \<Rightarrow> do {
         now \<leftarrow> ask (e_clock E);
         let availableAt = (if reconcileErr = None then now + reconciler_poll W
                            else now + reconciler_backoff W jitter (WorkLease_Attempt lease));
         r \<leftarrow> store_op E (\<lambda>io nid. ReleaseLease (io 0) lease availableAt (reconcileErr = None));
         State_Monad.return (case r of Some e \<Rightarrow> Some (join_two reconcileErr e) | None \<Rightarrow> reconcileErr)
       }
   }"

fun process_leases ::
  "hub_env \<Rightarrow> hub_config \<Rightarrow> worker \<Rightarrow> (duration \<Rightarrow> duration) option \<Rightarrow> (nat \<Rightarrow> error option) \<Rightarrow> work_lease list \<Rightarrow>
   error list hub" where
  "process_leases E H W jitter beat [] = State_Monad.return []"
| "process_leases E H W jitter beat (l # ls) = do {
     e \<leftarrow> process_lease E H W jitter beat l;
     rest \<leftarrow> process_leases E H W jitter beat ls;
     State_Monad.return (case e of
       Some err \<Rightarrow> ErrWrap (''reconcile Task '' @ Task_ID (WorkLease_Task l)) err # rest | None \<Rightarrow> rest)
   }"

definition Reconciler_RunOnce ::
  "hub_env \<Rightarrow> hub_config \<Rightarrow> worker \<Rightarrow> (journal_store \<Rightarrow> string list) \<Rightarrow> (nat \<Rightarrow> bool) \<Rightarrow> (duration \<Rightarrow> duration) option \<Rightarrow>
   (nat \<Rightarrow> error option) \<Rightarrow> pass_result hub" where
  "Reconciler_RunOnce E H W ks gate jitter beat =
     (case validate_worker W of
        Some e \<Rightarrow> State_Monad.return (0, Some e)
      | None \<Rightarrow> do {
          allow \<leftarrow> ask gate;
          if \<not> allow then State_Monad.return (0, Some ErrWorkerPaused)
          else do {
            now \<leftarrow> ask (e_clock E);
            r \<leftarrow> store_op E (\<lambda>io nid s. ClaimRecoverable io (ks s) (W_WorkerID W) (reconciler_batch W) now (lease_duration W) s);
            case r of
              Inl e \<Rightarrow> State_Monad.return (0, Some e)
            | Inr ls \<Rightarrow> do {
                failures \<leftarrow> process_leases E H W jitter beat ls;
                State_Monad.return (int (length ls), errors_join failures)
              }
          }
        })"

text \<open>The supervisor of all three: passes until the context ends (\<open>cancelled\<close> at a tick). \<open>polls\<close> bounds the
  number of passes looked at; \<^term>\<open>None\<close> is a worker that still runs.\<close>

fun worker_run :: "(nat \<Rightarrow> bool) \<Rightarrow> nat \<Rightarrow> 'a hub \<Rightarrow> error option hub" where
  "worker_run cancelled 0 pass = State_Monad.return None"
| "worker_run cancelled (Suc polls) pass = do {
     _ \<leftarrow> pass;
     c \<leftarrow> ask cancelled;
     if c then State_Monad.return (Some (ErrText ''context canceled'')) else worker_run cancelled polls pass
   }"

section \<open>Gates\<close>

datatype WorkerMode = WorkerRunning | WorkerPaused | WorkerDraining

definition worker_mode_string :: "WorkerMode \<Rightarrow> string" where
  "worker_mode_string m = (case m of WorkerRunning \<Rightarrow> ''RUNNING'' | WorkerPaused \<Rightarrow> ''PAUSED'' | WorkerDraining \<Rightarrow> ''DRAINING'')"

text \<open>A gate holds the number of its mode; a nil gate is \<^term>\<open>None\<close>.\<close>

type_synonym gate = "32 word option"

definition NewGate :: gate where
  "NewGate = Some 1"

definition Gate_Mode :: "gate \<Rightarrow> WorkerMode" where
  "Gate_Mode g =
     (case g of None \<Rightarrow> WorkerRunning
      | Some v \<Rightarrow> if v = 2 then WorkerPaused else if v = 3 then WorkerDraining else WorkerRunning)"

definition Gate_Pause :: "gate \<Rightarrow> gate" where
  "Gate_Pause g = (case g of None \<Rightarrow> None | Some _ \<Rightarrow> Some 2)"

definition Gate_Resume :: "gate \<Rightarrow> gate" where
  "Gate_Resume g = (case g of None \<Rightarrow> None | Some _ \<Rightarrow> Some 1)"

definition Gate_BeginDrain :: "gate \<Rightarrow> gate" where
  "Gate_BeginDrain g = (case g of None \<Rightarrow> None | Some _ \<Rightarrow> Some 3)"

definition Gate_AllowClaims :: "gate \<Rightarrow> bool" where
  "Gate_AllowClaims g = (case g of None \<Rightarrow> True | Some v \<Rightarrow> v = 1)"

text \<open>The distributed gate: the local gate follows the mode that the store holds for the scope.\<close>

definition gate_apply :: "string \<Rightarrow> gate \<Rightarrow> error option \<times> gate" where
  "gate_apply mode g =
     (if mode = ''RUNNING'' then (None, Gate_Resume g)
      else if mode = ''PAUSED'' then (None, Gate_Pause g)
      else if mode = ''DRAINING'' then (None, Gate_BeginDrain g)
      else (Some (ErrText ''unknown distributed worker mode''), g))"

definition Gate_Refresh :: "hub_env \<Rightarrow> string \<Rightarrow> gate \<Rightarrow> (error option \<times> gate) hub" where
  "Gate_Refresh E scope g = do {
     wall \<leftarrow> ask (e_clock E);
     r \<leftarrow> store_get E (\<lambda>_. GetWorkerControl wall scope);
     State_Monad.return (case r of Inl e \<Rightarrow> (Some e, g) | Inr control \<Rightarrow> gate_apply (Control_Mode control) g)
   }"

fun gate_set :: "hub_env \<Rightarrow> string \<Rightarrow> WorkerMode \<Rightarrow> nat \<Rightarrow> error option \<Rightarrow> gate \<Rightarrow> (error option \<times> gate) hub" where
  "gate_set E scope mode 0 lastErr g = State_Monad.return (lastErr, g)"
| "gate_set E scope mode (Suc attempts) lastErr g = do {
     wall \<leftarrow> ask (e_clock E);
     r \<leftarrow> store_get E (\<lambda>_. GetWorkerControl wall scope);
     case r of
       Inl e \<Rightarrow> State_Monad.return (Some e, g)
     | Inr current \<Rightarrow> do {
         wall' \<leftarrow> ask (e_clock E);
         (control, e) \<leftarrow> store_op E (\<lambda>io nid. SetWorkerControl (io 0) wall'
            (zero_worker_control\<lparr>Control_Scope := scope, Control_Mode := worker_mode_string mode\<rparr>) (Control_Revision current));
         case e of
           None \<Rightarrow> State_Monad.return (gate_apply (Control_Mode control) g)
         | Some err \<Rightarrow> if error_is err ErrRevisionConflict then gate_set E scope mode attempts (Some err) g
                       else State_Monad.return (Some err, g)
       }
   }"

definition Gate_SetContext :: "hub_env \<Rightarrow> string \<Rightarrow> WorkerMode \<Rightarrow> gate \<Rightarrow> (error option \<times> gate) hub" where
  "Gate_SetContext E scope mode g = gate_set E scope mode 4 None g"

definition NewDistributedGate :: "hub_env \<Rightarrow> string \<Rightarrow> (error option \<times> gate) hub" where
  "NewDistributedGate E scope =
     (if scope = '''' then State_Monad.return (Some (ErrText ''distributed worker gate store and scope are required''), None)
      else do {
        (e, g) \<leftarrow> Gate_Refresh E scope NewGate;
        State_Monad.return (e, if e = None then g else None)
      })"

section \<open>Workers take legal steps only\<close>

lemma plain_with_outbox_lease:
  "outbox (snd (with_outbox_lease io l lost upd s)) = outbox s \<and> inbox (snd (with_outbox_lease io l lost upd s)) = inbox s"
  by (auto simp: with_outbox_lease_def Let_def outbox_state_record_def commit_plain split: option.split)

lemma plain_with_inbox_lease:
  "outbox (snd (with_inbox_lease io l lost upd s)) = outbox s \<and> inbox (snd (with_inbox_lease io l lost upd s)) = inbox s"
  by (auto simp: with_inbox_lease_def Let_def inbox_state_record_def commit_plain split: option.split)

lemma plain_settle:
  "outbox (snd (AckOutbox io wall ol s)) = outbox s \<and> inbox (snd (AckOutbox io wall ol s)) = inbox s"
  "outbox (snd (RetryOutbox io ol next_at s)) = outbox s \<and> inbox (snd (RetryOutbox io ol next_at s)) = inbox s"
  "outbox (snd (DeadLetterOutbox io wall ol reason s)) = outbox s \<and> inbox (snd (DeadLetterOutbox io wall ol reason s)) = inbox s"
  "outbox (snd (AckInbox io il s)) = outbox s \<and> inbox (snd (AckInbox io il s)) = inbox s"
  "outbox (snd (RetryInbox io il next_at s)) = outbox s \<and> inbox (snd (RetryInbox io il next_at s)) = inbox s"
  by (simp_all add: AckOutbox_def RetryOutbox_def DeadLetterOutbox_def AckInbox_def RetryInbox_def
      plain_with_outbox_lease plain_with_inbox_lease)

lemma plain_lease_record:
  "outbox (snd (commit io (lease_record k st) s)) = outbox s \<and> inbox (snd (commit io (lease_record k st) s)) = inbox s"
  by (rule commit_plain) (simp add: lease_record_def)

lemma plain_ReleaseLease: "outbox (snd (ReleaseLease io l at b s)) = outbox s \<and> inbox (snd (ReleaseLease io l at b s)) = inbox s"
  using plain_lease_record by (simp add: ReleaseLease_def Let_def split: option.split)

lemma plain_RenewLease: "outbox (snd (RenewLease io l now d s)) = outbox s \<and> inbox (snd (RenewLease io l now d s)) = inbox s"
  using plain_lease_record [where io = io and s = s]
  by (auto simp: RenewLease_def Let_def split: option.split prod.split) (metis snd_conv)+

lemma plain_SetWorkerControl:
  "outbox (snd (SetWorkerControl io wall c rv s)) = outbox s \<and> inbox (snd (SetWorkerControl io wall c rv s)) = inbox s"
  by (auto simp: SetWorkerControl_def Let_def commit_plain split: sum.split option.split prod.split
      dest!: commit_error commit_success)

lemma plain_claim_loop:
  assumes "\<And>io k s. outbox (snd (body io k s)) = outbox s \<and> inbox (snd (body io k s)) = inbox s"
  shows "outbox (snd (claim_loop body io ks s)) = outbox s \<and> inbox (snd (claim_loop body io ks s)) = inbox s"
proof (induction ks arbitrary: io s)
  case (Cons k ks)
  obtain r s1 where b: "body (io 0) k s = (r, s1)" by fastforce
  then have "outbox s1 = outbox s" "inbox s1 = inbox s" using assms [of "io 0" k s] by simp_all
  with Cons.IH [of "\<lambda>n. io (Suc n)" s1] b show ?case by (auto split: sum.split prod.split)
qed simp

lemma plain_claims:
  "outbox (snd (ClaimOutbox ios ks w n now d s)) = outbox s \<and> inbox (snd (ClaimOutbox ios ks w n now d s)) = inbox s"
  "outbox (snd (ClaimInbox ios ks w n now d s)) = outbox s \<and> inbox (snd (ClaimInbox ios ks w n now d s)) = inbox s"
  "outbox (snd (ClaimRecoverable ios ks w n now d s)) = outbox s \<and> inbox (snd (ClaimRecoverable ios ks w n now d s)) = inbox s"
proof -
  have "outbox (snd (claim_one_outbox w now d io k s)) = outbox s \<and> inbox (snd (claim_one_outbox w now d io k s)) = inbox s" for io k s
    by (auto simp: claim_one_outbox_def Let_def outbox_state_record_def split: prod.split option.split dest!: commit_error commit_success)
  from plain_claim_loop [where body = "claim_one_outbox w now d", OF this]
  show "outbox (snd (ClaimOutbox ios ks w n now d s)) = outbox s \<and> inbox (snd (ClaimOutbox ios ks w n now d s)) = inbox s"
    by (simp add: ClaimOutbox_def)
  have "outbox (snd (claim_one_inbox w now d io k s)) = outbox s \<and> inbox (snd (claim_one_inbox w now d io k s)) = inbox s" for io k s
    by (auto simp: claim_one_inbox_def Let_def inbox_state_record_def split: prod.split option.split dest!: commit_error commit_success)
  from plain_claim_loop [where body = "claim_one_inbox w now d", OF this]
  show "outbox (snd (ClaimInbox ios ks w n now d s)) = outbox s \<and> inbox (snd (ClaimInbox ios ks w n now d s)) = inbox s"
    by (simp add: ClaimInbox_def)
  have "outbox (snd (claim_one_task w now d io k s)) = outbox s \<and> inbox (snd (claim_one_task w now d io k s)) = inbox s" for io k s
    by (auto simp: claim_one_task_def Let_def lease_record_def split: prod.split option.split dest!: commit_error commit_success)
  from plain_claim_loop [where body = "claim_one_task w now d", OF this]
  show "outbox (snd (ClaimRecoverable ios ks w n now d s)) = outbox s \<and> inbox (snd (ClaimRecoverable ios ks w n now d s)) = inbox s"
    by (simp add: ClaimRecoverable_def)
qed

lemma safe_lease_ops [hub_safe]:
  assumes "env_ok E"
  shows "safe E (store_op E (\<lambda>io nid. AckOutbox (io 0) wall ol))"
    and "safe E (store_op E (\<lambda>io nid. RetryOutbox (io 0) ol next_at))"
    and "safe E (store_op E (\<lambda>io nid. DeadLetterOutbox (io 0) wall ol reason))"
    and "safe E (store_op E (\<lambda>io nid. AckInbox (io 0) il))"
    and "safe E (store_op E (\<lambda>io nid. RetryInbox (io 0) il next_at))"
    and "safe E (store_op E (\<lambda>io nid. ReleaseLease (io 0) wl next_at b))"
    and "safe E (store_op E (\<lambda>io nid. RenewLease (io 0) wl now d))"
    and "safe E (store_op E (\<lambda>io nid. SetWorkerControl (io 0) wall wc rv))"
  by (rule safe_store_op_plain [OF assms];
      simp add: plain_settle plain_ReleaseLease plain_RenewLease plain_SetWorkerControl store_step.intros)+

text \<open>An order in which a claim can range over its map.\<close>

definition ranges_over :: "(journal_store \<Rightarrow> string list) \<Rightarrow> (journal_store \<Rightarrow> string \<Rightarrow> 'v option) \<Rightarrow> bool" where
  "ranges_over ks m \<longleftrightarrow> (\<forall>s. finite (dom (m s)) \<longrightarrow> enumerates (ks s) (m s))"

lemma safe_claims [hub_safe]:
  assumes "env_ok E"
  shows "ranges_over ks outbox \<Longrightarrow> safe E (store_op E (\<lambda>io nid s. ClaimOutbox io (ks s) w n now d s))"
    and "ranges_over ks inbox \<Longrightarrow> safe E (store_op E (\<lambda>io nid s. ClaimInbox io (ks s) w n now d s))"
    and "ranges_over ks tasks \<Longrightarrow> safe E (store_op E (\<lambda>io nid s. ClaimRecoverable io (ks s) w n now d s))"
  by (rule safe_store_op_plain [OF assms];
      auto simp: plain_claims ranges_over_def finite_inv_def dest!: store_invD(9)
        intro!: do_ClaimOutbox do_ClaimInbox do_ClaimRecoverable)+

lemma safe_deliver_lease [hub_safe]: "env_ok E \<Longrightarrow> safe E (deliver_lease E W P tx mx l m)"
  unfolding deliver_lease_def Let_def by (rule hub_safe | simp)+

lemma safe_deliver_leases [hub_safe]: "env_ok E \<Longrightarrow> safe E (deliver_leases E W P tx mx ls m)"
  by (induction ls arbitrary: m) ((rule hub_safe | simp)+)

lemma safe_Outbox_RunOnce [hub_safe]:
  "env_ok E \<Longrightarrow> ranges_over ks outbox \<Longrightarrow> safe E (Outbox_RunOnce E W ks gate P tx mx m)"
  unfolding Outbox_RunOnce_def by (rule hub_safe | simp)+

lemma safe_apply_leases [hub_safe]: "env_ok E \<Longrightarrow> safe E (apply_leases E H W ls)"
proof (induction ls)
  case (Cons l ls)
  then show ?case
    by (simp only: apply_leases.simps) ((rule safe_bind [OF safe_weaken [OF post_ApplyInboxItem]] | rule hub_safe | simp)+)
qed (simp add: safe_return)

lemma safe_Inbox_RunOnce [hub_safe]:
  "env_ok E \<Longrightarrow> ranges_over ks inbox \<Longrightarrow> safe E (Inbox_RunOnce E H W ks gate)"
  unfolding Inbox_RunOnce_def by (rule hub_safe | simp)+

lemma safe_heartbeat [hub_safe]: "env_ok E \<Longrightarrow> safe E (heartbeat E W fin beats l)"
proof (induction beats arbitrary: l)
  case (Suc beats)
  then show ?case by (simp only: heartbeat.simps) ((rule hub_safe | simp)+)
qed (simp add: safe_return)

lemma safe_process_lease [hub_safe]: "env_ok E \<Longrightarrow> safe E (process_lease E H W j beat l)"
  unfolding process_lease_def Let_def
  by (rule safe_bind [OF safe_weaken [OF post_ReconcileTask]] | rule hub_safe | simp)+

lemma safe_process_leases [hub_safe]: "env_ok E \<Longrightarrow> safe E (process_leases E H W j beat ls)"
proof (induction ls)
  case (Cons l ls)
  then show ?case by (simp only: process_leases.simps) ((rule hub_safe | simp)+)
qed (simp add: safe_return)

lemma safe_Reconciler_RunOnce [hub_safe]:
  "env_ok E \<Longrightarrow> ranges_over ks tasks \<Longrightarrow> safe E (Reconciler_RunOnce E H W ks gate j beat)"
  unfolding Reconciler_RunOnce_def by (rule hub_safe | simp)+

lemma safe_worker_run [hub_safe]: "safe E pass \<Longrightarrow> safe E (worker_run cancelled n pass)"
proof (induction n)
  case (Suc n)
  then show ?case by (simp only: worker_run.simps) ((rule hub_safe | simp)+)
qed (simp add: safe_return)

lemma safe_gate_set [hub_safe]: "env_ok E \<Longrightarrow> safe E (gate_set E scope mode n e g)"
proof (induction n arbitrary: e)
  case (Suc n)
  then show ?case by (simp only: gate_set.simps) ((rule hub_safe | simp)+)
qed (simp add: safe_return)

lemma safe_Gate_calls [hub_safe]:
  "env_ok E \<Longrightarrow> safe E (Gate_Refresh E scope g)" "env_ok E \<Longrightarrow> safe E (Gate_SetContext E scope mode g)"
  "env_ok E \<Longrightarrow> safe E (NewDistributedGate E scope)"
  unfolding Gate_Refresh_def Gate_SetContext_def NewDistributedGate_def
  by (rule hub_safe | simp | (rule safe_bind, rule safe_store_get))+

section \<open>The delay between two attempts\<close>

lemma backoff_loop_bounds:
  "0 < delay \<Longrightarrow> delay \<le> maximum \<Longrightarrow> delay \<le> backoff_loop n delay maximum \<and> backoff_loop n delay maximum \<le> maximum"
proof (induction n arbitrary: delay)
  case (Suc n)
  show ?case
  proof (cases "delay < maximum div 2")
    case True
    then have "delay * 2 \<le> maximum" by simp
    from Suc.IH [OF _ this] Suc.prems True show ?thesis by simp
  qed (use Suc.prems in simp)
qed simp

lemma backoff_loop_mono: "0 < delay \<Longrightarrow> delay \<le> maximum \<Longrightarrow> backoff_loop n delay maximum \<le> backoff_loop (Suc n) delay maximum"
proof (induction n arbitrary: delay)
  case (Suc n)
  then show ?case using Suc.IH [of "delay * 2"] by (cases "delay < maximum div 2") simp_all
qed simp

lemma backoff_loop_le:
  assumes "0 < delay" "delay \<le> maximum" "m \<le> n"
  shows "backoff_loop m delay maximum \<le> backoff_loop n delay maximum"
  using assms(3) lift_Suc_mono_le [where f = "\<lambda>n. backoff_loop n delay maximum", OF backoff_loop_mono [OF assms(1,2)]] by blast

text \<open>After enough doublings the delay stays between half the maximum and the maximum; it reaches the maximum
  only if the base happens to double into it.\<close>

lemma backoff_loop_reaches:
  "0 < delay \<Longrightarrow> delay \<le> maximum \<Longrightarrow> maximum div 2 \<le> delay * 2 ^ n \<Longrightarrow> maximum div 2 \<le> backoff_loop n delay maximum"
proof (induction n arbitrary: delay)
  case (Suc n)
  then show ?case using Suc.IH [of "delay * 2"] by (cases "delay < maximum div 2") (simp_all add: mult.assoc)
qed simp

lemma default_backoff_stops:
  assumes "W_BaseBackoff W = 0" "W_MaxBackoff W = 0" "6 \<le> attempt"
  shows "boundedBackoff attempt (base_backoff W) (max_backoff W) = 32 * second"
proof -
  have "5 \<le> unat attempt - 1" using assms(3) by (simp add: word_le_nat_alt)
  then obtain k where k: "unat attempt - 1 = 5 + k" using le_Suc_ex by blast
  have "backoff_loop (5 + k) second (60 * second) = 32 * second"
    by (cases k) (simp_all add: second_def eval_nat_numeral)
  then show ?thesis using assms(1,2) k
    by (simp add: boundedBackoff_def base_backoff_def max_backoff_def positive_or_def Let_def second_def)
qed

text \<open>The sorted keys are one order in which a claim may range over its map.\<close>

lemma ranges_over_sorted: "ranges_over (\<lambda>s. sorted_list_of_set (dom (m s))) m"
  by (simp add: ranges_over_def enumerates_def)

end
