(* ===== verification/Line_Files.thy ===== *)
theory Line_Files
  imports Hub_Prelude
begin

text \<open>
  Files of lines: what the file publisher (\<open>internal/worker/file_outbox.go\<close>) and the audit log
  (\<open>internal/access/audit.go\<close>) use of \<open>bufio.Scanner\<close> and of files opened for appending. A file is the
  string of its bytes. \<open>scan\<close> gives the tokens of the scanner and the error it ends with when a line
  does not fit into its buffer of \<open>limit\<close> bytes.
\<close>

definition newline :: char where
  "newline = CHR 0x0A"

text \<open>The lines of a file without their terminators; a rest without a terminator is the last line.\<close>

function file_lines :: "string \<Rightarrow> string list" where
  "file_lines [] = []"
| "file_lines (c # cs) =
     takeWhile (\<lambda>x. x \<noteq> newline) (c # cs) # file_lines (drop 1 (dropWhile (\<lambda>x. x \<noteq> newline) (c # cs)))"
  by pat_completeness auto
termination
proof (relation "measure length")
  fix c :: char and cs :: string
  have "length (dropWhile (\<lambda>x. x \<noteq> newline) (c # cs)) \<le> length (c # cs)" by (rule length_dropWhile_le)
  then show "(drop 1 (dropWhile (\<lambda>x. x \<noteq> newline) (c # cs)), c # cs) \<in> measure length" by simp
qed simp

text \<open>\<open>bufio.ScanLines\<close> drops a carriage return at the end of a line.\<close>

definition drop_cr :: "string \<Rightarrow> string" where
  "drop_cr l = (if l \<noteq> [] \<and> last l = CHR 0x0D then butlast l else l)"

fun scan :: "nat \<Rightarrow> string list \<Rightarrow> string list \<times> error option" where
  "scan limit [] = ([], None)"
| "scan limit (l # ls) =
     (if length l \<ge> limit then ([], Some (ErrText ''bufio.Scanner: token too long''))
      else case scan limit ls of (tokens, e) \<Rightarrow> (drop_cr l # tokens, e))"

definition scan_file :: "nat \<Rightarrow> string \<Rightarrow> string list \<times> error option" where
  "scan_file limit disk = scan limit (file_lines disk)"

text \<open>What the disk does to a write and the sync after it: an interrupted write leaves a prefix.\<close>

record file_io =
  F_Written :: "nat option"
  F_SyncFails :: bool

definition faultless :: file_io where
  "faultless = \<lparr>F_Written = None, F_SyncFails = False\<rparr>"

definition write_file :: "file_io \<Rightarrow> string \<Rightarrow> string \<Rightarrow> error option \<times> string" where
  "write_file io text disk =
     (case F_Written io of
        None \<Rightarrow> (None, disk @ text)
      | Some n \<Rightarrow> (Some (ErrText ''write''), disk @ take n text))"

section \<open>Reading back what was written\<close>

definition lines_text :: "string list \<Rightarrow> string" where
  "lines_text ls = concat (map (\<lambda>l. l @ [newline]) ls)"

lemma lines_text_simps [simp]:
  "lines_text [] = []" "lines_text (l # ls) = l @ newline # lines_text ls"
  "lines_text (ls @ ls') = lines_text ls @ lines_text ls'"
  by (simp_all add: lines_text_def)

lemma takeWhile_line: "newline \<notin> set l \<Longrightarrow> takeWhile (\<lambda>x. x \<noteq> newline) (l @ newline # r) = l"
  by (induction l) auto

lemma dropWhile_line: "newline \<notin> set l \<Longrightarrow> dropWhile (\<lambda>x. x \<noteq> newline) (l @ newline # r) = newline # r"
  by (induction l) auto

lemma file_lines_step: "newline \<notin> set l \<Longrightarrow> file_lines (l @ newline # r) = l # file_lines r"
proof (cases l)
  case (Cons c cs)
  assume "newline \<notin> set l"
  then show ?thesis using takeWhile_line [of l r] dropWhile_line [of l r] Cons
    by (simp del: takeWhile.simps dropWhile.simps)
qed simp

lemma file_lines_end: "newline \<notin> set l \<Longrightarrow> file_lines l = (if l = [] then [] else [l])"
proof (cases l)
  case (Cons c cs)
  assume n: "newline \<notin> set l"
  then have "takeWhile (\<lambda>x. x \<noteq> newline) l = l" "dropWhile (\<lambda>x. x \<noteq> newline) l = []"
    by (auto simp: takeWhile_eq_all_conv dropWhile_eq_Nil_conv)
  with Cons show ?thesis by (metis file_lines.simps drop_Nil list.distinct(1))
qed simp

lemma file_lines_text:
  "\<forall>l\<in>set ls. newline \<notin> set l \<Longrightarrow> newline \<notin> set rest \<Longrightarrow>
     file_lines (lines_text ls @ rest) = ls @ (if rest = [] then [] else [rest])"
  by (induction ls) (simp_all add: file_lines_step file_lines_end)

lemma scan_ok: "\<forall>l\<in>set ls. length l < limit \<Longrightarrow> scan limit ls = (map drop_cr ls, None)"
  by (induction ls) auto

lemma scan_complete: "snd (scan limit ls) = None \<longleftrightarrow> (\<forall>l\<in>set ls. length l < limit)"
  by (induction ls) (simp_all add: split_beta not_le)

lemma drop_cr_id: "l \<noteq> [] \<Longrightarrow> last l \<noteq> CHR 0x0D \<Longrightarrow> drop_cr l = l"
  by (simp add: drop_cr_def)

end
