(* ===== verification/Outbox_File.thy ===== *)
theory Outbox_File
  imports Line_Files Core_Model
begin

text \<open>
  The file publisher of the outbox (\<open>internal/worker/file_outbox.go\<close>). \<open>J\<close> is \<open>json.Marshal\<close> on outbox
  items, \<open>D\<close> reads the two keys of the envelope from a line (\<open>json.Unmarshal\<close>). The publisher holds the
  keys it has seen; the content of the file is the argument \<open>disk\<close>, since it outlives the publisher. A
  nil publisher is \<^term>\<open>None\<close>.
\<close>

record file_publisher =
  FP_Open :: bool
  FP_Seen :: "string set"

definition publish_key :: "outbox_item \<Rightarrow> string" where
  "publish_key item = Outbox_TenantID item @ '':'' @ Outbox_DedupKey item"

fun seen_keys :: "(string \<Rightarrow> (string \<times> string) option) \<Rightarrow> string list \<Rightarrow> string set" where
  "seen_keys D [] = {}"
| "seen_keys D (l # ls) =
     (case D l of
        Some (tn, dk) \<Rightarrow> if tn \<noteq> '''' \<and> dk \<noteq> '''' then insert (tn @ '':'' @ dk) (seen_keys D ls) else seen_keys D ls
      | None \<Rightarrow> seen_keys D ls)"

definition NewFileOutboxPublisher ::
  "(string \<Rightarrow> (string \<times> string) option) \<Rightarrow> error option \<Rightarrow> string \<Rightarrow> string \<Rightarrow> file_publisher result" where
  "NewFileOutboxPublisher D openErr path disk =
     (if path = '''' then Inl (ErrText ''outbox file path is required'')
      else case openErr of
        Some e \<Rightarrow> Inl (ErrWrap ''open outbox file'' e)
      | None \<Rightarrow>
          (case scan_file (64 * 1024) disk of
             (tokens, Some e) \<Rightarrow> Inl (ErrWrap ''read outbox file'' e)
           | (tokens, None) \<Rightarrow> Inr \<lparr>FP_Open = True, FP_Seen = seen_keys D tokens\<rparr>))"

definition Publish ::
  "(outbox_item \<Rightarrow> string result) \<Rightarrow> file_io \<Rightarrow> outbox_item \<Rightarrow> file_publisher option \<Rightarrow> string \<Rightarrow>
   error option \<times> file_publisher option \<times> string" where
  "Publish J io item p disk =
     (case p of
        None \<Rightarrow> (Some (ErrText ''outbox file publisher is closed''), p, disk)
      | Some q \<Rightarrow>
          if \<not> FP_Open q then (Some (ErrText ''outbox file publisher is closed''), p, disk)
          else if publish_key item \<in> FP_Seen q then (None, p, disk)
          else case J item of
            Inl e \<Rightarrow> (Some (ErrWrap ''encode file outbox item'' e), p, disk)
          | Inr text \<Rightarrow>
              (case write_file io (text @ [newline]) disk of
                 (Some e, disk') \<Rightarrow> (Some (ErrWrap ''append file outbox item'' e), p, disk')
               | (None, disk') \<Rightarrow>
                   if F_SyncFails io then (Some (ErrWrap ''sync file outbox item'' (ErrText ''sync'')), p, disk')
                   else (None, Some (q\<lparr>FP_Seen := insert (publish_key item) (FP_Seen q)\<rparr>), disk')))"

definition Publisher_Close :: "file_publisher option \<Rightarrow> file_publisher option" where
  "Publisher_Close p = (case p of None \<Rightarrow> None | Some q \<Rightarrow> if \<not> FP_Open q then p else Some (q\<lparr>FP_Open := False\<rparr>))"

section \<open>One line for each key\<close>

text \<open>What \<open>encoding/json\<close> documents, for an item whose strings are valid UTF-8 and whose payload is valid
  JSON: the text is one line that is not empty and ends with a brace, and the envelope read from it has the
  item's keys.\<close>

definition json_line :: "(outbox_item \<Rightarrow> string result) \<Rightarrow> (string \<Rightarrow> (string \<times> string) option) \<Rightarrow> outbox_item \<Rightarrow> bool" where
  "json_line J D item \<longleftrightarrow>
     (case J item of Inl _ \<Rightarrow> False
      | Inr text \<Rightarrow> newline \<notin> set text \<and> text \<noteq> [] \<and> last text = CHR ''}'' \<and>
          D text = Some (Outbox_TenantID item, Outbox_DedupKey item)) \<and>
     Outbox_TenantID item \<noteq> '''' \<and> Outbox_DedupKey item \<noteq> ''''"

text \<open>The reference: a list with the first item of every key.\<close>

fun first_of_keys :: "string set \<Rightarrow> outbox_item list \<Rightarrow> outbox_item list" where
  "first_of_keys seen [] = []"
| "first_of_keys seen (i # is) =
     (if publish_key i \<in> seen then first_of_keys seen is else i # first_of_keys (insert (publish_key i) seen) is)"

fun publish_all ::
  "(outbox_item \<Rightarrow> string result) \<Rightarrow> outbox_item list \<Rightarrow> file_publisher option \<Rightarrow> string \<Rightarrow> file_publisher option \<times> string" where
  "publish_all J [] p disk = (p, disk)"
| "publish_all J (i # is) p disk =
     (case Publish J faultless i p disk of (e, p', disk') \<Rightarrow> publish_all J is p' disk')"

definition text_of :: "(outbox_item \<Rightarrow> string result) \<Rightarrow> outbox_item \<Rightarrow> string" where
  "text_of J item = (case J item of Inr text \<Rightarrow> text | Inl _ \<Rightarrow> '''')"

lemma json_lineD:
  assumes "json_line J D i"
  shows "J i = Inr (text_of J i)" "newline \<notin> set (text_of J i)" "drop_cr (text_of J i) = text_of J i"
    "D (text_of J i) = Some (Outbox_TenantID i, Outbox_DedupKey i)"
    "Outbox_TenantID i \<noteq> ''''" "Outbox_DedupKey i \<noteq> ''''"
  using assms by (auto simp: json_line_def text_of_def drop_cr_def split: sum.splits)

lemma first_of_keys_set: "set (first_of_keys seen is) \<subseteq> set is"
  by (induction "is" arbitrary: seen) auto

lemma first_of_keys_keys: "publish_key ` set (first_of_keys seen is) = publish_key ` set is - seen"
  by (induction "is" arbitrary: seen) (auto simp: image_iff)

lemma first_of_keys_distinct: "distinct (map publish_key (first_of_keys seen is))"
  by (induction "is" arbitrary: seen) (simp_all add: first_of_keys_keys)

lemma publish_all_lines:
  assumes "\<forall>i\<in>set is. json_line J D i"
  shows "publish_all J is (Some \<lparr>FP_Open = True, FP_Seen = seen\<rparr>) disk =
    (Some \<lparr>FP_Open = True, FP_Seen = seen \<union> publish_key ` set is\<rparr>, disk @ lines_text (map (text_of J) (first_of_keys seen is)))"
  using assms
  by (induction "is" arbitrary: seen disk)
    (auto simp: Publish_def json_lineD(1) write_file_def faultless_def insert_absorb)

lemma seen_keys_lines:
  "\<forall>i\<in>set is. json_line J D i \<Longrightarrow> seen_keys D (map (text_of J) is) = publish_key ` set is"
  by (induction "is") (auto simp: json_lineD publish_key_def)

lemma reopen_published:
  assumes "\<forall>i\<in>set is. json_line J D i" and "distinct (map publish_key is)" and "path \<noteq> ''''"
  shows "NewFileOutboxPublisher D None path (lines_text (map (text_of J) is)) =
    (if \<forall>i\<in>set is. length (text_of J i) < 64 * 1024
     then Inr \<lparr>FP_Open = True, FP_Seen = publish_key ` set is\<rparr>
     else Inl (ErrWrap ''read outbox file'' (ErrText ''bufio.Scanner: token too long'')))"
proof -
  let ?ls = "map (text_of J) is"
  have f: "file_lines (lines_text ?ls) = ?ls"
    using file_lines_text [of ?ls "[]"] assms(1) by (auto dest: json_lineD)
  have d: "map drop_cr ?ls = ?ls" using assms(1) by (auto dest: json_lineD)
  have e: "snd (scan limit ls) \<in> {None, Some (ErrText ''bufio.Scanner: token too long'')}" for limit ls
    by (induction ls) (auto split: prod.split)
  show ?thesis
  proof (cases "\<forall>i\<in>set is. length (text_of J i) < 64 * 1024")
    case True
    then have "scan (64 * 1024) ?ls = (?ls, None)" using scan_ok [of ?ls "64 * 1024"] d by simp
    with True show ?thesis using seen_keys_lines [OF assms(1)] assms(3)
      by (simp add: NewFileOutboxPublisher_def scan_file_def f)
  next
    case False
    then have "snd (scan (64 * 1024) ?ls) \<noteq> None" unfolding scan_complete by simp
    then obtain tokens where "scan (64 * 1024) ?ls = (tokens, Some (ErrText ''bufio.Scanner: token too long''))"
      using e [of "64 * 1024" ?ls] by (cases "scan (64 * 1024) ?ls") auto
    with False show ?thesis using assms(3) by (simp add: NewFileOutboxPublisher_def scan_file_def f)
  qed
qed

definition example_published :: outbox_item where
  "example_published = \<lparr>Outbox_ID = ''o'', Outbox_TenantID = ''t'', Outbox_TaskID = ''a'', Outbox_DedupKey = ''k'',
     Outbox_Topic = ''task'', Outbox_Payload = PayloadRaw ''1'', Outbox_CreatedAt = 0\<rparr>"

lemma example_published_line:
  "json_line (\<lambda>i. Inr ''{t k}'') (\<lambda>l. if l = ''{t k}'' then Some (''t'', ''k'') else None) example_published"
  by (simp add: json_line_def example_published_def newline_def)

end
