(* ===== verification/Access_Control.thy ===== *)
theory Access_Control
  imports Hub_World
begin

text \<open>
  Who may do what (\<open>internal/access/access.go\<close>, \<open>internal/access/policy.go\<close>): principals, the scope
  authorizer, policy documents that overlay it, chains of authorizers, and the external policy decision
  point. An authorizer is a function of the tick at which it is asked.

  The maps of a decoded document are lists of pairs with distinct keys, in the order in which Go ranges
  over them. JSON decoding is a parameter; its result says also whether nothing follows the value.
\<close>

section \<open>Principals and actions\<close>

record delegated_actor =
  Actor_Subject :: string
  Actor_Issuer :: string

record principal =
  Principal_Subject :: string
  Principal_TenantID :: string
  Principal_Issuer :: string
  Principal_AuthMethod :: string
  Principal_Scopes :: "string list"
  Principal_Roles :: "string list"
  Principal_Delegation :: "delegated_actor list"
  Principal_TokenID :: string

definition HasScope :: "principal \<Rightarrow> string \<Rightarrow> bool" where
  "HasScope p s \<longleftrightarrow> ''*'' \<in> set (Principal_Scopes p) \<or> s \<in> set (Principal_Scopes p)"

text \<open>An action is a string; the constants of the package are these.\<close>

type_synonym action = string

definition action_scopes :: "(action \<times> string) list" where
  "action_scopes =
     [(''agent.register'', ''agents:write''), (''agent.list'', ''agents:read''), (''agent.refresh'', ''agents:write''),
      (''outbox.list'', ''outbox:read''), (''outbox.replay'', ''outbox:write''), (''outbox.purge'', ''outbox:write''),
      (''task.submit'', ''tasks:submit''), (''task.continue'', ''tasks:continue''), (''task.read'', ''tasks:read''),
      (''task.events'', ''tasks:read''), (''task.cancel'', ''tasks:cancel''), (''task.reconcile'', ''tasks:reconcile''),
      (''push.configure'', ''push:configure''), (''security.revoke'', ''security:revoke''),
      (''artifact.read'', ''artifacts:read''), (''workflow.create'', ''workflows:write''),
      (''workflow.list'', ''workflows:read''), (''workflow.read'', ''workflows:read''),
      (''workflow.control'', ''workflows:control''), (''worker.read'', ''workers:read''),
      (''worker.control'', ''workers:control'')]"

record access_request =
  Request_Action :: action
  Request_ResourceID :: string

type_synonym authorizer = "nat \<Rightarrow> principal \<Rightarrow> access_request \<Rightarrow> error option"

section \<open>The scope authorizer\<close>

record scope_authorizer =
  SA_Required :: "action \<rightharpoonup> string"
  SA_RoleScopes :: "string \<rightharpoonup> string set"
  SA_TenantRequired :: "string \<rightharpoonup> (action \<rightharpoonup> string)"

definition DefaultScopeAuthorizer :: scope_authorizer where
  "DefaultScopeAuthorizer =
     \<lparr>SA_Required = map_of action_scopes, SA_RoleScopes = Map.empty, SA_TenantRequired = Map.empty\<rparr>"

definition role_has_scope :: "scope_authorizer \<Rightarrow> string \<Rightarrow> string \<Rightarrow> bool" where
  "role_has_scope a required role =
     (case SA_RoleScopes a role of None \<Rightarrow> False | Some scopes \<Rightarrow> required \<in> scopes \<or> ''*'' \<in> scopes)"

definition authorizer_hasScope :: "scope_authorizer \<Rightarrow> principal \<Rightarrow> string \<Rightarrow> bool" where
  "authorizer_hasScope a p required \<longleftrightarrow> HasScope p required \<or> list_ex (role_has_scope a required) (Principal_Roles p)"

text \<open>The scope an action needs from a tenant; \<^term>\<open>None\<close> is an action that nobody may perform.\<close>

definition required_scope :: "scope_authorizer \<Rightarrow> string \<Rightarrow> action \<Rightarrow> string option" where
  "required_scope a tenant act =
     (case SA_TenantRequired a tenant of
        None \<Rightarrow> SA_Required a act
      | Some rules \<Rightarrow>
          (case rules act of
             None \<Rightarrow> SA_Required a act
           | Some scope \<Rightarrow> if scope \<noteq> '''' then Some scope else None))"

definition ScopeAuthorizer_Authorize :: "scope_authorizer \<Rightarrow> principal \<Rightarrow> access_request \<Rightarrow> error option" where
  "ScopeAuthorizer_Authorize a p r =
     (if Principal_Subject p = '''' \<or> Principal_TenantID p = '''' then Some ErrUnauthenticated
      else case required_scope a (Principal_TenantID p) (Request_Action r) of
        None \<Rightarrow> Some ErrForbidden
      | Some required \<Rightarrow> if authorizer_hasScope a p required then None else Some ErrForbidden)"

section \<open>Policy documents\<close>

record policy_document =
  PD_Version :: int
  PD_Actions :: "(string \<times> string) list"
  PD_Roles :: "(string \<times> string list) list"
  PD_TenantActions :: "(string \<times> (string \<times> string) list) list"

definition knownAction :: "action \<Rightarrow> bool" where
  "knownAction act \<longleftrightarrow> act \<in> set (map fst action_scopes)"

definition blank :: "string \<Rightarrow> bool" where
  "blank s \<longleftrightarrow> TrimSpace s = ''''"

fun check_actions :: "(string \<times> string) list \<Rightarrow> error option" where
  "check_actions [] = None"
| "check_actions ((act, scope) # rest) =
     (if \<not> knownAction act then Some (ErrText (''policy action is not supported: '' @ act))
      else if blank scope then Some (ErrText (''policy action has an empty scope: '' @ act))
      else check_actions rest)"

fun check_role_scopes :: "string \<Rightarrow> string list \<Rightarrow> error option" where
  "check_role_scopes role [] = None"
| "check_role_scopes role (scope # rest) =
     (if blank scope then Some (ErrText (''policy role contains an empty scope: '' @ role)) else check_role_scopes role rest)"

fun check_roles :: "(string \<times> string list) list \<Rightarrow> error option" where
  "check_roles [] = None"
| "check_roles ((role, scopes) # rest) =
     (if blank role \<or> scopes = [] then Some (ErrText ''policy roles must have a name and at least one scope'')
      else case check_role_scopes role scopes of Some e \<Rightarrow> Some e | None \<Rightarrow> check_roles rest)"

fun check_tenants :: "(string \<times> (string \<times> string) list) list \<Rightarrow> error option" where
  "check_tenants [] = None"
| "check_tenants ((tenant, acts) # rest) =
     (if blank tenant then Some (ErrText ''policy tenant IDs must not be empty'')
      else if list_ex (\<lambda>(act, scope). \<not> knownAction act \<or> blank scope) acts
        then Some (ErrText (''policy tenant contains an invalid action or scope: '' @ tenant))
      else check_tenants rest)"

definition PolicyDocument_Validate :: "policy_document \<Rightarrow> error option" where
  "PolicyDocument_Validate d =
     (if PD_Version d \<noteq> 1 then Some (ErrText ''policy version must be 1'')
      else case check_actions (PD_Actions d) of
        Some e \<Rightarrow> Some e
      | None \<Rightarrow>
          (case check_roles (PD_Roles d) of Some e \<Rightarrow> Some e | None \<Rightarrow> check_tenants (PD_TenantActions d)))"

definition LoadPolicyFile ::
  "(string \<Rightarrow> (policy_document \<times> bool) result) \<Rightarrow> string result \<Rightarrow> string \<Rightarrow> policy_document result" where
  "LoadPolicyFile decode read path =
     (if blank path then Inl (ErrText ''policy file path is required'')
      else case read of
        Inl e \<Rightarrow> Inl (ErrWrap ''read policy file'' e)
      | Inr encoded \<Rightarrow>
          if length encoded > 2 ^ 20 then Inl (ErrText ''policy file exceeds 1 MiB'')
          else case decode encoded of
            Inl e \<Rightarrow> Inl (ErrWrap ''decode policy file'' e)
          | Inr (d, single) \<Rightarrow>
              if \<not> single then Inl (ErrText ''policy file contains trailing data'')
              else case PolicyDocument_Validate d of Some e \<Rightarrow> Inl e | None \<Rightarrow> Inr d)"

fun overlay :: "('k \<times> 'v) list \<Rightarrow> ('k \<rightharpoonup> 'v) \<Rightarrow> ('k \<rightharpoonup> 'v)" where
  "overlay [] m = m"
| "overlay ((k, v) # rest) m = overlay rest (m(k \<mapsto> v))"

fun overlay_tenants ::
  "(string \<times> (action \<times> string) list) list \<Rightarrow> (string \<rightharpoonup> (action \<rightharpoonup> string)) \<Rightarrow> (string \<rightharpoonup> (action \<rightharpoonup> string))" where
  "overlay_tenants [] m = m"
| "overlay_tenants ((tenant, acts) # rest) m =
     overlay_tenants rest (m(tenant \<mapsto> overlay acts (case m tenant of None \<Rightarrow> Map.empty | Some rules \<Rightarrow> rules)))"

definition NewPolicyAuthorizer :: "policy_document \<Rightarrow> scope_authorizer result" where
  "NewPolicyAuthorizer d =
     (case PolicyDocument_Validate d of
        Some e \<Rightarrow> Inl e
      | None \<Rightarrow> Inr \<lparr>
          SA_Required = overlay (PD_Actions d) (SA_Required DefaultScopeAuthorizer),
          SA_RoleScopes = overlay (map (\<lambda>(role, scopes). (role, set scopes)) (PD_Roles d)) (SA_RoleScopes DefaultScopeAuthorizer),
          SA_TenantRequired = overlay_tenants (PD_TenantActions d) (SA_TenantRequired DefaultScopeAuthorizer)\<rparr>)"

section \<open>Chains and the external decision point\<close>

fun ChainAuthorizer_Authorize :: "authorizer option list \<Rightarrow> authorizer" where
  "ChainAuthorizer_Authorize [] t p r = None"
| "ChainAuthorizer_Authorize (None # rest) t p r =
     Some (ErrWrap ''policy chain contains an unconfigured authorizer'' ErrForbidden)"
| "ChainAuthorizer_Authorize (Some a # rest) t p r =
     (case a t p r of Some e \<Rightarrow> Some e | None \<Rightarrow> ChainAuthorizer_Authorize rest t p r)"

record http_response =
  HR_StatusCode :: int
  HR_Body :: string
  HR_ReadFails :: bool

record policy_response =
  PR_Allow :: bool
  PR_DecisionID :: string
  PR_Reason :: string

text \<open>What the authorizer uses of the outside: the credential provider, and one exchange of the HTTP client
  with the endpoint (its payload and bearer credential).\<close>

record http_authorizer =
  HA_Endpoint :: string
  HA_Bearer :: "(nat \<Rightarrow> string \<Rightarrow> string result) option"
  HA_BearerReference :: string
  HA_MaxResponseBytes :: int
  HA_Marshal :: "principal \<Rightarrow> access_request \<Rightarrow> string result"
  HA_Request_ok :: "string \<Rightarrow> bool"
  HA_Do :: "nat \<Rightarrow> string \<Rightarrow> string \<Rightarrow> string option \<Rightarrow> http_response result"
  HA_Decode :: "string \<Rightarrow> (policy_response \<times> bool) result"

definition deny :: "string \<Rightarrow> error option" where
  "deny why = Some (ErrWrap why ErrForbidden)"

text \<open>\<open>io.ReadAll(io.LimitReader(body, limit+1))\<close>\<close>

definition limited_body :: "int \<Rightarrow> string \<Rightarrow> string" where
  "limited_body limit body = take (nat (wrap64 (limit + 1))) body"

definition response_limit :: "http_authorizer \<Rightarrow> int" where
  "response_limit a = (if HA_MaxResponseBytes a \<le> 0 then 64 * 1024 else HA_MaxResponseBytes a)"

definition policy_answer :: "http_authorizer \<Rightarrow> http_response result \<Rightarrow> error option" where
  "policy_answer a answer =
     (case answer of
        Inl _ \<Rightarrow> deny ''external policy request failed''
      | Inr response \<Rightarrow>
          (let body = limited_body (response_limit a) (HR_Body response)
           in if HR_ReadFails response \<or> int (length body) > response_limit a \<or> HR_StatusCode response \<noteq> 200
              then deny ''external policy response is unavailable''
              else case HA_Decode a body of
                Inl _ \<Rightarrow> deny ''external policy response is invalid''
              | Inr (decision, single) \<Rightarrow>
                  if \<not> single then deny ''external policy response contains trailing data''
                  else if \<not> PR_Allow decision then deny ''external policy denied the operation''
                  else None))"

definition HTTPAuthorizer_Authorize :: "http_authorizer \<Rightarrow> authorizer" where
  "HTTPAuthorizer_Authorize a t p r =
     (if HA_Endpoint a = '''' \<or> \<not> has_prefix (HA_Endpoint a) ''https://''
      then deny ''external policy endpoint is not configured with HTTPS''
      else case HA_Marshal a p r of
        Inl _ \<Rightarrow> deny ''encode policy input''
      | Inr payload \<Rightarrow>
          if \<not> HA_Request_ok a (HA_Endpoint a) then deny ''create policy request''
          else if HA_BearerReference a = '''' then policy_answer a (HA_Do a t (HA_Endpoint a) payload None)
          else case HA_Bearer a of
            None \<Rightarrow> deny ''policy credential provider is unavailable''
          | Some resolve \<Rightarrow>
              (case resolve t (HA_BearerReference a) of
                 Inl _ \<Rightarrow> deny ''policy credential is unavailable''
               | Inr credential \<Rightarrow> policy_answer a (HA_Do a t (HA_Endpoint a) payload (Some credential))))"

section \<open>What a policy says\<close>

lemma overlay_map: "distinct (map fst l) \<Longrightarrow> overlay l m = m ++ map_of l"
proof (induction l arbitrary: m)
  case (Cons x l)
  obtain k v where x: "x = (k, v)" by (cases x)
  then have k: "k \<notin> dom (map_of l)" "distinct (map fst l)" using Cons.prems by (auto simp: dom_map_of_conv_image_fst)
  have "overlay (x # l) m = m(k \<mapsto> v) ++ map_of l" by (simp only: x overlay.simps Cons.IH [OF k(2)])
  also have "\<dots> = m ++ map_of (x # l)" by (simp add: x map_add_upd_left [OF k(1)])
  finally show ?case .
qed simp

lemma overlay_tenants_map:
  assumes "distinct (map fst l)" "\<forall>tn\<in>fst ` set l. m tn = None" "\<forall>(tn, acts)\<in>set l. distinct (map fst acts)"
  shows "overlay_tenants l m = m ++ (\<lambda>tn. map_option map_of (map_of l tn))"
  using assms
proof (induction l arbitrary: m)
  case (Cons x l)
  obtain tn acts where x: "x = (tn, acts)" by (cases x)
  have d: "distinct (map fst acts)" "tn \<notin> fst ` set l" "m tn = None" using Cons.prems x by auto
  have "overlay_tenants (x # l) m = overlay_tenants l (m(tn \<mapsto> map_of acts))"
    using d by (simp add: x overlay_map)
  also have "\<dots> = m(tn \<mapsto> map_of acts) ++ (\<lambda>k. map_option map_of (map_of l k))"
    using Cons.prems d x by (intro Cons.IH) auto
  also have "\<dots> = m ++ (\<lambda>k. map_option map_of (map_of (x # l) k))"
  proof
    fix k
    have "map_of l tn = None" using d(2) by (simp add: map_of_eq_None_iff)
    then show "(m(tn \<mapsto> map_of acts) ++ (\<lambda>k. map_option map_of (map_of l k))) k =
        (m ++ (\<lambda>k. map_option map_of (map_of (x # l) k))) k"
      by (cases "k = tn") (auto simp: x map_add_def split: option.split)
  qed
  finally show ?case .
qed (simp add: map_add_def)

text \<open>The document read as a policy: the scope that an action needs in a tenant, and whether a principal has it.\<close>

definition policy_scope :: "policy_document \<Rightarrow> string \<Rightarrow> action \<Rightarrow> string option" where
  "policy_scope d tenant act =
     (case map_of (PD_TenantActions d) tenant of
        Some acts \<Rightarrow> (case map_of acts act of Some scope \<Rightarrow> Some scope
                      | None \<Rightarrow> (case map_of (PD_Actions d) act of Some scope \<Rightarrow> Some scope | None \<Rightarrow> map_of action_scopes act))
      | None \<Rightarrow> (case map_of (PD_Actions d) act of Some scope \<Rightarrow> Some scope | None \<Rightarrow> map_of action_scopes act))"

definition policy_grants :: "policy_document \<Rightarrow> principal \<Rightarrow> string \<Rightarrow> bool" where
  "policy_grants d p scope \<longleftrightarrow>
     scope \<in> set (Principal_Scopes p) \<or> ''*'' \<in> set (Principal_Scopes p) \<or>
     (\<exists>role\<in>set (Principal_Roles p). \<exists>scopes. map_of (PD_Roles d) role = Some scopes \<and> (scope \<in> set scopes \<or> ''*'' \<in> set scopes))"

definition keys_once :: "policy_document \<Rightarrow> bool" where
  "keys_once d \<longleftrightarrow> distinct (map fst (PD_Actions d)) \<and> distinct (map fst (PD_Roles d)) \<and>
     distinct (map fst (PD_TenantActions d)) \<and> (\<forall>(tn, acts)\<in>set (PD_TenantActions d). distinct (map fst acts))"

lemma check_actions_None:
  "check_actions l = None \<longleftrightarrow> (\<forall>(act, scope)\<in>set l. knownAction act \<and> \<not> blank scope)"
  by (induction l rule: check_actions.induct) auto

lemma check_tenants_None:
  "check_tenants l = None \<longleftrightarrow> (\<forall>(tn, acts)\<in>set l. \<not> blank tn \<and> (\<forall>(act, scope)\<in>set acts. knownAction act \<and> \<not> blank scope))"
proof (induction l)
  case (Cons x l)
  obtain tn acts where x: "x = (tn, acts)" by (cases x)
  have "list_ex (\<lambda>(act, scope). \<not> knownAction act \<or> blank scope) acts \<longleftrightarrow> \<not> (\<forall>(act, scope)\<in>set acts. knownAction act \<and> \<not> blank scope)"
    by (simp add: list_ex_iff split_beta)
  with Cons show ?case by (simp add: x)
qed simp

lemma blank_Nil [simp]: "blank ''''"
  by (simp add: blank_def TrimSpace_def)

lemma NewPolicyAuthorizer_fields:
  assumes "NewPolicyAuthorizer d = Inr a" "keys_once d"
  shows "SA_Required a = map_of action_scopes ++ map_of (PD_Actions d)"
    and "SA_RoleScopes a role = map_option set (map_of (PD_Roles d) role)"
    and "SA_TenantRequired a tn = map_option map_of (map_of (PD_TenantActions d) tn)"
    and "PolicyDocument_Validate d = None"
proof -
  have v: "PolicyDocument_Validate d = None" and a: "a = \<lparr>
      SA_Required = overlay (PD_Actions d) (SA_Required DefaultScopeAuthorizer),
      SA_RoleScopes = overlay (map (\<lambda>(role, scopes). (role, set scopes)) (PD_Roles d)) (SA_RoleScopes DefaultScopeAuthorizer),
      SA_TenantRequired = overlay_tenants (PD_TenantActions d) (SA_TenantRequired DefaultScopeAuthorizer)\<rparr>"
    using assms(1) by (auto simp: NewPolicyAuthorizer_def split: option.splits)
  show "PolicyDocument_Validate d = None" by (rule v)
  show "SA_Required a = map_of action_scopes ++ map_of (PD_Actions d)"
    using assms(2) by (simp add: a overlay_map keys_once_def DefaultScopeAuthorizer_def)
  have "distinct (map fst (map (\<lambda>(role, scopes). (role, set scopes)) (PD_Roles d)))"
    using assms(2) by (simp add: split_beta comp_def keys_once_def)
  from overlay_map [OF this] show "SA_RoleScopes a role = map_option set (map_of (PD_Roles d) role)"
    by (simp add: a DefaultScopeAuthorizer_def map_of_map map_add_def split: option.split)
  show "SA_TenantRequired a tn = map_option map_of (map_of (PD_TenantActions d) tn)"
    using assms(2) by (simp add: a overlay_tenants_map keys_once_def DefaultScopeAuthorizer_def map_add_def split: option.split)
qed

lemma policy_required_scope:
  assumes "NewPolicyAuthorizer d = Inr a" "keys_once d"
  shows "required_scope a tn act = policy_scope d tn act"
proof -
  note f = NewPolicyAuthorizer_fields [OF assms]
  have "\<forall>(tn, acts)\<in>set (PD_TenantActions d). \<forall>(act, scope)\<in>set acts. \<not> blank scope"
    using f(4) by (auto simp: PolicyDocument_Validate_def check_tenants_None split: if_splits option.splits)
  then have "scope \<noteq> ''''" if "map_of (PD_TenantActions d) tn = Some acts" "map_of acts act = Some scope" for acts scope
    using that by (fastforce dest!: map_of_SomeD)
  with f(1,3) show ?thesis
    by (auto simp: required_scope_def policy_scope_def map_add_def split: option.splits)
qed

lemma policy_has_scope:
  assumes "NewPolicyAuthorizer d = Inr a" "keys_once d"
  shows "authorizer_hasScope a p scope \<longleftrightarrow> policy_grants d p scope"
  using NewPolicyAuthorizer_fields(2) [OF assms]
  by (auto simp: authorizer_hasScope_def policy_grants_def HasScope_def list_ex_iff role_has_scope_def split: option.splits)

lemma unknown_action_has_no_scope:
  assumes "PolicyDocument_Validate d = None" "\<not> knownAction act"
  shows "policy_scope d tn act = None"
proof -
  have "map_of action_scopes act = None" using assms(2) by (simp add: knownAction_def map_of_eq_None_iff)
  moreover have "\<forall>(act, scope)\<in>set (PD_Actions d). knownAction act"
    and t: "\<forall>(tn, acts)\<in>set (PD_TenantActions d). \<forall>(act, scope)\<in>set acts. knownAction act"
    using assms(1) by (auto simp: PolicyDocument_Validate_def check_actions_None check_tenants_None split: if_splits option.splits)
  then have "map_of (PD_Actions d) act = None" using assms(2) by (auto simp: map_of_eq_None_iff)
  moreover have "map_of acts act = None" if "map_of (PD_TenantActions d) tn = Some acts" for acts
    using t assms(2) map_of_SomeD [OF that] by (fastforce simp: map_of_eq_None_iff)
  ultimately show ?thesis by (simp add: policy_scope_def split: option.split)
qed

section \<open>Authorizers fail closed\<close>

lemma chain_allows: "ChainAuthorizer_Authorize as t p r = None \<longleftrightarrow> (\<forall>a\<in>set as. \<exists>f. a = Some f \<and> f t p r = None)"
  by (induction as t p r rule: ChainAuthorizer_Authorize.induct) (auto split: option.split)

lemma deny_some [simp]: "deny why \<noteq> None"
  by (simp add: deny_def)

lemma policy_answer_None:
  "policy_answer a answer = None \<longleftrightarrow> (\<exists>response decision. answer = Inr response \<and>
     \<not> HR_ReadFails response \<and> HR_StatusCode response = 200 \<and>
     int (length (limited_body (response_limit a) (HR_Body response))) \<le> response_limit a \<and>
     HA_Decode a (limited_body (response_limit a) (HR_Body response)) = Inr (decision, True) \<and> PR_Allow decision)"
  unfolding policy_answer_def by (cases answer) (auto simp: Let_def deny_def split: sum.split prod.split)

text \<open>When the external decision point lets a request through: the endpoint is HTTPS, a configured credential was
  resolved, and the answer is a small, well-formed approval with status 200.\<close>

lemma http_allows:
  "HTTPAuthorizer_Authorize a t p r = None \<longleftrightarrow>
     has_prefix (HA_Endpoint a) ''https://'' \<and> HA_Request_ok a (HA_Endpoint a) \<and>
     (\<exists>payload credential. HA_Marshal a p r = Inr payload \<and>
        (if HA_BearerReference a = '''' then credential = None
         else \<exists>resolve c. HA_Bearer a = Some resolve \<and> resolve t (HA_BearerReference a) = Inr c \<and> credential = Some c) \<and>
        policy_answer a (HA_Do a t (HA_Endpoint a) payload credential) = None)"
  by (auto simp: HTTPAuthorizer_Authorize_def deny_def has_prefix_def split: sum.splits option.splits)

lemma deny_forbidden: "deny why = Some e \<Longrightarrow> error_is e ErrForbidden"
  by (auto simp: deny_def)

lemma http_denies_forbidden: "HTTPAuthorizer_Authorize a t p r = Some e \<Longrightarrow> error_is e ErrForbidden"
  by (auto simp: HTTPAuthorizer_Authorize_def policy_answer_def Let_def dest!: deny_forbidden
      split: sum.splits option.splits if_splits prod.splits)

end
