(* ===== verification/Authentication.thy ===== *)
theory Authentication
  imports Access_Control Artifact_Store
begin

text \<open>
  Who is calling (\<open>internal/hub/auth.go\<close>, \<open>internal/hub/mtls.go\<close>) and which issuers may speak for which
  tenants (\<open>internal/hub/trust_policy.go\<close>). An authenticator is a program over the world, since the JWT
  authenticator asks the store for revocations. JWT parsing and X.509 verification are third-party code and
  parameters; a signing key is an opaque value.
\<close>

section \<open>Requests\<close>

text \<open>\<open>strings.Fields\<close>: the maximal runs without white space. The recursion is on a bound of the length.\<close>

fun fields_n :: "nat \<Rightarrow> string \<Rightarrow> string \<Rightarrow> string list" where
  "fields_n 0 acc s = (if acc = [] then [] else [acc])"
| "fields_n (Suc n) acc [] = (if acc = [] then [] else [acc])"
| "fields_n (Suc n) acc (c # cs) =
     (case find (\<lambda>p. has_prefix (c # cs) p) space_encodings of
        Some p \<Rightarrow> (if acc = [] then [] else [acc]) @ fields_n n [] (drop (length p) (c # cs))
      | None \<Rightarrow> fields_n n (acc @ [c]) cs)"

definition Fields :: "string \<Rightarrow> string list" where
  "Fields s = fields_n (length s) [] s"

text \<open>What the hub reads of a URI of a client certificate. Its scheme is ASCII, as \<open>net/url\<close> parses it, so
  \<open>strings.EqualFold\<close> with \<open>spiffe\<close> compares lower-case forms.\<close>

record cert_uri =
  Cert_Scheme :: string
  Cert_Host :: string
  Cert_Path :: string
  Cert_HasUser :: bool
  Cert_RawQuery :: string
  Cert_Fragment :: string
  Cert_String :: string

text \<open>The URIs of the peer certificate of a connection with a verified chain.\<close>

record tls_state =
  TLS_VerifiedChains :: nat
  TLS_PeerCertificates :: "cert_uri option list list"

text \<open>An HTTP request: header, path and query values (\<open>""\<close> when absent), the body and whether it can be read.\<close>

record http_request =
  Q_Header :: "string \<Rightarrow> string"
  Q_PathValue :: "string \<Rightarrow> string"
  Q_Query :: "string \<Rightarrow> string"
  Q_TLS :: "tls_state option"
  Q_Body :: string
  Q_BodyFails :: bool

type_synonym authenticator = "http_request \<Rightarrow> principal result hub"
type_synonym principal_validator = "nat \<Rightarrow> principal \<Rightarrow> error option"

definition zero_principal :: principal where
  "zero_principal =
     \<lparr>Principal_Subject = '''', Principal_TenantID = '''', Principal_Issuer = '''', Principal_AuthMethod = '''',
      Principal_Scopes = [], Principal_Roles = [], Principal_Delegation = [], Principal_TokenID = ''''\<rparr>"

section \<open>Development headers\<close>

definition Development_Authenticate :: authenticator where
  "Development_Authenticate q =
     (let tenantID = TrimSpace (Q_Header q ''X-AFH-Tenant-ID'')
      in if tenantID = '''' then State_Monad.return (Inl ErrUnauthenticated)
         else (let s = TrimSpace (Q_Header q ''X-AFH-Dev-Subject'')
           in State_Monad.return (Inr (zero_principal\<lparr>
                Principal_Subject := (if s = '''' then ''development-user'' else s), Principal_TenantID := tenantID,
                Principal_Issuer := ''development'', Principal_AuthMethod := ''development-header'',
                Principal_Scopes := [''*'']\<rparr>))))"

section \<open>Bearer tokens\<close>

definition bearerToken :: "string \<Rightarrow> string result" where
  "bearerToken value =
     (case Fields value of
        [scheme, token] \<Rightarrow>
          if ToLower scheme \<noteq> ''bearer'' \<or> token = '''' then Inl (ErrText ''Bearer credential is required'') else Inr token
      | _ \<Rightarrow> Inl (ErrText ''Bearer credential is required''))"

text \<open>Decoded claims have each name once.\<close>

type_synonym claims = "(string \<times> json) list"

definition stringClaim :: "json option \<Rightarrow> string" where
  "stringClaim v = (case v of Some (JStr s) \<Rightarrow> s | _ \<Rightarrow> '''')"

fun string_items :: "json list \<Rightarrow> string list" where
  "string_items [] = []"
| "string_items (JStr s # rest) = (if s \<noteq> '''' then s # string_items rest else string_items rest)"
| "string_items (_ # rest) = string_items rest"

definition stringListClaim :: "json option \<Rightarrow> bool \<Rightarrow> string list" where
  "stringListClaim v splitSpace =
     (case v of
        Some (JStr s) \<Rightarrow> if splitSpace then Fields s else if s \<noteq> '''' then [s] else []
      | Some (JArr items) \<Rightarrow> string_items items
      | _ \<Rightarrow> [])"

fun delegation_items :: "json list \<Rightarrow> delegated_actor list" where
  "delegation_items [] = []"
| "delegation_items (JObj members # rest) =
     (let subject = stringClaim (map_of members ''sub'')
      in if subject \<noteq> ''''
         then \<lparr>Actor_Subject = subject, Actor_Issuer = stringClaim (map_of members ''iss'')\<rparr> # delegation_items rest
         else delegation_items rest)"
| "delegation_items (_ # rest) = delegation_items rest"

definition delegationClaim :: "json option \<Rightarrow> delegated_actor list" where
  "delegationClaim v = (case v of Some (JArr items) \<Rightarrow> delegation_items items | _ \<Rightarrow> [])"

record jwt_options =
  JO_Methods :: "string list"
  JO_Issuer :: string
  JO_Audience :: string
  JO_Leeway :: duration

text \<open>The library: parsing and validating a token, given the function that finds the key for its header, and
  the subject of validated claims.\<close>

type_synonym 'key jwt_parse =
  "jwt_options \<Rightarrow> time \<Rightarrow> (json option \<Rightarrow> 'key result) \<Rightarrow> string \<Rightarrow> (claims \<times> bool) result"

record 'key jwt_authenticator =
  JWT_Issuer :: string
  JWT_Audience :: string
  JWT_TenantClaim :: string
  JWT_ScopeClaim :: string
  JWT_RolesClaim :: string
  JWT_Algorithms :: "string list"
  JWT_Keys :: "(nat \<Rightarrow> string \<Rightarrow> string \<Rightarrow> 'key result) option"
  JWT_Revocations :: bool
  JWT_RequireTokenID :: bool
  JWT_Validator :: "principal_validator option"
  JWT_Leeway :: duration
  JWT_Parse :: "'key jwt_parse"
  JWT_GetSubject :: "claims \<Rightarrow> string result"

definition StaticKeyProvider_Key :: "(string \<rightharpoonup> 'key) \<Rightarrow> nat \<Rightarrow> string \<Rightarrow> string \<Rightarrow> 'key result" where
  "StaticKeyProvider_Key keys t issuer keyID =
     (case keys keyID of None \<Rightarrow> Inl (ErrText ''JWT signing key is unavailable'') | Some key \<Rightarrow> Inr key)"

definition jwt_key :: "(string \<Rightarrow> string \<Rightarrow> 'key result) \<Rightarrow> string \<Rightarrow> json option \<Rightarrow> 'key result" where
  "jwt_key keys issuer kid =
     (case kid of Some (JStr k) \<Rightarrow> if k = '''' then Inl (ErrText ''JWT key ID is required'') else keys issuer k
      | _ \<Rightarrow> Inl (ErrText ''JWT key ID is required''))"

definition or_default :: "string \<Rightarrow> string \<Rightarrow> string" where
  "or_default standard s = (if s = '''' then standard else s)"

definition jwt_principal :: "'key jwt_authenticator \<Rightarrow> claims \<Rightarrow> principal result" where
  "jwt_principal a cs =
     (case JWT_GetSubject a cs of
        Inl _ \<Rightarrow> Inl (ErrWrap ''subject claim is required'' ErrUnauthenticated)
      | Inr subject \<Rightarrow>
          if subject = '''' then Inl (ErrWrap ''subject claim is required'' ErrUnauthenticated)
          else let tenantID = stringClaim (map_of cs (or_default ''tenant_id'' (JWT_TenantClaim a))) in
          if blank tenantID then Inl (ErrWrap ''tenant claim is required'' ErrUnauthenticated)
          else let p = \<lparr>Principal_Subject = subject, Principal_TenantID = tenantID, Principal_Issuer = JWT_Issuer a,
                 Principal_AuthMethod = ''oidc-jwt'',
                 Principal_Scopes = stringListClaim (map_of cs (or_default ''scope'' (JWT_ScopeClaim a))) True,
                 Principal_Roles = stringListClaim (map_of cs (or_default ''roles'' (JWT_RolesClaim a))) False,
                 Principal_Delegation = delegationClaim (map_of cs ''delegation''),
                 Principal_TokenID = stringClaim (map_of cs ''jti'')\<rparr>
          in if JWT_RequireTokenID a \<and> Principal_TokenID p = ''''
             then Inl (ErrWrap ''token ID claim is required'' ErrUnauthenticated) else Inr p)"

definition run_validator :: "principal_validator option \<Rightarrow> principal \<Rightarrow> error option hub" where
  "run_validator v p = (case v of None \<Rightarrow> State_Monad.return None | Some f \<Rightarrow> ask (\<lambda>t. f t p))"

definition JWT_Authenticate :: "hub_env \<Rightarrow> 'key jwt_authenticator \<Rightarrow> authenticator" where
  "JWT_Authenticate E a q =
     (case bearerToken (Q_Header q ''Authorization'') of
        Inl _ \<Rightarrow> State_Monad.return (Inl ErrUnauthenticated)
      | Inr raw \<Rightarrow>
          if JWT_Issuer a = '''' \<or> JWT_Audience a = '''' then State_Monad.return (Inl ErrUnauthenticated)
          else case JWT_Keys a of
            None \<Rightarrow> State_Monad.return (Inl ErrUnauthenticated)
          | Some keys \<Rightarrow> do {
              parsed \<leftarrow> ask (\<lambda>t. JWT_Parse a
                 \<lparr>JO_Methods = (if JWT_Algorithms a = [] then [''RS256'', ''ES256'', ''EdDSA''] else JWT_Algorithms a),
                  JO_Issuer = JWT_Issuer a, JO_Audience = JWT_Audience a, JO_Leeway = JWT_Leeway a\<rparr>
                 (e_clock E t) (jwt_key (keys t) (JWT_Issuer a)) raw);
              case parsed of
                Inl _ \<Rightarrow> State_Monad.return (Inl (ErrWrap ''bearer token validation failed'' ErrUnauthenticated))
              | Inr (cs, valid) \<Rightarrow>
                  if \<not> valid then State_Monad.return (Inl (ErrWrap ''bearer token validation failed'' ErrUnauthenticated))
                  else case jwt_principal a cs of
                    Inl e \<Rightarrow> State_Monad.return (Inl e)
                  | Inr p \<Rightarrow> do {
                      v \<leftarrow> run_validator (JWT_Validator a) p;
                      if v \<noteq> None
                      then State_Monad.return (Inl (ErrWrap ''principal trust policy rejected the token'' ErrUnauthenticated))
                      else if JWT_Revocations a \<and> Principal_TokenID p \<noteq> '''' then do {
                        now \<leftarrow> ask (e_clock E);
                        revoked \<leftarrow> store_get E (\<lambda>_. TokenRevoked (Principal_Issuer p) (Principal_TokenID p) (Principal_TenantID p) now);
                        State_Monad.return (if revoked then Inl (ErrWrap ''bearer token is revoked'' ErrUnauthenticated) else Inr p)
                      }
                      else State_Monad.return (Inr p)
                    }
            })"

section \<open>Workload certificates\<close>

fun spiffe_scan :: "cert_uri option list \<Rightarrow> string \<Rightarrow> string result" where
  "spiffe_scan [] identity =
     (if identity = '''' then Inl (ErrText ''client certificate has no SPIFFE URI SAN'') else Inr identity)"
| "spiffe_scan (None # rest) identity = spiffe_scan rest identity"
| "spiffe_scan (Some u # rest) identity =
     (if ToLower (Cert_Scheme u) \<noteq> ''spiffe'' then spiffe_scan rest identity
      else if Cert_Host u = '''' \<or> Cert_Path u = '''' \<or> Cert_HasUser u \<or> Cert_RawQuery u \<noteq> '''' \<or> Cert_Fragment u \<noteq> ''''
        then Inl (ErrText ''client certificate contains an invalid SPIFFE URI SAN'')
      else if identity \<noteq> '''' then Inl (ErrText ''client certificate contains multiple SPIFFE identities'')
      else spiffe_scan rest (Cert_String u))"

definition spiffeID :: "cert_uri option list \<Rightarrow> string result" where
  "spiffeID uris = spiffe_scan uris ''''"

definition StaticWorkload_Resolve :: "(string \<rightharpoonup> principal) \<Rightarrow> nat \<Rightarrow> string \<Rightarrow> principal result" where
  "StaticWorkload_Resolve principals t workloadID =
     (case principals workloadID of None \<Rightarrow> Inl ErrUnauthenticated | Some p \<Rightarrow> Inr p)"

record mtls_authenticator =
  MTLS_Resolver :: "(nat \<Rightarrow> string \<Rightarrow> principal result) option"
  MTLS_Validator :: "principal_validator option"

text \<open>\<open>url.Parse\<close> of the workload identity succeeds, since it is the text of a URL; on a failure the code would
  panic.\<close>

definition workload_issuer :: "golib \<Rightarrow> string \<Rightarrow> principal \<Rightarrow> principal result" where
  "workload_issuer G workloadID p =
     (if Principal_Issuer p \<noteq> '''' then Inr p
      else case G_url_parse G workloadID of
        Inl _ \<Rightarrow> Inl (ErrText ''panic: nil URL'')
      | Inr u \<Rightarrow> Inr (p\<lparr>Principal_Issuer := ''spiffe://'' @ U_Host u\<rparr>))"

definition MTLS_Authenticate :: "golib \<Rightarrow> mtls_authenticator \<Rightarrow> authenticator" where
  "MTLS_Authenticate G a q =
     (case (MTLS_Resolver a, Q_TLS q) of
        (Some resolve, Some tls) \<Rightarrow>
          if TLS_VerifiedChains tls = 0 then State_Monad.return (Inl ErrUnauthenticated)
          else (case TLS_PeerCertificates tls of
            [] \<Rightarrow> State_Monad.return (Inl ErrUnauthenticated)
          | uris # _ \<Rightarrow>
              (case spiffeID uris of
                 Inl e \<Rightarrow> State_Monad.return (Inl (ErrJoin [ErrUnauthenticated, e]))
               | Inr workloadID \<Rightarrow> do {
                   r \<leftarrow> ask (\<lambda>t. resolve t workloadID);
                   case r of
                     Inl _ \<Rightarrow> State_Monad.return (Inl ErrUnauthenticated)
                   | Inr p \<Rightarrow>
                       if Principal_Subject p = '''' \<or> Principal_TenantID p = ''''
                       then State_Monad.return (Inl ErrUnauthenticated)
                       else (case workload_issuer G workloadID (p\<lparr>Principal_AuthMethod := ''mtls-spiffe''\<rparr>) of
                         Inl e \<Rightarrow> State_Monad.return (Inl e)
                       | Inr p' \<Rightarrow> do {
                           v \<leftarrow> run_validator (MTLS_Validator a) p';
                           State_Monad.return (if v \<noteq> None
                             then Inl (ErrWrap ''principal trust policy rejected the workload'' ErrUnauthenticated) else Inr p')
                         })
                 }))
      | _ \<Rightarrow> State_Monad.return (Inl ErrUnauthenticated))"

definition Hybrid_Authenticate :: "authenticator option \<Rightarrow> authenticator option \<Rightarrow> authenticator" where
  "Hybrid_Authenticate bearer mtls q =
     (if \<not> blank (Q_Header q ''Authorization'')
      then (case bearer of None \<Rightarrow> State_Monad.return (Inl ErrUnauthenticated) | Some f \<Rightarrow> f q)
      else (case mtls of None \<Rightarrow> State_Monad.return (Inl ErrUnauthenticated) | Some f \<Rightarrow> f q))"

section \<open>Trust between issuers and tenants\<close>

record issuer_trust_profile =
  ITP_Tenants :: "string list"
  ITP_RequiredScopes :: "string list"

record tenant_trust_document =
  TTD_Version :: int
  TTD_Issuers :: "(string \<times> issuer_trust_profile) list"

fun check_trust_tenants :: "string \<Rightarrow> string set \<Rightarrow> string list \<Rightarrow> error option" where
  "check_trust_tenants issuer seen [] = None"
| "check_trust_tenants issuer seen (tenant # rest) =
     (if blank tenant then Some (ErrText (''tenant trust issuer contains an empty tenant: '' @ issuer))
      else if tenant \<in> seen then Some (ErrText (''tenant trust issuer repeats tenant: '' @ issuer))
      else check_trust_tenants issuer (insert tenant seen) rest)"

fun check_issuers :: "(string \<times> issuer_trust_profile) list \<Rightarrow> error option" where
  "check_issuers [] = None"
| "check_issuers ((issuer, profile) # rest) =
     (if blank issuer \<or> ITP_Tenants profile = []
      then Some (ErrText ''tenant trust issuer must have a name and tenant list'')
      else case check_trust_tenants issuer {} (ITP_Tenants profile) of
        Some e \<Rightarrow> Some e
      | None \<Rightarrow>
          if list_ex blank (ITP_RequiredScopes profile)
          then Some (ErrText (''tenant trust issuer contains an empty required scope: '' @ issuer))
          else check_issuers rest)"

definition TenantTrust_Validate :: "tenant_trust_document \<Rightarrow> error option" where
  "TenantTrust_Validate d =
     (if TTD_Version d \<noteq> 1 then Some (ErrText ''tenant trust version must be 1'')
      else if TTD_Issuers d = [] then Some (ErrText ''tenant trust must configure at least one issuer'')
      else check_issuers (TTD_Issuers d))"

definition LoadTenantTrustFile ::
  "(string \<Rightarrow> (tenant_trust_document \<times> bool) result) \<Rightarrow> string result \<Rightarrow> string \<Rightarrow> tenant_trust_document result" where
  "LoadTenantTrustFile decode read path =
     (if blank path then Inl (ErrText ''tenant trust file path is required'')
      else case read of
        Inl e \<Rightarrow> Inl (ErrWrap ''read tenant trust file'' e)
      | Inr encoded \<Rightarrow>
          if length encoded > 2 ^ 20 then Inl (ErrText ''tenant trust file exceeds 1 MiB'')
          else case decode encoded of
            Inl e \<Rightarrow> Inl (ErrWrap ''decode tenant trust file'' e)
          | Inr (d, single) \<Rightarrow>
              if \<not> single then Inl (ErrText ''tenant trust file contains trailing data'')
              else case TenantTrust_Validate d of Some e \<Rightarrow> Inl e | None \<Rightarrow> Inr d)"

type_synonym trust_policy = "string \<rightharpoonup> issuer_trust_profile"

definition NewTrustPolicy :: "tenant_trust_document \<Rightarrow> trust_policy result" where
  "NewTrustPolicy d =
     (case TenantTrust_Validate d of Some e \<Rightarrow> Inl e | None \<Rightarrow> Inr (overlay (TTD_Issuers d) Map.empty))"

definition ValidatePrincipal :: "trust_policy \<Rightarrow> principal \<Rightarrow> error option" where
  "ValidatePrincipal tp p =
     (case tp (Principal_Issuer p) of
        None \<Rightarrow> Some (ErrText ''principal issuer is not trusted'')
      | Some profile \<Rightarrow>
          if Principal_TenantID p \<notin> set (ITP_Tenants profile)
          then Some (ErrText ''principal tenant is not trusted for issuer'')
          else (case find (\<lambda>scope. \<not> HasScope p scope) (ITP_RequiredScopes profile) of
            Some scope \<Rightarrow> Some (ErrText (''principal is missing trust scope '' @ scope))
          | None \<Rightarrow> None))"

section \<open>What an accepted principal is\<close>

lemma run_state_ask [simp]: "run_state (ask f) w = (f (w_tick w), w\<lparr>w_tick := Suc (w_tick w)\<rparr>)"
  by (simp add: ask_def)

lemma run_state_store_get:
  "run_state (store_get E f) w =
     (f (w_tick w) (e_other E (w_tick w) (w_store w)), \<lparr>w_store = e_other E (w_tick w) (w_store w), w_tick = Suc (w_tick w)\<rparr>)"
  by (simp add: store_get_def Let_def)

lemma run_validator_run:
  assumes "run_state (run_validator v p) w = (r, w')"
  shows "w_store w' = w_store w" and "r = None \<Longrightarrow> v = Some f \<Longrightarrow> \<exists>t. f t p = None"
  using assms by (auto simp: run_validator_def split: option.splits)

lemma jwt_principal_ok:
  assumes "jwt_principal a cs = Inr p"
  shows "Principal_Subject p \<noteq> ''''" "\<not> blank (Principal_TenantID p)" "Principal_Issuer p = JWT_Issuer a"
    "JWT_RequireTokenID a \<Longrightarrow> Principal_TokenID p \<noteq> ''''"
  using assms by (auto simp: jwt_principal_def Let_def split: sum.splits if_splits)

text \<open>A token that the JWT authenticator accepts was validated by the library, its principal carries the
  configured issuer, passed the validator, and was not revoked when the store was asked.\<close>

lemma jwt_accepts:
  assumes "run_state (JWT_Authenticate E a q) w = (Inr p, w')"
  shows "\<exists>raw keys opt cs t. bearerToken (Q_Header q ''Authorization'') = Inr raw \<and> JWT_Issuer a \<noteq> '''' \<and> JWT_Audience a \<noteq> '''' \<and>
      JO_Issuer opt = JWT_Issuer a \<and> JO_Audience opt = JWT_Audience a \<and>
      JWT_Parse a opt t (jwt_key keys (JWT_Issuer a)) raw = Inr (cs, True) \<and> jwt_principal a cs = Inr p"
    and "JWT_Validator a = Some f \<Longrightarrow> \<exists>t. f t p = None"
    and "JWT_Revocations a \<Longrightarrow> Principal_TokenID p \<noteq> '''' \<Longrightarrow>
      \<exists>t. \<not> TokenRevoked (Principal_Issuer p) (Principal_TokenID p) (Principal_TenantID p) (e_clock E t) (w_store w')"
proof -
  let ?o = "\<lparr>JO_Methods = (if JWT_Algorithms a = [] then [''RS256'', ''ES256'', ''EdDSA''] else JWT_Algorithms a),
    JO_Issuer = JWT_Issuer a, JO_Audience = JWT_Audience a, JO_Leeway = JWT_Leeway a\<rparr>"
  obtain raw where raw: "bearerToken (Q_Header q ''Authorization'') = Inr raw"
    using assms by (auto simp: JWT_Authenticate_def split: sum.splits)
  have conf: "JWT_Issuer a \<noteq> ''''" "JWT_Audience a \<noteq> ''''"
    using assms raw by (auto simp: JWT_Authenticate_def split: if_splits)
  obtain keys where keys: "JWT_Keys a = Some keys"
    using assms raw conf by (auto simp: JWT_Authenticate_def split: option.splits)
  let ?parsed = "JWT_Parse a ?o (e_clock E (w_tick w)) (jwt_key (keys (w_tick w)) (JWT_Issuer a)) raw"
  obtain cs where cs: "?parsed = Inr (cs, True)"
    using assms raw conf keys by (cases ?parsed) (auto simp: JWT_Authenticate_def split: if_splits)
  obtain p' where p': "jwt_principal a cs = Inr p'"
    using assms raw conf keys cs by (cases "jwt_principal a cs") (auto simp: JWT_Authenticate_def)
  obtain v w1 where v: "run_state (run_validator (JWT_Validator a) p') (w\<lparr>w_tick := Suc (w_tick w)\<rparr>) = (v, w1)" by fastforce
  have "v = None" using assms raw conf keys cs p' v by (auto simp: JWT_Authenticate_def split: if_splits)
  then have "p' = p" and
    rev: "JWT_Revocations a \<Longrightarrow> Principal_TokenID p \<noteq> '''' \<Longrightarrow>
      \<not> TokenRevoked (Principal_Issuer p) (Principal_TokenID p) (Principal_TenantID p) (e_clock E (w_tick w1)) (w_store w')"
    using assms raw conf keys cs p' v
    by (auto simp: JWT_Authenticate_def run_state_store_get split: if_splits)
  show "\<exists>raw keys opt cs t. bearerToken (Q_Header q ''Authorization'') = Inr raw \<and> JWT_Issuer a \<noteq> '''' \<and> JWT_Audience a \<noteq> '''' \<and>
      JO_Issuer opt = JWT_Issuer a \<and> JO_Audience opt = JWT_Audience a \<and>
      JWT_Parse a opt t (jwt_key keys (JWT_Issuer a)) raw = Inr (cs, True) \<and> jwt_principal a cs = Inr p"
    using raw conf cs p' \<open>p' = p\<close>
    by (intro exI [of _ raw] exI [of _ "keys (w_tick w)"] exI [of _ ?o] exI [of _ cs] exI [of _ "e_clock E (w_tick w)"]) simp
  show "JWT_Validator a = Some f \<Longrightarrow> \<exists>t. f t p = None"
    using run_validator_run(2) [OF v \<open>v = None\<close>] \<open>p' = p\<close> by simp
  show "JWT_Revocations a \<Longrightarrow> Principal_TokenID p \<noteq> '''' \<Longrightarrow>
      \<exists>t. \<not> TokenRevoked (Principal_Issuer p) (Principal_TokenID p) (Principal_TenantID p) (e_clock E t) (w_store w')"
    using rev by blast
qed

text \<open>A workload certificate has exactly one SPIFFE identity, and it is well-formed.\<close>

definition spiffe_uri :: "cert_uri \<Rightarrow> bool" where
  "spiffe_uri u \<longleftrightarrow> ToLower (Cert_Scheme u) = ''spiffe''"

definition spiffe_valid :: "cert_uri \<Rightarrow> bool" where
  "spiffe_valid u \<longleftrightarrow> Cert_Host u \<noteq> '''' \<and> Cert_Path u \<noteq> '''' \<and> \<not> Cert_HasUser u \<and> Cert_RawQuery u = '''' \<and> Cert_Fragment u = ''''"

lemma spiffe_scan_accepts:
  "spiffe_scan uris identity = Inr i \<Longrightarrow> identity \<noteq> '''' \<Longrightarrow> i = identity \<and> (\<forall>u\<in>set uris. \<forall>x. u = Some x \<longrightarrow> \<not> spiffe_uri x)"
  by (induction uris identity rule: spiffe_scan.induct) (auto simp: spiffe_uri_def split: if_splits)

lemma spiffeID_accepts:
  assumes "spiffeID uris = Inr i" "\<forall>u. Some u \<in> set uris \<longrightarrow> Cert_String u \<noteq> ''''"
  shows "\<exists>u us vs. uris = us @ Some u # vs \<and> Cert_String u = i \<and> spiffe_uri u \<and> spiffe_valid u \<and>
    (\<forall>x. Some x \<in> set us \<union> set vs \<longrightarrow> \<not> spiffe_uri x)"
  using assms unfolding spiffeID_def
proof (induction uris)
  case (Cons x uris)
  show ?case
  proof (cases "\<exists>u. x = Some u \<and> spiffe_uri u")
    case True
    then obtain u where u: "x = Some u" "spiffe_uri u" by blast
    then have "spiffe_valid u" "spiffe_scan uris (Cert_String u) = Inr i"
      using Cons.prems(1) by (auto simp: spiffe_uri_def spiffe_valid_def split: if_splits)
    with u spiffe_scan_accepts [of uris "Cert_String u" i] Cons.prems(2) show ?thesis
      by (intro exI [of _ u] exI [of _ "[]"] exI [of _ uris]) auto
  next
    case False
    then have "spiffe_scan uris '''' = Inr i" using Cons.prems(1) by (cases x) (auto simp: spiffe_uri_def)
    then obtain u us vs where "uris = us @ Some u # vs" "Cert_String u = i" "spiffe_uri u" "spiffe_valid u"
      "\<forall>x. Some x \<in> set us \<union> set vs \<longrightarrow> \<not> spiffe_uri x"
      using Cons.IH Cons.prems(2) by auto
    with False show ?thesis by (intro exI [of _ u] exI [of _ "x # us"] exI [of _ vs]) auto
  qed
qed simp

lemma mtls_accepts:
  assumes "run_state (MTLS_Authenticate G a q) w = (Inr p, w')"
  shows "\<exists>tls uris rest i. Q_TLS q = Some tls \<and> TLS_VerifiedChains tls \<noteq> 0 \<and> TLS_PeerCertificates tls = uris # rest \<and> spiffeID uris = Inr i"
    and "Principal_Subject p \<noteq> ''''" "Principal_TenantID p \<noteq> ''''" "Principal_AuthMethod p = ''mtls-spiffe''"
    and "MTLS_Validator a = Some f \<Longrightarrow> \<exists>t. f t p = None"
proof -
  obtain resolve tls where r: "MTLS_Resolver a = Some resolve" "Q_TLS q = Some tls"
    using assms by (cases "MTLS_Resolver a"; cases "Q_TLS q") (auto simp: MTLS_Authenticate_def)
  have c: "TLS_VerifiedChains tls \<noteq> 0" using assms r by (auto simp: MTLS_Authenticate_def split: if_splits)
  then obtain uris rest where u: "TLS_PeerCertificates tls = uris # rest"
    using assms r by (cases "TLS_PeerCertificates tls") (auto simp: MTLS_Authenticate_def)
  obtain i where i: "spiffeID uris = Inr i"
    using assms r c u by (cases "spiffeID uris") (auto simp: MTLS_Authenticate_def)
  show "\<exists>tls uris rest i. Q_TLS q = Some tls \<and> TLS_VerifiedChains tls \<noteq> 0 \<and> TLS_PeerCertificates tls = uris # rest \<and> spiffeID uris = Inr i"
    using r c u i by blast
  obtain p0 where p0: "resolve (w_tick w) i = Inr p0"
    using assms r c u i by (cases "resolve (w_tick w) i") (auto simp: MTLS_Authenticate_def)
  have n: "Principal_Subject p0 \<noteq> ''''" "Principal_TenantID p0 \<noteq> ''''"
    using assms r c u i p0 by (auto simp: MTLS_Authenticate_def split: if_splits)
  obtain p1 where p1: "workload_issuer G i (p0\<lparr>Principal_AuthMethod := ''mtls-spiffe''\<rparr>) = Inr p1"
    using assms r c u i p0 n
    by (cases "workload_issuer G i (p0\<lparr>Principal_AuthMethod := ''mtls-spiffe''\<rparr>)") (auto simp: MTLS_Authenticate_def)
  obtain v w1 where v: "run_state (run_validator (MTLS_Validator a) p1) (w\<lparr>w_tick := Suc (w_tick w)\<rparr>) = (v, w1)" by fastforce
  then have "v = None" "p = p1"
    using assms r c u i p0 n p1 by (auto simp: MTLS_Authenticate_def split: if_splits)
  with p1 n show "Principal_Subject p \<noteq> ''''" "Principal_TenantID p \<noteq> ''''" "Principal_AuthMethod p = ''mtls-spiffe''"
    by (auto simp: workload_issuer_def split: if_splits sum.splits)
  show "MTLS_Validator a = Some f \<Longrightarrow> \<exists>t. f t p = None"
    using run_validator_run(2) [OF v \<open>v = None\<close>] \<open>p = p1\<close> by simp
qed

lemma ValidatePrincipal_None:
  "ValidatePrincipal tp p = None \<longleftrightarrow> (\<exists>profile. tp (Principal_Issuer p) = Some profile \<and>
     Principal_TenantID p \<in> set (ITP_Tenants profile) \<and> (\<forall>scope\<in>set (ITP_RequiredScopes profile). HasScope p scope))"
  by (auto simp: ValidatePrincipal_def find_None_iff find_Some_iff split: option.splits)

lemma NewTrustPolicy_map:
  "NewTrustPolicy d = Inr tp \<Longrightarrow> distinct (map fst (TTD_Issuers d)) \<Longrightarrow> tp = map_of (TTD_Issuers d)"
  by (auto simp: NewTrustPolicy_def overlay_map split: option.splits)

section \<open>The contract of an authenticator\<close>

text \<open>What the management interface relies on: an accepted principal has a subject and a tenant, and every run ends
  in a store that its callers may have reached. A client sees nothing else of an authenticator.\<close>

locale named_principals =
  fixes authenticate :: "http_request \<Rightarrow> principal result hub"
  assumes named: "run_state (authenticate q) w = (Inr p, w') \<Longrightarrow> Principal_Subject p \<noteq> '''' \<and> Principal_TenantID p \<noteq> ''''"
begin

lemma knows_caller:
  assumes "run_state (authenticate q) w = (r, w')" "r = Inr p"
  shows "ScopeAuthorizer_Authorize a p request \<noteq> Some ErrUnauthenticated"
  using named [of q w p w'] assms by (auto simp: ScopeAuthorizer_Authorize_def split: option.split)

end

interpretation development: named_principals Development_Authenticate
  by unfold_locales (auto simp: Development_Authenticate_def Let_def split: if_splits)

interpretation jwt: named_principals "JWT_Authenticate E a" for E :: hub_env and a :: "'key jwt_authenticator"
proof
  fix q w p w'
  assume "run_state (JWT_Authenticate E a q) w = (Inr p, w')"
  from jwt_accepts(1) [OF this] obtain cs where "jwt_principal a cs = Inr p" by blast
  from jwt_principal_ok(1,2) [OF this] show "Principal_Subject p \<noteq> '''' \<and> Principal_TenantID p \<noteq> ''''" by auto
qed

interpretation mtls: named_principals "MTLS_Authenticate G a" for G :: golib and a :: mtls_authenticator
  by unfold_locales (simp add: mtls_accepts(2,3))

interpretation hybrid: named_principals "Hybrid_Authenticate (Some (JWT_Authenticate E a)) (Some (MTLS_Authenticate G b))"
  for E :: hub_env and a :: "'key jwt_authenticator" and G :: golib and b :: mtls_authenticator
proof
  fix q w p w'
  assume "run_state (Hybrid_Authenticate (Some (JWT_Authenticate E a)) (Some (MTLS_Authenticate G b)) q) w = (Inr p, w')"
  then show "Principal_Subject p \<noteq> '''' \<and> Principal_TenantID p \<noteq> ''''"
    using jwt.named [of E a q w p w'] mtls.named [of G b q w p w'] by (simp add: Hybrid_Authenticate_def split: if_splits)
qed

section \<open>Authenticators take legal steps only\<close>

lemma safe_run_validator [hub_safe]: "safe E (run_validator v p)"
  by (auto simp: run_validator_def safe_return safe_ask split: option.split)

lemma safe_list_case [hub_safe]:
  "safe_post E a Q \<Longrightarrow> (\<And>y ys. safe_post E (f y ys) Q) \<Longrightarrow> safe_post E (case xs of [] \<Rightarrow> a | y # ys \<Rightarrow> f y ys) Q"
  by (cases xs) simp_all

lemma safe_authenticators [hub_safe]:
  "safe E (Development_Authenticate q)"
  "env_ok E \<Longrightarrow> safe E (JWT_Authenticate E a q)"
  "safe E (MTLS_Authenticate G b q)"
  unfolding Development_Authenticate_def JWT_Authenticate_def MTLS_Authenticate_def Let_def
  by (rule hub_safe | simp)+

lemma safe_Hybrid [hub_safe]:
  "(\<And>f. bearer = Some f \<Longrightarrow> safe E (f q)) \<Longrightarrow> (\<And>f. mtls = Some f \<Longrightarrow> safe E (f q)) \<Longrightarrow> safe E (Hybrid_Authenticate bearer mtls q)"
  by (auto simp: Hybrid_Authenticate_def safe_return split: option.split)

end
