(* ===== verification/Audit_Log.thy ===== *)
theory Audit_Log
  imports Access_Control Line_Files Artifact_Service
begin

text \<open>
  Audit sinks (\<open>internal/access/audit.go\<close>): the hash-chained audit file with its check at the next start,
  and the sinks that combine, retry and export. JSON coding of records and hex SHA-256 are parameters
  (\<open>audit_codec\<close>). As for the outbox file, the content of the file is an argument that outlives the sink.
\<close>

section \<open>Records\<close>

record audit_record =
  Audit_Version :: int
  Audit_Sequence :: uint64
  Audit_Timestamp :: time
  Audit_RequestID :: string
  Audit_Decision :: string
  Audit_Action :: action
  Audit_Subject :: string
  Audit_TenantID :: string
  Audit_Issuer :: string
  Audit_AuthMethod :: string
  Audit_ResourceID :: string
  Audit_Reason :: string
  Audit_PreviousHash :: string
  Audit_IntegrityHash :: string

record audit_codec =
  AC_marshal :: "audit_record \<Rightarrow> string result"
  AC_unmarshal :: "string \<Rightarrow> audit_record result"
  AC_sha256 :: "string \<Rightarrow> string"

definition auditDigest :: "audit_codec \<Rightarrow> audit_record \<Rightarrow> string result" where
  "auditDigest c r =
     (case AC_marshal c (r\<lparr>Audit_IntegrityHash := ''''\<rparr>) of Inl e \<Rightarrow> Inl e | Inr encoded \<Rightarrow> Inr (AC_sha256 c encoded))"

section \<open>The audit file\<close>

record file_audit_sink =
  Sink_Open :: bool
  Sink_Sequence :: uint64
  Sink_Previous :: string

text \<open>The record as it is written, and one line of the file in \<open>loadChainState\<close>.\<close>

definition chained :: "file_audit_sink \<Rightarrow> audit_record \<Rightarrow> audit_record" where
  "chained s r = r\<lparr>Audit_Version := 1, Audit_Sequence := Sink_Sequence s + 1, Audit_PreviousHash := Sink_Previous s,
     Audit_IntegrityHash := ''''\<rparr>"

definition FileAuditSink_Record ::
  "audit_codec \<Rightarrow> file_io \<Rightarrow> audit_record \<Rightarrow> file_audit_sink \<Rightarrow> string \<Rightarrow> error option \<times> file_audit_sink \<times> string" where
  "FileAuditSink_Record c io r s disk =
     (if \<not> Sink_Open s then (Some (ErrText ''audit file is closed''), s, disk)
      else case auditDigest c (chained s r) of
        Inl e \<Rightarrow> (Some e, s, disk)
      | Inr digest \<Rightarrow>
          (case AC_marshal c ((chained s r)\<lparr>Audit_IntegrityHash := digest\<rparr>) of
             Inl e \<Rightarrow> (Some e, s, disk)
           | Inr encoded \<Rightarrow>
               (case write_file io (encoded @ [newline]) disk of
                  (Some e, disk') \<Rightarrow> (Some e, s, disk')
                | (None, disk') \<Rightarrow>
                    if F_SyncFails io then (Some (ErrText ''sync''), s, disk')
                    else (None, s\<lparr>Sink_Sequence := Sink_Sequence s + 1, Sink_Previous := digest\<rparr>, disk'))))"

definition chain_line :: "audit_codec \<Rightarrow> string \<Rightarrow> uint64 \<times> string \<Rightarrow> (uint64 \<times> string) result" where
  "chain_line c line st =
     (case st of (sequence, previous) \<Rightarrow>
        if TrimSpace line = '''' then Inr st
        else case AC_unmarshal c line of
          Inl e \<Rightarrow> Inl (ErrWrap ''decode audit record'' e)
        | Inr r \<Rightarrow>
            if Audit_IntegrityHash r \<noteq> '''' then
              if Audit_PreviousHash r \<noteq> previous \<or> Audit_Sequence r \<noteq> sequence + 1
              then Inl (ErrText ''audit integrity chain is broken'')
              else (case auditDigest c r of
                  Inl _ \<Rightarrow> Inl (ErrText ''audit integrity hash is invalid'')
                | Inr want \<Rightarrow>
                    if want \<noteq> Audit_IntegrityHash r then Inl (ErrText ''audit integrity hash is invalid'')
                    else Inr (Audit_Sequence r, Audit_IntegrityHash r))
            else Inr (sequence + 1, AC_sha256 c line))"

fun chain_lines :: "audit_codec \<Rightarrow> string list \<Rightarrow> uint64 \<times> string \<Rightarrow> (uint64 \<times> string) result" where
  "chain_lines c [] st = Inr st"
| "chain_lines c (l # ls) st = (case chain_line c l st of Inl e \<Rightarrow> Inl e | Inr st' \<Rightarrow> chain_lines c ls st')"

definition loadChainState :: "audit_codec \<Rightarrow> string \<Rightarrow> (uint64 \<times> string) result" where
  "loadChainState c disk =
     (case scan_file (2 ^ 20) disk of (tokens, scanErr) \<Rightarrow>
        (case chain_lines c tokens (0, '''') of
           Inl e \<Rightarrow> Inl e
         | Inr st \<Rightarrow> (case scanErr of Some e \<Rightarrow> Inl (ErrWrap ''read audit file'' e) | None \<Rightarrow> Inr st)))"

definition OpenFileAuditSink :: "audit_codec \<Rightarrow> error option \<Rightarrow> string \<Rightarrow> string \<Rightarrow> file_audit_sink result" where
  "OpenFileAuditSink c openErr path disk =
     (if path = '''' then Inl (ErrText ''audit file path is required'')
      else case openErr of
        Some e \<Rightarrow> Inl (ErrWrap ''open audit file'' e)
      | None \<Rightarrow>
          (case loadChainState c disk of
             Inl e \<Rightarrow> Inl e
           | Inr (sequence, previous) \<Rightarrow> Inr \<lparr>Sink_Open = True, Sink_Sequence = sequence, Sink_Previous = previous\<rparr>))"

definition FileAuditSink_Close :: "file_audit_sink \<Rightarrow> file_audit_sink" where
  "FileAuditSink_Close s = (if \<not> Sink_Open s then s else s\<lparr>Sink_Open := False\<rparr>)"

section \<open>Other sinks\<close>

type_synonym audit_sink = "nat \<Rightarrow> audit_record \<Rightarrow> error option"

definition Nop_Record :: audit_sink where
  "Nop_Record t r = None"

definition JSONAuditSink_Record :: "audit_codec \<Rightarrow> file_io \<Rightarrow> audit_record \<Rightarrow> string \<Rightarrow> error option \<times> string" where
  "JSONAuditSink_Record c io r out =
     (case AC_marshal c r of Inl e \<Rightarrow> (Some e, out) | Inr encoded \<Rightarrow> write_file io (encoded @ [newline]) out)"

text \<open>The \<open>i\<close>-th sink is asked at tick \<open>t + i\<close>.\<close>

fun fanout_loop :: "audit_sink option list \<Rightarrow> nat \<Rightarrow> audit_record \<Rightarrow> error option \<Rightarrow> error option" where
  "fanout_loop [] t r combined = combined"
| "fanout_loop (None # rest) t r combined = fanout_loop rest (Suc t) r combined"
| "fanout_loop (Some sink # rest) t r combined =
     (case sink t r of
        None \<Rightarrow> fanout_loop rest (Suc t) r combined
      | Some e \<Rightarrow> fanout_loop rest (Suc t) r
          (errors_join (case combined of None \<Rightarrow> [e] | Some x \<Rightarrow> [x, e])))"

definition Fanout_Record :: "audit_sink option list \<Rightarrow> audit_sink" where
  "Fanout_Record sinks t r = fanout_loop sinks t r None"

record retrying_sink =
  Retry_Sink :: "audit_sink option"
  Retry_Attempts :: int
  Retry_InitialBackoff :: duration
  Retry_MaxBackoff :: duration
  Retry_Sleep :: "nat \<Rightarrow> duration \<Rightarrow> error option"

text \<open>The attempts that are left after \<open>attempt\<close> ones, with the delays slept so far.\<close>

fun retry_loop ::
  "audit_sink \<Rightarrow> (nat \<Rightarrow> duration \<Rightarrow> error option) \<Rightarrow> duration \<Rightarrow> nat \<Rightarrow> nat \<Rightarrow> duration \<Rightarrow> audit_record \<Rightarrow>
   error option \<times> duration list" where
  "retry_loop sink sleep maximum 0 attempt backoff r = (Some (ErrText ''audit export failed''), [])"
| "retry_loop sink sleep maximum (Suc n) attempt backoff r =
     (case sink attempt r of
        None \<Rightarrow> (None, [])
      | Some lastErr \<Rightarrow>
          if n = 0 then (Some (ErrWrap ''audit export failed'' lastErr), [])
          else case sleep attempt backoff of
            Some e \<Rightarrow> (Some (ErrWrap ''audit export retry interrupted'' e), [backoff])
          | None \<Rightarrow>
              (let doubled = wrap64 (backoff * 2);
                   next = (if doubled > maximum then maximum else doubled)
               in case retry_loop sink sleep maximum n (Suc attempt) next r of (e, slept) \<Rightarrow> (e, backoff # slept)))"

definition positive_default :: "int \<Rightarrow> int \<Rightarrow> int" where
  "positive_default standard x = (if x \<le> 0 then standard else x)"

definition Retrying_Record :: "retrying_sink option \<Rightarrow> audit_record \<Rightarrow> error option \<times> duration list" where
  "Retrying_Record s r =
     (case s of
        None \<Rightarrow> (Some (ErrText ''retrying audit sink is not configured''), [])
      | Some x \<Rightarrow>
          (case Retry_Sink x of
             None \<Rightarrow> (Some (ErrText ''retrying audit sink is not configured''), [])
           | Some sink \<Rightarrow>
               retry_loop sink (Retry_Sleep x) (positive_default 2000000000 (Retry_MaxBackoff x))
                 (nat (positive_default 3 (Retry_Attempts x))) 1 (positive_default 100000000 (Retry_InitialBackoff x)) r))"

record http_audit_sink =
  HAS_Endpoint :: string
  HAS_Bearer :: "(nat \<Rightarrow> string result) option"
  HAS_MaxResponseBytes :: int
  HAS_Request_ok :: "string \<Rightarrow> bool"
  HAS_Do :: "nat \<Rightarrow> string \<Rightarrow> string \<Rightarrow> string option \<Rightarrow> http_response result"

definition NewHTTPAuditSink :: "string \<Rightarrow> http_audit_sink \<Rightarrow> http_audit_sink result" where
  "NewHTTPAuditSink endpoint s =
     (if \<not> has_prefix endpoint ''https://'' then Inl (ErrText ''audit endpoint must use HTTPS'')
      else Inr (s\<lparr>HAS_Endpoint := endpoint\<rparr>))"

definition audit_exchange :: "http_audit_sink \<Rightarrow> http_response result \<Rightarrow> error option" where
  "audit_exchange s answer =
     (case answer of
        Inl e \<Rightarrow> Some (ErrWrap ''send audit record'' e)
      | Inr response \<Rightarrow>
          (let limit = (if HAS_MaxResponseBytes s \<le> 0 then 64 * 1024 else HAS_MaxResponseBytes s);
               body = limited_body limit (HR_Body response)
           in if HR_ReadFails response \<or> int (length body) > limit
              then Some (ErrText ''audit collector response exceeds configured limit'')
              else if HR_StatusCode response < 200 \<or> HR_StatusCode response \<ge> 300
              then Some (ErrText (''audit collector returned HTTP '' @ int_digits (HR_StatusCode response)))
              else None))"

definition HTTPAuditSink_Record :: "audit_codec \<Rightarrow> http_audit_sink option \<Rightarrow> audit_sink" where
  "HTTPAuditSink_Record c sink t r =
     (case sink of
        None \<Rightarrow> Some (ErrText ''audit endpoint is not configured'')
      | Some s \<Rightarrow>
          if HAS_Endpoint s = '''' then Some (ErrText ''audit endpoint is not configured'')
          else case AC_marshal c r of
            Inl e \<Rightarrow> Some (ErrWrap ''encode audit record'' e)
          | Inr payload \<Rightarrow>
              if \<not> HAS_Request_ok s (HAS_Endpoint s) then Some (ErrText ''create audit request'')
              else case HAS_Bearer s of
                None \<Rightarrow> audit_exchange s (HAS_Do s t (HAS_Endpoint s) payload None)
              | Some bearer \<Rightarrow>
                  (case bearer t of
                     Inl e \<Rightarrow> Some (ErrWrap ''resolve audit credential'' e)
                   | Inr token \<Rightarrow>
                       if blank token then Some (ErrText ''audit credential is empty'')
                       else audit_exchange s (HAS_Do s t (HAS_Endpoint s) payload (Some token))))"

section \<open>Restarts\<close>

text \<open>The record that \<open>Record\<close> writes, and a file whose last line is complete.\<close>

definition written :: "audit_codec \<Rightarrow> file_audit_sink \<Rightarrow> audit_record \<Rightarrow> audit_record" where
  "written c s r = (chained s r)\<lparr>Audit_IntegrityHash := (case auditDigest c (chained s r) of Inr digest \<Rightarrow> digest | Inl _ \<Rightarrow> '''')\<rparr>"

definition complete_file :: "string \<Rightarrow> bool" where
  "complete_file disk \<longleftrightarrow> (\<exists>ls. disk = lines_text ls \<and> (\<forall>l\<in>set ls. newline \<notin> set l))"

text \<open>What \<open>encoding/json\<close> gives for the written record: one line that is not blank and fits into the scanner's
  buffer of 1 MiB.\<close>

definition one_line :: "audit_codec \<Rightarrow> audit_record \<Rightarrow> string \<Rightarrow> bool" where
  "one_line c r text \<longleftrightarrow> AC_marshal c r = Inr text \<and> newline \<notin> set text \<and> length text < 2 ^ 20 \<and> drop_cr text = text \<and>
     TrimSpace text \<noteq> ''''"

lemma chain_lines_append:
  "chain_lines c (ls @ ls') st = (case chain_lines c ls st of Inl e \<Rightarrow> Inl e | Inr st' \<Rightarrow> chain_lines c ls' st')"
  by (induction c ls st rule: chain_lines.induct) (auto split: sum.split)

lemma scan_append:
  "scan limit ls = (tokens, None) \<Longrightarrow> scan limit (ls @ ls') = (case scan limit ls' of (tokens', e) \<Rightarrow> (tokens @ tokens', e))"
  by (induction limit ls arbitrary: tokens rule: scan.induct) (auto split: prod.splits if_splits)

lemma load_one_more:
  assumes "complete_file disk" "newline \<notin> set text" "length text < 2 ^ 20" "drop_cr text = text" "loadChainState c disk = Inr st"
  shows "loadChainState c (disk @ text @ [newline]) = chain_line c text st" and "complete_file (disk @ text @ [newline])"
proof -
  obtain ls where ls: "disk = lines_text ls" "\<forall>l\<in>set ls. newline \<notin> set l" using assms(1) by (auto simp: complete_file_def)
  have d: "disk @ text @ [newline] = lines_text (ls @ [text])" using ls by simp
  have n: "\<forall>l\<in>set (ls @ [text]). newline \<notin> set l" using ls assms(2) by simp
  show "complete_file (disk @ text @ [newline])" unfolding complete_file_def using d n by blast
  have f: "file_lines disk = ls" "file_lines (disk @ text @ [newline]) = ls @ [text]"
    using file_lines_text [of ls "[]"] file_lines_text [of "ls @ [text]" "[]"] ls n d by simp_all
  obtain tokens where t: "scan (2 ^ 20) ls = (tokens, None)" "chain_lines c tokens (0, '''') = Inr st"
    using assms(5) by (auto simp: loadChainState_def scan_file_def f split: prod.splits sum.splits option.splits)
  have "scan (2 ^ 20) (ls @ [text]) = (tokens @ [text], None)" using scan_append [OF t(1), of "[text]"] assms(3,4) by simp
  then show "loadChainState c (disk @ text @ [newline]) = chain_line c text st"
    by (simp add: loadChainState_def scan_file_def f chain_lines_append t(2) split: sum.split)
qed

text \<open>A successful \<open>Record\<close> writes the record, and the file then opens exactly if the digest of the record as it
  decodes from its line is the one it carries.\<close>

lemma record_faultless:
  assumes "FileAuditSink_Record c faultless r s disk = (None, s', disk')"
  shows "\<exists>text. AC_marshal c (written c s r) = Inr text \<and> disk' = disk @ text @ [newline]"
    and "auditDigest c (chained s r) = Inr (Audit_IntegrityHash (written c s r))"
    and "s' = s\<lparr>Sink_Sequence := Sink_Sequence s + 1, Sink_Previous := Audit_IntegrityHash (written c s r)\<rparr>"
  using assms by (auto simp: FileAuditSink_Record_def faultless_def write_file_def written_def split: if_splits sum.splits)

lemma record_reopens:
  assumes "complete_file disk" "loadChainState c disk = Inr (Sink_Sequence s, Sink_Previous s)"
    and "FileAuditSink_Record c faultless r s disk = (None, s', disk')"
    and "one_line c (written c s r) text" "AC_unmarshal c text = Inr d"
    and "Audit_Sequence d = Sink_Sequence s + 1" "Audit_PreviousHash d = Sink_Previous s"
    and "Audit_IntegrityHash d = Audit_IntegrityHash (written c s r)" "Audit_IntegrityHash d \<noteq> ''''"
  shows "loadChainState c disk' =
      (if auditDigest c d = Inr (Audit_IntegrityHash d) then Inr (Sink_Sequence s', Sink_Previous s')
       else Inl (ErrText ''audit integrity hash is invalid''))"
    and "complete_file disk'"
proof -
  have l: "newline \<notin> set text" "length text < 2 ^ 20" "drop_cr text = text" "TrimSpace text \<noteq> ''''"
    and d': "disk' = disk @ text @ [newline]"
    using assms(4) record_faultless(1) [OF assms(3)] by (auto simp: one_line_def)
  note load = load_one_more [OF assms(1) l(1-3) assms(2)]
  show "complete_file disk'" using load(2) d' by simp
  show "loadChainState c disk' =
      (if auditDigest c d = Inr (Audit_IntegrityHash d) then Inr (Sink_Sequence s', Sink_Previous s')
       else Inl (ErrText ''audit integrity hash is invalid''))"
    using assms(5-9) record_faultless(3) [OF assms(3)] l(4)
    by (auto simp: d' load(1) chain_line_def split: sum.split)
qed

text \<open>Any number of records.\<close>

fun record_all ::
  "audit_codec \<Rightarrow> audit_record list \<Rightarrow> file_audit_sink \<Rightarrow> string \<Rightarrow> error option \<times> file_audit_sink \<times> string" where
  "record_all c [] s disk = (None, s, disk)"
| "record_all c (r # rs) s disk =
     (case FileAuditSink_Record c faultless r s disk of
        (Some e, s', disk') \<Rightarrow> (Some e, s', disk') | (None, s', disk') \<Rightarrow> record_all c rs s' disk')"

text \<open>The records of a run decode from their lines as they were written, as \<open>encoding/json\<close> does for records whose
  strings are valid UTF-8.\<close>

fun run_decodes :: "audit_codec \<Rightarrow> audit_record list \<Rightarrow> file_audit_sink \<Rightarrow> string \<Rightarrow> bool" where
  "run_decodes c [] s disk = True"
| "run_decodes c (r # rs) s disk =
     ((case AC_marshal c (written c s r) of
         Inl _ \<Rightarrow> False
       | Inr text \<Rightarrow> newline \<notin> set text \<and> length text < 2 ^ 20 \<and> drop_cr text = text \<and> TrimSpace text \<noteq> '''' \<and>
           Audit_IntegrityHash (written c s r) \<noteq> '''' \<and> AC_unmarshal c text = Inr (written c s r)) \<and>
      (case FileAuditSink_Record c faultless r s disk of (e, s', disk') \<Rightarrow> run_decodes c rs s' disk'))"

lemma auditDigest_hash_irrelevant: "auditDigest c (r\<lparr>Audit_IntegrityHash := h\<rparr>) = auditDigest c r"
  by (simp add: auditDigest_def)

lemma record_all_reopens:
  assumes "complete_file disk" "loadChainState c disk = Inr (Sink_Sequence s, Sink_Previous s)"
    and "record_all c rs s disk = (None, s', disk')" "run_decodes c rs s disk"
  shows "loadChainState c disk' = Inr (Sink_Sequence s', Sink_Previous s') \<and> complete_file disk'"
  using assms
proof (induction rs arbitrary: s disk)
  case (Cons r rs)
  obtain s1 disk1 where 1: "FileAuditSink_Record c faultless r s disk = (None, s1, disk1)" "record_all c rs s1 disk1 = (None, s', disk')"
    using Cons.prems(3) by (auto split: prod.splits option.splits)
  obtain ln where t: "one_line c (written c s r) ln" "AC_unmarshal c ln = Inr (written c s r)"
    "Audit_IntegrityHash (written c s r) \<noteq> ''''" and d: "run_decodes c rs s1 disk1"
    using Cons.prems(4) 1(1) by (auto simp: one_line_def split: sum.splits)
  have "auditDigest c (written c s r) = Inr (Audit_IntegrityHash (written c s r))"
    using record_faultless(2) [OF 1(1)] by (simp add: written_def auditDigest_hash_irrelevant)
  with record_reopens [OF Cons.prems(1,2) 1(1) t(1,2) _ _ refl t(3)]
  have "loadChainState c disk1 = Inr (Sink_Sequence s1, Sink_Previous s1)" "complete_file disk1"
    by (simp_all add: written_def chained_def)
  from Cons.IH [OF this(2,1) 1(2) d] show ?case .
qed simp

text \<open>A record whose sync fails stays in the file, but the sink reuses its sequence number: after the next record the
  file does not open any more.\<close>

lemma sync_failure_breaks_chain:
  assumes "complete_file disk" "loadChainState c disk = Inr (Sink_Sequence s, Sink_Previous s)" "Sink_Open s"
    and "auditDigest c (chained s r) = Inr h" "h \<noteq> ''''" "one_line c (written c s r) text" "AC_unmarshal c text = Inr (written c s r)"
    and "FileAuditSink_Record c \<lparr>F_Written = None, F_SyncFails = True\<rparr> r s disk = (e, s1, disk1)"
    and "FileAuditSink_Record c faultless r' s1 disk1 = (None, s2, disk2)"
    and "one_line c (written c s r') text'" "AC_unmarshal c text' = Inr (written c s r')" "Audit_IntegrityHash (written c s r') \<noteq> ''''"
  shows "e \<noteq> None \<and> loadChainState c disk2 = Inl (ErrText ''audit integrity chain is broken'')"
proof -
  have w: "written c s r = (chained s r)\<lparr>Audit_IntegrityHash := h\<rparr>" using assms(4) by (simp add: written_def)
  have 1: "e \<noteq> None" "s1 = s" "disk1 = disk @ text @ [newline]"
    using assms(3,4,6,8) w by (auto simp: FileAuditSink_Record_def write_file_def one_line_def)
  have l: "newline \<notin> set text" "length text < 2 ^ 20" "drop_cr text = text" "TrimSpace text \<noteq> ''''"
    "newline \<notin> set text'" "length text' < 2 ^ 20" "drop_cr text' = text'" "TrimSpace text' \<noteq> ''''"
    using assms(6,10) by (auto simp: one_line_def)
  note load = load_one_more [OF assms(1) l(1-3) assms(2)]
  have "loadChainState c disk1 = Inr (Sink_Sequence s + 1, h)"
    using assms(4,5,7) l(4) by (simp add: 1 load(1) chain_line_def w auditDigest_hash_irrelevant chained_def)
  moreover have "disk2 = disk1 @ text' @ [newline]"
    using record_faultless(1) [OF assms(9)] assms(10) 1(2) by (auto simp: one_line_def)
  moreover have "Sink_Sequence s + 1 \<noteq> Sink_Sequence s + 1 + 1" by simp
  ultimately have "loadChainState c disk2 = Inl (ErrText ''audit integrity chain is broken'')"
    using load_one_more(1) [OF load(2) l(5-7), of c] assms(11,12) l(8) 1(3)
    by (simp add: chain_line_def) (simp add: written_def chained_def)
  with 1(1) show ?thesis by simp
qed

section \<open>Tamper evidence\<close>

text \<open>A signed line, the text its hash is computed from, and what JSON keeps of a decoded record: two lines with the
  same text have the same previous hash.\<close>

definition signed_line :: "audit_codec \<Rightarrow> string \<Rightarrow> bool" where
  "signed_line c l \<longleftrightarrow> TrimSpace l \<noteq> '''' \<and> (case AC_unmarshal c l of Inl _ \<Rightarrow> False | Inr r \<Rightarrow> Audit_IntegrityHash r \<noteq> '''')"

definition signed_text :: "audit_codec \<Rightarrow> string \<Rightarrow> string" where
  "signed_text c l =
     (case AC_unmarshal c l of
        Inl _ \<Rightarrow> ''''
      | Inr r \<Rightarrow> (case AC_marshal c (r\<lparr>Audit_IntegrityHash := ''''\<rparr>) of Inl _ \<Rightarrow> '''' | Inr encoded \<Rightarrow> encoded))"

definition text_fixes_previous :: "audit_codec \<Rightarrow> bool" where
  "text_fixes_previous c \<longleftrightarrow> (\<forall>l l' r r' t. AC_unmarshal c l = Inr r \<longrightarrow> AC_unmarshal c l' = Inr r' \<longrightarrow>
     AC_marshal c (r\<lparr>Audit_IntegrityHash := ''''\<rparr>) = Inr t \<longrightarrow> AC_marshal c (r'\<lparr>Audit_IntegrityHash := ''''\<rparr>) = Inr t \<longrightarrow>
     Audit_PreviousHash r = Audit_PreviousHash r')"

lemma signed_chain_line:
  assumes "chain_line c l (n, p) = Inr (m, h)" "signed_line c l"
  shows "m = n + 1" "AC_sha256 c (signed_text c l) = h"
    "\<exists>r t. AC_unmarshal c l = Inr r \<and> AC_marshal c (r\<lparr>Audit_IntegrityHash := ''''\<rparr>) = Inr t \<and> signed_text c l = t \<and> Audit_PreviousHash r = p"
  using assms by (auto simp: chain_line_def signed_line_def signed_text_def auditDigest_def split: sum.splits if_splits)

lemma signed_chain_length:
  "chain_lines c ls st = Inr (m, h) \<Longrightarrow> \<forall>l\<in>set ls. signed_line c l \<Longrightarrow> m = fst st + of_nat (length ls)"
proof (induction ls arbitrary: st)
  case (Cons l ls)
  obtain n' p' where 1: "chain_line c l st = Inr (n', p')" "chain_lines c ls (n', p') = Inr (m, h)"
    using Cons.prems(1) by (auto split: sum.splits)
  have "n' = fst st + 1" using signed_chain_line(1) [of c l "fst st" "snd st" n' p'] 1(1) Cons.prems(2) by simp
  with Cons.IH [OF 1(2)] Cons.prems(2) show ?case by simp
qed simp

lemma signed_chain_commits:
  assumes "text_fixes_previous c" "length ls = length ls'"
    and "chain_lines c ls st = Inr (m, h)" "chain_lines c ls' st = Inr (m', h)"
    and "\<forall>l\<in>set ls \<union> set ls'. signed_line c l"
  shows "map (signed_text c) ls = map (signed_text c) ls' \<or>
    (\<exists>x\<in>set ls. \<exists>y\<in>set ls'. signed_text c x \<noteq> signed_text c y \<and> AC_sha256 c (signed_text c x) = AC_sha256 c (signed_text c y))"
  using assms(2-)
proof (induction ls arbitrary: ls' m m' h rule: rev_induct)
  case (snoc l ls)
  obtain l' ls2 where ls': "ls' = ls2 @ [l']" "length ls = length ls2"
    using snoc.prems(1) by (cases ls' rule: rev_cases) auto
  obtain n p where 1: "chain_lines c ls st = Inr (n, p)" "chain_line c l (n, p) = Inr (m, h)"
    using snoc.prems(2) by (auto simp: chain_lines_append split: sum.splits)
  obtain n' p' where 2: "chain_lines c ls2 st = Inr (n', p')" "chain_line c l' (n', p') = Inr (m', h)"
    using snoc.prems(3) by (auto simp: ls' chain_lines_append split: sum.splits)
  note a = signed_chain_line [OF 1(2)] and b = signed_chain_line [OF 2(2)]
  have s: "signed_line c l" "signed_line c l'" using snoc.prems(4) ls' by simp_all
  show ?case
  proof (cases "signed_text c l = signed_text c l'")
    case True
    with a(3) [OF s(1)] b(3) [OF s(2)] assms(1) have "p = p'" unfolding text_fixes_previous_def by metis
    with snoc.IH [OF ls'(2) 1(1), of n'] 2(1) snoc.prems(4) True show ?thesis by (auto simp: ls')
  next
    case False
    with a(2) [OF s(1)] b(2) [OF s(2)] show ?thesis by (intro disjI2 bexI [of _ l] bexI [of _ l']) (auto simp: ls')
  qed
qed simp

text \<open>The gap: a line without a hash is accepted wherever it stands, also after signed lines.\<close>

lemma unsigned_line_accepted:
  assumes "complete_file disk" "loadChainState c disk = Inr (n, p)" "newline \<notin> set l" "length l < 2 ^ 20" "drop_cr l = l"
    and "AC_unmarshal c l = Inr r" "Audit_IntegrityHash r = ''''" "TrimSpace l \<noteq> ''''"
  shows "loadChainState c (disk @ l @ [newline]) = Inr (n + 1, AC_sha256 c l)"
  using load_one_more(1) [OF assms(1,3,4,5,2)] assms(6-8) by (simp add: chain_line_def)

section \<open>Sinks that combine and retry\<close>

lemma errors_join_Some [simp]: "errors_join (e # es) = Some (ErrJoin (e # es))"
  by (simp add: errors_join_def)

lemma fanout_loop_combined: "fanout_loop sinks t r (Some e) \<noteq> None"
  by (induction sinks t r "Some e" arbitrary: e rule: fanout_loop.induct) (auto split: option.split)

text \<open>A fan-out succeeds exactly if every configured sink does.\<close>

lemma fanout_succeeds:
  "Fanout_Record sinks t r = None \<longleftrightarrow> (\<forall>i<length sinks. \<forall>sink. sinks ! i = Some sink \<longrightarrow> sink (t + i) r = None)"
proof -
  have "fanout_loop sinks t r None = None \<longleftrightarrow> (\<forall>i<length sinks. \<forall>sink. sinks ! i = Some sink \<longrightarrow> sink (t + i) r = None)"
  proof (induction sinks arbitrary: t)
    case (Cons s rest)
    show ?case
    proof (cases s)
      case None
      then show ?thesis using Cons.IH [of "Suc t"] by (simp add: All_less_Suc2)
    next
      case (Some sink)
      then show ?thesis using Cons.IH [of "Suc t"] fanout_loop_combined [of rest "Suc t" r]
        by (simp add: All_less_Suc2 split: option.split)
    qed
  qed simp
  then show ?thesis by (simp add: Fanout_Record_def)
qed

lemma retry_loop_bounds:
  assumes "retry_loop sink sleep maximum n attempt backoff r = (e, slept)"
  shows "length slept \<le> n - 1" and "\<forall>d\<in>set (tl slept). d \<le> maximum"
    and "e = None \<Longrightarrow> \<exists>i<n. sink (attempt + i) r = None \<and> (\<forall>j<i. sink (attempt + j) r \<noteq> None)"
proof -
  have "length slept \<le> n - 1 \<and> (\<forall>d\<in>set (tl slept). d \<le> maximum) \<and> (slept \<noteq> [] \<longrightarrow> hd slept = backoff) \<and>
    (e = None \<longrightarrow> (\<exists>i<n. sink (attempt + i) r = None \<and> (\<forall>j<i. sink (attempt + j) r \<noteq> None)))"
    using assms
  proof (induction n arbitrary: attempt backoff e slept)
    case (Suc n)
    show ?case
    proof (cases "sink attempt r = None \<or> n = 0 \<or> sleep attempt backoff \<noteq> None")
      case True
      with Suc.prems show ?thesis by (auto split: option.splits if_splits intro: exI [of _ 0])
    next
      case False
      then obtain x where x: "sink attempt r = Some x" "n \<noteq> 0" "sleep attempt backoff = None" by auto
      let ?next = "if wrap64 (backoff * 2) > maximum then maximum else wrap64 (backoff * 2)"
      obtain slept' where l: "retry_loop sink sleep maximum n (Suc attempt) ?next r = (e, slept')" "slept = backoff # slept'"
        using Suc.prems x by (auto simp: Let_def split: prod.splits)
      note ih = Suc.IH [OF l(1)]
      have "\<forall>d\<in>set slept'. d \<le> maximum"
        using ih by (cases slept') (auto split: if_splits)
      moreover have "\<exists>i<Suc n. sink (attempt + i) r = None \<and> (\<forall>j<i. sink (attempt + j) r \<noteq> None)" if eN: "e = None"
      proof -
        obtain i where i: "i < n" "sink (Suc attempt + i) r = None" "\<forall>j<i. sink (Suc attempt + j) r \<noteq> None"
          using ih eN by blast
        have "\<forall>j<Suc i. sink (attempt + j) r \<noteq> None"
          using i(3) x(1) by (auto simp: less_Suc_eq_0_disj)
        with i show ?thesis by (intro exI [of _ "Suc i"]) simp
      qed
      ultimately show ?thesis using ih l(2) x(2) by auto
    qed
  qed simp
  then show "length slept \<le> n - 1" and "\<forall>d\<in>set (tl slept). d \<le> maximum"
    and "e = None \<Longrightarrow> \<exists>i<n. sink (attempt + i) r = None \<and> (\<forall>j<i. sink (attempt + j) r \<noteq> None)" by blast+
qed

end
