(* ===== verification/Http_Api.thy ===== *)
theory Http_Api
  imports Authentication Audit_Log Federation_Service Workflow_Coord Worker_Loops
begin

text \<open>
  The management interface (\<open>internal/hub/http.go\<close>): the guard of every route, the handlers, and the
  mapping of errors to answers. A handler is a program over the world that gives an answer, the audit
  records it sends and the state of the worker gate. \<open>http.ServeMux\<close> picks the route, and the request of
  \<open>Authentication\<close> has the path values of its pattern.

  The audit sink's result is ignored by the code, so the records sent are what matters of it. JSON decoding
  of bodies is a parameter for each type. Answers hold the values before their JSON encoding. Metrics and
  the plain-text routes \<open>/healthz\<close>, \<open>/readyz\<close> and \<open>/metrics\<close> are left out.
\<close>

section \<open>Answers\<close>

datatype answer_body =
    Body_None
  | Body_Problem string string string
  | Body_Task task
  | Body_Events "event list"
  | Body_Stream "(uint64 \<times> string \<times> string) list"
  | Body_Agent agent
  | Body_Agents "agent list"
  | Body_Outbox "outbox_record list"
  | Body_Pairs "(string \<times> string) list"
  | Body_Purged nat
  | Body_Workflow workflow
  | Body_Workflows "workflow list"
  | Body_Result workflow_result
  | Body_Templates "workflow_template list"
  | Body_Object artifact_object
  | Body_Content "string result"
  | Body_Revocation token_revocation

record http_answer =
  A_Status :: int
  A_Headers :: "(string \<times> string) list"
  A_Body :: answer_body

definition writeJSON :: "int \<Rightarrow> answer_body \<Rightarrow> http_answer" where
  "writeJSON status v =
     \<lparr>A_Status = status, A_Headers = [(''Content-Type'', ''application/json'')],
      A_Body = (case v of Body_Task t \<Rightarrow> Body_Task (t\<lparr>Task_PushTokenHash := ''''\<rparr>) | _ \<Rightarrow> v)\<rparr>"

definition writeProblem :: "int \<Rightarrow> string \<Rightarrow> string \<Rightarrow> string \<Rightarrow> http_answer" where
  "writeProblem status category code message = writeJSON status (Body_Problem category code message)"

fun contains :: "string \<Rightarrow> string \<Rightarrow> bool" where
  "contains [] sub = (sub = [])"
| "contains (c # cs) sub = (has_prefix (c # cs) sub \<or> contains cs sub)"

definition federation_status :: "string \<Rightarrow> int" where
  "federation_status category =
     (if category = ''authentication'' then 401
      else if category = ''authorization'' then 403
      else if category = ''validation'' \<or> category = ''protocol'' then 400
      else if category = ''resource'' then 404
      else if category = ''state'' then 409
      else 502)"

text \<open>\<open>msg\<close> is \<open>err.Error()\<close>.\<close>

definition writeError :: "(error \<Rightarrow> string) \<Rightarrow> error \<Rightarrow> http_answer" where
  "writeError msg e =
     (if error_is e ErrNotFound then writeProblem 404 ''resource'' ''NOT_FOUND'' ''resource not found''
      else if error_is e ErrConflict then writeProblem 409 ''state'' ''CONFLICT'' ''resource already exists''
      else if error_is e ErrQuotaExceeded
        then writeProblem 429 ''quota'' ''ARTIFACT_QUOTA_EXCEEDED'' ''tenant Artifact quota is exhausted''
      else if error_is e ErrUnavailable
        then writeProblem 404 ''resource'' ''ARTIFACT_UNAVAILABLE'' ''Artifact content is unavailable''
      else if error_is e ErrPolicy
        then writeProblem 422 ''validation'' ''ARTIFACT_POLICY_REJECTED'' ''Artifact content violates policy''
      else if error_is e ErrInvalidPushCredential
        then writeProblem 401 ''authentication'' ''INVALID_PUSH_CREDENTIAL'' ''Push credential is invalid''
      else if error_is e ErrPushTaskMismatch
        then writeProblem 409 ''state'' ''PUSH_TASK_MISMATCH'' ''Push task does not match callback task''
      else case error_as_federation e of
        Some p \<Rightarrow> writeProblem (federation_status (Problem_Category p)) (Problem_Category p) (Problem_Code p) (Problem_Message p)
      | None \<Rightarrow>
          if contains (msg e) ''task continuation requires''
          then writeProblem 409 ''state'' ''TASK_CONTINUATION_NOT_ALLOWED'' (msg e)
          else if contains (msg e) ''required'' \<or> contains (msg e) ''invalid'' \<or> contains (msg e) ''does not declare'' \<or>
                  contains (msg e) ''not allowed''
          then writeProblem 400 ''validation'' ''INVALID_REQUEST'' (msg e)
          else writeProblem 502 ''internal'' ''HUB_OPERATION_FAILED'' ''Hub operation failed'')"

section \<open>The handler\<close>

record continue_input =
  Cont_Text :: string
  Cont_Parts :: "part list"

record http_codec =
  D_register :: "string \<Rightarrow> (register_input \<times> bool) result"
  D_revoke :: "string \<Rightarrow> (revoke_input \<times> bool) result"
  D_submit :: "string \<Rightarrow> (submit_input \<times> bool) result"
  D_continue :: "string \<Rightarrow> (continue_input \<times> bool) result"
  D_workflow :: "string \<Rightarrow> (workflow_definition \<times> bool) result"
  D_template :: "string \<Rightarrow> (template_run \<times> bool) result"
  D_time :: "string \<Rightarrow> time result"
  D_push :: "(string \<Rightarrow> observation result) option"
  D_attachment :: "string \<Rightarrow> string"

text \<open>How the configured worker gate is controlled: not at all, in this process, or through the store.\<close>

datatype worker_controller = NoController | LocalController | SharedController string

text \<open>The fields of \<open>HTTPHandler\<close>; \<open>HH_Rounds\<close> bounds the rounds of a workflow call and the polls of a followed
  event stream, and the orders are those in which Go ranges over the outbox and the workflows.\<close>

record http_handler =
  HH_Hub :: hub_config
  HH_Workflows :: "coordinator option"
  HH_WorkerGate :: worker_controller
  HH_Codec :: http_codec
  HH_MaxBodyBytes :: int
  HH_Authenticator :: "authenticator option"
  HH_Authorizer :: "authorizer option"
  HH_Limiter :: "(nat \<Rightarrow> principal \<Rightarrow> access_request \<Rightarrow> duration \<times> bool) option"
  HH_ErrorText :: "error \<Rightarrow> string"
  HH_Cancelled :: "nat \<Rightarrow> bool"
  HH_Rounds :: nat
  HH_OutboxOrder :: "journal_store \<Rightarrow> string list"
  HH_WorkflowOrder :: "nat \<Rightarrow> journal_store \<Rightarrow> string list"

text \<open>An answer is \<^term>\<open>None\<close> when a workflow call has used up its rounds and still runs.\<close>

type_synonym outcome = "http_answer option \<times> audit_record list \<times> gate"
type_synonym handler = "principal option \<Rightarrow> string \<Rightarrow> http_request \<Rightarrow> gate \<Rightarrow> outcome hub"

definition requireTenant :: "principal option \<Rightarrow> http_answer + string" where
  "requireTenant ctx =
     (case ctx of
        None \<Rightarrow> Inl (writeProblem 401 ''authentication'' ''UNAUTHENTICATED'' ''authenticated tenant identity is required'')
      | Some p \<Rightarrow>
          if Principal_TenantID p = ''''
          then Inl (writeProblem 401 ''authentication'' ''UNAUTHENTICATED'' ''authenticated tenant identity is required'')
          else Inr (Principal_TenantID p))"

definition maxBodyBytes :: "http_handler \<Rightarrow> int" where
  "maxBodyBytes h = (if HH_MaxBodyBytes h > 0 then HH_MaxBodyBytes h else 2 ^ 20)"

text \<open>\<open>decode\<close> is given what \<open>http.MaxBytesReader\<close> lets through; a longer or unreadable body is no end of file.\<close>

definition decodeJSON :: "http_handler \<Rightarrow> (string \<Rightarrow> ('a \<times> bool) result) \<Rightarrow> http_request \<Rightarrow> http_answer + 'a" where
  "decodeJSON h decode q =
     (case decode (take (nat (maxBodyBytes h)) (Q_Body q)) of
        Inl _ \<Rightarrow> Inl (writeProblem 400 ''validation'' ''INVALID_JSON'' ''request body must be one valid JSON object'')
      | Inr (v, single) \<Rightarrow>
          if \<not> single \<or> Q_BodyFails q \<or> int (length (Q_Body q)) > maxBodyBytes h
          then Inl (writeProblem 400 ''validation'' ''INVALID_JSON'' ''request body must contain only one JSON object'')
          else Inr v)"

definition audit_of :: "time \<Rightarrow> string \<Rightarrow> string \<Rightarrow> action \<Rightarrow> principal \<Rightarrow> string \<Rightarrow> string \<Rightarrow> audit_record" where
  "audit_of now requestID decision act p resourceID reason =
     \<lparr>Audit_Version = 0, Audit_Sequence = 0, Audit_Timestamp = now, Audit_RequestID = requestID, Audit_Decision = decision,
      Audit_Action = act, Audit_Subject = Principal_Subject p, Audit_TenantID = Principal_TenantID p,
      Audit_Issuer = Principal_Issuer p, Audit_AuthMethod = Principal_AuthMethod p, Audit_ResourceID = resourceID,
      Audit_Reason = reason, Audit_PreviousHash = '''', Audit_IntegrityHash = ''''\<rparr>"

definition resource_of :: "http_request \<Rightarrow> string" where
  "resource_of q =
     (if Q_PathValue q ''taskID'' \<noteq> '''' then Q_PathValue q ''taskID''
      else if Q_PathValue q ''artifactID'' \<noteq> '''' then Q_PathValue q ''artifactID''
      else if Q_PathValue q ''agentID'' \<noteq> '''' then Q_PathValue q ''agentID''
      else Q_PathValue q ''outboxID'')"

text \<open>The guard. Go's division of the duration by a second truncates towards zero, which only matters below one.\<close>

definition rate_limited :: "duration \<Rightarrow> http_answer" where
  "rate_limited retryAfter =
     (let seconds = (if retryAfter < 1000000000 then 1 else retryAfter div 1000000000)
      in (writeProblem 429 ''rate_limit'' ''RATE_LIMIT_EXCEEDED'' ''request rate limit exceeded'')
           \<lparr>A_Headers := [(''Content-Type'', ''application/json''), (''Retry-After'', int_digits seconds)]\<rparr>)"

definition with_request_id :: "string \<Rightarrow> outcome \<Rightarrow> outcome" where
  "with_request_id requestID out =
     (case out of (a, rs, g) \<Rightarrow> (map_option (\<lambda>x. x\<lparr>A_Headers := (''X-Request-ID'', requestID) # A_Headers x\<rparr>) a, rs, g))"

definition limiter_answer ::
  "http_handler \<Rightarrow> principal \<Rightarrow> access_request \<Rightarrow> (duration \<times> bool) hub" where
  "limiter_answer h p r = (case HH_Limiter h of None \<Rightarrow> State_Monad.return (0, True) | Some l \<Rightarrow> ask (\<lambda>t. l t p r))"

definition guarded ::
  "hub_env \<Rightarrow> http_handler \<Rightarrow> authenticator \<Rightarrow> authorizer \<Rightarrow> action \<Rightarrow> handler \<Rightarrow> string \<Rightarrow> http_request \<Rightarrow> gate \<Rightarrow> outcome hub" where
  "guarded E h authenticate authorize act handle requestID q g = do {
     r \<leftarrow> authenticate q;
     now \<leftarrow> ask (e_clock E);
     case r of
       Inl _ \<Rightarrow> State_Monad.return
         (Some (writeProblem 401 ''authentication'' ''UNAUTHENTICATED'' ''valid authentication is required''),
          [audit_of now requestID ''authentication_denied'' act zero_principal '''' ''invalid_or_missing_credential''], g)
     | Inr p \<Rightarrow> do {
         let allowed = audit_of now requestID ''authentication_allowed'' act p '''' '''';
         let request = \<lparr>Request_Action = act, Request_ResourceID = resource_of q\<rparr>;
         (retryAfter, admitted) \<leftarrow> limiter_answer h p request;
         if \<not> admitted
         then do {
           now' \<leftarrow> ask (e_clock E);
           State_Monad.return (Some (rate_limited retryAfter),
             [allowed, audit_of now' requestID ''rate_limited'' act p (resource_of q) ''rate_limit_exceeded''], g)
         }
         else do {
           denied \<leftarrow> ask (\<lambda>t. authorize t p request);
           now' \<leftarrow> ask (e_clock E);
           if denied \<noteq> None
           then State_Monad.return
             (Some (writeProblem 403 ''authorization'' ''FORBIDDEN'' ''the authenticated principal cannot perform this operation''),
              [allowed, audit_of now' requestID ''authorization_denied'' act p (resource_of q) ''insufficient_scope_or_policy''], g)
           else do {
             (a, records, g') \<leftarrow> handle (Some p) requestID q g;
             State_Monad.return
               (a, [allowed, audit_of now' requestID ''authorization_allowed'' act p (resource_of q) ''''] @ records, g')
           }
         }
       }
   }"

definition protected :: "hub_env \<Rightarrow> http_handler \<Rightarrow> action \<Rightarrow> handler \<Rightarrow> http_request \<Rightarrow> gate \<Rightarrow> outcome hub" where
  "protected E h act handle q g = do {
     drawn \<leftarrow> ask (e_id E);
     let header = TrimSpace (Q_Header q ''X-Request-ID'');
     let requestID = (if header = '''' then drawn else header);
     now \<leftarrow> ask (e_clock E);
     out \<leftarrow> (case (HH_Authenticator h, HH_Authorizer h) of
        (Some authenticate, Some authorize) \<Rightarrow> guarded E h authenticate authorize act handle requestID q g
      | _ \<Rightarrow> State_Monad.return
          (Some (writeProblem 500 ''internal'' ''ACCESS_CONTROL_NOT_CONFIGURED'' ''Hub access control is not configured''),
           [audit_of now requestID ''configuration_error'' act zero_principal '''' ''''], g));
     State_Monad.return (with_request_id requestID out)
   }"

section \<open>Handlers\<close>

text \<open>A handler that leaves the gate alone and sends no audit records.\<close>

definition simple :: "(principal option \<Rightarrow> http_request \<Rightarrow> http_answer option hub) \<Rightarrow> handler" where
  "simple f ctx requestID q g = do { a \<leftarrow> f ctx q; State_Monad.return (a, [], g) }"

definition answer :: "http_answer \<Rightarrow> http_answer option hub" where
  "answer a = State_Monad.return (Some a)"

definition for_tenant :: "principal option \<Rightarrow> (string \<Rightarrow> http_answer option hub) \<Rightarrow> http_answer option hub" where
  "for_tenant ctx f = (case requireTenant ctx of Inl a \<Rightarrow> answer a | Inr tenantID \<Rightarrow> f tenantID)"

definition with_body ::
  "http_handler \<Rightarrow> (string \<Rightarrow> ('a \<times> bool) result) \<Rightarrow> http_request \<Rightarrow> ('a \<Rightarrow> http_answer option hub) \<Rightarrow> http_answer option hub" where
  "with_body h decode q f = (case decodeJSON h decode q of Inl a \<Rightarrow> answer a | Inr v \<Rightarrow> f v)"

definition reply :: "http_handler \<Rightarrow> int \<Rightarrow> ('a \<Rightarrow> answer_body) \<Rightarrow> 'a result \<Rightarrow> http_answer option hub" where
  "reply h status body r =
     answer (case r of Inl e \<Rightarrow> writeError (HH_ErrorText h) e | Inr v \<Rightarrow> writeJSON status (body v))"

definition reply_task :: "http_handler \<Rightarrow> int \<Rightarrow> task_outcome \<Rightarrow> http_answer option hub" where
  "reply_task h status r =
     answer (case r of (t, Some e) \<Rightarrow> writeError (HH_ErrorText h) e | (t, None) \<Rightarrow> writeJSON status (Body_Task t))"

definition reply_flow :: "http_handler \<Rightarrow> int \<Rightarrow> flow_outcome option \<Rightarrow> http_answer option hub" where
  "reply_flow h status r =
     (case r of
        None \<Rightarrow> State_Monad.return None
      | Some (v, Some e) \<Rightarrow> answer (writeError (HH_ErrorText h) e)
      | Some (v, None) \<Rightarrow> answer (writeJSON status (Body_Result v)))"

definition get_artifact :: "hub_env \<Rightarrow> http_handler \<Rightarrow> principal option \<Rightarrow> http_request \<Rightarrow> http_answer option hub" where
  "get_artifact E h ctx q = for_tenant ctx (\<lambda>tenantID.
     if H_Artifacts (HH_Hub h) = None
     then reply h 200 Body_Object (Inl (ErrText ''artifact object storage is not configured''))
     else do { r \<leftarrow> Artifacts_Get E tenantID (Q_PathValue q ''artifactID''); reply h 200 Body_Object r })"

definition get_artifact_content :: "hub_env \<Rightarrow> http_handler \<Rightarrow> principal option \<Rightarrow> http_request \<Rightarrow> http_answer option hub" where
  "get_artifact_content E h ctx q = for_tenant ctx (\<lambda>tenantID.
     case H_Artifacts (HH_Hub h) of
       None \<Rightarrow> reply h 200 Body_Object (Inl (ErrText ''artifact object storage is not configured''))
     | Some A \<Rightarrow> do {
         r \<leftarrow> Artifacts_Open E A tenantID (Q_PathValue q ''artifactID'');
         case r of
           Inl e \<Rightarrow> answer (writeError (HH_ErrorText h) e)
         | Inr ((body, closeErr), ob) \<Rightarrow> answer
             \<lparr>A_Status = 200,
              A_Headers = [(''Content-Type'', Object_DetectedMediaType ob), (''Content-Length'', int_digits (Object_SizeBytes ob)),
                (''Cache-Control'', ''private, no-store''), (''X-Content-Type-Options'', ''nosniff'')] @
                (if Object_Filename ob \<noteq> '''' then [(''Content-Disposition'', D_attachment (HH_Codec h) (Object_Filename ob))] else []),
              A_Body = Body_Content body\<rparr>
       })"

definition revoke_token :: "hub_env \<Rightarrow> http_handler \<Rightarrow> principal option \<Rightarrow> http_request \<Rightarrow> http_answer option hub" where
  "revoke_token E h ctx q = for_tenant ctx (\<lambda>tenantID.
     with_body h (D_revoke (HH_Codec h)) q (\<lambda>input. do {
       r \<leftarrow> Service_RevokeToken E tenantID input; reply h 201 Body_Revocation r }))"

definition register_agent :: "hub_env \<Rightarrow> http_handler \<Rightarrow> principal option \<Rightarrow> http_request \<Rightarrow> http_answer option hub" where
  "register_agent E h ctx q = for_tenant ctx (\<lambda>tenantID.
     with_body h (D_register (HH_Codec h)) q (\<lambda>input. do {
       r \<leftarrow> RegisterAgent E (HH_Hub h) tenantID input; reply h 201 Body_Agent r }))"

definition list_agents :: "hub_env \<Rightarrow> http_handler \<Rightarrow> principal option \<Rightarrow> http_request \<Rightarrow> http_answer option hub" where
  "list_agents E h ctx q = for_tenant ctx (\<lambda>tenantID. do {
     as \<leftarrow> store_get E (\<lambda>t s. ListAgents (e_agents E t s) tenantID s);
     let skill = TrimSpace (Q_Query q ''skill'');
     answer (writeJSON 200 (Body_Agents (if skill \<noteq> '''' then filter (\<lambda>a. hasSkill a skill) as else as)))
   })"

definition refresh_agent :: "hub_env \<Rightarrow> http_handler \<Rightarrow> principal option \<Rightarrow> http_request \<Rightarrow> http_answer option hub" where
  "refresh_agent E h ctx q = for_tenant ctx (\<lambda>tenantID. do {
     r \<leftarrow> RefreshAgent E (HH_Hub h) (HH_ErrorText h) tenantID (Q_PathValue q ''agentID'');
     answer (case r of
         (_, Some e) \<Rightarrow> writeError (HH_ErrorText h) e
       | (Some a, None) \<Rightarrow> writeJSON 200 (Body_Agent a)
       | (None, None) \<Rightarrow> writeJSON 200 (Body_Agent zero_agent))
   })"

text \<open>A limit between 1 and 1000, 100 when the query has none.\<close>

definition query_limit :: "http_request \<Rightarrow> int option" where
  "query_limit q =
     (let v = TrimSpace (Q_Query q ''limit'')
      in if v = '''' then Some 100
         else case Atoi v of None \<Rightarrow> None | Some n \<Rightarrow> if n < 1 \<or> n > 1000 then None else Some n)"

definition outbox_status_of :: "string \<Rightarrow> OutboxStatus option" where
  "outbox_status_of v =
     (if v = '''' then Some OutboxStatusUnset
      else if v = ''PENDING'' then Some OutboxPending
      else if v = ''ACKED'' then Some OutboxAcked
      else if v = ''DEAD_LETTERED'' then Some OutboxDeadLettered
      else if v = ''PURGED'' then Some OutboxPurged
      else None)"

definition list_outbox :: "hub_env \<Rightarrow> http_handler \<Rightarrow> principal option \<Rightarrow> http_request \<Rightarrow> http_answer option hub" where
  "list_outbox E h ctx q = for_tenant ctx (\<lambda>tenantID.
     case query_limit q of
       None \<Rightarrow> answer (writeProblem 400 ''validation'' ''INVALID_LIMIT'' ''outbox limit must be between 1 and 1000'')
     | Some limit \<Rightarrow>
         (case outbox_status_of (TrimSpace (Q_Query q ''status'')) of
            None \<Rightarrow> answer (writeProblem 400 ''validation'' ''INVALID_OUTBOX_STATUS'' ''unknown outbox status'')
          | Some status \<Rightarrow> do {
              r \<leftarrow> store_get E (\<lambda>t s. ListOutbox (HH_OutboxOrder h s) tenantID status limit s);
              reply h 200 Body_Outbox r
            }))"

definition replay_outbox :: "hub_env \<Rightarrow> http_handler \<Rightarrow> principal option \<Rightarrow> http_request \<Rightarrow> http_answer option hub" where
  "replay_outbox E h ctx q = for_tenant ctx (\<lambda>tenantID. do {
     wall \<leftarrow> ask (e_clock E);
     r \<leftarrow> store_op E (\<lambda>io nid. ReplayOutbox (io 0) tenantID (Q_PathValue q ''outboxID'') wall);
     answer (case r of
         Some e \<Rightarrow> writeError (HH_ErrorText h) e
       | None \<Rightarrow> writeJSON 200 (Body_Pairs [(''status'', ''requeued''), (''id'', Q_PathValue q ''outboxID'')]))
   })"

definition purge_outbox :: "hub_env \<Rightarrow> http_handler \<Rightarrow> principal option \<Rightarrow> http_request \<Rightarrow> http_answer option hub" where
  "purge_outbox E h ctx q = for_tenant ctx (\<lambda>tenantID.
     let v = TrimSpace (Q_Query q ''before'') in
     if v = '''' then answer (writeProblem 400 ''validation'' ''PURGE_CUTOFF_REQUIRED'' ''before RFC3339 timestamp is required'')
     else case D_time (HH_Codec h) v of
       Inl _ \<Rightarrow> answer (writeProblem 400 ''validation'' ''INVALID_PURGE_CUTOFF'' ''before must be an RFC3339 timestamp'')
     | Inr before \<Rightarrow>
         (case query_limit q of
            None \<Rightarrow> answer (writeProblem 400 ''validation'' ''INVALID_LIMIT'' ''outbox limit must be between 1 and 1000'')
          | Some limit \<Rightarrow> do {
              wall \<leftarrow> ask (e_clock E);
              (purged, e) \<leftarrow> store_op E (\<lambda>io nid s. PurgeOutbox io (HH_OutboxOrder h s) wall tenantID before limit s);
              answer (case e of Some err \<Rightarrow> writeError (HH_ErrorText h) err | None \<Rightarrow> writeJSON 200 (Body_Purged purged))
            }))"

section \<open>Task handlers\<close>

text \<open>Enabling push callbacks needs a second authorization, which is audited on its own.\<close>

definition requireAdditionalAuthorization ::
  "hub_env \<Rightarrow> http_handler \<Rightarrow> principal option \<Rightarrow> string \<Rightarrow> action \<Rightarrow> (http_answer option \<times> audit_record list) hub" where
  "requireAdditionalAuthorization E h ctx requestID act =
     (case (ctx, HH_Authorizer h) of
        (Some p, Some authorize) \<Rightarrow> do {
          denied \<leftarrow> ask (\<lambda>t. authorize t p \<lparr>Request_Action = act, Request_ResourceID = ''''\<rparr>);
          now \<leftarrow> ask (e_clock E);
          State_Monad.return
            (if denied \<noteq> None
             then (Some (writeProblem 403 ''authorization'' ''FORBIDDEN'' ''the authenticated principal cannot perform this operation''),
                   [audit_of now requestID ''authorization_denied'' act p '''' ''insufficient_scope_or_policy''])
             else (None, [audit_of now requestID ''authorization_allowed'' act p '''' '''']))
        }
      | _ \<Rightarrow> do {
          now \<leftarrow> ask (e_clock E);
          State_Monad.return
            (Some (writeProblem 403 ''authorization'' ''FORBIDDEN'' ''the authenticated principal cannot perform this operation''),
             [audit_of now requestID ''authorization_denied'' act zero_principal '''' ''insufficient_scope_or_policy''])
        })"

definition submit_task :: "hub_env \<Rightarrow> http_handler \<Rightarrow> handler" where
  "submit_task E h ctx requestID q g =
     (case requireTenant ctx of
        Inl a \<Rightarrow> State_Monad.return (Some a, [], g)
      | Inr tenantID \<Rightarrow>
          (case decodeJSON h (D_submit (HH_Codec h)) q of
             Inl a \<Rightarrow> State_Monad.return (Some a, [], g)
           | Inr input \<Rightarrow> do {
               (refused, records) \<leftarrow>
                 (if Sub_EnablePush input then requireAdditionalAuthorization E h ctx requestID ''push.configure''
                  else State_Monad.return (None, []));
               case refused of
                 Some a \<Rightarrow> State_Monad.return (Some a, records, g)
               | None \<Rightarrow> do {
                   r \<leftarrow> SubmitTask E (HH_Hub h) tenantID input;
                   a \<leftarrow> reply_task h 202 r;
                   State_Monad.return (a, records, g)
                 }
             }))"

definition continue_task :: "hub_env \<Rightarrow> http_handler \<Rightarrow> principal option \<Rightarrow> http_request \<Rightarrow> http_answer option hub" where
  "continue_task E h ctx q = for_tenant ctx (\<lambda>tenantID.
     with_body h (D_continue (HH_Codec h)) q (\<lambda>input. do {
       r \<leftarrow> ContinueTask E (HH_Hub h) tenantID (Q_PathValue q ''taskID'') (Cont_Text input) (Cont_Parts input);
       reply_task h 202 r }))"

definition get_task :: "hub_env \<Rightarrow> http_handler \<Rightarrow> principal option \<Rightarrow> http_request \<Rightarrow> http_answer option hub" where
  "get_task E h ctx q = for_tenant ctx (\<lambda>tenantID. do {
     r \<leftarrow> store_get E (\<lambda>_. GetTask tenantID (Q_PathValue q ''taskID''));
     reply h 200 Body_Task r
   })"

definition cancel_task :: "hub_env \<Rightarrow> http_handler \<Rightarrow> principal option \<Rightarrow> http_request \<Rightarrow> http_answer option hub" where
  "cancel_task E h ctx q = for_tenant ctx (\<lambda>tenantID. do {
     r \<leftarrow> CancelTask E (HH_Hub h) tenantID (Q_PathValue q ''taskID''); reply_task h 200 r })"

definition wants_subscription :: "http_request \<Rightarrow> bool" where
  "wants_subscription q \<longleftrightarrow> ToLower (TrimSpace (Q_Query q ''subscribe'')) = ''true''"

definition reconcile_task :: "hub_env \<Rightarrow> http_handler \<Rightarrow> principal option \<Rightarrow> http_request \<Rightarrow> http_answer option hub" where
  "reconcile_task E h ctx q = for_tenant ctx (\<lambda>tenantID. do {
     r \<leftarrow> ReconcileTask E (HH_Hub h) tenantID (Q_PathValue q ''taskID'') (wants_subscription q);
     reply_task h 200 r })"

text \<open>\<open>strconv.ParseUint\<close> in base 10 with 64 bits.\<close>

definition parse_cursor :: "string \<Rightarrow> uint64 option" where
  "parse_cursor v =
     (if v = '''' then Some 0
      else if list_all is_digit v \<and> digits_value v < 2 ^ 64 then Some (of_int (digits_value v)) else None)"

definition sse_chunk :: "golib \<Rightarrow> event \<Rightarrow> uint64 \<times> string \<times> string" where
  "sse_chunk G ev = (Event_Sequence ev, Event_Type ev, G_json_event G ev)"

text \<open>The event stream, cut off after a number of polls.\<close>

fun stream_events ::
  "hub_env \<Rightarrow> http_handler \<Rightarrow> bool \<Rightarrow> string \<Rightarrow> string \<Rightarrow> nat \<Rightarrow> uint64 \<Rightarrow> event list \<Rightarrow>
   (uint64 \<times> string \<times> string) list hub" where
  "stream_events E h follow tenantID taskID 0 after es = State_Monad.return []"
| "stream_events E h follow tenantID taskID (Suc polls) after es =
     (let chunks = map (sse_chunk (H_Lib (HH_Hub h))) es;
          after' = (if es = [] then after else Event_Sequence (List.last es))
      in if \<not> follow then State_Monad.return chunks
         else do {
           r \<leftarrow> store_get E (\<lambda>_. GetTask tenantID taskID);
           case r of
             Inl _ \<Rightarrow> State_Monad.return chunks
           | Inr t \<Rightarrow>
               if TaskState_Terminal (Task_State t) \<and> after' \<ge> Task_LastSequence t then State_Monad.return chunks
               else do {
                 ended \<leftarrow> ask (HH_Cancelled h);
                 if ended then State_Monad.return chunks
                 else do {
                   more \<leftarrow> store_get E (\<lambda>_. EventsAfter tenantID taskID after');
                   case more of
                     Inl _ \<Rightarrow> State_Monad.return chunks
                   | Inr es' \<Rightarrow> do {
                       rest \<leftarrow> stream_events E h follow tenantID taskID polls after' es';
                       State_Monad.return (chunks @ rest)
                     }
                 }
               }
         })"

definition get_events :: "hub_env \<Rightarrow> http_handler \<Rightarrow> principal option \<Rightarrow> http_request \<Rightarrow> http_answer option hub" where
  "get_events E h ctx q = for_tenant ctx (\<lambda>tenantID.
     let v = (if Q_Query q ''after'' = '''' then Q_Header q ''Last-Event-ID'' else Q_Query q ''after'') in
     case parse_cursor v of
       None \<Rightarrow> answer (writeProblem 400 ''validation'' ''INVALID_CURSOR'' ''event cursor must be an unsigned integer'')
     | Some after \<Rightarrow> do {
         r \<leftarrow> store_get E (\<lambda>_. EventsAfter tenantID (Q_PathValue q ''taskID'') after);
         case r of
           Inl e \<Rightarrow> answer (writeError (HH_ErrorText h) e)
         | Inr es \<Rightarrow>
             if \<not> contains (Q_Header q ''Accept'') ''text/event-stream'' then answer (writeJSON 200 (Body_Events es))
             else do {
               chunks \<leftarrow> stream_events E h (Q_Query q ''follow'' = ''true'') tenantID (Q_PathValue q ''taskID'') (HH_Rounds h) after es;
               answer \<lparr>A_Status = 200, A_Headers = [(''Content-Type'', ''text/event-stream''), (''Cache-Control'', ''no-cache'')],
                       A_Body = Body_Stream chunks\<rparr>
             }
       })"

text \<open>The push callback is not behind the guard: its credential is the task's own token.\<close>

definition push :: "hub_env \<Rightarrow> http_handler \<Rightarrow> http_request \<Rightarrow> http_answer option hub" where
  "push E h q =
     (case D_push (HH_Codec h) of
        None \<Rightarrow> answer (writeProblem 501 ''protocol'' ''PUSH_NOT_CONFIGURED'' ''Push decoding is not configured'')
      | Some decode \<Rightarrow>
          (let tenantID = Q_Query q ''tenant''; authorization = Q_Header q ''Authorization'';
               token = TrimSpace (if has_prefix authorization ''Bearer '' then drop 7 authorization else authorization);
               limit = maxBodyBytes h; payload = limited_body limit (Q_Body q)
           in if tenantID = '''' then answer (writeProblem 400 ''validation'' ''TENANT_REQUIRED'' ''Push callback tenant is required'')
              else if token = '''' \<or> \<not> has_prefix authorization ''Bearer ''
              then answer (writeProblem 401 ''authentication'' ''PUSH_CREDENTIAL_REQUIRED'' ''Push Bearer credential is required'')
              else if Q_BodyFails q \<and> length (Q_Body q) < nat (wrap64 (limit + 1))
              then answer (writeProblem 400 ''validation'' ''INVALID_BODY'' ''request body could not be read'')
              else if int (length payload) > limit
              then answer (writeProblem 413 ''validation'' ''PAYLOAD_TOO_LARGE'' ''Push payload exceeds the configured limit'')
              else case decode payload of
                Inl e \<Rightarrow> answer (writeError (HH_ErrorText h) e)
              | Inr ob \<Rightarrow> do {
                  (_, e) \<leftarrow> AcceptPush E (HH_Hub h) tenantID (Q_PathValue q ''taskID'') token ob;
                  answer (case e of Some err \<Rightarrow> writeError (HH_ErrorText h) err
                    | None \<Rightarrow> \<lparr>A_Status = 204, A_Headers = [], A_Body = Body_None\<rparr>)
                }))"

section \<open>Workflow handlers\<close>

definition for_workflows ::
  "http_handler \<Rightarrow> principal option \<Rightarrow> (string \<Rightarrow> coordinator \<Rightarrow> http_answer option hub) \<Rightarrow> http_answer option hub" where
  "for_workflows h ctx f = for_tenant ctx (\<lambda>tenantID.
     case HH_Workflows h of
       None \<Rightarrow> answer (writeProblem 501 ''workflow'' ''WORKFLOW_NOT_CONFIGURED'' ''workflow coordination is not configured'')
     | Some C \<Rightarrow> f tenantID C)"

definition create_workflow :: "hub_env \<Rightarrow> http_handler \<Rightarrow> principal option \<Rightarrow> http_request \<Rightarrow> http_answer option hub" where
  "create_workflow E h ctx q = for_workflows h ctx (\<lambda>tenantID C.
     with_body h (D_workflow (HH_Codec h)) q (\<lambda>d. do {
       r \<leftarrow> StartWorkflow E C (HH_Rounds h) tenantID d; reply_flow h 202 r }))"

definition list_workflow_templates :: "http_handler \<Rightarrow> principal option \<Rightarrow> http_request \<Rightarrow> http_answer option hub" where
  "list_workflow_templates h ctx q = for_workflows h ctx (\<lambda>tenantID C.
     answer (writeJSON 200 (Body_Templates ListWorkflowTemplates)))"

definition start_workflow_template :: "hub_env \<Rightarrow> http_handler \<Rightarrow> principal option \<Rightarrow> http_request \<Rightarrow> http_answer option hub" where
  "start_workflow_template E h ctx q = for_workflows h ctx (\<lambda>tenantID C.
     with_body h (D_template (HH_Codec h)) q (\<lambda>input. do {
       r \<leftarrow> StartWorkflowTemplate E C (HH_Rounds h) tenantID (Q_PathValue q ''templateID'') input; reply_flow h 202 r }))"

definition list_workflows :: "hub_env \<Rightarrow> http_handler \<Rightarrow> principal option \<Rightarrow> http_request \<Rightarrow> http_answer option hub" where
  "list_workflows E h ctx q = for_workflows h ctx (\<lambda>tenantID C. do {
     ws \<leftarrow> Coordinator_ListWorkflows E (HH_WorkflowOrder h) tenantID; answer (writeJSON 200 (Body_Workflows ws)) })"

definition get_workflow :: "hub_env \<Rightarrow> http_handler \<Rightarrow> principal option \<Rightarrow> http_request \<Rightarrow> http_answer option hub" where
  "get_workflow E h ctx q = for_workflows h ctx (\<lambda>tenantID C. do {
     r \<leftarrow> Coordinator_GetWorkflow E tenantID (Q_PathValue q ''workflowID''); reply h 200 Body_Workflow r })"

definition reconcile_workflow :: "hub_env \<Rightarrow> http_handler \<Rightarrow> principal option \<Rightarrow> http_request \<Rightarrow> http_answer option hub" where
  "reconcile_workflow E h ctx q = for_workflows h ctx (\<lambda>tenantID C. do {
     r \<leftarrow> ReconcileWorkflow E C (HH_Rounds h) tenantID (Q_PathValue q ''workflowID'') (wants_subscription q);
     reply_flow h 200 r })"

definition continue_workflow :: "hub_env \<Rightarrow> http_handler \<Rightarrow> principal option \<Rightarrow> http_request \<Rightarrow> http_answer option hub" where
  "continue_workflow E h ctx q = for_workflows h ctx (\<lambda>tenantID C.
     with_body h (D_continue (HH_Codec h)) q (\<lambda>input. do {
       r \<leftarrow> ContinueWorkflow E C (HH_Rounds h) tenantID (Q_PathValue q ''workflowID'') (Cont_Text input) (Cont_Parts input);
       reply_flow h 202 r }))"

definition compensate_workflow :: "hub_env \<Rightarrow> http_handler \<Rightarrow> principal option \<Rightarrow> http_request \<Rightarrow> http_answer option hub" where
  "compensate_workflow E h ctx q = for_workflows h ctx (\<lambda>tenantID C. do {
     r \<leftarrow> CompensateWorkflow E C tenantID (Q_PathValue q ''workflowID''); reply_flow h 202 (Some r) })"

definition pause_workflow :: "hub_env \<Rightarrow> http_handler \<Rightarrow> principal option \<Rightarrow> http_request \<Rightarrow> http_answer option hub" where
  "pause_workflow E h ctx q = for_workflows h ctx (\<lambda>tenantID C. do {
     r \<leftarrow> PauseWorkflow E tenantID (Q_PathValue q ''workflowID''); reply_flow h 200 (Some r) })"

definition resume_workflow :: "hub_env \<Rightarrow> http_handler \<Rightarrow> principal option \<Rightarrow> http_request \<Rightarrow> http_answer option hub" where
  "resume_workflow E h ctx q = for_workflows h ctx (\<lambda>tenantID C. do {
     r \<leftarrow> ResumeWorkflow E tenantID (Q_PathValue q ''workflowID''); reply_flow h 200 (Some r) })"

definition cancel_workflow :: "hub_env \<Rightarrow> http_handler \<Rightarrow> principal option \<Rightarrow> http_request \<Rightarrow> http_answer option hub" where
  "cancel_workflow E h ctx q = for_workflows h ctx (\<lambda>tenantID C. do {
     r \<leftarrow> CancelWorkflow E C tenantID (Q_PathValue q ''workflowID''); reply_flow h 200 (Some r) })"

section \<open>Worker handlers\<close>

definition gate_mode_answer :: "gate \<Rightarrow> http_answer" where
  "gate_mode_answer g = writeJSON 200 (Body_Pairs [(''mode'', worker_mode_string (Gate_Mode g))])"

definition no_gate_answer :: http_answer where
  "no_gate_answer = writeProblem 501 ''worker'' ''WORKER_CONTROL_NOT_CONFIGURED'' ''worker control is not configured''"

definition worker_status :: "http_handler \<Rightarrow> handler" where
  "worker_status h ctx requestID q g =
     State_Monad.return (Some (if HH_WorkerGate h = NoController then no_gate_answer else gate_mode_answer g), [], g)"

definition set_workers :: "hub_env \<Rightarrow> http_handler \<Rightarrow> WorkerMode \<Rightarrow> (gate \<Rightarrow> gate) \<Rightarrow> gate \<Rightarrow> outcome hub" where
  "set_workers E h mode local g =
     (case HH_WorkerGate h of
        NoController \<Rightarrow> State_Monad.return (Some no_gate_answer, [], g)
      | LocalController \<Rightarrow> State_Monad.return (Some (gate_mode_answer (local g)), [], local g)
      | SharedController scope \<Rightarrow> do {
          (e, g') \<leftarrow> Gate_SetContext E scope mode g;
          State_Monad.return
            (Some (case e of Some err \<Rightarrow> writeError (HH_ErrorText h) err | None \<Rightarrow> gate_mode_answer g'), [], g')
        })"

definition pause_workers :: "hub_env \<Rightarrow> http_handler \<Rightarrow> handler" where
  "pause_workers E h ctx requestID q g = set_workers E h WorkerPaused Gate_Pause g"

definition resume_workers :: "hub_env \<Rightarrow> http_handler \<Rightarrow> handler" where
  "resume_workers E h ctx requestID q g = set_workers E h WorkerRunning Gate_Resume g"

definition drain_workers :: "hub_env \<Rightarrow> http_handler \<Rightarrow> handler" where
  "drain_workers E h ctx requestID q g = set_workers E h WorkerDraining Gate_BeginDrain g"

section \<open>Routes\<close>

text \<open>The protected routes, by method and pattern, with their actions and handlers.\<close>

definition routes :: "hub_env \<Rightarrow> http_handler \<Rightarrow> (string \<times> action \<times> handler) list" where
  "routes E h =
     [(''POST /v1/agents'', ''agent.register'', simple (register_agent E h)),
      (''GET /v1/agents'', ''agent.list'', simple (list_agents E h)),
      (''POST /v1/agents/{agentID}/refresh'', ''agent.refresh'', simple (refresh_agent E h)),
      (''GET /v1/outbox'', ''outbox.list'', simple (list_outbox E h)),
      (''POST /v1/outbox/{outboxID}/replay'', ''outbox.replay'', simple (replay_outbox E h)),
      (''POST /v1/outbox/purge'', ''outbox.purge'', simple (purge_outbox E h)),
      (''POST /v1/tasks'', ''task.submit'', submit_task E h),
      (''POST /v1/tasks/{taskID}/messages'', ''task.continue'', simple (continue_task E h)),
      (''GET /v1/tasks/{taskID}'', ''task.read'', simple (get_task E h)),
      (''GET /v1/tasks/{taskID}/events'', ''task.events'', simple (get_events E h)),
      (''POST /v1/tasks/{taskID}/cancel'', ''task.cancel'', simple (cancel_task E h)),
      (''POST /v1/tasks/{taskID}/reconcile'', ''task.reconcile'', simple (reconcile_task E h)),
      (''POST /v1/workflows'', ''workflow.create'', simple (create_workflow E h)),
      (''GET /v1/workflows'', ''workflow.list'', simple (list_workflows E h)),
      (''GET /v1/workflow-templates'', ''workflow.list'', simple (list_workflow_templates h)),
      (''POST /v1/workflow-templates/{templateID}/runs'', ''workflow.create'', simple (start_workflow_template E h)),
      (''GET /v1/workflows/{workflowID}'', ''workflow.read'', simple (get_workflow E h)),
      (''POST /v1/workflows/{workflowID}/reconcile'', ''workflow.control'', simple (reconcile_workflow E h)),
      (''POST /v1/workflows/{workflowID}/continue'', ''workflow.control'', simple (continue_workflow E h)),
      (''POST /v1/workflows/{workflowID}/compensate'', ''workflow.control'', simple (compensate_workflow E h)),
      (''POST /v1/workflows/{workflowID}/pause'', ''workflow.control'', simple (pause_workflow E h)),
      (''POST /v1/workflows/{workflowID}/resume'', ''workflow.control'', simple (resume_workflow E h)),
      (''POST /v1/workflows/{workflowID}/cancel'', ''workflow.control'', simple (cancel_workflow E h)),
      (''GET /v1/workers'', ''worker.read'', worker_status h),
      (''POST /v1/workers/pause'', ''worker.control'', pause_workers E h),
      (''POST /v1/workers/resume'', ''worker.control'', resume_workers E h),
      (''POST /v1/workers/drain'', ''worker.control'', drain_workers E h),
      (''POST /v1/security/revocations'', ''security.revoke'', simple (revoke_token E h)),
      (''GET /v1/artifacts/{artifactID}'', ''artifact.read'', simple (get_artifact E h)),
      (''GET /v1/artifacts/{artifactID}/content'', ''artifact.read'', simple (get_artifact_content E h))]"

definition serve :: "hub_env \<Rightarrow> http_handler \<Rightarrow> string \<Rightarrow> http_request \<Rightarrow> gate \<Rightarrow> outcome hub" where
  "serve E h route q g =
     (if route = ''POST /v1/tasks/{taskID}/push'' then do { a \<leftarrow> push E h q; State_Monad.return (a, [], g) }
      else case map_of (routes E h) route of
        None \<Rightarrow> State_Monad.return (Some \<lparr>A_Status = 404, A_Headers = [], A_Body = Body_None\<rparr>, [], g)
      | Some (act, handle) \<Rightarrow> protected E h act handle q g)"

end
