(* ===== verification/Http_Guarantees.thy ===== *)
theory Http_Guarantees
  imports Http_Api Workflow_Guarantees
begin

text \<open>
  What holds of the management interface: every handler takes legal steps of the store only, the guard lets
  nothing through that was not authenticated, admitted and authorized, and the event stream has no gaps.
\<close>

section \<open>The interface takes legal steps only\<close>

lemma plain_ReplayOutbox: "outbox (snd (ReplayOutbox io tn i now s)) = outbox s \<and> inbox (snd (ReplayOutbox io tn i now s)) = inbox s"
  by (auto simp: ReplayOutbox_def Let_def outbox_state_record_def commit_plain split: option.split)

lemma plain_purge_loop:
  "outbox (snd (purge_loop io wall tn before n ks c s)) = outbox s \<and> inbox (snd (purge_loop io wall tn before n ks c s)) = inbox s"
proof (induction ks arbitrary: c s)
  case (Cons k ks)
  have "outbox (snd (commit (io c) (outbox_state_record k st) s)) = outbox s \<and>
      inbox (snd (commit (io c) (outbox_state_record k st) s)) = inbox s" for st
    by (rule commit_plain) (simp add: outbox_state_record_def)
  then show ?case using Cons.IH by (auto simp: Let_def split: option.split prod.split) (metis snd_conv)+
qed simp

lemma safe_outbox_admin [hub_safe]:
  assumes "env_ok E"
  shows "safe E (store_op E (\<lambda>io nid. ReplayOutbox (io 0) tn i now))"
    and "safe E (store_op E (\<lambda>io nid s. PurgeOutbox io (ks s) wall tn before n s))"
proof -
  show "safe E (store_op E (\<lambda>io nid. ReplayOutbox (io 0) tn i now))"
    by (rule safe_store_op_plain [OF assms]; simp add: plain_ReplayOutbox store_step.intros)
  have "outbox (snd (PurgeOutbox io ks wall tn before n s)) = outbox s \<and> inbox (snd (PurgeOutbox io ks wall tn before n s)) = inbox s"
    for io ks s using plain_purge_loop by (simp add: PurgeOutbox_def)
  then show "safe E (store_op E (\<lambda>io nid s. PurgeOutbox io (ks s) wall tn before n s))"
    by (intro safe_store_op_plain [OF assms] do_PurgeOutbox) simp_all
qed

definition ctx_ok :: "principal option \<Rightarrow> bool" where
  "ctx_ok ctx \<longleftrightarrow> (\<forall>p. ctx = Some p \<longrightarrow> nul_free (Principal_TenantID p))"

lemma safe_answers [hub_safe]:
  "safe E (answer a)" "safe E (reply h status body r)" "safe E (reply_task h status tr)" "safe E (reply_flow h status fr)"
  by (auto simp: answer_def reply_def reply_task_def reply_flow_def safe_return split: option.split)

lemma safe_for_tenant [hub_safe]:
  assumes "ctx_ok ctx" "\<And>tn. nul_free tn \<Longrightarrow> safe E (f tn)"
  shows "safe E (for_tenant ctx f)"
  using assms by (auto simp: for_tenant_def requireTenant_def ctx_ok_def safe_answers split: option.split)

lemma safe_with_body [hub_safe]: "(\<And>v. safe E (f v)) \<Longrightarrow> safe E (with_body h decode q f)"
  by (auto simp: with_body_def safe_answers split: sum.split)

lemma safe_for_workflows [hub_safe]:
  assumes "ctx_ok ctx" "\<And>tn C. nul_free tn \<Longrightarrow> safe E (f tn C)"
  shows "safe E (for_workflows h ctx f)"
  unfolding for_workflows_def by (intro safe_for_tenant assms(1)) (auto simp: safe_answers intro: assms(2) split: option.split)

lemma safe_task_calls [hub_safe]:
  assumes "env_ok E"
  shows "safe E (ReconcileTask E H tn i sub)" "safe E (ContinueTask E H tn i tx ps)" "safe E (CancelTask E H tn i)"
    and "nul_free tn \<Longrightarrow> safe E (SubmitTask E H tn input)"
  using post_ReconcileTask [OF assms] post_ContinueTask [OF assms] post_CancelTask [OF assms] post_SubmitTask [OF assms]
  by (blast intro: safe_weaken)+

lemma safe_flow_reads [hub_safe]:
  "env_ok E \<Longrightarrow> safe E (Coordinator_ListWorkflows E order tn)" "env_ok E \<Longrightarrow> safe E (Coordinator_GetWorkflow E tn i)"
  by (simp_all add: Coordinator_ListWorkflows_def Coordinator_GetWorkflow_def safe_store_get safe_get_flow)

lemma safe_stream_events [hub_safe]: "env_ok E \<Longrightarrow> safe E (stream_events E h follow tn i polls after es)"
proof (induction polls arbitrary: after es)
  case (Suc polls)
  then show ?case by (simp only: stream_events.simps Let_def) ((rule hub_safe | simp)+)
qed (simp add: safe_return)

lemmas handler_defs = get_artifact_def get_artifact_content_def revoke_token_def register_agent_def list_agents_def
  refresh_agent_def list_outbox_def replay_outbox_def purge_outbox_def continue_task_def get_task_def cancel_task_def
  reconcile_task_def get_events_def create_workflow_def list_workflow_templates_def start_workflow_template_def
  list_workflows_def get_workflow_def reconcile_workflow_def continue_workflow_def compensate_workflow_def
  pause_workflow_def resume_workflow_def cancel_workflow_def

lemma safe_artifact_handlers [hub_safe]:
  assumes "env_ok E" "ctx_ok ctx"
  shows "safe E (get_artifact E h ctx q)" "safe E (get_artifact_content E h ctx q)" "safe E (revoke_token E h ctx q)"
  unfolding handler_defs Let_def by (rule hub_safe assms | simp)+

lemma safe_agent_handlers [hub_safe]:
  assumes "env_ok E" "ctx_ok ctx"
  shows "safe E (register_agent E h ctx q)" "safe E (list_agents E h ctx q)" "safe E (refresh_agent E h ctx q)"
  unfolding handler_defs RegisterAgent_def Let_def by (rule hub_safe assms | simp)+

lemma safe_outbox_handlers [hub_safe]:
  assumes "env_ok E" "ctx_ok ctx"
  shows "safe E (list_outbox E h ctx q)" "safe E (replay_outbox E h ctx q)" "safe E (purge_outbox E h ctx q)"
  unfolding handler_defs Let_def by (rule hub_safe assms | simp)+

lemma safe_task_handlers [hub_safe]:
  assumes "env_ok E" "ctx_ok ctx"
  shows "safe E (continue_task E h ctx q)" "safe E (get_task E h ctx q)" "safe E (cancel_task E h ctx q)"
    "safe E (reconcile_task E h ctx q)" "safe E (get_events E h ctx q)"
  unfolding handler_defs Let_def by (rule hub_safe assms | simp)+

lemma safe_workflow_handlers [hub_safe]:
  assumes "env_ok E" "ctx_ok ctx"
  shows "safe E (create_workflow E h ctx q)" "safe E (list_workflow_templates h ctx q)" "safe E (start_workflow_template E h ctx q)"
    "safe E (list_workflows E h ctx q)" "safe E (get_workflow E h ctx q)" "safe E (reconcile_workflow E h ctx q)"
    "safe E (continue_workflow E h ctx q)" "safe E (compensate_workflow E h ctx q)" "safe E (pause_workflow E h ctx q)"
    "safe E (resume_workflow E h ctx q)" "safe E (cancel_workflow E h ctx q)"
  unfolding handler_defs by (rule hub_safe assms | simp)+

lemma safe_push [hub_safe]: "env_ok E \<Longrightarrow> safe E (push E h q)"
  unfolding push_def Let_def by (rule hub_safe | simp)+

lemma safe_submit_task [hub_safe]:
  assumes "env_ok E" "ctx_ok ctx"
  shows "safe E (submit_task E h ctx rid q g)"
proof -
  have tn: "nul_free tn" if "requireTenant ctx = Inr tn" for tn
    using assms(2) that by (auto simp: requireTenant_def ctx_ok_def split: option.splits if_splits)
  have additional: "safe E (requireAdditionalAuthorization E h ctx rid act)" for act
    unfolding requireAdditionalAuthorization_def by (rule hub_safe | simp)+
  show ?thesis
    unfolding submit_task_def by (rule additional tn hub_safe assms | assumption | simp)+
qed

lemma safe_worker_handlers [hub_safe]:
  assumes "env_ok E"
  shows "safe E (worker_status h ctx rid q g)" "safe E (pause_workers E h ctx rid q g)" "safe E (resume_workers E h ctx rid q g)"
    "safe E (drain_workers E h ctx rid q g)"
proof -
  have s: "safe E (set_workers E h mode lg g)" for mode lg
  proof (cases "HH_WorkerGate h")
    case (SharedController scope)
    show ?thesis unfolding set_workers_def SharedController by simp (rule hub_safe assms | simp)+
  qed (simp_all add: set_workers_def safe_return)
  show "safe E (worker_status h ctx rid q g)" by (simp add: worker_status_def safe_return)
  show "safe E (pause_workers E h ctx rid q g)" "safe E (resume_workers E h ctx rid q g)" "safe E (drain_workers E h ctx rid q g)"
    by (simp_all add: pause_workers_def resume_workers_def drain_workers_def s)
qed

lemma safe_simple: "(safe E (f ctx q)) \<Longrightarrow> safe E (simple f ctx rid q g)"
  unfolding simple_def by (rule hub_safe | assumption)+

lemma safe_routes:
  assumes "env_ok E" "ctx_ok ctx" "(r, act, handle) \<in> set (routes E h)"
  shows "safe E (handle ctx rid q g)"
  using assms(3) unfolding routes_def list.set insert_iff empty_iff prod.inject
  by (elim disjE conjE)
    (simp_all add: safe_simple safe_artifact_handlers safe_agent_handlers safe_outbox_handlers safe_task_handlers
      safe_workflow_handlers safe_submit_task safe_worker_handlers assms(1,2))

section \<open>The guard\<close>

text \<open>An answer that the guard gives itself: its status, and what it reports to the audit sink last.\<close>

definition refused :: "int \<Rightarrow> string \<Rightarrow> gate \<Rightarrow> outcome \<Rightarrow> bool" where
  "refused status decision g out \<longleftrightarrow>
     (case out of (a, rs, g') \<Rightarrow> map_option A_Status a = Some status \<and> rs \<noteq> [] \<and> Audit_Decision (List.last rs) = decision \<and> g' = g)"

text \<open>An answer of the handler, run for a principal after the two records that let it in.\<close>

definition admitted :: "handler \<Rightarrow> principal \<Rightarrow> http_request \<Rightarrow> gate \<Rightarrow> world \<Rightarrow> outcome \<Rightarrow> world \<Rightarrow> bool" where
  "admitted handle p q g w out w' \<longleftrightarrow>
     (\<exists>rid a rs a' rs'. run_state (handle (Some p) rid q g) w = ((a, rs, snd (snd out)), w') \<and> out = (a', rs' @ rs, snd (snd out)) \<and>
        map_option A_Status a' = map_option A_Status a \<and> map_option A_Body a' = map_option A_Body a \<and>
        map Audit_Decision rs' = [''authentication_allowed'', ''authorization_allowed''] \<and>
        (\<forall>r\<in>set rs'. Audit_TenantID r = Principal_TenantID p \<and> Audit_Subject r = Principal_Subject p))"

definition guard_ran ::
  "http_handler \<Rightarrow> authenticator \<Rightarrow> authorizer \<Rightarrow> action \<Rightarrow> handler \<Rightarrow> http_request \<Rightarrow> gate \<Rightarrow> world \<Rightarrow> outcome \<Rightarrow> world \<Rightarrow> bool" where
  "guard_ran h auth authz act handle q g w out w' \<longleftrightarrow>
     (\<exists>r w1. run_state (auth q) w = (r, w1) \<and>
        (isl r \<and> refused 401 ''authentication_denied'' g out \<and> w_store w' = w_store w1 \<or>
         (\<exists>p t. r = Inr p \<and>
            ((\<exists>l. HH_Limiter h = Some l \<and> \<not> snd (l t p \<lparr>Request_Action = act, Request_ResourceID = resource_of q\<rparr>)) \<and>
               refused 429 ''rate_limited'' g out \<and> w_store w' = w_store w1 \<or>
             authz t p \<lparr>Request_Action = act, Request_ResourceID = resource_of q\<rparr> \<noteq> None \<and>
               refused 403 ''authorization_denied'' g out \<and> w_store w' = w_store w1 \<or>
             (\<exists>w2. authz t p \<lparr>Request_Action = act, Request_ResourceID = resource_of q\<rparr> = None \<and> w_store w2 = w_store w1 \<and>
               admitted handle p q g w2 out w')))))"

lemma with_request_id_refused [simp]: "refused status decision g (with_request_id rid out) = refused status decision g out"
  by (cases out) (auto simp: refused_def with_request_id_def split: option.split)

lemma with_request_id_admitted: "admitted handle p q g w out w' \<Longrightarrow> admitted handle p q g w (with_request_id rid out) w'"
  unfolding admitted_def with_request_id_def
  by (cases out) (fastforce simp: option.map_comp comp_def)

lemma with_request_id_guard: "guard_ran h auth authz act handle q g w out w' \<Longrightarrow>
   guard_ran h auth authz act handle q g w (with_request_id rid out) w'"
  unfolding guard_ran_def using with_request_id_admitted by fastforce

lemma guarded_guard_ran:
  assumes "run_state (guarded E h auth authz act handle rid q g) w = (out, w')"
  shows "guard_ran h auth authz act handle q g w out w'"
proof -
  let ?req = "\<lparr>Request_Action = act, Request_ResourceID = resource_of q\<rparr>"
  obtain r w1 where r: "run_state (auth q) w = (r, w1)" by fastforce
  show ?thesis
  proof (cases r)
    case (Inl e)
    then show ?thesis using assms r
      by (auto simp: guarded_def guard_ran_def refused_def audit_of_def writeProblem_def writeJSON_def)
  next
    case (Inr p)
    show ?thesis
    proof (cases "\<exists>l. HH_Limiter h = Some l \<and> \<not> snd (l (Suc (w_tick w1)) p ?req)")
      case True
      then have "refused 429 ''rate_limited'' g out \<and> w_store w' = w_store w1"
        using assms r Inr
        by (auto simp: guarded_def refused_def audit_of_def rate_limited_def writeProblem_def writeJSON_def
            limiter_answer_def Let_def split: prod.splits if_splits)
      then show ?thesis unfolding guard_ran_def using r Inr True by blast
    next
      case False
      then have lim: "\<exists>x t. run_state (limiter_answer h p ?req) (w1\<lparr>w_tick := Suc (w_tick w1)\<rparr>) = ((x, True), w1\<lparr>w_tick := t\<rparr>)"
        by (auto simp: limiter_answer_def split: option.split) (metis prod.collapse)
      then obtain x t where l: "run_state (limiter_answer h p ?req) (w1\<lparr>w_tick := Suc (w_tick w1)\<rparr>) = ((x, True), w1\<lparr>w_tick := t\<rparr>)"
        by blast
      show ?thesis
      proof (cases "authz t p ?req")
        case None
        let ?w2 = "w1\<lparr>w_tick := Suc (Suc t)\<rparr>"
        obtain out1 w3 where "run_state (handle (Some p) rid q g) ?w2 = (out1, w3)" by fastforce
        moreover obtain a rs g1 where "out1 = (a, rs, g1)" by (cases out1)
        ultimately have run: "run_state (handle (Some p) rid q g) ?w2 = ((a, rs, g1), w3)" by simp
        let ?rs = "[audit_of (e_clock E (w_tick w1)) rid ''authentication_allowed'' act p '''' '''',
          audit_of (e_clock E (Suc t)) rid ''authorization_allowed'' act p (resource_of q) '''']"
        have "out = (a, ?rs @ rs, g1) \<and> w' = w3"
          using assms r Inr l None run by (simp add: guarded_def Let_def)
        then have "admitted handle p q g ?w2 out w'"
          unfolding admitted_def using run
          by (intro exI [of _ rid] exI [of _ a] exI [of _ rs] exI [of _ a] exI [of _ ?rs]) (simp add: audit_of_def)
        moreover have "w_store ?w2 = w_store w1" by simp
        ultimately show ?thesis unfolding guard_ran_def using r Inr None by blast
      next
        case (Some e)
        then have "refused 403 ''authorization_denied'' g out \<and> w_store w' = w_store w1"
          using assms r Inr l
          by (auto simp: guarded_def Let_def refused_def audit_of_def writeProblem_def writeJSON_def)
        then show ?thesis unfolding guard_ran_def using r Inr Some by blast
      qed
    qed
  qed
qed

lemma protected_cases:
  assumes "run_state (protected E h act handle q g) w = (out, w')"
  shows "(HH_Authenticator h = None \<or> HH_Authorizer h = None) \<and> refused 500 ''configuration_error'' g out \<and> w_store w' = w_store w \<or>
    (\<exists>auth authz. HH_Authenticator h = Some auth \<and> HH_Authorizer h = Some authz \<and>
      guard_ran h auth authz act handle q g (w\<lparr>w_tick := Suc (Suc (w_tick w))\<rparr>) out w')"
proof (cases "HH_Authenticator h = None \<or> HH_Authorizer h = None")
  case True
  then have "refused 500 ''configuration_error'' g out \<and> w_store w' = w_store w"
    using assms by (cases "HH_Authenticator h"; cases "HH_Authorizer h")
      (auto simp: protected_def Let_def refused_def audit_of_def writeProblem_def writeJSON_def with_request_id_def)
  with True show ?thesis by blast
next
  case False
  then obtain auth authz where a: "HH_Authenticator h = Some auth" "HH_Authorizer h = Some authz" by auto
  let ?w = "w\<lparr>w_tick := Suc (Suc (w_tick w))\<rparr>"
  let ?rid = "if TrimSpace (Q_Header q ''X-Request-ID'') = '''' then e_id E (w_tick w) else TrimSpace (Q_Header q ''X-Request-ID'')"
  obtain out1 w1 where r: "run_state (guarded E h auth authz act handle ?rid q g) ?w = (out1, w1)" by fastforce
  then have "out = with_request_id ?rid out1 \<and> w' = w1"
    using assms a by (simp add: protected_def Let_def)
  with with_request_id_guard [OF guarded_guard_ran [OF r]] have "guard_ran h auth authz act handle q g ?w out w'" by simp
  with a show ?thesis by blast
qed

text \<open>Under an authenticator whose principals have tenants without a zero byte, the whole interface is safe.\<close>

definition good_authenticator :: "hub_env \<Rightarrow> authenticator \<Rightarrow> bool" where
  "good_authenticator E auth \<longleftrightarrow> (\<forall>q. safe_post E (auth q) (\<lambda>r. \<forall>p. r = Inr p \<longrightarrow> nul_free (Principal_TenantID p)))"

lemma safe_limiter [hub_safe]: "safe E (limiter_answer h p r)"
  by (auto simp: limiter_answer_def safe_return safe_ask split: option.split)

lemma safe_guarded:
  assumes "env_ok E" "good_authenticator E auth"
    and "\<And>p rid. nul_free (Principal_TenantID p) \<Longrightarrow> safe E (handle (Some p) rid q g)"
  shows "safe E (guarded E h auth authz act handle rid q g)"
  unfolding guarded_def Let_def
proof (rule safe_post_bind)
  show "safe_post E (auth q) (\<lambda>r. \<forall>p. r = Inr p \<longrightarrow> nul_free (Principal_TenantID p))"
    using assms(2) by (simp add: good_authenticator_def)
qed (rule hub_safe assms(1,3) | simp)+

lemma safe_serve:
  assumes "env_ok E" "\<And>auth. HH_Authenticator h = Some auth \<Longrightarrow> good_authenticator E auth"
  shows "safe E (serve E h route q g)"
proof -
  have "safe E (protected E h act handle q g)" if "(route, act, handle) \<in> set (routes E h)" for act handle
    unfolding protected_def Let_def
    by (rule safe_guarded [OF assms] safe_routes [OF assms(1) _ that] | rule hub_safe | (simp add: ctx_ok_def; fail) | simp)+
  then show ?thesis
    unfolding serve_def by (auto intro!: hub_safe assms(1) split: option.split dest: map_of_SomeD)
qed

lemma routes_known: "(r, act, handle) \<in> set (routes E h) \<Longrightarrow> knownAction act"
  unfolding routes_def knownAction_def action_scopes_def by auto

section \<open>The event stream\<close>

lemma safe_run:
  assumes "safe_post E m Q" "world_ok E w" "run_state m w = (x, w')"
  shows "world_ok E w'" "hub_steps (w_store w) (w_store w')" "store_inv (w_store w')" "advanced (w_store w) (w_store w')"
proof -
  show "world_ok E w'" "hub_steps (w_store w) (w_store w')" using assms unfolding safe_post_def by blast+
  then show "store_inv (w_store w')" "advanced (w_store w) (w_store w')"
    using store_steps_keep [of _ _ _ "w_store w" "w_store w'"] assms(2) by (simp_all add: world_ok_def)
qed

lemma advanced_log: "advanced s s' \<Longrightarrow> \<exists>es. events s' k = events s k @ es"
  by (simp add: advanced_def)

lemma run_EventsAfter:
  assumes "env_ok E" "world_ok E w" "run_state (store_get E (\<lambda>_. EventsAfter tn i after)) w = (Inr es, w1)"
    and "length (events (w_store w1) (resourceKey tn i)) < 2 ^ 64"
  shows "es = drop (unat after) (events (w_store w1) (resourceKey tn i))"
    and "map Event_Sequence (events (w_store w1) (resourceKey tn i)) =
      map of_nat [1..<Suc (length (events (w_store w1) (resourceKey tn i)))]"
proof -
  have inv: "store_inv (w_store w1)" by (rule safe_run(3) [OF safe_store_get [OF assms(1)] assms(2,3)])
  have r: "EventsAfter tn i after (w_store w1) = Inr es" using assms(3) by (auto simp: run_state_store_get)
  then obtain t where t: "tasks (w_store w1) (resourceKey tn i) = Some t"
    by (auto simp: EventsAfter_def Let_def split: option.splits)
  show "es = drop (unat after) (events (w_store w1) (resourceKey tn i))"
    using EventsAfter_drop [OF store_invD(1) [OF inv] t assms(4)] r by simp
  show "map Event_Sequence (events (w_store w1) (resourceKey tn i)) =
      map of_nat [1..<Suc (length (events (w_store w1) (resourceKey tn i)))]"
    using task_invD(2) [OF store_invD(1) [OF inv] t] by (simp add: log_ok_def)
qed

lemma numbered_last:
  assumes "map Event_Sequence es = map of_nat [1..<Suc (length es)]" "es \<noteq> []" "length es < 2 ^ 64"
  shows "unat (Event_Sequence (List.last es)) = length es"
proof -
  have "Event_Sequence (List.last es) = List.last (map Event_Sequence es)" using assms(2) by (simp add: last_map)
  also have "\<dots> = of_nat (length es)" unfolding assms(1) using assms(2) by (simp add: last_map Suc_le_eq)
  finally show ?thesis using assms(3) by (simp add: unat_of_nat)
qed

text \<open>What a stream has sent is an initial part of the events after the cursor, as the log has them in the end.\<close>

lemma stream_is_prefix:
  assumes "env_ok E" "world_ok E w" "run_state (stream_events E h follow tn i polls after es) w = (chunks, w')"
    and "es = drop (unat after) log" "events (w_store w) (resourceKey tn i) = log @ later"
    and "map Event_Sequence log = map of_nat [1..<Suc (length log)]"
    and "length (events (w_store w') (resourceKey tn i)) < 2 ^ 64"
  shows "\<exists>n. chunks = map (sse_chunk (H_Lib (HH_Hub h))) (take n (drop (unat after) (events (w_store w') (resourceKey tn i))))"
  using assms(2-)
proof (induction polls arbitrary: after es w chunks log later)
  case 0
  then show ?case by (intro exI [of _ 0]) simp
next
  case (Suc polls)
  let ?G = "sse_chunk (H_Lib (HH_Hub h))" and ?k = "resourceKey tn i"
  let ?F = "events (w_store w') ?k" and ?after = "if es = [] then after else Event_Sequence (List.last es)"
  obtain x where F: "?F = log @ x"
    using advanced_log [OF safe_run(4) [OF safe_stream_events [OF assms(1)] Suc.prems(1,2)], of ?k] Suc.prems(4) by auto
  have now: "es = take (length log - unat after) (drop (unat after) ?F)"
    using Suc.prems(3) by (simp add: F)
  have enough: ?case if "chunks = map ?G es" using that now by metis
  obtain r1 w1 where 1: "run_state (store_get E (\<lambda>_. GetTask tn i)) w = (r1, w1)" by fastforce
  let ?w2 = "w1\<lparr>w_tick := Suc (w_tick w1)\<rparr>"
  obtain r3 w3 where 3: "run_state (store_get E (\<lambda>_. EventsAfter tn i ?after)) ?w2 = (r3, w3)" by fastforce
  show ?case
  proof (cases "\<exists>t es'. follow \<and> r1 = Inr t \<and> \<not> (TaskState_Terminal (Task_State t) \<and> ?after \<ge> Task_LastSequence t) \<and>
      \<not> HH_Cancelled h (w_tick w1) \<and> r3 = Inr es'")
    case False
    then have "chunks = map ?G es"
      using Suc.prems(2) 1 3 by (auto simp: Let_def split: sum.splits if_splits)
    then show ?thesis by (rule enough)
  next
    case True
    then obtain t es' where tr: "follow" "r1 = Inr t" "\<not> (TaskState_Terminal (Task_State t) \<and> ?after \<ge> Task_LastSequence t)"
      "\<not> HH_Cancelled h (w_tick w1)" and es': "r3 = Inr es'" by blast
    obtain rest where rest: "run_state (stream_events E h follow tn i polls ?after es') w3 = (rest, w')" "chunks = map ?G es @ rest"
      using tr es' Suc.prems(2) 1 3 by (auto simp: Let_def split: prod.splits)
    have w2: "world_ok E ?w2"
      using safe_run(1) [OF safe_store_get [OF assms(1)] Suc.prems(1) 1] by (simp add: world_ok_def)
    have w3: "world_ok E w3" by (rule safe_run(1) [OF safe_store_get [OF assms(1)] w2 3])
    obtain y where y: "?F = events (w_store w3) ?k @ y"
      using advanced_log [OF safe_run(4) [OF safe_stream_events [OF assms(1)] w3 rest(1)]] by blast
    have len: "length (events (w_store w3) ?k) < 2 ^ 64" using Suc.prems(6) unfolding y by simp
    note ea = run_EventsAfter [OF assms(1) w2 3 [unfolded es'] len]
    obtain n where n: "rest = map ?G (take n (drop (unat ?after) ?F))"
      using Suc.IH [OF w3 rest(1) ea(1) _ ea(2) Suc.prems(6), of "[]"] by auto
    show ?thesis
    proof (cases "es = []")
      case True
      with n rest(2) show ?thesis by auto
    next
      case False
      then have a: "unat after < length log" using Suc.prems(3) by simp
      then have "List.last es = List.last log" "log \<noteq> []" using Suc.prems(3) by (auto simp: last_drop)
      moreover have "length log < 2 ^ 64" using Suc.prems(6) by (simp add: F)
      ultimately have "unat ?after = length log" using numbered_last [OF Suc.prems(5)] False by simp
      with n have "rest = map ?G (take n x)" by (simp add: F)
      moreover have "drop (unat after) ?F = es @ x" using a Suc.prems(3) by (simp add: F)
      ultimately show ?thesis using rest(2) by (intro exI [of _ "length es + n"]) simp
    qed
  qed
qed

section \<open>Reading over the interface\<close>

lemma writeError_status: "A_Status (writeError msg e) \<ge> 400"
  by (simp add: writeError_def writeProblem_def writeJSON_def federation_status_def split: option.split)

lemma refused_status: "refused status decision g (Some ans, rs, g') \<Longrightarrow> A_Status ans = status"
  by (simp add: refused_def)

text \<open>What the guard let through, from an answer that is not one of its refusals.\<close>

lemma protected_answered:
  assumes "run_state (protected E h act handle q g) w = ((Some ans, rs, g'), w')" "A_Status ans < 400"
    and "env_ok E" "world_ok E w" "HH_Authenticator h = Some auth" "good_authenticator E auth"
  shows "\<exists>p w1 w2 rid ans' rs' authz t. run_state (auth q) (w\<lparr>w_tick := Suc (Suc (w_tick w))\<rparr>) = (Inr p, w1) \<and>
    HH_Authorizer h = Some authz \<and> authz t p \<lparr>Request_Action = act, Request_ResourceID = resource_of q\<rparr> = None \<and>
    nul_free (Principal_TenantID p) \<and> store_inv (w_store w2) \<and>
    run_state (handle (Some p) rid q g) w2 = ((Some ans', rs', g'), w') \<and> A_Status ans' = A_Status ans \<and> A_Body ans' = A_Body ans"
proof -
  let ?w = "w\<lparr>w_tick := Suc (Suc (w_tick w))\<rparr>"
  obtain authz where authz: "HH_Authorizer h = Some authz" "guard_ran h auth authz act handle q g ?w (Some ans, rs, g') w'"
    using protected_cases [OF assms(1)] assms(2,5) refused_status by fastforce
  obtain r w1 where r: "run_state (auth q) ?w = (r, w1)" by fastforce
  have "world_ok E ?w" using assms(4) by (simp add: world_ok_def)
  then have post: "world_ok E w1" "\<forall>p. r = Inr p \<longrightarrow> nul_free (Principal_TenantID p)"
    using assms(6) r unfolding good_authenticator_def safe_post_def by blast+
  obtain p t w2 where p: "r = Inr p" "authz t p \<lparr>Request_Action = act, Request_ResourceID = resource_of q\<rparr> = None"
    "w_store w2 = w_store w1" "admitted handle p q g w2 (Some ans, rs, g') w'"
    using authz(2) r assms(2) refused_status unfolding guard_ran_def by fastforce
  from p(4) obtain rid a rs1 a' rs2 where h0: "run_state (handle (Some p) rid q g) w2 = ((a, rs1, g'), w')"
    "(Some ans, rs, g') = (a', rs2 @ rs1, g')" "map_option A_Status a' = map_option A_Status a" "map_option A_Body a' = map_option A_Body a"
    unfolding admitted_def snd_conv by blast
  then obtain ans' where h: "run_state (handle (Some p) rid q g) w2 = ((Some ans', rs1, g'), w')"
    "A_Status ans' = A_Status ans" "A_Body ans' = A_Body ans" by (cases a) auto
  have "store_inv (w_store w2)" using post(1) p(3) by (simp add: world_ok_def)
  with r p h post(2) authz(1) show ?thesis by blast
qed

lemma route_get_task: "map_of (routes E h) ''GET /v1/tasks/{taskID}'' = Some (''task.read'', simple (get_task E h))"
  by (simp add: routes_def)

lemma run_get_task:
  assumes "run_state (simple (get_task E h) (Some p) rid q g) w = ((Some ans, rs, g'), w')" "A_Status ans < 400"
  shows "\<exists>t. GetTask (Principal_TenantID p) (Q_PathValue q ''taskID'') (e_other E (w_tick w) (w_store w)) = Inr t \<and>
    A_Body ans = Body_Task (t\<lparr>Task_PushTokenHash := ''''\<rparr>)"
proof (cases "Principal_TenantID p = ''''")
  case True
  with assms show ?thesis
    by (auto simp: simple_def get_task_def for_tenant_def requireTenant_def answer_def writeProblem_def writeJSON_def)
next
  case False
  with assms writeError_status [of "HH_ErrorText h"] show ?thesis
    by (cases "GetTask (Principal_TenantID p) (Q_PathValue q ''taskID'') (e_other E (w_tick w) (w_store w))")
      (auto simp: simple_def get_task_def for_tenant_def requireTenant_def answer_def reply_def run_state_store_get writeJSON_def
        not_less [symmetric])
qed

lemma GetTask_own:
  assumes "store_inv s" "GetTask tn i s = Inr t" "nul_free tn"
  shows "Task_TenantID t = tn \<and> Task_ID t = i"
proof -
  have "nul_free (Task_TenantID t)"
    using store_invD(8) [OF assms(1)] assms(2) by (auto simp: tenants_inv_def GetTask_def split: option.splits)
  with GetTask_tenant [OF store_invD(1) [OF assms(1)] assms(2,3)] show ?thesis by blast
qed

section \<open>A concrete interface\<close>

definition example_codec :: http_codec where
  "example_codec =
     \<lparr>D_register = (\<lambda>_. Inl ErrNotFound), D_revoke = (\<lambda>_. Inl ErrNotFound), D_submit = (\<lambda>_. Inl ErrNotFound),
      D_continue = (\<lambda>_. Inl ErrNotFound), D_workflow = (\<lambda>_. Inl ErrNotFound), D_template = (\<lambda>_. Inl ErrNotFound),
      D_time = (\<lambda>_. Inl ErrNotFound), D_push = None, D_attachment = (\<lambda>s. s)\<rparr>"

definition example_handler :: http_handler where
  "example_handler =
     \<lparr>HH_Hub = example_config, HH_Workflows = None, HH_WorkerGate = LocalController, HH_Codec = example_codec,
      HH_MaxBodyBytes = 0, HH_Authenticator = Some (\<lambda>q. State_Monad.return (Inr (zero_principal
        \<lparr>Principal_Subject := ''s'', Principal_TenantID := ''t'', Principal_Scopes := [''*'']\<rparr>))),
      HH_Authorizer = Some (\<lambda>_. ScopeAuthorizer_Authorize DefaultScopeAuthorizer), HH_Limiter = None,
      HH_ErrorText = (\<lambda>_. ''''), HH_Cancelled = (\<lambda>_. False), HH_Rounds = 2, HH_OutboxOrder = (\<lambda>_. []),
      HH_WorkflowOrder = (\<lambda>_ _. [])\<rparr>"

definition example_request :: http_request where
  "example_request =
     \<lparr>Q_Header = (\<lambda>k. if k = ''Accept'' then ''text/event-stream'' else ''''), Q_PathValue = (\<lambda>k. if k = ''taskID'' then ''a'' else ''''),
      Q_Query = (\<lambda>_. ''''), Q_TLS = None, Q_Body = '''', Q_BodyFails = False\<rparr>"

lemma example_authenticator_good: "HH_Authenticator example_handler = Some auth \<Longrightarrow> good_authenticator E auth"
  by (auto simp: example_handler_def good_authenticator_def safe_return nul_free_def nul_def)

lemma get_events_prefix:
  assumes "env_ok E" "world_ok E w" "run_state (get_events E h (Some p) q) w = (Some ans, w')" "A_Body ans = Body_Stream chunks"
    and "length (events (w_store w') (resourceKey (Principal_TenantID p) (Q_PathValue q ''taskID''))) < 2 ^ 64"
  shows "\<exists>after n. parse_cursor (if Q_Query q ''after'' = '''' then Q_Header q ''Last-Event-ID'' else Q_Query q ''after'') = Some after \<and>
    chunks = map (sse_chunk (H_Lib (HH_Hub h)))
      (take n (drop (unat after) (events (w_store w') (resourceKey (Principal_TenantID p) (Q_PathValue q ''taskID'')))))"
proof -
  let ?tn = "Principal_TenantID p" and ?i = "Q_PathValue q ''taskID''" and ?follow = "Q_Query q ''follow'' = ''true''"
  let ?v = "if Q_Query q ''after'' = '''' then Q_Header q ''Last-Event-ID'' else Q_Query q ''after''"
  have no: "A_Body (writeError msg e) \<noteq> Body_Stream chunks" "A_Body (writeProblem s c d m) \<noteq> Body_Stream chunks"
    "A_Body (writeJSON 200 (Body_Events es)) \<noteq> Body_Stream chunks" for msg e s c d m es
    by (simp_all add: writeError_def writeProblem_def writeJSON_def split: option.split)
  have tn: "?tn \<noteq> ''''" using assms(3,4) no by (auto simp: get_events_def for_tenant_def requireTenant_def answer_def)
  obtain after where a: "parse_cursor ?v = Some after"
    using assms(3,4) no tn
    by (cases "parse_cursor ?v") (auto simp: get_events_def for_tenant_def requireTenant_def answer_def Let_def)
  obtain r w1 where 1: "run_state (store_get E (\<lambda>_. EventsAfter ?tn ?i after)) w = (r, w1)" by fastforce
  obtain es where es: "r = Inr es"
    using assms(3,4) no tn a 1
    by (cases r) (auto simp: get_events_def for_tenant_def requireTenant_def answer_def Let_def)
  have run: "run_state (stream_events E h ?follow ?tn ?i (HH_Rounds h) after es) w1 = (chunks, w')"
    using assms(3,4) no tn a 1 es
    by (auto simp: get_events_def for_tenant_def requireTenant_def answer_def Let_def split: if_splits prod.splits)
  have w1: "world_ok E w1" by (rule safe_run(1) [OF safe_store_get [OF assms(1)] assms(2) 1])
  obtain y where y: "events (w_store w') (resourceKey ?tn ?i) = events (w_store w1) (resourceKey ?tn ?i) @ y"
    using advanced_log [OF safe_run(4) [OF safe_stream_events [OF assms(1)] w1 run]] by blast
  have len: "length (events (w_store w1) (resourceKey ?tn ?i)) < 2 ^ 64" using assms(5) unfolding y by simp
  note ea = run_EventsAfter [OF assms(1,2) 1 [unfolded es] len]
  show ?thesis using stream_is_prefix [OF assms(1) w1 run ea(1) _ ea(2) assms(5), of "[]"] a by auto
qed

end
