(* ===== verification/Journal_Backup.thy ===== *)
theory Journal_Backup
  imports Journal_Store
begin

text \<open>
  Copies of the journal file (\<open>JournalStore.Backup\<close>, \<open>RestoreJournalBackup\<close> and their variants with a manifest in
  \<open>internal/core/store.go\<close>), over the files of a disk without links, each under its cleaned path. A copy goes to a
  temporary file that is renamed at the end, so a failure before the rename leaves the destination as it was. Other
  programs may change the disk between the steps of a restore. Rendering journal lines as bytes and reading them
  back, the JSON of the manifest, path cleaning and the SHA-256 hash in hex are parameters.
\<close>

section \<open>Files\<close>

type_synonym disk = "string \<rightharpoonup> string"

record backup_manifest =
  Manifest_Version :: int
  Manifest_SizeBytes :: int
  Manifest_SHA256 :: string
  Manifest_CreatedAt :: time

record backup_lib =
  BK_clean :: "string \<Rightarrow> string"
  BK_render :: "journal_line list \<Rightarrow> string"
  BK_parse :: "string \<Rightarrow> journal_line list"
  BK_sha256 :: "string \<Rightarrow> string"
  BK_fold :: "string \<Rightarrow> string"
  BK_marshal :: "backup_manifest \<Rightarrow> string result"
  BK_unmarshal :: "string \<Rightarrow> backup_manifest result"

text \<open>Creating the directory, writing and syncing a temporary file, and renaming it, which may fail at any point.\<close>

definition install :: "error option \<Rightarrow> string \<Rightarrow> string \<Rightarrow> disk \<Rightarrow> error option \<times> disk" where
  "install failure path contents d = (case failure of Some e \<Rightarrow> (Some e, d) | None \<Rightarrow> (None, d(path \<mapsto> contents)))"

definition writeAtomic0600 :: "backup_lib \<Rightarrow> error option \<Rightarrow> string \<Rightarrow> string \<Rightarrow> disk \<Rightarrow> error option \<times> disk" where
  "writeAtomic0600 L failure destination payload d = install failure (BK_clean L destination) payload d"

definition ReadFile :: "backup_lib \<Rightarrow> error option \<Rightarrow> string \<Rightarrow> disk \<Rightarrow> string result" where
  "ReadFile L failure path d =
     (case failure of
        Some e \<Rightarrow> Inl e
      | None \<Rightarrow> (case d (BK_clean L path) of None \<Rightarrow> Inl (ErrText ''no such file'') | Some contents \<Rightarrow> Inr contents))"

text \<open>\<open>OpenJournal\<close> on the disk: it creates a missing file.\<close>

definition open_journal_file :: "backup_lib \<Rightarrow> error option \<Rightarrow> string \<Rightarrow> disk \<Rightarrow> journal_store result \<times> disk" where
  "open_journal_file L failure path d =
     (case failure of
        Some e \<Rightarrow> (Inl (ErrWrap ''open journal'' e), d)
      | None \<Rightarrow>
          let p = BK_clean L path; d' = (if d p = None then d(p \<mapsto> '''') else d)
          in (OpenJournal (Some (BK_parse L (the (d' p)))), d'))"

section \<open>Backups\<close>

text \<open>\<open>io\<close> says which step fails and how; \<open>p\<close> is the path of the store's own file.\<close>

definition Backup :: "backup_lib \<Rightarrow> (nat \<Rightarrow> error option) \<Rightarrow> string \<Rightarrow> string \<Rightarrow> journal_store \<Rightarrow> disk \<Rightarrow> error option \<times> disk" where
  "Backup L io p destination s d =
     (case jfile s of
        None \<Rightarrow> (Some (ErrText ''journal backup requires a file-backed store''), d)
      | Some ls \<Rightarrow>
          if destination = '''' then (Some (ErrText ''journal backup destination is required''), d)
          else case io 0 of
            Some e \<Rightarrow> (Some (ErrWrap ''sync journal before backup'' e), d)
          | None \<Rightarrow>
              (case io 1 of
                 Some e \<Rightarrow> (Some (ErrWrap ''stat journal before backup'' e), d)
               | None \<Rightarrow>
                   if BK_clean L destination = BK_clean L p \<and> d (BK_clean L destination) \<noteq> None
                   then (Some (ErrText ''journal backup destination must differ from source''), d)
                   else install (io 2) (BK_clean L destination) (BK_render L ls) d))"

definition manifest_of :: "backup_lib \<Rightarrow> time \<Rightarrow> string \<Rightarrow> backup_manifest" where
  "manifest_of L now contents =
     \<lparr>Manifest_Version = 1, Manifest_SizeBytes = int (length contents), Manifest_SHA256 = BK_sha256 L contents, Manifest_CreatedAt = now\<rparr>"

definition BackupWithManifest ::
  "backup_lib \<Rightarrow> (nat \<Rightarrow> error option) \<Rightarrow> time \<Rightarrow> string \<Rightarrow> string \<Rightarrow> string \<Rightarrow> journal_store \<Rightarrow> disk \<Rightarrow> error option \<times> disk" where
  "BackupWithManifest L io now p destination manifestDestination s d =
     (if manifestDestination = '''' then (Some (ErrText ''journal backup manifest destination is required''), d)
      else case Backup L io p destination s d of
        (Some e, d1) \<Rightarrow> (Some e, d1)
      | (None, d1) \<Rightarrow>
          (case ReadFile L (io 3) destination d1 of
             Inl e \<Rightarrow> (Some (ErrWrap ''read journal backup for manifest'' e), d1)
           | Inr contents \<Rightarrow>
               (case BK_marshal L (manifest_of L now contents) of
                  Inl e \<Rightarrow> (Some (ErrWrap ''encode journal backup manifest'' e), d1)
                | Inr payload \<Rightarrow>
                    (case writeAtomic0600 L (io 4) manifestDestination (payload @ [CHR 0x0A]) d1 of
                       (Some e, d2) \<Rightarrow> (Some (ErrWrap ''write journal backup manifest'' e), d2)
                     | (None, d2) \<Rightarrow> (None, d2)))))"

section \<open>Restoring\<close>

text \<open>\<open>chg n\<close> is what other programs do to the disk before the \<open>n\<close>-th step.\<close>

definition RestoreJournalBackup ::
  "backup_lib \<Rightarrow> (nat \<Rightarrow> error option) \<Rightarrow> (nat \<Rightarrow> disk \<Rightarrow> disk) \<Rightarrow> string \<Rightarrow> string \<Rightarrow> disk \<Rightarrow> error option \<times> disk" where
  "RestoreJournalBackup L io chg backup destination d =
     (if backup = '''' \<or> destination = '''' then (Some (ErrText ''journal backup and destination are required''), d)
      else if BK_clean L backup = BK_clean L destination
      then (Some (ErrText ''journal backup and destination must differ''), d)
      else case open_journal_file L (io 5) backup (chg 1 d) of
        (Inl e, d1) \<Rightarrow> (Some (ErrWrap ''validate journal backup'' e), d1)
      | (Inr _, d1) \<Rightarrow>
          (case io 6 of
             Some e \<Rightarrow> (Some (ErrWrap ''close validated journal backup'' e), d1)
           | None \<Rightarrow>
               let d2 = chg 2 d1 in
               (case ReadFile L (io 7) backup d2 of
                  Inl e \<Rightarrow> (Some (ErrWrap ''open journal backup'' e), d2)
                | Inr contents \<Rightarrow> install (io 8) (BK_clean L destination) contents d2)))"

definition RestoreJournalBackupWithManifest ::
  "backup_lib \<Rightarrow> (nat \<Rightarrow> error option) \<Rightarrow> (nat \<Rightarrow> disk \<Rightarrow> disk) \<Rightarrow> string \<Rightarrow> string \<Rightarrow> string \<Rightarrow> disk \<Rightarrow> error option \<times> disk" where
  "RestoreJournalBackupWithManifest L io chg backup manifestPath destination d =
     (if manifestPath = '''' then (Some (ErrText ''journal backup manifest is required''), d)
      else case ReadFile L (io 9) manifestPath d of
        Inl e \<Rightarrow> (Some (ErrWrap ''read journal backup manifest'' e), d)
      | Inr manifestBytes \<Rightarrow>
          (case BK_unmarshal L manifestBytes of
             Inl e \<Rightarrow> (Some (ErrWrap ''decode journal backup manifest'' e), d)
           | Inr manifest \<Rightarrow>
               if Manifest_Version manifest \<noteq> 1 \<or> Manifest_SizeBytes manifest < 0 \<or> length (Manifest_SHA256 manifest) \<noteq> 64
               then (Some (ErrText ''invalid journal backup manifest''), d)
               else let d0 = chg 0 d in
                 (case ReadFile L (io 10) backup d0 of
                    Inl e \<Rightarrow> (Some (ErrWrap ''read journal backup for verification'' e), d0)
                  | Inr contents \<Rightarrow>
                      if int (length contents) \<noteq> Manifest_SizeBytes manifest
                      then (Some (ErrText ''journal backup size mismatch''), d0)
                      else if BK_fold L (BK_sha256 L contents) \<noteq> BK_fold L (Manifest_SHA256 manifest)
                      then (Some (ErrText ''journal backup checksum mismatch''), d0)
                      else RestoreJournalBackup L io chg backup destination d0)))"

section \<open>What a restore installs\<close>

definition undisturbed :: "nat \<Rightarrow> disk \<Rightarrow> disk" where
  "undisturbed n d = d"

lemma restore_installs:
  assumes "RestoreJournalBackup L io undisturbed backup destination d = (None, d')" "d (BK_clean L backup) = Some contents"
  shows "d' = d(BK_clean L destination \<mapsto> contents) \<and> (\<exists>s. OpenJournal (Some (BK_parse L contents)) = Inr s)"
  using assms
  by (auto simp: RestoreJournalBackup_def open_journal_file_def Let_def undisturbed_def ReadFile_def install_def
      split: if_splits option.splits sum.splits prod.splits)

lemma restore_failure_keeps:
  assumes "RestoreJournalBackup L io undisturbed backup destination d = (Some e, d')"
  shows "d' (BK_clean L destination) = d (BK_clean L destination)"
  using assms
  by (auto simp: RestoreJournalBackup_def open_journal_file_def Let_def undisturbed_def ReadFile_def install_def
      split: if_splits option.splits sum.splits prod.splits)

lemma manifest_restore_steps:
  assumes "RestoreJournalBackupWithManifest L io chg backup manifestPath destination d = (None, d')"
  shows "\<exists>payload m contents. d (BK_clean L manifestPath) = Some payload \<and> BK_unmarshal L payload = Inr m \<and>
    chg 0 d (BK_clean L backup) = Some contents \<and> int (length contents) = Manifest_SizeBytes m \<and>
    BK_fold L (BK_sha256 L contents) = BK_fold L (Manifest_SHA256 m) \<and>
    RestoreJournalBackup L io chg backup destination (chg 0 d) = (None, d')"
  using assms
  by (auto simp: RestoreJournalBackupWithManifest_def Let_def ReadFile_def split: if_splits option.splits sum.splits)

lemma manifest_restore_failure_keeps:
  assumes "RestoreJournalBackupWithManifest L io undisturbed backup manifestPath destination d = (Some e, d')"
  shows "d' (BK_clean L destination) = d (BK_clean L destination)"
  using assms restore_failure_keeps [of L io backup destination d]
  by (auto simp: RestoreJournalBackupWithManifest_def Let_def ReadFile_def undisturbed_def split: if_splits option.splits sum.splits)

lemma backup_writes:
  assumes "BackupWithManifest L io now p destination manifestDestination s d = (None, d')"
  shows "\<exists>ls payload. jfile s = Some ls \<and> destination \<noteq> '''' \<and> manifestDestination \<noteq> '''' \<and>
    BK_marshal L (manifest_of L now (BK_render L ls)) = Inr payload \<and>
    d' = d(BK_clean L destination \<mapsto> BK_render L ls, BK_clean L manifestDestination \<mapsto> payload @ [CHR 0x0A])"
  using assms
  by (auto simp: BackupWithManifest_def Backup_def install_def ReadFile_def writeAtomic0600_def
      split: if_splits option.splits sum.splits prod.splits)

text \<open>A backup that is then restored without failures gives a journal that opens to the same store as the original
  file does.\<close>

lemma backup_restores:
  assumes "BackupWithManifest L io now p destination manifestDestination s d = (None, d1)" "jfile s = Some ls"
    and "BK_parse L (BK_render L ls) = ls"
    and "\<And>payload. BK_marshal L (manifest_of L now (BK_render L ls)) = Inr payload \<Longrightarrow>
      BK_unmarshal L (payload @ [CHR 0x0A]) = Inr (manifest_of L now (BK_render L ls))"
    and "\<And>x. length (BK_sha256 L x) = 64"
    and "BK_clean L manifestDestination \<noteq> BK_clean L destination" "BK_clean L target \<noteq> BK_clean L destination" "target \<noteq> ''''"
    and "OpenJournal (Some ls) = Inr s0" "\<And>n. io' n = None"
  shows "\<exists>d2 contents. RestoreJournalBackupWithManifest L io' undisturbed destination manifestDestination target d1 = (None, d2) \<and>
    d2 (BK_clean L target) = Some contents \<and> OpenJournal (Some (BK_parse L contents)) = Inr s0"
proof -
  let ?c = "BK_render L ls"
  obtain payload where p: "destination \<noteq> ''''" "manifestDestination \<noteq> ''''" "BK_marshal L (manifest_of L now ?c) = Inr payload"
    "d1 = d(BK_clean L destination \<mapsto> ?c, BK_clean L manifestDestination \<mapsto> payload @ [CHR 0x0A])"
    using backup_writes [OF assms(1)] assms(2) by auto
  have m: "BK_unmarshal L (payload @ [CHR 0x0A]) = Inr (manifest_of L now ?c)" by (rule assms(4) [OF p(3)])
  note r = assms(3)
  have "RestoreJournalBackupWithManifest L io' undisturbed destination manifestDestination target d1 =
      (None, d1(BK_clean L target \<mapsto> ?c))"
    using p m assms(5-10) r
    by (simp add: RestoreJournalBackupWithManifest_def RestoreJournalBackup_def open_journal_file_def ReadFile_def install_def
        undisturbed_def manifest_of_def Let_def)
  then show ?thesis using r assms(9) by auto
qed

text \<open>Restoring from a path where there is no file creates an empty one there, and installs it.\<close>

lemma missing_backup_restored:
  assumes "d (BK_clean L backup) = None" "backup \<noteq> ''''" "destination \<noteq> ''''" "BK_clean L backup \<noteq> BK_clean L destination"
    and "\<And>n. io n = None" "BK_parse L '''' = []"
  shows "RestoreJournalBackup L io undisturbed backup destination d =
    (None, d(BK_clean L backup \<mapsto> '''', BK_clean L destination \<mapsto> ''''))"
  using assms by (simp add: RestoreJournalBackup_def open_journal_file_def ReadFile_def install_def undisturbed_def Let_def OpenJournal_def)

end
