(* ===== verification/Sealed_Files.thy ===== *)
theory Sealed_Files
  imports Workflow_Plan Artifact_Store
begin

text \<open>
  Encrypted data at rest: the envelope with its key providers, the artifact store that encrypts what it hands to another
  store (\<open>internal/artifact/encryption.go\<close>), the filesystem store (\<open>internal/artifact/filesystem.go\<close>), and the workflow
  input vault on files (\<open>internal/orchestration/file_input_store.go\<close>). A directory is a map from names to contents; a new
  file is written under a temporary name first and then installed under its own. AES-GCM, random nonces, the hash that names
  files and the JSON of workflow inputs are parameters; an AES key has 16, 24 or 32 bytes and GCM's nonce has 12.
\<close>

type_synonym files = "string \<rightharpoonup> string"

section \<open>Envelopes\<close>

definition byte :: "nat \<Rightarrow> char" where
  "byte n = char_of (n mod 256)"

definition encode_envelope :: "string \<Rightarrow> string \<Rightarrow> string \<Rightarrow> string \<Rightarrow> string" where
  "encode_envelope magic keyID nonce ciphertext =
     magic @ [byte (length keyID div 256), byte (length keyID), byte (length nonce), byte 0] @ keyID @ nonce @ ciphertext"

text \<open>The parts of an envelope; \<open>what\<close> begins the error texts.\<close>

definition decode_envelope :: "string \<Rightarrow> string \<Rightarrow> string \<Rightarrow> (string \<times> string \<times> string) result" where
  "decode_envelope what magic envelope =
     (if length envelope < 8 \<or> take 4 envelope \<noteq> magic then Inl (ErrText (what @ '' envelope is invalid''))
      else let keyLength = 256 * of_char (envelope ! 4) + of_char (envelope ! 5); nonceLength = of_char (envelope ! 6) in
      if keyLength = 0 \<or> nonceLength = 0 \<or> 8 + keyLength + nonceLength \<ge> length envelope
      then Inl (ErrText (what @ '' envelope is truncated''))
      else Inr (take keyLength (drop 8 envelope), take nonceLength (drop (8 + keyLength) envelope),
                drop (8 + keyLength + nonceLength) envelope))"

lemma of_char_byte [simp]: "(of_char (byte n) :: nat) = n mod 256"
  by (simp add: byte_def of_char_of)

lemma envelope_decodes:
  assumes "length magic = 4" "0 < length keyID" "length keyID < 65536" "0 < length nonce" "length nonce < 256" "ciphertext \<noteq> []"
  shows "decode_envelope what magic (encode_envelope magic keyID nonce ciphertext) = Inr (keyID, nonce, ciphertext)"
proof -
  let ?h = "[byte (length keyID div 256), byte (length keyID), byte (length nonce), byte 0]"
  let ?e = "encode_envelope magic keyID nonce ciphertext"
  have e: "?e = (magic @ ?h) @ keyID @ nonce @ ciphertext" by (simp add: encode_envelope_def)
  have h: "length (magic @ ?h) = 8" using assms(1) by simp
  have d: "drop (8 + n) ?e = drop n (keyID @ nonce @ ciphertext)" for n
    unfolding e using h by (simp only: drop_append) simp
  have n: "?e ! 4 = byte (length keyID div 256)" "?e ! 5 = byte (length keyID)" "?e ! 6 = byte (length nonce)"
    unfolding e using assms(1) by (simp_all add: nth_append)
  have k: "256 * (length keyID div 256 mod 256) + length keyID mod 256 = length keyID" using assms(3) by simp
  have l: "length ?e = 8 + length keyID + length nonce + length ciphertext" "take 4 ?e = magic" "length nonce mod 256 = length nonce"
    unfolding e using assms(1,5) by simp_all
  have d0: "drop 8 ?e = keyID @ nonce @ ciphertext" using d [of 0] by simp
  have c: "0 < length ciphertext" using assms(6) by simp
  have d2: "drop (8 + length keyID + length nonce) ?e = ciphertext" using d [of "length keyID + length nonce"] by (simp add: add.assoc)
  show ?thesis
    unfolding decode_envelope_def Let_def n of_char_byte k d0 d d2 l using assms(2,4) c by simp
qed

section \<open>Keys\<close>

text \<open>\<open>KeyProvider\<close>: the current key of a tenant with its name, and the key of a name.\<close>

record key_provider =
  KP_Current :: "string \<Rightarrow> (string \<times> string) result"
  KP_ByID :: "string \<Rightarrow> string \<Rightarrow> string result"

definition StaticKey_Current :: "string \<Rightarrow> string \<Rightarrow> string \<Rightarrow> (string \<times> string) result" where
  "StaticKey_Current i key tenant =
     (if i = '''' \<or> key = '''' then Inl (ErrText ''static encryption key is not configured'') else Inr (i, key))"

definition StaticKey_ByID :: "string \<Rightarrow> string \<Rightarrow> string \<Rightarrow> string \<Rightarrow> string result" where
  "StaticKey_ByID i key tenant keyID =
     (if keyID \<noteq> i \<or> key = '''' then Inl (ErrText (''encryption key is unavailable: '' @ keyID)) else Inr key)"

definition KeyRing_Current :: "string \<Rightarrow> (string \<rightharpoonup> string) \<Rightarrow> string \<Rightarrow> (string \<times> string) result" where
  "KeyRing_Current current keys tenant =
     (case keys current of
        None \<Rightarrow> Inl (ErrText ''current encryption key is not configured'')
      | Some key \<Rightarrow>
          if key = '''' \<or> current = '''' then Inl (ErrText ''current encryption key is not configured'') else Inr (current, key))"

definition KeyRing_ByID :: "(string \<rightharpoonup> string) \<Rightarrow> string \<Rightarrow> string \<Rightarrow> string result" where
  "KeyRing_ByID keys tenant keyID =
     (case keys keyID of
        None \<Rightarrow> Inl (ErrText (''encryption key is unavailable: '' @ keyID))
      | Some key \<Rightarrow> if key = '''' then Inl (ErrText (''encryption key is unavailable: '' @ keyID)) else Inr key)"

text \<open>The cipher: sealing and opening under a key and a nonce with associated data.\<close>

record aead_lib =
  AE_seal :: "string \<Rightarrow> string \<Rightarrow> string \<Rightarrow> string \<Rightarrow> string"
  AE_open :: "string \<Rightarrow> string \<Rightarrow> string \<Rightarrow> string \<Rightarrow> string result"

definition nonce_size :: nat where
  "nonce_size = 12"

definition aes_key :: "string \<Rightarrow> bool" where
  "aes_key key \<longleftrightarrow> length key = 16 \<or> length key = 24 \<or> length key = 32"

text \<open>Both stores open an envelope in the same steps; only the magic, the associated data and the error texts differ.\<close>

definition new_cipher :: "string \<Rightarrow> string \<Rightarrow> error option" where
  "new_cipher noun key =
     (if aes_key key then None else Some (ErrWrap (''create '' @ noun @ '' cipher'') (ErrText ''invalid key size'')))"

definition open_envelope ::
  "aead_lib \<Rightarrow> key_provider \<Rightarrow> string \<Rightarrow> string \<Rightarrow> string \<Rightarrow> string \<Rightarrow> string \<Rightarrow> string \<Rightarrow> string result" where
  "open_envelope A K what noun magic tenant associated envelope =
     (case decode_envelope what magic envelope of
        Inl e \<Rightarrow> Inl e
      | Inr (keyID, nonce, ciphertext) \<Rightarrow>
          (case KP_ByID K tenant keyID of
             Inl e \<Rightarrow> Inl e
           | Inr rawKey \<Rightarrow>
               (case new_cipher noun rawKey of
                  Some e \<Rightarrow> Inl e
                | None \<Rightarrow>
                    if length nonce \<noteq> nonce_size then Inl (ErrText (what @ '' nonce has an invalid size''))
                    else (case AE_open A rawKey nonce ciphertext associated of
                      Inl _ \<Rightarrow> Inl (ErrText (what @ '' authentication failed'')) | Inr plaintext \<Rightarrow> Inr plaintext))))"

text \<open>The laws of the cipher: opening what was sealed under the same key, nonce and associated data gives it back, and the
  tag takes 16 bytes. \<open>keeps_keys\<close>: the keys that one provider hands out stay available from another.\<close>

definition aead_ok :: "aead_lib \<Rightarrow> bool" where
  "aead_ok A \<longleftrightarrow> (\<forall>k n p a. AE_open A k n (AE_seal A k n p a) a = Inr p \<and> length (AE_seal A k n p a) = length p + 16)"

definition keeps_keys :: "key_provider \<Rightarrow> key_provider \<Rightarrow> string \<Rightarrow> bool" where
  "keeps_keys K K' tenant \<longleftrightarrow>
     (\<forall>i k. KP_Current K tenant = Inr (i, k) \<longrightarrow> KP_ByID K' tenant i = Inr k \<and> i \<noteq> '''') \<and>
     (\<forall>i k. KP_ByID K tenant i = Inr k \<longrightarrow> KP_ByID K' tenant i = Inr k)"

lemma sealed_opens:
  assumes "aead_ok A" "KP_ByID K tenant keyID = Inr k" "keyID \<noteq> ''''" "length keyID \<le> 65535" "length nonce = nonce_size" "length magic = 4"
    and "new_cipher noun k = None"
  shows "open_envelope A K what noun magic tenant associated (encode_envelope magic keyID nonce (AE_seal A k nonce plaintext associated)) = Inr plaintext"
proof -
  let ?c = "AE_seal A k nonce plaintext associated"
  have "length ?c = length plaintext + 16" using assms(1) by (simp add: aead_ok_def)
  then have "?c \<noteq> []" by auto
  then have "decode_envelope what magic (encode_envelope magic keyID nonce ?c) = Inr (keyID, nonce, ?c)"
    using assms by (intro envelope_decodes) (auto simp: nonce_size_def)
  then show ?thesis using assms by (simp add: open_envelope_def aead_ok_def)
qed

text \<open>Whatever opens was accepted by the cipher for exactly this associated data, under a key of this tenant.\<close>

lemma opened_authentic:
  assumes "open_envelope A K what noun magic tenant associated envelope = Inr plaintext"
  shows "\<exists>keyID k nonce ciphertext. decode_envelope what magic envelope = Inr (keyID, nonce, ciphertext) \<and>
    KP_ByID K tenant keyID = Inr k \<and> AE_open A k nonce ciphertext associated = Inr plaintext"
  using assms by (auto simp: open_envelope_def split: sum.splits option.splits if_splits)

lemma opens_after_rotation:
  assumes "open_envelope A K what noun magic tenant associated envelope = Inr plaintext" "keeps_keys K K' tenant"
  shows "open_envelope A K' what noun magic tenant associated envelope = Inr plaintext"
  using assms by (auto simp: open_envelope_def keeps_keys_def split: sum.splits option.splits if_splits)

text \<open>The contract of a key provider that only ever gains keys, met by the static provider and by the key ring.\<close>

locale rotating_keys =
  fixes Current :: "'k \<Rightarrow> string \<Rightarrow> (string \<times> string) result"
    and ByID :: "'k \<Rightarrow> string \<Rightarrow> string \<Rightarrow> string result"
    and grows :: "'k \<Rightarrow> 'k \<Rightarrow> bool"
  assumes current_known: "Current p t = Inr (i, k) \<Longrightarrow> ByID p t i = Inr k \<and> i \<noteq> ''''"
    and grows_keeps: "grows p q \<Longrightarrow> ByID p t i = Inr k \<Longrightarrow> ByID q t i = Inr k"
begin

lemma provider_keeps:
  "grows p q \<Longrightarrow> keeps_keys \<lparr>KP_Current = Current p, KP_ByID = ByID p\<rparr> \<lparr>KP_Current = Current q, KP_ByID = ByID q\<rparr> t"
  using current_known grows_keeps by (fastforce simp: keeps_keys_def)

end

definition ring_provider :: "string \<Rightarrow> (string \<rightharpoonup> string) \<Rightarrow> key_provider" where
  "ring_provider current keys = \<lparr>KP_Current = KeyRing_Current current keys, KP_ByID = KeyRing_ByID keys\<rparr>"

definition ring_grows :: "string \<times> (string \<rightharpoonup> string) \<Rightarrow> string \<times> (string \<rightharpoonup> string) \<Rightarrow> bool" where
  "ring_grows p q \<longleftrightarrow> snd p \<subseteq>\<^sub>m snd q"

interpretation ring: rotating_keys "\<lambda>p. KeyRing_Current (fst p) (snd p)" "\<lambda>p. KeyRing_ByID (snd p)" ring_grows
proof
  fix p t i k assume "KeyRing_Current (fst p) (snd p) t = Inr (i, k)"
  then show "KeyRing_ByID (snd p) t i = Inr k \<and> i \<noteq> ''''"
    by (auto simp: KeyRing_Current_def KeyRing_ByID_def split: option.splits if_splits)
next
  fix p q t i k assume "ring_grows p q" "KeyRing_ByID (snd p) t i = Inr k"
  then show "KeyRing_ByID (snd q) t i = Inr k"
    by (auto simp: KeyRing_ByID_def ring_grows_def map_le_def dom_def split: option.splits if_splits)
qed

interpretation static: rotating_keys "\<lambda>p. StaticKey_Current (fst p) (snd p)" "\<lambda>p. StaticKey_ByID (fst p) (snd p)" "(=)"
  by unfold_locales (auto simp: StaticKey_Current_def StaticKey_ByID_def split: if_splits)

lemma ring_keeps: "keys \<subseteq>\<^sub>m keys' \<Longrightarrow> keeps_keys (ring_provider current keys) (ring_provider current' keys') tenant"
  using ring.provider_keeps [of "(current, keys)" "(current', keys')"] by (simp add: ring_provider_def ring_grows_def)

section \<open>Object stores\<close>

record object_info =
  Info_SizeBytes :: int
  Info_MediaType :: string

text \<open>An \<open>io.Reader\<close>: what it yields, and the error after it, if any. \<open>read_limited\<close> reads through \<open>io.LimitReader\<close>.\<close>

record byte_source =
  Src_Bytes :: string
  Src_Error :: "error option"

definition read_limited :: "byte_source \<Rightarrow> int \<Rightarrow> string \<times> error option" where
  "read_limited source n =
     (take (nat n) (Src_Bytes source), if length (Src_Bytes source) < nat n then Src_Error source else None)"

definition lower_hex :: "char \<Rightarrow> bool" where
  "lower_hex c \<longleftrightarrow> CHR ''a'' = c \<or> CHR ''b'' = c \<or> CHR ''c'' = c \<or> CHR ''d'' = c \<or> CHR ''e'' = c \<or> CHR ''f'' = c \<or>
     (48 \<le> (of_char c :: nat) \<and> (of_char c :: nat) \<le> 57)"

text \<open>\<open>objectKeyPattern\<close>\<close>

definition valid_object_key :: "string \<Rightarrow> bool" where
  "valid_object_key key \<longleftrightarrow> length key = 67 \<and> list_all lower_hex (take 2 key) \<and> key ! 2 = CHR ''/'' \<and> list_all lower_hex (drop 3 key)"

text \<open>\<open>io n\<close> is the failure of the \<open>n\<close>-th group of system calls: preparing the temporary file, writing it, and syncing, closing
  and renaming it. The names are those of regular files.\<close>

definition FileStore_Put :: "(nat \<Rightarrow> error option) \<Rightarrow> string \<Rightarrow> byte_source \<Rightarrow> int \<Rightarrow> string \<Rightarrow> files \<Rightarrow> error option \<times> files" where
  "FileStore_Put io key source sz media d =
     (if \<not> valid_object_key key then (Some (ErrText ''invalid artifact object key''), d)
      else case io 0 of
        Some e \<Rightarrow> (Some e, d)
      | None \<Rightarrow>
          let (contents, readErr) = read_limited source (wrap64 (sz + 1)) in
          (case (if io 1 \<noteq> None then io 1 else readErr) of
             Some e \<Rightarrow> (Some e, d)
           | None \<Rightarrow>
               if int (length contents) \<noteq> sz then (Some (ErrText ''artifact object size mismatch''), d)
               else (case io 2 of
                 Some e \<Rightarrow> (Some e, d)
               | None \<Rightarrow> (None, d(key \<mapsto> contents)))))"

definition FileStore_Open :: "error option \<Rightarrow> string \<Rightarrow> files \<Rightarrow> (string \<times> object_info) result" where
  "FileStore_Open failure key d =
     (if \<not> valid_object_key key then Inl (ErrText ''invalid artifact object key'')
      else case d key of
        None \<Rightarrow> Inl ErrUnavailable
      | Some contents \<Rightarrow>
          (case failure of
             Some e \<Rightarrow> Inl e
           | None \<Rightarrow> Inr (contents, \<lparr>Info_SizeBytes = int (length contents), Info_MediaType = ''''\<rparr>)))"

definition FileStore_Delete :: "error option \<Rightarrow> string \<Rightarrow> files \<Rightarrow> error option \<times> files" where
  "FileStore_Delete failure key d =
     (if \<not> valid_object_key key then (Some (ErrText ''invalid artifact object key''), d)
      else if d key = None then (None, d)
      else case failure of Some e \<Rightarrow> (Some e, d) | None \<Rightarrow> (None, d(key := None)))"

text \<open>What the encrypting store relies on: an object that was put with its true size opens to the same bytes and size.\<close>

locale object_store =
  fixes put :: "string \<Rightarrow> byte_source \<Rightarrow> int \<Rightarrow> string \<Rightarrow> 'm \<Rightarrow> error option \<times> 'm"
    and get :: "string \<Rightarrow> 'm \<Rightarrow> (string \<times> object_info) result"
    and remove :: "string \<Rightarrow> 'm \<Rightarrow> error option \<times> 'm"
  assumes put_get: "put key \<lparr>Src_Bytes = b, Src_Error = None\<rparr> (int (length b)) media m = (None, m') \<Longrightarrow>
      \<exists>t. get key m' = Inr (b, \<lparr>Info_SizeBytes = int (length b), Info_MediaType = t\<rparr>)"
    and put_other: "put key source sz media m = (r, m') \<Longrightarrow> other \<noteq> key \<Longrightarrow> get other m' = get other m"
    and put_failed: "put key source sz media m = (Some e, m') \<Longrightarrow> m' = m"
    and removed: "remove key m = (None, m') \<Longrightarrow> \<exists>e. get key m' = Inl e"

text \<open>The encrypting store over another one. A reader of the inner store that fails half-way counts as failing to open: both
  end \<open>Open\<close> with the error.\<close>

definition max_object :: int where
  "max_object = 128 * 2 ^ 20"

definition object_aad :: "string \<Rightarrow> string \<Rightarrow> string" where
  "object_aad tenant key = key @ nul # tenant"

definition seal_object ::
  "aead_lib \<Rightarrow> key_provider \<Rightarrow> string \<Rightarrow> string result \<Rightarrow> string \<Rightarrow> string \<Rightarrow> string result" where
  "seal_object A K tenant nonce key plaintext =
     (case KP_Current K tenant of
        Inl e \<Rightarrow> Inl e
      | Inr (keyID, rawKey) \<Rightarrow>
          (case new_cipher ''artifact'' rawKey of
             Some e \<Rightarrow> Inl e
           | None \<Rightarrow>
               if length keyID > 65535 then Inl (ErrText ''artifact encryption key ID is too long'')
               else (case nonce of
                 Inl e \<Rightarrow> Inl e
               | Inr n \<Rightarrow> Inr (encode_envelope ''AFH1'' keyID n (AE_seal A rawKey n plaintext (object_aad tenant key))))))"

definition Encrypted_Put ::
  "aead_lib \<Rightarrow> key_provider \<Rightarrow> (string \<Rightarrow> byte_source \<Rightarrow> int \<Rightarrow> string \<Rightarrow> 'm \<Rightarrow> error option \<times> 'm) \<Rightarrow> string \<Rightarrow> string result \<Rightarrow>
   string \<Rightarrow> byte_source \<Rightarrow> int \<Rightarrow> string \<Rightarrow> 'm \<Rightarrow> error option \<times> 'm" where
  "Encrypted_Put A K inner_put tenant nonce key source sz media m =
     (if sz < 0 \<or> sz > max_object then (Some (ErrText ''encrypted object size is outside the supported range''), m)
      else let (plaintext, readErr) = read_limited source (sz + 1) in
        (case readErr of
           Some e \<Rightarrow> (Some e, m)
         | None \<Rightarrow>
             if int (length plaintext) \<noteq> sz then (Some (ErrText ''object size mismatch''), m)
             else (case seal_object A K tenant nonce key plaintext of
               Inl e \<Rightarrow> (Some e, m)
             | Inr envelope \<Rightarrow>
                 inner_put key \<lparr>Src_Bytes = envelope, Src_Error = None\<rparr> (int (length envelope)) media m)))"

definition Encrypted_Open ::
  "aead_lib \<Rightarrow> key_provider \<Rightarrow> (string \<Rightarrow> 'm \<Rightarrow> (string \<times> object_info) result) \<Rightarrow> string \<Rightarrow> string \<Rightarrow> 'm \<Rightarrow> (string \<times> object_info) result" where
  "Encrypted_Open A K inner_open tenant key m =
     (case inner_open key m of
        Inl e \<Rightarrow> Inl e
      | Inr (contents, info) \<Rightarrow>
          let envelope = take (nat (max_object + 1)) contents in
          if int (length envelope) \<noteq> Info_SizeBytes info then Inl (ErrText ''artifact encryption envelope is invalid'')
          else case open_envelope A K ''artifact encryption'' ''artifact'' ''AFH1'' tenant (object_aad tenant key) envelope of
            Inl e \<Rightarrow> Inl e
          | Inr plaintext \<Rightarrow> Inr (plaintext, \<lparr>Info_SizeBytes = int (length plaintext), Info_MediaType = Info_MediaType info\<rparr>))"

definition Encrypted_Delete :: "(string \<Rightarrow> 'm \<Rightarrow> error option \<times> 'm) \<Rightarrow> string \<Rightarrow> 'm \<Rightarrow> error option \<times> 'm" where
  "Encrypted_Delete inner_delete key m = inner_delete key m"

lemma read_limited_exact:
  assumes "read_limited source (sz + 1) = (plaintext, None)" "int (length plaintext) = sz"
  shows "plaintext = Src_Bytes source"
proof -
  have p: "take (nat (sz + 1)) (Src_Bytes source) = plaintext" using assms(1) by (simp add: read_limited_def)
  have "length plaintext < nat (sz + 1)" using assms(2) by linarith
  then show ?thesis using p by (metis length_take min_less_iff_conj less_irrefl nat_neq_iff not_le take_all)
qed

text \<open>What a successful \<open>Put\<close> handed to the inner store.\<close>

lemma encrypted_put_steps:
  assumes "Encrypted_Put A K inner_put tenant nonce key source sz media m = (None, m')"
  shows "\<exists>keyID k n envelope. KP_Current K tenant = Inr (keyID, k) \<and> new_cipher ''artifact'' k = None \<and> length keyID \<le> 65535 \<and>
    nonce = Inr n \<and> sz = int (length (Src_Bytes source)) \<and>
    envelope = encode_envelope ''AFH1'' keyID n (AE_seal A k n (Src_Bytes source) (object_aad tenant key)) \<and>
    inner_put key \<lparr>Src_Bytes = envelope, Src_Error = None\<rparr> (int (length envelope)) media m = (None, m')"
  using assms read_limited_exact [of source sz]
  by (auto simp: Encrypted_Put_def seal_object_def Let_def split: if_splits option.splits sum.splits prod.splits)

context object_store
begin

lemma encrypted_reopens:
  assumes "Encrypted_Put A K put tenant (Inr n) key source sz media m = (None, m')"
    and "aead_ok A" "keeps_keys K K' tenant" "length n = nonce_size"
    and "\<And>i k. KP_Current K tenant = Inr (i, k) \<Longrightarrow> sz + int (length i) + 36 \<le> max_object + 1"
  shows "\<exists>t. Encrypted_Open A K' get tenant key m' = Inr (Src_Bytes source, \<lparr>Info_SizeBytes = sz, Info_MediaType = t\<rparr>)"
proof -
  obtain i k e where e: "KP_Current K tenant = Inr (i, k)" "new_cipher ''artifact'' k = None" "length i \<le> 65535"
      "sz = int (length (Src_Bytes source))" "e = encode_envelope ''AFH1'' i n (AE_seal A k n (Src_Bytes source) (object_aad tenant key))"
      "put key \<lparr>Src_Bytes = e, Src_Error = None\<rparr> (int (length e)) media m = (None, m')"
    using encrypted_put_steps [OF assms(1)] by auto
  have i: "KP_ByID K' tenant i = Inr k" "i \<noteq> ''''" using assms(3) e(1) by (auto simp: keeps_keys_def)
  have op: "open_envelope A K' ''artifact encryption'' ''artifact'' ''AFH1'' tenant (object_aad tenant key) e = Inr (Src_Bytes source)"
    unfolding e(5) using i e(2,3) assms(2,4) by (intro sealed_opens) auto
  have "length e = length (Src_Bytes source) + length i + 36"
    using assms(2,4) unfolding e(5) by (simp add: encode_envelope_def nonce_size_def aead_ok_def)
  then have l: "length e \<le> nat (max_object + 1)" using assms(5) [OF e(1)] e(4) by (simp add: max_object_def)
  obtain t where "get key m' = Inr (e, \<lparr>Info_SizeBytes = int (length e), Info_MediaType = t\<rparr>)" using put_get [OF e(6)] by auto
  then show ?thesis using op l e(4) by (simp add: Encrypted_Open_def)
qed

text \<open>An object whose envelope is longer than the reader's limit is stored, and cannot be opened any more.\<close>

lemma encrypted_too_large:
  assumes "Encrypted_Put A K put tenant (Inr n) key source sz media m = (None, m')" "aead_ok A" "length n = nonce_size"
    and "KP_Current K tenant = Inr (i, k)" "sz + int (length i) + 36 > max_object + 1"
  shows "Encrypted_Open A K' get tenant key m' = Inl (ErrText ''artifact encryption envelope is invalid'')"
proof -
  obtain e where e: "sz = int (length (Src_Bytes source))"
      "e = encode_envelope ''AFH1'' i n (AE_seal A k n (Src_Bytes source) (object_aad tenant key))"
      "put key \<lparr>Src_Bytes = e, Src_Error = None\<rparr> (int (length e)) media m = (None, m')"
    using encrypted_put_steps [OF assms(1)] assms(4) by auto
  have "length e = length (Src_Bytes source) + length i + 36"
    using assms(2,3) unfolding e(2) by (simp add: encode_envelope_def nonce_size_def aead_ok_def)
  then have l: "nat (max_object + 1) < length e" using assms(5) e(1) by (simp add: max_object_def)
  obtain t where "get key m' = Inr (e, \<lparr>Info_SizeBytes = int (length e), Info_MediaType = t\<rparr>)" using put_get [OF e(3)] by auto
  then show ?thesis using l by (auto simp: Encrypted_Open_def max_object_def)
qed

lemma encrypted_put_other:
  assumes "Encrypted_Put A K put tenant nonce key source sz media m = (r, m')" "other \<noteq> key"
  shows "Encrypted_Open A K' get tenant' other m' = Encrypted_Open A K' get tenant' other m"
proof -
  have "get other m' = get other m"
    using assms put_other [OF _ assms(2)]
    by (auto simp: Encrypted_Put_def Let_def split: if_splits option.splits sum.splits prod.splits)
  then show ?thesis by (simp add: Encrypted_Open_def)
qed

lemma encrypted_removed: "Encrypted_Delete remove key m = (None, m') \<Longrightarrow> \<exists>e. Encrypted_Open A K get tenant key m' = Inl e"
  using removed by (fastforce simp: Encrypted_Delete_def Encrypted_Open_def)

end

interpretation fs: object_store "FileStore_Put io" "FileStore_Open None" "FileStore_Delete failure" for io failure
proof
  fix key b media m m'
  assume "FileStore_Put io key \<lparr>Src_Bytes = b, Src_Error = None\<rparr> (int (length b)) media m = (None, m')"
  then show "\<exists>t. FileStore_Open None key m' = Inr (b, \<lparr>Info_SizeBytes = int (length b), Info_MediaType = t\<rparr>)"
    by (auto simp: FileStore_Put_def FileStore_Open_def read_limited_def Let_def split: if_splits option.splits)
next
  fix key source sz media m r m' other
  assume "FileStore_Put io key source sz media m = (r, m')" "other \<noteq> key"
  then show "FileStore_Open None other m' = FileStore_Open None other m"
    by (auto simp: FileStore_Put_def FileStore_Open_def read_limited_def Let_def split: if_splits option.splits)
next
  fix key source sz media m e m'
  assume "FileStore_Put io key source sz media m = (Some e, m')"
  then show "m' = m" by (auto simp: FileStore_Put_def read_limited_def Let_def split: if_splits option.splits)
next
  fix key m m'
  assume "FileStore_Delete failure key m = (None, m')"
  then show "\<exists>e. FileStore_Open None key m' = Inl e"
    by (auto simp: FileStore_Delete_def FileStore_Open_def split: if_splits option.splits)
qed

section \<open>The vault of workflow inputs on files\<close>

record input_lib =
  IL_marshal :: "workflow_input \<Rightarrow> string"
  IL_unmarshal :: "string \<Rightarrow> workflow_input option"
  IL_digest :: "string \<Rightarrow> string"

text \<open>The store's \<open>MaxBytes\<close>; 0 and less give 1 MiB.\<close>

definition maxBytes :: "int \<Rightarrow> int" where
  "maxBytes limit = (if limit > 0 then limit else 2 ^ 20)"

definition pathFor :: "input_lib \<Rightarrow> string \<Rightarrow> string" where
  "pathFor L ref = IL_digest L ref @ ''.input''"

fun has_dots :: "string \<Rightarrow> bool" where
  "has_dots (c # c' # s) \<longleftrightarrow> (c = CHR ''.'' \<and> c' = CHR ''.'') \<or> has_dots (c' # s)"
| "has_dots s \<longleftrightarrow> False"

definition plain_ref :: "string \<Rightarrow> bool" where
  "plain_ref ref \<longleftrightarrow> \<not> has_dots ref \<and> CHR 0x5C \<notin> set ref \<and> CHR 0x0A \<notin> set ref \<and> CHR 0x0D \<notin> set ref"

definition input_aad :: "string \<Rightarrow> string \<Rightarrow> string" where
  "input_aad tenantID ref = tenantID @ nul # ref"

definition decode_input :: "input_lib \<Rightarrow> int \<Rightarrow> string \<Rightarrow> workflow_input result" where
  "decode_input L limit plaintext =
     (if plaintext = '''' \<or> int (length plaintext) > maxBytes limit
      then Inl (ErrText ''workflow input exceeds configured limit'')
      else let input = (case IL_unmarshal L plaintext of Some v \<Rightarrow> v | None \<Rightarrow> \<lparr>WI_Text = plaintext, WI_Parts = []\<rparr>) in
        (case WorkflowInput_validate (IL_marshal L) input of Some e \<Rightarrow> Inl e | None \<Rightarrow> Inr input))"

definition FileInputStore_Get ::
  "aead_lib \<Rightarrow> input_lib \<Rightarrow> key_provider \<Rightarrow> int \<Rightarrow> error option \<Rightarrow> string \<Rightarrow> string \<Rightarrow> files \<Rightarrow> workflow_input result" where
  "FileInputStore_Get A L K limit failure tenantID ref d =
     (if tenantID = '''' \<or> ref = '''' then Inl (ErrText ''workflow input lookup requires tenant and reference'')
      else if \<not> has_prefix ref (tenantID @ ''/'') \<or> \<not> plain_ref ref then Inl ErrNotFound
      else case d (pathFor L ref) of
        None \<Rightarrow> Inl ErrNotFound
      | Some envelope \<Rightarrow>
          (case failure of
             Some e \<Rightarrow> Inl (ErrWrap ''read workflow input'' e)
           | None \<Rightarrow>
               (case open_envelope A K ''workflow input'' ''workflow input'' ''AFI1'' tenantID (input_aad tenantID ref) envelope of
                  Inl e \<Rightarrow> Inl e
                | Inr plaintext \<Rightarrow> decode_input L limit plaintext)))"

text \<open>The outcome of writing: \<open>os.Link\<close> finds the name taken, or the file is installed, with or without an error after that.\<close>

datatype write_outcome = Write_Failed error | Write_Exists | Write_Failed_After error | Write_Installed

definition atomicWrite :: "(nat \<Rightarrow> error option) \<Rightarrow> string \<Rightarrow> string \<Rightarrow> files \<Rightarrow> write_outcome \<times> files" where
  "atomicWrite io path envelope d =
     (case io 1 of
        Some e \<Rightarrow> (Write_Failed e, d)
      | None \<Rightarrow>
          if d path \<noteq> None then (Write_Exists, d)
          else (case io 2 of
            Some e \<Rightarrow> (Write_Failed (ErrWrap ''install workflow input'' e), d)
          | None \<Rightarrow>
              (case io 3 of
                 Some e \<Rightarrow> (Write_Failed_After e, d(path \<mapsto> envelope))
               | None \<Rightarrow> (Write_Installed, d(path \<mapsto> envelope)))))"

definition seal_input ::
  "aead_lib \<Rightarrow> key_provider \<Rightarrow> string \<Rightarrow> string result \<Rightarrow> string \<Rightarrow> string \<Rightarrow> string result" where
  "seal_input A K tenantID nonce ref plaintext =
     (case KP_Current K tenantID of
        Inl e \<Rightarrow> Inl e
      | Inr (keyID, rawKey) \<Rightarrow>
          (case new_cipher ''workflow input'' rawKey of
             Some e \<Rightarrow> Inl e
           | None \<Rightarrow>
               (case nonce of
                  Inl e \<Rightarrow> Inl e
                | Inr n \<Rightarrow>
                    if length keyID > 65535 then Inl (ErrText ''workflow input key ID is too long'')
                    else Inr (encode_envelope ''AFI1'' keyID n (AE_seal A rawKey n plaintext (input_aad tenantID ref))))))"

text \<open>\<open>existing_input\<close>: what \<open>Put\<close> answers when the reference already holds an input.\<close>

definition existing_input :: "input_lib \<Rightarrow> string \<Rightarrow> workflow_input \<Rightarrow> workflow_input \<Rightarrow> string result" where
  "existing_input L ref existing input =
     (if IL_marshal L existing \<noteq> IL_marshal L input
      then Inl (ErrText (''workflow input reference '' @ ref @ '' already contains different input''))
      else Inr ref)"

text \<open>\<open>others\<close> is what other processes do to the directory before the file is linked.\<close>

definition FileInputStore_Put ::
  "aead_lib \<Rightarrow> input_lib \<Rightarrow> key_provider \<Rightarrow> int \<Rightarrow> (nat \<Rightarrow> error option) \<Rightarrow> (files \<Rightarrow> files) \<Rightarrow> string result \<Rightarrow>
   string \<Rightarrow> string \<Rightarrow> string \<Rightarrow> workflow_input \<Rightarrow> files \<Rightarrow> string result \<times> files" where
  "FileInputStore_Put A L K limit io others nonce tenantID workflowID stepID input d =
     (if tenantID = '''' \<or> workflowID = '''' \<or> stepID = ''''
      then (Inl (ErrText ''workflow input vault requires tenant, workflow, step, and input''), d)
      else case WorkflowInput_validate (IL_marshal L) input of
        Some e \<Rightarrow> (Inl e, d)
      | None \<Rightarrow>
          let plaintext = IL_marshal L input in
          if int (length plaintext) > maxBytes limit
          then (Inl (ErrText ''workflow provider input exceeds configured limit''), d)
          else let ref = input_ref tenantID workflowID stepID in
            (case FileInputStore_Get A L K limit (io 0) tenantID ref d of
               Inr existing \<Rightarrow> (existing_input L ref existing input, d)
             | Inl e \<Rightarrow>
                 if \<not> error_is e ErrNotFound then (Inl e, d)
                 else (case seal_input A K tenantID nonce ref plaintext of
                   Inl e' \<Rightarrow> (Inl e', d)
                 | Inr envelope \<Rightarrow>
                     (case atomicWrite io (pathFor L ref) envelope (others d) of
                        (Write_Failed e', d') \<Rightarrow> (Inl e', d')
                      | (Write_Failed_After e', d') \<Rightarrow> (Inl e', d')
                      | (Write_Installed, d') \<Rightarrow> (Inr ref, d')
                      | (Write_Exists, d') \<Rightarrow>
                          (case FileInputStore_Get A L K limit (io 4) tenantID ref d' of
                             Inl e' \<Rightarrow> (Inl e', d')
                           | Inr existing \<Rightarrow> (existing_input L ref existing input, d'))))))"

text \<open>JSON gives an input back and never is empty.\<close>

definition input_json_ok :: "input_lib \<Rightarrow> workflow_input \<Rightarrow> bool" where
  "input_json_ok L input \<longleftrightarrow> IL_unmarshal L (IL_marshal L input) = Some input \<and> IL_marshal L input \<noteq> ''''"

lemma ref_has_tenant: "has_prefix (input_ref tenantID workflowID stepID) (tenantID @ ''/'')"
  by (simp add: has_prefix_def input_ref_def)

text \<open>The two ways a successful \<open>Put\<close> ends: the reference already held this input, or a new file was installed.\<close>

lemma put_input_steps:
  assumes "FileInputStore_Put A L K limit io others nonce tenantID workflowID stepID input d = (Inr ref, d')"
  shows "ref = input_ref tenantID workflowID stepID \<and> tenantID \<noteq> '''' \<and> WorkflowInput_validate (IL_marshal L) input = None \<and>
    int (length (IL_marshal L input)) \<le> maxBytes limit \<and>
    ((\<exists>f existing. FileInputStore_Get A L K limit f tenantID ref d' = Inr existing \<and> IL_marshal L existing = IL_marshal L input) \<or>
     (\<exists>envelope. seal_input A K tenantID nonce ref (IL_marshal L input) = Inr envelope \<and> d' (pathFor L ref) = Some envelope))"
  using assms
  by (auto simp: FileInputStore_Put_def existing_input_def atomicWrite_def Let_def
      split: if_splits option.splits sum.splits prod.splits write_outcome.splits)

lemma get_after_rotation:
  assumes "FileInputStore_Get A L K limit f tenantID ref d = Inr v" "keeps_keys K K' tenantID"
  shows "FileInputStore_Get A L K' limit None tenantID ref d = Inr v"
  using assms opens_after_rotation [OF _ assms(2)]
  by (auto simp: FileInputStore_Get_def split: if_splits option.splits sum.splits)

lemma sealed_input_decodes:
  assumes "WorkflowInput_validate (IL_marshal L) input = None" "int (length (IL_marshal L input)) \<le> maxBytes limit" "input_json_ok L input"
  shows "decode_input L limit (IL_marshal L input) = Inr input"
  using assms by (simp add: decode_input_def input_json_ok_def)

lemma stored_input_returns:
  assumes "FileInputStore_Put A L K limit io others (Inr n) tenantID workflowID stepID input d = (Inr ref, d')"
    and "aead_ok A" "input_json_ok L input" "keeps_keys K K' tenantID" "length n = nonce_size" "plain_ref ref"
  shows "\<exists>v. FileInputStore_Get A L K' limit None tenantID ref d' = Inr v \<and> IL_marshal L v = IL_marshal L input"
proof -
  have p: "ref = input_ref tenantID workflowID stepID" "tenantID \<noteq> ''''" "WorkflowInput_validate (IL_marshal L) input = None"
    "int (length (IL_marshal L input)) \<le> maxBytes limit"
    using put_input_steps [OF assms(1)] by auto
  consider f existing where "FileInputStore_Get A L K limit f tenantID ref d' = Inr existing" "IL_marshal L existing = IL_marshal L input"
    | envelope where "seal_input A K tenantID (Inr n) ref (IL_marshal L input) = Inr envelope" "d' (pathFor L ref) = Some envelope"
    using put_input_steps [OF assms(1)] by blast
  then show ?thesis
  proof cases
    case 1
    then show ?thesis using get_after_rotation [OF _ assms(4)] by blast
  next
    case 2
    obtain i k where k: "KP_Current K tenantID = Inr (i, k)" "new_cipher ''workflow input'' k = None" "length i \<le> 65535"
      "envelope = encode_envelope ''AFI1'' i n (AE_seal A k n (IL_marshal L input) (input_aad tenantID ref))"
      using 2(1) by (auto simp: seal_input_def split: sum.splits option.splits if_splits)
    have i: "KP_ByID K' tenantID i = Inr k" "i \<noteq> ''''" using assms(4) k(1) by (auto simp: keeps_keys_def)
    have "open_envelope A K' ''workflow input'' ''workflow input'' ''AFI1'' tenantID (input_aad tenantID ref) envelope = Inr (IL_marshal L input)"
      unfolding k(4) using i k(2,3) assms(2,5) by (intro sealed_opens) auto
    then have "FileInputStore_Get A L K' limit None tenantID ref d' = Inr input"
      using 2(2) p assms(6) ref_has_tenant [of tenantID workflowID stepID] sealed_input_decodes [OF p(3,4) assms(3)]
      by (simp add: FileInputStore_Get_def input_ref_def)
    then show ?thesis by blast
  qed
qed

text \<open>A file in the vault is never replaced, whatever the outcome.\<close>

lemma put_input_keeps:
  assumes "FileInputStore_Put A L K limit io others nonce tenantID workflowID stepID input d = (r, d')" "d \<subseteq>\<^sub>m others d"
  shows "d \<subseteq>\<^sub>m d'"
proof -
  have "\<exists>path envelope. d' = d \<or> d' = others d \<or> (others d path = None \<and> d' = (others d)(path \<mapsto> envelope))"
    using assms(1)
    by (auto simp: FileInputStore_Put_def atomicWrite_def Let_def
        split: if_splits option.splits sum.splits prod.splits write_outcome.splits)
  then show ?thesis using assms(2) by (auto simp: map_le_def dom_def split: if_splits)
qed

lemma get_input_later:
  assumes "FileInputStore_Get A L K limit f tenantID ref d = Inr v" "d \<subseteq>\<^sub>m d'"
  shows "FileInputStore_Get A L K limit f tenantID ref d' = Inr v"
proof -
  obtain envelope where e: "d (pathFor L ref) = Some envelope" using assms(1) by (auto simp: FileInputStore_Get_def split: if_splits option.splits)
  then have "d' (pathFor L ref) = Some envelope" using assms(2) by (auto simp: map_le_def dom_def)
  with e have "FileInputStore_Get A L K limit f tenantID ref d' = FileInputStore_Get A L K limit f tenantID ref d"
    unfolding FileInputStore_Get_def by simp
  with assms(1) show ?thesis by simp
qed

text \<open>What is read was sealed for this tenant and this reference.\<close>

lemma input_authentic:
  assumes "FileInputStore_Get A L K limit f tenantID ref d = Inr v"
  shows "\<exists>envelope keyID k nonce ciphertext plaintext. d (pathFor L ref) = Some envelope \<and> has_prefix ref (tenantID @ ''/'') \<and>
    decode_envelope ''workflow input'' ''AFI1'' envelope = Inr (keyID, nonce, ciphertext) \<and> KP_ByID K tenantID keyID = Inr k \<and>
    AE_open A k nonce ciphertext (input_aad tenantID ref) = Inr plaintext \<and> decode_input L limit plaintext = Inr v"
  using assms opened_authentic
  by (fastforce simp: FileInputStore_Get_def split: if_splits option.splits sum.splits)

text \<open>A reference with two dots, a backslash or a line break is stored, and never found.\<close>

lemma unplain_input_lost:
  assumes "\<not> plain_ref ref" "tenantID \<noteq> ''''" "ref \<noteq> ''''"
  shows "FileInputStore_Get A L K limit f tenantID ref d = Inl ErrNotFound"
  using assms by (simp add: FileInputStore_Get_def)

end
