(* ===== verification/Net_Policy.thy ===== *)
theory Net_Policy
  imports Federation_Policy
begin

unbundle bit_operations_syntax

text \<open>
  Where the hub may connect to (\<open>internal/netpolicy/http.go\<close>): the check of a URL, of the addresses its host
  resolves to, and of every redirect. The address predicates of \<open>net/netip\<close> are modelled on the bits of an
  address; parsing URLs and addresses and name resolution are parameters. The client is followed through its
  redirects with the requests that it sends.
\<close>

section \<open>Addresses\<close>

text \<open>\<open>netip.Addr\<close>: the zero value, an IPv4 address, or an IPv6 address with its zone (\<open>""\<close> for none).\<close>

datatype ip_addr = Addr_None | Addr4 "32 word" | Addr6 "128 word" string

datatype ip_prefix = Prefix4 "32 word" nat | Prefix6 "128 word" nat

definition in_prefix4 :: "32 word \<Rightarrow> nat \<Rightarrow> 32 word \<Rightarrow> bool" where
  "in_prefix4 base bits a \<longleftrightarrow> drop_bit (32 - bits) a = drop_bit (32 - bits) base"

definition in_prefix6 :: "128 word \<Rightarrow> nat \<Rightarrow> 128 word \<Rightarrow> bool" where
  "in_prefix6 base bits a \<longleftrightarrow> drop_bit (128 - bits) a = drop_bit (128 - bits) base"

text \<open>\<open>Prefix.Contains\<close>: an address with a zone is in no prefix.\<close>

fun prefix_contains :: "ip_prefix \<Rightarrow> ip_addr \<Rightarrow> bool" where
  "prefix_contains (Prefix4 base bits) (Addr4 a) = in_prefix4 base bits a"
| "prefix_contains (Prefix6 base bits) (Addr6 a zone) = (zone = '''' \<and> in_prefix6 base bits a)"
| "prefix_contains _ _ = False"

definition quad :: "nat \<Rightarrow> nat \<Rightarrow> nat \<Rightarrow> nat \<Rightarrow> 32 word" where
  "quad a b c d = of_nat (((a * 256 + b) * 256 + c) * 256 + d)"

text \<open>An IPv6 address from its first 32 bits.\<close>

definition high6 :: "nat \<Rightarrow> 128 word" where
  "high6 n = push_bit 96 (of_nat n)"

fun Unmap :: "ip_addr \<Rightarrow> ip_addr" where
  "Unmap (Addr6 a zone) = (if drop_bit 32 a = 0xFFFF then Addr4 (ucast a) else Addr6 a zone)"
| "Unmap a = a"

fun IsLoopback :: "ip_addr \<Rightarrow> bool" where
  "IsLoopback (Addr4 a) = in_prefix4 (quad 127 0 0 0) 8 a"
| "IsLoopback (Addr6 a zone) = (a = 1)"
| "IsLoopback Addr_None = False"

fun IsPrivate :: "ip_addr \<Rightarrow> bool" where
  "IsPrivate (Addr4 a) = (in_prefix4 (quad 10 0 0 0) 8 a \<or> in_prefix4 (quad 172 16 0 0) 12 a \<or> in_prefix4 (quad 192 168 0 0) 16 a)"
| "IsPrivate (Addr6 a zone) = in_prefix6 (high6 0xFC000000) 7 a"
| "IsPrivate Addr_None = False"

fun IsLinkLocalUnicast :: "ip_addr \<Rightarrow> bool" where
  "IsLinkLocalUnicast (Addr4 a) = in_prefix4 (quad 169 254 0 0) 16 a"
| "IsLinkLocalUnicast (Addr6 a zone) = in_prefix6 (high6 0xFE800000) 10 a"
| "IsLinkLocalUnicast Addr_None = False"

fun IsMulticast :: "ip_addr \<Rightarrow> bool" where
  "IsMulticast (Addr4 a) = in_prefix4 (quad 224 0 0 0) 4 a"
| "IsMulticast (Addr6 a zone) = in_prefix6 (high6 0xFF000000) 8 a"
| "IsMulticast Addr_None = False"

definition IsUnspecified :: "ip_addr \<Rightarrow> bool" where
  "IsUnspecified a \<longleftrightarrow> a = Addr4 0 \<or> a = Addr6 0 ''''"

definition IsGlobalUnicast :: "ip_addr \<Rightarrow> bool" where
  "IsGlobalUnicast a \<longleftrightarrow>
     a \<noteq> Addr_None \<and> a \<noteq> Addr4 0 \<and> a \<noteq> Addr4 (quad 255 255 255 255) \<and> a \<noteq> Addr6 0 '''' \<and>
     \<not> IsLoopback a \<and> \<not> IsMulticast a \<and> \<not> IsLinkLocalUnicast a"

definition reservedPrefixes :: "ip_prefix list" where
  "reservedPrefixes =
     [Prefix4 (quad 0 0 0 0) 8, Prefix4 (quad 100 64 0 0) 10, Prefix4 (quad 192 0 0 0) 24, Prefix4 (quad 192 0 2 0) 24,
      Prefix4 (quad 198 18 0 0) 15, Prefix4 (quad 198 51 100 0) 24, Prefix4 (quad 203 0 113 0) 24,
      Prefix4 (quad 240 0 0 0) 4, Prefix6 (high6 0x20010DB8) 32]"

definition PublicAddress :: "ip_addr \<Rightarrow> bool" where
  "PublicAddress addr \<longleftrightarrow>
     (let a = Unmap addr
      in if a = Addr_None \<or> IsLoopback a \<or> IsPrivate a \<or> IsLinkLocalUnicast a \<or> IsMulticast a \<or> IsUnspecified a then False
         else if list_ex (\<lambda>p. prefix_contains p a) reservedPrefixes then False
         else IsGlobalUnicast a)"

section \<open>URLs\<close>

record net_url = url +
  N_Port :: string
  N_Path :: string
  N_RawQuery :: string

text \<open>Of Go's library: \<open>url.Parse\<close>, \<open>netip.ParseAddr\<close>, \<open>Addr.String\<close> and \<open>net.SplitHostPort\<close>.\<close>

record net_lib =
  NL_parse :: "string \<Rightarrow> net_url result"
  NL_parse_addr :: "string \<Rightarrow> ip_addr result"
  NL_addr_string :: "ip_addr \<Rightarrow> string"
  NL_split_host_port :: "string \<Rightarrow> (string \<times> string) result"

record net_policy =
  NP_AllowPrivate :: bool
  NP_AllowHTTP :: bool
  NP_AllowedPorts :: "string list option"
  NP_MaxRedirects :: int

definition HTTPSOnlyPolicy :: net_policy where
  "HTTPSOnlyPolicy = \<lparr>NP_AllowPrivate = False, NP_AllowHTTP = False, NP_AllowedPorts = Some [''443''], NP_MaxRedirects = 3\<rparr>"

definition HTTPSBaseURLPolicy :: net_policy where
  "HTTPSBaseURLPolicy = HTTPSOnlyPolicy\<lparr>NP_AllowedPorts := None\<rparr>"

text \<open>A nil map of allowed ports and an empty one allow every port.\<close>

definition port_allowed :: "net_policy \<Rightarrow> string \<Rightarrow> bool" where
  "port_allowed P port \<longleftrightarrow> (case NP_AllowedPorts P of None \<Rightarrow> True | Some ports \<Rightarrow> ports = [] \<or> port \<in> set ports)"

definition reserved_host :: "string \<Rightarrow> bool" where
  "reserved_host hostname \<longleftrightarrow> hostname = ''localhost'' \<or> has_suffix hostname ''.localhost'' \<or> has_suffix hostname ''.local'' \<or>
     has_suffix hostname ''.internal''"

definition ValidateURL :: "net_lib \<Rightarrow> net_policy \<Rightarrow> string \<Rightarrow> net_url result" where
  "ValidateURL L P raw =
     (case NL_parse L raw of
        Inl e \<Rightarrow> Inl e
      | Inr u \<Rightarrow>
          if (U_Scheme u \<noteq> ''https'' \<and> \<not> (NP_AllowHTTP P \<and> U_Scheme u = ''http'')) \<or> U_Hostname u = '''' \<or> U_HasUser u
          then Inl (ErrText ''URL must use HTTPS, or explicitly allowed HTTP, include a host, and omit user information'')
          else let port = (if N_Port u = '''' then ''443'' else N_Port u) in
          if \<not> port_allowed P port then Inl (ErrText (''URL port is not allowed: '' @ port))
          else let hostname = ToLower (trim_suffix (U_Hostname u) ''.'') in
          if \<not> NP_AllowPrivate P \<and> reserved_host hostname
          then Inl (ErrText (''URL host is reserved for private use: '' @ hostname))
          else case NL_parse_addr L hostname of
            Inl _ \<Rightarrow> Inr u
          | Inr a \<Rightarrow> if \<not> NP_AllowPrivate P \<and> \<not> PublicAddress a then Inl (ErrText ''URL address is not public'') else Inr u)"

definition ValidateBaseURL :: "net_lib \<Rightarrow> net_policy \<Rightarrow> string \<Rightarrow> net_url result" where
  "ValidateBaseURL L P raw =
     (case ValidateURL L P raw of
        Inl e \<Rightarrow> Inl e
      | Inr u \<Rightarrow> if N_RawQuery u \<noteq> '''' \<or> U_Fragment u \<noteq> '''' then Inl (ErrText ''base URL must not contain a query or fragment'') else Inr u)"

text \<open>\<open>strings.EqualFold\<close>, exact when one of the texts is ASCII; U+017F and U+212A fold to ASCII letters.\<close>

fun fold_case :: "string \<Rightarrow> string" where
  "fold_case [] = []"
| "fold_case (c # cs) =
     (if c = CHR 0xC5 \<and> cs \<noteq> [] \<and> hd cs = CHR 0xBF then CHR ''s'' # fold_case (tl cs)
      else if c = CHR 0xE2 \<and> take 2 cs = [CHR 0x84, CHR 0xAA] then CHR ''k'' # fold_case (drop 2 cs)
      else if (of_char c :: nat) \<ge> 65 \<and> (of_char c :: nat) \<le> 90
        then char_of ((of_char c :: nat) + 32) # fold_case cs
      else c # fold_case cs)"

definition EqualFold :: "string \<Rightarrow> string \<Rightarrow> bool" where
  "EqualFold s t \<longleftrightarrow> fold_case s = fold_case t"

definition defaultPort :: "string \<Rightarrow> string" where
  "defaultPort scheme = (if EqualFold scheme ''http'' then ''80'' else ''443'')"

definition effective_port :: "net_url \<Rightarrow> string" where
  "effective_port u = (if N_Port u = '''' then defaultPort (U_Scheme u) else N_Port u)"

definition SameOrigin :: "net_url option \<Rightarrow> net_url option \<Rightarrow> bool" where
  "SameOrigin left right \<longleftrightarrow>
     (case (left, right) of
        (Some l, Some r) \<Rightarrow>
          EqualFold (U_Scheme l) (U_Scheme r) \<and>
          EqualFold (trim_suffix (U_Hostname l) ''.'') (trim_suffix (U_Hostname r) ''.'') \<and> effective_port l = effective_port r
      | _ \<Rightarrow> False)"

definition JoinHostPort :: "string \<Rightarrow> string \<Rightarrow> string" where
  "JoinHostPort host port = (if CHR '':'' \<in> set host then ''['' @ host @ '']:'' @ port else host @ '':'' @ port)"

definition HostPort :: "net_url \<Rightarrow> string" where
  "HostPort u = JoinHostPort (U_Hostname u) (if N_Port u = '''' then ''443'' else N_Port u)"

section \<open>Connections\<close>

text \<open>The dialer tries the resolved addresses in turn; the first result is the addresses that were tried.\<close>

fun dial_loop :: "(string \<Rightarrow> 'c result) \<Rightarrow> (ip_addr \<Rightarrow> string) \<Rightarrow> string \<Rightarrow> ip_addr list \<Rightarrow> error list \<Rightarrow> ip_addr list \<times> 'c result" where
  "dial_loop dial text_of port [] failures = ([], Inl (ErrJoin failures))"
| "dial_loop dial text_of port (a # as) failures =
     (case dial (JoinHostPort (text_of a) port) of
        Inr connection \<Rightarrow> ([a], Inr connection)
      | Inl e \<Rightarrow> (case dial_loop dial text_of port as (failures @ [e]) of (tried, r) \<Rightarrow> (a # tried, r)))"

definition restrictedDialContext ::
  "net_lib \<Rightarrow> net_policy \<Rightarrow> (string \<Rightarrow> ip_addr list result) \<Rightarrow> (string \<Rightarrow> 'c result) \<Rightarrow> string \<Rightarrow> ip_addr list \<times> 'c result" where
  "restrictedDialContext L P lookup dial address =
     (case NL_split_host_port L address of
        Inl e \<Rightarrow> ([], Inl e)
      | Inr (host, port) \<Rightarrow>
          (case ValidateURL L P (''https://'' @ JoinHostPort host port) of
             Inl e \<Rightarrow> ([], Inl e)
           | Inr _ \<Rightarrow>
               (case lookup host of
                  Inl e \<Rightarrow> ([], Inl (ErrWrap (''resolve '' @ host) e))
                | Inr addresses \<Rightarrow>
                    if addresses = [] then ([], Inl (ErrText (''no addresses: '' @ host)))
                    else if list_ex (\<lambda>a. \<not> NP_AllowPrivate P \<and> \<not> PublicAddress (Unmap a)) addresses
                    then ([], Inl (ErrText ''resolved address is not public''))
                    else dial_loop dial (NL_addr_string L) port addresses [])))"

text \<open>The decision on a redirect, after \<open>via\<close> requests.\<close>

datatype redirect_decision = Follow | UseLastResponse | Refuse error

definition restrictedRedirect :: "net_lib \<Rightarrow> net_policy \<Rightarrow> string \<Rightarrow> nat \<Rightarrow> redirect_decision" where
  "restrictedRedirect L P target via =
     (case ValidateURL L P target of
        Inl e \<Rightarrow> Refuse e
      | Inr _ \<Rightarrow>
          if NP_MaxRedirects P < 0 then UseLastResponse
          else if int via > (if NP_MaxRedirects P \<le> 0 then 3 else NP_MaxRedirects P)
          then Refuse (ErrText ''redirect limit exceeded'') else Follow)"

text \<open>One request, with the check of its URL (\<open>policyRoundTripper\<close>, which \<open>WithURLPolicy\<close> puts around the transport) or
  without it (\<open>NewHTTPClient\<close>), and the loop of \<open>http.Client\<close> with the requests it sends. An answer is final or a redirect
  to a URL. The fuel bounds the number of requests.\<close>

datatype 'r answer_kind = Final 'r | Redirected string 'r

definition RoundTrip_refusal :: "net_lib \<Rightarrow> net_policy \<Rightarrow> string \<Rightarrow> error option" where
  "RoundTrip_refusal L P target = (case ValidateURL L P target of Inl e \<Rightarrow> Some e | Inr _ \<Rightarrow> None)"

fun client_do ::
  "net_lib \<Rightarrow> net_policy \<Rightarrow> bool \<Rightarrow> (nat \<Rightarrow> string \<Rightarrow> 'r answer_kind result) \<Rightarrow> nat \<Rightarrow> nat \<Rightarrow> string \<Rightarrow> (string list \<times> 'r result) option" where
  "client_do L P checked send 0 via target = None"
| "client_do L P checked send (Suc fuel) via target =
     (case (if checked then RoundTrip_refusal L P target else None) of
        Some e \<Rightarrow> Some ([], Inl e)
      | None \<Rightarrow>
          (case send via target of
             Inl e \<Rightarrow> Some ([target], Inl e)
           | Inr (Final r) \<Rightarrow> Some ([target], Inr r)
           | Inr (Redirected location r) \<Rightarrow>
               (case restrictedRedirect L P location (Suc via) of
                  Refuse e \<Rightarrow> Some ([target], Inl e)
                | UseLastResponse \<Rightarrow> Some ([target], Inr r)
                | Follow \<Rightarrow>
                    (case client_do L P checked send fuel (Suc via) location of
                       None \<Rightarrow> None | Some (requests, result) \<Rightarrow> Some (target # requests, result)))))"

section \<open>Which addresses are public\<close>

lemma unat_eq_drop_bit: "drop_bit n a = drop_bit n b \<longleftrightarrow> unat a div 2 ^ n = unat b div 2 ^ n" for a b :: "'a::len word"
  by (metis unat_drop_bit_eq drop_bit_eq_div word_unat_eq_iff)

lemma div_eq_range: "0 < d \<Longrightarrow> (x div d = q) \<longleftrightarrow> (q * d \<le> x \<and> x < q * d + d)" for x d q :: nat
  by (metis add.commute div_mult_self1_is_m dividend_less_div_times div_le_mono div_nat_eqI less_mult_imp_div_less mult.commute mult_Suc_right times_div_less_eq_dividend)

lemma unat_quad: "a < 256 \<Longrightarrow> b < 256 \<Longrightarrow> c < 256 \<Longrightarrow> d < 256 \<Longrightarrow> unat (quad a b c d) = ((a * 256 + b) * 256 + c) * 256 + d"
  unfolding quad_def unat_of_nat by (rule mod_less) simp

lemma in_prefix4_range:
  assumes "unat base mod 2 ^ (32 - bits) = 0"
  shows "in_prefix4 base bits a \<longleftrightarrow> unat base \<le> unat a \<and> unat a < unat base + 2 ^ (32 - bits)"
proof -
  have "unat base div 2 ^ (32 - bits) * 2 ^ (32 - bits) = unat base" using assms by (simp add: div_mult_mod_eq mod_0_imp_dvd)
  then show ?thesis unfolding in_prefix4_def unat_eq_drop_bit
    using div_eq_range [of "2 ^ (32 - bits)" "unat a" "unat base div 2 ^ (32 - bits)"] by simp
qed

text \<open>The IPv4 addresses that are not public, as ranges: this network, private use, carrier-grade NAT, loopback, link-local,
  protocol assignments, documentation, benchmarking, and multicast with everything above it.\<close>

definition special4 :: "(32 word \<times> 32 word) list" where
  "special4 =
     [(quad 0 0 0 0, quad 0 255 255 255), (quad 10 0 0 0, quad 10 255 255 255), (quad 100 64 0 0, quad 100 127 255 255),
      (quad 127 0 0 0, quad 127 255 255 255), (quad 169 254 0 0, quad 169 254 255 255), (quad 172 16 0 0, quad 172 31 255 255),
      (quad 192 0 0 0, quad 192 0 0 255), (quad 192 0 2 0, quad 192 0 2 255), (quad 192 168 0 0, quad 192 168 255 255),
      (quad 198 18 0 0, quad 198 19 255 255), (quad 198 51 100 0, quad 198 51 100 255), (quad 203 0 113 0, quad 203 0 113 255),
      (quad 224 0 0 0, quad 255 255 255 255)]"

lemma in_prefix4_interval:
  assumes "unat base mod 2 ^ (32 - bits) = 0" "unat hi = unat base + 2 ^ (32 - bits) - 1"
  shows "in_prefix4 base bits a \<longleftrightarrow> base \<le> a \<and> a \<le> hi"
  proof -
  have "0 < (2::nat) ^ (32 - bits)" by simp
  then show ?thesis unfolding in_prefix4_range [OF assms(1)] word_le_nat_alt assms(2) by linarith
qed

lemma prefixes4:
  "in_prefix4 (quad 0 0 0 0) 8 a \<longleftrightarrow> quad 0 0 0 0 \<le> a \<and> a \<le> quad 0 255 255 255"
  "in_prefix4 (quad 10 0 0 0) 8 a \<longleftrightarrow> quad 10 0 0 0 \<le> a \<and> a \<le> quad 10 255 255 255"
  "in_prefix4 (quad 100 64 0 0) 10 a \<longleftrightarrow> quad 100 64 0 0 \<le> a \<and> a \<le> quad 100 127 255 255"
  "in_prefix4 (quad 127 0 0 0) 8 a \<longleftrightarrow> quad 127 0 0 0 \<le> a \<and> a \<le> quad 127 255 255 255"
  "in_prefix4 (quad 169 254 0 0) 16 a \<longleftrightarrow> quad 169 254 0 0 \<le> a \<and> a \<le> quad 169 254 255 255"
  "in_prefix4 (quad 172 16 0 0) 12 a \<longleftrightarrow> quad 172 16 0 0 \<le> a \<and> a \<le> quad 172 31 255 255"
  "in_prefix4 (quad 192 0 0 0) 24 a \<longleftrightarrow> quad 192 0 0 0 \<le> a \<and> a \<le> quad 192 0 0 255"
  "in_prefix4 (quad 192 0 2 0) 24 a \<longleftrightarrow> quad 192 0 2 0 \<le> a \<and> a \<le> quad 192 0 2 255"
  "in_prefix4 (quad 192 168 0 0) 16 a \<longleftrightarrow> quad 192 168 0 0 \<le> a \<and> a \<le> quad 192 168 255 255"
  "in_prefix4 (quad 198 18 0 0) 15 a \<longleftrightarrow> quad 198 18 0 0 \<le> a \<and> a \<le> quad 198 19 255 255"
  "in_prefix4 (quad 198 51 100 0) 24 a \<longleftrightarrow> quad 198 51 100 0 \<le> a \<and> a \<le> quad 198 51 100 255"
  "in_prefix4 (quad 203 0 113 0) 24 a \<longleftrightarrow> quad 203 0 113 0 \<le> a \<and> a \<le> quad 203 0 113 255"
  "in_prefix4 (quad 224 0 0 0) 4 a \<longleftrightarrow> quad 224 0 0 0 \<le> a \<and> a \<le> quad 239 255 255 255"
  "in_prefix4 (quad 240 0 0 0) 4 a \<longleftrightarrow> quad 240 0 0 0 \<le> a \<and> a \<le> quad 255 255 255 255"
  by (rule in_prefix4_interval; simp add: unat_quad)+

lemma public4:
  "PublicAddress (Addr4 a) \<longleftrightarrow> (\<forall>(lo, hi)\<in>set special4. \<not> (lo \<le> a \<and> a \<le> hi))"
proof -
  have "quad 224 0 0 0 \<le> a \<and> a \<le> quad 255 255 255 255 \<longleftrightarrow>
      quad 224 0 0 0 \<le> a \<and> a \<le> quad 239 255 255 255 \<or> quad 240 0 0 0 \<le> a \<and> a \<le> quad 255 255 255 255"
    unfolding word_le_nat_alt by (simp add: unat_quad) linarith
  note top = this [unfolded prefixes4 [symmetric]]
  have zero: "in_prefix4 (quad 0 0 0 0) 8 0" by (simp add: in_prefix4_def quad_def)
  have all: "in_prefix4 (quad 240 0 0 0) 4 (quad 255 255 255 255)"
    unfolding prefixes4 word_le_nat_alt by (simp add: unat_quad)
  have "(\<forall>(lo, hi)\<in>set special4. \<not> (lo \<le> a \<and> a \<le> hi)) \<longleftrightarrow>
      \<not> (\<exists>(base, bits)\<in>{(quad 0 0 0 0, 8), (quad 10 0 0 0, 8), (quad 100 64 0 0, 10), (quad 127 0 0 0, 8), (quad 169 254 0 0, 16),
        (quad 172 16 0 0, 12), (quad 192 0 0 0, 24), (quad 192 0 2 0, 24), (quad 192 168 0 0, 16), (quad 198 18 0 0, 15),
        (quad 198 51 100 0, 24), (quad 203 0 113 0, 24), (quad 224 0 0 0, 4), (quad 240 0 0 0, 4)}. in_prefix4 base bits a)"
    unfolding special4_def list.set ball_simps bex_simps prod.case top prefixes4 [symmetric] by blast
  also have "\<dots> \<longleftrightarrow> PublicAddress (Addr4 a)"
    using zero all by (auto simp: PublicAddress_def Let_def IsUnspecified_def IsGlobalUnicast_def reservedPrefixes_def)
  finally show ?thesis by blast
qed

lemma public6:
  "PublicAddress (Addr6 a zone) \<longleftrightarrow>
     (if drop_bit 32 a = 0xFFFF then PublicAddress (Addr4 (ucast a))
      else \<not> (a = 1 \<or> in_prefix6 (high6 0xFC000000) 7 a \<or> in_prefix6 (high6 0xFE800000) 10 a \<or> in_prefix6 (high6 0xFF000000) 8 a \<or>
              zone = '''' \<and> (a = 0 \<or> in_prefix6 (high6 0x20010DB8) 32 a)))"
  by (auto simp: PublicAddress_def Let_def IsUnspecified_def IsGlobalUnicast_def reservedPrefixes_def)

text \<open>Two kinds of special addresses that count as public: those with a zone that would be unspecified or reserved
  without it, and IPv4 addresses that a NAT64 prefix embeds.\<close>

lemma zoned_unspecified_is_public: "zone \<noteq> '''' \<Longrightarrow> PublicAddress (Addr6 0 zone)"
  by (simp add: public6 in_prefix6_def high6_def)

lemma nat64_loopback_is_public: "PublicAddress (Addr6 (high6 0x0064FF9B OR 0x7F000001) '''')"
  by (simp add: public6 in_prefix6_def high6_def)

section \<open>What is contacted\<close>

lemma ValidateURL_accepts:
  assumes "ValidateURL L P raw = Inr u"
  shows "NL_parse L raw = Inr u" "U_Scheme u = ''https'' \<or> NP_AllowHTTP P \<and> U_Scheme u = ''http''" "U_Hostname u \<noteq> ''''"
    "\<not> U_HasUser u" "port_allowed P (if N_Port u = '''' then ''443'' else N_Port u)"
    "\<not> NP_AllowPrivate P \<Longrightarrow> \<not> reserved_host (ToLower (trim_suffix (U_Hostname u) ''.''))"
    "\<not> NP_AllowPrivate P \<Longrightarrow> NL_parse_addr L (ToLower (trim_suffix (U_Hostname u) ''.'')) = Inr a \<Longrightarrow> PublicAddress a"
  using assms by (auto simp: ValidateURL_def Let_def split: sum.splits if_splits)

lemma dial_loop_tried:
  assumes "dial_loop dial text_of port as failures = (tried, r)"
  shows "set tried \<subseteq> set as" and "r = Inr c \<Longrightarrow> \<exists>a\<in>set tried. dial (JoinHostPort (text_of a) port) = Inr c"
proof -
  have "set tried \<subseteq> set as \<and> (\<forall>c. r = Inr c \<longrightarrow> (\<exists>a\<in>set tried. dial (JoinHostPort (text_of a) port) = Inr c))"
    using assms
  proof (induction as arbitrary: failures tried)
    case (Cons a as)
    show ?case
    proof (cases "dial (JoinHostPort (text_of a) port)")
      case (Inl e)
      then obtain rest where "dial_loop dial text_of port as (failures @ [e]) = (rest, r)" "tried = a # rest"
        using Cons.prems by (auto split: prod.splits)
      with Cons.IH [of "failures @ [e]" rest] show ?thesis by auto
    qed (use Cons.prems in auto)
  qed auto
  then show "set tried \<subseteq> set as" and "r = Inr c \<Longrightarrow> \<exists>a\<in>set tried. dial (JoinHostPort (text_of a) port) = Inr c" by blast+
qed

lemma Unmap_public [simp]: "PublicAddress (Unmap a) = PublicAddress a"
proof (cases a)
  case (Addr6 b zone)
  have "drop_bit 32 b = 0xFFFF \<Longrightarrow> Unmap (Addr4 (ucast b)) = Addr4 (ucast b)" by simp
  then show ?thesis by (simp add: Addr6 PublicAddress_def)
qed simp_all

lemma dials_public:
  assumes "restrictedDialContext L P lookup dial address = (tried, r)"
  shows "a \<in> set tried \<Longrightarrow> NP_AllowPrivate P \<or> PublicAddress a"
    and "r = Inr c \<Longrightarrow> \<exists>host port u as a. NL_split_host_port L address = Inr (host, port) \<and>
      ValidateURL L P (''https://'' @ JoinHostPort host port) = Inr u \<and> lookup host = Inr as \<and> a \<in> set as \<and>
      (NP_AllowPrivate P \<or> PublicAddress a) \<and> dial (JoinHostPort (NL_addr_string L a) port) = Inr c"
proof -
  have "tried = [] \<and> (\<forall>c. r \<noteq> Inr c) \<or>
    (\<exists>host port u as. NL_split_host_port L address = Inr (host, port) \<and> ValidateURL L P (''https://'' @ JoinHostPort host port) = Inr u \<and>
      lookup host = Inr as \<and> (\<forall>a\<in>set as. NP_AllowPrivate P \<or> PublicAddress a) \<and>
      dial_loop dial (NL_addr_string L) port as [] = (tried, r))"
    using assms by (fastforce simp: restrictedDialContext_def list_ex_iff split: sum.splits if_splits prod.splits)
  then show "a \<in> set tried \<Longrightarrow> NP_AllowPrivate P \<or> PublicAddress a"
    and "r = Inr c \<Longrightarrow> \<exists>host port u as a. NL_split_host_port L address = Inr (host, port) \<and>
      ValidateURL L P (''https://'' @ JoinHostPort host port) = Inr u \<and> lookup host = Inr as \<and> a \<in> set as \<and>
      (NP_AllowPrivate P \<or> PublicAddress a) \<and> dial (JoinHostPort (NL_addr_string L a) port) = Inr c"
    using dial_loop_tried by fastforce+
qed

definition redirect_limit :: "net_policy \<Rightarrow> nat" where
  "redirect_limit P = (if NP_MaxRedirects P \<le> 0 then 3 else nat (NP_MaxRedirects P))"

lemma redirect_follows:
  "restrictedRedirect L P location via = Follow \<Longrightarrow> via \<le> redirect_limit P \<and> (\<exists>u. ValidateURL L P location = Inr u)"
  by (auto simp: restrictedRedirect_def redirect_limit_def split: sum.splits if_splits)

lemma client_do_returns:
  assumes "0 < fuel" "redirect_limit P < via + fuel"
  shows "\<exists>requests result. client_do L P checked send fuel via target = Some (requests, result)"
  using assms
proof (induction fuel arbitrary: via target)
  case (Suc fuel)
  have "\<exists>requests result. client_do L P checked send fuel (Suc via) location = Some (requests, result)"
    if "restrictedRedirect L P location (Suc via) = Follow" for location
  proof (rule Suc.IH)
    show "0 < fuel" "redirect_limit P < Suc via + fuel" using redirect_follows [OF that] Suc.prems(2) by simp_all
  qed
  then show ?case
    by (fastforce split: option.split sum.split answer_kind.split redirect_decision.split)
qed simp

lemma client_do_requests:
  assumes "client_do L P checked send fuel via target = Some (requests, result)"
  shows "\<forall>x\<in>set (if checked then requests else tl requests). \<exists>u. ValidateURL L P x = Inr u"
    and "length requests \<le> Suc (redirect_limit P - via)"
proof -
  have "(\<forall>x\<in>set (tl requests). \<exists>u. ValidateURL L P x = Inr u) \<and> (requests \<noteq> [] \<longrightarrow> hd requests = target) \<and>
    (checked \<longrightarrow> requests \<noteq> [] \<longrightarrow> (\<exists>u. ValidateURL L P target = Inr u)) \<and> length requests \<le> Suc (redirect_limit P - via)"
    using assms
  proof (induction fuel arbitrary: via target requests)
    case (Suc fuel)
    show ?case
    proof (cases "\<exists>location rest. restrictedRedirect L P location (Suc via) = Follow \<and>
        client_do L P checked send fuel (Suc via) location = Some (rest, result) \<and> requests = target # rest")
      case True
      then obtain location rest where r: "restrictedRedirect L P location (Suc via) = Follow"
        "client_do L P checked send fuel (Suc via) location = Some (rest, result)" "requests = target # rest" by blast
      note ih = Suc.IH [OF r(2)]
      have "\<forall>x\<in>set rest. \<exists>u. ValidateURL L P x = Inr u"
        using ih redirect_follows [OF r(1)] by (cases rest) auto
      moreover have "checked \<longrightarrow> (\<exists>u. ValidateURL L P target = Inr u)"
        using Suc.prems r(3) by (auto simp: RoundTrip_refusal_def split: sum.splits)
      moreover have "length requests \<le> Suc (redirect_limit P - via)"
      proof -
        have "length rest \<le> Suc (redirect_limit P - Suc via)" "Suc via \<le> redirect_limit P"
          using ih redirect_follows [OF r(1)] by blast+
        then show ?thesis unfolding r(3) list.size by arith
      qed
      ultimately show ?thesis using r(3) by simp
    next
      case False
      then have "requests = [] \<or> requests = [target] \<and> (checked \<longrightarrow> RoundTrip_refusal L P target = None)"
        using Suc.prems by (auto split: option.splits sum.splits answer_kind.splits redirect_decision.splits if_splits)
      then show ?thesis by (auto simp: RoundTrip_refusal_def split: sum.splits)
    qed
  qed simp
  then show "\<forall>x\<in>set (if checked then requests else tl requests). \<exists>u. ValidateURL L P x = Inr u"
    and "length requests \<le> Suc (redirect_limit P - via)"
    by (cases requests; auto)+
qed

end
