(* ===== verification/Trust_Bundle.thy ===== *)
theory Trust_Bundle
  imports Authentication Net_Policy Federation_Service
begin

text \<open>
  The trust snapshot that operators distribute (\<open>internal/hub/trust_bundle.go\<close>): its validation, its detached signature
  (\<open>internal/hub/trust_bundle_signature.go\<close>), the manager that replaces it, and the decisions taken from it. Key
  parsing, signature verification, base64 and the JSON decoder belong to Go's library and are parameters. The maps of a
  bundle are lists of their entries, in the order in which Go ranges over them.
\<close>

section \<open>Keys and signatures\<close>

text \<open>A public key by its type. \<open>pem_public_key\<close> is \<open>pem.Decode\<close> followed by \<open>x509.ParsePKIXPublicKey\<close>: no PEM block, a block that
  does not parse, or a key.\<close>

datatype 'k public_key = RSA_Key 'k | ECDSA_Key 'k | Ed25519_Key 'k | Other_Key

record 'k key_lib =
  KL_rsa_pem :: "string \<Rightarrow> 'k public_key result"
  KL_ec_pem :: "string \<Rightarrow> 'k public_key result"
  KL_ed_pem :: "string \<Rightarrow> 'k public_key result"
  KL_pem_block :: "string \<Rightarrow> string option"
  KL_parse_pkix :: "string \<Rightarrow> 'k public_key result"
  KL_raw_url_base64 :: "string \<Rightarrow> string result"
  KL_std_base64 :: "string \<Rightarrow> string result"
  KL_sha256 :: "string \<Rightarrow> string"
  KL_ed25519 :: "'k \<Rightarrow> string \<Rightarrow> string \<Rightarrow> bool"
  KL_rsa_pkcs1 :: "'k \<Rightarrow> string \<Rightarrow> string \<Rightarrow> bool"
  KL_ecdsa_asn1 :: "'k \<Rightarrow> string \<Rightarrow> string \<Rightarrow> bool"

definition ParsePublicKeyPEM :: "'k key_lib \<Rightarrow> string \<Rightarrow> 'k public_key result" where
  "ParsePublicKeyPEM K encoded =
     (case KL_rsa_pem K encoded of Inr key \<Rightarrow> Inr key | Inl _ \<Rightarrow>
       (case KL_ec_pem K encoded of Inr key \<Rightarrow> Inr key | Inl _ \<Rightarrow>
         (case KL_ed_pem K encoded of Inr key \<Rightarrow> Inr key | Inl _ \<Rightarrow>
           Inl (ErrText ''public key file must contain an RSA, ECDSA, or Ed25519 public key''))))"

definition NewTrustBundleSignatureVerifier :: "'k key_lib \<Rightarrow> string \<Rightarrow> 'k public_key result" where
  "NewTrustBundleSignatureVerifier K publicKeyPEM =
     (case KL_pem_block K publicKeyPEM of
        None \<Rightarrow> Inl (ErrText ''trust bundle signing key is not PEM'')
      | Some block \<Rightarrow>
          (case KL_parse_pkix K block of
             Inl e \<Rightarrow> Inl (ErrWrap ''parse trust bundle signing key'' e)
           | Inr Other_Key \<Rightarrow> Inl (ErrText ''trust bundle signing key must be ECDSA, RSA, or Ed25519'')
           | Inr key \<Rightarrow> Inr key))"

definition loadTrustBundlePublicKey :: "'k key_lib \<Rightarrow> (string \<Rightarrow> string result) \<Rightarrow> string \<Rightarrow> 'k public_key result" where
  "loadTrustBundlePublicKey K files path =
     (if blank path then Inl (ErrText ''trust bundle signing public key path is required'')
      else case files path of
        Inl e \<Rightarrow> Inl (ErrWrap ''read trust bundle signing key'' e)
      | Inr encodedKey \<Rightarrow> NewTrustBundleSignatureVerifier K encodedKey)"

definition loadTrustBundleSignature :: "'k key_lib \<Rightarrow> (string \<Rightarrow> string result) \<Rightarrow> string \<Rightarrow> string \<Rightarrow> 'k public_key result" where
  "loadTrustBundleSignature K files path keyPath =
     (if blank path \<or> blank keyPath
      then Inl (ErrText ''trust bundle signature and public key paths are required together'')
      else loadTrustBundlePublicKey K files keyPath)"

text \<open>The verifier's key is \<^term>\<open>None\<close> for the zero value of the verifier.\<close>

definition Verify :: "'k key_lib \<Rightarrow> 'k public_key option \<Rightarrow> string \<Rightarrow> string \<Rightarrow> error option" where
  "Verify K key payload encodedSignature =
     (case key of
        None \<Rightarrow> Some (ErrText ''trust bundle signing key is not configured'')
      | Some k \<Rightarrow>
          let signatureText = TrimSpace encodedSignature in
          if signatureText = '''' then Some (ErrText ''trust bundle signature is empty'')
          else case (case KL_raw_url_base64 K signatureText of Inr s \<Rightarrow> Inr s | Inl _ \<Rightarrow> KL_std_base64 K signatureText) of
            Inl _ \<Rightarrow> Some (ErrText ''trust bundle signature is not base64'')
          | Inr signature \<Rightarrow>
              (case k of
                 Ed25519_Key x \<Rightarrow> if KL_ed25519 K x payload signature then None
                   else Some (ErrText ''trust bundle Ed25519 signature verification failed'')
               | RSA_Key x \<Rightarrow> if KL_rsa_pkcs1 K x (KL_sha256 K payload) signature then None
                   else Some (ErrText ''trust bundle RSA signature verification failed'')
               | ECDSA_Key x \<Rightarrow> if KL_ecdsa_asn1 K x (KL_sha256 K payload) signature then None
                   else Some (ErrText ''trust bundle ECDSA signature verification failed'')
               | Other_Key \<Rightarrow> Some (ErrText ''unsupported trust bundle signing key'')))"

section \<open>Bundles\<close>

record workload_profile =
  WP_Subject :: string
  WP_TenantID :: string
  WP_Issuer :: string
  WP_Scopes :: "string list"
  WP_Roles :: "string list"
  WP_Delegation :: "delegated_actor list"

record card_key_policy =
  CK_NotBefore :: time
  CK_ExpiresAt :: time
  CK_Revoked :: bool

record trust_bundle =
  TB_Version :: int
  TB_Generation :: uint64
  TB_NotBefore :: time
  TB_ExpiresAt :: time
  TB_Issuers :: "(string \<times> issuer_trust_profile) list"
  TB_Workloads :: "(string \<times> workload_profile) list"
  TB_CardKeys :: "(string \<times> string) list"
  TB_CardKeyPolicies :: "(string \<times> card_key_policy) list"

definition validateTrustIssuer :: "net_lib \<Rightarrow> string \<Rightarrow> error option" where
  "validateTrustIssuer L value =
     (case NL_parse L (TrimSpace value) of
        Inl _ \<Rightarrow> Some (ErrText ''issuer must be an absolute URI without user, query, or fragment'')
      | Inr u \<Rightarrow>
          if U_Host u = '''' \<or> U_HasUser u \<or> N_RawQuery u \<noteq> '''' \<or> U_Fragment u \<noteq> ''''
          then Some (ErrText ''issuer must be an absolute URI without user, query, or fragment'')
          else if U_Scheme u \<noteq> ''https'' \<and> U_Scheme u \<noteq> ''spiffe'' then Some (ErrText ''issuer must use HTTPS or SPIFFE'')
          else None)"

definition validateSPIFFEIdentity :: "net_lib \<Rightarrow> string \<Rightarrow> error option" where
  "validateSPIFFEIdentity L value =
     (case NL_parse L (TrimSpace value) of
        Inl _ \<Rightarrow> Some (ErrText ''workload identity must be a SPIFFE URI with host and path'')
      | Inr u \<Rightarrow>
          if U_Scheme u \<noteq> ''spiffe'' \<or> U_Host u = '''' \<or> N_Path u = '''' \<or> U_HasUser u \<or> N_RawQuery u \<noteq> '''' \<or> U_Fragment u \<noteq> ''''
          then Some (ErrText ''workload identity must be a SPIFFE URI with host and path'') else None)"

fun unique_strings :: "string \<Rightarrow> string set \<Rightarrow> string list \<Rightarrow> error option" where
  "unique_strings label seen [] = None"
| "unique_strings label seen (v # rest) =
     (let value = TrimSpace v
      in if value = '''' then Some (ErrText (label @ '' list contains an empty value''))
         else if value \<in> seen then Some (ErrText (label @ '' list repeats '' @ value))
         else unique_strings label (insert value seen) rest)"

definition validateUniqueStrings :: "string list \<Rightarrow> string \<Rightarrow> error option" where
  "validateUniqueStrings values label = unique_strings label {} values"

fun check_bundle_issuers :: "net_lib \<Rightarrow> (string \<times> issuer_trust_profile) list \<Rightarrow> error option" where
  "check_bundle_issuers L [] = None"
| "check_bundle_issuers L ((issuer, profile) # rest) =
     (case validateTrustIssuer L issuer of
        Some e \<Rightarrow> Some (ErrWrap (''trust bundle issuer '' @ issuer) e)
      | None \<Rightarrow>
          (case TenantTrust_Validate \<lparr>TTD_Version = 1, TTD_Issuers = [(issuer, profile)]\<rparr> of
             Some e \<Rightarrow> Some e | None \<Rightarrow> check_bundle_issuers L rest))"

text \<open>The issuer of a workload: the configured one, or the trust domain of its identity. The code validates a configured issuer
  once more further down, which cannot fail any more.\<close>

definition workload_trust_issuer :: "net_lib \<Rightarrow> string \<Rightarrow> workload_profile \<Rightarrow> string result" where
  "workload_trust_issuer L workloadID profile =
     (if WP_Issuer profile \<noteq> '''' then Inr (WP_Issuer profile)
      else case NL_parse L workloadID of
        Inl _ \<Rightarrow> Inl (ErrText (''invalid workload URI: '' @ workloadID))
      | Inr u \<Rightarrow> Inr (''spiffe://'' @ U_Host u))"

definition check_workload :: "net_lib \<Rightarrow> (string \<times> issuer_trust_profile) list \<Rightarrow> string \<Rightarrow> workload_profile \<Rightarrow> error option" where
  "check_workload L issuers workloadID profile =
     (case validateSPIFFEIdentity L workloadID of
        Some e \<Rightarrow> Some (ErrWrap (''trust bundle workload '' @ workloadID) e)
      | None \<Rightarrow>
          if blank (WP_Subject profile) \<or> blank (WP_TenantID profile)
          then Some (ErrText (''trust bundle workload requires subject and tenantId: '' @ workloadID))
          else case workload_trust_issuer L workloadID profile of
            Inl e \<Rightarrow> Some e
          | Inr issuer \<Rightarrow>
              (case validateTrustIssuer L issuer of
                 Some e \<Rightarrow> Some (ErrWrap (''trust bundle workload issuer: '' @ workloadID) e)
               | None \<Rightarrow>
                   (case map_of issuers issuer of
                      None \<Rightarrow> Some (ErrText (''trust bundle workload issuer is not configured: '' @ issuer))
                    | Some issuerProfile \<Rightarrow>
                        if WP_TenantID profile \<notin> set (ITP_Tenants issuerProfile)
                        then Some (ErrText (''trust bundle workload tenant is not trusted for issuer: '' @ workloadID))
                        else (case validateUniqueStrings (WP_Scopes profile) ''scope'' of
                          Some e \<Rightarrow> Some (ErrWrap (''trust bundle workload '' @ workloadID) e)
                        | None \<Rightarrow>
                            (case validateUniqueStrings (WP_Roles profile) ''role'' of
                               Some e \<Rightarrow> Some (ErrWrap (''trust bundle workload '' @ workloadID) e)
                             | None \<Rightarrow>
                                 if list_ex (\<lambda>a. blank (Actor_Subject a)) (WP_Delegation profile)
                                 then Some (ErrText (''trust bundle workload delegation has no subject: '' @ workloadID)) else None)))))"

fun check_workloads :: "net_lib \<Rightarrow> (string \<times> issuer_trust_profile) list \<Rightarrow> (string \<times> workload_profile) list \<Rightarrow> error option" where
  "check_workloads L issuers [] = None"
| "check_workloads L issuers ((workloadID, profile) # rest) =
     (case check_workload L issuers workloadID profile of Some e \<Rightarrow> Some e | None \<Rightarrow> check_workloads L issuers rest)"

fun check_card_keys :: "'k key_lib \<Rightarrow> (string \<times> string) list \<Rightarrow> error option" where
  "check_card_keys K [] = None"
| "check_card_keys K ((keyID, encoded) # rest) =
     (if blank keyID \<or> length keyID > 256
      then Some (ErrText ''trust bundle Card key IDs must be non-empty and at most 256 bytes'')
      else case ParsePublicKeyPEM K encoded of
        Inl e \<Rightarrow> Some (ErrWrap (''trust bundle Card key '' @ keyID) e)
      | Inr _ \<Rightarrow> check_card_keys K rest)"

fun check_card_policies :: "(string \<times> string) list \<Rightarrow> (string \<times> card_key_policy) list \<Rightarrow> error option" where
  "check_card_policies keys [] = None"
| "check_card_policies keys ((keyID, policy) # rest) =
     (if blank keyID \<or> length keyID > 256
      then Some (ErrText ''trust bundle Card key policy IDs must be non-empty and at most 256 bytes'')
      else if map_of keys keyID = None
      then Some (ErrText (''trust bundle Card key policy has no corresponding cardKeys entry: '' @ keyID))
      else if CK_NotBefore policy = zero_time \<or> CK_ExpiresAt policy = zero_time \<or> \<not> CK_ExpiresAt policy > CK_NotBefore policy
      then Some (ErrText (''trust bundle Card key policy requires an ordered notBefore and expiresAt: '' @ keyID))
      else check_card_policies keys rest)"

definition TrustBundle_Validate :: "net_lib \<Rightarrow> 'k key_lib \<Rightarrow> trust_bundle \<Rightarrow> error option" where
  "TrustBundle_Validate L K b =
     (if TB_Version b \<noteq> 1 then Some (ErrText ''trust bundle version must be 1'')
      else if TB_Generation b = 0 then Some (ErrText ''trust bundle generation must be positive'')
      else if TB_NotBefore b = zero_time \<or> TB_ExpiresAt b = zero_time \<or> \<not> TB_ExpiresAt b > TB_NotBefore b
      then Some (ErrText ''trust bundle requires an ordered notBefore and expiresAt'')
      else if TB_Issuers b = [] then Some (ErrText ''trust bundle must configure at least one issuer'')
      else case check_bundle_issuers L (TB_Issuers b) of
        Some e \<Rightarrow> Some e
      | None \<Rightarrow>
          (case check_workloads L (TB_Issuers b) (TB_Workloads b) of
             Some e \<Rightarrow> Some e
           | None \<Rightarrow>
               (case check_card_keys K (TB_CardKeys b) of
                  Some e \<Rightarrow> Some e
                | None \<Rightarrow> check_card_policies (TB_CardKeys b) (TB_CardKeyPolicies b))))"

definition ValidateAt :: "net_lib \<Rightarrow> 'k key_lib \<Rightarrow> trust_bundle \<Rightarrow> time \<Rightarrow> error option" where
  "ValidateAt L K b now =
     (case TrustBundle_Validate L K b of
        Some e \<Rightarrow> Some e
      | None \<Rightarrow>
          if now < TB_NotBefore b then Some (ErrText ''trust bundle is not active yet'')
          else if \<not> now < TB_ExpiresAt b then Some (ErrText ''trust bundle has expired'') else None)"

definition decodeTrustBundle ::
  "net_lib \<Rightarrow> 'k key_lib \<Rightarrow> (string \<Rightarrow> (trust_bundle \<times> bool) result) \<Rightarrow> string \<Rightarrow> trust_bundle result" where
  "decodeTrustBundle L K decode encoded =
     (case decode encoded of
        Inl e \<Rightarrow> Inl (ErrWrap ''decode trust bundle file'' e)
      | Inr (b, single) \<Rightarrow>
          if \<not> single then Inl (ErrText ''trust bundle file contains trailing data'')
          else case TrustBundle_Validate L K b of Some e \<Rightarrow> Inl e | None \<Rightarrow> Inr b)"

definition LoadTrustBundleFile ::
  "net_lib \<Rightarrow> 'k key_lib \<Rightarrow> (string \<Rightarrow> (trust_bundle \<times> bool) result) \<Rightarrow> (string \<Rightarrow> string result) \<Rightarrow> string \<Rightarrow> trust_bundle result" where
  "LoadTrustBundleFile L K decode files path =
     (if blank path then Inl (ErrText ''trust bundle file path is required'')
      else case files path of
        Inl e \<Rightarrow> Inl (ErrWrap ''read trust bundle file'' e)
      | Inr encoded \<Rightarrow>
          if length encoded > 2 ^ 20 then Inl (ErrText ''trust bundle file exceeds 1 MiB'') else decodeTrustBundle L K decode encoded)"

section \<open>Distribution over HTTPS\<close>

text \<open>\<open>transport.ReadBounded\<close>; \<open>HR_ReadFails\<close> says that reading fails before the limit.\<close>

definition ReadBounded :: "int \<Rightarrow> http_response \<Rightarrow> string result" where
  "ReadBounded maximum response =
     (let limit = (if maximum \<le> 0 then 2 ^ 20 else maximum); body = limited_body limit (HR_Body response)
      in if HR_ReadFails response then Inl (ErrText ''read response'')
         else if int (length body) > limit then Inl (ErrText ''response exceeds configured size limit'')
         else Inr body)"

text \<open>One exchange of the client is given the bearer token; \<open>HS_HasClient\<close> is a client that was set, whose requests are
  then checked by \<open>WithURLPolicy\<close>.\<close>

record bundle_source =
  HS_BundleURL :: string
  HS_SignatureURL :: string
  HS_HasClient :: bool
  HS_URLPolicy :: net_policy
  HS_Bearer :: "(nat \<Rightarrow> string result) option"
  HS_MaxResponseBytes :: int
  HS_Request_ok :: "string \<Rightarrow> bool"
  HS_Send :: "nat \<Rightarrow> string option \<Rightarrow> nat \<Rightarrow> string \<Rightarrow> http_response answer_kind result"

definition NewHTTPSignedTrustBundleSource ::
  "net_lib \<Rightarrow> bundle_source \<Rightarrow> string \<Rightarrow> string \<Rightarrow> (nat \<Rightarrow> string result) option \<Rightarrow> bundle_source result" where
  "NewHTTPSignedTrustBundleSource L outside bundleURL signatureURL bearer =
     (case ValidateBaseURL L HTTPSBaseURLPolicy (TrimSpace bundleURL) of
        Inl e \<Rightarrow> Inl (ErrWrap ''Trust Bundle URL must be an HTTPS base URL without user, query, or fragment'' e)
      | Inr b \<Rightarrow>
          (case ValidateBaseURL L HTTPSBaseURLPolicy (TrimSpace signatureURL) of
             Inl e \<Rightarrow> Inl (ErrWrap ''Trust Bundle signature URL must be an HTTPS base URL without user, query, or fragment'' e)
           | Inr s \<Rightarrow>
               if \<not> SameOrigin (Some b) (Some s)
               then Inl (ErrText ''Trust Bundle URL and signature URL must use the same HTTPS origin'')
               else Inr (outside\<lparr>HS_BundleURL := trim_right (CHR ''/'') (U_String b),
                 HS_SignatureURL := trim_right (CHR ''/'') (U_String s), HS_Bearer := bearer, HS_HasClient := True,
                 HS_URLPolicy := HTTPSBaseURLPolicy, HS_MaxResponseBytes := 2 ^ 20\<rparr>)))"

definition source_urlPolicy :: "bundle_source \<Rightarrow> net_policy" where
  "source_urlPolicy s =
     (let P = HS_URLPolicy s
      in if NP_AllowPrivate P \<or> NP_AllowHTTP P \<or> NP_AllowedPorts P \<noteq> None \<or> NP_MaxRedirects P \<noteq> 0 then P else HTTPSBaseURLPolicy)"

definition source_token :: "bundle_source \<Rightarrow> nat \<Rightarrow> string option result" where
  "source_token s t =
     (case HS_Bearer s of
        None \<Rightarrow> Inr None
      | Some bearer \<Rightarrow>
          (case bearer t of
             Inl e \<Rightarrow> Inl e
           | Inr token \<Rightarrow> if blank token then Inl (ErrText ''Trust Bundle credential is empty'') else Inr (Some token)))"

text \<open>The redirects are followed with the fuel that \<open>client_do_returns\<close> shows to be enough.\<close>

definition fetch_one :: "net_lib \<Rightarrow> bundle_source \<Rightarrow> nat \<Rightarrow> string \<Rightarrow> string result" where
  "fetch_one L s t endpoint =
     (case ValidateBaseURL L (source_urlPolicy s) endpoint of
        Inl e \<Rightarrow> Inl (ErrWrap ''validate Trust Bundle distribution URL'' e)
      | Inr _ \<Rightarrow>
          if \<not> HS_Request_ok s endpoint then Inl (ErrText ''create request'')
          else case source_token s t of
            Inl e \<Rightarrow> Inl e
          | Inr token \<Rightarrow>
              (case client_do L (source_urlPolicy s) (HS_HasClient s) (HS_Send s t token)
                      (Suc (redirect_limit (source_urlPolicy s))) 0 endpoint of
                 None \<Rightarrow> Inl (ErrText ''out of fuel'')
               | Some (_, Inl e) \<Rightarrow> Inl e
               | Some (_, Inr response) \<Rightarrow>
                   if HR_StatusCode response < 200 \<or> HR_StatusCode response \<ge> 300
                   then Inl (ErrText (''HTTP '' @ int_digits (HR_StatusCode response)))
                   else (case ReadBounded (HS_MaxResponseBytes s) response of
                     Inl e \<Rightarrow> Inl e
                   | Inr encoded \<Rightarrow> if encoded = '''' then Inl (ErrText ''response is empty'') else Inr encoded)))"

definition Fetch :: "net_lib \<Rightarrow> bundle_source option \<Rightarrow> nat \<Rightarrow> (string \<times> string) result" where
  "Fetch L source t =
     (case source of
        None \<Rightarrow> Inl (ErrText ''HTTPS Trust Bundle source is not configured'')
      | Some s \<Rightarrow>
          if HS_BundleURL s = '''' \<or> HS_SignatureURL s = '''' then Inl (ErrText ''HTTPS Trust Bundle source is not configured'')
          else case fetch_one L s t (HS_BundleURL s) of
            Inl e \<Rightarrow> Inl (ErrWrap ''fetch Trust Bundle'' e)
          | Inr bundle \<Rightarrow>
              (case fetch_one L s (Suc t) (HS_SignatureURL s) of
                 Inl e \<Rightarrow> Inl (ErrWrap ''fetch Trust Bundle signature'' e)
               | Inr signature \<Rightarrow> Inr (bundle, signature)))"

section \<open>The manager\<close>

text \<open>The state of \<open>TrustBundleManager\<close>. What it reads from outside at one time: the files and what its source fetches. The
  digest is that of the bytes of the current snapshot.\<close>

record 'k bundle_manager =
  TM_Path :: string
  TM_Signature :: string
  TM_HasSource :: bool
  TM_Verifier :: "'k public_key option option"
  TM_Current :: "trust_bundle option"
  TM_Digest :: "string option"
  TM_Generation :: uint64

record bundle_inputs =
  BI_Files :: "string \<Rightarrow> string result"
  BI_Fetch :: "(string \<times> string) result"

record 'k bundle_lib =
  BL_Net :: net_lib
  BL_Keys :: "'k key_lib"
  BL_Decode :: "string \<Rightarrow> (trust_bundle \<times> bool) result"

definition Snapshot :: "'k bundle_manager option \<Rightarrow> trust_bundle option" where
  "Snapshot m = (case m of None \<Rightarrow> None | Some x \<Rightarrow> TM_Current x)"

text \<open>The bytes and the signature, read and verified.\<close>

definition signature_check :: "'k bundle_lib \<Rightarrow> 'k bundle_manager \<Rightarrow> bundle_inputs \<Rightarrow> string \<Rightarrow> string \<Rightarrow> error option" where
  "signature_check B m i encoded fetched =
     (case TM_Verifier m of
        None \<Rightarrow> None
      | Some key \<Rightarrow>
          (case (if TM_HasSource m then Inr fetched else BI_Files i (TM_Signature m)) of
             Inl e \<Rightarrow> Some (ErrWrap ''read trust bundle signature'' e)
           | Inr signature \<Rightarrow>
               if length signature > 64 * 1024 then Some (ErrText ''trust bundle signature exceeds 64 KiB'')
               else Verify (BL_Keys B) key encoded signature))"

definition verified_bytes :: "'k bundle_lib \<Rightarrow> 'k bundle_manager \<Rightarrow> bundle_inputs \<Rightarrow> string result" where
  "verified_bytes B m i =
     (case (if TM_HasSource m then BI_Fetch i else map_sum id (\<lambda>encoded. (encoded, '''')) (BI_Files i (TM_Path m))) of
        Inl e \<Rightarrow> Inl e
      | Inr (encoded, signature) \<Rightarrow>
          if length encoded > 2 ^ 20 then Inl (ErrText ''trust bundle file exceeds 1 MiB'')
          else case signature_check B m i encoded signature of Some e \<Rightarrow> Inl e | None \<Rightarrow> Inr encoded)"

definition Reload :: "'k bundle_lib \<Rightarrow> bundle_inputs \<Rightarrow> 'k bundle_manager \<Rightarrow> bool result \<times> 'k bundle_manager" where
  "Reload B i m =
     (if TM_Path m = '''' \<and> \<not> TM_HasSource m then (Inl (ErrText ''trust bundle manager is not configured''), m)
      else case verified_bytes B m i of
        Inl e \<Rightarrow> (Inl e, m)
      | Inr encoded \<Rightarrow>
          let digest = KL_sha256 (BL_Keys B) encoded in
          if TM_Digest m = Some digest then (Inr False, m)
          else case decodeTrustBundle (BL_Net B) (BL_Keys B) (BL_Decode B) encoded of
            Inl e \<Rightarrow> (Inl e, m)
          | Inr b \<Rightarrow>
              if TM_Generation m \<noteq> 0 \<and> TB_Generation b \<le> TM_Generation m
              then (Inl (ErrText ''trust bundle generation is not newer''), m)
              else (Inr True, m\<lparr>TM_Current := Some b, TM_Generation := TB_Generation b, TM_Digest := Some digest\<rparr>))"

definition reload_new :: "'k bundle_lib \<Rightarrow> bundle_inputs \<Rightarrow> 'k bundle_manager \<Rightarrow> 'k bundle_manager result" where
  "reload_new B i m = (case Reload B i m of (Inl e, _) \<Rightarrow> Inl e | (Inr _, m') \<Rightarrow> Inr m')"

definition empty_manager :: "string \<Rightarrow> string \<Rightarrow> bool \<Rightarrow> 'k public_key option option \<Rightarrow> 'k bundle_manager" where
  "empty_manager path signaturePath hasSource verifier =
     \<lparr>TM_Path = path, TM_Signature = signaturePath, TM_HasSource = hasSource, TM_Verifier = verifier, TM_Current = None,
      TM_Digest = None, TM_Generation = 0\<rparr>"

definition new_manager :: "'k bundle_lib \<Rightarrow> bundle_inputs \<Rightarrow> string \<Rightarrow> string \<Rightarrow> 'k public_key option option \<Rightarrow> 'k bundle_manager result" where
  "new_manager B i path signaturePath verifier =
     (if TrimSpace path = '''' then Inl (ErrText ''trust bundle file path is required'')
      else reload_new B i (empty_manager (TrimSpace path) (TrimSpace signaturePath) False verifier))"

definition NewTrustBundleManager :: "'k bundle_lib \<Rightarrow> bundle_inputs \<Rightarrow> string \<Rightarrow> 'k bundle_manager result" where
  "NewTrustBundleManager B i path = new_manager B i path '''' None"

definition NewSignedTrustBundleManager ::
  "'k bundle_lib \<Rightarrow> bundle_inputs \<Rightarrow> string \<Rightarrow> string \<Rightarrow> string \<Rightarrow> 'k bundle_manager result" where
  "NewSignedTrustBundleManager B i path signaturePath publicKeyPath =
     (case loadTrustBundleSignature (BL_Keys B) (BI_Files i) signaturePath publicKeyPath of
        Inl e \<Rightarrow> Inl e | Inr key \<Rightarrow> new_manager B i path signaturePath (Some (Some key)))"

definition NewSignedTrustBundleManagerFromSource ::
  "'k bundle_lib \<Rightarrow> bundle_inputs \<Rightarrow> bool \<Rightarrow> string \<Rightarrow> 'k bundle_manager result" where
  "NewSignedTrustBundleManagerFromSource B i hasSource publicKeyPath =
     (if \<not> hasSource then Inl (ErrText ''Trust Bundle source is required'')
      else case loadTrustBundlePublicKey (BL_Keys B) (BI_Files i) publicKeyPath of
        Inl e \<Rightarrow> Inl e | Inr key \<Rightarrow> reload_new B i (empty_manager '''' '''' True (Some (Some key))))"

text \<open>\<open>Watch\<close>: one reload for each tick until the context ends, with the errors that are reported.\<close>

fun watch_ticks :: "'k bundle_lib \<Rightarrow> bundle_inputs list \<Rightarrow> 'k bundle_manager \<Rightarrow> error list \<times> 'k bundle_manager" where
  "watch_ticks B [] m = ([], m)"
| "watch_ticks B (i # ticks) m =
     (case Reload B i m of (r, m1) \<Rightarrow>
        (case watch_ticks B ticks m1 of (reports, m2) \<Rightarrow>
           ((case r of Inl e \<Rightarrow> e # reports | Inr _ \<Rightarrow> reports), m2)))"

definition Watch :: "'k bundle_lib \<Rightarrow> duration \<Rightarrow> bundle_inputs list \<Rightarrow> 'k bundle_manager \<Rightarrow> error list \<times> 'k bundle_manager" where
  "Watch B interval ticks m = (if interval \<le> 0 then ([], m) else watch_ticks B ticks m)"

section \<open>Decisions\<close>

definition Manager_ValidatePrincipal :: "'k bundle_lib \<Rightarrow> 'k bundle_manager option \<Rightarrow> time \<Rightarrow> principal \<Rightarrow> error option" where
  "Manager_ValidatePrincipal B m now p =
     (case Snapshot m of
        None \<Rightarrow> Some (ErrText ''trust bundle is unavailable'')
      | Some b \<Rightarrow>
          (case ValidateAt (BL_Net B) (BL_Keys B) b now of
             Some e \<Rightarrow> Some e
           | None \<Rightarrow>
               (case map_of (TB_Issuers b) (Principal_Issuer p) of
                  None \<Rightarrow> Some (ErrText ''principal issuer is not trusted'')
                | Some profile \<Rightarrow>
                    if Principal_TenantID p \<notin> set (ITP_Tenants profile)
                    then Some (ErrText ''principal tenant is not trusted for issuer'')
                    else (case find (\<lambda>scope. \<not> HasScope p scope) (ITP_RequiredScopes profile) of
                      Some scope \<Rightarrow> Some (ErrText (''principal is missing trust scope '' @ scope))
                    | None \<Rightarrow> None))))"

definition ResolveWorkload :: "'k bundle_lib \<Rightarrow> 'k bundle_manager option \<Rightarrow> time \<Rightarrow> string \<Rightarrow> principal result" where
  "ResolveWorkload B m now workloadID =
     (case Snapshot m of
        None \<Rightarrow> Inl ErrUnauthenticated
      | Some b \<Rightarrow>
          if ValidateAt (BL_Net B) (BL_Keys B) b now \<noteq> None then Inl ErrUnauthenticated
          else case map_of (TB_Workloads b) workloadID of
            None \<Rightarrow> Inl ErrUnauthenticated
          | Some profile \<Rightarrow>
              (case workload_trust_issuer (BL_Net B) workloadID profile of
                 Inl _ \<Rightarrow> Inl ErrUnauthenticated
               | Inr issuer \<Rightarrow> Inr (zero_principal\<lparr>Principal_Subject := WP_Subject profile, Principal_TenantID := WP_TenantID profile,
                   Principal_Issuer := issuer, Principal_Scopes := WP_Scopes profile, Principal_Roles := WP_Roles profile,
                   Principal_Delegation := WP_Delegation profile\<rparr>)))"

definition ValidateCurrent :: "'k bundle_lib \<Rightarrow> 'k bundle_manager option \<Rightarrow> time \<Rightarrow> error option" where
  "ValidateCurrent B m now =
     (case Snapshot m of
        None \<Rightarrow> Some (ErrText ''trust bundle is unavailable'') | Some b \<Rightarrow> ValidateAt (BL_Net B) (BL_Keys B) b now)"

definition IssuerConfigured :: "'k bundle_manager option \<Rightarrow> string \<Rightarrow> bool" where
  "IssuerConfigured m issuer =
     (case Snapshot m of None \<Rightarrow> False | Some b \<Rightarrow> map_of (TB_Issuers b) (TrimSpace issuer) \<noteq> None)"

text \<open>The clock is read twice, for the bundle and for the policy of the key.\<close>

definition ResolveCardKey :: "'k bundle_lib \<Rightarrow> 'k bundle_manager option \<Rightarrow> time \<Rightarrow> time \<Rightarrow> string \<Rightarrow> 'k public_key result" where
  "ResolveCardKey B m now now' kid =
     (case m of
        None \<Rightarrow> Inl (ErrText ''trust bundle manager is unavailable'')
      | Some _ \<Rightarrow>
          (case Snapshot m of
             None \<Rightarrow> Inl (ErrText ''trust bundle is unavailable'')
           | Some b \<Rightarrow>
               (case ValidateAt (BL_Net B) (BL_Keys B) b now of
                  Some e \<Rightarrow> Inl (ErrWrap ''trust bundle is not active'' e)
                | None \<Rightarrow>
                    let keyID = TrimSpace kid in
                    (case map_of (TB_CardKeys b) keyID of
                       None \<Rightarrow> Inl (ErrText (''AgentCard signing key is not trusted: '' @ keyID))
                     | Some encoded \<Rightarrow>
                         (case map_of (TB_CardKeyPolicies b) keyID of
                            None \<Rightarrow> ParsePublicKeyPEM (BL_Keys B) encoded
                          | Some policy \<Rightarrow>
                              if CK_Revoked policy then Inl (ErrText (''AgentCard signing key is revoked: '' @ keyID))
                              else if now' < CK_NotBefore policy then Inl (ErrText (''AgentCard signing key is not active yet: '' @ keyID))
                              else if \<not> now' < CK_ExpiresAt policy then Inl (ErrText (''AgentCard signing key has expired: '' @ keyID))
                              else ParsePublicKeyPEM (BL_Keys B) encoded)))))"

definition Manager_Generation :: "'k bundle_manager option \<Rightarrow> uint64 option" where
  "Manager_Generation m = (case Snapshot m of None \<Rightarrow> None | Some b \<Rightarrow> Some (TB_Generation b))"

definition HasWorkloads :: "'k bundle_manager option \<Rightarrow> bool" where
  "HasWorkloads m = (case Snapshot m of None \<Rightarrow> False | Some b \<Rightarrow> TB_Workloads b \<noteq> [])"

section \<open>What the manager holds\<close>

text \<open>A snapshot has been validated, and its generation is the one that is remembered.\<close>

definition manager_ok :: "'k bundle_lib \<Rightarrow> 'k bundle_manager \<Rightarrow> bool" where
  "manager_ok B m \<longleftrightarrow>
     (case TM_Current m of
        None \<Rightarrow> TM_Generation m = 0 \<and> TM_Digest m = None
      | Some b \<Rightarrow> TrustBundle_Validate (BL_Net B) (BL_Keys B) b = None \<and> TM_Generation m = TB_Generation b)"

lemma Validate_generation: "TrustBundle_Validate L K b = None \<Longrightarrow> TB_Generation b \<noteq> 0"
  by (auto simp: TrustBundle_Validate_def split: if_splits)

lemma decode_accepts:
  "decodeTrustBundle L K decode encoded = Inr b \<Longrightarrow> decode encoded = Inr (b, True) \<and> TrustBundle_Validate L K b = None"
  by (auto simp: decodeTrustBundle_def split: sum.splits prod.splits if_splits option.splits)

lemma Reload_unchanged: "Reload B i m = (r, m') \<Longrightarrow> r \<noteq> Inr True \<Longrightarrow> m' = m"
  by (auto simp: Reload_def Let_def split: sum.splits if_splits)

lemma Reload_installs:
  assumes "Reload B i m = (Inr True, m')"
  shows "\<exists>encoded b. verified_bytes B m i = Inr encoded \<and> BL_Decode B encoded = Inr (b, True) \<and>
      TrustBundle_Validate (BL_Net B) (BL_Keys B) b = None \<and> (TM_Generation m = 0 \<or> TM_Generation m < TB_Generation b) \<and>
      m' = m\<lparr>TM_Current := Some b, TM_Generation := TB_Generation b, TM_Digest := Some (KL_sha256 (BL_Keys B) encoded)\<rparr>"
  using assms decode_accepts [of "BL_Net B" "BL_Keys B" "BL_Decode B"]
  by (auto simp: Reload_def Let_def not_le split: sum.splits if_splits)

lemma Reload_keeps:
  assumes "manager_ok B m" "Reload B i m = (r, m')"
  shows "manager_ok B m'" "TM_Generation m \<le> TM_Generation m'" "r = Inr True \<Longrightarrow> TM_Generation m < TM_Generation m'"
    "TM_Verifier m' = TM_Verifier m" "TM_HasSource m' = TM_HasSource m"
proof -
  have "TM_Generation m < TM_Generation m'" if r: "r = Inr True"
  proof -
    obtain b where "TrustBundle_Validate (BL_Net B) (BL_Keys B) b = None" "TM_Generation m = 0 \<or> TM_Generation m < TB_Generation b"
      "TM_Generation m' = TB_Generation b"
      using Reload_installs [of B i m m'] assms(2) r by auto
    with Validate_generation [of "BL_Net B" "BL_Keys B" b] show ?thesis by (auto simp: word_gt_0)
  qed
  moreover have "manager_ok B m' \<and> TM_Verifier m' = TM_Verifier m \<and> TM_HasSource m' = TM_HasSource m"
  proof (cases "r = Inr True")
    case True
    with Reload_installs [of B i m m'] assms(2) show ?thesis by (auto simp: manager_ok_def)
  next
    case False
    with Reload_unchanged [OF assms(2)] assms(1) show ?thesis by simp
  qed
  ultimately show "manager_ok B m'" "TM_Generation m \<le> TM_Generation m'" "r = Inr True \<Longrightarrow> TM_Generation m < TM_Generation m'"
    "TM_Verifier m' = TM_Verifier m" "TM_HasSource m' = TM_HasSource m"
    using Reload_unchanged [OF assms(2)] by (cases "r = Inr True"; force)+
qed

text \<open>The snapshots that a run of ticks installs, in order.\<close>

fun installed :: "'k bundle_lib \<Rightarrow> bundle_inputs list \<Rightarrow> 'k bundle_manager \<Rightarrow> trust_bundle list" where
  "installed B [] m = []"
| "installed B (i # ticks) m =
     (case Reload B i m of (r, m') \<Rightarrow>
        (if r = Inr True then [the (TM_Current m')] else []) @ installed B ticks m')"

lemma installed_increasing:
  assumes "manager_ok B m" "watch_ticks B ticks m = (reports, m')"
  shows "sorted_wrt (<) (TM_Generation m # map TB_Generation (installed B ticks m)) \<and> manager_ok B m' \<and>
    TM_Current m' = (if installed B ticks m = [] then TM_Current m else Some (List.last (installed B ticks m)))"
  using assms
proof (induction ticks arbitrary: m reports)
  case (Cons i ticks)
  obtain r m1 where r: "Reload B i m = (r, m1)" by fastforce
  obtain reports1 where w: "watch_ticks B ticks m1 = (reports1, m')"
    using Cons.prems(2) r by (auto split: prod.splits)
  note k = Reload_keeps [OF Cons.prems(1) r]
  note ih = Cons.IH [OF k(1) w]
  show ?case
  proof (cases "r = Inr True")
    case True
    then obtain b where b: "TM_Current m1 = Some b" "TM_Generation m1 = TB_Generation b" "TM_Generation m < TB_Generation b"
      using Reload_installs [of B i m m1] r k(3) by auto
    from ih b show ?thesis by (auto simp: r True)
  next
    case False
    with Reload_unchanged [OF r] ih show ?thesis by (simp add: r)
  qed
qed simp

section \<open>What is decided from a snapshot\<close>

lemma ValidateAt_None:
  "ValidateAt L K b now = None \<longleftrightarrow> TrustBundle_Validate L K b = None \<and> TB_NotBefore b \<le> now \<and> now < TB_ExpiresAt b"
  by (auto simp: ValidateAt_def split: option.splits)

lemma check_workloads_None:
  "check_workloads L issuers l = None \<longleftrightarrow> (\<forall>(i, profile)\<in>set l. check_workload L issuers i profile = None)"
  by (induction L issuers l rule: check_workloads.induct) (auto split: option.split)

lemma check_workload_trusted:
  assumes "check_workload L issuers i profile = None"
  shows "\<not> blank (WP_Subject profile) \<and> \<not> blank (WP_TenantID profile) \<and>
    (\<exists>issuer trusted. workload_trust_issuer L i profile = Inr issuer \<and> map_of issuers issuer = Some trusted \<and>
       WP_TenantID profile \<in> set (ITP_Tenants trusted))"
  using assms by (auto simp: check_workload_def split: option.splits if_splits sum.splits)

lemma Validate_workloads:
  assumes "TrustBundle_Validate L K b = None"
  shows "check_workloads L (TB_Issuers b) (TB_Workloads b) = None"
  using assms by (auto simp: TrustBundle_Validate_def split: if_splits option.splits)

lemma resolved_workload_trusted:
  assumes "ResolveWorkload B m now i = Inr p"
  shows "\<exists>b trusted. Snapshot m = Some b \<and> TB_NotBefore b \<le> now \<and> now < TB_ExpiresAt b \<and>
    \<not> blank (Principal_Subject p) \<and> \<not> blank (Principal_TenantID p) \<and>
    map_of (TB_Issuers b) (Principal_Issuer p) = Some trusted \<and> Principal_TenantID p \<in> set (ITP_Tenants trusted)"
proof -
  obtain b where b: "Snapshot m = Some b" using assms by (auto simp: ResolveWorkload_def split: option.splits)
  have v: "ValidateAt (BL_Net B) (BL_Keys B) b now = None"
    using assms b by (auto simp: ResolveWorkload_def split: if_splits)
  obtain profile where profile: "map_of (TB_Workloads b) i = Some profile"
    using assms b v by (auto simp: ResolveWorkload_def split: option.splits)
  obtain issuer where issuer: "workload_trust_issuer (BL_Net B) i profile = Inr issuer"
    using assms b v profile by (auto simp: ResolveWorkload_def split: sum.splits)
  have p: "Principal_Issuer p = issuer" "Principal_TenantID p = WP_TenantID profile" "Principal_Subject p = WP_Subject profile"
    using assms b v profile issuer by (auto simp: ResolveWorkload_def)
  have "check_workload (BL_Net B) (TB_Issuers b) i profile = None"
    using Validate_workloads [of "BL_Net B" "BL_Keys B" b] v map_of_SomeD [OF profile]
    unfolding ValidateAt_None check_workloads_None by auto
  from check_workload_trusted [OF this] issuer p b v show ?thesis by (auto simp: ValidateAt_None)
qed

lemma card_key_active:
  assumes "ResolveCardKey B m now now' kid = Inr key"
  shows "\<exists>b encoded. Snapshot m = Some b \<and> TB_NotBefore b \<le> now \<and> now < TB_ExpiresAt b \<and>
    map_of (TB_CardKeys b) (TrimSpace kid) = Some encoded \<and> ParsePublicKeyPEM (BL_Keys B) encoded = Inr key \<and>
    (\<forall>policy. map_of (TB_CardKeyPolicies b) (TrimSpace kid) = Some policy \<longrightarrow>
       \<not> CK_Revoked policy \<and> CK_NotBefore policy \<le> now' \<and> now' < CK_ExpiresAt policy)"
  using assms
  by (auto simp: ResolveCardKey_def Let_def ValidateAt_None split: option.splits if_splits)

lemma manager_validates:
  "Manager_ValidatePrincipal B m now p = None \<longleftrightarrow> (\<exists>b profile. Snapshot m = Some b \<and>
     TrustBundle_Validate (BL_Net B) (BL_Keys B) b = None \<and> TB_NotBefore b \<le> now \<and> now < TB_ExpiresAt b \<and>
     map_of (TB_Issuers b) (Principal_Issuer p) = Some profile \<and> Principal_TenantID p \<in> set (ITP_Tenants profile) \<and>
     (\<forall>scope\<in>set (ITP_RequiredScopes profile). HasScope p scope))"
proof (cases "Snapshot m")
  case (Some b)
  show ?thesis
  proof (cases "ValidateAt (BL_Net B) (BL_Keys B) b now")
    case None
    then show ?thesis
      by (cases "map_of (TB_Issuers b) (Principal_Issuer p)")
        (auto simp: Manager_ValidatePrincipal_def Some ValidateAt_None find_None_iff find_Some_iff split: option.splits)
  next
    case e: (Some e)
    then have "\<not> (TrustBundle_Validate (BL_Net B) (BL_Keys B) b = None \<and> TB_NotBefore b \<le> now \<and> now < TB_ExpiresAt b)"
      using ValidateAt_None [of "BL_Net B" "BL_Keys B" b now] by simp
    then show ?thesis by (auto simp: Manager_ValidatePrincipal_def Some e)
  qed
qed (simp add: Manager_ValidatePrincipal_def)

text \<open>A newer snapshot replaces the current one even when it is not active: then nobody is let in until it is.\<close>

lemma inactive_snapshot_installed:
  assumes "verified_bytes B m i = Inr encoded" "TM_Path m \<noteq> ''''" "TM_Digest m \<noteq> Some (KL_sha256 (BL_Keys B) encoded)"
    and "BL_Decode B encoded = Inr (b, True)" "TrustBundle_Validate (BL_Net B) (BL_Keys B) b = None"
    and "TM_Generation m < TB_Generation b" "now < TB_NotBefore b"
  shows "\<exists>m'. Reload B i m = (Inr True, m') \<and> (\<forall>p. Manager_ValidatePrincipal B (Some m') now p \<noteq> None) \<and>
    (\<forall>w. ResolveWorkload B (Some m') now w = Inl ErrUnauthenticated)"
proof -
  have "decodeTrustBundle (BL_Net B) (BL_Keys B) (BL_Decode B) encoded = Inr b"
    using assms(4,5) by (simp add: decodeTrustBundle_def)
  moreover have "\<not> TB_Generation b \<le> TM_Generation m" using assms(6) by simp
  ultimately have "Reload B i m = (Inr True, m\<lparr>TM_Current := Some b, TM_Generation := TB_Generation b,
      TM_Digest := Some (KL_sha256 (BL_Keys B) encoded)\<rparr>)" using assms(1-3) by (simp add: Reload_def Let_def)
  moreover have "ValidateAt (BL_Net B) (BL_Keys B) b now \<noteq> None" using assms(7) by (simp add: ValidateAt_None)
  ultimately show ?thesis
    by (auto simp: Manager_ValidatePrincipal_def ResolveWorkload_def Snapshot_def split: option.split)
qed

section \<open>Where the installed snapshots come from\<close>

lemma Reload_config:
  "Reload B i m = (r, m') \<Longrightarrow> TM_Path m' = TM_Path m \<and> TM_Signature m' = TM_Signature m \<and> TM_HasSource m' = TM_HasSource m \<and>
    TM_Verifier m' = TM_Verifier m"
  by (auto simp: Reload_def Let_def split: sum.splits if_splits)

lemma verified_bytes_config:
  "TM_Path m' = TM_Path m \<Longrightarrow> TM_Signature m' = TM_Signature m \<Longrightarrow> TM_HasSource m' = TM_HasSource m \<Longrightarrow> TM_Verifier m' = TM_Verifier m \<Longrightarrow>
    verified_bytes B m' i = verified_bytes B m i"
  by (simp add: verified_bytes_def signature_check_def split: sum.split option.split)

lemma installed_verified:
  assumes "b \<in> set (installed B ticks m)"
  shows "\<exists>i\<in>set ticks. \<exists>encoded. verified_bytes B m i = Inr encoded \<and> BL_Decode B encoded = Inr (b, True)"
  using assms
proof (induction ticks arbitrary: m)
  case (Cons i ticks)
  obtain r m1 where r: "Reload B i m = (r, m1)" by fastforce
  note c = Reload_config [OF r]
  have same: "verified_bytes B m1 j = verified_bytes B m j" for j using c by (intro verified_bytes_config) simp_all
  show ?case
  proof (cases "b \<in> set (installed B ticks m1)")
    case True
    from Cons.IH [OF this] show ?thesis by (auto simp: same)
  next
    case False
    then have "r = Inr True" "b = the (TM_Current m1)" using Cons.prems r by (auto split: if_splits)
    with Reload_installs [of B i m m1] r show ?thesis by auto
  qed
qed simp

lemma verified_from_files:
  assumes "verified_bytes B m i = Inr encoded" "\<not> TM_HasSource m" "TM_Verifier m = Some key"
  shows "BI_Files i (TM_Path m) = Inr encoded \<and> length encoded \<le> 2 ^ 20 \<and>
    (\<exists>signature. BI_Files i (TM_Signature m) = Inr signature \<and> Verify (BL_Keys B) key encoded signature = None)"
  using assms by (auto simp: verified_bytes_def signature_check_def map_sum_def split: sum.splits option.splits if_splits)

lemma signed_manager:
  assumes "NewSignedTrustBundleManager B i path signaturePath keyPath = Inr m"
  shows "\<exists>key b0. TM_Verifier m = Some (Some key) \<and> TM_Current m = Some b0 \<and> TM_Generation m = TB_Generation b0 \<and> manager_ok B m \<and>
    \<not> TM_HasSource m \<and> TM_Path m = TrimSpace path \<and> TM_Signature m = TrimSpace signaturePath \<and>
    (\<exists>encoded. verified_bytes B m i = Inr encoded \<and> BL_Decode B encoded = Inr (b0, True))"
proof -
  obtain key where k: "new_manager B i path signaturePath (Some (Some key)) = Inr m"
    using assms by (auto simp: NewSignedTrustBundleManager_def split: sum.splits)
  let ?e = "empty_manager (TrimSpace path) (TrimSpace signaturePath) False (Some (Some key))"
  have "\<exists>r. Reload B i ?e = (Inr r, m)"
    using k by (auto simp: new_manager_def reload_new_def split: if_splits sum.splits prod.splits)
  moreover have "Reload B i ?e \<noteq> (Inr False, m)"
    by (auto simp: Reload_def empty_manager_def Let_def split: sum.splits if_splits)
  ultimately have r: "Reload B i ?e = (Inr True, m)" by (metis (full_types))
  have c: "TM_Path m = TM_Path ?e" "TM_Signature m = TM_Signature ?e" "TM_HasSource m = TM_HasSource ?e" "TM_Verifier m = TM_Verifier ?e"
    using Reload_config [OF r] by simp_all
  have "manager_ok B ?e" by (simp add: manager_ok_def empty_manager_def)
  from Reload_keeps(1) [OF this r] Reload_installs [OF r] c verified_bytes_config [OF c] show ?thesis
    by (auto simp: empty_manager_def)
qed

end
