(* ===== verification/Card_Signature.thy ===== *)
theory Card_Signature
  imports Trust_Bundle
begin

text \<open>
  The signatures of agent cards (\<open>internal/federation/a2a/card_signature.go\<close>): signing a card, verifying one, and the two
  sources of keys, a fixed table and the trust bundle. The JSON of a card without its signatures, the JSON of a JWS header,
  base64 and the signature schemes are parameters. A card lists its interfaces without the null entries that JSON may have,
  and each of its maps by the names in the order in which Go ranges over them.
\<close>

section \<open>Cards\<close>

record card_jws =
  JWS_Protected :: string
  JWS_Signature :: string

record agent_interface =
  If_URL :: string
  If_Binding :: string
  If_Version :: string

record agent_card =
  Card_Name :: string
  Card_Version :: string
  Card_Interfaces :: "agent_interface list"
  Card_SecuritySchemes :: "string list"
  Card_SecurityRequirements :: "string list list"
  Card_Skills :: "string list"
  Card_Extensions :: "extension list"
  Card_Streaming :: bool
  Card_PushNotifications :: bool
  Card_Signatures :: "card_jws list"

text \<open>What the code uses of the libraries: the JSON of a card whose member \<open>signatures\<close> is removed, the objects of JWS
  headers, base64url without padding, and ECDSA over P-256. The signature schemes for RSA and Ed25519 and SHA-256 are those of
  \<^typ>\<open>'k key_lib\<close>.\<close>

record 'k jws_lib = "'k key_lib" +
  JL_card_json :: "agent_card \<Rightarrow> string result"
  JL_header_json :: "(string \<times> string) list \<Rightarrow> string"
  JL_parse_header :: "string \<Rightarrow> (string \<times> json) list option"
  JL_base64 :: "string \<Rightarrow> string"
  JL_is_p256 :: "'k \<Rightarrow> bool"
  JL_ecdsa :: "'k \<Rightarrow> string \<Rightarrow> string \<Rightarrow> string \<Rightarrow> bool"

text \<open>A member of a header that is a text, or \<open>""\<close>.\<close>

definition text_member :: "(string \<times> json) list \<Rightarrow> string \<Rightarrow> string" where
  "text_member header name = (case map_of header name of Some (JStr s) \<Rightarrow> s | _ \<Rightarrow> '''')"

definition CanonicalAgentCard :: "'k jws_lib \<Rightarrow> agent_card option \<Rightarrow> string result" where
  "CanonicalAgentCard J acard =
     (case acard of None \<Rightarrow> Inl (ErrText ''AgentCard is required'') | Some c \<Rightarrow> JL_card_json J c)"

definition decodeProtectedHeader :: "'k jws_lib \<Rightarrow> string \<Rightarrow> (string \<times> json) list result" where
  "decodeProtectedHeader J encoded =
     (if encoded = '''' then Inl (ErrText ''protected JWS header is empty'')
      else case KL_raw_url_base64 J encoded of
        Inl _ \<Rightarrow> Inl (ErrText ''protected JWS header is not base64url'')
      | Inr decoded \<Rightarrow>
          (case JL_parse_header J decoded of
             None \<Rightarrow> Inl (ErrText ''protected JWS header is not JSON'') | Some header \<Rightarrow> Inr header))"

section \<open>Verifying\<close>

definition signing_input :: "'k jws_lib \<Rightarrow> string \<Rightarrow> string \<Rightarrow> string" where
  "signing_input J protected payload = protected @ ''.'' @ JL_base64 J payload"

definition verifyJWS ::
  "'k jws_lib \<Rightarrow> (string \<times> json) list \<Rightarrow> string \<Rightarrow> string \<Rightarrow> string \<Rightarrow> 'k public_key \<Rightarrow> error option" where
  "verifyJWS J header protected encodedSignature payload key =
     (let algorithm = text_member header ''alg'' in
      if algorithm = '''' \<or> EqualFold algorithm ''none'' then Some (ErrText ''unsupported JWS algorithm'')
      else case KL_raw_url_base64 J encodedSignature of
        Inl _ \<Rightarrow> Some (ErrText ''JWS signature is not base64url'')
      | Inr signature \<Rightarrow>
          let input = signing_input J protected payload; digest = KL_sha256 J input in
          if algorithm = ''ES256'' then
            (case key of
               ECDSA_Key x \<Rightarrow>
                 if \<not> JL_is_p256 J x \<or> length signature \<noteq> 64 then Some (ErrText ''ES256 key or signature is invalid'')
                 else if JL_ecdsa J x digest (take 32 signature) (drop 32 signature) then None
                 else Some (ErrText ''ES256 signature verification failed'')
             | _ \<Rightarrow> Some (ErrText ''ES256 key or signature is invalid''))
          else if algorithm = ''RS256'' then
            (case key of
               RSA_Key x \<Rightarrow>
                 if KL_rsa_pkcs1 J x digest signature then None else Some (ErrText ''RS256 signature verification failed'')
             | _ \<Rightarrow> Some (ErrText ''RS256 key is invalid''))
          else if algorithm = ''EdDSA'' then
            (case key of
               Ed25519_Key x \<Rightarrow>
                 if KL_ed25519 J x input signature then None else Some (ErrText ''EdDSA signature verification failed'')
             | _ \<Rightarrow> Some (ErrText ''EdDSA signature verification failed''))
          else Some (ErrText ''unsupported JWS algorithm''))"

type_synonym 'k card_resolver = "agent_card \<Rightarrow> string \<Rightarrow> 'k public_key result"

definition Static_ResolveCardKey :: "(string \<rightharpoonup> 'k public_key) \<Rightarrow> 'k card_resolver" where
  "Static_ResolveCardKey table acard keyID =
     (case table keyID of
        None \<Rightarrow> Inl (ErrText (''AgentCard signing key is unavailable: '' @ keyID)) | Some key \<Rightarrow> Inr key)"

definition bundle_resolver :: "'k bundle_lib \<Rightarrow> 'k bundle_manager option \<Rightarrow> time \<Rightarrow> time \<Rightarrow> 'k card_resolver" where
  "bundle_resolver B m now now' acard keyID = ResolveCardKey B m now now' keyID"

record 'k card_verifier =
  CV_Resolver :: "'k card_resolver option"
  CV_Required :: bool

fun verify_any ::
  "'k jws_lib \<Rightarrow> 'k card_resolver \<Rightarrow> agent_card \<Rightarrow> string \<Rightarrow> card_jws list \<Rightarrow> error option" where
  "verify_any J resolve acard canonical [] = Some (ErrText ''AgentCard has no valid trusted signature'')"
| "verify_any J resolve acard canonical (signature # rest) =
     (case decodeProtectedHeader J (JWS_Protected signature) of
        Inl _ \<Rightarrow> verify_any J resolve acard canonical rest
      | Inr protected \<Rightarrow>
          let keyID = text_member protected ''kid'' in
          if keyID = '''' then verify_any J resolve acard canonical rest
          else case resolve acard keyID of
            Inl _ \<Rightarrow> verify_any J resolve acard canonical rest
          | Inr key \<Rightarrow>
              if verifyJWS J protected (JWS_Protected signature) (JWS_Signature signature) canonical key = None then None
              else verify_any J resolve acard canonical rest)"

definition CardVerifier_Verify :: "'k jws_lib \<Rightarrow> 'k card_verifier \<Rightarrow> agent_card option \<Rightarrow> error option" where
  "CardVerifier_Verify J v acard =
     (case acard of
        None \<Rightarrow> Some (ErrText ''AgentCard is required'')
      | Some c \<Rightarrow>
          if Card_Signatures c = [] then
            (if CV_Required v then Some (ErrText ''AgentCard signature is required'') else None)
          else case CV_Resolver v of
            None \<Rightarrow> if CV_Required v then Some (ErrText ''AgentCard signature resolver is not configured'') else None
          | Some resolve \<Rightarrow>
              (case CanonicalAgentCard J acard of
                 Inl e \<Rightarrow> Some e
               | Inr canonical \<Rightarrow> verify_any J resolve c canonical (Card_Signatures c)))"

section \<open>Signing\<close>

text \<open>A signer: its public key, and the signature of a message. An ECDSA signature is given as its two numbers of 32 bytes.\<close>

record 'k card_signer =
  SG_Public :: "'k public_key"
  SG_Sign :: "string \<Rightarrow> string result"

definition signingAlgorithm :: "'k jws_lib \<Rightarrow> 'k public_key \<Rightarrow> string result" where
  "signingAlgorithm J key =
     (case key of
        ECDSA_Key x \<Rightarrow> if JL_is_p256 J x then Inr ''ES256''
          else Inl (ErrText ''unsupported AgentCard signing key; use P-256 ECDSA, RSA, or Ed25519'')
      | RSA_Key x \<Rightarrow> Inr ''RS256''
      | Ed25519_Key x \<Rightarrow> Inr ''EdDSA''
      | Other_Key \<Rightarrow> Inl (ErrText ''unsupported AgentCard signing key; use P-256 ECDSA, RSA, or Ed25519''))"

text \<open>Every scheme is given the digest of the signing input.\<close>

definition SignAgentCard :: "'k jws_lib \<Rightarrow> 'k card_signer option \<Rightarrow> string \<Rightarrow> agent_card option \<Rightarrow> agent_card result" where
  "SignAgentCard J signer keyID acard =
     (case (acard, signer) of
        (Some c, Some s) \<Rightarrow>
          if blank keyID then Inl (ErrText ''AgentCard, signer, and key ID are required'')
          else (case CanonicalAgentCard J acard of
            Inl e \<Rightarrow> Inl e
          | Inr canonical \<Rightarrow>
              (case signingAlgorithm J (SG_Public s) of
                 Inl e \<Rightarrow> Inl e
               | Inr alg \<Rightarrow>
                   let protected = JL_base64 J (JL_header_json J [(''alg'', alg), (''kid'', keyID), (''typ'', ''JOSE'')]);
                       input = signing_input J protected canonical
                   in (case SG_Sign s (KL_sha256 J input) of
                         Inl e \<Rightarrow> Inl (ErrWrap ''sign AgentCard'' e)
                       | Inr signature \<Rightarrow> Inr (c\<lparr>Card_Signatures := Card_Signatures c @
                           [\<lparr>JWS_Protected = protected, JWS_Signature = JL_base64 J signature\<rparr>]\<rparr>))))
      | _ \<Rightarrow> Inl (ErrText ''AgentCard, signer, and key ID are required''))"

section \<open>What a verified card is\<close>

text \<open>A signature of the card that verifies under a key that the resolver gives for its key identifier.\<close>

definition trusted_signature :: "'k jws_lib \<Rightarrow> 'k card_resolver \<Rightarrow> agent_card \<Rightarrow> card_jws \<Rightarrow> string \<Rightarrow> 'k public_key \<Rightarrow> bool" where
  "trusted_signature J resolve acard signature keyID key \<longleftrightarrow>
     (\<exists>protected canonical. decodeProtectedHeader J (JWS_Protected signature) = Inr protected \<and> text_member protected ''kid'' = keyID \<and>
        keyID \<noteq> '''' \<and> resolve acard keyID = Inr key \<and> JL_card_json J acard = Inr canonical \<and>
        verifyJWS J protected (JWS_Protected signature) (JWS_Signature signature) canonical key = None)"

lemma verify_any_step:
  assumes "JL_card_json J acard = Inr canonical"
  shows "verify_any J resolve acard canonical (signature # rest) = None \<longleftrightarrow>
    (\<exists>keyID key. trusted_signature J resolve acard signature keyID key) \<or> verify_any J resolve acard canonical rest = None"
proof (cases "decodeProtectedHeader J (JWS_Protected signature)")
  case (Inr protected)
  then show ?thesis
    using assms by (cases "resolve acard (text_member protected ''kid'')") (auto simp: trusted_signature_def Let_def)
qed (use assms in \<open>simp add: trusted_signature_def\<close>)

lemma verify_any_None:
  assumes "JL_card_json J acard = Inr canonical"
  shows "verify_any J resolve acard canonical signatures = None \<longleftrightarrow>
    (\<exists>signature\<in>set signatures. \<exists>keyID key. trusted_signature J resolve acard signature keyID key)"
  by (induction signatures) (simp_all add: verify_any_step [OF assms] del: verify_any.simps(2))

lemma verified_card:
  "CardVerifier_Verify J v (Some acard) = None \<longleftrightarrow>
     (if Card_Signatures acard = [] then \<not> CV_Required v
      else case CV_Resolver v of
        None \<Rightarrow> \<not> CV_Required v
      | Some resolve \<Rightarrow> \<exists>signature\<in>set (Card_Signatures acard). \<exists>keyID key. trusted_signature J resolve acard signature keyID key)"
proof (cases "JL_card_json J acard")
  case (Inl e)
  then show ?thesis
    by (simp add: CardVerifier_Verify_def CanonicalAgentCard_def trusted_signature_def split: option.split)
next
  case (Inr canonical)
  then show ?thesis
    by (simp add: CardVerifier_Verify_def CanonicalAgentCard_def verify_any_None split: option.split)
qed

text \<open>With the trust bundle as the source of keys, the key is one of the active snapshot.\<close>

lemma bundle_signature:
  assumes "trusted_signature J (bundle_resolver B m now now') acard signature keyID key"
  shows "\<exists>b encoded. Snapshot m = Some b \<and> TB_NotBefore b \<le> now \<and> now < TB_ExpiresAt b \<and>
    map_of (TB_CardKeys b) (TrimSpace keyID) = Some encoded \<and> ParsePublicKeyPEM (BL_Keys B) encoded = Inr key \<and>
    (\<forall>policy. map_of (TB_CardKeyPolicies b) (TrimSpace keyID) = Some policy \<longrightarrow>
       \<not> CK_Revoked policy \<and> CK_NotBefore policy \<le> now' \<and> now' < CK_ExpiresAt policy)"
  using assms card_key_active [of B m now now' keyID key] by (auto simp: trusted_signature_def bundle_resolver_def)

section \<open>Signed cards verify\<close>

text \<open>The laws of the encodings: base64 and headers are read back, and a card's JSON does not depend on its signatures.\<close>

definition jws_ok :: "'k jws_lib \<Rightarrow> bool" where
  "jws_ok J \<longleftrightarrow>
     (\<forall>s. KL_raw_url_base64 J (JL_base64 J s) = Inr s \<and> (s \<noteq> '''' \<longrightarrow> JL_base64 J s \<noteq> '''')) \<and>
     (\<forall>ms. JL_header_json J ms \<noteq> '''' \<and> JL_parse_header J (JL_header_json J ms) = Some (map (\<lambda>(n, v). (n, JStr v)) ms)) \<and>
     (\<forall>c l. JL_card_json J (c\<lparr>Card_Signatures := l\<rparr>) = JL_card_json J c)"

text \<open>What the scheme of a key makes of a signature of the digest.\<close>

fun accepts_digest :: "'k jws_lib \<Rightarrow> 'k public_key \<Rightarrow> string \<Rightarrow> string \<Rightarrow> bool" where
  "accepts_digest J (ECDSA_Key x) digest signature =
     (length signature = 64 \<and> JL_ecdsa J x digest (take 32 signature) (drop 32 signature))"
| "accepts_digest J (RSA_Key x) digest signature = KL_rsa_pkcs1 J x digest signature"
| "accepts_digest J (Ed25519_Key x) digest signature = KL_ed25519 J x digest signature"
| "accepts_digest J Other_Key digest signature = False"

text \<open>The verification of a signature that was just made: RSA and ECDSA ask for a signature of the digest, which it is;
  Ed25519 asks for a signature of the signing input itself, which it is not.\<close>

lemma signed_card:
  assumes "SignAgentCard J (Some s) keyID (Some acard) = Inr acard'" "jws_ok J"
  shows "\<exists>jws input signature. Card_Signatures acard' = Card_Signatures acard @ [jws] \<and> SG_Sign s (KL_sha256 J input) = Inr signature \<and>
    keyID \<noteq> '''' \<and> (\<forall>resolve. resolve acard' keyID = Inr (SG_Public s) \<longrightarrow>
      (trusted_signature J resolve acard' jws keyID (SG_Public s) \<longleftrightarrow>
        (case SG_Public s of Ed25519_Key x \<Rightarrow> KL_ed25519 J x input signature
         | _ \<Rightarrow> accepts_digest J (SG_Public s) (KL_sha256 J input) signature)))"
proof -
  obtain canonical alg signature where steps: "\<not> blank keyID" "JL_card_json J acard = Inr canonical" "signingAlgorithm J (SG_Public s) = Inr alg"
    and sign: "SG_Sign s (KL_sha256 J (signing_input J (JL_base64 J (JL_header_json J [(''alg'', alg), (''kid'', keyID), (''typ'', ''JOSE'')])) canonical)) = Inr signature"
    and acard': "acard' = acard\<lparr>Card_Signatures := Card_Signatures acard @ [\<lparr>JWS_Protected =
      JL_base64 J (JL_header_json J [(''alg'', alg), (''kid'', keyID), (''typ'', ''JOSE'')]), JWS_Signature = JL_base64 J signature\<rparr>]\<rparr>"
    using assms(1) by (auto simp: SignAgentCard_def CanonicalAgentCard_def Let_def split: if_splits sum.splits)
  let ?ms = "[(''alg'', alg), (''kid'', keyID), (''typ'', ''JOSE'')]"
  let ?p = "JL_base64 J (JL_header_json J ?ms)"
  let ?h = "map (\<lambda>(n, v). (n, JStr v)) ?ms"
  have k: "keyID \<noteq> ''''" using steps(1) by (auto simp: blank_def TrimSpace_def)
  have h: "decodeProtectedHeader J ?p = Inr ?h" "KL_raw_url_base64 J (JL_base64 J signature) = Inr signature" "JL_card_json J acard' = Inr canonical"
    using assms(2) steps(2) unfolding acard' by (simp_all add: jws_ok_def decodeProtectedHeader_def)
  have m: "text_member ?h ''alg'' = alg" "text_member ?h ''kid'' = keyID" by (simp_all add: text_member_def)
  have alg: "case SG_Public s of ECDSA_Key x \<Rightarrow> JL_is_p256 J x \<and> alg = ''ES256'' | RSA_Key x \<Rightarrow> alg = ''RS256''
      | Ed25519_Key x \<Rightarrow> alg = ''EdDSA'' | Other_Key \<Rightarrow> False"
    using steps(3) by (auto simp: signingAlgorithm_def split: public_key.splits if_splits)
  have none: "EqualFold ''ES256'' ''none'' = False" "EqualFold ''RS256'' ''none'' = False" "EqualFold ''EdDSA'' ''none'' = False"
    by code_simp+
  have v: "verifyJWS J ?h ?p (JL_base64 J signature) canonical (SG_Public s) = None \<longleftrightarrow>
      (case SG_Public s of Ed25519_Key x \<Rightarrow> KL_ed25519 J x (signing_input J ?p canonical) signature
       | _ \<Rightarrow> accepts_digest J (SG_Public s) (KL_sha256 J (signing_input J ?p canonical)) signature)"
    using alg h(2) none by (cases "SG_Public s") (simp_all add: verifyJWS_def text_member_def Let_def)
  let ?jws = "\<lparr>JWS_Protected = ?p, JWS_Signature = JL_base64 J signature\<rparr>"
  have t: "trusted_signature J resolve acard' ?jws keyID (SG_Public s) \<longleftrightarrow> verifyJWS J ?h ?p (JL_base64 J signature) canonical (SG_Public s) = None"
    if "resolve acard' keyID = Inr (SG_Public s)" for resolve
    using that h k m by (simp add: trusted_signature_def)
  have "Card_Signatures acard' = Card_Signatures acard @ [?jws]" unfolding acard' by simp
  then show ?thesis
    using sign k by (intro exI conjI allI impI) (assumption | erule t [THEN trans, OF _ v])+
qed

end
