(* ===== verification/A2A_Adapter.thy ===== *)
theory A2A_Adapter
  imports Card_Signature Http_Api
begin

text \<open>
  The adapter to remote agents over A2A (\<open>internal/federation/a2a/adapter.go\<close>, \<open>extensions.go\<close>): discovery, the client of a
  registered agent, sending with its retries, and the translation of parts, events, states and errors. The A2A SDK is a
  parameter: its errors and constants, and what a call of it answers at a tick. A stream is the finite list of what it
  yields before it stops.
\<close>

section \<open>The SDK\<close>

datatype a2a_error =
    A2A_VersionNotSupported | A2A_Unauthenticated | A2A_Unauthorized | A2A_TaskNotFound | A2A_TaskNotCancelable | A2A_InvalidParams
  | A2A_UnsupportedContentType | A2A_UnsupportedOperation | A2A_PushNotificationNotSupported | A2A_InvalidAgentResponse

text \<open>\<open>errors.Is\<close> against an error of the SDK, that error as a value, \<open>a2a.ErrorReason\<close>, \<open>Error()\<close>, the digest of an event's
  JSON, and a value through JSON.\<close>

record a2a_lib =
  AL_is :: "error \<Rightarrow> a2a_error \<Rightarrow> bool"
  AL_err :: "a2a_error \<Rightarrow> error"
  AL_reason :: "error \<Rightarrow> string"
  AL_text :: "error \<Rightarrow> string"
  AL_any :: "json \<Rightarrow> json"

datatype a2a_state =
    A2A_Submitted | A2A_Working | A2A_InputRequired | A2A_AuthRequired | A2A_Completed | A2A_Failed | A2A_Canceled | A2A_Rejected
  | A2A_OtherState string

datatype a2a_content = Content_Text string | Content_Raw string | Content_URL string | Content_Data json | Content_Other

record a2a_part =
  AP_Content :: a2a_content
  AP_MediaType :: string
  AP_Filename :: string

record a2a_artifact =
  AA_ID :: string
  AA_Name :: string
  AA_Description :: string
  AA_Parts :: "a2a_part list"

datatype a2a_event =
    Ev_Message string string "a2a_part list"
  | Ev_Task string string a2a_state "time option" "a2a_artifact option list"
  | Ev_Status string string a2a_state "time option"
  | Ev_Artifact string string "a2a_artifact option" bool bool
  | Ev_Other

section \<open>Errors\<close>

definition problem_of :: "string \<Rightarrow> string \<Rightarrow> string \<Rightarrow> problem" where
  "problem_of category code message =
     \<lparr>Problem_Category = category, Problem_Code = code, Problem_Message = message, Problem_Retryable = False, Problem_Ambiguous = False\<rparr>"

definition mapError :: "a2a_lib \<Rightarrow> error \<Rightarrow> bool \<Rightarrow> error" where
  "mapError L e ambiguous =
     ErrFederation
       (if AL_is L e A2A_VersionNotSupported
        then problem_of ''protocol'' ''VERSION_NOT_SUPPORTED'' ''remote Agent rejected the A2A version''
        else if AL_is L e A2A_Unauthenticated
        then problem_of ''authentication'' ''UNAUTHENTICATED'' ''remote Agent authentication failed''
        else if AL_is L e A2A_Unauthorized
        then problem_of ''authorization'' ''UNAUTHORIZED'' ''remote Agent denied the operation''
        else if AL_is L e A2A_TaskNotFound then problem_of ''resource'' ''TASK_NOT_FOUND'' ''remote task is unavailable''
        else if AL_is L e A2A_TaskNotCancelable then problem_of ''state'' ''TASK_NOT_CANCELABLE'' ''remote task is not cancelable''
        else if AL_is L e A2A_InvalidParams \<or> AL_is L e A2A_UnsupportedContentType
        then problem_of ''validation'' (AL_reason L e) ''remote Agent rejected the request''
        else if AL_is L e A2A_UnsupportedOperation \<or> AL_is L e A2A_PushNotificationNotSupported
        then problem_of ''protocol'' (AL_reason L e) ''remote Agent does not support the operation''
        else (problem_of ''transport'' ''REMOTE_TRANSPORT_ERROR'' ''remote Agent request failed'')
               \<lparr>Problem_Retryable := True, Problem_Ambiguous := ambiguous\<rparr>)
       (Some (ErrWrap ''a2a call'' e))"

definition profileSelectionError :: "error \<Rightarrow> error" where
  "profileSelectionError cause =
     ErrFederation (problem_of ''protocol'' ''VERSION_OR_BINDING_NOT_SUPPORTED'' ''Agent Card does not advertise a configured A2A binding profile'')
       (Some cause)"

section \<open>Parts\<close>

definition part_to_a2a :: "golib \<Rightarrow> part \<Rightarrow> a2a_part result" where
  "part_to_a2a G value =
     map_sum id (\<lambda>c. \<lparr>AP_Content = c, AP_MediaType = Part_MediaType value, AP_Filename = Part_Filename value\<rparr>)
       (case Part_Kind value of
          PartText \<Rightarrow> if Part_Text value = '''' then Inl (ErrText ''message part text is empty'') else Inr (Content_Text (Part_Text value))
        | PartData \<Rightarrow>
            (case Part_Data value of None \<Rightarrow> Inl (ErrText ''message part data is missing'') | Some d \<Rightarrow> Inr (Content_Data d))
        | PartFile \<Rightarrow>
            if Part_BytesBase64 value \<noteq> '''' then
              (case G_base64_decode G (Part_BytesBase64 value) of
                 Inl _ \<Rightarrow> Inl (ErrText ''message part raw file is not valid base64'') | Inr raw \<Rightarrow> Inr (Content_Raw raw))
            else if Part_URI value \<noteq> '''' then Inr (Content_URL (Part_URI value))
            else if Part_ObjectID value \<noteq> ''''
            then Inl (ErrText ''message part contains an unresolved Artifact object reference'')
            else Inl (ErrText ''message part file content is missing'')
        | PartOther k \<Rightarrow> Inl (ErrText (''message part has unsupported kind '' @ k)))"

fun a2aPartsFromCore :: "golib \<Rightarrow> part list \<Rightarrow> a2a_part list result" where
  "a2aPartsFromCore G [] = Inr []"
| "a2aPartsFromCore G (v # vs) =
     (case part_to_a2a G v of
        Inl e \<Rightarrow> Inl e
      | Inr p \<Rightarrow> (case a2aPartsFromCore G vs of Inl e \<Rightarrow> Inl e | Inr ps \<Rightarrow> Inr (p # ps)))"

definition zero_part :: part where
  "zero_part =
     \<lparr>Part_Kind = PartOther '''', Part_MediaType = '''', Part_Filename = '''', Part_Text = '''', Part_BytesBase64 = '''', Part_URI = '''',
      Part_Data = None, Part_ObjectID = '''', Part_SizeBytes = 0, Part_SHA256 = ''''\<rparr>"

definition convert_part :: "a2a_lib \<Rightarrow> golib \<Rightarrow> a2a_part \<Rightarrow> part" where
  "convert_part L G p =
     (let converted = zero_part\<lparr>Part_MediaType := AP_MediaType p, Part_Filename := AP_Filename p\<rparr>
      in case AP_Content p of
           Content_Text s \<Rightarrow> converted\<lparr>Part_Kind := PartText, Part_Text := s\<rparr>
         | Content_Raw s \<Rightarrow> converted\<lparr>Part_Kind := PartFile, Part_BytesBase64 := G_base64_encode G s\<rparr>
         | Content_URL s \<Rightarrow> converted\<lparr>Part_Kind := PartFile, Part_URI := s\<rparr>
         | Content_Data d \<Rightarrow>
             converted\<lparr>Part_Kind := PartData, Part_Data := (case AL_any L d of JNull \<Rightarrow> None | v \<Rightarrow> Some v)\<rparr>
         | Content_Other \<Rightarrow> converted)"

definition convertParts :: "a2a_lib \<Rightarrow> golib \<Rightarrow> a2a_part list \<Rightarrow> part list" where
  "convertParts L G parts = map (convert_part L G) parts"

section \<open>Events\<close>

fun convertState :: "a2a_state \<Rightarrow> TaskState" where
  "convertState A2A_Submitted = TaskStateSubmitted"
| "convertState A2A_Working = TaskStateWorking"
| "convertState A2A_InputRequired = TaskStateInputRequired"
| "convertState A2A_AuthRequired = TaskStateAuthRequired"
| "convertState A2A_Completed = TaskStateCompleted"
| "convertState A2A_Failed = TaskStateFailed"
| "convertState A2A_Canceled = TaskStateCanceled"
| "convertState A2A_Rejected = TaskStateRejected"
| "convertState (A2A_OtherState s) = TaskStateUnknown"

definition convertArtifact :: "a2a_lib \<Rightarrow> golib \<Rightarrow> a2a_artifact option \<Rightarrow> bool \<Rightarrow> artifact" where
  "convertArtifact L G value complete =
     (case value of
        None \<Rightarrow> \<lparr>Artifact_ID = ''missing'', Artifact_Name = '''', Artifact_Description = '''', Artifact_Parts = [], Artifact_Complete = complete\<rparr>
      | Some a \<Rightarrow>
          \<lparr>Artifact_ID = AA_ID a, Artifact_Name = AA_Name a, Artifact_Description = AA_Description a,
           Artifact_Parts = convertParts L G (AA_Parts a), Artifact_Complete = complete\<rparr>)"

text \<open>\<open>digest\<close> is \<open>core.DigestJSON\<close> of events.\<close>

definition observationFromEvent :: "a2a_lib \<Rightarrow> golib \<Rightarrow> (a2a_event \<Rightarrow> string) \<Rightarrow> a2a_event \<Rightarrow> observation result" where
  "observationFromEvent L G digest event =
     (let observation =
        \<lparr>Obs_DedupKey = ''a2a:'' @ digest event, Obs_Source = ''a2a'', Obs_RemoteTaskID = '''', Obs_RemoteContextID = '''',
         Obs_State = TaskStateUnknown, Obs_Artifacts = [], Obs_Problem = None, Obs_RemoteObservedAt = None, Obs_CancelRequested = False,
         Obs_Final = False\<rparr>
      in case event of
           Ev_Message i context parts \<Rightarrow> Inr (observation\<lparr>Obs_State := TaskStateCompleted, Obs_Final := True, Obs_RemoteContextID := context,
             Obs_Artifacts := [\<lparr>Update_Artifact =
               \<lparr>Artifact_ID = ''message:'' @ i, Artifact_Name = ''direct-message'', Artifact_Description = '''',
                Artifact_Parts = convertParts L G parts, Artifact_Complete = True\<rparr>, Update_Append = False\<rparr>]\<rparr>)
         | Ev_Task i context state timestamp artifacts \<Rightarrow> Inr (observation\<lparr>Obs_RemoteTaskID := i, Obs_RemoteContextID := context,
             Obs_State := convertState state, Obs_Final := TaskState_Terminal (convertState state), Obs_RemoteObservedAt := timestamp,
             Obs_Artifacts := map (\<lambda>a. \<lparr>Update_Artifact = convertArtifact L G a True, Update_Append = False\<rparr>) artifacts\<rparr>)
         | Ev_Status i context state timestamp \<Rightarrow> Inr (observation\<lparr>Obs_RemoteTaskID := i, Obs_RemoteContextID := context,
             Obs_State := convertState state, Obs_Final := TaskState_Terminal (convertState state), Obs_RemoteObservedAt := timestamp\<rparr>)
         | Ev_Artifact i context a lastChunk extends \<Rightarrow> Inr (observation\<lparr>Obs_RemoteTaskID := i, Obs_RemoteContextID := context,
             Obs_Artifacts := [\<lparr>Update_Artifact = convertArtifact L G a lastChunk, Update_Append = extends\<rparr>]\<rparr>)
         | Ev_Other \<Rightarrow> Inl (ErrFederation (problem_of ''protocol'' ''INVALID_AGENT_RESPONSE'' ''remote Agent returned an unsupported event'')
             (Some (AL_err L A2A_InvalidAgentResponse))))"

text \<open>\<open>DecodePush\<close>; \<open>decode\<close> reads a stream response.\<close>

definition DecodePush ::
  "a2a_lib \<Rightarrow> golib \<Rightarrow> (a2a_event \<Rightarrow> string) \<Rightarrow> (string \<Rightarrow> a2a_event result) \<Rightarrow> string \<Rightarrow> observation result" where
  "DecodePush L G digest decode payload =
     (case decode payload of
        Inl e \<Rightarrow> Inl (ErrFederation (problem_of ''validation'' ''INVALID_PUSH_PAYLOAD'' ''Push payload is not a valid A2A StreamResponse'') (Some e))
      | Inr event \<Rightarrow> observationFromEvent L G digest event)"

text \<open>What the loops over a stream yield: they end at the first error.\<close>

fun stream_observations :: "a2a_lib \<Rightarrow> golib \<Rightarrow> (a2a_event \<Rightarrow> string) \<Rightarrow> a2a_event result list \<Rightarrow> observation result list" where
  "stream_observations L G digest [] = []"
| "stream_observations L G digest (Inl e # rest) = [Inl (mapError L e True)]"
| "stream_observations L G digest (Inr event # rest) =
     (case observationFromEvent L G digest event of
        Inl e \<Rightarrow> [Inl e] | Inr observation \<Rightarrow> Inr observation # stream_observations L G digest rest)"

section \<open>Extensions\<close>

text \<open>The handlers of \<open>ExtensionPolicy\<close>; a handler may be nil.\<close>

record extension_policy =
  XP_Handlers :: "string \<rightharpoonup> (agent \<Rightarrow> (string \<times> json) list \<Rightarrow> error option) option"
  XP_RequireHandler :: bool

fun check_extensions ::
  "extension_policy \<Rightarrow> agent \<Rightarrow> (string \<times> json) list \<Rightarrow> string list \<Rightarrow> error option" where
  "check_extensions X g metadata [] = None"
| "check_extensions X g metadata (uri # uris) =
     (if uri \<notin> set (Agent_Extensions g) then Some (ErrText (''AgentCard does not advertise requested extension '' @ uri))
      else case XP_Handlers X uri of
        None \<Rightarrow>
          if XP_RequireHandler X then Some (ErrText (''A2A extension has no activated handler: '' @ uri))
          else check_extensions X g metadata uris
      | Some None \<Rightarrow> Some (ErrText ''A2A extension handler is nil'')
      | Some (Some validate) \<Rightarrow>
          (case validate g metadata of
             Some e \<Rightarrow> Some (ErrWrap (''validate A2A extension '' @ uri) e)
           | None \<Rightarrow> check_extensions X g metadata uris))"

definition ExtensionPolicy_Validate :: "extension_policy \<Rightarrow> agent \<Rightarrow> string list \<Rightarrow> (string \<times> json) list \<Rightarrow> error option" where
  "ExtensionPolicy_Validate X g extensions metadata = check_extensions X g metadata extensions"

definition not_activated :: "string \<Rightarrow> error \<Rightarrow> error" where
  "not_activated message cause = ErrFederation (problem_of ''protocol'' ''EXTENSION_NOT_ACTIVATED'' message) (Some cause)"

definition extension_uri_ok :: "golib \<Rightarrow> string \<Rightarrow> bool" where
  "extension_uri_ok G uri \<longleftrightarrow>
     (case G_url_parse G uri of
        Inl _ \<Rightarrow> False | Inr u \<Rightarrow> U_Scheme u \<noteq> '''' \<and> U_Host u \<noteq> '''' \<and> \<not> U_HasUser u \<and> U_Fragment u = '''')"

fun requested_loop :: "golib \<Rightarrow> bool \<Rightarrow> string set \<Rightarrow> string list \<Rightarrow> string list \<Rightarrow> string list result" where
  "requested_loop G explicit declared found [] = Inr (sort found)"
| "requested_loop G explicit declared found (raw # raws) =
     (let uri = TrimSpace raw in
      if uri = '''' then requested_loop G explicit declared found raws
      else if \<not> extension_uri_ok G uri then Inl (ErrText (''invalid A2A extension URI '' @ raw))
      else if explicit \<and> uri \<notin> declared then Inl (ErrText (''AgentCard does not advertise requested extension '' @ uri))
      else if uri \<in> set found then requested_loop G explicit declared found raws
      else requested_loop G explicit declared (found @ [uri]) raws)"

definition requestedExtensions :: "golib \<Rightarrow> agent \<Rightarrow> string list \<Rightarrow> string list result" where
  "requestedExtensions G g explicit =
     requested_loop G (explicit \<noteq> []) {u. \<exists>raw\<in>set (Agent_Extensions g). TrimSpace raw = u \<and> u \<noteq> ''''} []
       (if explicit = [] then Agent_Extensions g else explicit)"

definition attachExtensions :: "golib \<Rightarrow> agent \<Rightarrow> string list \<Rightarrow> string list result" where
  "attachExtensions G g explicit =
     (case requestedExtensions G g explicit of
        Inl e \<Rightarrow> Inl (ErrFederation (problem_of ''protocol'' ''INVALID_EXTENSION_URI'' ''configured A2A extension URI is invalid'') (Some e))
      | Inr extensions \<Rightarrow> Inr extensions)"

section \<open>Discovery\<close>

text \<open>An adapter. The verifier's keys and the secrets are read at a tick. \<open>Ad_Resolve\<close> fetches a card, \<open>Ad_Clone\<close> copies it through
  JSON, \<open>Ad_Order\<close> is the order in which Go ranges over a map.\<close>

record 'k adapter =
  Ad_Profiles :: "binding_profile list"
  Ad_Verifier :: "nat \<Rightarrow> 'k card_verifier"
  Ad_Secrets :: "(nat \<Rightarrow> string \<Rightarrow> string result) option"
  Ad_Extensions :: extension_policy
  Ad_JWS :: "'k jws_lib"
  Ad_Lib :: a2a_lib
  Ad_Go :: golib
  Ad_SDK :: a2a_sdk
  Ad_Digest :: "a2a_event \<Rightarrow> string"
  Ad_Resolve :: "nat \<Rightarrow> string \<Rightarrow> agent_card result"
  Ad_Clone :: "agent_card \<Rightarrow> agent_card result"
  Ad_Order :: "(string \<rightharpoonup> string) \<Rightarrow> string list"

definition verifyCard :: "'k adapter \<Rightarrow> nat \<Rightarrow> agent_card \<Rightarrow> error option" where
  "verifyCard A t c =
     (case CardVerifier_Verify (Ad_JWS A) (Ad_Verifier A t) (Some c) of
        None \<Rightarrow> None
      | Some e \<Rightarrow> Some (ErrFederation
          (problem_of ''authentication'' ''AGENT_CARD_SIGNATURE_INVALID'' ''remote AgentCard signature verification failed'') (Some e)))"

text \<open>The selected interface, by its index: the first one with the binding and the version that \<open>selectEndpointForProfiles\<close> finds.\<close>

definition select_interface ::
  "a2a_sdk \<Rightarrow> agent_interface list \<Rightarrow> binding_profile list \<Rightarrow> (nat \<times> binding_profile) result" where
  "select_interface K interfaces profiles =
     (case selectEndpointForProfiles K (map (\<lambda>i. (If_Binding i, If_Version i)) interfaces) profiles of
        Inl e \<Rightarrow> Inl e
      | Inr (pair, profile) \<Rightarrow>
          (case find (\<lambda>n. (If_Binding (interfaces ! n), If_Version (interfaces ! n)) = pair) [0..<length interfaces] of
             None \<Rightarrow> Inl (ErrText ''Agent Card has no supported configured A2A binding profile'') | Some n \<Rightarrow> Inr (n, profile)))"

definition firstSignatureKeyID :: "'k jws_lib \<Rightarrow> agent_card \<Rightarrow> string" where
  "firstSignatureKeyID J c =
     (case Card_Signatures c of
        [] \<Rightarrow> ''''
      | s # _ \<Rightarrow> (case decodeProtectedHeader J (JWS_Protected s) of Inl _ \<Rightarrow> '''' | Inr header \<Rightarrow> text_member header ''kid''))"

text \<open>\<open>sort.Slice\<close> may order extensions of the same URI in any way; this is one.\<close>

definition adapter_discover :: "'k adapter \<Rightarrow> nat \<Rightarrow> string \<Rightarrow> binding_profile list \<Rightarrow> descriptor result" where
  "adapter_discover A t cardURL profiles =
     (case Ad_Resolve A t cardURL of
        Inl e \<Rightarrow> Inl (mapError (Ad_Lib A) e False)
      | Inr c \<Rightarrow>
          (case verifyCard A t c of
             Some e \<Rightarrow> Inl e
           | None \<Rightarrow>
               (case select_interface (Ad_SDK A) (Card_Interfaces c) profiles of
                  Inl e \<Rightarrow> Inl (profileSelectionError e)
                | Inr (n, _) \<Rightarrow>
                    let endpoint = Card_Interfaces c ! n in
                    (case CanonicalProtocolVersion (If_Version endpoint) of
                       Inl e \<Rightarrow> Inl (profileSelectionError e)
                     | Inr canonicalVersion \<Rightarrow> Inr
                         \<lparr>Desc_Name = Card_Name c, Desc_ProviderVersion = Card_Version c,
                          Desc_ProtocolBinding = normalizeBinding (Ad_SDK A) (If_Binding endpoint),
                          Desc_ProtocolVersion = canonicalVersion, Desc_Endpoint = If_URL endpoint, Desc_Streaming = Card_Streaming c,
                          Desc_PushNotifications = Card_PushNotifications c, Desc_SecuritySchemes = sort (Card_SecuritySchemes c),
                          Desc_Skills = sort (Card_Skills c), Desc_Extensions = sort_key Ext_URI (Card_Extensions c),
                          Desc_CardSignatureVerified = (Card_Signatures c \<noteq> []),
                          Desc_CardSignatureKeyID = firstSignatureKeyID (Ad_JWS A) c\<rparr>))))"

definition Discover :: "'k adapter \<Rightarrow> nat \<Rightarrow> string \<Rightarrow> descriptor result" where
  "Discover A t cardURL = adapter_discover A t cardURL (Ad_Profiles A)"

definition DiscoverWithProfiles :: "'k adapter \<Rightarrow> nat \<Rightarrow> string \<Rightarrow> binding_profile list \<Rightarrow> descriptor result" where
  "DiscoverWithProfiles A t cardURL profiles =
     (if profiles = [] then Inl (ErrText ''at least one A2A binding profile is required'') else adapter_discover A t cardURL profiles)"

fun check_profiles :: "a2a_sdk \<Rightarrow> binding_profile list \<Rightarrow> error option" where
  "check_profiles K [] = None"
| "check_profiles K (p # ps) = (case BindingProfile_Validate K p of Some e \<Rightarrow> Some e | None \<Rightarrow> check_profiles K ps)"

definition NewWithProfiles :: "'k adapter \<Rightarrow> binding_profile list \<Rightarrow> 'k adapter result" where
  "NewWithProfiles A profiles =
     (if profiles = [] then Inl (ErrText ''at least one A2A binding profile is required'')
      else case check_profiles (Ad_SDK A) profiles of Some e \<Rightarrow> Inl e | None \<Rightarrow> Inr (A\<lparr>Ad_Profiles := profiles\<rparr>))"

section \<open>The client of a registered agent\<close>

text \<open>What a client was made from.\<close>

record a2a_session =
  Ses_Card :: agent_card
  Ses_Binding :: string
  Ses_Credentials :: "string \<rightharpoonup> string"

definition normalizeCardBindings :: "a2a_sdk \<Rightarrow> agent_card \<Rightarrow> agent_card" where
  "normalizeCardBindings K c = c\<lparr>Card_Interfaces := map (\<lambda>i. i\<lparr>If_Binding := normalizeBinding K (If_Binding i)\<rparr>) (Card_Interfaces c)\<rparr>"

definition client_profiles :: "'k adapter \<Rightarrow> agent \<Rightarrow> binding_profile list" where
  "client_profiles A g =
     (if blank (Agent_ProtocolBinding g) then Ad_Profiles A
      else let binding = normalizeBinding (Ad_SDK A) (Agent_ProtocolBinding g) in
        [\<lparr>Prof_ProtocolVersion = Agent_ProtocolVersion g, Prof_Binding = binding,
          Prof_StreamTransport = (if binding = SDK_GRPC (Ad_SDK A) then ''SERVER_STREAMING'' else ''SSE'')\<rparr>])"

fun load_credentials ::
  "(nat \<Rightarrow> string \<Rightarrow> string result) option \<Rightarrow> nat \<Rightarrow> (string \<rightharpoonup> string) \<Rightarrow> string list \<Rightarrow> (string \<rightharpoonup> string) \<Rightarrow> (string \<rightharpoonup> string) result" where
  "load_credentials secrets t env [] credentials = Inr credentials"
| "load_credentials secrets t env (scheme # rest) credentials =
     (case secrets of
        None \<Rightarrow> Inl (ErrFederation
          (problem_of ''authentication'' ''SECRET_PROVIDER_REQUIRED'' ''remote Agent credential provider is not configured'') None)
      | Some resolve \<Rightarrow>
          (case resolve t (the (env scheme)) of
             Inl e \<Rightarrow> Inl (ErrFederation
               (problem_of ''authentication'' ''CREDENTIAL_UNAVAILABLE'' ''remote Agent credential is unavailable'') (Some e))
           | Inr v \<Rightarrow> load_credentials secrets t env rest (credentials(scheme \<mapsto> v))))"

fun check_requirements :: "a2a_lib \<Rightarrow> (string \<rightharpoonup> string) \<Rightarrow> bool \<Rightarrow> string list list \<Rightarrow> error option" where
  "check_requirements L credentials sawSingle [] =
     Some (if sawSingle
       then ErrFederation (problem_of ''authentication'' ''CREDENTIAL_REQUIRED'' ''Agent Card requires a credential that is not configured'')
         (Some (AL_err L A2A_Unauthenticated))
       else ErrFederation (problem_of ''protocol'' ''COMPOUND_AUTH_NOT_SUPPORTED''
         ''Agent Card requires a compound authentication scheme that this adapter cannot send'') (Some (AL_err L A2A_UnsupportedOperation)))"
| "check_requirements L credentials sawSingle (option # rest) =
     (if option = [] then None
      else if length option > 1 then check_requirements L credentials sawSingle rest
      else if credentials (hd option) \<noteq> None then None
      else check_requirements L credentials True rest)"

definition validateCredentials :: "a2a_lib \<Rightarrow> agent_card \<Rightarrow> (string \<rightharpoonup> string) \<Rightarrow> error option" where
  "validateCredentials L c credentials =
     (if Card_SecurityRequirements c = [] then None else check_requirements L credentials False (Card_SecurityRequirements c))"

text \<open>\<open>connect\<close> is \<open>a2aclient.NewFromCard\<close> with the one transport of the profile.\<close>

definition adapter_client ::
  "'k adapter \<Rightarrow> (nat \<Rightarrow> a2a_session \<Rightarrow> error option) \<Rightarrow> nat \<Rightarrow> agent \<Rightarrow> a2a_session result" where
  "adapter_client A connect t g =
     (case Ad_Resolve A t (Agent_CardURL g) of
        Inl e \<Rightarrow> Inl (mapError (Ad_Lib A) e False)
      | Inr fetched \<Rightarrow>
          (case verifyCard A t fetched of
             Some e \<Rightarrow> Inl e
           | None \<Rightarrow>
               (case Ad_Clone A fetched of
                  Inl e \<Rightarrow> Inl e
                | Inr copied \<Rightarrow>
                    let c = normalizeCardBindings (Ad_SDK A) copied in
                    (case select_interface (Ad_SDK A) (Card_Interfaces c) (client_profiles A g) of
                       Inl e \<Rightarrow> Inl (profileSelectionError e)
                     | Inr (n, profile) \<Rightarrow>
                         (case CanonicalProtocolVersion (Prof_ProtocolVersion profile) of
                            Inl e \<Rightarrow> Inl (profileSelectionError e)
                          | Inr canonicalVersion \<Rightarrow>
                              let endpoint = Card_Interfaces c ! n in
                              if If_URL endpoint \<noteq> Agent_Endpoint g \<or>
                                 normalizeBinding (Ad_SDK A) (If_Binding endpoint) \<noteq> Agent_ProtocolBinding g \<or>
                                 \<not> ProtocolVersionsCompatible (If_Version endpoint) (Agent_ProtocolVersion g)
                              then Inl (ErrFederation
                                (problem_of ''protocol'' ''AGENT_INTERFACE_CHANGED'' ''Agent Card interface changed after registration'') None)
                              else
                                let sent = c\<lparr>Card_Interfaces := (Card_Interfaces c)[n := endpoint\<lparr>If_Version := canonicalVersion\<rparr>]\<rparr> in
                                (case load_credentials (Ad_Secrets A) t (Agent_CredentialEnv g)
                                        (Ad_Order A (Agent_CredentialEnv g)) Map.empty of
                                   Inl e \<Rightarrow> Inl e
                                 | Inr credentials \<Rightarrow>
                                     (case validateCredentials (Ad_Lib A) sent credentials of
                                        Some e \<Rightarrow> Inl e
                                      | None \<Rightarrow>
                                          let session = \<lparr>Ses_Card = sent, Ses_Binding = Prof_Binding profile, Ses_Credentials = credentials\<rparr> in
                                          (case connect t session of
                                             Some e \<Rightarrow> Inl (mapError (Ad_Lib A) e False) | None \<Rightarrow> Inr session))))))))"

section \<open>Retries of a continuation\<close>

definition isExecutionInProgressError :: "a2a_lib \<Rightarrow> error \<Rightarrow> bool" where
  "isExecutionInProgressError L e \<longleftrightarrow> contains (ToLower (AL_text L e)) ''task execution is already in progress''"

text \<open>\<open>stop n\<close> and \<open>woken n\<close> are the error of the context before the \<open>n\<close>-th attempt and during the wait after it; \<open>named\<close> says that the
  request names a remote task. The answers of the attempts made and the waits are recorded.\<close>

fun retry_attempts ::
  "(nat \<Rightarrow> error option) \<Rightarrow> (nat \<Rightarrow> error option) \<Rightarrow> bool \<Rightarrow> (error \<Rightarrow> bool) \<Rightarrow> (nat \<Rightarrow> 'r result) \<Rightarrow> nat \<Rightarrow> nat \<Rightarrow> duration \<Rightarrow> duration \<Rightarrow>
   'r result list \<times> duration list \<times> 'r result" where
  "retry_attempts stop woken named busy send 0 n backoff mx = ([], [], Inl (ErrText ''A2A continuation retry exhausted''))"
| "retry_attempts stop woken named busy send (Suc left) n backoff mx =
     (case stop n of
        Some e \<Rightarrow> ([], [], Inl e)
      | None \<Rightarrow>
          let r = send n in
          if (case r of Inr _ \<Rightarrow> True | Inl e \<Rightarrow> \<not> busy e) \<or> \<not> named \<or> left = 0 then ([r], [], r)
          else if backoff = 0 then
            (case retry_attempts stop woken named busy send left (Suc n) backoff mx of (rs, ws, x) \<Rightarrow> (r # rs, ws, x))
          else case woken n of
            Some e \<Rightarrow> ([r], [backoff], Inl e)
          | None \<Rightarrow>
              let longer = wrap64 (backoff * 2); longest = (if backoff < mx then (if longer > mx then mx else longer) else backoff) in
              (case retry_attempts stop woken named busy send left (Suc n) longest mx of (rs, ws, x) \<Rightarrow> (r # rs, backoff # ws, x)))"

definition retryContinuation ::
  "(nat \<Rightarrow> error option) \<Rightarrow> (nat \<Rightarrow> error option) \<Rightarrow> bool \<Rightarrow> (error \<Rightarrow> bool) \<Rightarrow> (nat \<Rightarrow> 'r result) \<Rightarrow> int \<Rightarrow> duration \<Rightarrow> duration \<Rightarrow>
   'r result list \<times> duration list \<times> 'r result" where
  "retryContinuation stop woken named busy send maxAttempts initialBackoff maxBackoff =
     (if maxAttempts < 1 then ([], [], Inl (ErrText ''continuation retry maxAttempts must be positive''))
      else if initialBackoff < 0 \<or> maxBackoff < 0 \<or> maxBackoff < initialBackoff
      then ([], [], Inl (ErrText ''continuation retry backoff is invalid''))
      else retry_attempts stop woken named busy send (nat maxAttempts) 1 initialBackoff maxBackoff)"

section \<open>Calls\<close>

record a2a_message =
  AM_ID :: string
  AM_TaskID :: string
  AM_ContextID :: string
  AM_Parts :: "a2a_part list"
  AM_Extensions :: "string list"
  AM_Metadata :: "(string \<times> json) list"

record a2a_request =
  AR_Message :: a2a_message
  AR_Modes :: "string list"
  AR_ReturnImmediately :: bool
  AR_Push :: "push_config option"
  AR_Metadata :: "(string \<times> json) list"

text \<open>The remote side: connecting, and what the calls of a client answer, given the extensions in their service parameters.\<close>

record a2a_remote =
  RM_Connect :: "nat \<Rightarrow> a2a_session \<Rightarrow> error option"
  RM_SendMessage :: "nat \<Rightarrow> a2a_session \<Rightarrow> string list \<Rightarrow> a2a_request \<Rightarrow> nat \<Rightarrow> a2a_event result"
  RM_SendStreaming :: "nat \<Rightarrow> a2a_session \<Rightarrow> string list \<Rightarrow> a2a_request \<Rightarrow> a2a_event result list"
  RM_GetTask :: "nat \<Rightarrow> a2a_session \<Rightarrow> string list \<Rightarrow> string \<Rightarrow> a2a_event result"
  RM_CancelTask :: "nat \<Rightarrow> a2a_session \<Rightarrow> string list \<Rightarrow> string \<Rightarrow> a2a_event result"
  RM_Subscribe :: "nat \<Rightarrow> a2a_session \<Rightarrow> string list \<Rightarrow> string \<Rightarrow> a2a_event result list"
  RM_Stop :: "nat \<Rightarrow> nat \<Rightarrow> error option"
  RM_Woken :: "nat \<Rightarrow> nat \<Rightarrow> error option"

text \<open>The client and the extensions of a call.\<close>

definition open_call ::
  "'k adapter \<Rightarrow> a2a_remote \<Rightarrow> nat \<Rightarrow> agent \<Rightarrow> string list \<Rightarrow> (string list \<Rightarrow> error option) \<Rightarrow> (a2a_session \<times> string list) result" where
  "open_call A R t g explicit activated =
     (case adapter_client A (RM_Connect R) t g of
        Inl e \<Rightarrow> Inl e
      | Inr session \<Rightarrow>
          (case attachExtensions (Ad_Go A) g explicit of
             Inl e \<Rightarrow> Inl e
           | Inr extensions \<Rightarrow> (case activated extensions of Some e \<Rightarrow> Inl e | None \<Rightarrow> Inr (session, extensions))))"

definition request_of :: "golib \<Rightarrow> message \<Rightarrow> string list \<Rightarrow> a2a_request result" where
  "request_of G m extensions =
     (case a2aPartsFromCore G (Msg_Parts m) of
        Inl e \<Rightarrow> Inl e
      | Inr parts \<Rightarrow> Inr
          \<lparr>AR_Message =
             \<lparr>AM_ID = Msg_ID m, AM_TaskID = Msg_RemoteTaskID m, AM_ContextID = Msg_RemoteContextID m,
              AM_Parts = (if parts = [] then [\<lparr>AP_Content = Content_Text (Msg_Text m), AP_MediaType = '''', AP_Filename = ''''\<rparr>] else parts),
              AM_Extensions = extensions, AM_Metadata = Msg_Metadata m\<rparr>,
           AR_Modes = [''text/plain'', ''application/json'', ''application/octet-stream''],
           AR_ReturnImmediately = Msg_ReturnImmediately m, AR_Push = Msg_Push m, AR_Metadata = Msg_Metadata m\<rparr>)"

definition sendMessageWithRetry ::
  "'k adapter \<Rightarrow> a2a_remote \<Rightarrow> nat \<Rightarrow> a2a_session \<Rightarrow> string list \<Rightarrow> a2a_request \<Rightarrow> a2a_event result" where
  "sendMessageWithRetry A R t session extensions request =
     snd (snd (retryContinuation (RM_Stop R t) (RM_Woken R t) (AM_TaskID (AR_Message request) \<noteq> '''')
       (isExecutionInProgressError (Ad_Lib A)) (RM_SendMessage R t session extensions request) 20 (10 * 10 ^ 6) (250 * 10 ^ 6)))"

definition event_observation :: "'k adapter \<Rightarrow> a2a_event result \<Rightarrow> observation result" where
  "event_observation A r =
     (case r of
        Inl e \<Rightarrow> Inl (mapError (Ad_Lib A) e False) | Inr event \<Rightarrow> observationFromEvent (Ad_Lib A) (Ad_Go A) (Ad_Digest A) event)"

definition Adapter_Send :: "'k adapter \<Rightarrow> a2a_remote \<Rightarrow> nat \<Rightarrow> agent \<Rightarrow> message \<Rightarrow> observation result list" where
  "Adapter_Send A R t g m =
     (case open_call A R t g (Msg_Extensions m) (\<lambda>extensions.
             map_option (not_activated ''requested A2A extension is not activated'')
               (ExtensionPolicy_Validate (Ad_Extensions A) g extensions (Msg_Metadata m))) of
        Inl e \<Rightarrow> [Inl e]
      | Inr (session, extensions) \<Rightarrow>
          (case request_of (Ad_Go A) m extensions of
             Inl e \<Rightarrow> [Inl e]
           | Inr request \<Rightarrow>
               if Msg_ReturnImmediately m then [event_observation A (sendMessageWithRetry A R t session extensions request)]
               else stream_observations (Ad_Lib A) (Ad_Go A) (Ad_Digest A) (RM_SendStreaming R t session extensions request)))"

definition open_agent :: "'k adapter \<Rightarrow> a2a_remote \<Rightarrow> nat \<Rightarrow> agent \<Rightarrow> (a2a_session \<times> string list) result" where
  "open_agent A R t g =
     open_call A R t g [] (\<lambda>_. map_option (not_activated ''AgentCard extension is not activated'')
       (ExtensionPolicy_Validate (Ad_Extensions A) g (Agent_Extensions g) []))"

definition Adapter_Get :: "'k adapter \<Rightarrow> a2a_remote \<Rightarrow> nat \<Rightarrow> agent \<Rightarrow> string \<Rightarrow> observation result" where
  "Adapter_Get A R t g remoteTaskID =
     (case open_agent A R t g of
        Inl e \<Rightarrow> Inl e | Inr (session, extensions) \<Rightarrow> event_observation A (RM_GetTask R t session extensions remoteTaskID))"

definition Adapter_Cancel :: "'k adapter \<Rightarrow> a2a_remote \<Rightarrow> nat \<Rightarrow> agent \<Rightarrow> string \<Rightarrow> observation result" where
  "Adapter_Cancel A R t g remoteTaskID =
     (case open_agent A R t g of
        Inl e \<Rightarrow> Inl e | Inr (session, extensions) \<Rightarrow> event_observation A (RM_CancelTask R t session extensions remoteTaskID))"

definition Adapter_Subscribe :: "'k adapter \<Rightarrow> a2a_remote \<Rightarrow> nat \<Rightarrow> agent \<Rightarrow> string \<Rightarrow> observation result list" where
  "Adapter_Subscribe A R t g remoteTaskID =
     (case open_agent A R t g of
        Inl e \<Rightarrow> [Inl e]
      | Inr (session, extensions) \<Rightarrow>
          stream_observations (Ad_Lib A) (Ad_Go A) (Ad_Digest A) (RM_Subscribe R t session extensions remoteTaskID))"

section \<open>Parts through the wire\<close>

text \<open>What a part still says after it went out and came back: its own content, its media type and its file name. A file sent as
  bytes has the same bytes, although not always the same base64 text.\<close>

definition same_part :: "golib \<Rightarrow> part \<Rightarrow> part \<Rightarrow> bool" where
  "same_part G v w \<longleftrightarrow>
     Part_Kind w = Part_Kind v \<and> Part_MediaType w = Part_MediaType v \<and> Part_Filename w = Part_Filename v \<and>
     (case Part_Kind v of
        PartText \<Rightarrow> Part_Text w = Part_Text v
      | PartData \<Rightarrow> Part_Data w = Part_Data v
      | PartFile \<Rightarrow>
          if Part_BytesBase64 v \<noteq> '''' then \<exists>raw. G_base64_decode G (Part_BytesBase64 v) = Inr raw \<and> Part_BytesBase64 w = G_base64_encode G raw
          else Part_URI w = Part_URI v
      | PartOther k \<Rightarrow> False)"

lemma part_returns:
  assumes "part_to_a2a G v = Inr p" "\<And>d. Part_Data v = Some d \<Longrightarrow> AL_any L d = d \<and> d \<noteq> JNull"
  shows "same_part G v (convert_part L G p)"
  using assms
  by (cases "Part_Kind v")
    (auto simp: part_to_a2a_def same_part_def convert_part_def zero_part_def map_sum_def Let_def
      split: if_splits sum.splits option.splits json.split)

lemma parts_return:
  assumes "a2aPartsFromCore G vs = Inr ps" "\<And>v d. v \<in> set vs \<Longrightarrow> Part_Data v = Some d \<Longrightarrow> AL_any L d = d \<and> d \<noteq> JNull"
  shows "list_all2 (same_part G) vs (convertParts L G ps)"
  using assms
proof (induction vs arbitrary: ps)
  case (Cons v vs)
  obtain p ps' where p: "part_to_a2a G v = Inr p" "a2aPartsFromCore G vs = Inr ps'" "ps = p # ps'"
    using Cons.prems(1) by (auto split: sum.splits)
  have "list_all2 (same_part G) vs (convertParts L G ps')" by (rule Cons.IH [OF p(2)]) (auto intro!: Cons.prems(2))
  moreover have "same_part G v (convert_part L G p)" by (rule part_returns [OF p(1)]) (auto intro!: Cons.prems(2))
  ultimately show ?case by (simp add: p(3) convertParts_def)
qed (simp add: convertParts_def)

section \<open>Observations\<close>

lemma final_means_terminal:
  assumes "observationFromEvent L G digest event = Inr ob"
  shows "Obs_Final ob \<longleftrightarrow> TaskState_Terminal (Obs_State ob)"
    and "Obs_Source ob = ''a2a''" "Obs_DedupKey ob = ''a2a:'' @ digest event" "Obs_Problem ob = None" "\<not> Obs_CancelRequested ob"
  using assms by (cases event; auto simp: observationFromEvent_def TaskState_Terminal_def Let_def)+

lemma stream_errors_last:
  "r \<in> set (butlast (stream_observations L G digest evs)) \<Longrightarrow> \<exists>ob. r = Inr ob"
proof (induction evs)
  case (Cons ev evs)
  then show ?case by (cases ev) (auto split: sum.splits if_splits)
qed simp

section \<open>Extensions\<close>

lemma requested_loop_ok:
  assumes "requested_loop G explicit declared found raws = Inr xs" "distinct found" "set found \<subseteq> declared"
    and "explicit \<or> (\<forall>raw\<in>set raws. TrimSpace raw = [] \<or> TrimSpace raw \<in> declared)"
  shows "sorted xs \<and> distinct xs \<and> set xs \<subseteq> declared"
  using assms
proof (induction raws arbitrary: found)
  case (Cons raw raws)
  have "\<exists>found'. requested_loop G explicit declared found' raws = Inr xs \<and> distinct found' \<and> set found' \<subseteq> declared"
  proof (cases "TrimSpace raw = [] \<or> TrimSpace raw \<in> set found")
    case True
    then have "requested_loop G explicit declared found raws = Inr xs"
      using Cons.prems(1) by (simp add: Let_def split: if_splits)
    with Cons.prems(2,3) show ?thesis by blast
  next
    case False
    then have "requested_loop G explicit declared (found @ [TrimSpace raw]) raws = Inr xs" "TrimSpace raw \<in> declared"
      using Cons.prems(1,4) by (auto simp: Let_def split: if_splits)
    with Cons.prems(2,3) False show ?thesis by (intro exI [of _ "found @ [TrimSpace raw]"]) simp
  qed
  with Cons.IH Cons.prems(4) show ?case by auto
qed auto

lemma requested_are_declared:
  assumes "requestedExtensions G g explicit = Inr xs"
  shows "sorted xs \<and> distinct xs \<and> set xs \<subseteq> {u. \<exists>raw\<in>set (Agent_Extensions g). TrimSpace raw = u \<and> u \<noteq> []}"
  by (rule requested_loop_ok [OF assms [unfolded requestedExtensions_def]]) auto

section \<open>What a client was made from\<close>

lemma check_requirements_None:
  "check_requirements L credentials saw options = None \<Longrightarrow>
     \<exists>opt\<in>set options. opt = [] \<or> (\<exists>scheme. opt = [scheme] \<and> credentials scheme \<noteq> None)"
proof (induction L credentials saw options rule: check_requirements.induct)
  case (2 L credentials saw opt rest)
  then show ?case by (cases opt) (auto split: if_splits)
qed simp

lemma load_credentials_from:
  assumes "load_credentials secrets t env schemes credentials = Inr credentials'" "credentials' scheme = Some v"
  shows "credentials scheme = Some v \<or> (scheme \<in> set schemes \<and> (\<exists>resolve. secrets = Some resolve \<and> resolve t (the (env scheme)) = Inr v))"
  using assms
proof (induction schemes arbitrary: credentials)
  case (Cons s schemes)
  obtain resolve w where w: "secrets = Some resolve" "resolve t (the (env s)) = Inr w"
      "load_credentials secrets t env schemes (credentials(s \<mapsto> w)) = Inr credentials'"
    using Cons.prems(1) by (auto split: option.splits sum.splits)
  from Cons.IH [OF w(3) Cons.prems(2)] w show ?case by (auto split: if_splits)
qed simp

lemma select_interface_index: "select_interface K interfaces profiles = Inr (n, profile) \<Longrightarrow> n < length interfaces"
  by (auto simp: select_interface_def find_Some_iff split: sum.splits prod.splits option.splits)

text \<open>Every client was made from a card that was just fetched and verified, over the interface that was registered, with credentials
  from the agent's references that satisfy one of the card's requirements.\<close>

lemma client_checked:
  assumes "adapter_client A connect t g = Inr session" "set (Ad_Order A (Agent_CredentialEnv g)) \<subseteq> dom (Agent_CredentialEnv g)"
  shows "\<exists>fetched copied n iface. Ad_Resolve A t (Agent_CardURL g) = Inr fetched \<and>
      CardVerifier_Verify (Ad_JWS A) (Ad_Verifier A t) (Some fetched) = None \<and> Ad_Clone A fetched = Inr copied \<and>
      n < length (Card_Interfaces copied) \<and> iface = Card_Interfaces copied ! n \<and> If_URL iface = Agent_Endpoint g \<and>
      normalizeBinding (Ad_SDK A) (normalizeBinding (Ad_SDK A) (If_Binding iface)) = Agent_ProtocolBinding g \<and>
      ProtocolVersionsCompatible (If_Version iface) (Agent_ProtocolVersion g) \<and>
      (Card_SecurityRequirements copied = [] \<or> (\<exists>opt\<in>set (Card_SecurityRequirements copied).
         opt = [] \<or> (\<exists>scheme. opt = [scheme] \<and> Ses_Credentials session scheme \<noteq> None))) \<and>
      (\<forall>scheme v. Ses_Credentials session scheme = Some v \<longrightarrow>
         (\<exists>reference resolve. Agent_CredentialEnv g scheme = Some reference \<and> Ad_Secrets A = Some resolve \<and> resolve t reference = Inr v))"
proof -
  obtain fetched where f: "Ad_Resolve A t (Agent_CardURL g) = Inr fetched"
    using assms(1) by (auto simp: adapter_client_def split: sum.splits)
  have v: "verifyCard A t fetched = None"
    using assms(1) f by (auto simp: adapter_client_def split: option.splits)
  obtain copied where c: "Ad_Clone A fetched = Inr copied"
    using assms(1) f v by (auto simp: adapter_client_def split: sum.splits)
  let ?c = "normalizeCardBindings (Ad_SDK A) copied"
  obtain n profile where n: "select_interface (Ad_SDK A) (Card_Interfaces ?c) (client_profiles A g) = Inr (n, profile)"
    using assms(1) f v c by (auto simp: adapter_client_def Let_def split: sum.splits)
  obtain canonical where k: "CanonicalProtocolVersion (Prof_ProtocolVersion profile) = Inr canonical"
    using assms(1) f v c n by (auto simp: adapter_client_def Let_def split: sum.splits)
  let ?e = "Card_Interfaces ?c ! n"
  let ?sent = "?c\<lparr>Card_Interfaces := (Card_Interfaces ?c)[n := ?e\<lparr>If_Version := canonical\<rparr>]\<rparr>"
  have e: "If_URL ?e = Agent_Endpoint g" "normalizeBinding (Ad_SDK A) (If_Binding ?e) = Agent_ProtocolBinding g"
      "ProtocolVersionsCompatible (If_Version ?e) (Agent_ProtocolVersion g)"
    using assms(1) f v c n k by (auto simp: adapter_client_def Let_def split: if_splits)
  obtain credentials where l: "load_credentials (Ad_Secrets A) t (Agent_CredentialEnv g) (Ad_Order A (Agent_CredentialEnv g)) Map.empty = Inr credentials"
    using assms(1) f v c n k e by (auto simp: adapter_client_def Let_def split: sum.splits)
  have r: "validateCredentials (Ad_Lib A) ?sent credentials = None" "Ses_Credentials session = credentials"
    using assms(1) f v c n k e l by (auto simp: adapter_client_def Let_def split: option.splits)
  have len: "n < length (Card_Interfaces copied)" using select_interface_index [OF n] by (simp add: normalizeCardBindings_def)
  have iface: "If_URL ?e = If_URL (Card_Interfaces copied ! n)" "If_Version ?e = If_Version (Card_Interfaces copied ! n)"
    "If_Binding ?e = normalizeBinding (Ad_SDK A) (If_Binding (Card_Interfaces copied ! n))"
    using len by (simp_all add: normalizeCardBindings_def)
  have req: "Card_SecurityRequirements copied = [] \<or> (\<exists>opt\<in>set (Card_SecurityRequirements copied).
      opt = [] \<or> (\<exists>scheme. opt = [scheme] \<and> credentials scheme \<noteq> None))"
    using r(1) check_requirements_None by (auto simp: validateCredentials_def normalizeCardBindings_def split: if_splits)
  have cred: "\<exists>reference resolve. Agent_CredentialEnv g scheme = Some reference \<and> Ad_Secrets A = Some resolve \<and> resolve t reference = Inr x"
    if "credentials scheme = Some x" for scheme x
    using load_credentials_from [OF l that] assms(2) by auto
  have "CardVerifier_Verify (Ad_JWS A) (Ad_Verifier A t) (Some fetched) = None"
    using v by (auto simp: verifyCard_def split: option.splits)
  with f c len e iface req cred r(2) show ?thesis by (intro exI [of _ fetched] exI [of _ copied] exI [of _ n]) simp
qed

lemma opened:
  assumes "open_agent A R t g = Inr (session, extensions)"
  shows "adapter_client A (RM_Connect R) t g = Inr session \<and> sorted extensions \<and> distinct extensions \<and>
    set extensions \<subseteq> {u. \<exists>raw\<in>set (Agent_Extensions g). TrimSpace raw = u \<and> u \<noteq> []}"
  using assms requested_are_declared [of "Ad_Go A" g "[]" extensions]
  by (auto simp: open_agent_def open_call_def attachExtensions_def split: sum.splits option.splits)

lemma connected: "adapter_client A connect t g = Inr session \<Longrightarrow> connect t session = None"
  by (auto simp: adapter_client_def Let_def split: sum.splits option.splits if_splits)

section \<open>Retries\<close>

lemma retry_attempts_ok:
  assumes "retry_attempts stop woken named busy send left n backoff mx = (rs, ws, x)"
  shows "length rs \<le> left \<and> rs = map send [n..<n + length rs] \<and> (\<forall>r\<in>set (butlast rs). \<exists>e. r = Inl e \<and> busy e) \<and>
    (named \<or> length rs \<le> 1) \<and> (\<forall>y. x = Inr y \<longrightarrow> rs \<noteq> [] \<and> List.last rs = Inr y)"
  using assms
proof (induction left arbitrary: n backoff rs ws x)
  case (Suc left)
  let ?over = "(case send n of Inr _ \<Rightarrow> True | Inl e \<Rightarrow> \<not> busy e) \<or> \<not> named \<or> left = 0"
  show ?case
  proof (cases "stop n \<noteq> None \<or> ?over \<or> (backoff \<noteq> 0 \<and> woken n \<noteq> None)")
    case True
    then have "rs = [] \<and> (\<forall>y. x \<noteq> Inr y) \<or> rs = [send n] \<and> (x = send n \<or> (\<forall>y. x \<noteq> Inr y))"
      using Suc.prems by (auto simp: Let_def split: option.splits if_splits prod.splits)
    then show ?thesis by auto
  next
    case False
    then obtain b rs' ws' where r: "retry_attempts stop woken named busy send left (Suc n) b mx = (rs', ws', x)" "rs = send n # rs'"
      using Suc.prems by (cases "backoff = 0") (auto simp: Let_def split: option.splits if_splits prod.splits)
    have "named" "\<exists>e. send n = Inl e \<and> busy e" using False by (auto split: sum.splits)
    with Suc.IH [OF r(1)] show ?thesis
      unfolding r(2) by (auto simp: upt_conv_Cons simp del: upt_Suc)
  qed
qed auto

text \<open>A request that names no remote task is sent at most once; any other at most as often as allowed, and again only after the
  remote side said that the task is still being executed.\<close>

lemma retries_are_safe:
  assumes "retryContinuation stop woken named busy send maxAttempts initialBackoff maxBackoff = (rs, ws, x)"
  shows "length rs \<le> (if named then nat maxAttempts else 1) \<and> rs = map send [1..<1 + length rs] \<and>
    (\<forall>r\<in>set (butlast rs). \<exists>e. r = Inl e \<and> busy e) \<and> (\<forall>y. x = Inr y \<longrightarrow> rs \<noteq> [] \<and> List.last rs = Inr y)"
proof (cases "maxAttempts < 1 \<or> initialBackoff < 0 \<or> maxBackoff < 0 \<or> maxBackoff < initialBackoff")
  case True
  then show ?thesis using assms by (auto simp: retryContinuation_def split: if_splits)
next
  case False
  then have "retry_attempts stop woken named busy send (nat maxAttempts) 1 initialBackoff maxBackoff = (rs, ws, x)"
    using assms by (simp add: retryContinuation_def)
  from retry_attempts_ok [OF this] show ?thesis by auto
qed

section \<open>What discovery reports\<close>

lemma discovered:
  assumes "adapter_discover A t cardURL profiles = Inr d"
  shows "\<exists>c n profile. Ad_Resolve A t cardURL = Inr c \<and> CardVerifier_Verify (Ad_JWS A) (Ad_Verifier A t) (Some c) = None \<and>
    select_interface (Ad_SDK A) (Card_Interfaces c) profiles = Inr (n, profile) \<and> Desc_Endpoint d = If_URL (Card_Interfaces c ! n) \<and>
    Desc_CardSignatureVerified d = (Card_Signatures c \<noteq> []) \<and> Desc_CardSignatureKeyID d = firstSignatureKeyID (Ad_JWS A) c"
  using assms
  by (fastforce simp: adapter_discover_def verifyCard_def Let_def split: sum.splits option.splits prod.splits)

text \<open>Without a resolver of keys, and where no signature is required, a card with any signature at all is reported as verified.\<close>

lemma unverified_signature_reported:
  assumes "CV_Resolver (Ad_Verifier A t) = None" "\<not> CV_Required (Ad_Verifier A t)" "Ad_Resolve A t cardURL = Inr c"
    and "Card_Signatures c \<noteq> []" "select_interface (Ad_SDK A) (Card_Interfaces c) profiles = Inr (n, profile)"
    and "CanonicalProtocolVersion (If_Version (Card_Interfaces c ! n)) = Inr version"
  shows "\<exists>d. adapter_discover A t cardURL profiles = Inr d \<and> Desc_CardSignatureVerified d"
  using assms by (simp add: adapter_discover_def verifyCard_def CardVerifier_Verify_def Let_def)

text \<open>With a resolver, a signature is verified, although perhaps not the one whose key identifier is reported.\<close>

lemma reported_signature_verified:
  assumes "adapter_discover A t cardURL profiles = Inr d" "CV_Resolver (Ad_Verifier A t) = Some resolve" "Desc_CardSignatureVerified d"
  shows "\<exists>c. Ad_Resolve A t cardURL = Inr c \<and>
    (\<exists>signature\<in>set (Card_Signatures c). \<exists>keyID key. trusted_signature (Ad_JWS A) resolve c signature keyID key)"
  using discovered [OF assms(1)] assms(2,3) unfolding verified_card by auto

section \<open>The adapter as the hub's environment\<close>

text \<open>The hub's environment with this adapter for its federation boundary: whatever holds in every environment holds with it.\<close>

definition adapter_env :: "'k adapter \<Rightarrow> a2a_remote \<Rightarrow> hub_env \<Rightarrow> hub_env" where
  "adapter_env A R E =
     E\<lparr>e_Discover := Discover A, e_DiscoverWithProfiles := DiscoverWithProfiles A, e_Send := Adapter_Send A R, e_Get := Adapter_Get A R,
       e_Cancel := Adapter_Cancel A R, e_Subscribe := Adapter_Subscribe A R\<rparr>"

lemma adapter_env_ok: "env_ok (adapter_env A R E) \<longleftrightarrow> env_ok E"
  by (simp add: env_ok_def adapter_env_def)

text \<open>A client is made before anything is asked of the remote side: without one, each call only yields the error.\<close>

lemma no_client_no_call:
  assumes "adapter_client A (RM_Connect R) t g = Inl e"
  shows "Adapter_Send A R t g m = [Inl e]" "Adapter_Get A R t g i = Inl e" "Adapter_Cancel A R t g i = Inl e" "Adapter_Subscribe A R t g i = [Inl e]"
  using assms
  by (simp_all add: Adapter_Send_def Adapter_Get_def Adapter_Cancel_def Adapter_Subscribe_def open_agent_def open_call_def)

end
