(* ===== verification/Oidc_Keys.thy ===== *)
theory Oidc_Keys
  imports Trust_Bundle
begin

text \<open>
  Signing keys from an OpenID provider (\<open>internal/hub/oidc.go\<close>): its discovery document, its key set, the keys of a JWK, and
  the cache with its lifetimes and its limit on refreshes for unknown keys. Refreshes exclude each other (\<open>refreshMu\<close>) and are
  the only writers of the cache, so each is one step; other goroutines may refresh between the steps of a lookup.
  The JSON decoder, base64, the membership of a point in a curve, and the HTTP exchanges are parameters.
\<close>

section \<open>Documents\<close>

record oidc_metadata =
  MD_Issuer :: string
  MD_JWKSURI :: string
  MD_TokenEndpoint :: string
  MD_IntrospectionEndpoint :: string
  MD_RevocationEndpoint :: string
  MD_TokenEndpointAuthMethods :: "string list"

record json_web_key =
  JWK_KeyType :: string
  JWK_KeyID :: string
  JWK_Use :: string
  JWK_KeyOps :: "string list"
  JWK_Curve :: string
  JWK_N :: string
  JWK_E :: string
  JWK_X :: string
  JWK_Y :: string

datatype oidc_key = OIDC_RSA nat nat | OIDC_EC string nat nat | OIDC_Ed25519 string

text \<open>The decoders also tell whether the text ends after the document.\<close>

record oidc_response = http_response +
  OR_CacheControl :: string

record oidc_lib =
  OL_Net :: net_lib
  OL_Metadata :: "string \<Rightarrow> (oidc_metadata \<times> bool) result"
  OL_KeySet :: "string \<Rightarrow> (json_web_key list \<times> bool) result"
  OL_base64 :: "string \<Rightarrow> string result"
  OL_on_curve :: "string \<Rightarrow> nat \<Rightarrow> nat \<Rightarrow> bool"

text \<open>\<open>big.Int.SetBytes\<close>.\<close>

definition big_endian :: "string \<Rightarrow> nat" where
  "big_endian bytes = foldl (\<lambda>n c. 256 * n + of_char c) 0 bytes"

definition decodeBase64URL :: "oidc_lib \<Rightarrow> string \<Rightarrow> string result" where
  "decodeBase64URL L value = (if value = '''' then Inl (ErrText ''value is empty'') else OL_base64 L value)"

definition parseJWK :: "oidc_lib \<Rightarrow> json_web_key \<Rightarrow> oidc_key result" where
  "parseJWK L v =
     (if JWK_KeyType v = ''RSA'' then
        (case decodeBase64URL L (JWK_N v) of
           Inl _ \<Rightarrow> Inl (ErrText ''invalid RSA modulus'')
         | Inr modulus \<Rightarrow>
             if modulus = '''' then Inl (ErrText ''invalid RSA modulus'')
             else case decodeBase64URL L (JWK_E v) of
               Inl _ \<Rightarrow> Inl (ErrText ''invalid RSA exponent'')
             | Inr e \<Rightarrow>
                 if e = '''' \<or> length e > 4 then Inl (ErrText ''invalid RSA exponent'')
                 else if big_endian e < 3 then Inl (ErrText ''invalid RSA exponent'')
                 else Inr (OIDC_RSA (big_endian modulus) (big_endian e)))
      else if JWK_KeyType v = ''EC'' then
        if JWK_Curve v \<notin> {''P-256'', ''P-384'', ''P-521''} then Inl (ErrText ''unsupported EC curve'')
        else (case decodeBase64URL L (JWK_X v) of
           Inl _ \<Rightarrow> Inl (ErrText ''invalid EC x coordinate'')
         | Inr x \<Rightarrow>
             (case decodeBase64URL L (JWK_Y v) of
                Inl _ \<Rightarrow> Inl (ErrText ''invalid EC y coordinate'')
              | Inr y \<Rightarrow>
                  if OL_on_curve L (JWK_Curve v) (big_endian x) (big_endian y)
                  then Inr (OIDC_EC (JWK_Curve v) (big_endian x) (big_endian y))
                  else Inl (ErrText ''EC point is not on the declared curve'')))
      else if JWK_KeyType v = ''OKP'' then
        if JWK_Curve v \<noteq> ''Ed25519'' then Inl (ErrText ''unsupported OKP curve'')
        else (case decodeBase64URL L (JWK_X v) of
           Inl _ \<Rightarrow> Inl (ErrText ''invalid Ed25519 public key'')
         | Inr key \<Rightarrow> if length key \<noteq> 32 then Inl (ErrText ''invalid Ed25519 public key'') else Inr (OIDC_Ed25519 key))
      else Inl (ErrText ''unsupported JWK key type''))"

definition allowsVerification :: "string list \<Rightarrow> bool" where
  "allowsVerification operations \<longleftrightarrow> operations = [] \<or> ''verify'' \<in> set operations"

definition usable_key :: "json_web_key \<Rightarrow> bool" where
  "usable_key v \<longleftrightarrow> \<not> (JWK_KeyID v = '''' \<or> (JWK_Use v \<noteq> '''' \<and> JWK_Use v \<noteq> ''sig'') \<or> \<not> allowsVerification (JWK_KeyOps v))"

fun collect_keys :: "oidc_lib \<Rightarrow> (string \<rightharpoonup> oidc_key) \<Rightarrow> json_web_key list \<Rightarrow> (string \<rightharpoonup> oidc_key) result" where
  "collect_keys L keys [] = Inr keys"
| "collect_keys L keys (v # vs) =
     (if \<not> usable_key v then collect_keys L keys vs
      else case parseJWK L v of
        Inl e \<Rightarrow> Inl (ErrWrap (''parse OIDC JWK '' @ JWK_KeyID v) e)
      | Inr key \<Rightarrow>
          if keys (JWK_KeyID v) \<noteq> None then Inl (ErrText (''OIDC JWKS contains duplicate key ID '' @ JWK_KeyID v))
          else collect_keys L (keys(JWK_KeyID v \<mapsto> key)) vs)"

section \<open>The provider\<close>

text \<open>\<open>OP_Client\<close> is a client that was set: its requests are made as it makes them. Otherwise the client of the network policy is
  used, and \<open>OP_Send\<close> is one exchange of it. Both are given the tick.\<close>

record oidc_provider =
  OP_Issuer :: string
  OP_URLPolicy :: net_policy
  OP_DefaultTTL :: duration
  OP_MinimumTTL :: duration
  OP_MaximumTTL :: duration
  OP_UnknownRefreshFloor :: duration
  OP_Request_ok :: "string \<Rightarrow> bool"
  OP_Client :: "(nat \<Rightarrow> string \<Rightarrow> oidc_response result) option"
  OP_Send :: "nat \<Rightarrow> nat \<Rightarrow> string \<Rightarrow> oidc_response answer_kind result"

record oidc_cache =
  OC_Metadata :: oidc_metadata
  OC_MetadataExpires :: time
  OC_Keys :: "string \<rightharpoonup> oidc_key"
  OC_KeysExpires :: time
  OC_LastUnknownRefresh :: time

definition NewOIDCKeyProvider ::
  "(string \<Rightarrow> bool) \<Rightarrow> (nat \<Rightarrow> nat \<Rightarrow> string \<Rightarrow> oidc_response answer_kind result) \<Rightarrow> string \<Rightarrow>
   (nat \<Rightarrow> string \<Rightarrow> oidc_response result) option \<Rightarrow> oidc_provider \<times> oidc_cache" where
  "NewOIDCKeyProvider request_ok send issuer client =
     (\<lparr>OP_Issuer = issuer, OP_URLPolicy = HTTPSOnlyPolicy, OP_DefaultTTL = 5 * 60 * 10 ^ 9, OP_MinimumTTL = 60 * 10 ^ 9,
       OP_MaximumTTL = 24 * 60 * 60 * 10 ^ 9, OP_UnknownRefreshFloor = 30 * 10 ^ 9, OP_Request_ok = request_ok,
       OP_Client = client, OP_Send = send\<rparr>,
      \<lparr>OC_Metadata = \<lparr>MD_Issuer = '''', MD_JWKSURI = '''', MD_TokenEndpoint = '''', MD_IntrospectionEndpoint = '''',
         MD_RevocationEndpoint = '''', MD_TokenEndpointAuthMethods = []\<rparr>,
       OC_MetadataExpires = zero_time, OC_Keys = Map.empty, OC_KeysExpires = zero_time, OC_LastUnknownRefresh = zero_time\<rparr>)"

definition unknownRefreshFloor :: "oidc_provider \<Rightarrow> duration" where
  "unknownRefreshFloor P = (if OP_UnknownRefreshFloor P > 0 then OP_UnknownRefreshFloor P else 30 * 10 ^ 9)"

text \<open>\<open>strings.Trim\<close> of quotes, and \<open>strings.Cut\<close> at an equals sign.\<close>

definition trim_quotes :: "string \<Rightarrow> string" where
  "trim_quotes s = trim_right (CHR 34) (dropWhile (\<lambda>c. c = CHR 34) s)"

definition directive_ttl :: "duration \<Rightarrow> string \<Rightarrow> duration" where
  "directive_ttl ttl directive =
     (let d = TrimSpace directive; name = takeWhile (\<lambda>c. c \<noteq> CHR ''='') d in
      if CHR ''='' \<in> set d \<and> EqualFold name ''max-age'' then
        (case Atoi (trim_quotes (drop (length name + 1) d)) of
           Some seconds \<Rightarrow> if seconds \<ge> 0 then wrap64 (seconds * 10 ^ 9) else ttl
         | None \<Rightarrow> ttl)
      else ttl)"

definition maximum_ttl :: "oidc_provider \<Rightarrow> duration" where
  "maximum_ttl P = (if OP_MaximumTTL P \<le> 0 then 24 * 60 * 60 * 10 ^ 9 else OP_MaximumTTL P)"

definition cacheTTL :: "oidc_provider \<Rightarrow> string \<Rightarrow> duration" where
  "cacheTTL P header =
     (let ttl = foldl directive_ttl (if OP_DefaultTTL P \<le> 0 then 5 * 60 * 10 ^ 9 else OP_DefaultTTL P) (split_at (CHR '','') header);
          minimum = (if OP_MinimumTTL P \<le> 0 then 60 * 10 ^ 9 else OP_MinimumTTL P)
      in min (max ttl minimum) (maximum_ttl P))"

definition oidc_exchange :: "oidc_lib \<Rightarrow> oidc_provider \<Rightarrow> nat \<Rightarrow> string \<Rightarrow> oidc_response result" where
  "oidc_exchange L P t endpoint =
     (case OP_Client P of
        Some client \<Rightarrow> client t endpoint
      | None \<Rightarrow>
          (case client_do (OL_Net L) (OP_URLPolicy P) True (OP_Send P t) (Suc (redirect_limit (OP_URLPolicy P))) 0 endpoint of
             None \<Rightarrow> Inl (ErrText ''out of fuel'') | Some (_, r) \<Rightarrow> r))"

definition fetchJSON ::
  "oidc_lib \<Rightarrow> oidc_provider \<Rightarrow> (string \<Rightarrow> ('a \<times> bool) result) \<Rightarrow> nat \<Rightarrow> string \<Rightarrow> ('a \<times> duration) result" where
  "fetchJSON L P decode t endpoint =
     (case ValidateURL (OL_Net L) (OP_URLPolicy P) endpoint of
        Inl e \<Rightarrow> Inl e
      | Inr _ \<Rightarrow>
          if \<not> OP_Request_ok P endpoint then Inl (ErrText ''create request'')
          else (case oidc_exchange L P t endpoint of
             Inl e \<Rightarrow> Inl e
           | Inr response \<Rightarrow>
               if HR_StatusCode response \<noteq> 200 then Inl (ErrText (''endpoint returned HTTP '' @ int_digits (HR_StatusCode response)))
               else if HR_ReadFails response then Inl (ErrText ''read response'')
               else let body = limited_body (2 ^ 20) (HR_Body response) in
               if length body > 2 ^ 20 then Inl (ErrText ''OIDC document exceeds size limit'')
               else (case decode body of
                  Inl e \<Rightarrow> Inl e
                | Inr (document, ended) \<Rightarrow>
                    if \<not> ended then Inl (ErrText ''OIDC document contains trailing data'')
                    else Inr (document, cacheTTL P (OR_CacheControl response)))))"

fun check_endpoints :: "oidc_lib \<Rightarrow> oidc_provider \<Rightarrow> string list \<Rightarrow> error option" where
  "check_endpoints L P [] = None"
| "check_endpoints L P (endpoint # rest) =
     (if endpoint = '''' then check_endpoints L P rest
      else case ValidateURL (OL_Net L) (OP_URLPolicy P) endpoint of
        Inl e \<Rightarrow> Some (ErrWrap ''validate OIDC endpoint'' e) | Inr _ \<Rightarrow> check_endpoints L P rest)"

definition discover_metadata :: "oidc_lib \<Rightarrow> oidc_provider \<Rightarrow> nat \<Rightarrow> (oidc_metadata \<times> duration) result" where
  "discover_metadata L P t =
     (let issuer = trim_right (CHR ''/'') (OP_Issuer P) in
      case ValidateURL (OL_Net L) (OP_URLPolicy P) issuer of
        Inl e \<Rightarrow> Inl (ErrWrap ''validate OIDC issuer'' e)
      | Inr _ \<Rightarrow>
          (case fetchJSON L P (OL_Metadata L) t (issuer @ ''/.well-known/openid-configuration'') of
             Inl e \<Rightarrow> Inl (ErrWrap ''load OIDC discovery metadata'' e)
           | Inr (m, ttl) \<Rightarrow>
               if MD_Issuer m \<noteq> OP_Issuer P then Inl (ErrText ''OIDC discovery issuer does not match configured issuer'')
               else (case check_endpoints L P [MD_JWKSURI m, MD_TokenEndpoint m, MD_IntrospectionEndpoint m, MD_RevocationEndpoint m] of
                  Some e \<Rightarrow> Inl e
                | None \<Rightarrow>
                    if MD_JWKSURI m = '''' then Inl (ErrText ''OIDC discovery metadata has no jwks_uri'') else Inr (m, ttl))))"

text \<open>\<open>clock\<close> reads the time at a tick.\<close>

definition loadMetadata :: "oidc_lib \<Rightarrow> oidc_provider \<Rightarrow> (nat \<Rightarrow> time) \<Rightarrow> nat \<Rightarrow> oidc_cache \<Rightarrow> (oidc_metadata \<times> duration) result" where
  "loadMetadata L P clock t c =
     (if MD_Issuer (OC_Metadata c) \<noteq> '''' \<and> clock t < OC_MetadataExpires c
      then Inr (OC_Metadata c, OC_MetadataExpires c - clock t)
      else discover_metadata L P (Suc t))"

definition oidc_refresh ::
  "oidc_lib \<Rightarrow> oidc_provider \<Rightarrow> (nat \<Rightarrow> time) \<Rightarrow> nat \<Rightarrow> bool \<Rightarrow> oidc_cache \<Rightarrow> error option \<times> oidc_cache" where
  "oidc_refresh L P clock t unknownKey c =
     (let now = clock t in
      if unknownKey \<and> \<not> IsZero (OC_LastUnknownRefresh c) \<and> now - OC_LastUnknownRefresh c < unknownRefreshFloor P
      then (Some (ErrText ''OIDC signing key refresh is rate limited''), c)
      else case loadMetadata L P clock (Suc t) c of
        Inl e \<Rightarrow> (Some e, c)
      | Inr (metadata, metadataTTL) \<Rightarrow>
          (case fetchJSON L P (OL_KeySet L) (t + 3) (MD_JWKSURI metadata) of
             Inl e \<Rightarrow> (Some (ErrWrap ''load OIDC JWKS'' e), c)
           | Inr (document, keysTTL) \<Rightarrow>
               (case collect_keys L Map.empty document of
                  Inl e \<Rightarrow> (Some e, c)
                | Inr keys \<Rightarrow>
                    if keys = Map.empty then (Some (ErrText ''OIDC JWKS contains no usable signing keys''), c)
                    else (None,
                      \<lparr>OC_Metadata = metadata, OC_MetadataExpires = now + metadataTTL, OC_Keys = keys, OC_KeysExpires = now + keysTTL,
                       OC_LastUnknownRefresh = (if unknownKey then now else OC_LastUnknownRefresh c)\<rparr>))))"

text \<open>A lookup first reads the cache, may then refresh it, and reads it again. \<open>others\<close> is what other goroutines do to the cache
  before its second and its third step.\<close>

datatype key_step = Key_Refused error | Key_Found oidc_key | Key_Refresh bool

definition cached_key :: "oidc_provider \<Rightarrow> time \<Rightarrow> string \<Rightarrow> string \<Rightarrow> oidc_cache \<Rightarrow> key_step" where
  "cached_key P now issuer keyID c =
     (if issuer \<noteq> OP_Issuer P \<or> keyID = '''' then Key_Refused (ErrText ''OIDC issuer or key ID is not trusted'')
      else case OC_Keys c keyID of
        Some key \<Rightarrow> if now < OC_KeysExpires c then Key_Found key else Key_Refresh False
      | None \<Rightarrow>
          if OC_Keys c \<noteq> Map.empty \<and> \<not> IsZero (OC_LastUnknownRefresh c) \<and> now - OC_LastUnknownRefresh c < unknownRefreshFloor P
          then Key_Refused (ErrText ''OIDC signing key is unavailable'')
          else Key_Refresh (OC_Keys c \<noteq> Map.empty))"

definition OIDC_Key ::
  "oidc_lib \<Rightarrow> oidc_provider \<Rightarrow> (nat \<Rightarrow> time) \<Rightarrow> (nat \<Rightarrow> oidc_cache \<Rightarrow> oidc_cache) \<Rightarrow> nat \<Rightarrow> string \<Rightarrow> string \<Rightarrow> oidc_cache \<Rightarrow>
   oidc_key result \<times> oidc_cache" where
  "OIDC_Key L P clock others t issuer keyID c =
     (case cached_key P (clock t) issuer keyID c of
        Key_Refused e \<Rightarrow> (Inl e, c)
      | Key_Found key \<Rightarrow> (Inr key, c)
      | Key_Refresh unknownRefresh \<Rightarrow>
          (case oidc_refresh L P clock (Suc t) unknownRefresh (others 0 c) of
             (Some e, c1) \<Rightarrow> (Inl e, c1)
           | (None, c1) \<Rightarrow>
               let c2 = others 1 c1 in
               (case OC_Keys c2 keyID of
                  None \<Rightarrow> (Inl (ErrText ''OIDC signing key is unavailable''), c2) | Some key \<Rightarrow> (Inr key, c2))))"

definition OIDC_Metadata ::
  "oidc_lib \<Rightarrow> oidc_provider \<Rightarrow> (nat \<Rightarrow> time) \<Rightarrow> (nat \<Rightarrow> oidc_cache \<Rightarrow> oidc_cache) \<Rightarrow> nat \<Rightarrow> oidc_cache \<Rightarrow> oidc_metadata result \<times> oidc_cache" where
  "OIDC_Metadata L P clock others t c =
     (if MD_Issuer (OC_Metadata c) \<noteq> '''' \<and> clock t < OC_MetadataExpires c then (Inr (OC_Metadata c), c)
      else case oidc_refresh L P clock (Suc t) False (others 0 c) of
        (Some e, c1) \<Rightarrow> (Inl e, c1)
      | (None, c1) \<Rightarrow> (Inr (OC_Metadata (others 1 c1)), others 1 c1))"

section \<open>Where cached keys come from\<close>

lemma cacheTTL_bounds: "cacheTTL P header \<le> maximum_ttl P" "0 < cacheTTL P header"
  by (auto simp: cacheTTL_def maximum_ttl_def Let_def min_def max_def)

lemma fetched_ttl: "fetchJSON L P decode t endpoint = Inr (document, ttl) \<Longrightarrow> ttl \<le> maximum_ttl P"
  by (auto simp: fetchJSON_def Let_def cacheTTL_bounds split: sum.splits if_splits prod.splits)

lemma collected_keys:
  assumes "collect_keys L keys vs = Inr keys'" "keys' kid = Some key"
  shows "keys kid = Some key \<or> (\<exists>v\<in>set vs. usable_key v \<and> JWK_KeyID v = kid \<and> parseJWK L v = Inr key)"
  using assms
proof (induction vs arbitrary: keys)
  case (Cons v vs)
  show ?case
  proof (cases "usable_key v")
    case False
    with Cons show ?thesis by auto
  next
    case True
    then obtain k where k: "parseJWK L v = Inr k" "collect_keys L (keys(JWK_KeyID v \<mapsto> k)) vs = Inr keys'"
      using Cons.prems(1) by (auto split: sum.splits if_splits)
    from Cons.IH [OF k(2) Cons.prems(2)] k(1) True show ?thesis by (auto split: if_splits)
  qed
qed simp

text \<open>Metadata that was fetched from the issuer's well-known place, names the issuer, and has endpoints that the policy admits.\<close>

definition trusted_metadata :: "oidc_lib \<Rightarrow> oidc_provider \<Rightarrow> oidc_metadata \<Rightarrow> bool" where
  "trusted_metadata L P m \<longleftrightarrow>
     MD_Issuer m = OP_Issuer P \<and> MD_JWKSURI m \<noteq> '''' \<and>
     (\<forall>u\<in>{MD_JWKSURI m, MD_TokenEndpoint m, MD_IntrospectionEndpoint m, MD_RevocationEndpoint m}.
        u \<noteq> '''' \<longrightarrow> (\<exists>v. ValidateURL (OL_Net L) (OP_URLPolicy P) u = Inr v)) \<and>
     (\<exists>t ttl. fetchJSON L P (OL_Metadata L) t (trim_right (CHR ''/'') (OP_Issuer P) @ ''/.well-known/openid-configuration'') = Inr (m, ttl))"

definition keys_from :: "oidc_lib \<Rightarrow> oidc_provider \<Rightarrow> (nat \<Rightarrow> time) \<Rightarrow> nat \<Rightarrow> oidc_cache \<Rightarrow> bool" where
  "keys_from L P clock t c \<longleftrightarrow>
     trusted_metadata L P (OC_Metadata c) \<and>
     (\<exists>document ttl. fetchJSON L P (OL_KeySet L) (t + 3) (MD_JWKSURI (OC_Metadata c)) = Inr (document, ttl) \<and>
        collect_keys L Map.empty document = Inr (OC_Keys c) \<and> OC_KeysExpires c = clock t + ttl)"

definition cache_ok :: "oidc_lib \<Rightarrow> oidc_provider \<Rightarrow> (nat \<Rightarrow> time) \<Rightarrow> oidc_cache \<Rightarrow> bool" where
  "cache_ok L P clock c \<longleftrightarrow> (MD_Issuer (OC_Metadata c) = '''' \<and> OC_Keys c = Map.empty) \<or> (\<exists>t. keys_from L P clock t c)"

lemma new_cache_ok: "NewOIDCKeyProvider request_ok send issuer client = (P, c) \<Longrightarrow> cache_ok L P clock c"
  by (auto simp: NewOIDCKeyProvider_def cache_ok_def)

lemma check_endpoints_None:
  "check_endpoints L P us = None \<longleftrightarrow> (\<forall>u\<in>set us. u \<noteq> '''' \<longrightarrow> (\<exists>v. ValidateURL (OL_Net L) (OP_URLPolicy P) u = Inr v))"
  by (induction us) (auto split: sum.splits)

lemma discovered_metadata: "discover_metadata L P t = Inr (m, ttl) \<Longrightarrow> trusted_metadata L P m"
  unfolding discover_metadata_def trusted_metadata_def Let_def
  by (auto simp: check_endpoints_None simp del: check_endpoints.simps split: sum.splits if_splits option.splits) blast+

lemma loaded_metadata: "loadMetadata L P clock t c = Inr (m, ttl) \<Longrightarrow> cache_ok L P clock c \<Longrightarrow> trusted_metadata L P m"
  by (auto simp: loadMetadata_def cache_ok_def keys_from_def discovered_metadata split: if_splits)

lemma refresh_installs:
  assumes "oidc_refresh L P clock t unknownKey c = (None, c')" "cache_ok L P clock c"
  shows "keys_from L P clock t c'"
  using assms loaded_metadata [OF _ assms(2)]
  by (fastforce simp: oidc_refresh_def keys_from_def Let_def split: if_splits sum.splits prod.splits)

text \<open>A failed refresh changes nothing: the keys stay, and so does the time of the last refresh for an unknown key.\<close>

lemma refresh_failure: "oidc_refresh L P clock t unknownKey c = (Some e, c') \<Longrightarrow> c' = c"
  by (auto simp: oidc_refresh_def Let_def split: if_splits sum.splits prod.splits)

text \<open>So while the provider fails, each lookup of an unknown key refreshes again, in spite of the limit.\<close>

lemma failed_refreshes_repeat:
  assumes "OIDC_Key L P clock (\<lambda>_ d. d) t issuer keyID c = (Inl e, c1)" "cached_key P (clock t) issuer keyID c = Key_Refresh True"
    and "oidc_refresh L P clock (Suc t) True c = (Some e, c2)" "IsZero (OC_LastUnknownRefresh c)"
  shows "cached_key P (clock t') issuer keyID c1 = Key_Refresh True"
proof -
  have "c1 = c" using assms(1,2,3) refresh_failure [OF assms(3)] by (simp add: OIDC_Key_def)
  with assms(2,4) show ?thesis by (auto simp: cached_key_def split: if_splits option.splits)
qed

text \<open>Two successful refreshes for unknown keys are a floor apart.\<close>

lemma unknown_refreshes_spaced:
  assumes "oidc_refresh L P clock t True c = (None, c')"
  shows "OC_LastUnknownRefresh c' = clock t \<and>
    (IsZero (OC_LastUnknownRefresh c) \<or> OC_LastUnknownRefresh c + unknownRefreshFloor P \<le> clock t)"
  using assms by (auto simp: oidc_refresh_def Let_def split: if_splits sum.splits prod.splits)

section \<open>Other goroutines\<close>

inductive refreshed :: "oidc_lib \<Rightarrow> oidc_provider \<Rightarrow> (nat \<Rightarrow> time) \<Rightarrow> nat \<Rightarrow> oidc_cache \<Rightarrow> oidc_cache \<Rightarrow> bool"
  for L P clock t0 c where
  refreshed_refl: "refreshed L P clock t0 c c"
| refreshed_step: "refreshed L P clock t0 c d \<Longrightarrow> t0 \<le> t \<Longrightarrow> refreshed L P clock t0 c (snd (oidc_refresh L P clock t unknownKey d))"

lemma refreshed_ok:
  assumes "refreshed L P clock t0 c d" "cache_ok L P clock c"
  shows "cache_ok L P clock d \<and> (d = c \<or> (\<exists>t\<ge>t0. keys_from L P clock t d))"
  using assms
proof induction
  case (refreshed_step d t unknownKey)
  obtain r d' where r: "oidc_refresh L P clock t unknownKey d = (r, d')" by fastforce
  show ?case
  proof (cases r)
    case None
    with refresh_installs [of L P clock t unknownKey d d'] refreshed_step r have "keys_from L P clock t d'" by simp
    with r refreshed_step.hyps(2) show ?thesis by (auto simp: cache_ok_def)
  next
    case (Some e)
    with refresh_failure [of L P clock t unknownKey d e d'] refreshed_step r show ?thesis by simp
  qed
qed simp

lemma key_from:
  assumes "keys_from L P clock t c" "OC_Keys c keyID = Some key"
  shows "\<exists>metadata document ttl v. trusted_metadata L P metadata \<and>
    fetchJSON L P (OL_KeySet L) (t + 3) (MD_JWKSURI metadata) = Inr (document, ttl) \<and> OC_KeysExpires c \<le> clock t + maximum_ttl P \<and>
    v \<in> set document \<and> usable_key v \<and> JWK_KeyID v = keyID \<and> parseJWK L v = Inr key"
  using assms collected_keys [of L Map.empty _ "OC_Keys c" keyID key] fetched_ttl unfolding keys_from_def by fastforce

text \<open>A key is found in the cache before it expires, or after a refresh that did not fail.\<close>

lemma key_answers:
  assumes "OIDC_Key L P clock others t issuer keyID c = (Inr key, c')" "cache_ok L P clock c"
    and "\<And>i d. refreshed L P clock t d (others i d)"
  shows "issuer = OP_Issuer P \<and> keyID \<noteq> '''' \<and> OC_Keys c' keyID = Some key \<and> cache_ok L P clock c' \<and>
    (\<exists>t'. keys_from L P clock t' c' \<and> (t \<le> t' \<or> clock t < OC_KeysExpires c'))"
proof -
  have i: "issuer = OP_Issuer P \<and> keyID \<noteq> ''''" using assms(1) by (auto simp: OIDC_Key_def cached_key_def split: if_splits)
  consider (cached) "OC_Keys c keyID = Some key" "clock t < OC_KeysExpires c" "c' = c"
    | (fresh) u c1 where "oidc_refresh L P clock (Suc t) u (others 0 c) = (None, c1)" "c' = others 1 c1" "OC_Keys c' keyID = Some key"
    using assms(1) by (auto simp: OIDC_Key_def cached_key_def Let_def split: if_splits option.splits prod.splits)
  then show ?thesis
  proof cases
    case cached
    with assms(2) i show ?thesis by (auto simp: cache_ok_def)
  next
    case fresh
    have "cache_ok L P clock (others 0 c)" using refreshed_ok [OF assms(3) assms(2)] by blast
    from refresh_installs [OF fresh(1) this] have k: "keys_from L P clock (Suc t) c1" .
    then have "cache_ok L P clock c1" by (auto simp: cache_ok_def)
    from refreshed_ok [OF assms(3) this, of 1] k i fresh show ?thesis by (metis le_SucI order_refl)
  qed
qed

end
