(* ===== verification/Agent_Config.thy ===== *)
theory Agent_Config
  imports Hub_Guarantees Access_Control
begin

text \<open>
  Agents from a configuration file: the document and its validation (\<open>internal/agentconfig/config.go\<close>), the runtime that keeps
  the last accepted snapshot (\<open>internal/agentconfig/runtime.go\<close>), and the reconciliation of a snapshot with the registered
  agents (\<open>cmd/federation-hub/agent_config_runtime.go\<close>), which runs in the hub's world. The YAML decoder is a parameter. Lists
  and maps whose absence the code tells from being empty are options; maps are lists of pairs in the order of their range.
\<close>

section \<open>The document\<close>

record config_profile =
  CP_ProtocolVersion :: string
  CP_Binding :: string
  CP_StreamTransport :: string

record protocol_policy =
  PP_Kind :: string
  PP_Profiles :: "config_profile list"
  PP_RequiredProfiles :: "config_profile list"

record discovery_policy =
  DP_RefreshIntervalSeconds :: int
  DP_MaxCardBytes :: int
  DP_RequireHTTPS :: bool
  DP_AllowPrivateURLs :: bool
  DP_RequiredCapabilities :: "(string \<times> bool) list option"
  DP_RequiredSkills :: "string list option"
  DP_AllowedSkills :: "string list option"
  DP_RequiredExtensions :: "string list option"
  DP_AllowedExtensions :: "string list option"

record execution_policy =
  EP_RemoteTimeoutSeconds :: int
  EP_TaskTimeoutSeconds :: int
  EP_MaxRetries :: int
  EP_CancelGraceSeconds :: int
  EP_Reconnect :: bool

record limits_policy =
  LP_MaxConcurrentTasks :: int
  LP_MaxArtifactBytes :: int

record routing_policy =
  RO_Tags :: "string list"
  RO_Priority :: int

record config_defaults =
  CD_Protocol :: protocol_policy
  CD_Discovery :: discovery_policy
  CD_Execution :: execution_policy
  CD_Limits :: limits_policy

record registration =
  RG_ID :: string
  RG_TenantID :: string
  RG_DisplayName :: string
  RG_Enabled :: bool
  RG_CardURL :: string
  RG_Protocol :: protocol_policy
  RG_Discovery :: discovery_policy
  RG_CredentialEnv :: "(string \<times> string) list"
  RG_Execution :: execution_policy
  RG_Limits :: limits_policy
  RG_Routing :: routing_policy
  RG_Metadata :: "(string \<times> string) list"

record config_file =
  CF_SchemaVersion :: int
  CF_Defaults :: config_defaults
  CF_Agents :: "registration list"

text \<open>The strings of an optional list, and its first error by position.\<close>

abbreviation items :: "'a list option \<Rightarrow> 'a list" where
  "items xs \<equiv> (case xs of None \<Rightarrow> [] | Some ys \<Rightarrow> ys)"

fun first_problem :: "(nat \<Rightarrow> 'a \<Rightarrow> error option) \<Rightarrow> nat \<Rightarrow> 'a list \<Rightarrow> error option" where
  "first_problem f i [] = None"
| "first_problem f i (x # xs) = (case f i x of Some e \<Rightarrow> Some e | None \<Rightarrow> first_problem f (Suc i) xs)"

definition index_text :: "nat \<Rightarrow> string" where
  "index_text i = CHR ''['' # int_digits (int i) @ '']''"

definition check_profile :: "string \<Rightarrow> nat \<Rightarrow> config_profile \<Rightarrow> error option" where
  "check_profile field i p =
     (let place = field @ ''.profiles'' @ index_text i;
          binding = ToUpper (TrimSpace (CP_Binding p)); stream = ToUpper (TrimSpace (CP_StreamTransport p)) in
      if blank (CP_ProtocolVersion p) then Some (ErrText (place @ ''.protocol_version is required''))
      else case CanonicalProtocolVersion (CP_ProtocolVersion p) of
        Inl e \<Rightarrow> Some (ErrWrap (place @ ''.protocol_version is invalid'') e)
      | Inr _ \<Rightarrow>
          if binding \<noteq> ''JSONRPC'' \<and> binding \<noteq> ''HTTP_JSON'' \<and> binding \<noteq> ''GRPC''
          then Some (ErrText (place @ ''.binding must be JSONRPC, HTTP_JSON, or GRPC''))
          else if binding = ''GRPC'' then
            (if stream \<noteq> ''SERVER_STREAMING'' \<and> stream \<noteq> ''GRPC''
             then Some (ErrText (place @ ''.stream_transport must be SERVER_STREAMING for GRPC'')) else None)
          else if stream \<noteq> '''' \<and> stream \<noteq> ''SSE'' then Some (ErrText (place @ ''.stream_transport must be SSE''))
          else None)"

definition ProtocolPolicy_Validate :: "string \<Rightarrow> bool \<Rightarrow> protocol_policy \<Rightarrow> error option" where
  "ProtocolPolicy_Validate field required p =
     (if PP_Kind p \<noteq> '''' \<and> PP_Kind p \<noteq> ''a2a'' then Some (ErrText (field @ ''.kind must be a2a''))
      else if PP_Profiles p \<noteq> [] \<and> PP_RequiredProfiles p \<noteq> []
      then Some (ErrText (field @ '' must use either profiles or required_profiles, not both''))
      else if required \<and> PP_Profiles p = [] \<and> PP_RequiredProfiles p = [] then Some (ErrText (field @ ''.profiles must not be empty''))
      else first_problem (check_profile field) 0 (PP_Profiles p @ PP_RequiredProfiles p))"

definition check_names :: "string \<Rightarrow> string list option \<Rightarrow> error option" where
  "check_names field xs =
     first_problem (\<lambda>i x. if blank x then Some (ErrText (field @ index_text i @ '' must not be empty'')) else None) 0 (items xs)"

text \<open>The two lists of extensions are checked in the order in which Go ranges over a map; here required ones come first.\<close>

definition DiscoveryPolicy_Validate :: "string \<Rightarrow> bool \<Rightarrow> discovery_policy \<Rightarrow> error option" where
  "DiscoveryPolicy_Validate field required p =
     (if DP_RefreshIntervalSeconds p < 0 \<or> DP_MaxCardBytes p < 0 then Some (ErrText (field @ '' limits must not be negative''))
      else if required \<and> DP_MaxCardBytes p = 0 then Some (ErrText (field @ ''.max_card_bytes must be positive''))
      else case find (\<lambda>(name, _). name \<noteq> ''streaming'' \<and> name \<noteq> ''push_notifications'') (items (DP_RequiredCapabilities p)) of
        Some (name, _) \<Rightarrow> Some (ErrText (field @ ''.required_capabilities contains unsupported capability '' @ name))
      | None \<Rightarrow>
          (case check_names (field @ ''.allowed_skills'') (DP_AllowedSkills p) of
             Some e \<Rightarrow> Some e
           | None \<Rightarrow>
               (case check_names (field @ ''.required_skills'') (DP_RequiredSkills p) of
                  Some e \<Rightarrow> Some e
                | None \<Rightarrow>
                    (case check_names (field @ ''.required_extensions'') (DP_RequiredExtensions p) of
                       Some e \<Rightarrow> Some e
                     | None \<Rightarrow> check_names (field @ ''.allowed_extensions'') (DP_AllowedExtensions p)))))"

definition ExecutionPolicy_Validate :: "string \<Rightarrow> bool \<Rightarrow> execution_policy \<Rightarrow> error option" where
  "ExecutionPolicy_Validate field required p =
     (if required \<and> EP_RemoteTimeoutSeconds p \<le> 0 then Some (ErrText (field @ ''.remote_timeout_seconds must be positive''))
      else if EP_RemoteTimeoutSeconds p < 0 \<or> EP_TaskTimeoutSeconds p < 0 \<or> EP_MaxRetries p < 0 \<or> EP_CancelGraceSeconds p < 0
      then Some (ErrText (field @ '' values must not be negative''))
      else if EP_TaskTimeoutSeconds p \<noteq> 0 \<and> EP_TaskTimeoutSeconds p < EP_RemoteTimeoutSeconds p
      then Some (ErrText (field @ ''.task_timeout_seconds must be >= remote_timeout_seconds''))
      else None)"

definition LimitsPolicy_Validate :: "string \<Rightarrow> bool \<Rightarrow> limits_policy \<Rightarrow> error option" where
  "LimitsPolicy_Validate field required p =
     (if required \<and> LP_MaxConcurrentTasks p \<le> 0 then Some (ErrText (field @ ''.max_concurrent_tasks must be positive''))
      else if LP_MaxConcurrentTasks p < 0 \<or> LP_MaxArtifactBytes p < 0 then Some (ErrText (field @ '' values must not be negative''))
      else None)"

definition Defaults_Validate :: "string \<Rightarrow> bool \<Rightarrow> config_defaults \<Rightarrow> error option" where
  "Defaults_Validate field required d =
     (case ProtocolPolicy_Validate (field @ ''.protocol'') required (CD_Protocol d) of
        Some e \<Rightarrow> Some e
      | None \<Rightarrow>
          (case DiscoveryPolicy_Validate (field @ ''.discovery'') required (CD_Discovery d) of
             Some e \<Rightarrow> Some e
           | None \<Rightarrow>
               (case ExecutionPolicy_Validate (field @ ''.execution'') required (CD_Execution d) of
                  Some e \<Rightarrow> Some e
                | None \<Rightarrow> LimitsPolicy_Validate (field @ ''.limits'') required (CD_Limits d))))"

section \<open>Defaults and overrides\<close>

definition mergeDiscovery :: "discovery_policy \<Rightarrow> discovery_policy \<Rightarrow> discovery_policy" where
  "mergeDiscovery base override =
     (let own = (\<lambda>f. if f override = None then f base else f override) in
      \<lparr>DP_RefreshIntervalSeconds = (if DP_RefreshIntervalSeconds override = 0 then DP_RefreshIntervalSeconds base else DP_RefreshIntervalSeconds override),
       DP_MaxCardBytes = (if DP_MaxCardBytes override = 0 then DP_MaxCardBytes base else DP_MaxCardBytes override),
       DP_RequireHTTPS = (if \<not> DP_RequireHTTPS override then DP_RequireHTTPS base else DP_RequireHTTPS override),
       DP_AllowPrivateURLs = (if \<not> DP_AllowPrivateURLs override then DP_AllowPrivateURLs base else DP_AllowPrivateURLs override),
       DP_RequiredCapabilities =
         (if DP_RequiredCapabilities override = None then DP_RequiredCapabilities base else DP_RequiredCapabilities override),
       DP_RequiredSkills = own DP_RequiredSkills, DP_AllowedSkills = own DP_AllowedSkills,
       DP_RequiredExtensions = own DP_RequiredExtensions, DP_AllowedExtensions = own DP_AllowedExtensions\<rparr>)"

definition mergeExecution :: "execution_policy \<Rightarrow> execution_policy \<Rightarrow> execution_policy" where
  "mergeExecution base override =
     (let own = (\<lambda>f. if f override = 0 then f base else f override) in
      \<lparr>EP_RemoteTimeoutSeconds = own EP_RemoteTimeoutSeconds, EP_TaskTimeoutSeconds = own EP_TaskTimeoutSeconds,
       EP_MaxRetries = own EP_MaxRetries, EP_CancelGraceSeconds = own EP_CancelGraceSeconds,
       EP_Reconnect = (if \<not> EP_Reconnect override then EP_Reconnect base else EP_Reconnect override)\<rparr>)"

definition mergeLimits :: "limits_policy \<Rightarrow> limits_policy \<Rightarrow> limits_policy" where
  "mergeLimits base override =
     \<lparr>LP_MaxConcurrentTasks = (if LP_MaxConcurrentTasks override = 0 then LP_MaxConcurrentTasks base else LP_MaxConcurrentTasks override),
      LP_MaxArtifactBytes = (if LP_MaxArtifactBytes override = 0 then LP_MaxArtifactBytes base else LP_MaxArtifactBytes override)\<rparr>"

text \<open>\<open>envNamePattern\<close>.\<close>

definition env_name :: "string \<Rightarrow> bool" where
  "env_name s \<longleftrightarrow>
     (let letter = (\<lambda>c. CHR ''A'' \<le> c \<and> c \<le> CHR ''Z'' \<or> CHR ''a'' \<le> c \<and> c \<le> CHR ''z'' \<or> c = CHR ''_'');
          digit = (\<lambda>c. CHR ''0'' \<le> c \<and> c \<le> CHR ''9'')
      in s \<noteq> '''' \<and> letter (hd s) \<and> list_all (\<lambda>c. letter c \<or> digit c) (tl s))"

definition validate_registration :: "golib \<Rightarrow> string \<Rightarrow> config_defaults \<Rightarrow> registration \<Rightarrow> error option" where
  "validate_registration G prefix defaults r =
     (let invalid = Some (ErrText (prefix @ ''.card_url must be an absolute HTTP(S) URL without user info'')) in
      if blank (RG_ID r) then Some (ErrText (prefix @ ''.id is required''))
      else if blank (RG_TenantID r) then Some (ErrText (prefix @ ''.tenant_id is required''))
      else if blank (RG_CardURL r) then Some (ErrText (prefix @ ''.card_url is required''))
      else case G_url_parse G (RG_CardURL r) of
        Inl _ \<Rightarrow> invalid
      | Inr u \<Rightarrow>
          if (U_Scheme u \<noteq> ''http'' \<and> U_Scheme u \<noteq> ''https'') \<or> U_Host u = '''' \<or> U_HasUser u then invalid
          else
            let discovery = mergeDiscovery (CD_Discovery defaults) (RG_Discovery r);
                own = (if PP_Profiles (RG_Protocol r) = [] then PP_RequiredProfiles (RG_Protocol r) else PP_Profiles (RG_Protocol r));
                profiles = (if own = [] then PP_Profiles (CD_Protocol defaults) else own) in
            if DP_RequireHTTPS discovery \<and> U_Scheme u \<noteq> ''https'' \<and> \<not> DP_AllowPrivateURLs discovery
            then Some (ErrText (prefix @ ''.card_url must use HTTPS''))
            else case ProtocolPolicy_Validate (prefix @ ''.protocol'') False (RG_Protocol r) of
              Some e \<Rightarrow> Some e
            | None \<Rightarrow>
                (case ProtocolPolicy_Validate (prefix @ ''.protocol'') True
                        \<lparr>PP_Kind = '''', PP_Profiles = profiles, PP_RequiredProfiles = []\<rparr> of
                   Some e \<Rightarrow> Some e
                 | None \<Rightarrow>
                     (case DiscoveryPolicy_Validate (prefix @ ''.discovery'') False discovery of
                        Some e \<Rightarrow> Some e
                      | None \<Rightarrow>
                          (case ExecutionPolicy_Validate (prefix @ ''.execution'') True
                                  (mergeExecution (CD_Execution defaults) (RG_Execution r)) of
                             Some e \<Rightarrow> Some e
                           | None \<Rightarrow>
                               (case LimitsPolicy_Validate (prefix @ ''.limits'') True (mergeLimits (CD_Limits defaults) (RG_Limits r)) of
                                  Some e \<Rightarrow> Some e
                                | None \<Rightarrow>
                                    (case find (\<lambda>(scheme, reference). blank scheme \<or> \<not> env_name reference) (RG_CredentialEnv r) of
                                       None \<Rightarrow> None
                                     | Some (scheme, _) \<Rightarrow>
                                         Some (ErrText (prefix @ ''.credential_env '' @ scheme @
                                           '' must reference a valid environment variable''))))))))"

fun validate_agents :: "golib \<Rightarrow> config_defaults \<Rightarrow> string set \<Rightarrow> nat \<Rightarrow> registration list \<Rightarrow> error option" where
  "validate_agents G defaults seen i [] = None"
| "validate_agents G defaults seen i (r # rs) =
     (case validate_registration G (''agents'' @ index_text i) defaults r of
        Some e \<Rightarrow> Some e
      | None \<Rightarrow>
          if RG_ID r \<in> seen then Some (ErrText (''agents'' @ index_text i @ ''.id is duplicated: '' @ RG_ID r))
          else validate_agents G defaults (insert (RG_ID r) seen) (Suc i) rs)"

definition File_Validate :: "golib \<Rightarrow> config_file \<Rightarrow> error option" where
  "File_Validate G f =
     (if CF_SchemaVersion f \<noteq> 1 then Some (ErrText ''schema_version must be 1'')
      else case Defaults_Validate ''defaults'' False (CF_Defaults f) of
        Some e \<Rightarrow> Some e | None \<Rightarrow> validate_agents G (CF_Defaults f) {} 0 (CF_Agents f))"

text \<open>What follows the first YAML document: the end, another document, or what does not parse.\<close>

datatype trailing = Trailing_None | Trailing_Document | Trailing_Error error

definition LoadFile :: "golib \<Rightarrow> (string \<Rightarrow> (config_file \<times> trailing) result) \<Rightarrow> string result \<Rightarrow> config_file result" where
  "LoadFile G decode contents =
     (case contents of
        Inl e \<Rightarrow> Inl (ErrWrap ''read Agent configuration'' e)
      | Inr encoded \<Rightarrow>
          (case decode encoded of
             Inl e \<Rightarrow> Inl (ErrWrap ''parse Agent configuration'' e)
           | Inr (f, Trailing_Document) \<Rightarrow> Inl (ErrText ''parse Agent configuration: multiple YAML documents are not supported'')
           | Inr (f, Trailing_Error e) \<Rightarrow> Inl (ErrWrap ''parse Agent configuration'' e)
           | Inr (f, Trailing_None) \<Rightarrow>
               (case File_Validate G f of Some e \<Rightarrow> Inl (ErrWrap ''validate Agent configuration'' e) | None \<Rightarrow> Inr f)))"

section \<open>What the service is asked to require\<close>

definition Profiles :: "config_defaults \<Rightarrow> registration \<Rightarrow> config_profile list" where
  "Profiles defaults r =
     (if PP_Profiles (RG_Protocol r) \<noteq> [] then PP_Profiles (RG_Protocol r)
      else if PP_RequiredProfiles (RG_Protocol r) \<noteq> [] then PP_RequiredProfiles (RG_Protocol r)
      else PP_Profiles (CD_Protocol defaults))"

definition a2aTransport :: "a2a_sdk \<Rightarrow> string \<Rightarrow> string" where
  "a2aTransport K value =
     (let v = ToUpper (TrimSpace value) in
      if v = ''JSONRPC'' \<or> v = ''JSON_RPC'' then SDK_JSONRPC K
      else if v = ''HTTP+JSON'' \<or> v = ''HTTP_JSON'' \<or> v = ''HTTPJSON'' then SDK_HTTPJSON K
      else if v = ''GRPC'' then SDK_GRPC K else value)"

definition wire_profile :: "a2a_sdk \<Rightarrow> config_profile \<Rightarrow> binding_profile" where
  "wire_profile K p =
     (let binding = ToUpper (TrimSpace (CP_Binding p)) in
      \<lparr>Prof_ProtocolVersion = CP_ProtocolVersion p,
       Prof_Binding = a2aTransport K (if binding = ''HTTP_JSON'' then ''HTTP+JSON'' else binding),
       Prof_StreamTransport = CP_StreamTransport p\<rparr>)"

definition capability :: "discovery_policy \<Rightarrow> string \<Rightarrow> bool" where
  "capability p name = (map_of (items (DP_RequiredCapabilities p)) name = Some True)"

definition RegistrationPolicy :: "a2a_sdk \<Rightarrow> config_defaults \<Rightarrow> registration \<Rightarrow> registration_policy" where
  "RegistrationPolicy K defaults r =
     (let profiles = Profiles defaults r; discovery = mergeDiscovery (CD_Discovery defaults) (RG_Discovery r) in
      \<lparr>RP_Profiles = map (wire_profile K) profiles,
       RP_ProtocolVersion = (if profiles = [] then '''' else CP_ProtocolVersion (hd profiles)),
       RP_ProtocolBinding = (if profiles = [] then '''' else ToUpper (CP_Binding (hd profiles))),
       RP_StreamTransport = (if profiles = [] then '''' else ToUpper (CP_StreamTransport (hd profiles))),
       RP_Streaming = capability discovery ''streaming'', RP_PushNotifications = capability discovery ''push_notifications'',
       RP_RequiredSkills = items (DP_RequiredSkills discovery), RP_AllowedSkills = items (DP_AllowedSkills discovery),
       RP_RequiredExtensions = items (DP_RequiredExtensions discovery), RP_AllowedExtensions = items (DP_AllowedExtensions discovery)\<rparr>)"

definition AllowsPrivateURLs :: "config_defaults \<Rightarrow> registration \<Rightarrow> bool" where
  "AllowsPrivateURLs defaults r = DP_AllowPrivateURLs (mergeDiscovery (CD_Discovery defaults) (RG_Discovery r))"

definition EnabledAgents :: "config_file \<Rightarrow> registration list" where
  "EnabledAgents f = sort_key RG_ID (filter RG_Enabled (CF_Agents f))"

section \<open>The runtime\<close>

text \<open>The accepted snapshot with the digest of its file. A reload reads the file twice: for the digest, and to load it. The callback
  \<open>apply\<close> gets the candidate and whether it is the first; \<open>digest\<close> is \<open>sha256.Sum256\<close>.\<close>

record config_runtime =
  CR_Path :: string
  CR_Current :: "config_file option"
  CR_Digest :: string

record config_inputs =
  CI_First :: "string result"
  CI_Second :: "string result"
  CI_Apply :: "(config_file \<Rightarrow> bool \<Rightarrow> error option) option"

definition Runtime_Current :: "config_runtime \<Rightarrow> config_file option" where
  "Runtime_Current m = CR_Current m"

definition Runtime_Reload ::
  "golib \<Rightarrow> (string \<Rightarrow> (config_file \<times> trailing) result) \<Rightarrow> (string \<Rightarrow> string) \<Rightarrow> config_inputs \<Rightarrow> config_runtime \<Rightarrow>
   bool result \<times> config_runtime" where
  "Runtime_Reload G decode digest i m =
     (if CR_Path m = '''' then (Inl (ErrText ''Agent configuration runtime is not configured''), m)
      else case CI_First i of
        Inl e \<Rightarrow> (Inl (ErrWrap ''read Agent configuration'' e), m)
      | Inr encoded \<Rightarrow>
          if CR_Current m \<noteq> None \<and> digest encoded = CR_Digest m then (Inr False, m)
          else case LoadFile G decode (CI_Second i) of
            Inl e \<Rightarrow> (Inl e, m)
          | Inr candidate \<Rightarrow>
              (case (case CI_Apply i of None \<Rightarrow> None | Some apply \<Rightarrow> apply candidate (CR_Current m = None)) of
                 Some e \<Rightarrow> (Inl (ErrWrap ''apply Agent configuration'' e), m)
               | None \<Rightarrow> (Inr True, m\<lparr>CR_Current := Some candidate, CR_Digest := digest encoded\<rparr>)))"

definition NewRuntime ::
  "golib \<Rightarrow> (string \<Rightarrow> (config_file \<times> trailing) result) \<Rightarrow> (string \<Rightarrow> string) \<Rightarrow> string \<Rightarrow> config_inputs \<Rightarrow> config_runtime result" where
  "NewRuntime G decode digest path i =
     (if path = '''' then Inl (ErrText ''Agent configuration path is required'')
      else case Runtime_Reload G decode digest i \<lparr>CR_Path = path, CR_Current = None, CR_Digest = ''''\<rparr> of
        (Inl e, _) \<Rightarrow> Inl e | (Inr _, m) \<Rightarrow> Inr m)"

text \<open>The ticks before the context ends, with the errors that are reported.\<close>

fun runtime_ticks ::
  "golib \<Rightarrow> (string \<Rightarrow> (config_file \<times> trailing) result) \<Rightarrow> (string \<Rightarrow> string) \<Rightarrow> config_inputs list \<Rightarrow> config_runtime \<Rightarrow>
   error list \<times> config_runtime" where
  "runtime_ticks G decode digest [] m = ([], m)"
| "runtime_ticks G decode digest (i # ticks) m =
     (case Runtime_Reload G decode digest i m of (r, m1) \<Rightarrow>
        (case runtime_ticks G decode digest ticks m1 of (reports, m2) \<Rightarrow>
           ((case r of Inl e \<Rightarrow> e # reports | Inr _ \<Rightarrow> reports), m2)))"

definition Runtime_Watch ::
  "golib \<Rightarrow> (string \<Rightarrow> (config_file \<times> trailing) result) \<Rightarrow> (string \<Rightarrow> string) \<Rightarrow> duration \<Rightarrow> config_inputs list \<Rightarrow> config_runtime \<Rightarrow>
   error list \<times> config_runtime" where
  "Runtime_Watch G decode digest interval ticks m = (if interval \<le> 0 then ([], m) else runtime_ticks G decode digest ticks m)"

section \<open>Reconciliation\<close>

definition configAgentKey :: "string \<Rightarrow> string \<Rightarrow> string" where
  "configAgentKey tenantID agentID = tenantID @ nul # agentID"

definition splitConfigAgentKey :: "string \<Rightarrow> (string \<times> string) option" where
  "splitConfigAgentKey v =
     (let tenantID = takeWhile (\<lambda>c. c \<noteq> nul) v; agentID = drop (length tenantID + 1) v
      in if nul \<notin> set v \<or> tenantID = '''' \<or> agentID = '''' then None else Some (tenantID, agentID))"

definition tenantInConfig :: "config_file \<Rightarrow> string \<Rightarrow> bool" where
  "tenantInConfig f tenantID \<longleftrightarrow> list_ex (\<lambda>r. RG_TenantID r = tenantID) (EnabledAgents f)"

definition config_input :: "registration \<Rightarrow> register_input" where
  "config_input r =
     \<lparr>Reg_ID = RG_ID r, Reg_CardURL = RG_CardURL r, Reg_CredentialEnv = RG_CredentialEnv r, Reg_Source = ''agent-config'',
      Reg_Endpoint = ''''\<rparr>"

fun preflight :: "hub_env \<Rightarrow> hub_config \<Rightarrow> config_defaults \<Rightarrow> bool \<Rightarrow> registration list \<Rightarrow> error option hub" where
  "preflight E H defaults allowPrivateURLs [] = State_Monad.return None"
| "preflight E H defaults allowPrivateURLs (r # rs) =
     (if AllowsPrivateURLs defaults r \<and> \<not> allowPrivateURLs
      then State_Monad.return (Some (ErrText (''configured Agent '' @ RG_ID r @ '' allows private URLs'')))
      else do {
        x \<leftarrow> ValidateAgentRegistration E H (RG_TenantID r) (config_input r) (RegistrationPolicy (H_SDK H) defaults r);
        case x of
          Inl e \<Rightarrow> State_Monad.return (Some (ErrWrap (''preflight configured Agent '' @ RG_ID r) e))
        | Inr _ \<Rightarrow> preflight E H defaults allowPrivateURLs rs
      })"

text \<open>Registering the candidates; the tenants that were configured are collected on the way. Publishing to an external registry only
  writes a log line when it fails, and is left out.\<close>

fun register_candidates ::
  "hub_env \<Rightarrow> hub_config \<Rightarrow> config_defaults \<Rightarrow> registration list \<Rightarrow> string set \<Rightarrow> (error option \<times> string set) hub" where
  "register_candidates E H defaults [] tenants = State_Monad.return (None, tenants)"
| "register_candidates E H defaults (r # rs) tenants = do {
     x \<leftarrow> RegisterAgentWithPolicy E H (RG_TenantID r) (config_input r) (RegistrationPolicy (H_SDK H) defaults r);
     case x of
       Inl e \<Rightarrow> State_Monad.return (Some (ErrWrap (''register configured Agent '' @ RG_ID r) e), tenants)
     | Inr _ \<Rightarrow> register_candidates E H defaults rs (insert (RG_TenantID r) tenants)
   }"

text \<open>The agents that are managed and no longer desired, in the order of the range.\<close>

fun mark_removed :: "hub_env \<Rightarrow> string set \<Rightarrow> string list \<Rightarrow> error option hub" where
  "mark_removed E desired [] = State_Monad.return None"
| "mark_removed E desired (key # keys) =
     (if key \<in> desired then mark_removed E desired keys
      else case splitConfigAgentKey key of
        None \<Rightarrow> mark_removed E desired keys
      | Some (tenantID, agentID) \<Rightarrow> do {
          r \<leftarrow> hub_GetAgent E tenantID agentID;
          case r of
            Inl _ \<Rightarrow> mark_removed E desired keys
          | Inr a \<Rightarrow> do {
              now \<leftarrow> ask (e_clock E);
              x \<leftarrow> hub_PutAgent E (a\<lparr>Agent_HealthStatus := AgentHealthStale,
                Agent_HealthMessage := ''Agent is disabled or absent from the accepted Agent configuration'',
                Agent_LastHealthCheckAt := Some now, Agent_UpdatedAt := now\<rparr>);
              case x of
                Some e \<Rightarrow> State_Monad.return (Some (ErrWrap (''mark removed Agent stale: '' @ agentID) e))
              | None \<Rightarrow> mark_removed E desired keys
            }
        })"

text \<open>\<open>keys\<close> are the managed agents. The result has the tenants and the managed agents afterwards.\<close>

definition reconcileConfiguredAgents ::
  "hub_env \<Rightarrow> hub_config \<Rightarrow> config_file \<Rightarrow> bool \<Rightarrow> string set \<Rightarrow> string list \<Rightarrow> (error option \<times> string set \<times> string set) hub" where
  "reconcileConfiguredAgents E H f allowPrivateURLs tenants keys =
     (let enabled = EnabledAgents f; desired = set (map (\<lambda>r. configAgentKey (RG_TenantID r) (RG_ID r)) enabled) in do {
        refused \<leftarrow> preflight E H (CF_Defaults f) allowPrivateURLs enabled;
        case refused of
          Some e \<Rightarrow> State_Monad.return (Some e, tenants, set keys)
        | None \<Rightarrow> do {
            (failed, tenants1) \<leftarrow> register_candidates E H (CF_Defaults f) enabled tenants;
            case failed of
              Some e \<Rightarrow> State_Monad.return (Some e, tenants1, set keys)
            | None \<Rightarrow> do {
                x \<leftarrow> mark_removed E desired keys;
                case x of
                  Some e \<Rightarrow> State_Monad.return (Some e, tenants1, set keys)
                | None \<Rightarrow> State_Monad.return (None, {tenantID \<in> tenants1. tenantInConfig f tenantID}, desired)
              }
          }
      })"

section \<open>What an accepted file says\<close>

lemma first_problem_None: "first_problem f i xs = None \<longleftrightarrow> (\<forall>j<length xs. f (i + j) (xs ! j) = None)"
proof (induction xs arbitrary: i)
  case (Cons x xs)
  have "(\<forall>j<length (x # xs). f (i + j) ((x # xs) ! j) = None) \<longleftrightarrow> f i x = None \<and> (\<forall>j<length xs. f (Suc i + j) (xs ! j) = None)"
    unfolding length_Cons less_Suc_eq_0_disj by auto
  with Cons.IH [of "Suc i"] show ?case by (simp split: option.split)
qed simp

lemma check_profile_None:
  "check_profile field i p = None \<longleftrightarrow> \<not> blank (CP_ProtocolVersion p) \<and> (\<exists>c. CanonicalProtocolVersion (CP_ProtocolVersion p) = Inr c) \<and>
     ToUpper (TrimSpace (CP_Binding p)) \<in> {''JSONRPC'', ''HTTP_JSON'', ''GRPC''} \<and>
     ToUpper (TrimSpace (CP_StreamTransport p)) \<in>
       (if ToUpper (TrimSpace (CP_Binding p)) = ''GRPC'' then {''SERVER_STREAMING'', ''GRPC''} else {'''', ''SSE''})"
  by (auto simp: check_profile_def Let_def split: sum.split)

lemma validate_agents_None:
  "validate_agents G defaults seen i rs = None \<Longrightarrow>
     distinct (map RG_ID rs) \<and> RG_ID ` set rs \<inter> seen = {} \<and> (\<forall>r\<in>set rs. \<exists>prefix. validate_registration G prefix defaults r = None)"
  by (induction rs arbitrary: seen i) (auto split: option.splits if_splits)

lemma valid_file:
  assumes "File_Validate G f = None"
  shows "distinct (map RG_ID (CF_Agents f)) \<and> (\<forall>r\<in>set (CF_Agents f). \<exists>prefix. validate_registration G prefix (CF_Defaults f) r = None)"
  using assms validate_agents_None by (fastforce simp: File_Validate_def split: if_splits option.splits)

lemma valid_registration_profiles:
  assumes "validate_registration G prefix defaults r = None"
  shows "Profiles defaults r \<noteq> [] \<and> (\<forall>p\<in>set (Profiles defaults r). \<exists>i. check_profile (prefix @ ''.protocol'') i p = None)"
proof -
  have "ProtocolPolicy_Validate (prefix @ ''.protocol'') True \<lparr>PP_Kind = '''', PP_Profiles = Profiles defaults r, PP_RequiredProfiles = []\<rparr> = None"
    using assms by (auto simp: validate_registration_def Profiles_def Let_def split: sum.splits if_splits option.splits)
  then show ?thesis
    by (auto simp: ProtocolPolicy_Validate_def first_problem_None in_set_conv_nth split: if_splits) blast
qed

text \<open>A profile that the configuration accepts is one the adapter accepts, unless it leaves the stream transport empty.\<close>

lemma wire_profile_valid:
  assumes "check_profile field i p = None"
    and "SDK_JSONRPC K \<noteq> SDK_GRPC K" "SDK_HTTPJSON K \<noteq> SDK_GRPC K"
  shows "BindingProfile_Validate K (wire_profile K p) = None \<longleftrightarrow> \<not> blank (CP_StreamTransport p)"
proof -
  have upper: "ToUpper (TrimSpace ''JSONRPC'') = ''JSONRPC''" "ToUpper (TrimSpace ''HTTP+JSON'') = ''HTTP+JSON''"
    "ToUpper (TrimSpace ''GRPC'') = ''GRPC''" by code_simp+
  have version: "ValidateProtocolVersion (CP_ProtocolVersion p) = None"
    using assms(1) unfolding check_profile_None by (auto simp: CanonicalProtocolVersion_def ValidateProtocolVersion_def split: option.splits)
  have blank: "ToUpper (TrimSpace (CP_StreamTransport p)) = '''' \<longleftrightarrow> blank (CP_StreamTransport p)"
    by (cases "TrimSpace (CP_StreamTransport p)") (auto simp: blank_def)
  let ?b = "ToUpper (TrimSpace (CP_Binding p))"
  consider "?b = ''GRPC''" | "?b = ''JSONRPC'' \<or> ?b = ''HTTP_JSON''" using assms(1) unfolding check_profile_None by auto
  then show ?thesis
  proof cases
    case 1
    then have "ToUpper (TrimSpace (CP_StreamTransport p)) \<in> {''SERVER_STREAMING'', ''GRPC''}"
      using assms(1) unfolding check_profile_None by simp
    with 1 assms(2,3) version blank upper show ?thesis
      by (auto simp: BindingProfile_Validate_def wire_profile_def a2aTransport_def Let_def)
  next
    case 2
    then have "ToUpper (TrimSpace (CP_StreamTransport p)) \<in> {'''', ''SSE''}"
      using assms(1) unfolding check_profile_None by auto
    with 2 assms(2,3) version blank upper show ?thesis
      by (auto simp: BindingProfile_Validate_def wire_profile_def a2aTransport_def Let_def)
  qed
qed

section \<open>The last good snapshot stays\<close>

lemma Reload_outcome:
  assumes "Runtime_Reload G decode digest i m = (r, m')"
  shows "m' = m \<and> r \<noteq> Inr True \<or>
    (\<exists>f. r = Inr True \<and> CR_Current m' = Some f \<and> CR_Path m' = CR_Path m \<and> LoadFile G decode (CI_Second i) = Inr f \<and>
       (\<forall>apply. CI_Apply i = Some apply \<longrightarrow> apply f (CR_Current m = None) = None))"
  using assms by (auto simp: Runtime_Reload_def Let_def split: if_splits sum.splits option.splits)

lemma loaded_file: "LoadFile G decode contents = Inr f \<Longrightarrow> File_Validate G f = None"
  by (auto simp: LoadFile_def split: sum.splits option.splits trailing.splits)

text \<open>Whatever happens at the ticks, the current snapshot is valid, and was applied without an error or was there before.\<close>

lemma runtime_keeps_good:
  assumes "runtime_ticks G decode digest ticks m = (reports, m')" "CR_Current m' = Some f"
  shows "CR_Current m = Some f \<or> (File_Validate G f = None \<and>
    (\<exists>i\<in>set ticks. \<forall>apply. CI_Apply i = Some apply \<longrightarrow> (\<exists>first. apply f first = None)))"
  using assms
proof (induction ticks arbitrary: m reports)
  case (Cons i ticks)
  obtain r m1 where r: "Runtime_Reload G decode digest i m = (r, m1)" by fastforce
  obtain reports1 where w: "runtime_ticks G decode digest ticks m1 = (reports1, m')"
    using Cons.prems(1) r by (auto split: prod.splits)
  show ?case
  proof (cases "CR_Current m1 = Some f")
    case True
    with Reload_outcome [OF r] loaded_file show ?thesis by fastforce
  next
    case False
    with Cons.IH [OF w Cons.prems(2)] show ?thesis by auto
  qed
qed simp

text \<open>A file that changes between the two reads and back again is not seen: the digest of the first contents stands for the second.\<close>

lemma second_read_hides_change:
  assumes "Runtime_Reload G decode digest \<lparr>CI_First = Inr a, CI_Second = Inr b, CI_Apply = app\<rparr> m = (Inr True, m')"
  shows "\<exists>f. CR_Current m' = Some f \<and> LoadFile G decode (Inr b) = Inr f \<and>
    Runtime_Reload G decode digest \<lparr>CI_First = Inr a, CI_Second = Inr a, CI_Apply = app\<rparr> m' = (Inr False, m')"
  using assms by (auto simp: Runtime_Reload_def Let_def split: if_splits sum.splits option.splits)

section \<open>What a reconciliation admits\<close>

text \<open>An agent that passed: a descriptor that a discovery found for it at some time meets the policy made from its configuration.\<close>

definition admitted :: "hub_env \<Rightarrow> hub_config \<Rightarrow> config_defaults \<Rightarrow> registration \<Rightarrow> descriptor \<Rightarrow> bool" where
  "admitted E H defaults r d \<longleftrightarrow>
     (let P = RegistrationPolicy (H_SDK H) defaults r in
      check_card (H_SDK H) P d = None \<and>
      (RP_Profiles P \<noteq> [] \<longrightarrow> (\<exists>t. e_DiscoverWithProfiles E t (RG_CardURL r) (RP_Profiles P) = Inr d)))"

lemma safe_ask_post: "(\<And>t. Q (f t)) \<Longrightarrow> safe_post E (ask f) Q"
  by (auto simp: safe_post_def ask_def world_ok_def)

lemma post_discover:
  "safe_post E (discoverWithRegistrationProfiles E url profiles)
     (\<lambda>r. \<forall>d. r = Inr d \<longrightarrow> profiles \<noteq> [] \<longrightarrow> (\<exists>t. e_DiscoverWithProfiles E t url profiles = Inr d))"
  unfolding discoverWithRegistrationProfiles_def by (auto intro!: safe_ask_post)

lemma post_validate:
  "safe_post E (ValidateAgentRegistration E H tn input P)
     (\<lambda>r. \<forall>d. r = Inr d \<longrightarrow> check_card (H_SDK H) P d = None \<and>
        (RP_Profiles P \<noteq> [] \<longrightarrow> (\<exists>t. e_DiscoverWithProfiles E t (Reg_CardURL input) (RP_Profiles P) = Inr d)))"
  unfolding ValidateAgentRegistration_def
  by (rule safe_split(1) safe_split(2) safe_results(2) safe_post_bindE [OF post_discover] safe_results(1) | simp; fail | assumption)+

lemma post_register:
  assumes "env_ok E"
  shows "safe_post E (RegisterAgentWithPolicy E H tn input P)
     (\<lambda>r. \<forall>a. r = Inr a \<longrightarrow> (\<exists>d. check_card (H_SDK H) P d = None \<and>
        (RP_Profiles P \<noteq> [] \<longrightarrow> (\<exists>t. e_DiscoverWithProfiles E t (Reg_CardURL input) (RP_Profiles P) = Inr d))))"
  unfolding RegisterAgentWithPolicy_def Let_def
proof (rule safe_post_bindE [OF post_validate], goal_cases)
  case (1 d)
  show ?case by (rule safe_weaken [where Q = "\<lambda>_. True"]) (use assms 1 in \<open>auto intro!: hub_safe\<close>)
qed simp

lemma post_preflight:
  "safe_post E (preflight E H defaults allow rs)
     (\<lambda>e. e = None \<longrightarrow> (\<forall>r\<in>set rs. (AllowsPrivateURLs defaults r \<longrightarrow> allow) \<and> (\<exists>d. admitted E H defaults r d)))"
proof (induction rs)
  case (Cons r rs)
  show ?case
    unfolding preflight.simps
  proof (rule safe_split(1), goal_cases)
    case 2
    show ?case
    proof (rule safe_post_bind [OF post_validate], rule safe_split(3), goal_cases)
      case (2 x d)
      then have "admitted E H defaults r d" by (simp add: admitted_def config_input_def Let_def)
      with \<open>\<not> (AllowsPrivateURLs defaults r \<and> \<not> allow)\<close> show ?case by (intro safe_weaken [OF Cons.IH]) auto
    qed (simp add: safe_return)
  qed (simp add: safe_return)
qed (simp add: safe_return)

lemma post_candidates:
  assumes "env_ok E"
  shows "safe_post E (register_candidates E H defaults rs tenants)
     (\<lambda>(e, tenants'). e = None \<longrightarrow> tenants' = tenants \<union> RG_TenantID ` set rs \<and> (\<forall>r\<in>set rs. \<exists>d. admitted E H defaults r d))"
proof (induction rs arbitrary: tenants)
  case (Cons r rs)
  show ?case
    unfolding register_candidates.simps
  proof (rule safe_post_bind [OF post_register [OF assms]], rule safe_split(3), goal_cases)
    case (2 x a)
    then have "\<exists>d. admitted E H defaults r d" by (simp add: admitted_def config_input_def Let_def)
    then show ?case by (intro safe_weaken [OF Cons.IH]) auto
  qed (simp add: safe_return)
qed (simp add: safe_return)

lemma safe_mark_removed: "env_ok E \<Longrightarrow> safe E (mark_removed E desired keys)"
  by (induction keys) (auto intro!: hub_safe)

lemma tenants_kept: "{tenantID \<in> tenants \<union> RG_TenantID ` set (EnabledAgents f). tenantInConfig f tenantID} = RG_TenantID ` set (EnabledAgents f)"
  by (auto simp: tenantInConfig_def list_ex_iff)

lemma post_reconcile:
  assumes "env_ok E"
  shows "safe_post E (reconcileConfiguredAgents E H f allow tenants keys)
     (\<lambda>(e, tenants', managed). e = None \<longrightarrow>
        (\<forall>r\<in>set (EnabledAgents f). (AllowsPrivateURLs (CF_Defaults f) r \<longrightarrow> allow) \<and> (\<exists>d. admitted E H (CF_Defaults f) r d)) \<and>
        tenants' = RG_TenantID ` set (EnabledAgents f) \<and>
        managed = (\<lambda>r. configAgentKey (RG_TenantID r) (RG_ID r)) ` set (EnabledAgents f))"
  unfolding reconcileConfiguredAgents_def Let_def
proof (rule safe_post_bind [OF post_preflight], rule safe_split(2), goal_cases)
  case (1 refused)
  show ?case
  proof (rule safe_post_bind [OF post_candidates [OF assms]], rule safe_split(4), rule safe_split(2), goal_cases)
    case (1 x failed tenants1)
    show ?case
      by (rule safe_post_bind [OF safe_mark_removed [OF assms]], rule safe_split(2); rule safe_return)
        (use 1 \<open>refused = None\<close> \<open>refused = None \<longrightarrow> _\<close> tenants_kept in auto)
  qed (simp add: safe_return)
qed (simp add: safe_return)

text \<open>The policy asks for the binding of the first profile, as the configuration writes it. So the other profiles cannot differ from it
  in the binding, and the spelling \<open>HTTP_JSON\<close> that the configuration demands is never met by a card, whose binding is spelled
  as the SDK does.\<close>

lemma first_binding_only:
  assumes "check_card K (RegistrationPolicy K defaults r) d = None" "Profiles defaults r \<noteq> []" "CP_Binding (hd (Profiles defaults r)) \<noteq> ''''"
  shows "Desc_ProtocolBinding d = ToUpper (CP_Binding (hd (Profiles defaults r)))"
proof -
  have "ToUpper s \<noteq> ''''" if "s \<noteq> ''''" for s using that by (cases s) auto
  with assms show ?thesis by (auto simp: check_card_def RegistrationPolicy_def Let_def split: if_splits)
qed

lemma http_json_never_admitted:
  assumes "Profiles defaults r \<noteq> []" "ToUpper (CP_Binding (hd (Profiles defaults r))) = ''HTTP_JSON''"
    and "Desc_ProtocolBinding d \<noteq> ''HTTP_JSON''"
  shows "\<not> admitted E H defaults r d"
proof -
  have "CP_Binding (hd (Profiles defaults r)) \<noteq> ''''" using assms(2) by auto
  with first_binding_only [of "H_SDK H" defaults r d] assms show ?thesis by (auto simp: admitted_def Let_def)
qed

end
