(* ===== verification/Spec2Isabelle.thy ===== *)
theory Spec2Isabelle
  imports Workflow_Progress Worker_Loops Outbox_File Http_Guarantees Journal_Backup Sealed_Files A2A_Adapter Oidc_Keys Agent_Config
begin

text \<open>
  Agent Federation Hub: a Go service that registers remote agents, submits tasks to them over the A2A protocol, follows
  their progress, and runs workflows of such tasks for many tenants. This development models the code under
  \<open>src/internal\<close> as functions on its own data, and proves what the parts promise each other and their callers.

  \<^bold>\<open>How the program is built.\<close> One store, \<open>core.JournalStore\<close>, holds agents, tasks with their events, workflows, an inbox of
  push callbacks, an outbox of events to publish, artifact metadata with quotas, token revocations and worker controls. It is
  a set of maps in memory and a journal file; each change is one record, written to the file first and applied to the maps
  afterwards. The federation service (\<open>hub/service.go\<close>) is the only writer of tasks: it calls a remote agent through the
  adapter, turns what comes back into observations, and applies them to the task under a revision check and a deduplication
  key. The coordinator (\<open>orchestration\<close>) does the same for workflows, whose steps are tasks of the service. Workers
  (\<open>worker\<close>) lease items of the store and deliver, retry or reconcile them. The HTTP interface (\<open>hub/http.go\<close>) authenticates,
  limits, authorizes and audits each request, and then calls the service or the coordinator. All of them share the store, and
  all of them run at the same time.

  \<^bold>\<open>How it is modelled.\<close> Go strings are byte strings, integers and durations are \<^typ>\<open>int\<close> with the wrap-around of 64 bits
  written out (\<open>wrap64\<close>), generations and addresses are words, maps are partial functions, a range over a map is a list that
  enumerates its domain, and an error is the left side of a sum, so that each early return is a branch. A store operation is a
  function from the store and the outcome of its write (\<open>append_io\<close>: success, a torn write, a failed sync) to a result and
  a store. A call of the service, the coordinator, a worker or a handler is a program of the state monad over a world: the
  store, and a clock tick that advances with each effect. Before each effect the environment \<open>hub_env\<close> may change the store
  by any operations of other goroutines (\<open>e_other\<close>); the condition \<open>env_ok\<close> asks only that these be legal steps of the
  store, and that the clock and the identifiers behave as documented. So what is proved of a call holds under any interleaving
  with other calls. Code outside the repository is a parameter: the A2A client library, signatures, ciphers, hashes, JSON
  texts, the database, the network. What a theorem needs of it is a hypothesis with a name, and a witness instantiates it.

  \<^bold>\<open>The theories\<close>, each naming its Go files at its beginning:
  \<^item> \<^theory_text>\<open>Hub_Prelude\<close>: strings, times, errors, maps and the lemmas all others share. \<^theory_text>\<open>Core_Model\<close>: the records and enumerations of
    \<open>core/model.go\<close> and \<open>federation/adapter.go\<close>.
  \<^item> The store (\<open>core/store.go\<close>). \<^theory_text>\<open>Journal_Store\<close>: records, replay, append and \<open>OpenJournal\<close>. \<^theory_text>\<open>Task_Store\<close>: agents, tasks, workflows.
    \<^theory_text>\<open>Lease_Store\<close>: claims, renewals, acknowledgements and retries of the three lease tables. \<^theory_text>\<open>Artifact_Store\<close>: quotas, deletion,
    revocations, controls. \<^theory_text>\<open>Journal_Backup\<close>: backups and restoration. \<^theory_text>\<open>Store_Protocol\<close>: which records are legal in which
    state, the invariant \<open>store_inv\<close>, and that every operation appends legal records only, so that it keeps the invariant.
  \<^item> The service. \<^theory_text>\<open>Hub_World\<close>: the world, the environment, and the promise of a program (\<open>safe_post\<close>, \<open>promise\<close>).
    \<^theory_text>\<open>Artifact_Service\<close> (\<open>artifact/service.go\<close>, \<open>policy.go\<close>, \<open>lifecycle.go\<close>), \<^theory_text>\<open>Federation_Policy\<close> (\<open>federation/a2a/profile.go\<close>,
    \<open>hub/security.go\<close>, \<open>hub/parts.go\<close>), \<^theory_text>\<open>Federation_Service\<close> (\<open>hub/service.go\<close>), \<^theory_text>\<open>Hub_Guarantees\<close>: what follows for tasks,
    pushes and items, and concrete stores for the witnesses.
  \<^item> Workflows. \<^theory_text>\<open>Workflow_Plan\<close>: normalisation, graph validation, aggregate states, templates, the vault in memory.
    \<^theory_text>\<open>Workflow_Coord\<close>: the calls of the coordinator. \<^theory_text>\<open>Workflow_Guarantees\<close> and \<^theory_text>\<open>Workflow_Progress\<close>: their safety and termination.
  \<^item> Workers. \<^theory_text>\<open>Worker_Loops\<close> (\<open>worker/outbox.go\<close>, \<open>inbox.go\<close>, \<open>reconciler.go\<close>, \<open>control.go\<close>), \<^theory_text>\<open>Line_Files\<close> and \<^theory_text>\<open>Outbox_File\<close>
    (\<open>worker/file_outbox.go\<close>, over the bytes of the file).
  \<^item> Security and the interface. \<^theory_text>\<open>Access_Control\<close> (\<open>access/access.go\<close>, \<open>policy.go\<close>), \<^theory_text>\<open>Authentication\<close> (\<open>hub/auth.go\<close>, \<open>mtls.go\<close>,
    \<open>trust_policy.go\<close>), \<^theory_text>\<open>Audit_Log\<close> (\<open>access/audit.go\<close>), \<^theory_text>\<open>Http_Api\<close> and \<^theory_text>\<open>Http_Guarantees\<close> (\<open>hub/http.go\<close>), \<^theory_text>\<open>Net_Policy\<close>
    (\<open>netpolicy/http.go\<close>), \<^theory_text>\<open>Trust_Bundle\<close> (\<open>hub/trust_bundle.go\<close>, \<open>trust_bundle_signature.go\<close>), \<^theory_text>\<open>Sealed_Files\<close>
    (\<open>artifact/encryption.go\<close>, \<open>filesystem.go\<close>, \<open>orchestration/file_input_store.go\<close>), \<^theory_text>\<open>Oidc_Keys\<close> (\<open>hub/oidc.go\<close>).
  \<^item> Remote agents. \<^theory_text>\<open>Card_Signature\<close> (\<open>federation/a2a/card_signature.go\<close>), \<^theory_text>\<open>A2A_Adapter\<close> (\<open>federation/a2a/adapter.go\<close>,
    \<open>extensions.go\<close>); \<open>adapter_env\<close> there is the hub's environment with this adapter, and it satisfies \<open>env_ok\<close> whenever the
    environment did, so the theorems on the service hold with it. \<^theory_text>\<open>Agent_Config\<close> (\<open>agentconfig/config.go\<close>, \<open>runtime.go\<close>, and
    \<open>agent_config_runtime.go\<close> of the hub's program): agents from a configuration file.

  \<^bold>\<open>Interfaces\<close> are locales, each interpreted on the code's definitions: \<open>versioned_aggregate\<close> (tasks and workflows: compare and
  swap, deduplication), \<open>lease_table\<close> (task, inbox and outbox leases: exclusiveness while they last), \<open>input_vault\<close>
  (the vault in memory), \<open>named_principals\<close> (the authenticators), \<open>rotating_keys\<close> (key rings and static keys: old envelopes
  open after a rotation) and \<open>object_store\<close> (the filesystem store under the encrypting one).

  \<^bold>\<open>What is shown\<close>, in the order below. The store: recovery of a restarted store from its file, the failure modes of an
  append, revisions and deduplication, numbered and append-only histories, exclusive leases, exact quota accounting and its
  overflow, revocations and their pruning. The service: the life cycle of tasks, authentic pushes, admission of agents, and that
  every call keeps the invariants under interleaving. Workflows: exactness of the graph validation, that accepted workflows are
  never stuck, that the rounds end, that plans do not change. Workers, the outbox file, authorization, authentication, the
  audit chain, the guard and the isolation of the interface, the event stream, outbound connections, trust snapshots,
  backups, encryption at rest, the checks made before and while a remote agent is talked to, signing keys from OpenID providers,
  and the reconciliation of configured agents. Lemmas outside the numbered
  properties record further behaviour, among it several defects; the ones the reader should know first are
  \<open>canceled_workflow_goes_on\<close>, \<open>reservation_overflow_bypasses_quota\<close>, \<open>unclean_append_failure\<close>,
  \<open>audit_sync_failure_breaks_chain\<close>, \<open>missing_backup_restored\<close>, \<open>unverified_signature_reported\<close>, \<open>signed_card\<close>,
  \<open>http_json_never_admitted\<close> and \<open>failed_refreshes_repeat\<close>.

  \<^bold>\<open>Bounds.\<close> The graph walk has fuel for one level more than there are steps, which a path without repetition cannot use up.
  The rounds of \<open>submitWorkflowReady\<close> get one more than there are steps, since each round but the last starts or blocks one;
  that this is enough is a theorem on workflows, not an assumption. Templates have at most 64 stages. A client follows at most
  its redirect limit, which \<open>client_do\<close> is given plus one. The polling loops of workers, of \<open>Watch\<close> and of the event stream
  run as long as their context: they are looked at for any given number of rounds, and the theorems hold for all of them.

  \<^bold>\<open>Simplifications.\<close> The branches of one batch of a workflow run one after the other, in the order in which they finish;
  what other goroutines do to the store in between is the environment's. Contexts appear as errors of the calls that observe
  them. Mutexes are the atomicity of store operations. Streams of remote events are the finite lists of what arrives.
  Error texts omit indices and quoting where the code formats them.

  \<^bold>\<open>Not modelled.\<close> The PostgreSQL store, vault and rate limiter are SQL, whose meaning is the server's. The gateway, registry and
  token exchange clients, secret providers, and the HTTP, NATS and CloudEvents publishers are single exchanges with JSON; their
  answers are parameters. The rate limiter computes in \<open>float64\<close>. The AAMP mapping, S3, scanners, metrics and traces, reports,
  transport options and, but for the reconciliation, the programs under \<open>cmd\<close> are translation, observation or wiring.
\<close>

section \<open>The journal\<close>





section \<open>Tasks as versioned aggregates\<close>

text \<open>C3. Compare and swap. Of two writers that hold the same revision of a task, the second one to arrive is
  refused, gets the task as the first one left it, and changes nothing.\<close>

theorem task_second_writer_refused:
  assumes "store_inv s" "tasks s (resourceKey tn i) = Some t" "r \<noteq> 0" "callback_ok M m"
    and "ApplyTaskVersion io nid tn i r dk m s = ((c, True, None), s')"
  shows "ApplyTaskVersion io2 nid2 tn i r dk2 m2 s' = ((c, False, Some ErrRevisionConflict), s')"
  by (rule vtask.second_writer_refused [OF assms(2) _ assms(3) callback_keeps_identity [OF assms(4)] assms(5)])
    (simp add: task_invD(1) [OF store_invD(1) [OF assms(1)] assms(2)])

theorem task_second_writer_refused_witness:
  "\<exists>c s'. ApplyTaskVersion Io_ok ''e2'' ''t'' ''a'' 1 '''' (request_cancel 5) example_store = ((c, True, None), s') \<and>
     ApplyTaskVersion Io_ok ''e3'' ''t'' ''a'' 1 '''' (request_cancel 6) s' = ((c, False, Some ErrRevisionConflict), s')"
proof -
  obtain c s' where *: "ApplyTaskVersion Io_ok ''e2'' ''t'' ''a'' 1 '''' (request_cancel 5) example_store = ((c, True, None), s')"
    using example_apply(1) by blast
  from task_second_writer_refused [OF example_inv _ _ hub_callbacks_ok(5) *] * show ?thesis
    by (auto simp: example_tasks)
qed

text \<open>C4. At-most-once application. Once a delivery with a deduplication key has been applied to a task, every later
  delivery under that key is a no-op that succeeds, whatever other operations came in between.\<close>

theorem task_redelivery_is_noop:
  assumes "store_inv s" "tasks s (resourceKey tn i) = Some t" "dk \<noteq> ''''" "callback_ok M m" "fresh_id s nid"
    and "ApplyTaskVersion io nid tn i 0 dk m s = ((c, True, None), s1)" and "store_steps C M p s1 s2"
  shows "\<exists>c'. tasks s2 (resourceKey tn i) = Some c' \<and>
    ApplyTaskVersion io2 nid2 tn i 0 dk m2 s2 = ((c', False, None), s2)"
proof -
  have s1: "store_inv s1"
    using apply_task_inv [OF assms(1,4,5), of io tn i 0 dk] assms(6) by simp
  from applied_dedup [OF assms(1-4,6)] have "dk \<in> dedupKeys s2 (resourceKey tn i)" "tasks s2 (resourceKey tn i) \<noteq> None"
    using store_steps_dedup [OF assms(7) s1] store_steps_keep [OF assms(7) s1] by (auto simp: advanced_def)
  then show ?thesis using assms(3) vtask.duplicate by auto
qed

theorem task_redelivery_is_noop_witness:
  "\<exists>c s1. ApplyTaskVersion Io_ok ''e2'' ''t'' ''a'' 0 ''k'' (request_cancel 5) example_store = ((c, True, None), s1) \<and>
     (\<exists>c'. ApplyTaskVersion Io_ok ''e3'' ''t'' ''a'' 0 ''k'' (request_cancel 6) s1 = ((c', False, None), s1))"
proof -
  obtain c s1 where *: "ApplyTaskVersion Io_ok ''e2'' ''t'' ''a'' 0 ''k'' (request_cancel 5) example_store = ((c, True, None), s1)"
    using example_apply(2) by blast
  from task_redelivery_is_noop [OF example_inv _ _ hub_callbacks_ok(5) example_fresh * rtranclp.rtrancl_refl] * show ?thesis
    by (fastforce simp: example_tasks)
qed

text \<open>C5. The event log. In every state the store can reach, the events of a task are numbered 1, 2, 3, ... without a
  gap, its revision and its last sequence number are the number of its events, and the deduplication keys it has seen are
  those of its events.\<close>

theorem event_log_is_numbered:
  assumes "store_steps C M p (empty_store f) s" and "tasks s k = Some t"
  shows "events s k \<noteq> [] \<and> map Event_Sequence (events s k) = map of_nat [1..<Suc (length (events s k))] \<and>
    Task_LastSequence t = of_nat (length (events s k)) \<and> Task_Revision t = Task_LastSequence t \<and>
    dedupKeys s k = Event_DedupKey ` set (events s k)"
  using store_steps_keep [OF assms(1) store_inv_empty] task_invD(2) [OF store_invD(1) assms(2)]
  by (auto simp: log_ok_def)

theorem event_log_is_numbered_witness:
  "\<exists>t. tasks example_store (resourceKey ''t'' ''a'') = Some t \<and> Task_LastSequence t = 1 \<and>
     length (events example_store (resourceKey ''t'' ''a'')) = 1"
  using event_log_is_numbered [OF example_steps [of "\<lambda>_. True" "\<lambda>_ _. True" 0],
      of "resourceKey ''t'' ''a''"]
  by (auto simp: example_tasks example_events)

text \<open>Reading the log. \<open>EventsAfter\<close> a sequence number gives the later events in order, and nothing else: a
  client that resumes from the last number it saw neither misses nor repeats an event.\<close>

theorem events_after_is_suffix:
  assumes "store_steps C M p (empty_store f) s" and "tasks s (resourceKey tn i) = Some t"
    and "length (events s (resourceKey tn i)) < 2 ^ 64"
  shows "EventsAfter tn i after s = Inr (drop (unat after) (events s (resourceKey tn i)))"
  using store_steps_keep [OF assms(1) store_inv_empty] EventsAfter_drop [OF store_invD(1) assms(2,3)] by blast

theorem events_after_is_suffix_witness:
  "EventsAfter ''t'' ''a'' 0 example_store = Inr (events example_store (resourceKey ''t'' ''a'')) \<and>
   EventsAfter ''t'' ''a'' 1 example_store = Inr []"
  using events_after_is_suffix [OF example_steps [of "\<lambda>_. True" "\<lambda>_ _. True" 0], of "''t''" "''a''" _ 0]
    events_after_is_suffix [OF example_steps [of "\<lambda>_. True" "\<lambda>_ _. True" 0], of "''t''" "''a''" _ 1]
  by (simp add: example_tasks example_events)

text \<open>C6. History is append-only. Whatever operations run, in whatever order, the log of a task only grows, queued
  items are never changed or removed, and what was acknowledged or purged stays so.\<close>

theorem history_is_append_only:
  assumes "store_steps C M p (empty_store f) s" and "store_steps C M p s s'"
  shows "(\<exists>es. events s' k = events s k @ es) \<and> inbox s \<subseteq>\<^sub>m inbox s' \<and> outbox s \<subseteq>\<^sub>m outbox s' \<and>
    (IState_Acked (inbox_state s k) \<longrightarrow> IState_Acked (inbox_state s' k)) \<and>
    (OState_Acked (outbox_state s k) \<longrightarrow> OState_Acked (outbox_state s' k)) \<and>
    (OState_Purged (outbox_state s k) \<longrightarrow> OState_Purged (outbox_state s' k))"
  using store_steps_keep [OF assms(2)] store_steps_keep [OF assms(1) store_inv_empty]
  unfolding advanced_def by blast

theorem history_is_append_only_witness:
  "outbox (empty_store (Some [])) \<subseteq>\<^sub>m outbox example_store \<and> events example_store (resourceKey ''t'' ''a'') \<noteq> []"
  using history_is_append_only [OF rtranclp.rtrancl_refl example_steps [of "\<lambda>_. True" "\<lambda>_ _. True" 0]]
  by (simp add: example_events)

text \<open>C7. The transactional outbox. In every reachable state each event of each task has its outbox item, under
  the event's identifier and with the event as its payload: a publication is never lost between the log and the queue.\<close>

theorem outbox_holds_every_event:
  assumes "store_steps C M p (empty_store f) s" and "e \<in> set (events s k)"
  shows "outbox s (Event_ID e) = Some (outboxFromEvent e)"
  using store_steps_keep [OF assms(1) store_inv_empty] store_invD(5) [of s] assms(2)
  unfolding outbox_complete_def by blast

theorem outbox_holds_every_event_witness:
  "outbox example_store ''e1'' \<noteq> None"
  using outbox_holds_every_event [OF example_steps [of "\<lambda>_. True" "\<lambda>_ _. True" 0],
      of "hd (events example_store (resourceKey ''t'' ''a''))" "resourceKey ''t'' ''a''"]
  by (simp add: example_events)

section \<open>Leases\<close>



text \<open>Mutual exclusion of deliveries from the outbox: an item claimed until \<open>now + d\<close> is in no claim made by
  anybody before that time.\<close>

theorem outbox_lease_exclusive:
  assumes "store_inv s" "enumerates ks (outbox s)" "ClaimOutbox io ks w n now d s = (Inr ls, s1)" "l \<in> set ls"
    and "outbox_leases.before (Outbox_ID (OutboxLease_Item l)) (now + d) s1 s2"
    and "enumerates ks' (outbox s2)" "ClaimOutbox io' ks' w' n' now' d' s2 = (Inr ls', s3)" "now' < now + d"
  shows "Outbox_ID (OutboxLease_Item l) \<notin> (\<lambda>l. Outbox_ID (OutboxLease_Item l)) ` set ls'"
  by (rule outbox_leases.exclusive [OF store_invD(4) [OF assms(1)] _ _ assms(3-5) _ _ assms(7,8)])
    (use assms(2,6) in \<open>simp_all add: enumerates_def\<close>)

theorem outbox_lease_exclusive_witness:
  "\<exists>l s1 ls'. ClaimOutbox (\<lambda>_. Io_ok) [''e1''] ''w1'' 1 0 10 example_mem = (Inr [l], s1) \<and>
     ClaimOutbox (\<lambda>_. Io_ok) [''e1''] ''w2'' 1 5 10 s1 = (Inr ls', s1) \<and>
     Outbox_ID (OutboxLease_Item l) \<notin> (\<lambda>l. Outbox_ID (OutboxLease_Item l)) ` set ls'"
proof -
  obtain l s1 where *: "ClaimOutbox (\<lambda>_. Io_ok) [''e1''] ''w1'' 1 0 10 example_mem = (Inr [l], s1)"
    "outbox s1 = outbox example_mem" "ClaimOutbox (\<lambda>_. Io_ok) [''e1''] ''w2'' 1 5 10 s1 = (Inr [], s1)"
    using example_claim_outbox by blast
  have "enumerates [''e1''] (outbox example_mem)" by (simp add: enumerates_def example_mem_sel)
  with outbox_lease_exclusive [OF example_mem_inv this *(1) _ outbox_leases.before_refl _ *(3)] * show ?thesis by simp
qed

text \<open>Mutual exclusion of pushed observations: an inbox item claimed until \<open>now + d\<close> is in no claim made by anybody
  before that time.\<close>

theorem inbox_lease_exclusive:
  assumes "store_inv s" "enumerates ks (inbox s)" "ClaimInbox io ks w n now d s = (Inr ls, s1)" "l \<in> set ls"
    and "inbox_leases.before (Inbox_ID (InboxLease_Item l)) (now + d) s1 s2"
    and "enumerates ks' (inbox s2)" "ClaimInbox io' ks' w' n' now' d' s2 = (Inr ls', s3)" "now' < now + d"
  shows "Inbox_ID (InboxLease_Item l) \<notin> (\<lambda>l. Inbox_ID (InboxLease_Item l)) ` set ls'"
  by (rule inbox_leases.exclusive [OF store_invD(2) [OF assms(1)] _ _ assms(3-5) _ _ assms(7,8)])
    (use assms(2,6) in \<open>simp_all add: enumerates_def\<close>)

theorem inbox_lease_exclusive_witness:
  "\<exists>l s1 ls'. ClaimInbox (\<lambda>_. Io_ok) [''i1''] ''w1'' 1 0 10 example_inbox = (Inr [l], s1) \<and>
     ClaimInbox (\<lambda>_. Io_ok) [''i1''] ''w2'' 1 5 10 s1 = (Inr ls', s1) \<and>
     Inbox_ID (InboxLease_Item l) \<notin> (\<lambda>l. Inbox_ID (InboxLease_Item l)) ` set ls'"
proof -
  obtain l s1 where *: "ClaimInbox (\<lambda>_. Io_ok) [''i1''] ''w1'' 1 0 10 example_inbox = (Inr [l], s1)"
    "inbox s1 = inbox example_inbox" "ClaimInbox (\<lambda>_. Io_ok) [''i1''] ''w2'' 1 5 10 s1 = (Inr [], s1)"
    using example_claim_inbox by blast
  have "enumerates [''i1''] (inbox example_inbox)" by (simp add: enumerates_def example_inbox_sel)
  with inbox_lease_exclusive [OF example_inbox_inv this *(1) _ inbox_leases.before_refl _ *(3)] * show ?thesis by simp
qed

text \<open>C9. Priority. A claim of recoverable tasks takes as many as it may, all of them recoverable, in order, and no
  task it leaves behind should have come before one it took.\<close>

theorem claim_takes_best_tasks:
  assumes "store_inv s" "enumerates ks (tasks s)" "ClaimRecoverable io ks w n now d s = (Inr ls, s')"
  shows "length ls = min (nat n) (card {k. claimable_task now s k}) \<and>
    (\<forall>l\<in>set ls. claimable_task now s (work_lease_key l)) \<and>
    sorted (map (\<lambda>l. (- Task_Priority (get_or zero_task (tasks s) (work_lease_key l)), work_lease_key l)) ls) \<and>
    (\<forall>l\<in>set ls. \<forall>k. claimable_task now s k \<longrightarrow> k \<in> work_lease_key ` set ls \<or>
       Task_Priority (get_or zero_task (tasks s) k) \<le> Task_Priority (get_or zero_task (tasks s) (work_lease_key l)))"
proof -
  let ?f = "\<lambda>k. (- Task_Priority (get_or zero_task (tasks s) k), k)"
  let ?c = "filter (claimable_task now s) ks"
  have keys: "map work_lease_key ls = take (nat n) (sort_key ?f ?c)"
    using claims_take(1) [OF assms] by (simp add: recoverable_keys_def)
  have c: "set ?c = {k. claimable_task now s k}" "distinct ?c"
    using assms(2) by (auto simp: enumerates_def claimable_task_def split: option.splits)
  have "length ls = min (length ?c) (nat n)" using arg_cong [OF keys, of length] by simp
  moreover have "length ?c = card {k. claimable_task now s k}" using distinct_card [OF c(2)] c(1) by simp
  moreover have img: "work_lease_key ` set ls = set (take (nat n) (sort_key ?f ?c))" using keys by (metis set_map)
  then have "\<forall>l\<in>set ls. claimable_task now s (work_lease_key l)"
    using c(1) take_sort_key_sub [of _ "nat n" ?f ?c] by blast
  moreover have "map (\<lambda>l. ?f (work_lease_key l)) ls = take (nat n) (map ?f (sort_key ?f ?c))"
    using arg_cong [OF keys, of "map ?f"] by (simp add: take_map comp_def)
  then have "sorted (map (\<lambda>l. ?f (work_lease_key l)) ls)" by (simp add: sorted_wrt_take)
  moreover have "k \<in> work_lease_key ` set ls \<or>
      Task_Priority (get_or zero_task (tasks s) k) \<le> Task_Priority (get_or zero_task (tasks s) (work_lease_key l))"
    if "l \<in> set ls" "claimable_task now s k" for l k
  proof -
    have "work_lease_key l \<in> set (take (nat n) (sort_key ?f ?c))" "k \<in> set ?c"
      using that img c(1) by blast+
    from take_sort_best [OF this] img show ?thesis by (auto simp: less_eq_prod_def)
  qed
  ultimately show ?thesis by auto
qed

theorem claim_takes_best_tasks_witness:
  "\<exists>l s1. ClaimRecoverable (\<lambda>_. Io_ok) [resourceKey ''t'' ''a''] ''w1'' 1 0 10 example_mem = (Inr [l], s1) \<and>
     claimable_task 0 example_mem (work_lease_key l)"
proof -
  obtain l s1 where *: "ClaimRecoverable (\<lambda>_. Io_ok) [resourceKey ''t'' ''a''] ''w1'' 1 0 10 example_mem = (Inr [l], s1)"
    using example_claim by blast
  have "enumerates [resourceKey ''t'' ''a''] (tasks example_mem)" by (simp add: enumerates_def example_mem_sel)
  from claim_takes_best_tasks [OF example_mem_inv this *] * show ?thesis by simp
qed

text \<open>Acknowledged publications are over. Once a worker has acknowledged an outbox item, no later claim ever
  returns it, whatever operations come in between.\<close>

theorem acknowledged_never_claimed:
  assumes "store_inv s" "AckOutbox io wall l s = (None, s1)" "store_steps C M p s1 s2"
    and "enumerates ks (outbox s2)" "ClaimOutbox io' ks w n now d s2 = (Inr ls, s3)" "l' \<in> set ls"
  shows "Outbox_ID (OutboxLease_Item l') \<noteq> Outbox_ID (OutboxLease_Item l)"
proof
  assume eq: "Outbox_ID (OutboxLease_Item l') = Outbox_ID (OutboxLease_Item l)"
  have "store_step (\<lambda>_. True) M 0 s s1"
    using do_AckOutbox [where C = "\<lambda>_. True" and io = io and ol = l and now = wall] assms(2) by (metis TrueI snd_conv)
  then have s1: "store_inv s1" using store_step_keeps(1) assms(1) by blast
  have "OState_Acked (outbox_state s1 (Outbox_ID (OutboxLease_Item l)))"
    using acked_after [OF assms(1,2)] .
  then have "OState_Acked (outbox_state s2 (Outbox_ID (OutboxLease_Item l')))"
    using store_steps_keep [OF assms(3) s1] by (simp add: advanced_def eq)
  moreover have "Outbox_ID (OutboxLease_Item l') \<in> set (outbox_keys ks n now s2)"
    using claims_take(3) [OF conjunct1 [OF store_steps_keep [OF assms(3) s1]] assms(4,5), symmetric] assms(6) by simp
  ultimately show False by (auto simp: outbox_keys_def outbox_free_def dest!: take_sort_key_sub)
qed

theorem acknowledged_never_claimed_witness:
  "\<exists>l s1 s2. ClaimOutbox (\<lambda>_. Io_ok) [''e1''] ''w1'' 1 0 10 example_mem = (Inr [l], s1) \<and>
     AckOutbox Io_ok 5 l s1 = (None, s2) \<and>
     (\<exists>ls s3. ClaimOutbox (\<lambda>_. Io_ok) [''e1''] ''w1'' 1 50 10 s2 = (Inr ls, s3) \<and>
        Outbox_ID (OutboxLease_Item l) \<notin> (\<lambda>l. Outbox_ID (OutboxLease_Item l)) ` set ls)"
proof -
  obtain l s1 s2 where *: "ClaimOutbox (\<lambda>_. Io_ok) [''e1''] ''w1'' 1 0 10 example_mem = (Inr [l], s1)"
    "AckOutbox Io_ok 5 l s1 = (None, s2)" "store_inv s1" "outbox s2 = outbox example_mem" "jfile s2 = None"
    using example_ack by blast
  have e: "enumerates [''e1''] (outbox s2)" by (simp add: enumerates_def *(4) example_mem_sel)
  obtain ls s3 where c: "ClaimOutbox (\<lambda>_. Io_ok) [''e1''] ''w1'' 1 50 10 s2 = (Inr ls, s3)"
    using claim_in_memory [OF *(5)] by blast
  from acknowledged_never_claimed [OF *(3,2) rtranclp.rtrancl_refl e c] * c show ?thesis by fastforce
qed

text \<open>Inbox deduplication. Once a pushed observation has been queued under a deduplication key, queueing another one
  under the same key is refused without an error and without a change, whatever happened in between.\<close>

theorem inbox_deduplicates:
  assumes "store_inv s" "inbox s (Inbox_ID item) = None" "EnqueueInbox io item s = (Inr True, s1)" "store_steps C M p s1 s2"
    and "inboxDedupKey item' = inboxDedupKey item"
    and "Inbox_ID item' \<noteq> ''''" "Inbox_TenantID item' \<noteq> ''''" "Inbox_TaskID item' \<noteq> ''''" "Inbox_DedupKey item' \<noteq> ''''"
  shows "EnqueueInbox io' item' s2 = (Inr False, s2)"
proof -
  have "store_step (\<lambda>_. True) M 0 s s1"
    using do_EnqueueInbox [where C = "\<lambda>_. True" and io = io and ii = item, OF TrueI assms(2)] assms(3) by simp
  then have "store_inv s1" using store_step_keeps(1) assms(1) by blast
  moreover have "inbox s1 (Inbox_ID item) = Some item"
    using assms(3) by (auto simp: EnqueueInbox_def apply_inbox_def split: if_splits prod.splits option.splits dest!: commit_success)
  ultimately have "inboxDedup s2 (inboxDedupKey item) = Some (Inbox_ID item)"
    using store_steps_inbox(2) [OF assms(4)] by blast
  then show ?thesis using assms(5-9) by (simp add: EnqueueInbox_def)
qed

theorem inbox_deduplicates_witness:
  "EnqueueInbox Io_ok (example_item\<lparr>Inbox_ID := ''i2''\<rparr>) example_inbox = (Inr False, example_inbox)"
  by (rule inbox_deduplicates [OF example_mem_inv _ example_enqueue rtranclp.rtrancl_refl])
    (simp_all add: example_mem_sel example_item_def inboxDedupKey_def)

text \<open>Go ranges over a map in an unspecified order; no claim depends on it. Whatever orders the runtime picks for the
  same table, the three claims return the same leases and leave the same store.\<close>

theorem claims_ignore_map_order:
  assumes "enumerates ks (tasks s)" "enumerates ks' (tasks s)" "enumerates is (inbox s)" "enumerates is' (inbox s)"
    "enumerates os (outbox s)" "enumerates os' (outbox s)"
  shows "ClaimRecoverable io ks w n now d s = ClaimRecoverable io ks' w n now d s \<and>
    ClaimInbox io is w n now d s = ClaimInbox io is' w n now d s \<and>
    ClaimOutbox io os w n now d s = ClaimOutbox io os' w n now d s"
proof -
  have order: "sort_key (\<lambda>k. (f k, k)) (filter P xs) = sort_key (\<lambda>k. (f k, k)) (filter P ys)"
    if "enumerates xs m" "enumerates ys m" for f :: "string \<Rightarrow> int" and P xs ys and m :: "string \<rightharpoonup> 'v"
    by (rule sort_key_order_irrelevant) (use that in \<open>simp_all add: enumerates_def inj_on_def\<close>)
  have "recoverable_keys ks n now s = recoverable_keys ks' n now s"
    by (simp add: recoverable_keys_def order [OF assms(1,2)])
  moreover have "inbox_keys is n now s = inbox_keys is' n now s"
    using sort_key_order_irrelevant [of "filter Q is" "filter Q is'" "\<lambda>k. k" for Q] assms(3,4)
    by (simp add: inbox_keys_def enumerates_def)
  moreover have "outbox_keys os n now s = outbox_keys os' n now s"
    by (simp add: outbox_keys_def order [OF assms(5,6)])
  ultimately show ?thesis by (simp add: ClaimRecoverable_def ClaimInbox_def ClaimOutbox_def)
qed

theorem claims_ignore_map_order_witness:
  "ClaimRecoverable (\<lambda>_. Io_ok) [''b'', ''a''] ''w'' 1 0 10 ((empty_store None)\<lparr>tasks := [''a'' \<mapsto> example_task ''a'', ''b'' \<mapsto> example_task ''b'']\<rparr>) =
   ClaimRecoverable (\<lambda>_. Io_ok) [''a'', ''b''] ''w'' 1 0 10 ((empty_store None)\<lparr>tasks := [''a'' \<mapsto> example_task ''a'', ''b'' \<mapsto> example_task ''b'']\<rparr>)"
  by (rule claims_ignore_map_order [THEN conjunct1, of _ _ _ "[]" "[]" "[]" "[]"])
    (auto simp: enumerates_def empty_store_def)

section \<open>Quotas, revocations, tenants\<close>

text \<open>C10. Quota accounting. In every reachable state the recorded usage of a tenant is the number and the total size of
  its objects that are pending, available, quarantined or being deleted, as long as these fit in 64 bits.\<close>

theorem quota_accounting_is_exact:
  assumes "store_steps C M p (empty_store f) s"
    and "(\<Sum>k\<in>counted s t. object_size s k) < 2 ^ 63" "card (counted s t) < 2 ^ 63"
  shows "Usage_Bytes (tenant_usage s t) = (\<Sum>k\<in>counted s t. object_size s k) \<and>
    Usage_Objects (tenant_usage s t) = int (card (counted s t))"
  using usage_exact [OF store_invD(6) assms(2,3)] store_steps_keep [OF assms(1) store_inv_empty] by blast

theorem quota_accounting_is_exact_witness:
  "\<exists>s. store_steps (\<lambda>_. True) (\<lambda>_ _. True) 0 (empty_store None) s \<and> Usage_Bytes (tenant_usage s ''t'') = 5 \<and>
     (\<Sum>k\<in>counted s ''t''. object_size s k) = 5"
proof -
  obtain ob s where *: "artifactObjects s = [object_key example_object \<mapsto> ob]" "artifact_live ob" "Object_TenantID ob = ''t''"
    "Object_SizeBytes ob = 5" "store_step (\<lambda>_. True) (\<lambda>_ _. True) 0 example_mem s"
    using example_reserve [of "\<lambda>_. True" "\<lambda>_ _. True" 0] by blast
  have s: "store_steps (\<lambda>_. True) (\<lambda>_ _. True) 0 (empty_store None) s"
    by (rule rtranclp.rtrancl_into_rtrancl [OF example_mem_steps *(5)]) simp
  have "(\<Sum>k\<in>counted s ''t''. object_size s k) = 5" "card (counted s ''t'') = 1"
    using example_counted [OF *(1-3)] *(4) by simp_all
  with quota_accounting_is_exact [OF s, of "''t''"] s show ?thesis by auto
qed

text \<open>The quota is enforced. When a new reservation is accepted under a byte quota and the total does not overflow,
  the tenant's objects, the new one included, stay within the quota.\<close>

theorem reservation_respects_quota:
  assumes "store_inv s" "nul_free (Object_TenantID ob)" "ReserveArtifact io ob q s = (Inr (ob', True), s')"
    and "Quota_MaxBytes q > 0" "(\<Sum>k\<in>counted s' (Object_TenantID ob). object_size s' k) < 2 ^ 63"
    and "card (counted s' (Object_TenantID ob)) < 2 ^ 63"
  shows "(\<Sum>k\<in>counted s' (Object_TenantID ob). object_size s' k) \<le> Quota_MaxBytes q"
proof -
  have "store_step (\<lambda>_. True) (\<lambda>_ _. True) 0 s (snd (ReserveArtifact io ob q s))"
    by (rule do_ReserveArtifact) (use assms(2) in simp_all)
  then have "store_inv s'" using store_step_keeps(1) assms(1,3) by simp
  from usage_exact [OF store_invD(6) [OF this] assms(5,6)]
  have "Usage_Bytes (tenant_usage s' (Object_TenantID ob)) = (\<Sum>k\<in>counted s' (Object_TenantID ob). object_size s' k)" by blast
  with reserved_usage [OF assms(3,4)] show ?thesis by simp
qed

theorem reservation_respects_quota_witness:
  "\<exists>ob' s'. ReserveArtifact Io_ok example_object \<lparr>Quota_MaxBytes = 10, Quota_MaxObjects = 0\<rparr> example_mem = (Inr (ob', True), s') \<and>
     (\<Sum>k\<in>counted s' ''t''. object_size s' k) \<le> 10"
proof -
  obtain ob' s' where *: "artifactObjects s' = [object_key example_object \<mapsto> ob']" "artifact_live ob'" "Object_TenantID ob' = ''t''"
    "Object_SizeBytes ob' = 5"
    "ReserveArtifact Io_ok example_object \<lparr>Quota_MaxBytes = 10, Quota_MaxObjects = 0\<rparr> example_mem = (Inr (ob', True), s')"
    using example_reserve [of "\<lambda>_. True" "\<lambda>_ _. True" 0] by blast
  have t: "Object_TenantID example_object = ''t''" by (simp add: example_object_def)
  from reservation_respects_quota [OF example_mem_inv _ *(5)] *(4,5) example_counted [OF *(1-3)] show ?thesis
    by (auto simp: t nul_free_def nul_def)
qed

text \<open>The limit of that guarantee. The check adds in 64-bit arithmetic, so a reservation large enough to overflow the
  sum is accepted whatever the quota.\<close>

theorem reservation_overflow_bypasses_quota:
  assumes "validateArtifactReservation ob = None" "artifactObjects s (resourceKey (Object_TenantID ob) (Object_ID ob)) = None"
    and "Object_SizeBytes ob = 2 ^ 63 - 1" "0 < Usage_Bytes (tenant_usage s (Object_TenantID ob))"
    and "Usage_Bytes (tenant_usage s (Object_TenantID ob)) < 2 ^ 63" "Quota_MaxObjects q = 0" "jfile s = None"
  shows "\<exists>ob' s'. ReserveArtifact io ob q s = (Inr (ob', True), s')"
proof -
  let ?b = "Usage_Bytes (tenant_usage s (Object_TenantID ob))"
  have "wrap64 (?b + (2 ^ 63 - 1)) = ?b - 1 - 2 ^ 63"
  proof -
    have "?b + (2 ^ 63 - 1) + 2 ^ 63 = (?b - 1) + 2 ^ 64" by simp
    moreover have "((?b - 1) + 2 ^ 64) mod 2 ^ 64 = ?b - 1"
      unfolding mod_add_self2 using assms(4,5) by (intro mod_pos_pos_trivial) simp_all
    ultimately show ?thesis unfolding wrap64_def by (simp only:)
  qed
  then have "\<not> wrap64 (?b + Object_SizeBytes ob) > Quota_MaxBytes q" if "Quota_MaxBytes q > 0"
    using that assms(3,5) by simp
  then have "\<not> (Quota_MaxBytes q > 0 \<and> wrap64 (?b + Object_SizeBytes ob) > Quota_MaxBytes q)" by blast
  then show ?thesis
    by (simp add: ReserveArtifact_def assms(1,2,6,7) commit_in_memory Let_def)
qed

theorem reservation_overflow_bypasses_quota_witness:
  "\<exists>s ob' s'. store_steps (\<lambda>_. True) (\<lambda>_ _. True) 0 (empty_store None) s \<and>
     ReserveArtifact Io_ok (example_object\<lparr>Object_ID := ''big'', Object_SizeBytes := 2 ^ 63 - 1\<rparr>)
       \<lparr>Quota_MaxBytes = 10, Quota_MaxObjects = 0\<rparr> s = (Inr (ob', True), s')"
proof -
  obtain ob s where *: "artifactObjects s = [object_key example_object \<mapsto> ob]" "jfile s = None"
    "Usage_Bytes (tenant_usage s ''t'') = 5" "store_step (\<lambda>_. True) (\<lambda>_ _. True) 0 example_mem s"
    using example_reserve [of "\<lambda>_. True" "\<lambda>_ _. True" 0] by blast
  have "store_steps (\<lambda>_. True) (\<lambda>_ _. True) 0 (empty_store None) s"
    by (rule rtranclp.rtrancl_into_rtrancl [OF example_mem_steps *(4)]) simp
  moreover have "\<exists>ob' s'. ReserveArtifact Io_ok (example_object\<lparr>Object_ID := ''big'', Object_SizeBytes := 2 ^ 63 - 1\<rparr>)
       \<lparr>Quota_MaxBytes = 10, Quota_MaxObjects = 0\<rparr> s = (Inr (ob', True), s')"
    by (rule reservation_overflow_bypasses_quota)
      (use * in \<open>simp_all add: example_object_def validateArtifactReservation_def zero_artifact_object_def IsZero_def zero_time_def
        object_key_def resourceKey_def\<close>)
  ultimately show ?thesis by blast
qed

text \<open>C11. Revocation. A revoked token is refused until the revocation expires, and pruning with any clock reading up
  to now does not change the answer.\<close>

theorem revocation_is_honoured:
  assumes "RevokeToken_store io v s = (None, s')" "enumerates ks (revocations s')" "now' \<le> now"
  shows "TokenRevoked (Revocation_Issuer v) (Revocation_TokenID v) (Revocation_TenantID v) now
    (snd (PruneRevocations ks now' s')) \<longleftrightarrow> now < Revocation_ExpiresAt v"
  using assms by (auto simp: TokenRevoked_def RevokeToken_store_def PruneRevocations_state apply_revocation_def
      split: option.splits if_splits dest!: commit_success)

theorem revocation_is_honoured_witness:
  "\<exists>s'. RevokeToken_store Io_ok example_revocation (empty_store None) = (None, s') \<and>
     TokenRevoked ''iss'' ''tok'' ''t'' 50 (snd (PruneRevocations [revocationKey ''iss'' ''tok'' ''t''] 40 s'))"
proof -
  obtain s' where *: "RevokeToken_store Io_ok example_revocation (empty_store None) = (None, s')"
    "enumerates [revocationKey ''iss'' ''tok'' ''t''] (revocations s')"
    using example_revoke by blast
  from revocation_is_honoured [OF *, of 40 50] *(1) show ?thesis by (simp add: example_revocation_def)
qed

text \<open>Pruning is invisible: it answers every later question about a token as before.\<close>

theorem pruning_is_invisible:
  assumes "enumerates ks (revocations s)" "now' \<le> now"
  shows "TokenRevoked iss tid tn now (snd (PruneRevocations ks now' s)) = TokenRevoked iss tid tn now s"
  using assms by (auto simp: TokenRevoked_def PruneRevocations_state split: option.splits)

theorem pruning_is_invisible_witness:
  "TokenRevoked ''iss'' ''tok'' ''t'' 150 (snd (PruneRevocations [''k''] 120 ((empty_store None)\<lparr>revocations := [''k'' \<mapsto> example_revocation]\<rparr>))) =
   TokenRevoked ''iss'' ''tok'' ''t'' 150 ((empty_store None)\<lparr>revocations := [''k'' \<mapsto> example_revocation]\<rparr>)"
  by (rule pruning_is_invisible) (simp_all add: enumerates_def)

text \<open>Tenant isolation. In every reachable state a task read under a tenant and an identifier is that tenant's task
  with that identifier, although both are joined into one key.\<close>

theorem tenants_are_isolated:
  assumes "store_steps C M p (empty_store f) s" "GetTask tn i s = Inr t" "nul_free tn"
  shows "Task_TenantID t = tn \<and> Task_ID t = i"
proof -
  have inv: "store_inv s" using store_steps_keep [OF assms(1) store_inv_empty] by blast
  have "nul_free (Task_TenantID t)"
    using store_invD(8) [OF inv] assms(2) by (auto simp: tenants_inv_def GetTask_def split: option.splits)
  with GetTask_tenant [OF store_invD(1) [OF inv] assms(2,3)] show ?thesis by blast
qed

theorem tenants_are_isolated_witness:
  "\<exists>t. GetTask ''t'' ''a'' example_mem = Inr t \<and> Task_TenantID t = ''t'' \<and> Task_ID t = ''a''"
proof -
  obtain t where t: "GetTask ''t'' ''a'' example_mem = Inr t" by (simp add: GetTask_def example_mem_sel)
  have "store_steps (\<lambda>_. True) (\<lambda>_ _. True) 0 (empty_store None) example_mem"
    by (rule example_mem_steps) simp
  from tenants_are_isolated [OF this t] t show ?thesis by (simp add: nul_free_def nul_def)
qed

section \<open>Service calls\<close>

text \<open>C12. Every call of the federation service keeps the store's promise under interleaving: whatever transactions of
  other goroutines come between its own, the invariants hold afterwards, logs have only grown, and every task has
  changed at most as \<open>hub_change\<close> allows (C23 spells that out).\<close>

theorem service_calls_keep_promise:
  assumes "env_ok E" "nul_free tn"
  shows "promise E (SubmitTask E H tn sub) \<and> promise E (ContinueTask E H tn i txt ps) \<and> promise E (CancelTask E H tn i) \<and>
    promise E (ReconcileTask E H tn i subscribe) \<and> promise E (Recover E H subscribe) \<and>
    promise E (AcceptPush E H tn i token ob) \<and> promise E (ApplyInboxItem E H item) \<and>
    promise E (RegisterAgentWithPolicy E H tn reg P) \<and> promise E (RefreshAgent E H txt' tn a) \<and>
    promise E (Service_RevokeToken E tn rv)"
  using assms
  by (simp add: safe_promise [OF post_SubmitTask] safe_promise [OF post_ContinueTask] safe_promise [OF post_CancelTask]
      safe_promise [OF post_ReconcileTask] safe_promise [OF safe_Recover] safe_promise [OF safe_AcceptPush]
      safe_promise [OF post_ApplyInboxItem] safe_promise [OF safe_RegisterAgentWithPolicy] safe_promise [OF safe_RefreshAgent]
      safe_promise [OF safe_Service_RevokeToken])

theorem service_calls_keep_promise_witness:
  "promise example_env (CancelTask example_env example_config ''t'' ''a'') \<and>
   promise example_env (SubmitTask example_env example_config ''t'' example_submit)"
  using service_calls_keep_promise [OF example_env_ok, of "''t''"] by (simp add: nul_free_def nul_def)



text \<open>C14. Push authentication. A pushed observation is accepted only for a task that has a push token, with that token,
  and for the remote task the hub knows, if it knows one.\<close>

theorem accepted_push_is_authentic:
  assumes "run_state (AcceptPush E H tn i token ob) w = ((t, None), w')"
  shows "Task_PushTokenHash t \<noteq> '''' \<and> Task_PushTokenHash t = G_sha256 (H_Lib H) token \<and> Obs_RemoteTaskID ob \<noteq> '''' \<and>
    (Task_RemoteTaskID t \<noteq> '''' \<longrightarrow> Obs_RemoteTaskID ob = Task_RemoteTaskID t) \<and>
    GetTask tn i (e_other E (w_tick w) (w_store w)) = Inr t"
  using assms
  by (auto simp: AcceptPush_def store_get_def store_op_def ask_def Let_def split: sum.splits if_splits prod.splits)

theorem accepted_push_is_authentic_witness:
  "\<exists>t w'. run_state (AcceptPush example_env example_config ''t'' ''a'' ''s'' example_push) example_push_world = ((t, None), w') \<and>
     Task_PushTokenHash t = G_sha256 example_lib ''s''"
proof -
  obtain t w' where *: "run_state (AcceptPush example_env example_config ''t'' ''a'' ''s'' example_push) example_push_world = ((t, None), w')"
    using example_push_accepted by blast
  from accepted_push_is_authentic [OF this] * show ?thesis by (simp add: example_config_def)
qed

text \<open>Registration policy. A card the policy accepts has every property the policy asks for.\<close>

theorem accepted_card_meets_policy:
  assumes "check_card K P d = None"
  shows "(RP_ProtocolVersion P = [] \<or> ProtocolVersionsCompatible (Desc_ProtocolVersion d) (RP_ProtocolVersion P)) \<and>
    (RP_ProtocolBinding P = [] \<or> Desc_ProtocolBinding d = RP_ProtocolBinding P) \<and>
    (RP_Profiles P = [] \<or> (\<exists>p\<in>set (RP_Profiles P). BindingProfile_Validate K p = None \<and>
       ProtocolVersionsCompatible (Desc_ProtocolVersion d) (Prof_ProtocolVersion p))) \<and>
    (RP_Streaming P \<longrightarrow> Desc_Streaming d) \<and> (RP_PushNotifications P \<longrightarrow> Desc_PushNotifications d) \<and>
    set (RP_RequiredSkills P) \<subseteq> set (Desc_Skills d) \<and>
    (RP_AllowedSkills P = [] \<or> set (Desc_Skills d) \<subseteq> set (RP_AllowedSkills P)) \<and>
    set (RP_RequiredExtensions P) \<subseteq> TrimSpace ` Ext_URI ` set (Desc_Extensions d)"
proof -
  note c = assms [unfolded check_card_def Let_def check_passed missing_none disallowed_none descriptorMatchesAnyProfile_def]
  from c have "RP_Profiles P = [] \<or> (\<exists>p\<in>set (RP_Profiles P). BindingProfile_Validate K p = None \<and>
      ProtocolVersionsCompatible (Desc_ProtocolVersion d) (Prof_ProtocolVersion p))"
    by (elim conjE) blast
  moreover have "set (RP_RequiredExtensions P) \<subseteq> set (extensionURIs (Desc_Extensions d))" using c by simp
  then have "set (RP_RequiredExtensions P) \<subseteq> TrimSpace ` Ext_URI ` set (Desc_Extensions d)"
    using extensionURIs_declared by (rule order_trans)
  ultimately show ?thesis using c by simp
qed

theorem accepted_card_meets_policy_witness:
  "check_card example_sdk (no_registration_policy\<lparr>RP_RequiredSkills := [''a''], RP_Streaming := True\<rparr>) example_card = None \<and>
   Desc_Streaming example_card \<and> ''a'' \<in> set (Desc_Skills example_card)"
proof -
  let ?P = "no_registration_policy\<lparr>RP_RequiredSkills := [''a''], RP_Streaming := True\<rparr>"
  have c: "check_card example_sdk ?P example_card = None"
    by (simp add: check_card_def no_registration_policy_def example_card_def missingSkills_def disallowedSkills_def extensionURIs_def)
  from accepted_card_meets_policy [OF this] c show ?thesis by simp
qed

text \<open>Canonical versions. The canonical form of a protocol version is one the hub accepts, denotes the same
  version, and is its own canonical form.\<close>

theorem canonical_version_round_trip:
  assumes "CanonicalProtocolVersion v = Inr c"
  shows "parseProtocolVersion c = parseProtocolVersion v \<and> ProtocolVersionsCompatible c v \<and> CanonicalProtocolVersion c = Inr c"
proof -
  obtain a b where ab: "parseProtocolVersion v = Some (a, b)" "c = int_digits a @ ''.'' @ int_digits b"
    using assms by (auto simp: CanonicalProtocolVersion_def split: option.splits)
  then have "parseProtocolVersion c = Some (a, b)"
    using parseProtocolVersion_range [OF ab(1)] by (simp only: parse_rendered)
  with ab show ?thesis by (simp add: ProtocolVersionsCompatible_def CanonicalProtocolVersion_def)
qed

theorem canonical_version_round_trip_witness:
  "CanonicalProtocolVersion ''1.0.3'' = Inr ''1.0'' \<and> ProtocolVersionsCompatible ''1.0'' ''1.0.3''"
proof -
  have c: "CanonicalProtocolVersion ''1.0.3'' = Inr ''1.0''" by code_simp
  from canonical_version_round_trip [OF c] c show ?thesis by blast
qed

text \<open>Configured profiles. A profile list that parses is not empty, every profile in it is valid, and no two have
  the same name.\<close>

theorem parsed_profiles_are_valid:
  assumes "ParseBindingProfiles K value = Inr ps"
  shows "ps \<noteq> [] \<and> distinct (map (ProfileName K) ps) \<and> (\<forall>p\<in>set ps. BindingProfile_Validate K p = None)"
  using parse_profiles_ok [OF assms [unfolded ParseBindingProfiles_def]] by simp

theorem parsed_profiles_are_valid_witness:
  "\<exists>ps. ParseBindingProfiles example_sdk ''grpc'' = Inr ps \<and> length ps = 1 \<and>
     (\<forall>p\<in>set ps. BindingProfile_Validate example_sdk p = None)"
proof -
  obtain ps where *: "ParseBindingProfiles example_sdk ''grpc'' = Inr ps" "length ps = 1"
    using example_profiles by blast
  from parsed_profiles_are_valid [OF *(1)] * show ?thesis by blast
qed

text \<open>Reading artifacts. Content is handed out only for an object that is available, of the tenant's own, with a
  clean scan where the policy asks for one, and of the size its metadata says.\<close>

theorem opened_artifact_is_available:
  assumes "run_state (Artifacts_Open E A tn i) w = (Inr (body, ob), w')"
  shows "Object_Status ob = ArtifactObjectAvailable \<and>
    (Pol_RequireClean (AS_Policy A) \<longrightarrow> Object_ScanStatus ob = ArtifactScanClean) \<and>
    GetArtifact tn i (e_other E (w_tick w) (w_store w)) = Inr ob"
  using assms
  by (auto simp: Artifacts_Open_def Artifacts_Get_def bindE_def ok_def fail_def store_get_def ask_def Let_def
      split: sum.splits if_splits prod.splits)

theorem opened_artifact_is_available_witness:
  "\<exists>body ob w'. run_state (Artifacts_Open example_open_env example_artifacts ''t'' ''o'') example_open_world = (Inr (body, ob), w') \<and>
     Object_Status ob = ArtifactObjectAvailable"
proof -
  obtain body ob w' where *: "run_state (Artifacts_Open example_open_env example_artifacts ''t'' ''o'') example_open_world = (Inr (body, ob), w')"
    using example_open by blast
  from opened_artifact_is_available [OF *] * show ?thesis by blast
qed

section \<open>Workflows\<close>

text \<open>C15. Graph validation. The depth-first search of \<open>validateWorkflowGraph\<close> always ends, and it accepts exactly the
  step lists in which every dependency is a step and the dependencies have no cycle.\<close>

theorem graph_validation_is_exact:
  "\<exists>r. validateWorkflowGraph steps = Some r \<and>
     (r = None) = (set (concat (map Step_DependsOn steps)) \<subseteq> set (step_ids steps) \<and> acyclic (depends (graph_of steps)))"
proof -
  obtain r where r: "validateWorkflowGraph steps = Some r" using validateWorkflowGraph_total by blast
  moreover have "set (concat (map Step_DependsOn steps)) \<subseteq> set (step_ids steps) \<longleftrightarrow>
      (\<forall>a\<in>set steps. set (Step_DependsOn a) \<subseteq> set (step_ids steps))" by auto
  ultimately show ?thesis using validateWorkflowGraph_correct [of steps] by auto
qed

text \<open>C16. What a workflow that is accepted looks like: version and concurrency in their ranges, one step per name and
  step of the definition, each with an agent or a skill and none started, its dependencies sorted, distinct and among the
  steps, its artifact inputs from direct dependencies only, and no cycle.\<close>

theorem accepted_plan_is_sound:
  assumes "prepare_workflow L tn d = Some (Inr (ver, conc, steps))"
  shows "1 \<le> ver \<and> ver \<le> 1000 \<and> 1 \<le> conc \<and> conc \<le> 1024 \<and> length steps = length (WD_Steps d) \<and> steps \<noteq> [] \<and>
    distinct (map Step_ID steps) \<and>
    (\<forall>a\<in>set steps. Step_ID a \<noteq> '''' \<and> (Step_AgentID a \<noteq> '''' \<or> Step_Skill a \<noteq> '''') \<and>
       Step_TaskID a = '''' \<and> Step_State a = TaskStateUnknown \<and> sorted (Step_DependsOn a) \<and> distinct (Step_DependsOn a) \<and>
       set (Step_DependsOn a) \<subseteq> Step_ID ` set steps \<and>
       (\<forall>v\<in>set (Step_ArtifactInputs a). WAI_FromStepID v \<in> set (Step_DependsOn a))) \<and>
    acyclic (depends (graph_of steps))"
  using prepare_workflow_ok [OF assms] by (auto simp: step_ids_def step_plan_ok_def step_started_def)

theorem accepted_plan_is_sound_witness:
  "prepare_workflow example_lib ''t'' example_definition = Some (Inr (1, 2, [example_plan ''b'' [''a''], example_plan ''a'' []])) \<and>
   acyclic (depends (graph_of [example_plan ''b'' [''a''], example_plan ''a'' []]))"
  using accepted_plan_is_sound [OF example_prepared] example_prepared by blast

text \<open>Templates. Whatever a template compiles to is accepted as a workflow, with one step per name in the order of
  the template, if the concurrency asked for is in its range; only the tenant is missing for that.\<close>

theorem compiled_templates_are_accepted:
  assumes "CompileWorkflowTemplate L i input = Inr d" "tn \<noteq> ''''" "TR_MaxConcurrency input \<le> 1024"
  shows "\<exists>conc steps. prepare_workflow L tn d = Some (Inr (1, conc, steps)) \<and> map Step_ID steps = map SI_ID (WD_Steps d)"
proof -
  have f: "forward_plan L [] (WD_Steps d)" "WD_Steps d \<noteq> []" "length (WD_Steps d) \<le> 1024"
    "WD_DefinitionVersion d = 1" "WD_MaxConcurrency d \<le> 1024"
    using compiled_forward [OF assms(1)] assms(3) by auto
  then obtain ver conc steps where p: "prepare_workflow L tn d = Some (Inr (ver, conc, steps))"
      "step_ids steps = map SI_ID (WD_Steps d)"
    using forward_plan_accepted [OF f(1,2) assms(2) _ f(5,3)] by auto
  moreover from this(1) f(4) have "ver = 1"
    by (auto simp: prepare_workflow_def Let_def split: if_splits sum.splits option.splits)
  ultimately show ?thesis by (auto simp: step_ids_def)
qed

theorem compiled_templates_are_accepted_witness:
  "\<exists>d conc steps. CompileWorkflowTemplate example_lib '' sequential-pipeline'' example_run = Inr d \<and>
     prepare_workflow example_lib ''t'' d = Some (Inr (1, conc, steps)) \<and> map Step_ID steps = [''stage-1'', ''stage-2'']"
proof -
  obtain d where d: "CompileWorkflowTemplate example_lib '' sequential-pipeline'' example_run = Inr d"
    "map SI_ID (WD_Steps d) = [''stage-1'', ''stage-2'']"
    using example_compiled by (elim exE conjE)
  have "TR_MaxConcurrency example_run \<le> 1024" by (simp add: example_run_def)
  from compiled_templates_are_accepted [OF d(1) _ this, of "''t''"] obtain conc steps where
    "prepare_workflow example_lib ''t'' d = Some (Inr (1, conc, steps))" "map Step_ID steps = map SI_ID (WD_Steps d)"
    by blast
  with d show ?thesis by metis
qed

text \<open>C17. No workflow is stuck. While an accepted workflow has a step that was not started, and all the others have
  ended, \<open>submitWorkflowReady\<close> finds a step to submit or to block; and a step it submits has its dependencies ended, all
  of them completed if it is required.\<close>

theorem workflow_is_never_stuck:
  assumes "prepare_workflow L tn d = Some (Inr (ver, conc, plan))" and "list_all2 step_change plan steps"
    and "\<forall>a\<in>set steps. step_started a \<longrightarrow> TaskState_Terminal (Step_State a)" and "\<exists>a\<in>set steps. \<not> step_started a"
  shows "select_steps step_is_ready steps @ select_steps step_is_blocked steps \<noteq> [] \<and>
    (\<forall>i\<in>set (select_steps step_is_ready steps). i < length steps \<and> \<not> step_started (steps ! i) \<and>
       (\<forall>x\<in>set (Step_DependsOn (steps ! i)). \<exists>b\<in>set steps. Step_ID b = x \<and> TaskState_Terminal (Step_State b) \<and>
          (Step_Required (steps ! i) \<longrightarrow> Step_State b = TaskStateCompleted)))"
proof (intro conjI ballI impI)
  note same = plan_kept [OF assms(2)]
  note plan = prepare_workflow_ok(3) [OF assms(1)]
  have "\<forall>a\<in>set steps. set (Step_DependsOn a) \<subseteq> set (step_ids steps)"
  proof
    fix a assume "a \<in> set steps"
    then obtain i where "i < length steps" "steps ! i = a" by (auto simp: in_set_conv_nth)
    with same(1,4) obtain b where b: "b \<in> set plan" "Step_DependsOn a = Step_DependsOn b" using nth_mem by metis
    then have "set (Step_DependsOn b) \<subseteq> set (step_ids plan)" using plan by blast
    then show "set (Step_DependsOn a) \<subseteq> set (step_ids steps)" using b(2) same(2) by simp
  qed
  moreover have "acyclic (depends (graph_of steps))" using plan same(3) by simp
  ultimately show "select_steps step_is_ready steps @ select_steps step_is_blocked steps \<noteq> []"
    using never_stuck assms(3,4) by (metis append_is_Nil_conv)
next
  fix i assume "i \<in> set (select_steps step_is_ready steps)"
  then show "i < length steps" "\<not> step_started (steps ! i)" using step_is_ready_unstarted by blast+
next
  fix i x assume "i \<in> set (select_steps step_is_ready steps)" "x \<in> set (Step_DependsOn (steps ! i))"
  then show "\<exists>b\<in>set steps. Step_ID b = x \<and> TaskState_Terminal (Step_State b) \<and>
      (Step_Required (steps ! i) \<longrightarrow> Step_State b = TaskStateCompleted)"
    by (rule ready_dependency)
qed

theorem workflow_is_never_stuck_witness:
  "select_steps step_is_ready [example_plan ''b'' [''a''], example_plan ''a'' []] = [1] \<and>
   select_steps step_is_ready [example_plan ''b'' [''a''], example_plan ''a'' []] @
   select_steps step_is_blocked [example_plan ''b'' [''a''], example_plan ''a'' []] \<noteq> []"
proof -
  let ?steps = "[example_plan ''b'' [''a''], example_plan ''a'' []]"
  have "\<forall>a\<in>set ?steps. step_started a \<longrightarrow> TaskState_Terminal (Step_State a)" "\<exists>a\<in>set ?steps. \<not> step_started a"
    by (simp_all add: step_started_def example_plan_def)
  moreover have "list_all2 step_change ?steps ?steps" by (simp add: step_change_refl)
  ultimately have "select_steps step_is_ready ?steps @ select_steps step_is_blocked ?steps \<noteq> []"
    using workflow_is_never_stuck [OF example_prepared] by blast
  moreover have "select_steps step_is_ready ?steps = [1]" by code_simp
  ultimately show ?thesis by blast
qed

text \<open>C18. The calls return. \<open>submitWorkflowReady\<close> loops without a bound in the code. Given one round more than the
  workflow has steps (65 for a template), \<open>StartWorkflow\<close>, \<open>StartWorkflowTemplate\<close>, \<open>ReconcileWorkflow\<close> and
  \<open>ContinueWorkflow\<close> return a result, whatever transactions of other goroutines come between their own.\<close>

theorem workflow_calls_return:
  assumes "env_ok E" "nul_free tn" "world_ok E w"
  shows "(length (WD_Steps d) < n \<longrightarrow> fst (run_state (StartWorkflow E C n tn d) w) \<noteq> None) \<and>
    (64 < n \<longrightarrow> fst (run_state (StartWorkflowTemplate E C n tn i input) w) \<noteq> None) \<and>
    (workflows (w_store w) (resourceKey tn wid) = Some c \<longrightarrow> Workflow_Steps c \<noteq> [] \<longrightarrow> length (Workflow_Steps c) < n \<longrightarrow>
      fst (run_state (ReconcileWorkflow E C n tn wid subscribe) w) \<noteq> None \<and>
      fst (run_state (ContinueWorkflow E C n tn wid txt parts) w) \<noteq> None)"
proof (intro conjI [OF _ conjI] impI)
  show "length (WD_Steps d) < n \<Longrightarrow> fst (run_state (StartWorkflow E C n tn d) w) \<noteq> None"
    using run_from_returns [OF start_returns [OF assms(1,2)] assms(3)] by simp
  show "64 < n \<Longrightarrow> fst (run_state (StartWorkflowTemplate E C n tn i input) w) \<noteq> None"
    using run_from_returns [OF start_template_returns [OF assms(1,2)] assms(3)] by simp
  assume "workflows (w_store w) (resourceKey tn wid) = Some c" "Workflow_Steps c \<noteq> []" "length (Workflow_Steps c) < n"
  then have "flow_left tn wid n (w_store w)" using unstarted_le [of c] by (auto simp: flow_left_def)
  then show "fst (run_state (ReconcileWorkflow E C n tn wid subscribe) w) \<noteq> None \<and>
      fst (run_state (ContinueWorkflow E C n tn wid txt parts) w) \<noteq> None"
    using run_from_returns [OF reconcile_returns [OF assms(1,2)] assms(3)]
      run_from_returns [OF continue_returns [OF assms(1,2)] assms(3)] by blast
qed

theorem workflow_calls_return_witness:
  "fst (run_state (StartWorkflow example_env example_coordinator 3 ''t'' example_definition)
     \<lparr>w_store = empty_store None, w_tick = 0\<rparr>) \<noteq> None \<and>
   fst (run_state (ReconcileWorkflow example_env example_coordinator 2 ''t'' ''w'' False)
     (example_flow_world (example_plan ''a'' []) WorkflowStateRunning)) \<noteq> None"
proof -
  have t: "nul_free ''t''" by (simp add: nul_free_def nul_def)
  have "length (WD_Steps example_definition) < 3" by (simp add: example_definition_def)
  moreover have "Workflow_Steps ((example_flow (example_plan ''a'' []) WorkflowStateRunning)\<lparr>Workflow_Revision := 1, Workflow_LastSequence := 1\<rparr>)
      = [example_plan ''a'' []]" by (simp add: example_flow_def)
  ultimately show ?thesis
    using workflow_calls_return [OF example_env_ok t example_world_ok, of example_definition 3 example_coordinator]
      workflow_calls_return [OF example_env_ok t example_flow_world_ok]
    by (simp add: example_flow_world_def example_flow_sel)
qed

text \<open>C19. Every call of the coordinator keeps the store's promise under interleaving: the invariants of the store, its
  logs, what may happen to a task (C23), and the plan of every workflow, whose identity, bounds and steps never change and
  whose started steps stay started.\<close>

theorem workflow_calls_keep_promise:
  assumes "env_ok E" "nul_free tn"
  shows "promise E (StartWorkflow E C n tn d) \<and> promise E (StartWorkflowTemplate E C n tn i input) \<and>
    promise E (ReconcileWorkflow E C n tn wid subscribe) \<and> promise E (ContinueWorkflow E C n tn wid txt parts) \<and>
    promise E (PauseWorkflow E tn wid) \<and> promise E (ResumeWorkflow E tn wid) \<and> promise E (CancelWorkflow E C tn wid) \<and>
    promise E (CompensateWorkflow E C tn wid) \<and> promise E (FanOut E C tn branches) \<and> promise E (FanIn E C tn tids)"
  using assms
  by (simp add: safe_promise [OF safe_StartWorkflow] safe_promise [OF safe_StartWorkflowTemplate]
      safe_promise [OF safe_ReconcileWorkflow] safe_promise [OF safe_ContinueWorkflow] safe_promise [OF safe_operator_calls(1)]
      safe_promise [OF safe_operator_calls(2)] safe_promise [OF safe_CancelWorkflow] safe_promise [OF safe_CompensateWorkflow]
      safe_promise [OF safe_FanOut] safe_promise [OF safe_FanIn])

theorem workflow_calls_keep_promise_witness:
  "promise example_env (StartWorkflow example_env example_coordinator 3 ''t'' example_definition) \<and>
   promise example_env (CompensateWorkflow example_env example_coordinator ''t'' ''w'')"
  using workflow_calls_keep_promise [OF example_env_ok, of "''t''"] by (simp add: nul_free_def nul_def)

text \<open>The input vault. An input that \<open>MemoryInputStore\<close> accepted is read back under its reference by its tenant, the
  same up to its JSON form, whatever is put into the vault afterwards.\<close>

theorem stored_input_is_kept:
  assumes "MemoryInputStore_Put J tn wid sid input m = (Inr ref, m')"
  shows "MemoryInputStore_Get tn ref m' = Inr input \<and>
    (\<exists>kept. MemoryInputStore_Get tn ref (memory_vault.put_many J puts m') = Inr kept \<and> J input = J kept)"
  using memory_vault.put_get [OF assms] memory_vault.stored_for_good [OF assms] by blast

theorem stored_input_is_kept_witness:
  "MemoryInputStore_Put WI_Text ''t'' ''w'' ''a'' \<lparr>WI_Text = ''hi'', WI_Parts = []\<rparr> Map.empty =
     (Inr ''t/w/a'', [''t/w/a'' \<mapsto> \<lparr>WI_Text = ''hi'', WI_Parts = []\<rparr>]) \<and>
   MemoryInputStore_Get ''t'' ''t/w/a'' [''t/w/a'' \<mapsto> \<lparr>WI_Text = ''hi'', WI_Parts = []\<rparr>] = Inr \<lparr>WI_Text = ''hi'', WI_Parts = []\<rparr>"
proof -
  have put: "MemoryInputStore_Put WI_Text ''t'' ''w'' ''a'' \<lparr>WI_Text = ''hi'', WI_Parts = []\<rparr> Map.empty =
     (Inr ''t/w/a'', [''t/w/a'' \<mapsto> \<lparr>WI_Text = ''hi'', WI_Parts = []\<rparr>])"
    by (simp add: MemoryInputStore_Put_def WorkflowInput_validate_def input_ref_def Let_def)
  from stored_input_is_kept [OF this] put show ?thesis by blast
qed

text \<open>A failed compensation cannot be made up for. Once the failure to submit a step's compensating task has been
  recorded, recording a compensating task of that step is a silent no-op for ever: a retry submits a task to the
  provider and then drops its identifier.\<close>

theorem compensation_retry_is_lost:
  assumes "store_inv s"
    and "ApplyWorkflowVersion io nid tn wid 0 (compensation_key sid) (compensation_failed i sid m now) s = ((f, True, None), s1)"
    and "hub_steps s1 s2"
  shows "\<exists>f'. workflows s2 (resourceKey tn wid) = Some f' \<and>
    ApplyWorkflowVersion io2 nid2 tn wid 0 (compensation_key sid) (compensation_submitted i sid t now2) s2 = ((f', False, None), s2)"
proof -
  have cb: "workflow_callback_ok (compensation_key sid) (compensation_failed i sid m now) c" for c
    by (rule flow_callbacks_ok) simp
  have key: "compensation_key sid \<noteq> ''''" by (simp add: compensation_key_def)
  have "hub_steps s (snd (ApplyWorkflowVersion io nid tn wid 0 (compensation_key sid) (compensation_failed i sid m now) s))"
    by (rule hub_step, rule do_ApplyWorkflow) (simp_all add: cb)
  then have s1: "store_inv s1" using store_steps_keep assms(1,2) by fastforce
  note rec = apply_flow_dedup [OF assms(1) cb key assms(2)]
  obtain f' where f': "workflows s2 (resourceKey tn wid) = Some f'" using hub_steps_flow [OF assms(3) s1 rec(2)] by blast
  have "compensation_key sid \<in> workflowDedup s2 (resourceKey tn wid)"
    using store_steps_keep [OF assms(3) s1] rec(1) unfolding advanced_def by blast
  with f' key show ?thesis using vflow.duplicate by blast
qed

theorem compensation_retry_is_lost_witness:
  "\<exists>f s1 f'. ApplyWorkflowVersion Io_ok ''e2'' ''t'' ''w'' 0 (compensation_key ''a'')
       (compensation_failed 0 ''a'' ''down'' 1) (example_flow_store example_done WorkflowStateCompensating) = ((f, True, None), s1) \<and>
     ApplyWorkflowVersion Io_ok ''e3'' ''t'' ''w'' 0 (compensation_key ''a'')
       (compensation_submitted 0 ''a'' (example_task ''undo'') 2) s1 = ((f', False, None), s1) \<and>
     map Step_CompensationTaskID (Workflow_Steps f') = ['''']"
proof -
  obtain f s1 where r: "ApplyWorkflowVersion Io_ok ''e2'' ''t'' ''w'' 0 (compensation_key ''a'')
       (compensation_failed 0 ''a'' ''down'' 1) (example_flow_store example_done WorkflowStateCompensating) = ((f, True, None), s1)"
    "workflows s1 (resourceKey ''t'' ''w'') = Some f" "map Step_CompensationTaskID (Workflow_Steps f) = ['''']"
    using example_compensation by (elim exE conjE)
  from compensation_retry_is_lost [OF example_flow_inv r(1) rtranclp.rtrancl_refl] r show ?thesis by fastforce
qed

text \<open>Cancellation is not final. Reconciling a cancelled workflow looks at its steps only: here the step that was not
  started at the time of the cancellation is started, and the terminal state CANCELED is replaced.\<close>

theorem canceled_workflow_goes_on:
  "case run_state (CancelWorkflow example_env example_coordinator ''t'' ''w'')
       (example_flow_world (example_plan ''a'' []) WorkflowStateRunning) of
     ((r1, e1), w1) \<Rightarrow> e1 = None \<and> Workflow_State (WR_Workflow r1) = WorkflowStateCanceled \<and>
       (case run_state (ReconcileWorkflow example_env example_coordinator 2 ''t'' ''w'' False) w1 of
          (None, w2) \<Rightarrow> False
        | (Some (r2, e2), w2) \<Rightarrow> e2 = None \<and> Workflow_State (WR_Workflow r2) = WorkflowStateFailed \<and>
            map Step_Attempt (Workflow_Steps (WR_Workflow r2)) = [1])"
  by code_simp

section \<open>Workers and publishers\<close>



text \<open>The delay before an attempt. It never exceeds the maximum, is at least the base when the base is below the maximum, does not
  fall from one attempt to the next, and is at least half of the maximum once the doublings allow it.\<close>

theorem backoff_is_bounded:
  assumes "0 < base" "0 < maximum"
  shows "boundedBackoff attempt base maximum \<le> maximum \<and> min base maximum \<le> boundedBackoff attempt base maximum \<and>
    (attempt \<le> attempt' \<longrightarrow> boundedBackoff attempt base maximum \<le> boundedBackoff attempt' base maximum) \<and>
    (maximum div 2 \<le> base * 2 ^ (unat attempt - 1) \<longrightarrow> maximum div 2 \<le> boundedBackoff attempt base maximum)"
proof (cases "base \<le> maximum")
  case True
  have b: "boundedBackoff a base maximum = backoff_loop (unat a - 1) base maximum" for a
    using backoff_loop_bounds [OF assms(1) True] by (simp add: boundedBackoff_def Let_def not_less)
  have "attempt \<le> attempt' \<Longrightarrow> unat attempt - 1 \<le> unat attempt' - 1" by (simp add: word_le_nat_alt)
  with b True backoff_loop_bounds [OF assms(1) True] backoff_loop_le [OF assms(1) True] backoff_loop_reaches [OF assms(1) True]
  show ?thesis by simp
next
  case False
  then have "\<not> base < maximum div 2" using assms by linarith
  then have "backoff_loop n base maximum = base" for n by (cases n) simp_all
  moreover have "maximum div 2 \<le> maximum" using assms by linarith
  ultimately show ?thesis using False assms by (simp add: boundedBackoff_def)
qed

theorem backoff_is_bounded_witness:
  "boundedBackoff 3 second (60 * second) \<le> 60 * second \<and> boundedBackoff 3 second (60 * second) \<le> boundedBackoff 9 second (60 * second)"
proof -
  have "0 < second" "0 < 60 * second" by (simp_all add: second_def)
  from backoff_is_bounded [OF this, of 3 9] show ?thesis by simp
qed

text \<open>C21. The file publisher. After items were published to a new file without a fault, the file holds one line for each
  idempotency key and nothing else, and a publisher opened on it knows exactly these keys, unless a line is longer than
  the scanner's 64 KiB: then the file cannot be opened any more.\<close>

theorem published_items_are_kept_once:
  assumes "\<forall>i\<in>set is. json_line J D i" "path \<noteq> ''''"
    and "publish_all J is (Some \<lparr>FP_Open = True, FP_Seen = {}\<rparr>) '''' = (Some p, disk)"
  shows "\<exists>kept. disk = lines_text (map (text_of J) kept) \<and> set kept \<subseteq> set is \<and> distinct (map publish_key kept) \<and>
    publish_key ` set kept = publish_key ` set is \<and>
    NewFileOutboxPublisher D None path disk =
      (if \<forall>i\<in>set kept. length (text_of J i) < 64 * 1024 then Inr p
       else Inl (ErrWrap ''read outbox file'' (ErrText ''bufio.Scanner: token too long'')))"
proof (intro exI [of _ "first_of_keys {} is"])
  let ?kept = "first_of_keys {} is"
  have j: "\<forall>i\<in>set ?kept. json_line J D i" using assms(1) first_of_keys_set [of "{}" "is"] by blast
  have "disk = lines_text (map (text_of J) ?kept)" "p = \<lparr>FP_Open = True, FP_Seen = publish_key ` set ?kept\<rparr>"
    using assms(3) by (simp_all add: publish_all_lines [OF assms(1)] first_of_keys_keys)
  then show "disk = lines_text (map (text_of J) ?kept) \<and> set ?kept \<subseteq> set is \<and> distinct (map publish_key ?kept) \<and>
    publish_key ` set ?kept = publish_key ` set is \<and>
    NewFileOutboxPublisher D None path disk =
      (if \<forall>i\<in>set ?kept. length (text_of J i) < 64 * 1024 then Inr p
       else Inl (ErrWrap ''read outbox file'' (ErrText ''bufio.Scanner: token too long'')))"
    using reopen_published [OF j first_of_keys_distinct assms(2)] first_of_keys_set [of "{}" "is"]
      first_of_keys_distinct [of "{}" "is"] first_of_keys_keys [of "{}" "is"] by simp
qed

theorem published_items_are_kept_once_witness:
  "\<exists>kept. lines_text [''{t k}''] = lines_text (map (text_of (\<lambda>i. Inr ''{t k}'')) kept) \<and>
     NewFileOutboxPublisher (\<lambda>l. if l = ''{t k}'' then Some (''t'', ''k'') else None) None ''f'' (lines_text [''{t k}'']) =
       Inr \<lparr>FP_Open = True, FP_Seen = {''t:k''}\<rparr>"
proof -
  let ?J = "\<lambda>i::outbox_item. Inr ''{t k}'' :: string result"
  let ?D = "\<lambda>l. if l = ''{t k}'' then Some (''t'', ''k'') else None"
  have l: "\<forall>i\<in>set [example_published, example_published]. json_line ?J ?D i" using example_published_line by simp
  have k: "publish_key example_published = ''t:k''" by (simp add: publish_key_def example_published_def)
  have p: "publish_all ?J [example_published, example_published] (Some \<lparr>FP_Open = True, FP_Seen = {}\<rparr>) '''' =
      (Some \<lparr>FP_Open = True, FP_Seen = {''t:k''}\<rparr>, lines_text [''{t k}''])"
    unfolding publish_all_lines [OF l] by (simp add: text_of_def k)
  show ?thesis
    using published_items_are_kept_once [OF l _ p, of "''f''"] by (fastforce simp: text_of_def)
qed

section \<open>Access control\<close>

text \<open>C22. The local policy decides what it says. An authorizer built from a policy document lets a principal in exactly if it
  is named, the action has a scope in the principal's tenant, and the principal has that scope by itself or through a
  role. The scope is that of the tenant's entry, or of the document's, or the default one.\<close>

theorem policy_decides_as_written:
  assumes "NewPolicyAuthorizer d = Inr a" "keys_once d"
  shows "ScopeAuthorizer_Authorize a p r = None \<longleftrightarrow>
    Principal_Subject p \<noteq> '''' \<and> Principal_TenantID p \<noteq> '''' \<and>
    (\<exists>scope. policy_scope d (Principal_TenantID p) (Request_Action r) = Some scope \<and> policy_grants d p scope)"
  by (auto simp: ScopeAuthorizer_Authorize_def policy_required_scope [OF assms] policy_has_scope [OF assms] split: option.split)

definition example_policy :: policy_document where
  "example_policy = \<lparr>PD_Version = 1, PD_Actions = [(''task.read'', ''read-all'')], PD_Roles = [(''viewer'', [''special''])],
     PD_TenantActions = [(''t'', [(''task.read'', ''special'')])]\<rparr>"

theorem policy_decides_as_written_witness:
  "\<exists>a. NewPolicyAuthorizer example_policy = Inr a \<and>
     (\<forall>tok. ScopeAuthorizer_Authorize a \<lparr>Principal_Subject = ''s'', Principal_TenantID = ''t'', Principal_Issuer = '''',
        Principal_AuthMethod = '''', Principal_Scopes = [''read-all''], Principal_Roles = [''viewer''], Principal_Delegation = [],
        Principal_TokenID = tok\<rparr> \<lparr>Request_Action = ''task.read'', Request_ResourceID = ''''\<rparr> = None) \<and>
     (\<forall>tok. ScopeAuthorizer_Authorize a \<lparr>Principal_Subject = ''s'', Principal_TenantID = ''t'', Principal_Issuer = '''',
        Principal_AuthMethod = '''', Principal_Scopes = [''read-all''], Principal_Roles = [], Principal_Delegation = [],
        Principal_TokenID = tok\<rparr> \<lparr>Request_Action = ''task.read'', Request_ResourceID = ''''\<rparr> \<noteq> None)"
proof -
  have v: "PolicyDocument_Validate example_policy = None" by code_simp
  then obtain a where a: "NewPolicyAuthorizer example_policy = Inr a" by (simp add: NewPolicyAuthorizer_def)
  have k: "keys_once example_policy" by (simp add: keys_once_def example_policy_def)
  note d = policy_decides_as_written [OF a k]
  show ?thesis
    by (intro exI [of _ a] conjI a allI)
      (simp_all add: d policy_scope_def policy_grants_def example_policy_def)
qed

text \<open>External decisions fail closed. In a chain of the local policy and an external decision point a request is
  allowed only if both allow it, the latter over HTTPS with an answer of status 200 that is within its limit, is one
  decision and says so. Every refusal of the decision point is a forbidden request.\<close>

theorem decision_point_fails_closed:
  assumes "ChainAuthorizer_Authorize [Some local, Some (HTTPAuthorizer_Authorize a)] t p r = e"
  shows "(e = None \<longrightarrow> local t p r = None \<and> has_prefix (HA_Endpoint a) ''https://'' \<and>
      (\<exists>response decision payload credential. HA_Do a t (HA_Endpoint a) payload credential = Inr response \<and>
         HA_Marshal a p r = Inr payload \<and> (HA_BearerReference a \<noteq> '''' \<longrightarrow> credential \<noteq> None) \<and>
         \<not> HR_ReadFails response \<and> HR_StatusCode response = 200 \<and>
         int (length (limited_body (response_limit a) (HR_Body response))) \<le> response_limit a \<and>
         HA_Decode a (limited_body (response_limit a) (HR_Body response)) = Inr (decision, True) \<and> PR_Allow decision)) \<and>
    (\<forall>x. e = Some x \<longrightarrow> local t p r = None \<longrightarrow> error_is x ErrForbidden)"
proof (intro conjI impI allI)
  assume "e = None"
  then have l: "local t p r = None" "HTTPAuthorizer_Authorize a t p r = None"
    using assms chain_allows [of "[Some local, Some (HTTPAuthorizer_Authorize a)]" t p r] by auto
  show "local t p r = None" by (rule l(1))
  show "has_prefix (HA_Endpoint a) ''https://''" using l(2) by (simp add: http_allows)
  show "\<exists>response decision payload credential. HA_Do a t (HA_Endpoint a) payload credential = Inr response \<and>
         HA_Marshal a p r = Inr payload \<and> (HA_BearerReference a \<noteq> '''' \<longrightarrow> credential \<noteq> None) \<and>
         \<not> HR_ReadFails response \<and> HR_StatusCode response = 200 \<and>
         int (length (limited_body (response_limit a) (HR_Body response))) \<le> response_limit a \<and>
         HA_Decode a (limited_body (response_limit a) (HR_Body response)) = Inr (decision, True) \<and> PR_Allow decision"
    using l(2) unfolding http_allows policy_answer_None by (fastforce split: if_splits)
next
  fix x assume "e = Some x" "local t p r = None"
  then show "error_is x ErrForbidden"
    using assms http_denies_forbidden [of a t p r] by (auto split: option.splits)
qed

definition example_decision_point :: "bool \<Rightarrow> http_authorizer" where
  "example_decision_point allow =
     \<lparr>HA_Endpoint = ''https://p'', HA_Bearer = None, HA_BearerReference = '''', HA_MaxResponseBytes = 0,
      HA_Marshal = (\<lambda>_ _. Inr ''{}''), HA_Request_ok = (\<lambda>_. True),
      HA_Do = (\<lambda>_ _ _ _. Inr \<lparr>HR_StatusCode = 200, HR_Body = ''{}'', HR_ReadFails = False\<rparr>),
      HA_Decode = (\<lambda>_. Inr (\<lparr>PR_Allow = allow, PR_DecisionID = '''', PR_Reason = ''''\<rparr>, True))\<rparr>"

theorem decision_point_fails_closed_witness:
  "(\<forall>p r. \<exists>x. ChainAuthorizer_Authorize [Some (\<lambda>_ _ _. None), Some (HTTPAuthorizer_Authorize (example_decision_point False))] 0 p r = Some x \<and>
      error_is x ErrForbidden) \<and>
   (\<forall>p r. ChainAuthorizer_Authorize [Some (\<lambda>_ _ _. None), Some (HTTPAuthorizer_Authorize (example_decision_point True))] 0 p r = None)"
proof (intro conjI allI)
  fix p r
  let ?e = "ChainAuthorizer_Authorize [Some (\<lambda>_ _ _. None), Some (HTTPAuthorizer_Authorize (example_decision_point False))] 0 p r"
  note d = decision_point_fails_closed [of "\<lambda>_ _ _. None" "example_decision_point False" 0 p r, OF refl]
  have "?e \<noteq> None"
  proof
    assume "?e = None"
    with d show False by (auto simp: example_decision_point_def)
  qed
  with d show "\<exists>x. ?e = Some x \<and> error_is x ErrForbidden" by auto
next
  fix p r
  have "wrap64 (64 * 1024 + 1) = 64 * 1024 + 1" by (simp add: wrap64_def)
  then have "HTTPAuthorizer_Authorize (example_decision_point True) 0 p r = None"
    unfolding http_allows policy_answer_None
    by (simp add: example_decision_point_def limited_body_def response_limit_def has_prefix_def)
  then show "ChainAuthorizer_Authorize [Some (\<lambda>_ _ _. None), Some (HTTPAuthorizer_Authorize (example_decision_point True))] 0 p r = None"
    by (simp add: chain_allows)
qed

text \<open>C23. Who is authenticated. A principal from a bearer token has the subject and tenant of claims that the JWT library validated
  for the configured issuer and audience under a key named by the token; the trust document lists the tenant for that
  issuer and the principal has the scopes it asks for; and a token with an identifier was not revoked in the store, read at
  the time of the check.\<close>

theorem authenticated_principals_are_vetted:
  assumes "run_state (JWT_Authenticate E a q) w = (Inr p, w')" "JWT_Validator a = Some (\<lambda>_. ValidatePrincipal tp)"
    and "NewTrustPolicy d = Inr tp" "distinct (map fst (TTD_Issuers d))" "JWT_Revocations a"
  shows "(\<exists>raw keys opt cs t. bearerToken (Q_Header q ''Authorization'') = Inr raw \<and>
       JO_Issuer opt = JWT_Issuer a \<and> JO_Audience opt = JWT_Audience a \<and> JWT_Issuer a \<noteq> '''' \<and> JWT_Audience a \<noteq> '''' \<and>
       JWT_Parse a opt t (jwt_key keys (JWT_Issuer a)) raw = Inr (cs, True) \<and> jwt_principal a cs = Inr p) \<and>
    Principal_Subject p \<noteq> '''' \<and> \<not> blank (Principal_TenantID p) \<and> Principal_Issuer p = JWT_Issuer a \<and>
    (\<exists>profile. map_of (TTD_Issuers d) (JWT_Issuer a) = Some profile \<and> Principal_TenantID p \<in> set (ITP_Tenants profile) \<and>
       (\<forall>scope\<in>set (ITP_RequiredScopes profile). HasScope p scope)) \<and>
    (Principal_TokenID p \<noteq> '''' \<longrightarrow>
       (\<exists>t. \<not> TokenRevoked (Principal_Issuer p) (Principal_TokenID p) (Principal_TenantID p) (e_clock E t) (w_store w')))"
proof -
  note j = jwt_accepts [OF assms(1)]
  obtain raw keys opt cs t where parsed: "bearerToken (Q_Header q ''Authorization'') = Inr raw" "JWT_Issuer a \<noteq> ''''"
    "JWT_Audience a \<noteq> ''''" "JO_Issuer opt = JWT_Issuer a" "JO_Audience opt = JWT_Audience a"
    "JWT_Parse a opt t (jwt_key keys (JWT_Issuer a)) raw = Inr (cs, True)" "jwt_principal a cs = Inr p"
    using j(1) by blast
  note ok = jwt_principal_ok [OF parsed(7)]
  have "ValidatePrincipal tp p = None" using j(2) [OF assms(2)] by simp
  then show ?thesis
    using parsed ok(1-3) j(3) [OF assms(5)] NewTrustPolicy_map [OF assms(3,4)] unfolding ValidatePrincipal_None by auto
qed

definition example_jwt :: "unit jwt_authenticator" where
  "example_jwt =
     \<lparr>JWT_Issuer = ''i'', JWT_Audience = ''h'', JWT_TenantClaim = '''', JWT_ScopeClaim = '''', JWT_RolesClaim = '''',
      JWT_Algorithms = [], JWT_Keys = Some (\<lambda>_ _ _. Inr ()), JWT_Revocations = True, JWT_RequireTokenID = False,
      JWT_Validator = Some (\<lambda>_. ValidatePrincipal [''i'' \<mapsto> \<lparr>ITP_Tenants = [''t''], ITP_RequiredScopes = [''a'']\<rparr>]), JWT_Leeway = 0,
      JWT_Parse = (\<lambda>_ _ key _. case key (Some (JStr ''k'')) of Inl e \<Rightarrow> Inl e
         | Inr _ \<Rightarrow> Inr ([(''tenant_id'', JStr ''t''), (''scope'', JStr ''a b''), (''jti'', JStr ''x'')], True)),
      JWT_GetSubject = (\<lambda>_. Inr ''s'')\<rparr>"

theorem authenticated_principals_are_vetted_witness:
  "\<exists>p w'. run_state (JWT_Authenticate example_env example_jwt (example_request\<lparr>Q_Header := (\<lambda>_. ''Bearer z'')\<rparr>))
      \<lparr>w_store = empty_store None, w_tick = 0\<rparr> = (Inr p, w') \<and> Principal_TenantID p \<in> set [''t''] \<and> HasScope p ''a''"
proof -
  let ?d = "\<lparr>TTD_Version = 1, TTD_Issuers = [(''i'', \<lparr>ITP_Tenants = [''t''], ITP_RequiredScopes = [''a'']\<rparr>)]\<rparr>"
  have b: "bearerToken ''Bearer z'' = Inr ''z''" by code_simp
  have f: "Fields ''a b'' = [''a'', ''b'']" by code_simp
  have bl: "\<not> blank ''t''" by code_simp
  have "TokenRevoked ''i'' ''x'' ''t'' now (empty_store None) = False" for now by (simp add: TokenRevoked_def empty_store_def)
  then have "\<exists>p w'. run_state (JWT_Authenticate example_env example_jwt (example_request\<lparr>Q_Header := (\<lambda>_. ''Bearer z'')\<rparr>))
      \<lparr>w_store = empty_store None, w_tick = 0\<rparr> = (Inr p, w')"
    by (simp add: JWT_Authenticate_def b example_jwt_def jwt_key_def jwt_principal_def or_default_def stringClaim_def bl
        stringListClaim_def f delegationClaim_def run_validator_def ValidatePrincipal_def HasScope_def run_state_store_get
        Let_def example_env_def)
  then obtain p w' where r: "run_state (JWT_Authenticate example_env example_jwt (example_request\<lparr>Q_Header := (\<lambda>_. ''Bearer z'')\<rparr>))
      \<lparr>w_store = empty_store None, w_tick = 0\<rparr> = (Inr p, w')" by blast
  have tp: "NewTrustPolicy ?d = Inr [''i'' \<mapsto> \<lparr>ITP_Tenants = [''t''], ITP_RequiredScopes = [''a'']\<rparr>]"
    (is "_ = Inr ?tp")
  proof -
    have "TenantTrust_Validate ?d = None" by code_simp
    then show ?thesis by (simp add: NewTrustPolicy_def)
  qed
  have v: "JWT_Validator example_jwt = Some (\<lambda>_. ValidatePrincipal ?tp)" "JWT_Revocations example_jwt" "JWT_Issuer example_jwt = ''i''"
    by (simp_all add: example_jwt_def)
  have dis: "distinct (map fst (TTD_Issuers ?d))" by simp
  show ?thesis using authenticated_principals_are_vetted [OF r v(1) tp dis v(2)] r v(3) by auto
qed

section \<open>The audit file\<close>

lemma record_all_open: "record_all c rs s disk = (None, s', disk') \<Longrightarrow> Sink_Open s \<Longrightarrow> Sink_Open s'"
proof (induction rs arbitrary: s disk)
  case (Cons r rs)
  obtain s1 disk1 where 1: "FileAuditSink_Record c faultless r s disk = (None, s1, disk1)" "record_all c rs s1 disk1 = (None, s', disk')"
    using Cons.prems(1) by (auto split: prod.splits option.splits)
  then have "Sink_Open s1" using record_faultless(3) [OF 1(1)] Cons.prems(2) by simp
  with Cons.IH [OF 1(2)] show ?case by blast
qed simp

text \<open>C24. Restarts keep the chain. After any number of faultless records whose lines decode as they were written and fit into the
  scanner's buffer, opening the file again gives a sink in the same state, so the chain goes on where it stopped.\<close>

theorem audit_file_restarts:
  assumes "complete_file disk" "OpenFileAuditSink c None path disk = Inr s"
    and "record_all c rs s disk = (None, s', disk')" "run_decodes c rs s disk"
  shows "OpenFileAuditSink c None path disk' = Inr s'"
proof -
  have s: "path \<noteq> ''''" "loadChainState c disk = Inr (Sink_Sequence s, Sink_Previous s)" "Sink_Open s"
    using assms(2) by (auto simp: OpenFileAuditSink_def split: if_splits sum.splits prod.splits)
  have "loadChainState c disk' = Inr (Sink_Sequence s', Sink_Previous s')"
    using record_all_reopens [OF assms(1) s(2) assms(3,4)] by blast
  with s(1) record_all_open [OF assms(3) s(3)] show ?thesis by (simp add: OpenFileAuditSink_def)
qed

definition example_record :: audit_record where
  "example_record =
     \<lparr>Audit_Version = 1, Audit_Sequence = 1, Audit_Timestamp = 0, Audit_RequestID = ''q'', Audit_Decision = ''authentication_allowed'',
      Audit_Action = ''task.read'', Audit_Subject = ''s'', Audit_TenantID = ''t'', Audit_Issuer = '''', Audit_AuthMethod = '''',
      Audit_ResourceID = '''', Audit_Reason = '''', Audit_PreviousHash = '''', Audit_IntegrityHash = ''h''\<rparr>"

definition example_audit :: audit_codec where
  "example_audit =
     \<lparr>AC_marshal = (\<lambda>r. Inr (if Audit_PreviousHash r = '''' then ''{}'' else ''{}'' @ Audit_PreviousHash r)),
      AC_unmarshal = (\<lambda>_. Inr example_record), AC_sha256 = (\<lambda>_. ''h'')\<rparr>"

abbreviation example_sink :: file_audit_sink where
  "example_sink \<equiv> \<lparr>Sink_Open = True, Sink_Sequence = 0, Sink_Previous = ''''\<rparr>"

lemma example_sink_open: "OpenFileAuditSink example_audit None ''a'' '''' = Inr example_sink"
  by (simp add: OpenFileAuditSink_def loadChainState_def scan_file_def)

lemma example_file_complete: "complete_file ''''"
  by (auto simp: complete_file_def intro!: exI [of _ "[]"])

lemma example_written: "written example_audit example_sink example_record = example_record"
  by (simp add: written_def chained_def auditDigest_def example_audit_def example_record_def)

lemma example_line: "one_line example_audit example_record ''{}''"
proof -
  have "TrimSpace ''{}'' \<noteq> ''''" by code_simp
  then show ?thesis by (simp add: one_line_def example_audit_def example_record_def drop_cr_def newline_def)
qed

lemma example_append:
  "FileAuditSink_Record example_audit faultless example_record example_sink '''' =
     (None, \<lparr>Sink_Open = True, Sink_Sequence = 1, Sink_Previous = ''h''\<rparr>, ''{}'' @ [newline])"
  by (simp add: FileAuditSink_Record_def chained_def auditDigest_def example_audit_def example_record_def write_file_def faultless_def)

theorem audit_file_restarts_witness:
  "OpenFileAuditSink example_audit None ''a'' (''{}'' @ [newline]) = Inr \<lparr>Sink_Open = True, Sink_Sequence = 1, Sink_Previous = ''h''\<rparr>"
proof -
  have r: "record_all example_audit [example_record] example_sink '''' =
      (None, \<lparr>Sink_Open = True, Sink_Sequence = 1, Sink_Previous = ''h''\<rparr>, ''{}'' @ [newline])"
    using example_append by simp
  have d: "run_decodes example_audit [example_record] example_sink ''''"
    using example_line example_written example_append
    by (simp add: one_line_def) (simp add: example_audit_def example_record_def)
  show ?thesis by (rule audit_file_restarts [OF example_file_complete example_sink_open r d])
qed

text \<open>C25. Tampering needs a collision. Two sequences of signed lines of the same length that continue the same chain and lead to
  the same last hash hold the same records, or two of their lines differ and have the same SHA-256 hash. So somebody who
  knows the last hash and the number of records can detect any change, if the encoding determines the previous hash.\<close>

theorem audit_tampering_needs_collision:
  assumes "text_fixes_previous c" "length ls = length ls'"
    and "chain_lines c ls st = Inr (m, h)" "chain_lines c ls' st = Inr (m', h)"
    and "\<forall>l\<in>set ls \<union> set ls'. signed_line c l"
  shows "m = m' \<and> (map (signed_text c) ls = map (signed_text c) ls' \<or>
    (\<exists>x\<in>set ls. \<exists>y\<in>set ls'. signed_text c x \<noteq> signed_text c y \<and> AC_sha256 c (signed_text c x) = AC_sha256 c (signed_text c y)))"
proof -
  have "\<forall>l\<in>set ls. signed_line c l" "\<forall>l\<in>set ls'. signed_line c l" using assms(5) by blast+
  then have "m = m'" using signed_chain_length [OF assms(3)] signed_chain_length [OF assms(4)] assms(2) by simp
  with signed_chain_commits [OF assms] show ?thesis by blast
qed

theorem audit_tampering_needs_collision_witness:
  "map (signed_text example_audit) [''{}''] = map (signed_text example_audit) [''x''] \<or>
   (\<exists>x\<in>{''{}''}. \<exists>y\<in>{''x''}. signed_text example_audit x \<noteq> signed_text example_audit y)"
proof -
  have t: "TrimSpace ''{}'' \<noteq> ''''" "TrimSpace ''x'' \<noteq> ''''" by code_simp+
  have c: "chain_lines example_audit [''{}''] (0, '''') = Inr (1, ''h'')" "chain_lines example_audit [''x''] (0, '''') = Inr (1, ''h'')"
    using t by (simp_all add: chain_line_def example_audit_def example_record_def auditDigest_def)
  have f: "text_fixes_previous example_audit" by (simp add: text_fixes_previous_def example_audit_def)
  have s: "\<forall>l\<in>set [''{}''] \<union> set [''x'']. signed_line example_audit l"
    using t by (simp add: signed_line_def example_audit_def example_record_def)
  show ?thesis using audit_tampering_needs_collision [OF f _ c s] by auto
qed

text \<open>A failed sync ends the chain. A record whose sync fails is reported as an error but stays in the file, and the sink
  uses its sequence number and previous hash again: after the next record the file is refused when it is opened.\<close>

theorem audit_sync_failure_breaks_chain:
  assumes "complete_file disk" "OpenFileAuditSink c None path disk = Inr s"
    and "auditDigest c (chained s r) = Inr h" "h \<noteq> ''''" "one_line c (written c s r) line" "AC_unmarshal c line = Inr (written c s r)"
    and "FileAuditSink_Record c \<lparr>F_Written = None, F_SyncFails = True\<rparr> r s disk = (e, s1, disk1)"
    and "FileAuditSink_Record c faultless r' s1 disk1 = (None, s2, disk2)"
    and "one_line c (written c s r') line'" "AC_unmarshal c line' = Inr (written c s r')" "Audit_IntegrityHash (written c s r') \<noteq> ''''"
  shows "e \<noteq> None \<and> OpenFileAuditSink c None path disk2 = Inl (ErrText ''audit integrity chain is broken'')"
proof -
  have s: "path \<noteq> ''''" "loadChainState c disk = Inr (Sink_Sequence s, Sink_Previous s)" "Sink_Open s"
    using assms(2) by (auto simp: OpenFileAuditSink_def split: if_splits sum.splits prod.splits)
  show ?thesis
    using sync_failure_breaks_chain [OF assms(1) s(2,3) assms(3-11)] s(1) by (simp add: OpenFileAuditSink_def)
qed

theorem audit_sync_failure_breaks_chain_witness:
  "OpenFileAuditSink example_audit None ''a'' (''{}'' @ [newline] @ ''{}'' @ [newline]) =
     Inl (ErrText ''audit integrity chain is broken'')"
proof -
  have h: "auditDigest example_audit (chained example_sink example_record) = Inr ''h''"
    by (simp add: auditDigest_def chained_def example_audit_def example_record_def)
  have u: "AC_unmarshal example_audit ''{}'' = Inr (written example_audit example_sink example_record)"
    unfolding example_written by (simp add: example_audit_def)
  have l: "one_line example_audit (written example_audit example_sink example_record) ''{}''"
    unfolding example_written by (rule example_line)
  have 1: "FileAuditSink_Record example_audit \<lparr>F_Written = None, F_SyncFails = True\<rparr> example_record example_sink '''' =
      (Some (ErrText ''sync''), example_sink, ''{}'' @ [newline])"
    by (simp add: FileAuditSink_Record_def chained_def auditDigest_def example_audit_def example_record_def write_file_def)
  have 2: "FileAuditSink_Record example_audit faultless example_record example_sink (''{}'' @ [newline]) =
      (None, \<lparr>Sink_Open = True, Sink_Sequence = 1, Sink_Previous = ''h''\<rparr>, ''{}'' @ [newline] @ ''{}'' @ [newline])"
    by (simp add: FileAuditSink_Record_def chained_def auditDigest_def example_audit_def example_record_def write_file_def faultless_def)
  have n: "Audit_IntegrityHash (written example_audit example_sink example_record) \<noteq> ''''"
    unfolding example_written by (simp add: example_record_def)
  show ?thesis
    using audit_sync_failure_breaks_chain [OF example_file_complete example_sink_open h _ l u 1 2 l u n] by simp
qed

section \<open>The management interface\<close>






lemma store_inv_other: "env_ok E \<Longrightarrow> store_inv s \<Longrightarrow> store_inv (e_other E t s)"
  using store_steps_keep unfolding env_ok_def by blast

text \<open>C28. Tenants cannot read each other's tasks. When reading a task over the interface succeeds, the answer is the task of that
  identifier in the authenticated principal's tenant, as the store had it, without the hash of its push token; and the
  principal was authorized to read it.\<close>

theorem task_reads_stay_in_tenant:
  assumes "env_ok E" "world_ok E w" "HH_Authenticator h = Some auth" "good_authenticator E auth"
    and "run_state (serve E h ''GET /v1/tasks/{taskID}'' q g) w = ((Some ans, rs, g'), w')" "A_Status ans < 400"
  shows "\<exists>p w1 t s authz tick. run_state (auth q) (w\<lparr>w_tick := Suc (Suc (w_tick w))\<rparr>) = (Inr p, w1) \<and>
    HH_Authorizer h = Some authz \<and>
    authz tick p \<lparr>Request_Action = ''task.read'', Request_ResourceID = resource_of q\<rparr> = None \<and>
    GetTask (Principal_TenantID p) (Q_PathValue q ''taskID'') s = Inr t \<and> store_inv s \<and>
    Task_TenantID t = Principal_TenantID p \<and> Task_ID t = Q_PathValue q ''taskID'' \<and>
    A_Body ans = Body_Task (t\<lparr>Task_PushTokenHash := ''''\<rparr>)"
proof -
  have "run_state (protected E h ''task.read'' (simple (get_task E h)) q g) w = ((Some ans, rs, g'), w')"
    using assms(5) by (simp add: serve_def route_get_task)
  from protected_answered [OF this assms(6,1,2,3,4)]
  obtain p w1 w2 rid ans' rs' authz tick where a: "run_state (auth q) (w\<lparr>w_tick := Suc (Suc (w_tick w))\<rparr>) = (Inr p, w1)"
    "HH_Authorizer h = Some authz" "authz tick p \<lparr>Request_Action = ''task.read'', Request_ResourceID = resource_of q\<rparr> = None"
    "nul_free (Principal_TenantID p)" "store_inv (w_store w2)"
    "run_state (simple (get_task E h) (Some p) rid q g) w2 = ((Some ans', rs', g'), w')" "A_Status ans' = A_Status ans" "A_Body ans' = A_Body ans"
    by blast
  let ?s = "e_other E (w_tick w2) (w_store w2)"
  have "A_Status ans' < 400" using a(7) assms(6) by simp
  from run_get_task [OF a(6) this] obtain t where t: "GetTask (Principal_TenantID p) (Q_PathValue q ''taskID'') ?s = Inr t"
    "A_Body ans = Body_Task (t\<lparr>Task_PushTokenHash := ''''\<rparr>)" using a(8) by auto
  have s: "store_inv ?s" by (rule store_inv_other [OF assms(1) a(5)])
  from GetTask_own [OF s t(1) a(4)] a(1-3) t s show ?thesis by blast
qed

abbreviation example_tasks_world :: world where
  "example_tasks_world \<equiv> \<lparr>w_store = example_mem, w_tick = 0\<rparr>"

lemma example_tasks_world_ok: "world_ok example_env example_tasks_world"
  by (auto simp: world_ok_def example_mem_inv unused_def example_mem_sel example_env_def)

definition example_gate :: gate where
  "example_gate = NewGate"

lemma example_read_task:
  "\<exists>ans rs g' w'. run_state (serve example_env example_handler ''GET /v1/tasks/{taskID}'' example_request example_gate)
     example_tasks_world = ((Some ans, rs, g'), w') \<and> A_Status ans = 200"
proof -
  have s: "ScopeAuthorizer_Authorize DefaultScopeAuthorizer
      (zero_principal\<lparr>Principal_Subject := ''s'', Principal_TenantID := ''t'', Principal_Scopes := [''*'']\<rparr>)
      \<lparr>Request_Action = ''task.read'', Request_ResourceID = ''a''\<rparr> = None"
    by code_simp
  have t: "GetTask ''t'' ''a'' example_mem = Inr ((example_task ''a'')\<lparr>Task_Revision := 1, Task_LastSequence := 1\<rparr>)"
    by (simp add: GetTask_def example_mem_sel)
  have o: "e_other example_env = (\<lambda>_ s. s)" by (simp add: example_env_def)
  show ?thesis using s
    by (simp add: serve_def route_get_task protected_def guarded_def example_handler_def example_request_def Let_def limiter_answer_def
        resource_of_def simple_def get_task_def for_tenant_def requireTenant_def run_state_store_get o t reply_def answer_def
        writeJSON_def with_request_id_def zero_principal_def)
qed

theorem task_reads_stay_in_tenant_witness:
  "\<exists>ans rs g' w' s t. run_state (serve example_env example_handler ''GET /v1/tasks/{taskID}'' example_request example_gate)
     example_tasks_world = ((Some ans, rs, g'), w') \<and> Task_ID t = ''a'' \<and> A_Body ans = Body_Task (t\<lparr>Task_PushTokenHash := ''''\<rparr>)"
proof -
  obtain ans rs g' w' where r: "run_state (serve example_env example_handler ''GET /v1/tasks/{taskID}'' example_request example_gate)
     example_tasks_world = ((Some ans, rs, g'), w')" "A_Status ans = 200" using example_read_task by blast
  obtain auth where auth: "HH_Authenticator example_handler = Some auth" by (simp add: example_handler_def)
  have "Q_PathValue example_request ''taskID'' = ''a''" by (simp add: example_request_def)
  with task_reads_stay_in_tenant [OF example_env_ok example_tasks_world_ok auth example_authenticator_good [OF auth] r(1)] r
  show ?thesis by auto
qed

text \<open>C29. The event stream has no gaps. What a client gets from the event route of its task, however the log grows meanwhile and
  wherever the stream is cut off, is an initial part of the events after the client's cursor, in order, each once: a
  client that reconnects with the last identifier it got misses nothing.\<close>

theorem stream_has_no_gaps:
  assumes "env_ok E" "world_ok E w" "run_state (get_events E h (Some p) q) w = (Some ans, w')" "A_Body ans = Body_Stream chunks"
    and "length (events (w_store w') (resourceKey (Principal_TenantID p) (Q_PathValue q ''taskID''))) < 2 ^ 64"
  shows "\<exists>after n. parse_cursor (if Q_Query q ''after'' = '''' then Q_Header q ''Last-Event-ID'' else Q_Query q ''after'') = Some after \<and>
    chunks = map (sse_chunk (H_Lib (HH_Hub h)))
      (take n (drop (unat after) (events (w_store w') (resourceKey (Principal_TenantID p) (Q_PathValue q ''taskID'')))))"
  by (rule get_events_prefix [OF assms])

theorem stream_has_no_gaps_witness:
  "\<exists>chunks n w'. run_state (get_events example_env example_handler (Some (zero_principal\<lparr>Principal_TenantID := ''t''\<rparr>)) example_request)
      example_tasks_world = (Some \<lparr>A_Status = 200, A_Headers = [(''Content-Type'', ''text/event-stream''), (''Cache-Control'', ''no-cache'')],
        A_Body = Body_Stream chunks\<rparr>, w') \<and>
     chunks = map (sse_chunk (H_Lib (HH_Hub example_handler))) (take n (events (w_store w') (resourceKey ''t'' ''a'')))"
proof -
  let ?p = "zero_principal\<lparr>Principal_TenantID := ''t''\<rparr>"
  have o: "e_other example_env = (\<lambda>_ s. s)" by (simp add: example_env_def)
  have c: "contains ''text/event-stream'' ''text/event-stream''" by code_simp
  have ev: "length (events example_mem (resourceKey ''t'' ''a'')) = 1"
    by (simp add: example_mem_def CreateTask_def Let_def empty_store_def commit_def append_record_def example_task_def zero_task_def
        zero_event_def apply_task_def put_outbox_def)
  have e: "\<exists>es. EventsAfter ''t'' ''a'' 0 example_mem = Inr es" by (auto simp: EventsAfter_def Let_def example_mem_sel)
  have "\<exists>chunks w'. run_state (get_events example_env example_handler (Some ?p) example_request) example_tasks_world =
      (Some \<lparr>A_Status = 200, A_Headers = [(''Content-Type'', ''text/event-stream''), (''Cache-Control'', ''no-cache'')],
        A_Body = Body_Stream chunks\<rparr>, w') \<and> w_store w' = example_mem"
    using e by (auto simp: get_events_def for_tenant_def requireTenant_def zero_principal_def example_request_def parse_cursor_def
        run_state_store_get o c example_handler_def numeral_2_eq_2 answer_def Let_def simp del: contains.simps)
  then obtain chunks w' where r: "run_state (get_events example_env example_handler (Some ?p) example_request) example_tasks_world =
      (Some \<lparr>A_Status = 200, A_Headers = [(''Content-Type'', ''text/event-stream''), (''Cache-Control'', ''no-cache'')],
        A_Body = Body_Stream chunks\<rparr>, w')" "w_store w' = example_mem" by blast
  have k: "Principal_TenantID ?p = ''t''" "Q_PathValue example_request ''taskID'' = ''a''" "Q_Query example_request ''after'' = ''''"
    "Q_Header example_request ''Last-Event-ID'' = ''''"
    by (simp_all add: example_request_def)
  from stream_has_no_gaps [OF example_env_ok example_tasks_world_ok r(1), of chunks] ev r show ?thesis
    by (auto simp: k parse_cursor_def)
qed

section \<open>Outgoing connections\<close>

text \<open>C30. Where the hub connects to. A dialer whose policy does not allow private addresses tries only public addresses, all of
  them among those that its host resolved to, and it has a connection only to a host that passed the check of URLs.\<close>

theorem connections_are_public:
  assumes "restrictedDialContext L P lookup dial address = (tried, r)" "\<not> NP_AllowPrivate P"
  shows "(\<forall>a\<in>set tried. PublicAddress a) \<and>
    (\<forall>c. r = Inr c \<longrightarrow> (\<exists>host port u as a. NL_split_host_port L address = Inr (host, port) \<and>
       ValidateURL L P (''https://'' @ JoinHostPort host port) = Inr u \<and> lookup host = Inr as \<and> a \<in> set as \<and> PublicAddress a \<and>
       dial (JoinHostPort (NL_addr_string L a) port) = Inr c))"
  using dials_public [OF assms(1)] assms(2) by blast

definition example_url :: net_url where
  "example_url =
     \<lparr>U_Scheme = ''https'', U_Host = ''h'', U_Hostname = ''h'', U_HasUser = False, U_Fragment = '''', U_String = ''u'', U_Clean = ''u'',
      N_Port = '''', N_Path = ''/p'', N_RawQuery = ''''\<rparr>"

definition example_net :: net_lib where
  "example_net =
     \<lparr>NL_parse = (\<lambda>_. Inr example_url), NL_parse_addr = (\<lambda>_. Inl (ErrText ''no address'')), NL_addr_string = (\<lambda>_. ''a''),
      NL_split_host_port = (\<lambda>_. Inr (''h'', ''443''))\<rparr>"

lemma example_url_valid: "ValidateURL example_net HTTPSOnlyPolicy raw = Inr example_url"
proof -
  have "ToLower (trim_suffix ''h'' ''.'') = ''h''" "reserved_host ''h'' = False" by code_simp+
  then show ?thesis
    by (simp add: ValidateURL_def example_net_def example_url_def HTTPSOnlyPolicy_def port_allowed_def Let_def)
qed

lemma example_net_split: "NL_split_host_port example_net address = Inr (''h'', ''443'')"
  by (simp add: example_net_def)

theorem connections_are_public_witness:
  "restrictedDialContext example_net HTTPSOnlyPolicy (\<lambda>_. Inr [Addr4 (quad 93 184 216 34)]) (\<lambda>_. Inr ()) ''h:443'' =
     ([Addr4 (quad 93 184 216 34)], Inr ()) \<and> PublicAddress (Addr4 (quad 93 184 216 34))"
proof -
  have p: "PublicAddress (Addr4 (quad 93 184 216 34))"
    unfolding public4 special4_def by (simp add: word_le_nat_alt unat_quad)
  have d: "restrictedDialContext example_net HTTPSOnlyPolicy (\<lambda>_. Inr [Addr4 (quad 93 184 216 34)]) (\<lambda>_. Inr ()) ''h:443'' =
      ([Addr4 (quad 93 184 216 34)], Inr ())"
    using p by (simp add: restrictedDialContext_def example_url_valid example_net_split del: Unmap.simps)
  from connections_are_public [OF d] d show ?thesis by (simp add: HTTPSOnlyPolicy_def)
qed

text \<open>C31. Redirects. A request through the client always ends, with at most one request more than the policy's limit of redirects
  (3 unless it sets one); every request after the first, and the first one too where the transport checks it, is for a
  URL that the policy accepts: HTTPS or allowed HTTP, without user information, and with an allowed port.\<close>

theorem redirects_are_bounded_and_checked:
  assumes "redirect_limit P < fuel"
  shows "\<exists>requests result. client_do L P checked send fuel 0 target = Some (requests, result) \<and>
    length requests \<le> Suc (redirect_limit P) \<and>
    (\<forall>x\<in>set (if checked then requests else tl requests). \<exists>u. ValidateURL L P x = Inr u \<and> NL_parse L x = Inr u \<and>
       (U_Scheme u = ''https'' \<or> NP_AllowHTTP P \<and> U_Scheme u = ''http'') \<and> \<not> U_HasUser u \<and>
       port_allowed P (if N_Port u = '''' then ''443'' else N_Port u))"
proof -
  obtain requests result where r: "client_do L P checked send fuel 0 target = Some (requests, result)"
    using client_do_returns [of fuel P 0 L checked send target] assms by auto
  have "\<exists>u. ValidateURL L P x = Inr u \<and> NL_parse L x = Inr u \<and> (U_Scheme u = ''https'' \<or> NP_AllowHTTP P \<and> U_Scheme u = ''http'') \<and>
      \<not> U_HasUser u \<and> port_allowed P (if N_Port u = '''' then ''443'' else N_Port u)"
    if x: "x \<in> set (if checked then requests else tl requests)" for x
  proof -
    obtain u where u: "ValidateURL L P x = Inr u" using client_do_requests(1) [OF r] x by blast
    from u ValidateURL_accepts(1,2,4,5) [OF u] show ?thesis by blast
  qed
  with client_do_requests(2) [OF r] r show ?thesis by auto
qed

theorem redirects_are_bounded_and_checked_witness:
  "\<exists>requests result. client_do example_net HTTPSOnlyPolicy True (\<lambda>n _. Inr (if n < 9 then Redirected ''l'' () else Final ())) 4 0 ''u'' =
     Some (requests, result) \<and> length requests \<le> 4"
proof -
  have "redirect_limit HTTPSOnlyPolicy = 3" by (simp add: redirect_limit_def HTTPSOnlyPolicy_def)
  then show ?thesis
    using redirects_are_bounded_and_checked [of HTTPSOnlyPolicy 4 example_net True
        "\<lambda>n _. Inr (if n < 9 then Redirected ''l'' () else Final ())" "''u''"] by auto
qed

text \<open>Public addresses. An IPv4 address is public exactly if it is outside the listed special ranges; an IPv6 address that
  maps an IPv4 address is public if that one is; any other is public exactly if it is not the loopback address and has no unique-local,
  link-local or multicast prefix, and, when it has no zone, is neither unspecified nor in the documentation prefix.\<close>

theorem public_addresses_are_exact:
  "(PublicAddress (Addr4 a) \<longleftrightarrow> \<not> list_ex (\<lambda>(lo, hi). lo \<le> a \<and> a \<le> hi) special4) \<and>
   (PublicAddress (Addr6 b zone) \<longleftrightarrow>
      (if drop_bit 32 b = 0xFFFF then PublicAddress (Addr4 (ucast b))
       else \<not> (b = 1 \<or> in_prefix6 (high6 0xFC000000) 7 b \<or> in_prefix6 (high6 0xFE800000) 10 b \<or> in_prefix6 (high6 0xFF000000) 8 b \<or>
               zone = '''' \<and> (b = 0 \<or> in_prefix6 (high6 0x20010DB8) 32 b)))) \<and>
   \<not> PublicAddress Addr_None"
  using public4 [of a] public6 [of b zone] by (simp add: list_ex_iff Ball_def PublicAddress_def)

section \<open>Distributed trust\<close>

text \<open>C32. Trust never rolls back. A manager of a signed bundle file starts with a snapshot and replaces it only by snapshots of
  larger and larger generations, whatever the files hold at each tick; each of them was decoded from bytes that the configured
  key had signed, and the current snapshot is the last of them and is valid.\<close>

theorem trust_never_rolls_back:
  assumes "NewSignedTrustBundleManager B i path signaturePath keyPath = Inr m" "0 < interval" "Watch B interval ticks m = (reports, m')"
  shows "\<exists>key b0. TM_Verifier m = Some (Some key) \<and> TM_Current m = Some b0 \<and>
    sorted_wrt (<) (map TB_Generation (b0 # installed B ticks m)) \<and>
    TM_Current m' = Some (List.last (b0 # installed B ticks m)) \<and> manager_ok B m' \<and>
    (\<forall>b\<in>set (b0 # installed B ticks m). \<exists>t\<in>set (i # ticks). \<exists>encoded signature.
       BI_Files t (TrimSpace path) = Inr encoded \<and> BI_Files t (TrimSpace signaturePath) = Inr signature \<and>
       Verify (BL_Keys B) (Some key) encoded signature = None \<and> BL_Decode B encoded = Inr (b, True))"
proof -
  obtain key b0 where m: "TM_Verifier m = Some (Some key)" "TM_Current m = Some b0" "TM_Generation m = TB_Generation b0" "manager_ok B m"
    "\<not> TM_HasSource m" "TM_Path m = TrimSpace path" "TM_Signature m = TrimSpace signaturePath"
    "\<exists>encoded. verified_bytes B m i = Inr encoded \<and> BL_Decode B encoded = Inr (b0, True)"
    using signed_manager [OF assms(1)] by blast
  have w: "watch_ticks B ticks m = (reports, m')" using assms(2,3) by (simp add: Watch_def)
  note inc = installed_increasing [OF m(4) w]
  have src: "\<exists>encoded signature. BI_Files t (TrimSpace path) = Inr encoded \<and> BI_Files t (TrimSpace signaturePath) = Inr signature \<and>
      Verify (BL_Keys B) (Some key) encoded signature = None \<and> BL_Decode B encoded = Inr (b, True)"
    if verified: "\<exists>encoded. verified_bytes B m t = Inr encoded \<and> BL_Decode B encoded = Inr (b, True)" for t b
  proof -
    obtain encoded where e: "verified_bytes B m t = Inr encoded" "BL_Decode B encoded = Inr (b, True)" using verified by blast
    from verified_from_files [OF e(1) m(5,1)] e(2) show ?thesis unfolding m(6,7) by blast
  qed
  have from_tick: "\<exists>t\<in>set (i # ticks). \<exists>encoded. verified_bytes B m t = Inr encoded \<and> BL_Decode B encoded = Inr (b, True)"
    if "b \<in> set (b0 # installed B ticks m)" for b
  proof (cases "b = b0")
    case False
    with that installed_verified [of b B ticks m] show ?thesis by auto
  qed (use m(8) in simp)
  have "\<exists>t\<in>set (i # ticks). \<exists>encoded signature. BI_Files t (TrimSpace path) = Inr encoded \<and>
      BI_Files t (TrimSpace signaturePath) = Inr signature \<and> Verify (BL_Keys B) (Some key) encoded signature = None \<and>
      BL_Decode B encoded = Inr (b, True)" if b: "b \<in> set (b0 # installed B ticks m)" for b
    using from_tick [OF b] src by blast
  moreover have "TM_Current m' = Some (List.last (b0 # installed B ticks m))" using inc m(2) by simp
  ultimately show ?thesis using m(1-3) inc by auto
qed

definition example_keys :: "unit key_lib" where
  "example_keys =
     \<lparr>KL_rsa_pem = (\<lambda>_. Inr (RSA_Key ())), KL_ec_pem = (\<lambda>_. Inl ErrPolicy), KL_ed_pem = (\<lambda>_. Inl ErrPolicy), KL_pem_block = (\<lambda>s. Some s),
      KL_parse_pkix = (\<lambda>_. Inr (Ed25519_Key ())), KL_raw_url_base64 = (\<lambda>s. Inr s), KL_std_base64 = (\<lambda>s. Inr s), KL_sha256 = (\<lambda>s. s),
      KL_ed25519 = (\<lambda>_ payload signature. signature = ''ok''), KL_rsa_pkcs1 = (\<lambda>_ _ _. False), KL_ecdsa_asn1 = (\<lambda>_ _ _. False)\<rparr>"

definition example_bundle :: "uint64 \<Rightarrow> trust_bundle" where
  "example_bundle g =
     \<lparr>TB_Version = 1, TB_Generation = g, TB_NotBefore = 1, TB_ExpiresAt = 9,
      TB_Issuers = [(''i'', \<lparr>ITP_Tenants = [''t''], ITP_RequiredScopes = []\<rparr>)],
      TB_Workloads = [(''w'', \<lparr>WP_Subject = ''s'', WP_TenantID = ''t'', WP_Issuer = ''i'', WP_Scopes = [], WP_Roles = [], WP_Delegation = []\<rparr>)],
      TB_CardKeys = [(''k'', ''pem'')], TB_CardKeyPolicies = []\<rparr>"

definition example_bundles :: "unit bundle_lib" where
  "example_bundles =
     \<lparr>BL_Net = example_net\<lparr>NL_parse := (\<lambda>_. Inr (example_url\<lparr>U_Scheme := ''spiffe''\<rparr>))\<rparr>, BL_Keys = example_keys,
      BL_Decode = (\<lambda>encoded. Inr (example_bundle (of_nat (length encoded)), True))\<rparr>"

definition example_files :: "string \<Rightarrow> bundle_inputs" where
  "example_files encoded = \<lparr>BI_Files = (\<lambda>path. Inr (if path = ''b'' then encoded else ''ok'')), BI_Fetch = Inl ErrPolicy\<rparr>"

lemma example_texts:
  "blank ''i'' = False" "blank ''s'' = False" "blank ''t'' = False" "blank ''k'' = False" "blank ''b'' = False"
  "TrimSpace ''ok'' = ''ok''" "TrimSpace ''b'' = ''b''" "TrimSpace ''s'' = ''s''" "TrimSpace ''t'' = ''t''"
  by code_simp+

lemma example_bundle_valid: "g \<noteq> 0 \<Longrightarrow> TrustBundle_Validate (BL_Net example_bundles) example_keys (example_bundle g) = None"
  by (simp add: TrustBundle_Validate_def example_bundle_def example_bundles_def example_keys_def example_net_def example_url_def
      validateTrustIssuer_def validateSPIFFEIdentity_def TenantTrust_Validate_def check_workload_def workload_trust_issuer_def
      validateUniqueStrings_def ParsePublicKeyPEM_def zero_time_def example_texts)

lemma example_reload:
  assumes "TM_Path m = ''b''" "TM_Signature m = ''s''" "\<not> TM_HasSource m" "TM_Verifier m = Some (Some (Ed25519_Key ()))"
    and "length encoded = n" "of_nat n \<noteq> (0::uint64)" "n \<le> 2 ^ 20"
  shows "Reload example_bundles (example_files encoded) m =
    (if TM_Digest m = Some encoded then (Inr False, m)
     else if TM_Generation m \<noteq> 0 \<and> of_nat n \<le> TM_Generation m then (Inl (ErrText ''trust bundle generation is not newer''), m)
     else (Inr True, m\<lparr>TM_Current := Some (example_bundle (of_nat n)), TM_Generation := of_nat n, TM_Digest := Some encoded\<rparr>))"
proof -
  have "Verify example_keys (Some (Ed25519_Key ())) encoded ''ok'' = None"
    by (simp add: Verify_def example_keys_def example_texts)
  then have "verified_bytes example_bundles m (example_files encoded) = Inr encoded"
    using assms by (simp add: verified_bytes_def signature_check_def example_files_def example_bundles_def)
  moreover have "decodeTrustBundle (BL_Net example_bundles) example_keys (BL_Decode example_bundles) encoded = Inr (example_bundle (of_nat n))"
    using example_bundle_valid [OF assms(6)] assms(5) by (simp add: decodeTrustBundle_def) (simp add: example_bundles_def)
  moreover have "BL_Keys example_bundles = example_keys" "KL_sha256 example_keys encoded = encoded" "TB_Generation (example_bundle g) = g" for g
    by (simp_all add: example_bundles_def example_keys_def example_bundle_def)
  ultimately show ?thesis using assms(1,3) by (simp add: Reload_def)
qed

theorem trust_never_rolls_back_witness:
  "\<exists>m m' (b0::trust_bundle). NewSignedTrustBundleManager example_bundles (example_files ''xx'') ''b'' ''s'' ''k'' = Inr m \<and>
     Watch example_bundles 1 [example_files ''x'', example_files ''xxx''] m = ([ErrText ''trust bundle generation is not newer''], m') \<and>
     TM_Current m' = Some (example_bundle 3) \<and> sorted_wrt (<) [TB_Generation b0, 3]"
proof -
  let ?e = "empty_manager ''b'' ''s'' False (Some (Some (Ed25519_Key ())))"
  let ?m = "?e\<lparr>TM_Current := Some (example_bundle 2), TM_Generation := 2, TM_Digest := Some ''xx''\<rparr>"
  have m: "NewSignedTrustBundleManager example_bundles (example_files ''xx'') ''b'' ''s'' ''k'' = Inr ?m"
    using example_reload [of ?e "''xx''" 2]
    by (simp add: NewSignedTrustBundleManager_def loadTrustBundleSignature_def loadTrustBundlePublicKey_def NewTrustBundleSignatureVerifier_def
        new_manager_def reload_new_def example_texts empty_manager_def example_bundles_def example_keys_def example_files_def)
  obtain m' where w: "Watch example_bundles 1 [example_files ''x'', example_files ''xxx''] ?m = ([ErrText ''trust bundle generation is not newer''], m')"
    "TM_Current m' = Some (example_bundle 3)" "installed example_bundles [example_files ''x'', example_files ''xxx''] ?m = [example_bundle 3]"
    using example_reload [of ?m "''x''" 1] example_reload [of ?m "''xxx''" 3] by (simp add: Watch_def empty_manager_def)
  obtain b0 where "sorted_wrt (<) (map TB_Generation (b0 # [example_bundle 3]))"
    using trust_never_rolls_back [OF m _ w(1)] unfolding w(3) by auto
  then have "sorted_wrt (<) [TB_Generation b0, 3]" by (simp add: example_bundle_def)
  with m w(1,2) show ?thesis by (intro exI conjI)
qed

text \<open>C33. Decisions from a snapshot. A workload is resolved, a card key is handed out and a principal is accepted only while the
  snapshot is active. The principal of a workload has a tenant that the snapshot trusts for its issuer; the key is listed and,
  where it has a policy, neither revoked nor outside its period; and a principal is accepted exactly if its issuer is listed
  with its tenant and it has the required scopes.\<close>

theorem trust_decisions_need_active_bundle:
  "(\<forall>p. ResolveWorkload B m now i = Inr p \<longrightarrow> (\<exists>b trusted. Snapshot m = Some b \<and> TB_NotBefore b \<le> now \<and> now < TB_ExpiresAt b \<and>
      \<not> blank (Principal_Subject p) \<and> \<not> blank (Principal_TenantID p) \<and>
      map_of (TB_Issuers b) (Principal_Issuer p) = Some trusted \<and> Principal_TenantID p \<in> set (ITP_Tenants trusted))) \<and>
   (\<forall>key. ResolveCardKey B m now now' kid = Inr key \<longrightarrow> (\<exists>b encoded. Snapshot m = Some b \<and> TB_NotBefore b \<le> now \<and> now < TB_ExpiresAt b \<and>
      map_of (TB_CardKeys b) (TrimSpace kid) = Some encoded \<and> ParsePublicKeyPEM (BL_Keys B) encoded = Inr key \<and>
      (\<forall>policy. map_of (TB_CardKeyPolicies b) (TrimSpace kid) = Some policy \<longrightarrow>
         \<not> CK_Revoked policy \<and> CK_NotBefore policy \<le> now' \<and> now' < CK_ExpiresAt policy))) \<and>
   (Manager_ValidatePrincipal B m now p = None \<longleftrightarrow> (\<exists>b profile. Snapshot m = Some b \<and>
      TrustBundle_Validate (BL_Net B) (BL_Keys B) b = None \<and> TB_NotBefore b \<le> now \<and> now < TB_ExpiresAt b \<and>
      map_of (TB_Issuers b) (Principal_Issuer p) = Some profile \<and> Principal_TenantID p \<in> set (ITP_Tenants profile) \<and>
      (\<forall>scope\<in>set (ITP_RequiredScopes profile). HasScope p scope)))"
  using resolved_workload_trusted [of B m now i] card_key_active [of B m now now' kid] manager_validates [of B m now p] by simp

definition example_manager :: "unit bundle_manager" where
  "example_manager = (empty_manager ''b'' ''s'' False None)\<lparr>TM_Current := Some (example_bundle 2), TM_Generation := 2\<rparr>"

lemma example_snapshot:
  "Snapshot (Some example_manager) = Some (example_bundle 2)" "BL_Keys example_bundles = example_keys"
  "ValidateAt (BL_Net example_bundles) example_keys (example_bundle 2) 5 = None"
proof -
  show "ValidateAt (BL_Net example_bundles) example_keys (example_bundle 2) 5 = None"
    using example_bundle_valid [of 2] by (simp add: ValidateAt_None) (simp add: example_bundle_def)
qed (simp_all add: Snapshot_def example_manager_def example_bundles_def)

lemma example_card_key: "ResolveCardKey example_bundles (Some example_manager) 5 5 ''k'' = Inr (RSA_Key ())"
proof -
  have "TrimSpace ''k'' = ''k''" by code_simp
  then show ?thesis
    using example_snapshot(3)
    by (simp add: ResolveCardKey_def example_snapshot) (simp add: example_bundle_def ParsePublicKeyPEM_def example_keys_def example_bundles_def)
qed

theorem trust_decisions_need_active_bundle_witness:
  "\<exists>p. ResolveWorkload example_bundles (Some example_manager) 5 ''w'' = Inr p \<and> \<not> blank (Principal_TenantID p) \<and>
     ResolveCardKey example_bundles (Some example_manager) 5 5 ''k'' = Inr (RSA_Key ()) \<and>
     Manager_ValidatePrincipal example_bundles (Some example_manager) 5 p = None"
proof -
  note s = example_snapshot(1,2) and v = example_snapshot(3)
  obtain p where p: "ResolveWorkload example_bundles (Some example_manager) 5 ''w'' = Inr p" "Principal_Issuer p = ''i''" "Principal_TenantID p = ''t''"
    using v by (simp add: ResolveWorkload_def s) (simp add: example_bundle_def workload_trust_issuer_def)

  have "Manager_ValidatePrincipal example_bundles (Some example_manager) 5 p = None"
    using v p(2,3) by (simp add: Manager_ValidatePrincipal_def s) (simp add: example_bundle_def)
  with p(1) example_card_key trust_decisions_need_active_bundle [of example_bundles "Some example_manager" 5 "''w''" 5 "''k''" p] show ?thesis by blast
qed

section \<open>Files at rest\<close>




text \<open>C35. Encrypted objects. An object that was put through the encrypting store into the file store opens again under the same tenant
  and key, with its bytes and its size, also after the key ring was extended and its current key replaced, unless its
  envelope is longer than 128 MiB and a byte: then it is stored, but refused as invalid for ever.\<close>

theorem sealed_objects_reopen:
  assumes "Encrypted_Put A (ring_provider current keys) (FileStore_Put io) tenant (Inr n) key source sz media d = (None, d')"
    and "aead_ok A" "keys \<subseteq>\<^sub>m keys'" "length n = nonce_size"
  shows "sz = int (length (Src_Bytes source)) \<and>
    (if sz + int (length current) + 36 \<le> max_object + 1
     then \<exists>t. Encrypted_Open A (ring_provider current' keys') (FileStore_Open None) tenant key d' =
            Inr (Src_Bytes source, \<lparr>Info_SizeBytes = sz, Info_MediaType = t\<rparr>)
     else Encrypted_Open A (ring_provider current' keys') (FileStore_Open None) tenant key d' =
            Inl (ErrText ''artifact encryption envelope is invalid''))"
proof -
  obtain i k where k: "KP_Current (ring_provider current keys) tenant = Inr (i, k)" "sz = int (length (Src_Bytes source))"
    using encrypted_put_steps [OF assms(1)] by blast
  have i: "j = current" if "KP_Current (ring_provider current keys) tenant = Inr (j, h)" for j h
    using that by (auto simp: ring_provider_def KeyRing_Current_def split: option.splits if_splits)
  show ?thesis
    using k(2) fs.encrypted_reopens [OF assms(1,2) ring_keeps [OF assms(3)] assms(4)] i
      fs.encrypted_too_large [OF assms(1,2,4) k(1)] i [OF k(1)] by auto
qed

definition example_aead :: aead_lib where
  "example_aead = \<lparr>AE_seal = (\<lambda>_ _ p _. p @ replicate 16 (CHR ''0'')), AE_open = (\<lambda>_ _ c _. Inr (take (length c - 16) c))\<rparr>"

lemma example_aead_ok: "aead_ok example_aead"
  by (simp add: aead_ok_def example_aead_def)

definition example_ring :: "string \<rightharpoonup> string" where
  "example_ring = [''k'' \<mapsto> replicate 16 (CHR ''x'')]"

definition example_object_key :: string where
  "example_object_key = ''ab/'' @ replicate 64 (CHR ''0'')"

theorem sealed_objects_reopen_witness:
  "\<exists>d' t. Encrypted_Put example_aead (ring_provider ''k'' example_ring) (FileStore_Put (\<lambda>_. None)) ''t'' (Inr (replicate 12 (CHR ''n'')))
       example_object_key \<lparr>Src_Bytes = ''hi'', Src_Error = None\<rparr> 2 ''text/plain'' Map.empty = (None, d') \<and>
     Encrypted_Open example_aead (ring_provider ''l'' (example_ring(''l'' \<mapsto> replicate 32 (CHR ''y'')))) (FileStore_Open None) ''t''
       example_object_key d' = Inr (''hi'', \<lparr>Info_SizeBytes = 2, Info_MediaType = t\<rparr>)"
proof -
  have key: "valid_object_key example_object_key" by code_simp
  obtain d' where d: "Encrypted_Put example_aead (ring_provider ''k'' example_ring) (FileStore_Put (\<lambda>_. None)) ''t''
      (Inr (replicate 12 (CHR ''n''))) example_object_key \<lparr>Src_Bytes = ''hi'', Src_Error = None\<rparr> 2 ''text/plain'' Map.empty = (None, d')"
    by (simp add: Encrypted_Put_def seal_object_def ring_provider_def KeyRing_Current_def example_ring_def new_cipher_def aes_key_def
        read_limited_def max_object_def FileStore_Put_def key wrap64_def encode_envelope_def example_aead_def)
  have "example_ring \<subseteq>\<^sub>m example_ring(''l'' \<mapsto> replicate 32 (CHR ''y''))" by (simp add: example_ring_def map_le_def)
  from sealed_objects_reopen [OF d example_aead_ok this, of "''l''"] d show ?thesis
    by (simp add: nonce_size_def max_object_def)
qed

text \<open>C36. The vault on files. An input that was put is read back under its reference from the files as they are then and at any later
  time, as the same JSON, also after the key ring was extended, whatever other processes do before the file is
  linked; and no put changes a file that was there. A reference with two dots, a backslash or a line break is lost: no read finds it.\<close>

theorem vault_returns_inputs:
  assumes "FileInputStore_Put A L (ring_provider current keys) limit io others (Inr n) tenantID workflowID stepID input d = (Inr ref, d')"
    and "aead_ok A" "input_json_ok L input" "keys \<subseteq>\<^sub>m keys'" "length n = nonce_size" "d \<subseteq>\<^sub>m others d" "d' \<subseteq>\<^sub>m later"
  shows "d \<subseteq>\<^sub>m d' \<and>
    (if plain_ref ref
     then \<exists>v. FileInputStore_Get A L (ring_provider current' keys') limit None tenantID ref later = Inr v \<and> IL_marshal L v = IL_marshal L input
     else \<forall>K f. FileInputStore_Get A L K limit f tenantID ref later = Inl ErrNotFound)"
proof (cases "plain_ref ref")
  case True
  obtain v where v: "FileInputStore_Get A L (ring_provider current' keys') limit None tenantID ref d' = Inr v" "IL_marshal L v = IL_marshal L input"
    using stored_input_returns [OF assms(1,2,3) ring_keeps [OF assms(4)] assms(5) True] by blast
  then show ?thesis using get_input_later [OF v(1) assms(7)] put_input_keeps [OF assms(1,6)] True by auto
next
  case False
  have "tenantID \<noteq> ''''" "ref \<noteq> ''''" using put_input_steps [OF assms(1)] by (auto simp: input_ref_def)
  with False show ?thesis using unplain_input_lost put_input_keeps [OF assms(1,6)] by simp
qed

definition example_inputs :: input_lib where
  "example_inputs = \<lparr>IL_marshal = WI_Text, IL_unmarshal = (\<lambda>s. Some \<lparr>WI_Text = s, WI_Parts = []\<rparr>), IL_digest = (\<lambda>s. s)\<rparr>"

theorem vault_returns_inputs_witness:
  "\<exists>d' v. FileInputStore_Put example_aead example_inputs (ring_provider ''k'' example_ring) 0 (\<lambda>_. None) (\<lambda>d. d) (Inr (replicate 12 (CHR ''n'')))
       ''t'' ''w'' ''s'' \<lparr>WI_Text = ''hi'', WI_Parts = []\<rparr> Map.empty = (Inr ''t/w/s'', d') \<and>
     FileInputStore_Get example_aead example_inputs (ring_provider ''k'' example_ring) 0 None ''t'' ''t/w/s'' d' = Inr v \<and> WI_Text v = ''hi''"
proof -
  let ?i = "\<lparr>WI_Text = ''hi'', WI_Parts = []\<rparr>"
  have g: "FileInputStore_Get example_aead example_inputs (ring_provider ''k'' example_ring) 0 None ''t'' ''t/w/s'' Map.empty = Inl ErrNotFound"
    by (simp add: FileInputStore_Get_def)
  have k: "KP_Current (ring_provider ''k'' example_ring) ''t'' = Inr (''k'', replicate 16 (CHR ''x''))"
    by (simp add: ring_provider_def KeyRing_Current_def example_ring_def)
  have j: "IL_marshal example_inputs ?i = ''hi''" by (simp add: example_inputs_def)
  obtain d' where d: "FileInputStore_Put example_aead example_inputs (ring_provider ''k'' example_ring) 0 (\<lambda>_. None) (\<lambda>d. d)
      (Inr (replicate 12 (CHR ''n''))) ''t'' ''w'' ''s'' ?i Map.empty = (Inr ''t/w/s'', d')"
    using g by (simp add: FileInputStore_Put_def WorkflowInput_validate_def maxBytes_def input_ref_def seal_input_def new_cipher_def aes_key_def
        atomicWrite_def k j Let_def)
  have "input_json_ok example_inputs ?i" "plain_ref ''t/w/s''" by (simp_all add: input_json_ok_def example_inputs_def plain_ref_def)
  with vault_returns_inputs [OF d example_aead_ok _ map_le_refl _ map_le_refl map_le_refl, of "''k''"] d show ?thesis
    by (fastforce simp: nonce_size_def example_inputs_def)
qed

section \<open>Remote agents\<close>

text \<open>C37. Signed cards. Where the adapter requires signatures and takes its keys from the trust bundle, a discovered card has a signature
  that verifies under a key of the snapshot, which is active then, for the key's identifier; and a policy of that key does
  not revoke it and covers the time.\<close>

theorem discovered_cards_are_signed:
  assumes "Discover A t cardURL = Inr d" "Ad_Verifier A t = \<lparr>CV_Resolver = Some (bundle_resolver B m now now'), CV_Required = True\<rparr>"
  shows "Desc_CardSignatureVerified d \<and> (\<exists>c signature keyID key b encoded. Ad_Resolve A t cardURL = Inr c \<and> signature \<in> set (Card_Signatures c) \<and>
    trusted_signature (Ad_JWS A) (bundle_resolver B m now now') c signature keyID key \<and>
    Snapshot m = Some b \<and> TB_NotBefore b \<le> now \<and> now < TB_ExpiresAt b \<and>
    map_of (TB_CardKeys b) (TrimSpace keyID) = Some encoded \<and> ParsePublicKeyPEM (BL_Keys B) encoded = Inr key \<and>
    (\<forall>policy. map_of (TB_CardKeyPolicies b) (TrimSpace keyID) = Some policy \<longrightarrow>
       \<not> CK_Revoked policy \<and> CK_NotBefore policy \<le> now' \<and> now' < CK_ExpiresAt policy))"
proof -
  obtain c where c: "Ad_Resolve A t cardURL = Inr c" "CardVerifier_Verify (Ad_JWS A) (Ad_Verifier A t) (Some c) = None"
    "Desc_CardSignatureVerified d = (Card_Signatures c \<noteq> [])"
    using discovered [OF assms(1) [unfolded Discover_def]] by blast
  obtain signature keyID key where s: "signature \<in> set (Card_Signatures c)"
    "trusted_signature (Ad_JWS A) (bundle_resolver B m now now') c signature keyID key"
    using c(2) unfolding verified_card assms(2) by (auto split: if_splits)
  from c(1,3) s bundle_signature [OF s(2)] show ?thesis by (intro conjI) (auto, blast)
qed

definition example_agent_card :: agent_card where
  "example_agent_card =
     \<lparr>Card_Name = ''agent'', Card_Version = ''2'', Card_Interfaces = [\<lparr>If_URL = ''u'', If_Binding = ''JSON_RPC'', If_Version = ''1.0.3''\<rparr>],
      Card_SecuritySchemes = [''oauth''], Card_SecurityRequirements = [[''oauth'']], Card_Skills = [''s''], Card_Extensions = [],
      Card_Streaming = True, Card_PushNotifications = True, Card_Signatures = [\<lparr>JWS_Protected = ''p'', JWS_Signature = ''s''\<rparr>]\<rparr>"

definition example_jws :: "unit jws_lib" where
  "example_jws =
     key_lib.extend (example_keys\<lparr>KL_rsa_pkcs1 := (\<lambda>_ _ _. True)\<rparr>)
       \<lparr>JL_card_json = (\<lambda>_. Inr ''card''), JL_header_json = (\<lambda>_. ''h''),
        JL_parse_header = (\<lambda>_. Some [(''alg'', JStr ''RS256''), (''kid'', JStr ''k'')]), JL_base64 = (\<lambda>s. s), JL_is_p256 = (\<lambda>_. True),
        JL_ecdsa = (\<lambda>_ _ _ _. False)\<rparr>"

definition example_a2a :: a2a_lib where
  "example_a2a = \<lparr>AL_is = (\<lambda>_ _. False), AL_err = (\<lambda>_. ErrText ''a2a''), AL_reason = (\<lambda>_. ''''), AL_text = (\<lambda>_. ''''), AL_any = (\<lambda>d. d)\<rparr>"

definition example_adapter :: "unit adapter" where
  "example_adapter =
     \<lparr>Ad_Profiles = [\<lparr>Prof_ProtocolVersion = ''1.0'', Prof_Binding = ''JSONRPC'', Prof_StreamTransport = ''SSE''\<rparr>],
      Ad_Verifier = (\<lambda>_. \<lparr>CV_Resolver = Some (bundle_resolver example_bundles (Some example_manager) 5 5), CV_Required = True\<rparr>),
      Ad_Secrets = Some (\<lambda>_ reference. Inr (''secret of '' @ reference)), Ad_Extensions = \<lparr>XP_Handlers = Map.empty, XP_RequireHandler = False\<rparr>,
      Ad_JWS = example_jws, Ad_Lib = example_a2a, Ad_Go = example_lib, Ad_SDK = example_sdk, Ad_Digest = (\<lambda>_. ''d''), Ad_Resolve = (\<lambda>_ _. Inr example_agent_card),
      Ad_Clone = Inr, Ad_Order = (\<lambda>env. if env ''oauth'' = None then [] else [''oauth''])\<rparr>"

lemma example_adapter_fields:
  "Ad_Resolve example_adapter t url = Inr example_agent_card" "Ad_Clone example_adapter c = Inr c" "Ad_SDK example_adapter = example_sdk"
  "Ad_Verifier example_adapter t =
     \<lparr>CV_Resolver = Some (bundle_resolver example_bundles (Some example_manager) 5 5), CV_Required = True\<rparr>"
  "Ad_Profiles example_adapter = [\<lparr>Prof_ProtocolVersion = ''1.0'', Prof_Binding = ''JSONRPC'', Prof_StreamTransport = ''SSE''\<rparr>]"
  "Ad_JWS example_adapter = example_jws"
  by (simp_all add: example_adapter_def)

lemma example_card_verified: "verifyCard example_adapter t example_agent_card = None"
proof -
  have k: "ResolveCardKey example_bundles (Some example_manager) 5 5 ''k'' = Inr (RSA_Key ())"
    using example_card_key by simp
  have none: "EqualFold ''RS256'' ''none'' = False" by code_simp
  have "trusted_signature example_jws (bundle_resolver example_bundles (Some example_manager) 5 5) example_agent_card
      \<lparr>JWS_Protected = ''p'', JWS_Signature = ''s''\<rparr> ''k'' (RSA_Key ())"
    unfolding trusted_signature_def
    by (rule exI [of _ "[(''alg'', JStr ''RS256''), (''kid'', JStr ''k'')]"])
      (simp add: k bundle_resolver_def decodeProtectedHeader_def example_jws_def key_lib.defs example_keys_def text_member_def verifyJWS_def none Let_def)
  then have "CardVerifier_Verify example_jws \<lparr>CV_Resolver = Some (bundle_resolver example_bundles (Some example_manager) 5 5), CV_Required = True\<rparr>
      (Some example_agent_card) = None"
    unfolding verified_card by (auto simp: example_agent_card_def)
  then show ?thesis by (simp add: verifyCard_def example_adapter_fields)
qed

lemma example_interface:
  "select_interface example_sdk (Card_Interfaces example_agent_card)
     [\<lparr>Prof_ProtocolVersion = ''1.0'', Prof_Binding = ''JSONRPC'', Prof_StreamTransport = ''SSE''\<rparr>] =
     Inr (0, \<lparr>Prof_ProtocolVersion = ''1.0'', Prof_Binding = ''JSONRPC'', Prof_StreamTransport = ''SSE''\<rparr>)"
  "CanonicalProtocolVersion ''1.0.3'' = Inr ''1.0''" "CanonicalProtocolVersion ''1.0'' = Inr ''1.0''"
  by code_simp+

theorem discovered_cards_are_signed_witness:
  "\<exists>d c. Discover example_adapter 0 ''url'' = Inr d \<and> Desc_CardSignatureVerified d \<and> Ad_Resolve example_adapter 0 ''url'' = Inr c"
proof -
  obtain d where d: "Discover example_adapter 0 ''url'' = Inr d"
    using example_interface example_card_verified
    by (simp add: Discover_def adapter_discover_def example_adapter_fields) (simp add: example_agent_card_def example_interface)
  from discovered_cards_are_signed [OF d example_adapter_fields(4)] d show ?thesis by blast
qed









text \<open>Retried continuations. A request is sent at most as often as allowed, and only once where it names no remote task; each
  further time only after the remote side answered that the task is still being executed. What comes back is the last answer.\<close>

theorem continuation_retries_are_safe:
  assumes "retryContinuation stop woken named busy send maxAttempts initialBackoff maxBackoff = (rs, ws, x)"
  shows "length rs \<le> (if named then nat maxAttempts else 1) \<and> rs = map send [1..<1 + length rs] \<and>
    (\<forall>r\<in>set (butlast rs). \<exists>e. r = Inl e \<and> busy e) \<and> (\<forall>y. x = Inr y \<longrightarrow> rs \<noteq> [] \<and> List.last rs = Inr y)"
  by (rule retries_are_safe [OF assms])

theorem continuation_retries_are_safe_witness:
  "\<exists>rs ws x. retryContinuation (\<lambda>_. None) (\<lambda>_. None) True (\<lambda>e. e = ErrText ''busy'')
     (\<lambda>n. if n < 3 then Inl (ErrText ''busy'') else Inr ()) 20 10 250 = (rs, ws, x) \<and> length rs \<le> 20 \<and> ws = [10, 20] \<and> x = Inr ()"
proof -
  let ?call = "retryContinuation (\<lambda>_. None) (\<lambda>_. None) True (\<lambda>e. e = ErrText ''busy'')
     (\<lambda>n. if n < 3 then Inl (ErrText ''busy'') else Inr ()) 20 10 250"
  have c: "?call = ([Inl (ErrText ''busy''), Inl (ErrText ''busy''), Inr ()], [10, 20], Inr ())" by code_simp
  from continuation_retries_are_safe [OF c] c show ?thesis by simp
qed

section \<open>Keys from OpenID providers\<close>

text \<open>C39. Signing keys. A key that the provider hands out is for the configured issuer, and comes from a key set that was fetched, less
  than the maximal lifetime before the lookup or during it, from the place named by metadata that the issuer's own discovery
  document gave; there it stands under its identifier as a well-formed key that may verify signatures. This holds whatever other
  goroutines refresh in between, and the cache stays as it should be.\<close>

theorem oidc_keys_are_authentic:
  assumes "OIDC_Key L P clock others t issuer keyID c = (Inr key, c')" "cache_ok L P clock c" "mono clock"
    and "\<And>i d. refreshed L P clock t d (others i d)"
  shows "issuer = OP_Issuer P \<and> keyID \<noteq> '''' \<and> cache_ok L P clock c' \<and>
    (\<exists>metadata document ttl v t'. trusted_metadata L P metadata \<and>
       fetchJSON L P (OL_KeySet L) (t' + 3) (MD_JWKSURI metadata) = Inr (document, ttl) \<and> clock t < clock t' + maximum_ttl P \<and>
       v \<in> set document \<and> usable_key v \<and> JWK_KeyID v = keyID \<and> parseJWK L v = Inr key)"
proof -
  obtain t' where k: "issuer = OP_Issuer P" "keyID \<noteq> ''''" "cache_ok L P clock c'" "OC_Keys c' keyID = Some key" "keys_from L P clock t' c'"
    "t \<le> t' \<or> clock t < OC_KeysExpires c'"
    using key_answers [OF assms(1,2,4)] by blast
  have "0 < maximum_ttl P" by (simp add: maximum_ttl_def)
  moreover have "t \<le> t' \<Longrightarrow> clock t \<le> clock t'" using assms(3) by (rule monoD)
  ultimately have "clock t < clock t' + maximum_ttl P \<or> clock t < OC_KeysExpires c'" using k(6) by fastforce
  with key_from [OF k(5,4)] have "\<exists>metadata document ttl v. trusted_metadata L P metadata \<and>
      fetchJSON L P (OL_KeySet L) (t' + 3) (MD_JWKSURI metadata) = Inr (document, ttl) \<and> clock t < clock t' + maximum_ttl P \<and>
      v \<in> set document \<and> usable_key v \<and> JWK_KeyID v = keyID \<and> parseJWK L v = Inr key" by fastforce
  with k(1,2,3) show ?thesis by blast
qed

definition example_metadata :: oidc_metadata where
  "example_metadata =
     \<lparr>MD_Issuer = ''i'', MD_JWKSURI = ''j'', MD_TokenEndpoint = '''', MD_IntrospectionEndpoint = '''', MD_RevocationEndpoint = '''',
      MD_TokenEndpointAuthMethods = []\<rparr>"

definition example_jwk :: json_web_key where
  "example_jwk =
     \<lparr>JWK_KeyType = ''OKP'', JWK_KeyID = ''k'', JWK_Use = ''sig'', JWK_KeyOps = [], JWK_Curve = ''Ed25519'', JWK_N = '''', JWK_E = '''',
      JWK_X = ''x'', JWK_Y = ''''\<rparr>"

definition example_oidc :: oidc_lib where
  "example_oidc =
     \<lparr>OL_Net = example_net, OL_Metadata = (\<lambda>_. Inr (example_metadata, True)), OL_KeySet = (\<lambda>_. Inr ([example_jwk], True)),
      OL_base64 = (\<lambda>_. Inr (replicate 32 (CHR ''x''))), OL_on_curve = (\<lambda>_ _ _. True)\<rparr>"

definition example_provider :: "oidc_provider \<times> oidc_cache" where
  "example_provider =
     NewOIDCKeyProvider (\<lambda>_. True) (\<lambda>_ _ _. Inl (ErrText ''unused'')) ''i''
       (Some (\<lambda>_ _. Inr \<lparr>HR_StatusCode = 200, HR_Body = ''b'', HR_ReadFails = False, OR_CacheControl = ''max-age=600''\<rparr>))"

theorem oidc_keys_are_authentic_witness:
  "\<exists>c'. OIDC_Key example_oidc (fst example_provider) int (\<lambda>_ c. c) 0 ''i'' ''k'' (snd example_provider) =
      (Inr (OIDC_Ed25519 (replicate 32 (CHR ''x''))), c') \<and> cache_ok example_oidc (fst example_provider) int c'"
proof -
  have "\<exists>c'. OIDC_Key example_oidc (fst example_provider) int (\<lambda>_ c. c) 0 ''i'' ''k'' (snd example_provider) =
      (Inr (OIDC_Ed25519 (replicate 32 (CHR ''x''))), c')"
    by (simp add: OIDC_Key_def cached_key_def oidc_refresh_def loadMetadata_def discover_metadata_def fetchJSON_def oidc_exchange_def
        example_provider_def NewOIDCKeyProvider_def example_oidc_def example_url_valid limited_body_def wrap64_def example_metadata_def
        example_jwk_def usable_key_def allowsVerification_def parseJWK_def decodeBase64URL_def Let_def)
  then obtain c' where c: "OIDC_Key example_oidc (fst example_provider) int (\<lambda>_ c. c) 0 ''i'' ''k'' (snd example_provider) =
      (Inr (OIDC_Ed25519 (replicate 32 (CHR ''x''))), c')" by blast
  have ok: "cache_ok example_oidc (fst example_provider) int (snd example_provider)"
    by (rule new_cache_ok) (simp add: example_provider_def prod.collapse [symmetric])
  from oidc_keys_are_authentic [OF c ok] c show ?thesis by (simp add: refreshed_refl mono_def)
qed

section \<open>Configured agents\<close>














end
